(* ===== verification/Prelude.thy ===== *)
theory Prelude
  imports Main "HOL-Library.AList" "HOL-Library.Product_Lexorder"
begin

text \<open>
  What every other theory of the development shares: the types of identifiers and
  instants, computations that may raise, the list form of the SQL statements the
  repositories issue, and the generic lemmas about them.

  A computation of the services is a function from a state to a result and a new state.
  The result is \<open>Inl e\<close> for a raised exception and \<open>Inr x\<close> for a returned value;
  the state part says what was written before the exception was raised, so that a write
  that precedes a \<open>raise\<close> is visible in the model.
\<close>

named_theorems keeps_rules \<open>how relations between pre and post states compose\<close>
named_theorems table_simps \<open>rewrite rules for the list form of SQL statements\<close>

section \<open>Identifiers and instants\<close>

type_synonym uuid = nat

text \<open>An instant is a number of microseconds since the Unix epoch, in UTC.\<close>

type_synonym datetime = int

definition seconds :: "int \<Rightarrow> int" where
  "seconds n = n * 1000000"

definition days :: "int \<Rightarrow> int" where
  "days n = seconds (n * 86400)"

text \<open>The calendar day of an instant, which \<open>strftime("%Y-%m-%d")\<close> prints.\<close>

definition date_of :: "datetime \<Rightarrow> int" where
  "date_of t = t div days 1"

lemma seconds_mono [simp]: "seconds a \<le> seconds b \<longleftrightarrow> a \<le> b"
  by (simp add: seconds_def)

lemma days_mono [simp]: "days a \<le> days b \<longleftrightarrow> a \<le> b"
  by (simp add: days_def)

lemma days_pos: "0 < n \<Longrightarrow> 0 < days n"
  by (simp add: days_def seconds_def)

section \<open>Computations that may raise\<close>

type_synonym ('e, 's, 'a) exec = "'s \<Rightarrow> ('e + 'a) \<times> 's"

definition ret :: "'a \<Rightarrow> ('e, 's, 'a) exec" where
  "ret x = (\<lambda>s. (Inr x, s))"

definition raise :: "'e \<Rightarrow> ('e, 's, 'a) exec" where
  "raise e = (\<lambda>s. (Inl e, s))"

definition bindE :: "('e, 's, 'a) exec \<Rightarrow> ('a \<Rightarrow> ('e, 's, 'b) exec) \<Rightarrow> ('e, 's, 'b) exec" where
  "bindE m f = (\<lambda>s. case m s of (Inl e, t) \<Rightarrow> (Inl e, t) | (Inr x, t) \<Rightarrow> f x t)"

definition getsE :: "('s \<Rightarrow> 'a) \<Rightarrow> ('e, 's, 'a) exec" where
  "getsE f = (\<lambda>s. (Inr (f s), s))"

definition modifyE :: "('s \<Rightarrow> 's) \<Rightarrow> ('e, 's, unit) exec" where
  "modifyE f = (\<lambda>s. (Inr (), f s))"

definition liftE :: "('e + 'a) \<Rightarrow> ('e, 's, 'a) exec" where
  "liftE r = (\<lambda>s. (r, s))"

text \<open>\<open>try: m except: h\<close>, and \<open>try: m finally: h\<close>, where an exception of \<open>h\<close> replaces the outcome of \<open>m\<close>.\<close>

definition catchE :: "('e, 's, 'a) exec \<Rightarrow> ('e \<Rightarrow> ('e, 's, 'a) exec) \<Rightarrow> ('e, 's, 'a) exec" where
  "catchE m h = (\<lambda>s. case m s of (Inl e, t) \<Rightarrow> h e t | (Inr x, t) \<Rightarrow> (Inr x, t))"

definition finallyE :: "('e, 's, 'a) exec \<Rightarrow> ('e, 's, unit) exec \<Rightarrow> ('e, 's, 'a) exec" where
  "finallyE m h = (\<lambda>s. case m s of (r, t) \<Rightarrow> (case h t of (Inl e, u) \<Rightarrow> (Inl e, u) | (Inr _, u) \<Rightarrow> (r, u)))"

lemmas exec_defs = ret_def raise_def bindE_def getsE_def modifyE_def liftE_def
  catchE_def finallyE_def

lemma bindE_ret [simp]: "bindE (ret x) f = f x"
  by (simp add: exec_defs)

lemma bindE_raise [simp]: "bindE (raise e) f = raise e"
  by (simp add: exec_defs)

lemma bindE_assoc: "bindE (bindE m f) g = bindE m (\<lambda>x. bindE (f x) g)"
  by (auto simp: exec_defs fun_eq_iff split: prod.splits sum.splits)

lemma bindE_Inr_iff:
  "bindE m f s = (Inr y, u) \<longleftrightarrow> (\<exists>x t. m s = (Inr x, t) \<and> f x t = (Inr y, u))"
  by (auto simp: bindE_def split: prod.splits sum.splits)

lemma bindE_Inl_iff:
  "bindE m f s = (Inl e, u) \<longleftrightarrow>
     m s = (Inl e, u) \<or> (\<exists>x t. m s = (Inr x, t) \<and> f x t = (Inl e, u))"
  by (auto simp: bindE_def split: prod.splits sum.splits)

lemma bindE_getsE [simp]: "bindE (getsE g) f s = f (g s) s"
  by (simp add: exec_defs)

lemma bindE_modifyE [simp]: "bindE (modifyE g) f s = f () (g s)"
  by (simp add: exec_defs)

lemma bindE_liftE [simp]:
  "bindE (liftE r) f s = (case r of Inl e \<Rightarrow> (Inl e, s) | Inr x \<Rightarrow> f x s)"
  by (simp add: exec_defs split: sum.splits)

lemma run_exec [simp]:
  "ret x s = (Inr x, s)" "raise e s = (Inl e, s)" "getsE g s = (Inr (g s), s)"
  "modifyE h s = (Inr (), h s)" "liftE r s = (r, s)"
  by (simp_all add: exec_defs)

section \<open>Relations every step of a computation keeps\<close>

text \<open>
  \<open>keeps R m\<close>: whatever \<open>m\<close> does, returning or raising, the state after it is
  related by \<open>R\<close> to the state before. For a preorder \<open>R\<close> this composes along the
  structure of \<open>m\<close>, which is how frame conditions, monotonicity and invariants of the
  handlers are proved: one fact per primitive statement, then the rules below.
\<close>

definition keeps :: "('s \<Rightarrow> 's \<Rightarrow> bool) \<Rightarrow> ('e, 's, 'a) exec \<Rightarrow> bool" where
  "keeps R m \<longleftrightarrow> (\<forall>s. R s (snd (m s)))"

lemma keepsI: "(\<And>s. R s (snd (m s))) \<Longrightarrow> keeps R m"
  by (simp add: keeps_def)

lemma keepsD: "keeps R m \<Longrightarrow> R s (snd (m s))"
  by (simp add: keeps_def)

lemma keepsD2: "keeps R m \<Longrightarrow> m s = (r, t) \<Longrightarrow> R s t"
  by (metis keepsD snd_conv)

locale exec_preorder =
  fixes R :: "'s \<Rightarrow> 's \<Rightarrow> bool"
  assumes rel_refl: "R s s"
    and rel_trans: "R s t \<Longrightarrow> R t u \<Longrightarrow> R s u"
begin

lemma keeps_ret [keeps_rules]: "keeps R (ret x)"
  by (rule keepsI) (simp add: rel_refl)

lemma keeps_raise [keeps_rules]: "keeps R (raise e)"
  by (rule keepsI) (simp add: rel_refl)

lemma keeps_gets [keeps_rules]: "keeps R (getsE g)"
  by (rule keepsI) (simp add: rel_refl)

lemma keeps_lift [keeps_rules]: "keeps R (liftE r)"
  by (rule keepsI) (simp add: rel_refl)

lemma keeps_modify: "(\<And>s. R s (g s)) \<Longrightarrow> keeps R (modifyE g)"
  by (rule keepsI) simp

lemma keeps_bind [keeps_rules]:
  assumes "keeps R m" and "\<And>x. keeps R (f x)"
  shows "keeps R (bindE m f)"
proof (rule keepsI)
  fix s
  obtain r t where m: "m s = (r, t)" by fastforce
  with assms(1) have "R s t" by (rule keepsD2)
  then show "R s (snd (bindE m f s))"
    using m assms(2) by (auto simp: bindE_def keeps_def intro: rel_trans split: sum.splits)
qed

lemma keeps_catch [keeps_rules]:
  assumes "keeps R m" and "\<And>e. keeps R (h e)"
  shows "keeps R (catchE m h)"
proof (rule keepsI)
  fix s
  obtain r t where m: "m s = (r, t)" by fastforce
  with assms(1) have "R s t" by (rule keepsD2)
  then show "R s (snd (catchE m h s))"
    using m assms(2) by (auto simp: catchE_def keeps_def intro: rel_trans split: sum.splits)
qed

lemma keeps_finally [keeps_rules]:
  assumes "keeps R m" and "keeps R h"
  shows "keeps R (finallyE m h)"
proof (rule keepsI)
  fix s
  obtain r t where m: "m s = (r, t)" by fastforce
  with assms(1) have "R s t" by (rule keepsD2)
  then show "R s (snd (finallyE m h s))"
    using m keepsD[OF assms(2), of t] by (auto simp: finallyE_def intro: rel_trans split: prod.splits sum.splits)
qed

end

lemma keeps_if [keeps_rules]:
  "(b \<Longrightarrow> keeps R m) \<Longrightarrow> (\<not> b \<Longrightarrow> keeps R n) \<Longrightarrow> keeps R (if b then m else n)"
  by simp

lemma keeps_case_option [keeps_rules]:
  "(x = None \<Longrightarrow> keeps R m) \<Longrightarrow> (\<And>y. x = Some y \<Longrightarrow> keeps R (f y)) \<Longrightarrow>
   keeps R (case x of None \<Rightarrow> m | Some y \<Rightarrow> f y)"
  by (cases x) auto

lemma keeps_case_sum [keeps_rules]:
  "(\<And>y. x = Inl y \<Longrightarrow> keeps R (f y)) \<Longrightarrow> (\<And>y. x = Inr y \<Longrightarrow> keeps R (g y)) \<Longrightarrow>
   keeps R (case x of Inl y \<Rightarrow> f y | Inr y \<Rightarrow> g y)"
  by (cases x) auto

lemma keeps_case_prod [keeps_rules]:
  "(\<And>a b. x = (a, b) \<Longrightarrow> keeps R (f a b)) \<Longrightarrow> keeps R (case x of (a, b) \<Rightarrow> f a b)"
  by (cases x) auto

lemma keeps_case_list [keeps_rules]:
  "(x = [] \<Longrightarrow> keeps R m) \<Longrightarrow> (\<And>y ys. x = y # ys \<Longrightarrow> keeps R (f y ys)) \<Longrightarrow>
   keeps R (case x of [] \<Rightarrow> m | y # ys \<Rightarrow> f y ys)"
  by (cases x) auto

lemma keeps_let [keeps_rules]: "keeps R (f x) \<Longrightarrow> keeps R (let y = x in f y)"
  by simp

section \<open>SQL statements over lists of rows\<close>

text \<open>
  A table is the list of its rows in insertion order. \<open>UPDATE \<dots> WHERE\<close> maps a row
  function over the matching rows, \<open>DELETE \<dots> WHERE\<close> drops them.
\<close>

definition update_where :: "('r \<Rightarrow> bool) \<Rightarrow> ('r \<Rightarrow> 'r) \<Rightarrow> 'r list \<Rightarrow> 'r list" where
  "update_where P f rows = map (\<lambda>r. if P r then f r else r) rows"

definition delete_where :: "('r \<Rightarrow> bool) \<Rightarrow> 'r list \<Rightarrow> 'r list" where
  "delete_where P rows = filter (\<lambda>r. \<not> P r) rows"

lemma update_where_Nil [simp, table_simps]: "update_where P f [] = []"
  by (simp add: update_where_def)

lemma update_where_Cons [simp, table_simps]:
  "update_where P f (r # rs) = (if P r then f r else r) # update_where P f rs"
  by (simp add: update_where_def)

lemma update_where_append [simp, table_simps]:
  "update_where P f (xs @ ys) = update_where P f xs @ update_where P f ys"
  by (simp add: update_where_def)

lemma set_update_where:
  "set (update_where P f rows) = f ` {r \<in> set rows. P r} \<union> {r \<in> set rows. \<not> P r}"
  by (auto simp: update_where_def)

lemma length_update_where [simp]: "length (update_where P f rows) = length rows"
  by (simp add: update_where_def)

lemma map_update_where:
  "(\<And>r. P r \<Longrightarrow> g (f r) = g r) \<Longrightarrow> map g (update_where P f rows) = map g rows"
  by (simp add: update_where_def)

lemma filter_update_where:
  "(\<And>r. P r \<Longrightarrow> Q (f r) \<longleftrightarrow> Q r) \<Longrightarrow>
   filter Q (update_where P f rows) = update_where P f (filter Q rows)"
  by (induction rows) auto

lemma filter_update_where_disjoint:
  "(\<And>r. P r \<Longrightarrow> \<not> Q r) \<Longrightarrow> (\<And>r. P r \<Longrightarrow> \<not> Q (f r)) \<Longrightarrow>
   filter Q (update_where P f rows) = filter Q rows"
  by (induction rows) auto

lemma in_update_whereE:
  assumes "x \<in> set (update_where P f rows)"
  obtains r where "r \<in> set rows" "x = (if P r then f r else r)"
  using assms by (auto simp: update_where_def)

lemma set_delete_where [simp, table_simps]:
  "set (delete_where P rows) = {r \<in> set rows. \<not> P r}"
  by (auto simp: delete_where_def)

section \<open>Generic lemmas on lists and maps\<close>

lemma distinct_map_filter: "distinct (map f xs) \<Longrightarrow> distinct (map f (filter P xs))"
  by (induction xs) auto

lemma filter_key_le_one:
  "distinct (map f xs) \<Longrightarrow> length (filter (\<lambda>x. f x = k) xs) \<le> 1"
  by (induction xs) (auto simp: filter_empty_conv image_iff)

lemma filter_key_unique:
  "distinct (map f xs) \<Longrightarrow> x \<in> set xs \<Longrightarrow> filter (\<lambda>y. f y = f x) xs = [x]"
proof (induction xs)
  case (Cons a xs)
  show ?case
  proof (cases "f a = f x")
    case True
    with Cons.prems have "a = x" "f x \<notin> f ` set xs" by (auto simp: image_iff)
    then show ?thesis by (auto simp: filter_empty_conv intro: rev_image_eqI)
  next
    case False
    with Cons show ?thesis by auto
  qed
qed simp

lemma find_key_unique:
  "distinct (map f xs) \<Longrightarrow> x \<in> set xs \<Longrightarrow> find (\<lambda>y. f y = f x) xs = Some x"
  by (induction xs) (auto simp: image_iff)

lemma find_update_where:
  "(\<And>r. g (f r) = g r) \<Longrightarrow>
   find (\<lambda>r. g r = i) (update_where (\<lambda>r. g r = j) f rows) =
     map_option (if i = j then f else id) (find (\<lambda>r. g r = i) rows)"
  by (induction rows) auto

definition max_list :: "int \<Rightarrow> int list \<Rightarrow> int" where
  "max_list a xs = fold max xs a"

lemma max_list_Nil [simp]: "max_list a [] = a"
  by (simp add: max_list_def)

lemma max_list_Cons [simp]: "max_list a (x # xs) = max_list (max x a) xs"
  by (simp add: max_list_def)

lemma max_list_alt: "max_list a xs = Max (insert a (set xs))"
proof (induction xs arbitrary: a)
  case (Cons x xs)
  have "insert a (set (x # xs)) = insert x (insert a (set xs))" by auto
  then show ?case using Cons[of "max x a"]
    by (cases "xs = []") (simp_all add: max.assoc insert_commute)
qed simp

lemma max_list_ge: "a \<le> max_list a xs" "x \<in> set xs \<Longrightarrow> x \<le> max_list a xs"
  by (simp_all add: max_list_alt)

lemma max_list_le_iff: "max_list a xs \<le> b \<longleftrightarrow> a \<le> b \<and> (\<forall>x \<in> set xs. x \<le> b)"
  by (simp add: max_list_alt)

lemma max_list_append: "max_list a (xs @ ys) = max_list (max_list a xs) ys"
  by (simp add: max_list_def)

lemma max_list_cong_set: "set xs = set ys \<Longrightarrow> max_list a xs = max_list a ys"
  by (simp add: max_list_alt)

lemma max_list_absorb: "a \<le> b \<Longrightarrow> b \<in> set xs \<Longrightarrow> max_list a xs = max_list b xs"
  by (intro antisym) (auto simp: max_list_le_iff max_list_ge intro: order_trans)

lemma max_list_snoc: "max_list a (xs @ [x]) = max (max_list a xs) x"
  by (simp add: max_list_append max.commute)

definition min_list_from :: "int \<Rightarrow> int list \<Rightarrow> int" where
  "min_list_from a xs = fold min xs a"

lemma min_list_from_alt: "min_list_from a xs = Min (insert a (set xs))"
proof (induction xs arbitrary: a)
  case (Cons x xs)
  have "insert a (set (x # xs)) = insert x (insert a (set xs))" by auto
  then show ?case using Cons[of "min x a"]
    by (cases "xs = []") (simp_all add: min_list_from_def min.assoc insert_commute)
qed (simp add: min_list_from_def)

lemma min_list_from_le:
  "min_list_from a xs \<le> a" "x \<in> set xs \<Longrightarrow> min_list_from a xs \<le> x"
  by (simp_all add: min_list_from_alt)

end
