(* ===== verification/Errors.thy ===== *)
theory Errors
  imports Prelude
begin

text \<open>
  The exceptions of \<open>registry/exceptions.py\<close>, those the services raise besides, and
  the ones of the language, SQLAlchemy, Stripe and LiteLLM that the modelled code can let escape.
  An exception carries the fixed part of its message; parts that a format string fills
  in with identifiers are left out. Session handling of \<open>infrastructure/db/engine.py\<close>.
\<close>

datatype error =
    PandaProbeError string
  | NotFoundError string
  | AuthenticationError string
  | AuthorizationError string
  | ConflictError string
  | ValidationError string
  | QuotaExceededError string
  | OrgLimitReachedError
  | StripeNotConfiguredError
  | LLMEngineError string
  | ProviderNotConfiguredError string
  | ValueError string
  | KeyError
  | IndexError
  | TypeError
  | IntegrityError
  | DataError
  | MultipleResultsFound
  | NoResultFound
  | StripeInvalidRequest "string option" "string option"
  | StripeFailure string
  | LiteLLMFailure string

text \<open>\<open>status_code\<close> of the hierarchy; an exception outside it is an unhandled 500.\<close>

fun status_code :: "error \<Rightarrow> int" where
  "status_code (NotFoundError _) = 404"
| "status_code (AuthenticationError _) = 401"
| "status_code (AuthorizationError _) = 403"
| "status_code (ConflictError _) = 409"
| "status_code (ValidationError _) = 422"
| "status_code (QuotaExceededError _) = 429"
| "status_code OrgLimitReachedError = 403"
| "status_code StripeNotConfiguredError = 503"
| "status_code (LLMEngineError _) = 502"
| "status_code (ProviderNotConfiguredError _) = 422"
| "status_code _ = 500"

definition is_pandaprobe_error :: "error \<Rightarrow> bool" where
  "is_pandaprobe_error e = (case e of
       ValueError _ \<Rightarrow> False | KeyError \<Rightarrow> False | IndexError \<Rightarrow> False | TypeError \<Rightarrow> False | IntegrityError \<Rightarrow> False | DataError \<Rightarrow> False
     | MultipleResultsFound \<Rightarrow> False | NoResultFound \<Rightarrow> False | StripeInvalidRequest _ _ \<Rightarrow> False
     | StripeFailure _ \<Rightarrow> False | LiteLLMFailure _ \<Rightarrow> False | _ \<Rightarrow> True)"

text \<open>\<open>str(exc)\<close>.\<close>

fun error_text :: "error \<Rightarrow> string" where
  "error_text (PandaProbeError m) = m"
| "error_text (NotFoundError m) = m"
| "error_text (AuthenticationError m) = m"
| "error_text (AuthorizationError m) = m"
| "error_text (ConflictError m) = m"
| "error_text (ValidationError m) = m"
| "error_text (QuotaExceededError m) = m"
| "error_text OrgLimitReachedError = ''Organization ownership limit reached.''"
| "error_text StripeNotConfiguredError = ''STRIPE_SECRET_KEY is not set; this service cannot call Stripe.''"
| "error_text (LLMEngineError m) = m"
| "error_text (ProviderNotConfiguredError m) = m"
| "error_text (ValueError m) = m"
| "error_text KeyError = ''KeyError''"
| "error_text IndexError = ''IndexError''"
| "error_text TypeError = ''TypeError''"
| "error_text IntegrityError = ''IntegrityError''"
| "error_text DataError = ''DataError''"
| "error_text MultipleResultsFound = ''MultipleResultsFound''"
| "error_text NoResultFound = ''NoResultFound''"
| "error_text (StripeInvalidRequest _ _) = ''InvalidRequestError''"
| "error_text (StripeFailure m) = m"
| "error_text (LiteLLMFailure m) = m"

text \<open>\<open>scalar_one_or_none\<close> of SQLAlchemy on the rows a statement selects.\<close>

fun scalar_one_or_none :: "'r list \<Rightarrow> error + 'r option" where
  "scalar_one_or_none [] = Inr None"
| "scalar_one_or_none [r] = Inr (Some r)"
| "scalar_one_or_none (_ # _ # _) = Inl MultipleResultsFound"

lemma scalar_one_or_none_SomeD:
  "scalar_one_or_none rows = Inr (Some r) \<Longrightarrow> rows = [r]"
  by (cases rows rule: scalar_one_or_none.cases) auto

lemma scalar_one_or_none_NoneD:
  "scalar_one_or_none rows = Inr None \<Longrightarrow> rows = []"
  by (cases rows rule: scalar_one_or_none.cases) auto

lemma scalar_one_or_none_key:
  assumes "distinct (map f rows)"
  shows "\<exists>r. scalar_one_or_none (filter (\<lambda>x. f x = k) rows) = Inr r"
proof -
  have "length (filter (\<lambda>x. f x = k) rows) \<le> 1"
    using assms by (rule filter_key_le_one)
  then show ?thesis
    by (cases "filter (\<lambda>x. f x = k) rows" rule: scalar_one_or_none.cases) auto
qed

lemma scalar_one_or_none_unique:
  "distinct (map f rows) \<Longrightarrow> r \<in> set rows \<Longrightarrow>
   scalar_one_or_none (filter (\<lambda>x. f x = f r) rows) = Inr (Some r)"
  by (simp add: filter_key_unique)

text \<open>
  \<open>get_db_session\<close>: the request handler's writes are committed when it returns and
  rolled back when it raises, so a raising handler leaves the database as it was.
\<close>

definition get_db_session :: "(error, 'db, 'a) exec \<Rightarrow> (error, 'db, 'a) exec" where
  "get_db_session handler = (\<lambda>db. case handler db of
       (Inl e, _) \<Rightarrow> (Inl e, db)
     | (Inr x, db') \<Rightarrow> (Inr x, db'))"

lemma get_db_session_Inl: "fst (get_db_session h db) = Inl e \<Longrightarrow> snd (get_db_session h db) = db"
  by (auto simp: get_db_session_def split: prod.splits sum.splits)

lemma get_db_session_keeps:
  assumes "\<And>db x db'. h db = (Inr x, db') \<Longrightarrow> R db db'" and "\<And>db. R db db"
  shows "keeps R (get_db_session h)"
  using assms by (auto simp: keeps_def get_db_session_def split: prod.splits sum.splits)

text \<open>
  \<open>commits R m\<close>: when \<open>m\<close> returns, the state after it is related by \<open>R\<close> to the state before. What
  it leaves when it raises does not matter, for a session rolls that back.
\<close>

definition commits :: "('s \<Rightarrow> 's \<Rightarrow> bool) \<Rightarrow> ('e, 's, 'a) exec \<Rightarrow> bool" where
  "commits R m \<longleftrightarrow> (\<forall>s x t. m s = (Inr x, t) \<longrightarrow> R s t)"

lemma commitsI: "(\<And>s x t. m s = (Inr x, t) \<Longrightarrow> R s t) \<Longrightarrow> commits R m"
  by (simp add: commits_def)

lemma commitsD: "commits R m \<Longrightarrow> m s = (Inr x, t) \<Longrightarrow> R s t"
  by (simp add: commits_def)

lemma commits_raise [keeps_rules]: "commits R (raise e)"
  by (simp add: commits_def)

lemma commits_if [keeps_rules]:
  "(b \<Longrightarrow> commits R m) \<Longrightarrow> (\<not> b \<Longrightarrow> commits R n) \<Longrightarrow> commits R (if b then m else n)"
  by simp

lemma commits_case_option [keeps_rules]:
  "(x = None \<Longrightarrow> commits R m) \<Longrightarrow> (\<And>y. x = Some y \<Longrightarrow> commits R (f y)) \<Longrightarrow>
   commits R (case x of None \<Rightarrow> m | Some y \<Rightarrow> f y)"
  by (cases x) auto

lemma commits_case_prod [keeps_rules]:
  "(\<And>a b. x = (a, b) \<Longrightarrow> commits R (f a b)) \<Longrightarrow> commits R (case x of (a, b) \<Rightarrow> f a b)"
  by (cases x) auto

context exec_preorder
begin

lemma commits_read: "(\<And>s. snd (m s) = s) \<Longrightarrow> commits R m"
  by (rule commitsI) (metis rel_refl snd_conv)

lemma commits_basic [keeps_rules]: "commits R (ret x)" "commits R (getsE g)" "commits R (liftE r)"
  by (rule commits_read, simp)+

lemma commits_bind [keeps_rules]: "commits R m \<Longrightarrow> (\<And>x. commits R (f x)) \<Longrightarrow> commits R (bindE m f)"
  unfolding commits_def bindE_Inr_iff by (blast intro: rel_trans)

lemma commits_session: "commits R m \<Longrightarrow> keeps R (get_db_session m)"
  by (rule get_db_session_keeps) (auto simp: commits_def rel_refl)

end

end
