(* ===== verification/Constants.thy ===== *)
theory Constants
  imports Errors "HOL-Library.Char_ord"
begin

text \<open>
  The enumerations and the two validators of \<open>registry/constants.py\<close>. Enumerations keep
  the source's member names and are referred to by qualified name where two of them
  share a member (\<open>trace_status.PENDING\<close>, \<open>invitation_status.PENDING\<close>).

  Text is a list of characters with code points below 256; for those the predicates on
  characters below are Python's.
\<close>

section \<open>Enumerations\<close>

datatype span_kind = AGENT | TOOL | LLM | RETRIEVER | CHAIN | EMBEDDING | OTHER
datatype span_status_code = UNSET | OK | ERROR
datatype trace_status = PENDING | RUNNING | COMPLETED | ERROR
datatype evaluation_status = PENDING | RUNNING | COMPLETED | FAILED
datatype score_source = AUTOMATED | ANNOTATION | PROGRAMMATIC
datatype score_status = SUCCESS | FAILED | PENDING
datatype score_data_type = NUMERIC | BOOLEAN | CATEGORICAL
datatype membership_role = OWNER | ADMIN | MEMBER
datatype invitation_status = PENDING | ACCEPTED | DECLINED | REVOKED | EXPIRED
datatype monitor_status = ACTIVE | PAUSED
datatype monitor_cadence = EVERY_6H | DAILY | WEEKLY | CUSTOM
datatype subscription_plan = HOBBY | PRO | STARTUP | ENTERPRISE | DEVELOPMENT
datatype subscription_status = ACTIVE | PAST_DUE | CANCELED | INCOMPLETE
datatype usage_category = TRACES | TRACE_EVALS | SESSION_EVALS

text \<open>The categories are enumerable, so that counters indexed by them can be compared.\<close>

instantiation usage_category :: enum
begin

definition enum_usage_category :: "usage_category list" where
  "enum_usage_category = [TRACES, TRACE_EVALS, SESSION_EVALS]"

definition enum_all_usage_category :: "(usage_category \<Rightarrow> bool) \<Rightarrow> bool" where
  "enum_all_usage_category P \<longleftrightarrow> P TRACES \<and> P TRACE_EVALS \<and> P SESSION_EVALS"

definition enum_ex_usage_category :: "(usage_category \<Rightarrow> bool) \<Rightarrow> bool" where
  "enum_ex_usage_category P \<longleftrightarrow> P TRACES \<or> P TRACE_EVALS \<or> P SESSION_EVALS"

instance
proof
  show univ: "(UNIV :: usage_category set) = set enum_class.enum"
    using usage_category.exhaust by (auto simp: enum_usage_category_def)
  show "distinct (enum_class.enum :: usage_category list)" by (simp add: enum_usage_category_def)
  show "enum_class.enum_all P \<longleftrightarrow> Ball UNIV P" for P :: "usage_category \<Rightarrow> bool"
    unfolding univ by (simp add: enum_usage_category_def enum_all_usage_category_def)
  show "enum_class.enum_ex P \<longleftrightarrow> Bex UNIV P" for P :: "usage_category \<Rightarrow> bool"
    unfolding univ by (simp add: enum_usage_category_def enum_ex_usage_category_def)
qed

end

text \<open>The values of the members the code stores or compares as text.\<close>

fun usage_category_value :: "usage_category \<Rightarrow> string" where
  "usage_category_value TRACES = ''traces''"
| "usage_category_value TRACE_EVALS = ''trace_evals''"
| "usage_category_value SESSION_EVALS = ''session_evals''"

definition usage_category_of :: "string \<Rightarrow> error + usage_category" where
  "usage_category_of s =
     (if s = ''traces'' then Inr TRACES
      else if s = ''trace_evals'' then Inr TRACE_EVALS
      else if s = ''session_evals'' then Inr SESSION_EVALS
      else Inl (ValueError ''is not a valid UsageCategory''))"

lemma usage_category_roundtrip: "usage_category_of (usage_category_value c) = Inr c"
  by (cases c) (simp_all add: usage_category_of_def)

fun subscription_plan_value :: "subscription_plan \<Rightarrow> string" where
  "subscription_plan_value HOBBY = ''HOBBY''"
| "subscription_plan_value PRO = ''PRO''"
| "subscription_plan_value STARTUP = ''STARTUP''"
| "subscription_plan_value ENTERPRISE = ''ENTERPRISE''"
| "subscription_plan_value DEVELOPMENT = ''DEVELOPMENT''"

definition subscription_plan_of :: "string \<Rightarrow> error + subscription_plan" where
  "subscription_plan_of s =
     (case map_of (map (\<lambda>p. (subscription_plan_value p, p))
                    [HOBBY, PRO, STARTUP, ENTERPRISE, DEVELOPMENT]) s of
        Some p \<Rightarrow> Inr p
      | None \<Rightarrow> Inl (ValueError ''is not a valid SubscriptionPlan''))"

lemma subscription_plan_roundtrip: "subscription_plan_of (subscription_plan_value p) = Inr p"
  by (cases p) (simp_all add: subscription_plan_of_def)

lemma all_usage_categories: "c \<in> set [TRACES, TRACE_EVALS, SESSION_EVALS]"
  by (cases c) simp_all

section \<open>Redis and billing constants\<close>

definition SUB_CACHE_TTL :: int where "SUB_CACHE_TTL = 300"
definition USAGE_KEY_BUFFER_DAYS :: int where "USAGE_KEY_BUFFER_DAYS = 7"
definition OVERAGE_LOCK_TTL :: int where "OVERAGE_LOCK_TTL = 60"
definition API_KEY_PREFIX :: string where "API_KEY_PREFIX = ''sk_pp_''"

section \<open>Character classes\<close>

definition code :: "char \<Rightarrow> nat" where
  "code c = of_char c"

text \<open>\<open>str.isspace\<close> on one character: what \<open>str.strip\<close> removes.\<close>

definition is_space :: "char \<Rightarrow> bool" where
  "is_space c = (let n = code c in (9 \<le> n \<and> n \<le> 13) \<or> (28 \<le> n \<and> n \<le> 32) \<or> n = 133 \<or> n = 160)"

definition ascii_alnum :: "char \<Rightarrow> bool" where
  "ascii_alnum c = (let n = code c in (48 \<le> n \<and> n \<le> 57) \<or> (65 \<le> n \<and> n \<le> 90) \<or> (97 \<le> n \<and> n \<le> 122))"

text \<open>\<open>str.isalnum\<close> on one character of the Latin-1 range.\<close>

definition is_alnum :: "char \<Rightarrow> bool" where
  "is_alnum c = (ascii_alnum c \<or>
     (let n = code c in n \<in> {170, 178, 179, 181, 185, 186, 188, 189, 190} \<or>
        (192 \<le> n \<and> n \<le> 255 \<and> n \<noteq> 215 \<and> n \<noteq> 247)))"

text \<open>The character class in the middle of \<open>_SAFE_NAME_RE\<close>: alphanumerics and \<open> _.'-\<close>.\<close>

definition safe_name_char :: "char \<Rightarrow> bool" where
  "safe_name_char c = (ascii_alnum c \<or> code c \<in> {32, 95, 46, 39, 45})"

text \<open>\<open>_CONTROL_CHAR_RE\<close>.\<close>

definition control_char :: "char \<Rightarrow> bool" where
  "control_char c = (let n = code c in n \<le> 8 \<or> n = 11 \<or> n = 12 \<or> (14 \<le> n \<and> n \<le> 31) \<or> n = 127)"

definition strip :: "string \<Rightarrow> string" where
  "strip s = rev (dropWhile is_space (rev (dropWhile is_space s)))"

text \<open>\<open>str.lower\<close> on the Latin-1 range.\<close>

definition lower_char :: "char \<Rightarrow> char" where
  "lower_char c = (let n = code c in
     if (65 \<le> n \<and> n \<le> 90) \<or> (192 \<le> n \<and> n \<le> 222 \<and> n \<noteq> 215) then char_of (n + 32) else c)"

definition lower :: "string \<Rightarrow> string" where
  "lower s = map lower_char s"

section \<open>Validators\<close>

definition MAX_NAME_LEN :: nat where "MAX_NAME_LEN = 255"

text \<open>
  \<open>_SAFE_NAME_RE.match\<close>. The \<open>$\<close> of the expression also matches before a final newline.
\<close>

definition safe_name_full :: "string \<Rightarrow> bool" where
  "safe_name_full s = (2 \<le> length s \<and> length s \<le> 255 \<and> ascii_alnum (hd s) \<and> ascii_alnum (last s) \<and>
     list_all safe_name_char (butlast (tl s)))"

definition safe_name_re :: "string \<Rightarrow> bool" where
  "safe_name_re s = (safe_name_full s \<or>
     (s \<noteq> [] \<and> code (last s) = 10 \<and> safe_name_full (butlast s)))"

definition validate_resource_name :: "string \<Rightarrow> error + string" where
  "validate_resource_name value =
     (let name = strip value in
      if name = [] then Inl (ValueError ''must not be empty.'')
      else if MAX_NAME_LEN < length name then Inl (ValueError ''must be at most 255 characters.'')
      else if length name = 1 then
        (if \<not> is_alnum (hd name) then Inl (ValueError ''must start and end with a letter or digit.'')
         else Inr name)
      else if \<not> safe_name_re name then
        Inl (ValueError ''must start and end with a letter or digit and contain only letters, digits, spaces, hyphens, underscores, dots, or apostrophes.'')
      else Inr name)"

definition sanitize_text :: "nat \<Rightarrow> string \<Rightarrow> error + string" where
  "sanitize_text max_length value =
     (let t = strip value in
      if max_length < length t then Inl (ValueError ''must be at most max_length characters.'')
      else if list_ex control_char t then Inl (ValueError ''contains invalid control characters.'')
      else Inr t)"

section \<open>Lemmas\<close>

lemma dropWhile_last_not: "dropWhile P xs \<noteq> [] \<Longrightarrow> last (dropWhile P xs) = last xs"
  by (induction xs) (auto split: if_splits)

lemma dropWhile_hd_not: "dropWhile P xs \<noteq> [] \<Longrightarrow> \<not> P (hd (dropWhile P xs))"
  by (induction xs) (auto split: if_splits)

lemma dropWhile_idem_hd: "(xs = [] \<or> \<not> P (hd xs)) \<Longrightarrow> dropWhile P xs = xs"
  by (cases xs) auto

lemma strip_ends:
  assumes "strip s \<noteq> []"
  shows "\<not> is_space (hd (strip s))" and "\<not> is_space (last (strip s))"
proof -
  let ?l = "dropWhile is_space s"
  from assms have ne: "dropWhile is_space (rev ?l) \<noteq> []" by (simp add: strip_def)
  then have "\<not> is_space (hd (dropWhile is_space (rev ?l)))" by (rule dropWhile_hd_not)
  with ne show "\<not> is_space (last (strip s))" by (simp add: strip_def last_rev)
  have "?l \<noteq> []"
  proof
    assume "?l = []"
    with ne show False by simp
  qed
  then have "\<not> is_space (hd ?l)" by (rule dropWhile_hd_not)
  moreover from ne have "last (dropWhile is_space (rev ?l)) = last (rev ?l)"
    by (rule dropWhile_last_not)
  ultimately show "\<not> is_space (hd (strip s))"
    using ne \<open>?l \<noteq> []\<close> by (simp add: strip_def hd_rev last_rev)
qed

lemma strip_fixed: "s = [] \<or> (\<not> is_space (hd s) \<and> \<not> is_space (last s)) \<Longrightarrow> strip s = s"
  by (auto simp: strip_def dropWhile_idem_hd hd_rev)

lemma strip_idem [simp]: "strip (strip s) = strip s"
  by (rule strip_fixed) (use strip_ends in blast)

lemma validate_resource_name_Inr:
  assumes "validate_resource_name v = Inr n"
  shows "n = strip v" "n \<noteq> []" "length n \<le> 255"
  using assms by (auto simp: validate_resource_name_def MAX_NAME_LEN_def Let_def split: if_splits)

text \<open>
  an accepted resource name is accepted again unchanged (validation is a projection),
  it is the input without surrounding white space, it has 1 to 255 characters, and apart
  from one-character names it starts and ends with an ASCII letter or digit.
\<close>

theorem validate_resource_name_projection:
  assumes "validate_resource_name v = Inr n"
  shows "validate_resource_name n = Inr n \<and> n = strip v \<and> 1 \<le> length n \<and> length n \<le> 255
    \<and> (1 < length n \<longrightarrow> ascii_alnum (hd n) \<and> ascii_alnum (last n))"
proof (intro conjI)
  show n: "n = strip v" and "length n \<le> 255"
    using assms by (rule validate_resource_name_Inr)+
  show "1 \<le> length n"
    using validate_resource_name_Inr(2)[OF assms] by (cases n) auto
  show "validate_resource_name n = Inr n"
    using assms n by (auto simp: validate_resource_name_def Let_def split: if_splits)
  show "1 < length n \<longrightarrow> ascii_alnum (hd n) \<and> ascii_alnum (last n)"
  proof
    assume long: "1 < length n"
    with assms have re: "safe_name_re n"
      by (auto simp: validate_resource_name_def Let_def split: if_splits)
    have "code (last n) \<noteq> 10"
    proof -
      from long n have "strip v \<noteq> []" by auto
      then show ?thesis using strip_ends(2)[of v] n by (auto simp: is_space_def Let_def)
    qed
    with re show "ascii_alnum (hd n) \<and> ascii_alnum (last n)"
      by (simp add: safe_name_re_def safe_name_full_def)
  qed
qed

theorem validate_resource_name_projection_witness:
  "validate_resource_name '' my project '' = Inr ''my project'' \<and>
   validate_resource_name ''my project'' = Inr ''my project''"
proof -
  have h: "validate_resource_name '' my project '' = Inr ''my project''"
    by code_simp
  show ?thesis using h validate_resource_name_projection [OF h] by blast
qed

lemma sanitize_text_Inr:
  assumes "sanitize_text m v = Inr t"
  shows "t = strip v" "length t \<le> m" "\<not> list_ex control_char t"
  using assms by (auto simp: sanitize_text_def Let_def split: if_splits)

lemma sanitize_text_projection: "sanitize_text m v = Inr t \<Longrightarrow> sanitize_text m t = Inr t"
  by (auto simp: sanitize_text_def Let_def split: if_splits)

text \<open>A carriage return is not in the rejected class, unlike the description says.\<close>

lemma sanitize_text_accepts_cr:
  "sanitize_text 2000 [CHR ''a'', CHR 0x0D, CHR ''b''] = Inr [CHR ''a'', CHR 0x0D, CHR ''b'']"
  by code_simp

end
