(* ===== verification/Plans.thy ===== *)
theory Plans
  imports Constants Complex_Main
begin

text \<open>
  The billing entities of \<open>core/billing/entities.py\<close> and the plan table and limits of
  \<open>core/billing/plans.py\<close>. \<open>Decimal\<close> amounts are rational numbers. The dictionaries a
  billing report stores are records, maps and, where the code iterates over them, lists
  of pairs in the order of the stored keys.
\<close>

section \<open>Entities\<close>

record subscription =
  sub_id :: uuid
  sub_org_id :: uuid
  sub_plan :: subscription_plan
  sub_status :: subscription_status
  sub_customer :: "string option"
  sub_stripe_id :: "string option"
  sub_period_start :: datetime
  sub_period_end :: datetime
  sub_canceled_at :: "datetime option"
  sub_created_at :: datetime
  sub_updated_at :: datetime

record usage_record =
  ur_id :: uuid
  ur_org_id :: uuid
  ur_period_start :: datetime
  ur_period_end :: datetime
  trace_count :: int
  trace_eval_count :: int
  session_eval_count :: int
  reported_trace_count :: int
  reported_trace_eval_count :: int
  reported_session_eval_count :: int
  ur_billed :: bool
  ur_invoice_id :: "string option"
  ur_created_at :: datetime
  ur_updated_at :: datetime

record plan_config =
  base_traces :: "int option"
  base_trace_evals :: "int option"
  base_session_evals :: "int option"
  monitoring_allowed :: bool
  max_members :: "int option"
  pay_as_you_go :: bool
  monthly_price_cents :: int

text \<open>\<open>pricing\<close> of a report: the unit price and the included units of each category.\<close>

record pricing =
  unit_price :: rat
  base_units :: "usage_category \<Rightarrow> int"

text \<open>
  The parameters of one \<open>InvoiceItem.create\<close> call. The idempotency key
  \<open>pp:report:<id>:<category>\<close> is the pair of its parts; the number counts the suffixes
  \<open>:carryover\<close> appended to it. The description keeps the parts its format string fills in.
\<close>

datatype idempotency_key = ReportKey uuid usage_category nat

record bill_request =
  rq_customer :: string
  rq_currency :: string
  rq_amount :: int
  rq_description :: "string \<times> int \<times> rat \<times> int \<times> int"
  rq_period :: "int \<times> int"
  rq_report_id :: uuid
  rq_category :: usage_category
  rq_org_id :: uuid
  rq_from_count :: int
  rq_to_count :: int
  rq_key :: idempotency_key
  rq_subscription :: "string option"
  rq_invoice :: "string option"

datatype report_status = Pending | Reported | NeedsReview

record billing_report =
  br_id :: uuid
  br_usage_id :: uuid
  br_customer :: string
  br_subscription :: "string option"
  br_closing_invoice :: "string option"
  snapshot_trace_count :: int
  snapshot_trace_eval_count :: int
  snapshot_session_eval_count :: int
  br_pricing :: pricing
  br_requests :: "(usage_category \<times> bill_request) list"
  br_attempted_at :: "usage_category \<Rightarrow> datetime option"
  br_item_ids :: "usage_category \<Rightarrow> string option"
  br_status :: report_status
  br_last_error :: "string option"
  br_created_at :: datetime
  br_updated_at :: datetime

record usage_summary =
  us_plan :: subscription_plan
  us_status :: subscription_status
  us_period_start :: datetime
  us_period_end :: datetime
  us_traces :: int
  us_trace_evals :: int
  us_session_evals :: int
  us_limits :: "plan_config option"

record overage_detail =
  trace_overage :: int
  trace_eval_overage :: int
  session_eval_overage :: int
  trace_overage_cost :: rat
  trace_eval_overage_cost :: rat
  session_eval_overage_cost :: rat
  total_cost :: rat
  od_snapshot_trace_count :: int
  od_snapshot_trace_eval_count :: int
  od_snapshot_session_eval_count :: int

definition empty_overage :: overage_detail where
  "empty_overage = \<lparr>trace_overage = 0, trace_eval_overage = 0, session_eval_overage = 0,
     trace_overage_cost = 0, trace_eval_overage_cost = 0, session_eval_overage_cost = 0,
     total_cost = 0, od_snapshot_trace_count = 0, od_snapshot_trace_eval_count = 0,
     od_snapshot_session_eval_count = 0\<rparr>"

section \<open>Attributes selected by category\<close>

text \<open>
  \<open>_COUNTERS\<close> of \<open>billing_reporting_service.py\<close> names, for each category, the attributes
  that \<open>getattr(usage, counter)\<close>, \<open>getattr(usage, f"reported_{counter}")\<close>,
  \<open>getattr(report, f"snapshot_{counter}")\<close> and \<open>getattr(plan, base)\<close> read.
\<close>

definition COUNTERS :: "(usage_category \<times> string) list" where
  "COUNTERS = [(TRACES, ''Trace overage''), (TRACE_EVALS, ''Trace eval overage''),
     (SESSION_EVALS, ''Session eval overage'')]"

fun counter :: "usage_category \<Rightarrow> usage_record \<Rightarrow> int" where
  "counter TRACES u = trace_count u"
| "counter TRACE_EVALS u = trace_eval_count u"
| "counter SESSION_EVALS u = session_eval_count u"

fun reported :: "usage_category \<Rightarrow> usage_record \<Rightarrow> int" where
  "reported TRACES u = reported_trace_count u"
| "reported TRACE_EVALS u = reported_trace_eval_count u"
| "reported SESSION_EVALS u = reported_session_eval_count u"

fun snapshot :: "usage_category \<Rightarrow> billing_report \<Rightarrow> int" where
  "snapshot TRACES r = snapshot_trace_count r"
| "snapshot TRACE_EVALS r = snapshot_trace_eval_count r"
| "snapshot SESSION_EVALS r = snapshot_session_eval_count r"

lemma map_fst_COUNTERS: "map fst COUNTERS = [TRACES, TRACE_EVALS, SESSION_EVALS]"
  by (simp add: COUNTERS_def)

lemma COUNTERS_complete: "c \<in> fst ` set COUNTERS"
  by (cases c) (simp_all add: COUNTERS_def)

section \<open>The plan table\<close>

fun PLAN_LIMITS :: "subscription_plan \<Rightarrow> plan_config" where
  "PLAN_LIMITS HOBBY = \<lparr>base_traces = Some 100, base_trace_evals = Some 100,
     base_session_evals = Some 10, monitoring_allowed = False, max_members = Some 1,
     pay_as_you_go = False, monthly_price_cents = 0\<rparr>"
| "PLAN_LIMITS PRO = \<lparr>base_traces = Some 5000, base_trace_evals = Some 5000,
     base_session_evals = Some 100, monitoring_allowed = True, max_members = Some 2,
     pay_as_you_go = True, monthly_price_cents = 2900\<rparr>"
| "PLAN_LIMITS STARTUP = \<lparr>base_traces = Some 50000, base_trace_evals = Some 50000,
     base_session_evals = Some 1000, monitoring_allowed = True, max_members = Some 10,
     pay_as_you_go = True, monthly_price_cents = 29900\<rparr>"
| "PLAN_LIMITS ENTERPRISE = \<lparr>base_traces = Some 0, base_trace_evals = Some 0,
     base_session_evals = Some 0, monitoring_allowed = True, max_members = None,
     pay_as_you_go = True, monthly_price_cents = 0\<rparr>"
| "PLAN_LIMITS DEVELOPMENT = \<lparr>base_traces = None, base_trace_evals = None,
     base_session_evals = None, monitoring_allowed = True, max_members = Some 1,
     pay_as_you_go = False, monthly_price_cents = 0\<rparr>"

definition OVERAGE_UNIT_PRICE :: rat where
  "OVERAGE_UNIT_PRICE = 4 / 1000"

definition MAX_OWNED_ORGS :: int where
  "MAX_OWNED_ORGS = 2"

definition get_plan_config :: "subscription_plan \<Rightarrow> plan_config" where
  "get_plan_config p = PLAN_LIMITS p"

fun plan_base :: "usage_category \<Rightarrow> plan_config \<Rightarrow> int option" where
  "plan_base TRACES cfg = base_traces cfg"
| "plan_base TRACE_EVALS cfg = base_trace_evals cfg"
| "plan_base SESSION_EVALS cfg = base_session_evals cfg"

definition get_limit_for_category :: "subscription_plan \<Rightarrow> usage_category \<Rightarrow> int option" where
  "get_limit_for_category p c = plan_base c (PLAN_LIMITS p)"

text \<open>\<open>x or 0\<close> for an optional integer.\<close>

definition or_zero :: "int option \<Rightarrow> int" where
  "or_zero x = (case x of None \<Rightarrow> 0 | Some n \<Rightarrow> n)"

section \<open>Decimal arithmetic\<close>

text \<open>\<open>int(x.quantize(Decimal("1"), rounding=ROUND_HALF_UP))\<close>: halves away from zero.\<close>

definition quantize_half_up :: "rat \<Rightarrow> int" where
  "quantize_half_up x = (if 0 \<le> x then \<lfloor>x + 1 / 2\<rfloor> else - \<lfloor>- x + 1 / 2\<rfloor>)"

lemma plan_base_nonneg: "plan_base c (PLAN_LIMITS p) = Some n \<Longrightarrow> 0 \<le> n"
  by (cases p; cases c) auto

lemma or_zero_plan_base_nonneg: "0 \<le> or_zero (plan_base c (PLAN_LIMITS p))"
  using plan_base_nonneg by (auto simp: or_zero_def split: option.splits)

text \<open>
  A plan that does not bill overages has a hard limit in every category, or none at all:
  the development plan.
\<close>

lemma hard_limit_plans:
  "\<not> pay_as_you_go (get_plan_config p) \<Longrightarrow> p = HOBBY \<or> p = DEVELOPMENT"
  by (cases p) (simp_all add: get_plan_config_def)

lemma quantize_half_up_error: "\<bar>of_int (quantize_half_up x) - x\<bar> \<le> 1 / 2"
  by (auto simp: quantize_half_up_def abs_if) linarith+

lemma quantize_half_up_nonneg: "0 \<le> x \<Longrightarrow> 0 \<le> quantize_half_up x"
  by (simp add: quantize_half_up_def)

end
