(* ===== verification/RedisStore.thy ===== *)
theory RedisStore
  imports Plans
begin

text \<open>
  The Redis commands the backend uses, with expiry, and the lock scripts of
  \<open>infrastructure/redis/locks.py\<close>. A Lua script runs atomically, so each is one function
  on the store. Keys are structured: the constructors stand for the prefixes
  \<open>pp:sub:\<close>, \<open>pp:usage:\<close>, \<open>\<dots>:retry:\<close>, \<open>\<dots>:rollback-retry:\<close>, \<open>pp:overage_lock:\<close>,
  \<open>pp:stripe_evt:\<close>, \<open>pp:dispatch-lock:\<close> and \<open>cli:authcode:\<close>, which no two kinds of key share; a
  usage key holds the organization and the printed date. A cached subscription and the payload of
  a login code are the records that their JSON texts decode to.
\<close>

datatype redis_key =
    SubCacheKey uuid
  | UsageKey uuid int
  | UsageRetryKey uuid int uuid
  | RollbackRetryKey uuid int uuid
  | OverageLockKey uuid
  | StripeEventKey string
  | DispatchLockKey string
  | CliCodeKey string

text \<open>The value of a lock: a random token in hexadecimal, or the marker \<open>completed\<close>.\<close>

datatype lock_value = Token uuid | Completed

text \<open>What a login code of the command line client is bound to.\<close>

record cli_payload =
  cp_user_id :: uuid
  cp_org_id :: uuid
  cp_project_id :: uuid
  cp_project_name :: string
  cp_code_challenge :: string
  cp_label :: string
  cp_expires_days :: int

datatype redis_value =
    RInt int
  | RLock lock_value
  | RSub subscription
  | RHash "usage_category \<Rightarrow> int option"
  | RCode cli_payload

type_synonym redis = "redis_key \<Rightarrow> (redis_value \<times> datetime option) option"

section \<open>Commands\<close>

definition live :: "datetime \<Rightarrow> datetime option \<Rightarrow> bool" where
  "live now x = (case x of None \<Rightarrow> True | Some t \<Rightarrow> now < t)"

definition r_get :: "datetime \<Rightarrow> redis \<Rightarrow> redis_key \<Rightarrow> redis_value option" where
  "r_get now r k = (case r k of None \<Rightarrow> None | Some (v, x) \<Rightarrow> if live now x then Some v else None)"

definition r_set_ex :: "datetime \<Rightarrow> redis \<Rightarrow> redis_key \<Rightarrow> redis_value \<Rightarrow> int \<Rightarrow> redis" where
  "r_set_ex now r k v ttl = r(k \<mapsto> (v, Some (now + seconds ttl)))"

definition r_del :: "redis \<Rightarrow> redis_key \<Rightarrow> redis" where
  "r_del r k = r(k := None)"

text \<open>\<open>DEL\<close> with the number of keys it removed.\<close>

definition r_delete :: "datetime \<Rightarrow> redis \<Rightarrow> redis_key \<Rightarrow> int \<times> redis" where
  "r_delete now r k = (if r_get now r k = None then 0 else 1, r_del r k)"

definition r_hgetall :: "datetime \<Rightarrow> redis \<Rightarrow> redis_key \<Rightarrow> usage_category \<Rightarrow> int option" where
  "r_hgetall now r k = (case r_get now r k of Some (RHash h) \<Rightarrow> h | _ \<Rightarrow> Map.empty)"

definition hash_field :: "(usage_category \<Rightarrow> int option) \<Rightarrow> usage_category \<Rightarrow> int" where
  "hash_field h f = (case h f of None \<Rightarrow> 0 | Some n \<Rightarrow> n)"

text \<open>\<open>HINCRBY\<close> creates a missing hash without expiry and keeps the expiry of a live one.\<close>

definition r_hincrby :: "datetime \<Rightarrow> redis \<Rightarrow> redis_key \<Rightarrow> usage_category \<Rightarrow> int \<Rightarrow> int \<times> redis" where
  "r_hincrby now r k f n =
     (let h = r_hgetall now r k; v = hash_field h f + n;
          x = (case r k of Some (_, x) \<Rightarrow> if live now x then x else None | None \<Rightarrow> None)
      in (v, r(k \<mapsto> (RHash (h(f \<mapsto> v)), x))))"

definition r_expire :: "datetime \<Rightarrow> redis \<Rightarrow> redis_key \<Rightarrow> int \<Rightarrow> redis" where
  "r_expire now r k ttl =
     (case r_get now r k of None \<Rightarrow> r | Some v \<Rightarrow> r(k \<mapsto> (v, Some (now + seconds ttl))))"

section \<open>Lock scripts\<close>

definition acquire_owned_lock ::
    "datetime \<Rightarrow> redis_key \<Rightarrow> int \<Rightarrow> lock_value \<Rightarrow> redis \<Rightarrow> bool \<times> redis" where
  "acquire_owned_lock now k ttl token r =
     (if r_get now r k = Some (RLock token) then (True, r)
      else if r_get now r k \<noteq> None then (False, r)
      else (True, r_set_ex now r k (RLock token) ttl))"

definition release_owned_lock :: "datetime \<Rightarrow> redis_key \<Rightarrow> lock_value \<Rightarrow> redis \<Rightarrow> redis" where
  "release_owned_lock now k token r =
     (if r_get now r k = Some (RLock token) then r_del r k else r)"

definition complete_owned_lock ::
    "datetime \<Rightarrow> redis_key \<Rightarrow> int \<Rightarrow> lock_value \<Rightarrow> redis \<Rightarrow> bool \<times> redis" where
  "complete_owned_lock now k ttl token r =
     (if r_get now r k = Some (RLock token) then (True, r_set_ex now r k (RLock Completed) ttl)
      else if r_get now r k = Some (RLock Completed) then (True, r)
      else (False, r))"

section \<open>Laws of the commands\<close>

lemma r_get_set_ex [simp]:
  "0 < ttl \<Longrightarrow> r_get now (r_set_ex now r k v ttl) k' = (if k' = k then Some v else r_get now r k')"
  by (simp add: r_get_def r_set_ex_def live_def seconds_def)

lemma r_get_set_ex_later:
  "now' < now + seconds ttl \<Longrightarrow> r_get now' (r_set_ex now r k v ttl) k = Some v"
  by (simp add: r_get_def r_set_ex_def live_def)

lemma r_get_set_ex_other [simp]:
  "k' \<noteq> k \<Longrightarrow> r_get now' (r_set_ex now r k v ttl) k' = r_get now' r k'"
  by (simp add: r_get_def r_set_ex_def)

lemma r_set_ex_twice: "r_set_ex now (r_set_ex now r k v ttl) k w ttl' = r_set_ex now r k w ttl'"
  by (simp add: r_set_ex_def)

lemma r_get_del [simp]:
  "r_get now (r_del r k) k' = (if k' = k then None else r_get now r k')"
  by (simp add: r_get_def r_del_def)

lemma r_hgetall_set_ex_other [simp]:
  "k' \<noteq> k \<Longrightarrow> r_hgetall now' (r_set_ex now r k v ttl) k' = r_hgetall now' r k'"
  by (simp add: r_hgetall_def)

lemma fst_r_hincrby: "fst (r_hincrby now r k f n) = hash_field (r_hgetall now r k) f + n"
  by (simp add: r_hincrby_def Let_def)

lemma r_hgetall_hincrby:
  "r_hgetall now (snd (r_hincrby now r k f n)) k' =
     (if k' = k then (r_hgetall now r k)(f \<mapsto> hash_field (r_hgetall now r k) f + n)
      else r_hgetall now r k')"
  by (auto simp: r_hincrby_def Let_def r_hgetall_def r_get_def live_def split: option.splits prod.splits)

lemma r_get_hincrby_other:
  "k' \<noteq> k \<Longrightarrow> r_get now' (snd (r_hincrby now r k f n)) k' = r_get now' r k'"
  by (simp add: r_hincrby_def Let_def r_get_def)

lemma r_get_expire_other: "k' \<noteq> k \<Longrightarrow> r_get now' (r_expire now r k ttl) k' = r_get now' r k'"
  by (auto simp: r_expire_def r_get_def split: option.splits)

lemma r_hgetall_expire:
  "0 < ttl \<Longrightarrow> r_hgetall now (r_expire now r k ttl) k' = r_hgetall now r k'"
  by (auto simp: r_expire_def r_hgetall_def r_get_def live_def seconds_def split: option.splits)

lemma hash_field_upd [simp]: "hash_field (h(f \<mapsto> v)) f' = (if f' = f then v else hash_field h f')"
  by (simp add: hash_field_def)

section \<open>The interface of an owned lock\<close>

text \<open>
  What a client of the lock relies on: acquiring succeeds when the lock is free or already
  the client's own, fails without effect when another holds it, and releasing frees the
  lock only for its holder.
\<close>

datatype 't lock_op = Acquire 't | Release 't

definition run_lock_op :: "('t \<Rightarrow> 's \<Rightarrow> bool \<times> 's) \<Rightarrow> ('t \<Rightarrow> 's \<Rightarrow> 's) \<Rightarrow> 't lock_op \<Rightarrow> 's \<Rightarrow> 's" where
  "run_lock_op acq rel op s = (case op of Acquire t \<Rightarrow> snd (acq t s) | Release t \<Rightarrow> rel t s)"

locale owned_lock =
  fixes acquire :: "'t \<Rightarrow> 's \<Rightarrow> bool \<times> 's"
    and release :: "'t \<Rightarrow> 's \<Rightarrow> 's"
    and holder :: "'s \<Rightarrow> 't option"
    and is_free :: "'s \<Rightarrow> bool"
  assumes acquire_free: "is_free s \<Longrightarrow> fst (acquire t s) \<and> holder (snd (acquire t s)) = Some t"
    and acquire_own: "holder s = Some t \<Longrightarrow> acquire t s = (True, s)"
    and acquire_busy: "\<not> is_free s \<Longrightarrow> holder s \<noteq> Some t \<Longrightarrow> acquire t s = (False, s)"
    and release_own: "holder s = Some t \<Longrightarrow> is_free (release t s)"
    and release_other: "holder s \<noteq> Some t \<Longrightarrow> release t s = s"
    and held_not_free: "holder s = Some t \<Longrightarrow> \<not> is_free s"
begin

lemma acquire_success: "fst (acquire t s) \<Longrightarrow> holder (snd (acquire t s)) = Some t"
  by (metis acquire_busy acquire_free acquire_own fst_conv snd_conv)

lemma acquire_exclusive:
  assumes "holder s = Some t" and "fst (acquire u s)"
  shows "u = t"
  using assms acquire_busy[of s u] held_not_free[of s t] by fastforce

lemma others_keep_holder:
  assumes "holder s = Some t" and "\<forall>op \<in> set ops. op \<noteq> Release t"
  shows "holder (fold (run_lock_op acquire release) ops s) = Some t"
  using assms
proof (induction ops arbitrary: s)
  case (Cons op ops)
  have "holder (run_lock_op acquire release op s) = Some t"
  proof (cases op)
    case (Acquire u)
    with Cons.prems(1) show ?thesis
      by (cases "u = t") (simp_all add: run_lock_op_def acquire_own acquire_busy held_not_free)
  next
    case (Release u)
    with Cons.prems have "holder s \<noteq> Some u" by auto
    with Release Cons.prems(1) show ?thesis by (simp add: run_lock_op_def release_other)
  qed
  with Cons show ?case by simp
qed simp

end

definition lock_holder :: "datetime \<Rightarrow> redis_key \<Rightarrow> redis \<Rightarrow> lock_value option" where
  "lock_holder now k r = (case r_get now r k of Some (RLock t) \<Rightarrow> Some t | _ \<Rightarrow> None)"

lemma lock_holder_iff: "lock_holder now k r = Some t \<longleftrightarrow> r_get now r k = Some (RLock t)"
  by (auto simp: lock_holder_def split: option.splits redis_value.splits)

lemma owned_lock_redis:
  assumes "0 < ttl"
  shows "owned_lock (acquire_owned_lock now k ttl) (release_owned_lock now k)
     (lock_holder now k) (\<lambda>r. r_get now r k = None)"
  using assms by unfold_locales
    (auto simp: acquire_owned_lock_def release_owned_lock_def lock_holder_iff)

interpretation overage_lock:
  owned_lock "acquire_owned_lock now (OverageLockKey org) OVERAGE_LOCK_TTL"
    "release_owned_lock now (OverageLockKey org)" "lock_holder now (OverageLockKey org)"
    "\<lambda>r. r_get now r (OverageLockKey org) = None" for now org
  by (rule owned_lock_redis) (simp add: OVERAGE_LOCK_TTL_def)

text \<open>
  C27: mutual exclusion of the overage lock. While one token holds the lock of an
  organization and does not release it, no sequence of acquire and release calls by
  others, including releases with a wrong token, takes the lock from it, and any acquire
  that succeeds is a replay by the holder itself.
\<close>

theorem overage_lock_exclusive:
  assumes "lock_holder now (OverageLockKey org) r = Some t"
    and "\<forall>op \<in> set ops. op \<noteq> Release t"
    and "r' = fold (run_lock_op (acquire_owned_lock now (OverageLockKey org) OVERAGE_LOCK_TTL)
        (release_owned_lock now (OverageLockKey org))) ops r"
  shows "lock_holder now (OverageLockKey org) r' = Some t
    \<and> (fst (acquire_owned_lock now (OverageLockKey org) OVERAGE_LOCK_TTL u r') \<longleftrightarrow> u = t)"
  using overage_lock.others_keep_holder[OF assms(1,2)] overage_lock.acquire_exclusive
    overage_lock.acquire_own assms(3) by (metis fst_conv)

theorem overage_lock_exclusive_witness:
  "lock_holder 0 (OverageLockKey 1) [OverageLockKey 1 \<mapsto> (RLock (Token 7), Some 60)] = Some (Token 7)
   \<and> \<not> fst (acquire_owned_lock 0 (OverageLockKey 1) OVERAGE_LOCK_TTL (Token 8)
        (fold (run_lock_op (acquire_owned_lock 0 (OverageLockKey 1) OVERAGE_LOCK_TTL)
          (release_owned_lock 0 (OverageLockKey 1))) [Acquire (Token 8), Release (Token 8)]
           [OverageLockKey 1 \<mapsto> (RLock (Token 7), Some 60)]))"
proof -
  have h: "lock_holder 0 (OverageLockKey 1) [OverageLockKey 1 \<mapsto> (RLock (Token 7), Some 60)] = Some (Token 7)"
    by (simp add: lock_holder_def r_get_def live_def)
  have o: "\<forall>op \<in> set [Acquire (Token 8), Release (Token 8)]. op \<noteq> Release (Token 7)"
    by simp
  show ?thesis using h overage_lock_exclusive [OF h o refl, of "Token 8"] by simp
qed

text \<open>
  replaying a lock script with the same token has no further effect: acquiring twice
  is acquiring once, and completing twice is completing once.
\<close>

theorem lock_scripts_replay_safe:
  assumes "0 < ttl" and "acquire_owned_lock now k ttl t r = (True, r')"
    and "complete_owned_lock now k ttl t r' = (b, r'')"
  shows "acquire_owned_lock now k ttl t r' = (True, r') \<and> b
    \<and> complete_owned_lock now k ttl t r'' = (True, r'')"
  using assms
  by (auto simp: acquire_owned_lock_def complete_owned_lock_def r_set_ex_twice split: if_splits)

theorem lock_scripts_replay_safe_witness:
  "complete_owned_lock 0 (StripeEventKey ''e'') 300 (Token 1)
     (r_set_ex 0 (r_set_ex 0 Map.empty (StripeEventKey ''e'') (RLock (Token 1)) 300)
        (StripeEventKey ''e'') (RLock Completed) 300) =
   (True, r_set_ex 0 (r_set_ex 0 Map.empty (StripeEventKey ''e'') (RLock (Token 1)) 300)
        (StripeEventKey ''e'') (RLock Completed) 300)"
proof -
  let ?k = "StripeEventKey ''e''"
  let ?r = "r_set_ex 0 Map.empty ?k (RLock (Token 1)) 300"
  have a: "acquire_owned_lock 0 ?k 300 (Token 1) Map.empty = (True, ?r)"
    by (simp add: acquire_owned_lock_def r_get_def)
  have c: "complete_owned_lock 0 ?k 300 (Token 1) ?r = (True, r_set_ex 0 ?r ?k (RLock Completed) 300)"
    by (simp add: complete_owned_lock_def)
  show ?thesis using lock_scripts_replay_safe [OF _ a c] by simp
qed

end
