(* ===== verification/BillingRepo.thy ===== *)
theory BillingRepo
  imports RedisStore
begin

text \<open>
  The tables of subscriptions, usage records and billing reports, the operations of
  \<open>repositories/billing_repo.py\<close> and \<open>repositories/billing_report_repo.py\<close> on them, and
  the integrity constraints of \<open>infrastructure/db/models.py\<close> that they meet.

  \<open>uuid4()\<close> is the next unused identifier of the database. Each operation takes the
  current instant \<open>now\<close> for the timestamp columns it writes. Row locks
  (\<open>FOR UPDATE\<close>) appear as the atomicity of the operation that takes them.
\<close>

record billing_db =
  subs :: "subscription list"
  usages :: "usage_record list"
  reports :: "billing_report list"
  next_id :: uuid

definition unique_subs :: "subscription list \<Rightarrow> bool" where
  "unique_subs rows \<longleftrightarrow> distinct (map sub_org_id rows) \<and>
     distinct (map sub_stripe_id (filter (\<lambda>s. sub_stripe_id s \<noteq> None) rows))"

text \<open>A flushed change of the subscription table is refused when it breaks a constraint.\<close>

definition flush_subs :: "subscription list \<Rightarrow> (error, billing_db, unit) exec" where
  "flush_subs rows = (\<lambda>d. if unique_subs rows then (Inr (), d\<lparr>subs := rows\<rparr>) else (Inl IntegrityError, d))"

section \<open>Subscriptions\<close>

definition create_subscription ::
    "datetime \<Rightarrow> uuid \<Rightarrow> subscription_plan \<Rightarrow> string option \<Rightarrow> string option \<Rightarrow>
     datetime option \<Rightarrow> datetime option \<Rightarrow> (error, billing_db, subscription) exec" where
  "create_subscription now org plan customer stripe_id pstart pend =
     bindE (getsE (\<lambda>d. \<lparr>sub_id = next_id d, sub_org_id = org, sub_plan = plan, sub_status = subscription_status.ACTIVE,
         sub_customer = customer, sub_stripe_id = stripe_id,
         sub_period_start = (case pstart of Some t \<Rightarrow> t | None \<Rightarrow> now),
         sub_period_end = (case pend of Some t \<Rightarrow> t | None \<Rightarrow> now + days 30),
         sub_canceled_at = None, sub_created_at = now, sub_updated_at = now\<rparr>)) (\<lambda>row.
     bindE (getsE subs) (\<lambda>rows.
     bindE (flush_subs (rows @ [row])) (\<lambda>_.
     bindE (modifyE (\<lambda>d. d\<lparr>next_id := Suc (next_id d)\<rparr>)) (\<lambda>_.
     ret row))))"

definition get_subscription_by_org :: "uuid \<Rightarrow> (error, billing_db, subscription option) exec" where
  "get_subscription_by_org org =
     (\<lambda>d. (scalar_one_or_none (filter (\<lambda>s. sub_org_id s = org) (subs d)), d))"

definition get_subscription_by_stripe_customer ::
    "string \<Rightarrow> (error, billing_db, subscription option) exec" where
  "get_subscription_by_stripe_customer c =
     (\<lambda>d. (scalar_one_or_none (filter (\<lambda>s. sub_customer s = Some c) (subs d)), d))"

definition get_subscription_by_stripe_subscription ::
    "string \<Rightarrow> (error, billing_db, subscription option) exec" where
  "get_subscription_by_stripe_subscription i =
     (\<lambda>d. (scalar_one_or_none (filter (\<lambda>s. sub_stripe_id s = Some i) (subs d)), d))"

text \<open>\<open>update_subscription(org_id, **fields)\<close>: the assignments are the row function.\<close>

definition touch_sub :: "datetime \<Rightarrow> (subscription \<Rightarrow> subscription) \<Rightarrow> subscription \<Rightarrow> subscription" where
  "touch_sub now f row = (if f row = row then row else (f row)\<lparr>sub_updated_at := now\<rparr>)"

definition update_subscription ::
    "datetime \<Rightarrow> uuid \<Rightarrow> (subscription \<Rightarrow> subscription) \<Rightarrow>
     (error, billing_db, subscription option) exec" where
  "update_subscription now org f =
     bindE (get_subscription_by_org org) (\<lambda>found.
     case found of
       None \<Rightarrow> ret None
     | Some row \<Rightarrow>
         bindE (getsE (\<lambda>d. update_where (\<lambda>s. sub_org_id s = org) (touch_sub now f) (subs d))) (\<lambda>rows.
         bindE (flush_subs rows) (\<lambda>_.
         ret (Some (touch_sub now f row)))))"

definition list_subscriptions_by_plan ::
    "subscription_plan \<Rightarrow> subscription_status \<Rightarrow> billing_db \<Rightarrow> subscription list" where
  "list_subscriptions_by_plan p st d = filter (\<lambda>s. sub_plan s = p \<and> sub_status s = st) (subs d)"

definition list_hobby_subscriptions_due_for_reset :: "datetime \<Rightarrow> billing_db \<Rightarrow> subscription list" where
  "list_hobby_subscriptions_due_for_reset now d =
     filter (\<lambda>s. sub_plan s = HOBBY \<and> sub_status s = subscription_status.ACTIVE \<and> sub_period_end s \<le> now) (subs d)"

definition list_paid_subscriptions_active :: "billing_db \<Rightarrow> subscription list" where
  "list_paid_subscriptions_active d = filter (\<lambda>s. sub_plan s \<noteq> HOBBY \<and> sub_status s = subscription_status.ACTIVE) (subs d)"

definition list_all_active_org_ids :: "billing_db \<Rightarrow> uuid list" where
  "list_all_active_org_ids d = map sub_org_id (filter (\<lambda>s. sub_status s = subscription_status.ACTIVE) (subs d))"

definition list_paid_active_org_ids :: "billing_db \<Rightarrow> uuid list" where
  "list_paid_active_org_ids d =
     map sub_org_id (filter (\<lambda>s. sub_plan s \<noteq> HOBBY \<and> sub_status s = subscription_status.ACTIVE) (subs d))"

definition list_hobby_org_ids_due_for_reset :: "datetime \<Rightarrow> billing_db \<Rightarrow> uuid list" where
  "list_hobby_org_ids_due_for_reset now d =
     map sub_org_id (filter (\<lambda>s. sub_plan s = HOBBY \<and> sub_status s = subscription_status.ACTIVE \<and> sub_period_end s \<le> now) (subs d))"

definition advance_period :: "datetime \<Rightarrow> uuid \<Rightarrow> datetime \<Rightarrow> datetime \<Rightarrow> billing_db \<Rightarrow> billing_db" where
  "advance_period now org new_start new_end d =
     d\<lparr>subs := update_where
         (\<lambda>s. sub_org_id s = org \<and> sub_period_start s \<le> new_start \<and> sub_period_end s \<le> new_end)
         (\<lambda>s. s\<lparr>sub_period_start := new_start, sub_period_end := new_end, sub_updated_at := now\<rparr>) (subs d)\<rparr>"

section \<open>Usage records\<close>

definition fresh_usage :: "datetime \<Rightarrow> uuid \<Rightarrow> uuid \<Rightarrow> datetime \<Rightarrow> datetime \<Rightarrow> usage_record" where
  "fresh_usage now i org pstart pend =
     \<lparr>ur_id = i, ur_org_id = org, ur_period_start = pstart, ur_period_end = pend,
      trace_count = 0, trace_eval_count = 0, session_eval_count = 0,
      reported_trace_count = 0, reported_trace_eval_count = 0, reported_session_eval_count = 0,
      ur_billed = False, ur_invoice_id = None, ur_created_at = now, ur_updated_at = now\<rparr>"

definition same_period :: "uuid \<Rightarrow> datetime \<Rightarrow> usage_record \<Rightarrow> bool" where
  "same_period org pstart u \<longleftrightarrow> ur_org_id u = org \<and> ur_period_start u = pstart"

definition create_usage_record ::
    "datetime \<Rightarrow> uuid \<Rightarrow> datetime \<Rightarrow> datetime \<Rightarrow> (error, billing_db, usage_record) exec" where
  "create_usage_record now org pstart pend = (\<lambda>d.
     let row = fresh_usage now (next_id d) org pstart pend in
     if list_ex (same_period org pstart) (usages d) then (Inl IntegrityError, d)
     else (Inr row, d\<lparr>usages := usages d @ [row], next_id := Suc (next_id d)\<rparr>))"

definition get_current_usage_record ::
    "uuid \<Rightarrow> datetime \<Rightarrow> (error, billing_db, usage_record option) exec" where
  "get_current_usage_record org pstart =
     (\<lambda>d. (scalar_one_or_none (filter (same_period org pstart) (usages d)), d))"

definition get_or_create_usage_record ::
    "datetime \<Rightarrow> uuid \<Rightarrow> datetime \<Rightarrow> datetime \<Rightarrow> (error, billing_db, usage_record) exec" where
  "get_or_create_usage_record now org pstart pend =
     bindE (get_current_usage_record org pstart) (\<lambda>existing.
     case existing of
       Some u \<Rightarrow> ret u
     | None \<Rightarrow> create_usage_record now org pstart pend)"

definition get_unbilled_usage_records :: "uuid \<Rightarrow> billing_db \<Rightarrow> usage_record list" where
  "get_unbilled_usage_records org d =
     sort_key ur_period_start (filter (\<lambda>u. ur_org_id u = org \<and> \<not> ur_billed u) (usages d))"

definition set_counters :: "datetime \<Rightarrow> int \<Rightarrow> int \<Rightarrow> int \<Rightarrow> usage_record \<Rightarrow> usage_record" where
  "set_counters now t e s u =
     (let u' = u\<lparr>trace_count := t, trace_eval_count := e, session_eval_count := s\<rparr>
      in if u' = u then u else u'\<lparr>ur_updated_at := now\<rparr>)"

definition upsert_usage_counters ::
    "datetime \<Rightarrow> uuid \<Rightarrow> datetime \<Rightarrow> datetime \<Rightarrow> int \<Rightarrow> int \<Rightarrow> int \<Rightarrow> (error, billing_db, unit) exec" where
  "upsert_usage_counters now org pstart pend t e s =
     bindE (get_current_usage_record org pstart) (\<lambda>row.
     bindE (case row of
              None \<Rightarrow> bindE (create_usage_record now org pstart pend) (\<lambda>_. ret ())
            | Some _ \<Rightarrow> ret ()) (\<lambda>_.
     modifyE (\<lambda>d. d\<lparr>usages := update_where (same_period org pstart) (set_counters now t e s) (usages d)\<rparr>)))"

definition mark_billed :: "datetime \<Rightarrow> uuid \<Rightarrow> datetime \<Rightarrow> string option \<Rightarrow> billing_db \<Rightarrow> billing_db" where
  "mark_billed now org pstart invoice d =
     d\<lparr>usages := update_where (same_period org pstart)
        (\<lambda>u. u\<lparr>ur_billed := True, ur_invoice_id := invoice, ur_updated_at := now\<rparr>) (usages d)\<rparr>"

fun set_reported :: "(usage_category \<Rightarrow> int) \<Rightarrow> usage_record \<Rightarrow> usage_record" where
  "set_reported w u = u\<lparr>reported_trace_count := w TRACES, reported_trace_eval_count := w TRACE_EVALS,
     reported_session_eval_count := w SESSION_EVALS\<rparr>"

definition update_reported_usage ::
    "datetime \<Rightarrow> uuid \<Rightarrow> datetime \<Rightarrow> (usage_category \<Rightarrow> int) \<Rightarrow> billing_db \<Rightarrow> billing_db" where
  "update_reported_usage now org pstart w d =
     d\<lparr>usages := update_where (same_period org pstart)
        (\<lambda>u. (set_reported w u)\<lparr>ur_updated_at := now\<rparr>) (usages d)\<rparr>"

definition list_usage_history :: "uuid \<Rightarrow> nat \<Rightarrow> billing_db \<Rightarrow> usage_record list" where
  "list_usage_history org lmt d =
     take lmt (sort_key (\<lambda>u. - ur_period_start u) (filter (\<lambda>u. ur_org_id u = org) (usages d)))"

section \<open>Billing reports\<close>

definition lock_usage :: "uuid \<Rightarrow> datetime \<Rightarrow> (error, billing_db, usage_record option) exec" where
  "lock_usage org pstart = get_current_usage_record org pstart"

definition list_for_usage :: "uuid \<Rightarrow> billing_db \<Rightarrow> billing_report list" where
  "list_for_usage u d =
     sort_key (\<lambda>r. (br_created_at r, br_id r)) (filter (\<lambda>r. br_usage_id r = u) (reports d))"

text \<open>\<open>create(**fields)\<close>: the identifier is the caller's \<open>uuid4()\<close>.\<close>

definition create_report :: "billing_report \<Rightarrow> (error, billing_db, billing_report) exec" where
  "create_report row = (\<lambda>d.
     if list_ex (\<lambda>r. br_id r = br_id row \<or>
          br_usage_id r = br_usage_id row \<and> br_closing_invoice r \<noteq> None \<and>
          br_closing_invoice r = br_closing_invoice row) (reports d)
     then (Inl IntegrityError, d)
     else (Inr row, d\<lparr>reports := reports d @ [row]\<rparr>))"

definition lock_report :: "uuid \<Rightarrow> (error, billing_db, billing_report option) exec" where
  "lock_report i = (\<lambda>d. (scalar_one_or_none (filter (\<lambda>r. br_id r = i) (reports d)), d))"

definition update_report ::
    "datetime \<Rightarrow> uuid \<Rightarrow> (billing_report \<Rightarrow> billing_report) \<Rightarrow> billing_db \<Rightarrow> billing_db" where
  "update_report now i f d =
     d\<lparr>reports := update_where (\<lambda>r. br_id r = i) (\<lambda>r. (f r)\<lparr>br_updated_at := now\<rparr>) (reports d)\<rparr>"

text \<open>The watermark that \<open>finish\<close> computes for one category.\<close>

definition confirmed_count :: "usage_category \<Rightarrow> usage_record \<Rightarrow> billing_report \<Rightarrow> billing_report list \<Rightarrow> int" where
  "confirmed_count c u report rs =
     max_list (reported c u)
       (map (snapshot c) (filter (\<lambda>r. br_status r = Reported \<or> br_id r = br_id report) rs))"

definition unresolved_counts :: "usage_category \<Rightarrow> billing_report list \<Rightarrow> int list" where
  "unresolved_counts c rs =
     List.map_filter (\<lambda>r. case map_of (br_requests r) c of
        Some rq \<Rightarrow> if br_item_ids r c = None then Some (rq_from_count rq) else None
      | None \<Rightarrow> None) rs"

definition watermark :: "usage_category \<Rightarrow> usage_record \<Rightarrow> billing_report \<Rightarrow> billing_report list \<Rightarrow> int" where
  "watermark c u report rs =
     max (reported c u) (min_list_from (confirmed_count c u report rs) (unresolved_counts c rs))"

definition finish_report :: "datetime \<Rightarrow> billing_report \<Rightarrow> (error, billing_db, unit) exec" where
  "finish_report now report = (\<lambda>d.
     case filter (\<lambda>u. ur_id u = br_usage_id report) (usages d) of
       [u] \<Rightarrow>
         (let rs = list_for_usage (br_usage_id report) d;
              d1 = d\<lparr>usages := update_where (\<lambda>u'. ur_id u' = br_usage_id report)
                    (\<lambda>u'. (set_reported (\<lambda>c. watermark c u report rs) u')\<lparr>ur_updated_at := now\<rparr>) (usages d)\<rparr>
          in (Inr (), update_report now (br_id report)
                (\<lambda>r. r\<lparr>br_status := Reported, br_last_error := None\<rparr>) d1))
     | [] \<Rightarrow> (Inl NoResultFound, d)
     | _ \<Rightarrow> (Inl MultipleResultsFound, d))"

definition pending_ids :: "nat \<Rightarrow> billing_db \<Rightarrow> uuid list" where
  "pending_ids lmt d =
     take lmt (map br_id (sort_key (\<lambda>r. (br_updated_at r, br_id r))
       (filter (\<lambda>r. br_status r = Pending) (reports d))))"

definition recent_closures :: "datetime \<Rightarrow> billing_db \<Rightarrow> (uuid \<times> datetime \<times> datetime \<times> uuid) list" where
  "recent_closures since d =
     take 200 (List.maps (\<lambda>r. map (\<lambda>u. (ur_org_id u, ur_period_start u, ur_period_end u, br_id r))
         (filter (\<lambda>u. ur_id u = br_usage_id r) (usages d)))
       (sort_key (\<lambda>r. (br_updated_at r, br_id r))
         (filter (\<lambda>r. br_closing_invoice r \<noteq> None \<and> since \<le> br_created_at r) (reports d))))"

end
