(* ===== verification/BillingReporting.thy ===== *)
theory BillingReporting
  imports BillingRepo
begin

text \<open>
  \<open>services/billing_reporting_service.py\<close>: reserving overage charges in the database
  (\<open>stage\<close>) and delivering them to Stripe (\<open>deliver\<close>, \<open>deliver_safely\<close>).

  The state is the committed database, the session's view of it, the Redis store and the
  environment. The environment is a parameter: the wall clock and the Stripe API are code
  outside the repository, so they are the fields of a record of operations on an abstract
  environment state, and every call may change that state and may fail.
\<close>

record 's bworld =
  committed :: billing_db
  db :: billing_db
  redis :: redis
  env :: 's

record stripe_item =
  it_id :: string
  it_report_id :: "uuid option"
  it_category :: "usage_category option"
  it_amount :: int
  it_currency :: string

record stripe_period_item =
  si_price_id :: "string option"
  si_period_start :: "int option"
  si_period_end :: "int option"

text \<open>The Stripe calls of the billing services, and the clock.\<close>

record 's stripe_api =
  api_now :: "'s \<Rightarrow> datetime \<times> 's"
  api_invoice_status :: "string \<Rightarrow> 's \<Rightarrow> (error + string) \<times> 's"
  api_item_create :: "bill_request \<Rightarrow> 's \<Rightarrow> (error + stripe_item) \<times> 's"
  api_item_list :: "string \<Rightarrow> int \<Rightarrow> 's \<Rightarrow> (error + stripe_item list) \<times> 's"
  api_sub_items :: "string \<Rightarrow> 's \<Rightarrow> (error + stripe_period_item list) \<times> 's"

section \<open>Sessions\<close>

definition in_db :: "(error, billing_db, 'a) exec \<Rightarrow> (error, 's bworld, 'a) exec" where
  "in_db m = (\<lambda>w. case m (db w) of (r, d) \<Rightarrow> (r, w\<lparr>db := d\<rparr>))"

definition in_env :: "('s \<Rightarrow> (error + 'a) \<times> 's) \<Rightarrow> (error, 's bworld, 'a) exec" where
  "in_env m = (\<lambda>w. case m (env w) of (r, x) \<Rightarrow> (r, w\<lparr>env := x\<rparr>))"

definition utcnow :: "'s stripe_api \<Rightarrow> (error, 's bworld, datetime) exec" where
  "utcnow api = in_env (\<lambda>x. case api_now api x of (t, y) \<Rightarrow> (Inr t, y))"

definition commit :: "(error, 's bworld, unit) exec" where
  "commit = modifyE (\<lambda>w. w\<lparr>committed := db w\<rparr>)"

definition rollback :: "(error, 's bworld, unit) exec" where
  "rollback = modifyE (\<lambda>w. w\<lparr>db := committed w\<rparr>)"

definition modify_db :: "(billing_db \<Rightarrow> billing_db) \<Rightarrow> (error, 's bworld, unit) exec" where
  "modify_db f = modifyE (\<lambda>w. w\<lparr>db := f (db w)\<rparr>)"

text \<open>A missing or empty optional text is false where the code tests it.\<close>

definition truthy :: "string option \<Rightarrow> string option" where
  "truthy x = (case x of Some [] \<Rightarrow> None | _ \<Rightarrow> x)"

section \<open>Reserving charges\<close>

definition plan_pricing :: "subscription_plan \<Rightarrow> pricing" where
  "plan_pricing p = \<lparr>unit_price = OVERAGE_UNIT_PRICE,
     base_units = (\<lambda>c. or_zero (plan_base c (get_plan_config p)))\<rparr>"

definition reserved_count :: "usage_category \<Rightarrow> usage_record \<Rightarrow> billing_report list \<Rightarrow> int" where
  "reserved_count c usage previous = max_list (reported c usage) (map (snapshot c) previous)"

definition snapshot_count :: "usage_category \<Rightarrow> usage_record \<Rightarrow> billing_report list \<Rightarrow> int" where
  "snapshot_count c usage previous = max (reserved_count c usage previous) (counter c usage)"

definition overage_units :: "int \<Rightarrow> int \<Rightarrow> int \<Rightarrow> int" where
  "overage_units base from_c to_c = max 0 (to_c - base) - max 0 (from_c - base)"

definition charge_amount :: "rat \<Rightarrow> int \<Rightarrow> int" where
  "charge_amount price units = quantize_half_up (price * of_int units * 100)"

definition stage_requests ::
    "subscription \<Rightarrow> usage_record \<Rightarrow> billing_report list \<Rightarrow> pricing \<Rightarrow> string \<Rightarrow>
     string option \<Rightarrow> string option \<Rightarrow> uuid \<Rightarrow> (usage_category \<times> bill_request) list" where
  "stage_requests sub usage previous p customer subscr invoice report_id =
     List.map_filter (\<lambda>(c, description).
       let from_c = reserved_count c usage previous; to_c = snapshot_count c usage previous;
           units = overage_units (base_units p c) from_c to_c
       in if units \<le> 0 then None else Some (c,
         \<lparr>rq_customer = customer, rq_currency = ''usd'',
          rq_amount = charge_amount (unit_price p) units,
          rq_description = (description, units, unit_price p, date_of (ur_period_start usage), date_of (ur_period_end usage)),
          rq_period = (ur_period_start usage div 1000000, ur_period_end usage div 1000000),
          rq_report_id = report_id, rq_category = c, rq_org_id = sub_org_id sub,
          rq_from_count = from_c, rq_to_count = to_c,
          rq_key = ReportKey report_id c 0,
          rq_subscription = truthy subscr, rq_invoice = truthy invoice\<rparr>)) COUNTERS"

text \<open>The pricing, customer and subscription that the first report of a usage record froze.\<close>

definition report_pricing :: "subscription \<Rightarrow> billing_report list \<Rightarrow> pricing" where
  "report_pricing sub previous =
     (case previous of r # _ \<Rightarrow> br_pricing r | [] \<Rightarrow> plan_pricing (sub_plan sub))"

definition report_customer :: "subscription \<Rightarrow> billing_report list \<Rightarrow> string option" where
  "report_customer sub previous = (case previous of r # _ \<Rightarrow> Some (br_customer r) | [] \<Rightarrow> sub_customer sub)"

definition report_subscription :: "subscription \<Rightarrow> billing_report list \<Rightarrow> string option" where
  "report_subscription sub previous = (case previous of r # _ \<Rightarrow> br_subscription r | [] \<Rightarrow> sub_stripe_id sub)"

definition new_report ::
    "datetime \<Rightarrow> subscription \<Rightarrow> usage_record \<Rightarrow> billing_report list \<Rightarrow> string \<Rightarrow> string option \<Rightarrow>
     string option \<Rightarrow> uuid \<Rightarrow> billing_report" where
  "new_report now sub usage previous customer invoice_id closing_invoice_id report_id =
     (let p = report_pricing sub previous; subscr = report_subscription sub previous;
          requests = stage_requests sub usage previous p customer subscr invoice_id report_id
      in \<lparr>br_id = report_id, br_usage_id = ur_id usage, br_customer = customer,
          br_subscription = subscr, br_closing_invoice = closing_invoice_id,
          snapshot_trace_count = snapshot_count TRACES usage previous,
          snapshot_trace_eval_count = snapshot_count TRACE_EVALS usage previous,
          snapshot_session_eval_count = snapshot_count SESSION_EVALS usage previous,
          br_pricing = p, br_requests = requests,
          br_attempted_at = Map.empty, br_item_ids = Map.empty,
          br_status = (if requests = [] then Reported else Pending),
          br_last_error = None, br_created_at = now, br_updated_at = now\<rparr>)"

text \<open>The last part of \<open>stage\<close>: inserting the report once none exists for the invoice.\<close>

definition insert_report ::
    "datetime \<Rightarrow> subscription \<Rightarrow> usage_record \<Rightarrow> billing_report list \<Rightarrow> string option \<Rightarrow> string option \<Rightarrow>
     (error, billing_db, billing_report option) exec" where
  "insert_report now sub usage previous invoice_id closing_invoice_id =
     (if \<not> pay_as_you_go (get_plan_config (sub_plan sub)) \<and> previous = [] then ret None else
      case truthy (report_customer sub previous) of
        None \<Rightarrow> raise (PandaProbeError ''Cannot reserve billing usage without its Stripe customer.'')
      | Some cust \<Rightarrow>
          bindE (getsE next_id) (\<lambda>report_id.
          bindE (modifyE (\<lambda>d. d\<lparr>next_id := Suc (next_id d)\<rparr>)) (\<lambda>_.
          let row = new_report now sub usage previous cust invoice_id closing_invoice_id report_id
          in if br_requests row = [] \<and> truthy closing_invoice_id = None then ret None
             else bindE (create_report row) (\<lambda>r. ret (Some r)))))"

definition stage ::
    "datetime \<Rightarrow> subscription \<Rightarrow> datetime \<Rightarrow> string option \<Rightarrow> string option \<Rightarrow> bool \<Rightarrow>
     (error, billing_db, billing_report option) exec" where
  "stage now sub pstart invoice_id closing_invoice_id allow_closed =
     bindE (lock_usage (sub_org_id sub) pstart) (\<lambda>found.
     case found of
       None \<Rightarrow> ret None
     | Some usage \<Rightarrow>
       if ur_billed usage \<and> \<not> allow_closed then ret None else
       bindE (getsE (list_for_usage (ur_id usage))) (\<lambda>previous.
       case (if truthy closing_invoice_id = None then None
             else find (\<lambda>r. br_closing_invoice r = closing_invoice_id) previous) of
         Some existing \<Rightarrow> ret (Some existing)
       | None \<Rightarrow> insert_report now sub usage previous invoice_id closing_invoice_id))"

section \<open>Delivering a report\<close>

definition SAFE_RETRY_AGE :: int where
  "SAFE_RETRY_AGE = seconds (23 * 3600)"

datatype 'a loop = Continue | Return 'a

definition review :: "datetime \<Rightarrow> billing_report \<Rightarrow> string \<Rightarrow> (error, 's bworld, unit) exec" where
  "review now report reason =
     bindE (modify_db (update_report now (br_id report)
       (\<lambda>r. r\<lparr>br_status := NeedsReview, br_last_error := Some reason\<rparr>))) (\<lambda>_. commit)"

text \<open>
  \<open>_find_existing\<close>: the first listed item, among the first thousand, that carries the
  report and category in its metadata; a different amount or currency is refused.
\<close>

definition find_existing ::
    "'s stripe_api \<Rightarrow> billing_report \<Rightarrow> usage_category \<Rightarrow> bill_request \<Rightarrow> datetime \<Rightarrow>
     (error, 's bworld, stripe_item option) exec" where
  "find_existing api report c rq attempted =
     bindE (in_env (api_item_list api (br_customer report) (attempted div 1000000 - 60))) (\<lambda>candidates.
     case find (\<lambda>it. it_report_id it = Some (br_id report) \<and> it_category it = Some c) (take 1000 candidates) of
       None \<Rightarrow> ret None
     | Some it \<Rightarrow>
         if it_amount it \<noteq> rq_amount rq \<or> it_currency it \<noteq> ''usd''
         then raise (PandaProbeError ''Recovered Stripe item does not match the reserved charge.'')
         else ret (Some it))"

definition next_request :: "billing_report \<Rightarrow> (usage_category \<times> bill_request) option" where
  "next_request report = find (\<lambda>(c, _). br_item_ids report c = None) (br_requests report)"

definition set_request ::
    "usage_category \<Rightarrow> bill_request \<Rightarrow> datetime option \<Rightarrow> billing_report \<Rightarrow> billing_report" where
  "set_request c rq attempted r =
     r\<lparr>br_requests := AList.update c rq (br_requests r), br_attempted_at := (br_attempted_at r)(c := attempted)\<rparr>"

text \<open>The branch of \<open>deliver\<close> for a request that was never attempted.\<close>

definition continuing :: "billing_report \<Rightarrow> subscription option \<Rightarrow> bool" where
  "continuing report sub = (case sub of
       None \<Rightarrow> False
     | Some s \<Rightarrow> sub_stripe_id s = br_subscription report \<and> sub_status s \<noteq> CANCELED)"

definition destination :: "'s stripe_api \<Rightarrow> bill_request \<Rightarrow> (error, 's bworld, bill_request) exec" where
  "destination api rq = (case rq_invoice rq of
       None \<Rightarrow> ret rq
     | Some i \<Rightarrow> bindE (in_env (api_invoice_status api i)) (\<lambda>st.
         ret (if st \<noteq> ''draft'' then rq\<lparr>rq_invoice := None\<rparr> else rq)))"

definition collectable :: "billing_report \<Rightarrow> bill_request \<Rightarrow> (error, 's bworld, bool) exec" where
  "collectable report params =
     (if rq_invoice params = None \<and> truthy (br_subscription report) \<noteq> None
      then bindE (in_db (get_subscription_by_org (rq_org_id params))) (\<lambda>sub. ret (continuing report sub))
      else ret True)"

definition first_attempt ::
    "'s stripe_api \<Rightarrow> datetime \<Rightarrow> billing_report \<Rightarrow> usage_category \<Rightarrow> bill_request \<Rightarrow>
     (error, 's bworld, bool loop) exec" where
  "first_attempt api now report c rq =
     bindE (destination api rq) (\<lambda>params.
     bindE (collectable report params) (\<lambda>ok.
     if \<not> ok then
       bindE (review now report ''No continuing subscription to collect carryover; reconcile explicitly.'')
         (\<lambda>_. ret (Return False))
     else
       bindE (modify_db (update_report now (br_id report) (set_request c params (Some now)))) (\<lambda>_.
       bindE commit (\<lambda>_. ret Continue))))"

text \<open>
  Sending an attempted request: \<open>Inl ctl\<close> when the rejection turned it into a carryover,
  \<open>Inr item\<close> when Stripe returned the item.
\<close>

fun carryover_key :: "idempotency_key \<Rightarrow> idempotency_key" where
  "carryover_key (ReportKey i c n) = ReportKey i c (Suc n)"

definition send_request ::
    "'s stripe_api \<Rightarrow> datetime \<Rightarrow> billing_report \<Rightarrow> usage_category \<Rightarrow> bill_request \<Rightarrow>
     (error, 's bworld, bool loop + stripe_item) exec" where
  "send_request api now report c rq =
     catchE (bindE (in_env (api_item_create api rq)) (\<lambda>it. ret (Inr it)))
       (\<lambda>exc. case exc of
          StripeInvalidRequest err_code err_param \<Rightarrow>
            (case rq_invoice rq of
               Some i \<Rightarrow>
                 if err_code = Some ''invoice_not_editable'' \<or> err_param = Some ''invoice'' then
                   bindE (in_env (api_invoice_status api i)) (\<lambda>st.
                   if st \<noteq> ''draft'' then
                     bindE (modify_db (update_report now (br_id report)
                       (set_request c (rq\<lparr>rq_invoice := None, rq_key := carryover_key (rq_key rq)\<rparr>) None))) (\<lambda>_.
                     bindE commit (\<lambda>_. ret (Inl Continue)))
                   else raise exc)
                 else raise exc
             | None \<Rightarrow> raise exc)
        | _ \<Rightarrow> raise exc)"

text \<open>Recovering an item after the idempotency window.\<close>

definition recover_request ::
    "'s stripe_api \<Rightarrow> datetime \<Rightarrow> billing_report \<Rightarrow> usage_category \<Rightarrow> bill_request \<Rightarrow> datetime \<Rightarrow>
     (error, 's bworld, bool loop + stripe_item) exec" where
  "recover_request api now report c rq attempted =
     bindE (catchE
        (bindE (find_existing api report c rq attempted) (\<lambda>found. ret (Inr found)))
        (\<lambda>exc. if is_pandaprobe_error exc then ret (Inl exc) else raise exc)) (\<lambda>res.
     case res of
       Inl exc \<Rightarrow>
         bindE (review now report (error_text exc)) (\<lambda>_. ret (Inl (Return False)))
     | Inr None \<Rightarrow>
         bindE (review now report ''Stripe outcome unknown beyond safe idempotency window; do not blindly charge again.'')
           (\<lambda>_. ret (Inl (Return False)))
     | Inr (Some it) \<Rightarrow> ret (Inr it))"

text \<open>The end of an iteration: the identifier of the item is stored and committed.\<close>

definition record_item ::
    "datetime \<Rightarrow> uuid \<Rightarrow> usage_category \<Rightarrow> bool loop + stripe_item \<Rightarrow> (error, 's bworld, bool loop) exec" where
  "record_item now report_id c res = (case res of
       Inl ctl \<Rightarrow> ret ctl
     | Inr it \<Rightarrow>
         bindE (modify_db (update_report now report_id
           (\<lambda>r. r\<lparr>br_item_ids := (br_item_ids r)(c \<mapsto> it_id it)\<rparr>))) (\<lambda>_.
         bindE commit (\<lambda>_. ret Continue)))"

text \<open>One iteration of the loop of \<open>deliver\<close>.\<close>

definition deliver_iter :: "'s stripe_api \<Rightarrow> uuid \<Rightarrow> (error, 's bworld, bool loop) exec" where
  "deliver_iter api report_id =
     bindE (in_db (lock_report report_id)) (\<lambda>found.
     case found of
       None \<Rightarrow> bindE rollback (\<lambda>_. ret (Return False))
     | Some report \<Rightarrow>
       if br_status report \<noteq> Pending then bindE rollback (\<lambda>_. ret (Return False))
       else
         bindE (utcnow api) (\<lambda>now.
         case next_request report of
           None \<Rightarrow>
             bindE (in_db (finish_report now report)) (\<lambda>_.
             bindE commit (\<lambda>_. ret (Return True)))
         | Some (c, rq) \<Rightarrow>
             (case br_attempted_at report c of
                None \<Rightarrow> first_attempt api now report c rq
              | Some attempted \<Rightarrow>
                  bindE (if SAFE_RETRY_AGE \<le> now - attempted
                         then recover_request api now report c rq attempted
                         else send_request api now report c rq) (record_item now report_id c))))"

fun deliver_loop :: "nat \<Rightarrow> 's stripe_api \<Rightarrow> uuid \<Rightarrow> (error, 's bworld, bool option) exec" where
  "deliver_loop 0 api i = ret None"
| "deliver_loop (Suc fuel) api i =
     bindE (deliver_iter api i) (\<lambda>ctl. case ctl of
       Return b \<Rightarrow> ret (Some b)
     | Continue \<Rightarrow> deliver_loop fuel api i)"

text \<open>Thirteen iterations are enough for three categories; see \<open>deliver_returns\<close>.\<close>

definition deliver :: "'s stripe_api \<Rightarrow> uuid \<Rightarrow> (error, 's bworld, bool option) exec" where
  "deliver api i = deliver_loop 13 api i"

definition deliver_safely :: "'s stripe_api \<Rightarrow> uuid \<Rightarrow> (error, 's bworld, bool option) exec" where
  "deliver_safely api i =
     catchE (deliver api i) (\<lambda>exc.
       bindE rollback (\<lambda>_.
       bindE (in_db (lock_report i)) (\<lambda>found.
       bindE (case found of
                Some report \<Rightarrow>
                  if br_status report = Pending then
                    bindE (utcnow api) (\<lambda>now.
                    bindE (modify_db (update_report now (br_id report)
                      (\<lambda>r. r\<lparr>br_last_error := Some (take 2000 (error_text exc))\<rparr>))) (\<lambda>_. commit))
                  else rollback
              | None \<Rightarrow> rollback) (\<lambda>_.
       ret (Some False)))))"

end
