(* ===== verification/BillingLedger.thy ===== *)
theory BillingLedger
  imports BillingReporting
begin

text \<open>
  What the billing tables promise. \<open>billing_wf\<close> collects the integrity constraints and the
  freshness of identifiers. \<open>ledger_ok\<close> is the contract of the reservations: seen from one
  usage record and one category, the reports form a ledger in which every usage unit above
  the included amount is reserved by exactly one request up to the highest snapshot, and
  the reported watermark never passes that snapshot. Every operation that writes these
  tables keeps both.
\<close>

section \<open>Well-formed tables\<close>

definition billing_wf :: "billing_db \<Rightarrow> bool" where
  "billing_wf d \<longleftrightarrow>
     unique_subs (subs d)
   \<and> distinct (map (\<lambda>u. (ur_org_id u, ur_period_start u)) (usages d))
   \<and> distinct (map ur_id (usages d)) \<and> (\<forall>u \<in> set (usages d). ur_id u < next_id d)
   \<and> distinct (map br_id (reports d)) \<and> (\<forall>r \<in> set (reports d). br_id r < next_id d)
   \<and> (\<forall>r \<in> set (reports d). br_usage_id r < next_id d \<and> distinct (map fst (br_requests r)))"

lemma billing_wf_subs: "billing_wf d \<Longrightarrow> unique_subs rows \<Longrightarrow> billing_wf (d\<lparr>subs := rows\<rparr>)"
  by (simp add: billing_wf_def)

lemma billing_wf_update_usages:
  assumes "billing_wf d"
    and "\<And>u. P u \<Longrightarrow> ur_id (f u) = ur_id u \<and> ur_org_id (f u) = ur_org_id u \<and> ur_period_start (f u) = ur_period_start u"
  shows "billing_wf (d\<lparr>usages := update_where P f (usages d)\<rparr>)"
proof -
  have "map ur_id (update_where P f (usages d)) = map ur_id (usages d)"
    "map (\<lambda>u. (ur_org_id u, ur_period_start u)) (update_where P f (usages d)) =
     map (\<lambda>u. (ur_org_id u, ur_period_start u)) (usages d)"
    using assms(2) by (auto intro!: map_update_where)
  moreover have "\<forall>u \<in> set (update_where P f (usages d)). ur_id u < next_id d"
    using assms by (auto simp: billing_wf_def set_update_where)
  ultimately show ?thesis using assms(1) by (simp add: billing_wf_def)
qed

lemma billing_wf_update_report:
  assumes "billing_wf d"
    and "\<And>r. r \<in> set (reports d) \<Longrightarrow> br_id (f r) = br_id r"
    and "\<And>r. r \<in> set (reports d) \<Longrightarrow> br_usage_id (f r) = br_usage_id r"
    and "\<And>r. distinct (map fst (br_requests r)) \<Longrightarrow> distinct (map fst (br_requests (f r)))"
  shows "billing_wf (update_report now i f d)"
proof -
  let ?g = "\<lambda>r. (f r)\<lparr>br_updated_at := now\<rparr>"
  have "map br_id (update_where (\<lambda>r. br_id r = i) ?g (reports d)) = map br_id (reports d)"
    using assms(2) by (simp add: update_where_def)
  moreover have "\<forall>r \<in> set (update_where (\<lambda>r. br_id r = i) ?g (reports d)).
      br_id r < next_id d \<and> br_usage_id r < next_id d \<and> distinct (map fst (br_requests r))"
    using assms by (auto simp: billing_wf_def set_update_where)
  ultimately show ?thesis using assms(1) by (simp add: billing_wf_def update_report_def)
qed

lemma billing_wf_next_id: "billing_wf d \<Longrightarrow> billing_wf (d\<lparr>next_id := Suc (next_id d)\<rparr>)"
  by (auto simp: billing_wf_def)

lemma billing_wf_add_report:
  assumes "billing_wf d" "br_id row < next_id d" "br_usage_id row < next_id d"
    and "distinct (map fst (br_requests row))" "br_id row \<notin> br_id ` set (reports d)"
  shows "billing_wf (d\<lparr>reports := reports d @ [row]\<rparr>)"
  using assms by (simp add: billing_wf_def)

lemma create_report_InrD:
  assumes "create_report row d = (Inr r, d')"
  shows "r = row" "d' = d\<lparr>reports := reports d @ [row]\<rparr>" "br_id row \<notin> br_id ` set (reports d)"
  using assms by (auto simp: create_report_def list_ex_iff split: if_splits)

lemma billing_wf_add_usage:
  assumes wf: "billing_wf d" and new: "\<forall>u \<in> set (usages d). \<not> same_period org s u"
  shows "billing_wf (d\<lparr>usages := usages d @ [fresh_usage now (next_id d) org s e], next_id := Suc (next_id d)\<rparr>)"
proof -
  have "next_id d \<notin> ur_id ` set (usages d)" "(org, s) \<notin> (\<lambda>u. (ur_org_id u, ur_period_start u)) ` set (usages d)"
    using wf new by (auto simp: billing_wf_def same_period_def)
  then show ?thesis using wf by (auto simp: billing_wf_def fresh_usage_def less_SucI)
qed

lemma billing_wf_create_usage:
  assumes "billing_wf d" "create_usage_record now org s e d = (x, d')"
  shows "billing_wf d'"
  using assms billing_wf_add_usage[OF assms(1), of org s now e]
  by (auto simp: create_usage_record_def list_ex_iff Let_def split: if_splits)

lemma get_current_usage_unique:
  assumes "billing_wf d" "get_current_usage_record org s d = (Inr (Some u), d')"
  shows "d' = d" "u \<in> set (usages d)" "ur_org_id u = org" "ur_period_start u = s"
proof -
  from assms(2) have f: "filter (same_period org s) (usages d) = [u]" and "d' = d"
    by (auto simp: get_current_usage_record_def dest: scalar_one_or_none_SomeD)
  then show "d' = d" by simp
  from f have "u \<in> set (filter (same_period org s) (usages d))" by simp
  then show "u \<in> set (usages d)" "ur_org_id u = org" "ur_period_start u = s"
    by (auto simp: same_period_def)
qed

lemma get_current_usage_found:
  assumes "billing_wf d" "u \<in> set (usages d)" "same_period org s u"
  shows "get_current_usage_record org s d = (Inr (Some u), d)"
proof -
  let ?key = "\<lambda>u. (ur_org_id u, ur_period_start u)"
  have "filter (\<lambda>v. ?key v = ?key u) (usages d) = [u]"
    using assms(1,2) by (intro filter_key_unique) (auto simp: billing_wf_def)
  moreover have "(\<lambda>v. ?key v = ?key u) = same_period org s"
    using assms(3) by (auto simp: same_period_def fun_eq_iff)
  ultimately show ?thesis by (simp add: get_current_usage_record_def)
qed

lemma get_current_usage_total:
  assumes "billing_wf d"
  shows "\<exists>x. get_current_usage_record org s d = (Inr x, d)"
proof -
  have "distinct (map (\<lambda>u. (ur_org_id u, ur_period_start u)) (usages d))"
    using assms by (simp add: billing_wf_def)
  then have "\<exists>x. scalar_one_or_none (filter (\<lambda>u. (ur_org_id u, ur_period_start u) = (org, s)) (usages d)) = Inr x"
    by (rule scalar_one_or_none_key)
  moreover have "(\<lambda>u. (ur_org_id u, ur_period_start u) = (org, s)) = same_period org s"
    by (auto simp: same_period_def fun_eq_iff)
  ultimately show ?thesis by (auto simp: get_current_usage_record_def)
qed

lemma reports_for_usage: "set (list_for_usage u d) = {r \<in> set (reports d). br_usage_id r = u}"
  by (auto simp: list_for_usage_def)

section \<open>The ledger\<close>

text \<open>How many requests of a report reserve usage unit \<open>n\<close> of a category: none or one.\<close>

definition covers :: "usage_category \<Rightarrow> int \<Rightarrow> billing_report \<Rightarrow> nat" where
  "covers c n r = (case map_of (br_requests r) c of
       None \<Rightarrow> 0
     | Some rq \<Rightarrow> if rq_from_count rq < n \<and> n \<le> rq_to_count rq then 1 else 0)"

definition reports_of :: "uuid \<Rightarrow> billing_db \<Rightarrow> billing_report list" where
  "reports_of u d = filter (\<lambda>r. br_usage_id r = u) (reports d)"

definition times_reserved :: "usage_category \<Rightarrow> int \<Rightarrow> uuid \<Rightarrow> billing_db \<Rightarrow> nat" where
  "times_reserved c n u d = sum_list (map (covers c n) (reports_of u d))"

text \<open>The highest reserved count, and the included units the reports were priced with.\<close>

definition high_mark :: "usage_category \<Rightarrow> uuid \<Rightarrow> billing_db \<Rightarrow> int" where
  "high_mark c u d = max_list 0 (map (snapshot c) (reports_of u d))"

definition ledger_base :: "usage_category \<Rightarrow> uuid \<Rightarrow> billing_db \<Rightarrow> int" where
  "ledger_base c u d = (case reports_of u d of [] \<Rightarrow> 0 | r # _ \<Rightarrow> base_units (br_pricing r) c)"

definition ledger_at :: "usage_category \<Rightarrow> uuid \<Rightarrow> billing_db \<Rightarrow> bool" where
  "ledger_at c u d \<longleftrightarrow>
     (\<exists>p. \<forall>r \<in> set (reports_of u d). br_pricing r = p)
   \<and> 0 \<le> ledger_base c u d
   \<and> (\<forall>n > ledger_base c u d. times_reserved c n u d = (if n \<le> high_mark c u d then 1 else 0))"

definition ledger_ok :: "billing_db \<Rightarrow> bool" where
  "ledger_ok d \<longleftrightarrow> (\<forall>u c. ledger_at c u d)
     \<and> (\<forall>x \<in> set (usages d). \<forall>c. 0 \<le> reported c x \<and> reported c x \<le> high_mark c (ur_id x) d)"

definition billing_inv :: "billing_db \<Rightarrow> bool" where
  "billing_inv d \<longleftrightarrow> billing_wf d \<and> ledger_ok d"

text \<open>The parts of a report that a ledger depends on.\<close>

definition same_ledger_entry :: "billing_report \<Rightarrow> billing_report \<Rightarrow> bool" where
  "same_ledger_entry r r' \<longleftrightarrow> br_id r = br_id r' \<and> br_usage_id r = br_usage_id r' \<and> br_pricing r = br_pricing r'
     \<and> (\<forall>c. snapshot c r = snapshot c r') \<and> (\<forall>c n. covers c n r = covers c n r')"

lemma ledger_map_reports:
  assumes "\<And>r. r \<in> set (reports d) \<Longrightarrow> same_ledger_entry r (g r)"
  shows "reports_of u (d\<lparr>reports := map g (reports d)\<rparr>) = map g (reports_of u d)"
    "times_reserved c n u (d\<lparr>reports := map g (reports d)\<rparr>) = times_reserved c n u d"
    "high_mark c u (d\<lparr>reports := map g (reports d)\<rparr>) = high_mark c u d"
    "ledger_base c u (d\<lparr>reports := map g (reports d)\<rparr>) = ledger_base c u d"
proof -
  have g: "br_usage_id (g r) = br_usage_id r" "br_pricing (g r) = br_pricing r"
      "snapshot c (g r) = snapshot c r" "covers c n (g r) = covers c n r" if "r \<in> set (reports d)" for r c n
    using assms[OF that] by (simp_all add: same_ledger_entry_def)
  have sub: "r \<in> set (reports d)" if "r \<in> set (reports_of u d)" for r
    using that by (simp add: reports_of_def)
  have "filter (\<lambda>r. br_usage_id r = u) (map g rs) = map g (filter (\<lambda>r. br_usage_id r = u) rs)"
    if "set rs \<subseteq> set (reports d)" for rs
    using that by (induction rs) (auto simp: g)
  then show ro: "reports_of u (d\<lparr>reports := map g (reports d)\<rparr>) = map g (reports_of u d)"
    by (simp add: reports_of_def)
  have "map (covers c n \<circ> g) (reports_of u d) = map (covers c n) (reports_of u d)"
    "map (snapshot c \<circ> g) (reports_of u d) = map (snapshot c) (reports_of u d)"
    using g sub by simp_all
  then show "times_reserved c n u (d\<lparr>reports := map g (reports d)\<rparr>) = times_reserved c n u d"
    "high_mark c u (d\<lparr>reports := map g (reports d)\<rparr>) = high_mark c u d"
    by (simp_all only: times_reserved_def high_mark_def ro map_map)
  show "ledger_base c u (d\<lparr>reports := map g (reports d)\<rparr>) = ledger_base c u d"
    using sub by (auto simp add: ledger_base_def ro g split: list.splits)
qed

lemma ledger_at_map_reports:
  assumes "ledger_at c u d" and g: "\<And>r. r \<in> set (reports d) \<Longrightarrow> same_ledger_entry r (g r)"
  shows "ledger_at c u (d\<lparr>reports := map g (reports d)\<rparr>)"
proof -
  have p: "br_pricing (g r) = br_pricing r" if "r \<in> set (reports_of u d)" for r
    using g[of r] that by (simp add: same_ledger_entry_def reports_of_def)
  show ?thesis
    using assms(1) unfolding ledger_at_def ledger_map_reports[of d g, OF g, simplified] set_map
    by (simp add: p)
qed

lemma ledger_ok_map_reports:
  assumes "ledger_ok d" and g: "\<And>r. r \<in> set (reports d) \<Longrightarrow> same_ledger_entry r (g r)"
  shows "ledger_ok (d\<lparr>reports := map g (reports d)\<rparr>)"
  using assms(1) ledger_at_map_reports[OF _ g, of _ _ d] unfolding ledger_ok_def ledger_map_reports(3)[of d g, OF g, simplified]
  by simp

lemma ledger_ok_update_report:
  assumes "ledger_ok d" and "\<And>r. r \<in> set (reports d) \<Longrightarrow> br_id r = i \<Longrightarrow> same_ledger_entry r (f r)"
  shows "ledger_ok (update_report now i f d)"
proof -
  let ?g = "\<lambda>r. if br_id r = i then (f r)\<lparr>br_updated_at := now\<rparr> else r"
  have upd: "snapshot c (r\<lparr>br_updated_at := t\<rparr>) = snapshot c r" for c r t
    by (cases c) simp_all
  have "same_ledger_entry r (?g r)" if "r \<in> set (reports d)" for r
    using assms(2)[OF that] by (auto simp: same_ledger_entry_def covers_def upd)
  from ledger_ok_map_reports[OF assms(1) this] show ?thesis
    by (simp add: update_report_def update_where_def)
qed

text \<open>Facts about the reports do not depend on the other tables.\<close>

lemma ledger_other_tables [simp]:
  "reports_of u (d\<lparr>usages := us\<rparr>) = reports_of u d" "reports_of u (d\<lparr>subs := ss\<rparr>) = reports_of u d"
  "reports_of u (d\<lparr>next_id := k\<rparr>) = reports_of u d"
  "high_mark c u (d\<lparr>usages := us\<rparr>) = high_mark c u d" "high_mark c u (d\<lparr>subs := ss\<rparr>) = high_mark c u d"
  "high_mark c u (d\<lparr>next_id := k\<rparr>) = high_mark c u d"
  "ledger_at c u (d\<lparr>usages := us\<rparr>) = ledger_at c u d" "ledger_at c u (d\<lparr>subs := ss\<rparr>) = ledger_at c u d"
  "ledger_at c u (d\<lparr>next_id := k\<rparr>) = ledger_at c u d"
  by (simp_all add: reports_of_def high_mark_def ledger_at_def ledger_base_def times_reserved_def)

lemma high_mark_nonneg: "0 \<le> high_mark c u d"
  by (simp add: high_mark_def max_list_ge)

lemma high_mark_ge: "r \<in> set (reports d) \<Longrightarrow> br_usage_id r = u \<Longrightarrow> snapshot c r \<le> high_mark c u d"
  by (auto simp: high_mark_def reports_of_def intro!: max_list_ge)

lemma ledger_ok_update_usages:
  assumes "ledger_ok d"
    and "\<And>x. x \<in> set (usages d) \<Longrightarrow> P x \<Longrightarrow> ur_id (f x) = ur_id x"
    and "\<And>x c. x \<in> set (usages d) \<Longrightarrow> P x \<Longrightarrow> 0 \<le> reported c (f x) \<and> reported c (f x) \<le> high_mark c (ur_id x) d"
  shows "ledger_ok (d\<lparr>usages := update_where P f (usages d)\<rparr>)"
  using assms by (auto simp: ledger_ok_def set_update_where)

lemma ledger_ok_create_usage:
  assumes "ledger_ok d" "create_usage_record now org s e d = (x, d')"
  shows "ledger_ok d'"
proof -
  have "reported c (fresh_usage now i org s e) = 0" for c i
    by (cases c) (simp_all add: fresh_usage_def)
  with assms show ?thesis
    by (auto simp: create_usage_record_def ledger_ok_def Let_def high_mark_nonneg split: if_splits)
qed

section \<open>Staging keeps the ledger\<close>

lemma set_list_for_usage [simp]: "set (list_for_usage u d) = set (reports_of u d)"
  by (simp add: list_for_usage_def reports_of_def)

lemma list_for_usage_Nil: "list_for_usage u d = [] \<longleftrightarrow> reports_of u d = []"
  by (metis set_list_for_usage set_empty)

lemma reserved_is_high_mark:
  assumes "0 \<le> reported c x" "reported c x \<le> high_mark c u d"
  shows "reserved_count c x (list_for_usage u d) = high_mark c u d"
  using assms unfolding reserved_count_def high_mark_def
  by (intro antisym) (auto simp: max_list_le_iff max_list_ge intro: order_trans)

lemma stage_requests_lookup:
  fixes sub usage previous p cust subscr invoice i c
  defines "rqs \<equiv> stage_requests sub usage previous p cust subscr invoice i"
    and "from_c \<equiv> reserved_count c usage previous" and "to_c \<equiv> snapshot_count c usage previous"
  shows "map_of rqs c = None \<longleftrightarrow> overage_units (base_units p c) from_c to_c \<le> 0"
    and "map_of rqs c = Some rq \<Longrightarrow> rq_from_count rq = from_c \<and> rq_to_count rq = to_c
       \<and> rq_amount rq = charge_amount (unit_price p) (overage_units (base_units p c) from_c to_c)
       \<and> rq_key rq = ReportKey i c 0 \<and> rq_category rq = c \<and> rq_report_id rq = i \<and> rq_org_id rq = sub_org_id sub
       \<and> rq_invoice rq = truthy invoice"
  by (cases c; auto simp: rqs_def from_c_def to_c_def stage_requests_def COUNTERS_def
      List.map_filter_simps Let_def split: if_splits)+

lemma distinct_stage_requests:
  "distinct (map fst (stage_requests sub usage previous p cust subscr invoice i))"
  by (simp add: stage_requests_def COUNTERS_def List.map_filter_simps Let_def)

lemma snapshot_new_report:
  "snapshot c (new_report now sub usage previous cust i clo k) = snapshot_count c usage previous"
  by (cases c) (simp_all add: new_report_def Let_def)

lemma new_report_fields [simp]:
  "br_id (new_report now sub usage previous cust i clo k) = k"
  "br_usage_id (new_report now sub usage previous cust i clo k) = ur_id usage"
  "br_pricing (new_report now sub usage previous cust i clo k) = report_pricing sub previous"
  "br_requests (new_report now sub usage previous cust i clo k) =
     stage_requests sub usage previous (report_pricing sub previous) cust (report_subscription sub previous) i k"
  by (simp_all add: new_report_def Let_def)

text \<open>
  What \<open>stage\<close> can have done: nothing, drawn an identifier, or inserted one new report.
\<close>

lemma insert_report_outcome:
  assumes "insert_report now sub usage previous invoice clo d = (x, d')"
  obtains (unchanged) "d' = d"
  | (drawn) "d' = d\<lparr>next_id := Suc (next_id d)\<rparr>"
  | (inserted) cust where
      "x = Inr (Some (new_report now sub usage previous cust invoice clo (next_id d)))"
      "d' = d\<lparr>next_id := Suc (next_id d), reports := reports d @ [new_report now sub usage previous cust invoice clo (next_id d)]\<rparr>"
proof (cases "\<not> pay_as_you_go (get_plan_config (sub_plan sub)) \<and> previous = []")
  case True
  with assms unchanged show ?thesis by (simp add: insert_report_def)
next
  case False
  note open_plan = this
  show ?thesis
  proof (cases "truthy (report_customer sub previous)")
    case None
    with assms open_plan unchanged show ?thesis by (auto simp: insert_report_def)
  next
    case (Some cust)
    let ?row = "new_report now sub usage previous cust invoice clo (next_id d)"
    have "(x, d') = (if br_requests ?row = [] \<and> truthy clo = None then ret None
       else bindE (create_report ?row) (\<lambda>r. ret (Some r))) (d\<lparr>next_id := Suc (next_id d)\<rparr>)"
      using assms open_plan unfolding insert_report_def Some by (simp only: if_False option.simps bindE_getsE bindE_modifyE Let_def)
    then show ?thesis using drawn inserted[of cust]
      by (cases "br_requests ?row = [] \<and> truthy clo = None")
         (auto simp: create_report_def bindE_def simp del: new_report_fields split: if_splits)
  qed
qed

lemma stage_outcome:
  assumes wf: "billing_wf d" and st: "stage now sub pstart invoice clo allow d = (x, d')"
  obtains (unchanged) "d' = d"
  | (drawn) "d' = d\<lparr>next_id := Suc (next_id d)\<rparr>"
  | (inserted) usage cust row where "usage \<in> set (usages d)" "same_period (sub_org_id sub) pstart usage"
      "row = new_report now sub usage (list_for_usage (ur_id usage) d) cust invoice clo (next_id d)"
      "x = Inr (Some row)" "d' = d\<lparr>next_id := Suc (next_id d), reports := reports d @ [row]\<rparr>"
proof -
  obtain found where f: "get_current_usage_record (sub_org_id sub) pstart d = (Inr found, d)"
    using get_current_usage_total[OF wf] by blast
  show thesis
  proof (cases found)
    case None
    with st f unchanged show ?thesis by (simp add: stage_def lock_usage_def bindE_def)
  next
    case (Some usage)
    note u = get_current_usage_unique[OF wf f[unfolded Some]]
    let ?prev = "list_for_usage (ur_id usage) d"
    from st f Some have "d' = d \<or> insert_report now sub usage ?prev invoice clo d = (x, d')"
      by (auto simp: stage_def lock_usage_def bindE_def split: if_splits option.splits)
    then show ?thesis
    proof
      assume "insert_report now sub usage ?prev invoice clo d = (x, d')"
      then show ?thesis
        by (rule insert_report_outcome) (use u unchanged drawn inserted in \<open>auto simp: same_period_def\<close>)
    qed (use unchanged in simp)
  qed
qed

lemma reports_of_add:
  "reports_of u (d\<lparr>next_id := k, reports := reports d @ [row]\<rparr>) =
     reports_of u d @ (if br_usage_id row = u then [row] else [])"
  by (simp add: reports_of_def)

lemma ledger_at_other:
  assumes "br_usage_id row \<noteq> u"
  shows "ledger_at c u (d\<lparr>next_id := k, reports := reports d @ [row]\<rparr>) = ledger_at c u d"
    "high_mark c u (d\<lparr>next_id := k, reports := reports d @ [row]\<rparr>) = high_mark c u d"
  using assms by (simp_all add: ledger_at_def ledger_base_def times_reserved_def high_mark_def reports_of_add)

text \<open>The reservations of a new report continue those of the earlier ones without a gap.\<close>

lemma covers_new_report:
  assumes row: "row = new_report now sub usage previous cust invoice clo k"
    and n: "base_units (report_pricing sub previous) c < n"
  shows "covers c n row =
    (if reserved_count c usage previous < n \<and> n \<le> snapshot_count c usage previous then 1 else 0)"
proof -
  let ?rqs = "br_requests row"
  have "\<not> (reserved_count c usage previous < n \<and> n \<le> snapshot_count c usage previous)" if "map_of ?rqs c = None"
    using that n by (auto simp: row stage_requests_lookup overage_units_def)
  then show ?thesis
    using stage_requests_lookup(2)[of sub usage previous "report_pricing sub previous" cust
        "report_subscription sub previous" invoice k c]
    by (auto simp: covers_def row split: option.splits)
qed

lemma ledger_at_add:
  assumes led: "ledger_at c u d" and u: "u = ur_id usage"
    and rep: "0 \<le> reported c usage" "reported c usage \<le> high_mark c u d"
    and row: "row = new_report now sub usage (list_for_usage u d) cust invoice clo k"
    and d': "d' = d\<lparr>next_id := k', reports := reports d @ [row]\<rparr>"
  shows "ledger_at c u d'" and "high_mark c u d' = max (high_mark c u d) (counter c usage)"
    and "ledger_base c u d' = base_units (report_pricing sub (list_for_usage u d)) c"
proof -
  let ?prev = "list_for_usage u d" and ?p = "report_pricing sub (list_for_usage u d)"
  have uid: "br_usage_id row = u" by (simp add: row u)
  have ro: "reports_of u d' = reports_of u d @ [row]" by (simp add: d' reports_of_add uid)
  have res: "reserved_count c usage ?prev = high_mark c u d"
    using rep by (rule reserved_is_high_mark)
  then have snap: "snapshot_count c usage ?prev = max (high_mark c u d) (counter c usage)"
    by (simp add: snapshot_count_def)
  show hm: "high_mark c u d' = max (high_mark c u d) (counter c usage)"
    using snap by (simp add: high_mark_def ro max_list_snoc row snapshot_new_report)
  obtain q where q: "\<forall>r \<in> set (reports_of u d). br_pricing r = q"
    using led by (auto simp: ledger_at_def)
  have prices: "\<forall>r \<in> set (reports_of u d'). br_pricing r = ?p"
  proof (cases "reports_of u d")
    case Nil
    then show ?thesis by (simp add: ro row)
  next
    case (Cons r rs)
    then obtain r' rs' where prev: "?prev = r' # rs'" by (metis list.exhaust list_for_usage_Nil neq_Nil_conv)
    then have "r' \<in> set (reports_of u d)" by (metis list.set_intros(1) set_list_for_usage)
    with q prev show ?thesis by (simp add: ro row report_pricing_def)
  qed
  show base: "ledger_base c u d' = base_units ?p c"
    using prices by (cases "reports_of u d") (simp_all add: ledger_base_def ro)
  have base_same: "reports_of u d \<noteq> [] \<Longrightarrow> ledger_base c u d = ledger_base c u d'"
    by (cases "reports_of u d") (simp_all add: ledger_base_def ro)
  have nonneg: "0 \<le> ledger_base c u d'"
  proof (cases "reports_of u d = []")
    case True
    then have prev: "?prev = []" by (simp only: list_for_usage_Nil)
    show ?thesis unfolding base prev
      by (simp add: report_pricing_def plan_pricing_def get_plan_config_def or_zero_plan_base_nonneg)
  next
    case False
    with led base_same show ?thesis by (simp add: ledger_at_def)
  qed
  have old: "times_reserved c n u d = (if n \<le> high_mark c u d then 1 else 0)" if "ledger_base c u d' < n" for n
    using that led base_same nonneg
    by (cases "reports_of u d = []") (simp_all add: ledger_at_def times_reserved_def high_mark_def)
  have "times_reserved c n u d' = (if n \<le> high_mark c u d' then 1 else 0)" if n: "ledger_base c u d' < n" for n
  proof -
    have "covers c n row = (if high_mark c u d < n \<and> n \<le> max (high_mark c u d) (counter c usage) then 1 else 0)"
      using covers_new_report[OF row, of c n] n res snap unfolding base by simp
    then show ?thesis using old[OF n] by (auto simp: times_reserved_def ro hm)
  qed
  with prices nonneg show "ledger_at c u d'" by (auto simp: ledger_at_def)
qed

lemma billing_inv_stage:
  assumes inv: "billing_inv d" and st: "stage now sub pstart invoice clo allow d = (x, d')"
  shows "billing_inv d'"
proof -
  have wf: "billing_wf d" and led: "ledger_ok d" using inv by (simp_all add: billing_inv_def)
  from wf st show ?thesis
  proof (cases rule: stage_outcome)
    case unchanged
    with inv show ?thesis by simp
  next
    case drawn
    with wf led show ?thesis by (simp add: billing_inv_def billing_wf_next_id ledger_ok_def)
  next
    case (inserted usage cust row)
    have rep: "0 \<le> reported c usage" "reported c usage \<le> high_mark c (ur_id usage) d" for c
      using led inserted(1) by (auto simp: ledger_ok_def)
    have at: "ledger_at c (ur_id usage) d" for c using led by (simp add: ledger_ok_def)
    note new = ledger_at_add[OF at refl rep inserted(3,5)]
    have "ledger_at c u d'" for c u
      using new(1) ledger_at_other(1)[of row u c d "Suc (next_id d)"] led inserted(3,5)
      by (cases "u = ur_id usage") (auto simp: ledger_ok_def)
    moreover have "high_mark c u d \<le> high_mark c u d'" for c u
      using new(2) ledger_at_other(2)[of row u c d "Suc (next_id d)"] inserted(3,5)
      by (cases "u = ur_id usage") auto
    moreover have "usages d' = usages d" by (simp add: inserted(5))
    ultimately have "ledger_ok d'" using led by (auto simp: ledger_ok_def) (meson order_trans)
    moreover have "billing_wf d'"
    proof -
      have "billing_wf ((d\<lparr>next_id := Suc (next_id d)\<rparr>)\<lparr>reports := reports (d\<lparr>next_id := Suc (next_id d)\<rparr>) @ [row]\<rparr>)"
        using wf inserted(1,3) distinct_stage_requests
        by (intro billing_wf_add_report billing_wf_next_id) (auto simp: billing_wf_def less_SucI)
      then show ?thesis by (simp add: inserted(5))
    qed
    ultimately show ?thesis by (simp add: billing_inv_def)
  qed
qed

section \<open>The other writers keep the ledger\<close>

lemma billing_inv_update_report:
  assumes "billing_inv d" and "\<And>r. r \<in> set (reports d) \<Longrightarrow> br_id r = i \<Longrightarrow> same_ledger_entry r (f r)"
    and "\<And>r. br_id (f r) = br_id r" "\<And>r. br_usage_id (f r) = br_usage_id r"
    and "\<And>r. distinct (map fst (br_requests r)) \<Longrightarrow> distinct (map fst (br_requests (f r)))"
  shows "billing_inv (update_report now i f d)"
  using assms by (simp add: billing_inv_def ledger_ok_update_report billing_wf_update_report)

lemma snapshot_unaffected [simp]:
  "snapshot c (r\<lparr>br_status := st\<rparr>) = snapshot c r" "snapshot c (r\<lparr>br_last_error := e\<rparr>) = snapshot c r"
  "snapshot c (r\<lparr>br_item_ids := m\<rparr>) = snapshot c r" "snapshot c (r\<lparr>br_requests := q\<rparr>) = snapshot c r"
  "snapshot c (r\<lparr>br_attempted_at := a\<rparr>) = snapshot c r" "snapshot c (r\<lparr>br_updated_at := t\<rparr>) = snapshot c r"
  by (cases c; simp)+

lemma set_reported_fields [simp]:
  "ur_id (set_reported w u) = ur_id u" "ur_org_id (set_reported w u) = ur_org_id u"
  "ur_period_start (set_reported w u) = ur_period_start u"
  by simp_all

lemma reported_set_reported [simp]:
  "reported c (set_reported w u) = w c"
  by (cases c) simp_all

lemma reported_unaffected [simp]:
  "reported c (u\<lparr>ur_updated_at := t\<rparr>) = reported c u" "reported c (u\<lparr>ur_billed := b\<rparr>) = reported c u"
  "reported c (u\<lparr>ur_invoice_id := i\<rparr>) = reported c u" "reported c (set_counters now t1 t2 t3 u) = reported c u"
  by (cases c; simp add: set_counters_def Let_def)+

lemma counter_unaffected [simp]:
  "counter c (u\<lparr>ur_updated_at := t\<rparr>) = counter c u" "counter c (u\<lparr>ur_billed := b\<rparr>) = counter c u"
  "counter c (u\<lparr>ur_invoice_id := i\<rparr>) = counter c u"
  by (cases c; simp)+

lemma confirmed_le_high_mark:
  assumes "reported c u \<le> high_mark c uid d"
  shows "confirmed_count c u report (list_for_usage uid d) \<le> high_mark c uid d"
  using assms by (auto simp: confirmed_count_def max_list_le_iff high_mark_def max_list_ge)

lemma watermark_bounds:
  assumes "reported c u \<le> high_mark c uid d"
  shows "reported c u \<le> watermark c u report (list_for_usage uid d)"
    "watermark c u report (list_for_usage uid d) \<le> high_mark c uid d"
  using assms confirmed_le_high_mark[OF assms, of report]
    min_list_from_le(1)[of "confirmed_count c u report (list_for_usage uid d)"]
  by (auto simp: watermark_def intro: order_trans)

text \<open>
  A watermark that moves never passes the start of a charge that has no Stripe item yet,
  and it reaches every confirmed snapshot when no such charge is left.
\<close>

lemma watermark_unresolved:
  assumes "r \<in> set rs" "map_of (br_requests r) c = Some rq" "br_item_ids r c = None"
  shows "watermark c u report rs \<le> max (reported c u) (rq_from_count rq)"
proof -
  have "rq_from_count rq \<in> set (unresolved_counts c rs)"
    using assms by (force simp: unresolved_counts_def List.map_filter_def)
  then have "min_list_from (confirmed_count c u report rs) (unresolved_counts c rs) \<le> rq_from_count rq"
    by (rule min_list_from_le)
  then show ?thesis by (auto simp: watermark_def)
qed

lemma watermark_all_resolved:
  assumes "unresolved_counts c rs = []"
  shows "watermark c u report rs = confirmed_count c u report rs"
  using max_list_ge(1)[of "reported c u"] assms
  by (simp add: watermark_def min_list_from_def confirmed_count_def)

lemma same_ledger_entry_status [simp]:
  "same_ledger_entry r (r\<lparr>br_status := st, br_last_error := e\<rparr>)"
  "same_ledger_entry r (r\<lparr>br_item_ids := m\<rparr>)"
  by (simp_all add: same_ledger_entry_def covers_def)

lemma billing_inv_finish:
  assumes inv: "billing_inv d" and fin: "finish_report now report d = (x, d')"
  shows "billing_inv d'"
proof (cases "filter (\<lambda>u. ur_id u = br_usage_id report) (usages d)" rule: scalar_one_or_none.cases)
  case (2 u)
  let ?uid = "br_usage_id report" and ?rs = "list_for_usage (br_usage_id report) d"
  let ?f = "\<lambda>u'. (set_reported (\<lambda>c. watermark c u report ?rs) u')\<lparr>ur_updated_at := now\<rparr>"
  let ?d1 = "d\<lparr>usages := update_where (\<lambda>u'. ur_id u' = ?uid) ?f (usages d)\<rparr>"
  have "u \<in> set (filter (\<lambda>u. ur_id u = ?uid) (usages d))" using 2 by simp
  then have u: "u \<in> set (usages d)" "ur_id u = ?uid" by auto
  have rep: "0 \<le> reported c u" "reported c u \<le> high_mark c ?uid d" for c
    using inv u by (auto simp: billing_inv_def ledger_ok_def)
  have "billing_wf ?d1"
    using inv by (intro billing_wf_update_usages) (auto simp: billing_inv_def)
  moreover have "ledger_ok ?d1"
    using inv watermark_bounds(2)[OF rep(2)] order_trans[OF rep(1) watermark_bounds(1)[OF rep(2)]]
    by (intro ledger_ok_update_usages) (auto simp: billing_inv_def simp del: set_reported.simps)
  ultimately have "billing_inv ?d1" by (simp add: billing_inv_def)
  then have "billing_inv (update_report now (br_id report) (\<lambda>r. r\<lparr>br_status := Reported, br_last_error := None\<rparr>) ?d1)"
    by (rule billing_inv_update_report) simp_all
  then show ?thesis using fin 2 by (simp add: finish_report_def Let_def)
qed (use fin inv in \<open>simp_all add: finish_report_def\<close>)

lemma billing_inv_usages:
  assumes "billing_inv d"
    and "\<And>u. ur_id (f u) = ur_id u" "\<And>u. ur_org_id (f u) = ur_org_id u" "\<And>u. ur_period_start (f u) = ur_period_start u"
    and "\<And>u c. reported c (f u) = reported c u"
  shows "billing_inv (d\<lparr>usages := update_where P f (usages d)\<rparr>)"
proof -
  have "ledger_ok (d\<lparr>usages := update_where P f (usages d)\<rparr>)"
    by (rule ledger_ok_update_usages) (use assms in \<open>auto simp: billing_inv_def ledger_ok_def\<close>)
  with assms show ?thesis by (simp add: billing_inv_def billing_wf_update_usages)
qed

lemma billing_inv_mark_billed: "billing_inv d \<Longrightarrow> billing_inv (mark_billed now org s i d)"
  by (simp add: mark_billed_def billing_inv_usages)

lemma set_counters_fields [simp]:
  "ur_id (set_counters now t e s u) = ur_id u" "ur_org_id (set_counters now t e s u) = ur_org_id u"
  "ur_period_start (set_counters now t e s u) = ur_period_start u"
  by (simp_all add: set_counters_def Let_def)

lemma billing_inv_create_usage:
  "billing_inv d \<Longrightarrow> create_usage_record now org s e d = (x, d') \<Longrightarrow> billing_inv d'"
  by (auto simp: billing_inv_def intro: billing_wf_create_usage ledger_ok_create_usage)

lemma billing_inv_upsert:
  assumes inv: "billing_inv d" and up: "upsert_usage_counters now org s e t te se d = (x, d')"
  shows "billing_inv d'"
proof -
  obtain found where f: "get_current_usage_record org s d = (Inr found, d)"
    using get_current_usage_total[of d org s] inv by (auto simp: billing_inv_def)
  show ?thesis
  proof (cases found)
    case None
    obtain y d1 where c: "create_usage_record now org s e d = (y, d1)" by fastforce
    with inv have "billing_inv d1" by (rule billing_inv_create_usage)
    with up f None c show ?thesis
      by (auto simp: upsert_usage_counters_def bindE_def billing_inv_usages split: sum.splits)
  next
    case (Some u)
    with up f inv show ?thesis
      by (auto simp: upsert_usage_counters_def bindE_def billing_inv_usages)
  qed
qed

lemma billing_inv_subs: "billing_inv d \<Longrightarrow> unique_subs rows \<Longrightarrow> billing_inv (d\<lparr>subs := rows\<rparr>)"
  by (simp add: billing_inv_def billing_wf_subs ledger_ok_def)

definition empty_billing_db :: billing_db where
  "empty_billing_db = \<lparr>subs = [], usages = [], reports = [], next_id = 0\<rparr>"

lemma billing_inv_empty: "billing_inv empty_billing_db"
  by (simp add: empty_billing_db_def billing_inv_def billing_wf_def unique_subs_def ledger_ok_def ledger_at_def
      ledger_base_def reports_of_def times_reserved_def high_mark_def)

text \<open>A paying organization that used 5250 traces, its usage record and its first report.\<close>

definition demo_sub :: subscription where
  "demo_sub = \<lparr>sub_id = 7, sub_org_id = 1, sub_plan = PRO, sub_status = subscription_status.ACTIVE,
     sub_customer = Some ''cus_1'', sub_stripe_id = None, sub_period_start = 0, sub_period_end = days 30,
     sub_canceled_at = None, sub_created_at = 0, sub_updated_at = 0\<rparr>"

definition demo_usage :: usage_record where
  "demo_usage = set_counters 0 5250 0 0 (fresh_usage 0 0 1 0 (days 30))"

definition demo_db :: billing_db where
  "demo_db = \<lparr>subs = [], usages = [demo_usage], reports = [], next_id = 1\<rparr>"

definition demo_report :: billing_report where
  "demo_report = new_report 0 demo_sub demo_usage [] ''cus_1'' None None 1"

definition demo_reported_db :: billing_db where
  "demo_reported_db = demo_db\<lparr>next_id := 2, reports := [demo_report]\<rparr>"

lemma demo_db_inv: "billing_inv demo_db"
proof -
  have "upsert_usage_counters 0 1 0 (days 30) 5250 0 0 empty_billing_db = (Inr (), demo_db)"
    by (simp add: upsert_usage_counters_def get_current_usage_record_def create_usage_record_def empty_billing_db_def
        demo_db_def demo_usage_def Let_def bindE_def same_period_def fresh_usage_def)
  with billing_inv_empty show ?thesis by (rule billing_inv_upsert)
qed

lemma demo_stage: "stage 0 demo_sub 0 None None False demo_db = (Inr (Some demo_report), demo_reported_db)"
proof -
  have "br_requests demo_report \<noteq> []" by code_simp
  then show ?thesis
    by (simp add: stage_def insert_report_def lock_usage_def get_current_usage_record_def demo_db_def demo_sub_def bindE_def
        same_period_def demo_usage_def fresh_usage_def set_counters_def list_for_usage_def report_customer_def truthy_def
        get_plan_config_def create_report_def demo_reported_db_def demo_report_def Let_def del: new_report_fields)
qed

lemma demo_reported_inv: "billing_inv demo_reported_db"
  using demo_db_inv demo_stage by (rule billing_inv_stage)

section \<open>Properties\<close>

lemma truthy_None [simp]: "truthy None = None"
  by (simp add: truthy_def)

text \<open>When no request is staged, the earlier reports already reserve every overage unit.\<close>

lemma no_requests_reserved:
  assumes at: "ledger_at c u d" and rep: "0 \<le> reported c usage" "reported c usage \<le> high_mark c u d"
    and none: "stage_requests sub usage (list_for_usage u d) p cust subscr invoice k = []"
    and p: "p = report_pricing sub (list_for_usage u d)" and n: "base_units p c < n" "n \<le> counter c usage"
  shows "times_reserved c n u d = 1"
proof -
  let ?prev = "list_for_usage u d"
  have units: "overage_units (base_units p c) (reserved_count c usage ?prev) (snapshot_count c usage ?prev) \<le> 0"
    using stage_requests_lookup(1)[of sub usage ?prev p cust subscr invoice k c] none by simp
  have res: "reserved_count c usage ?prev = high_mark c u d" using rep by (rule reserved_is_high_mark)
  then have le: "n \<le> high_mark c u d" using units n by (auto simp: overage_units_def snapshot_count_def)
  have "reports_of u d \<noteq> []"
  proof
    assume "reports_of u d = []"
    then have "?prev = []" "high_mark c u d = 0" by (simp_all add: high_mark_def list_for_usage_Nil)
    then show False using n(1) le p or_zero_plan_base_nonneg[of c "sub_plan sub"]
      by (simp add: report_pricing_def plan_pricing_def get_plan_config_def)
  qed
  moreover from this obtain r' rs' where prev: "?prev = r' # rs'" by (metis list.exhaust list_for_usage_Nil)
  then have "r' \<in> set (reports_of u d)" by (metis list.set_intros(1) set_list_for_usage)
  ultimately have "ledger_base c u d = base_units p c"
    using at prev p by (cases "reports_of u d") (auto simp: ledger_at_def ledger_base_def report_pricing_def)
  with at n le show ?thesis by (simp add: ledger_at_def)
qed

lemma create_report_fresh:
  assumes "billing_wf d" "br_id row = next_id d" "br_closing_invoice row = None"
  shows "create_report row (d\<lparr>next_id := Suc (next_id d)\<rparr>) = (Inr row, d\<lparr>next_id := Suc (next_id d), reports := reports d @ [row]\<rparr>)"
  using assms by (auto simp: create_report_def billing_wf_def list_ex_iff)

text \<open>
  C3: Staging reserves all overage. For an open usage record of an organization that can be
  billed, \<open>stage\<close> succeeds, and afterwards every unit of usage above the included amount is
  reserved by exactly one request of one report.
\<close>

theorem stage_reserves_every_unit_once:
  assumes inv: "billing_inv d" and u: "usage \<in> set (usages d)" "same_period (sub_org_id sub) pstart usage"
    and st: "\<not> ur_billed usage" and prev: "previous = list_for_usage (ur_id usage) d"
    and payg: "pay_as_you_go (get_plan_config (sub_plan sub)) \<or> previous \<noteq> []"
    and cust: "truthy (report_customer sub previous) = Some cust"
  shows "\<exists>x d'. stage now sub pstart invoice None False d = (Inr x, d') \<and>
     (\<forall>c n. base_units (report_pricing sub previous) c < n \<longrightarrow> n \<le> counter c usage \<longrightarrow>
        times_reserved c n (ur_id usage) d' = 1)"
proof -
  have wf: "billing_wf d" and led: "ledger_ok d" using inv by (simp_all add: billing_inv_def)
  have at: "ledger_at c (ur_id usage) d" and rep: "0 \<le> reported c usage" "reported c usage \<le> high_mark c (ur_id usage) d" for c
    using led u(1) by (auto simp: ledger_ok_def)
  let ?row = "new_report now sub usage previous cust invoice None (next_id d)"
  let ?d1 = "d\<lparr>next_id := Suc (next_id d)\<rparr>" and ?d2 = "d\<lparr>next_id := Suc (next_id d), reports := reports d @ [?row]\<rparr>"
  have found: "lock_usage (sub_org_id sub) pstart d = (Inr (Some usage), d)"
    using wf u by (simp add: lock_usage_def get_current_usage_found)
  have "stage now sub pstart invoice None False d = insert_report now sub usage previous invoice None d"
    using found st prev by (simp add: stage_def bindE_def)
  also have "\<dots> = (if br_requests ?row = [] then (Inr None, ?d1) else (Inr (Some ?row), ?d2))"
    using payg cust create_report_fresh[OF wf, of ?row]
    by (auto simp: insert_report_def bindE_def new_report_def Let_def)
  finally have run: "stage now sub pstart invoice None False d = \<dots>" .
  have "times_reserved c n (ur_id usage) (if br_requests ?row = [] then ?d1 else ?d2) = 1"
    if n: "base_units (report_pricing sub previous) c < n" "n \<le> counter c usage" for c n
  proof (cases "br_requests ?row = []")
    case True
    then show ?thesis
      using no_requests_reserved[OF at rep _ refl, where c = c and sub = sub and n = n] n prev
      by (simp add: times_reserved_def)
  next
    case False
    have row: "?row = new_report now sub usage (list_for_usage (ur_id usage) d) cust invoice None (next_id d)"
      by (simp add: prev)
    note new = ledger_at_add[OF at refl rep row refl, of c "Suc (next_id d)"]
    have "times_reserved c n (ur_id usage) ?d2 = 1"
      using new n unfolding ledger_at_def prev by simp
    with False show ?thesis by simp
  qed
  with run show ?thesis by (auto split: if_splits)
qed

theorem stage_reserves_every_unit_once_witness:
  "\<exists>x d'. stage 0 demo_sub 0 None None False demo_db = (Inr x, d') \<and> times_reserved TRACES 5100 (ur_id demo_usage) d' = 1"
proof -
  have "billing_inv demo_db" by (rule demo_db_inv)
  moreover have "demo_usage \<in> set (usages demo_db)" by (simp add: demo_db_def)
  moreover have "same_period (sub_org_id demo_sub) 0 demo_usage" "\<not> ur_billed demo_usage" by code_simp+
  moreover have "[] = list_for_usage (ur_id demo_usage) demo_db" by (simp add: demo_db_def list_for_usage_def)
  moreover have "pay_as_you_go (get_plan_config (sub_plan demo_sub)) \<or> [] \<noteq> []"
    "truthy (report_customer demo_sub []) = Some ''cus_1''" by code_simp+
  ultimately have "\<exists>x d'. stage 0 demo_sub 0 None None False demo_db = (Inr x, d') \<and>
      (\<forall>c n. base_units (report_pricing demo_sub []) c < n \<longrightarrow> n \<le> counter c demo_usage \<longrightarrow>
        times_reserved c n (ur_id demo_usage) d' = 1)"
    by (rule stage_reserves_every_unit_once)
  moreover have "base_units (report_pricing demo_sub []) TRACES < 5100" "5100 \<le> counter TRACES demo_usage" by code_simp+
  ultimately show ?thesis by blast
qed

text \<open>
  C26: Confirming a report never regresses a watermark, never moves it past what reports
  have reserved, and never moves it past the start of a charge without a Stripe item.
\<close>

theorem finish_watermark_safe:
  assumes inv: "billing_inv d" and fin: "finish_report now report d = (Inr (), d')"
    and u: "u \<in> set (usages d)" "ur_id u = br_usage_id report"
  shows "\<exists>u' \<in> set (usages d'). ur_id u' = ur_id u \<and> (\<forall>c.
      reported c u \<le> reported c u' \<and> reported c u' \<le> high_mark c (ur_id u) d' \<and>
      (\<forall>r rq. r \<in> set (reports d) \<longrightarrow> br_usage_id r = ur_id u \<longrightarrow> map_of (br_requests r) c = Some rq \<longrightarrow>
         br_item_ids r c = None \<longrightarrow> reported c u' \<le> max (reported c u) (rq_from_count rq)))"
proof -
  let ?rs = "list_for_usage (br_usage_id report) d"
  let ?f = "\<lambda>u'. (set_reported (\<lambda>c. watermark c u report ?rs) u')\<lparr>ur_updated_at := now\<rparr>"
  have one: "filter (\<lambda>v. ur_id v = br_usage_id report) (usages d) = [u]"
    using inv u filter_key_unique[of ur_id "usages d" u] by (simp add: billing_inv_def billing_wf_def)
  have d': "d' = update_report now (br_id report) (\<lambda>r. r\<lparr>br_status := Reported, br_last_error := None\<rparr>)
      (d\<lparr>usages := update_where (\<lambda>u'. ur_id u' = br_usage_id report) ?f (usages d)\<rparr>)"
    using fin one by (simp add: finish_report_def Let_def)
  have mem: "?f u \<in> set (usages d')"
    using u by (auto simp: d' update_report_def set_update_where simp del: set_reported.simps)
  have rep: "reported c u \<le> high_mark c (br_usage_id report) d" for c
    using inv u by (auto simp: billing_inv_def ledger_ok_def)
  have "snapshot c (r\<lparr>br_status := Reported, br_last_error := None, br_updated_at := now\<rparr>) = snapshot c r" for c r
    by (cases c) simp_all
  then have hm: "high_mark c i d' = high_mark c i d" for c i
    unfolding d' update_report_def update_where_def
    by (subst ledger_map_reports(3)) (auto simp: same_ledger_entry_def covers_def)
  show ?thesis
  proof (intro bexI[OF _ mem] conjI allI impI)
    fix c show "reported c u \<le> reported c (?f u)" "reported c (?f u) \<le> high_mark c (ur_id u) d'"
      using watermark_bounds[OF rep, of c report] by (simp_all add: hm u(2) del: set_reported.simps)
    fix r rq assume "r \<in> set (reports d)" "br_usage_id r = ur_id u" "map_of (br_requests r) c = Some rq" "br_item_ids r c = None"
    then show "reported c (?f u) \<le> max (reported c u) (rq_from_count rq)"
      using watermark_unresolved[of r ?rs c rq u report] u(2) by (simp add: reports_of_def del: set_reported.simps)
  qed simp
qed

theorem finish_watermark_safe_witness:
  "\<exists>u'. u' \<in> set (usages (snd (finish_report 5 demo_report demo_reported_db))) \<and> ur_id u' = ur_id demo_usage \<and>
     0 \<le> reported TRACES u' \<and> reported TRACES u' \<le> 0"
proof -
  have "finish_report 5 demo_report demo_reported_db = (Inr (), snd (finish_report 5 demo_report demo_reported_db))"
    by (simp add: finish_report_def demo_reported_db_def demo_db_def demo_usage_def demo_report_def Let_def)
  moreover have "demo_usage \<in> set (usages demo_reported_db)" by (simp add: demo_reported_db_def demo_db_def)
  moreover have "ur_id demo_usage = br_usage_id demo_report" by (simp add: demo_report_def)
  ultimately obtain u' where u': "u' \<in> set (usages (snd (finish_report 5 demo_report demo_reported_db)))" "ur_id u' = ur_id demo_usage"
      "reported TRACES demo_usage \<le> reported TRACES u'"
    and unres: "\<And>r rq. r \<in> set (reports demo_reported_db) \<Longrightarrow> br_usage_id r = ur_id demo_usage \<Longrightarrow>
      map_of (br_requests r) TRACES = Some rq \<Longrightarrow> br_item_ids r TRACES = None \<Longrightarrow>
      reported TRACES u' \<le> max (reported TRACES demo_usage) (rq_from_count rq)"
    using finish_watermark_safe[OF demo_reported_inv] by meson
  have "reported TRACES u' \<le> max (reported TRACES demo_usage) (rq_from_count (the (map_of (br_requests demo_report) TRACES)))"
  proof (rule unres)
    show "demo_report \<in> set (reports demo_reported_db)" by (simp add: demo_reported_db_def)
    show "br_usage_id demo_report = ur_id demo_usage" by (simp add: demo_report_def)
    show "map_of (br_requests demo_report) TRACES = Some (the (map_of (br_requests demo_report) TRACES))"
      "br_item_ids demo_report TRACES = None" by code_simp+
  qed
  also have "\<dots> = 0" by code_simp
  finally show ?thesis using u' by (intro exI[of _ u']) (simp add: demo_usage_def fresh_usage_def set_counters_def)
qed

text \<open>
  The amount of a charge in cents is the overage price of its units, 0.4 cents each,
  rounded half up: the error is at most half a cent and a charge is never negative.
\<close>

theorem charge_amount_rounding:
  fixes units :: int
  assumes "0 \<le> units"
  shows "charge_amount OVERAGE_UNIT_PRICE units = (4 * units + 5) div 10 \<and>
    \<bar>of_int (charge_amount OVERAGE_UNIT_PRICE units) - OVERAGE_UNIT_PRICE * of_int units * 100\<bar> \<le> 1 / 2"
proof -
  have "(of_int units :: rat) * 4 / 1000 * 100 + 1 / 2 = of_int (4 * units + 5) / of_int 10" by simp
  then have "\<lfloor>(of_int units :: rat) * 4 / 1000 * 100 + 1 / 2\<rfloor> = (4 * units + 5) div 10"
    by (metis floor_divide_of_int_eq)
  then have "charge_amount OVERAGE_UNIT_PRICE units = (4 * units + 5) div 10"
    using assms by (simp add: charge_amount_def OVERAGE_UNIT_PRICE_def quantize_half_up_def mult.commute)
  moreover have "\<bar>of_int (charge_amount OVERAGE_UNIT_PRICE units) - OVERAGE_UNIT_PRICE * of_int units * 100\<bar> \<le> 1 / 2"
    unfolding charge_amount_def by (rule quantize_half_up_error)
  ultimately show ?thesis by (rule conjI)
qed

theorem charge_amount_rounding_witness:
  "charge_amount OVERAGE_UNIT_PRICE 250 = (4 * 250 + 5) div 10 \<and>
   \<bar>of_int (charge_amount OVERAGE_UNIT_PRICE 250) - OVERAGE_UNIT_PRICE * of_int 250 * 100\<bar> \<le> 1 / 2"
  by (rule charge_amount_rounding) simp

end
