(* ===== verification/BillingDelivery.thy ===== *)
theory BillingDelivery
  imports BillingLedger
begin

text \<open>
  What delivering a report does: the effect of one iteration of the loop of \<open>deliver\<close> on
  the tables, the termination of the loop, and the recovery by \<open>deliver_safely\<close>.
\<close>

section \<open>Looking up a report\<close>

definition report_at :: "uuid \<Rightarrow> billing_db \<Rightarrow> billing_report option" where
  "report_at i d = find (\<lambda>r. br_id r = i) (reports d)"

lemma report_at_Some: "report_at i d = Some r \<Longrightarrow> r \<in> set (reports d) \<and> br_id r = i"
  by (auto simp: report_at_def find_Some_iff)

lemma report_at_mem: "billing_wf d \<Longrightarrow> r \<in> set (reports d) \<Longrightarrow> report_at (br_id r) d = Some r"
  unfolding billing_wf_def report_at_def by (blast intro: find_key_unique)

lemma lock_report_eq:
  assumes "billing_wf d"
  shows "lock_report i d = (Inr (report_at i d), d)"
proof (cases "report_at i d")
  case None
  then have "filter (\<lambda>r. br_id r = i) (reports d) = []"
    by (auto simp: report_at_def find_None_iff filter_empty_conv)
  with None show ?thesis by (simp add: lock_report_def)
next
  case (Some r)
  then have "r \<in> set (reports d)" "br_id r = i" using report_at_Some by blast+
  with assms have "filter (\<lambda>r. br_id r = i) (reports d) = [r]"
    using filter_key_unique[of br_id "reports d" r] by (auto simp: billing_wf_def)
  with Some show ?thesis by (simp add: lock_report_def)
qed

lemma report_at_update:
  assumes "\<And>r. br_id (f r) = br_id r"
  shows "report_at i (update_report now j f d) =
     map_option (if i = j then (\<lambda>r. (f r)\<lparr>br_updated_at := now\<rparr>) else id) (report_at i d)"
  using find_update_where[of br_id "\<lambda>r. (f r)\<lparr>br_updated_at := now\<rparr>"] assms
  by (simp add: report_at_def update_report_def)

section \<open>One iteration\<close>

text \<open>Calls that read the clock, an invoice or the list of items.\<close>

inductive quiet :: "'s stripe_api \<Rightarrow> 's \<Rightarrow> 's \<Rightarrow> bool" for api where
  quiet_refl: "quiet api s s"
| quiet_now: "quiet api s t \<Longrightarrow> api_now api t = (x, u) \<Longrightarrow> quiet api s u"
| quiet_status: "quiet api s t \<Longrightarrow> api_invoice_status api i t = (x, u) \<Longrightarrow> quiet api s u"
| quiet_list: "quiet api s t \<Longrightarrow> api_item_list api c g t = (x, u) \<Longrightarrow> quiet api s u"

text \<open>The first request of a pending report that has no Stripe item yet.\<close>

definition open_request :: "uuid \<Rightarrow> billing_db \<Rightarrow> billing_report \<Rightarrow> usage_category \<Rightarrow> bill_request \<Rightarrow> bool" where
  "open_request i d r c rq \<longleftrightarrow>
     report_at i d = Some r \<and> br_status r = Pending \<and> next_request r = Some (c, rq)"

text \<open>
  The protocol that one iteration follows, as a relation between the tables and the
  environment before and after it.
\<close>

inductive iter_run ::
    "'s stripe_api \<Rightarrow> uuid \<Rightarrow> billing_db \<Rightarrow> 's \<Rightarrow> error + bool loop \<Rightarrow> billing_db \<Rightarrow> 's \<Rightarrow> bool" for api i where
  read_fail: "quiet api s s' \<Longrightarrow> iter_run api i d s (Inl e) d s'"
| idle: "(\<And>r. report_at i d = Some r \<Longrightarrow> br_status r \<noteq> Pending) \<Longrightarrow> iter_run api i d s (Inr (Return False)) d s"
| freeze: "open_request i d r c rq \<Longrightarrow> br_attempted_at r c = None \<Longrightarrow> api_now api s = (now, s1) \<Longrightarrow>
    quiet api s1 s2 \<Longrightarrow> rq' = rq \<or> rq' = rq\<lparr>rq_invoice := None\<rparr> \<Longrightarrow>
    iter_run api i d s (Inr Continue) (update_report now i (set_request c rq' (Some now)) d) s2"
| to_review: "open_request i d r c rq \<Longrightarrow> quiet api s s' \<Longrightarrow>
    iter_run api i d s (Inr (Return False))
      (update_report now i (\<lambda>r. r\<lparr>br_status := NeedsReview, br_last_error := Some reason\<rparr>) d) s'"
| sent: "open_request i d r c rq \<Longrightarrow> br_attempted_at r c = Some a \<Longrightarrow> api_now api s = (now, s1) \<Longrightarrow>
    now - a < SAFE_RETRY_AGE \<Longrightarrow> api_item_create api rq s1 = (Inr it, s2) \<Longrightarrow>
    iter_run api i d s (Inr Continue)
      (update_report now i (\<lambda>r. r\<lparr>br_item_ids := (br_item_ids r)(c \<mapsto> it_id it)\<rparr>) d) s2"
| send_fail: "open_request i d r c rq \<Longrightarrow> br_attempted_at r c = Some a \<Longrightarrow> api_now api s = (now, s1) \<Longrightarrow>
    now - a < SAFE_RETRY_AGE \<Longrightarrow> api_item_create api rq s1 = (Inl e, s2) \<Longrightarrow> quiet api s2 s3 \<Longrightarrow>
    iter_run api i d s (Inl e') d s3"
| carried: "open_request i d r c rq \<Longrightarrow> br_attempted_at r c = Some a \<Longrightarrow> api_now api s = (now, s1) \<Longrightarrow>
    now - a < SAFE_RETRY_AGE \<Longrightarrow> api_item_create api rq s1 = (Inl (StripeInvalidRequest x y), s2) \<Longrightarrow>
    rq_invoice rq \<noteq> None \<Longrightarrow> quiet api s2 s3 \<Longrightarrow>
    iter_run api i d s (Inr Continue) (update_report now i
      (set_request c (rq\<lparr>rq_invoice := None, rq_key := carryover_key (rq_key rq)\<rparr>) None) d) s3"
| recovered: "open_request i d r c rq \<Longrightarrow> br_attempted_at r c = Some a \<Longrightarrow> api_now api s = (now, s1) \<Longrightarrow>
    api_item_list api cu g s1 = (Inr its, s2) \<Longrightarrow> it \<in> set its \<Longrightarrow> it_report_id it = Some i \<Longrightarrow>
    it_category it = Some c \<Longrightarrow> it_amount it = rq_amount rq \<Longrightarrow>
    iter_run api i d s (Inr Continue)
      (update_report now i (\<lambda>r. r\<lparr>br_item_ids := (br_item_ids r)(c \<mapsto> it_id it)\<rparr>) d) s2"
| finished: "report_at i d = Some r \<Longrightarrow> br_status r = Pending \<Longrightarrow> next_request r = None \<Longrightarrow>
    finish_report now r d = (Inr (), d') \<Longrightarrow> quiet api s s' \<Longrightarrow>
    iter_run api i d s (Inr (Return True)) d' s'"

lemma quiet_trans:
  assumes "quiet api t u" "quiet api s t"
  shows "quiet api s u"
  using assms by (induction rule: quiet.induct) (auto intro: quiet.intros)

lemmas quiet_calls = quiet_now[OF quiet_refl] quiet_status[OF quiet_refl] quiet_list[OF quiet_refl]

lemmas session_defs = in_db_def in_env_def utcnow_def commit_def rollback_def modify_db_def

text \<open>Statements that only read leave all but the environment as it was.\<close>

definition reads :: "'s stripe_api \<Rightarrow> 's bworld \<Rightarrow> 's bworld \<Rightarrow> bool" where
  "reads api w w' \<longleftrightarrow> (\<exists>s. quiet api (env w) s \<and> w' = w\<lparr>env := s\<rparr>)"

interpretation reads: exec_preorder "reads api" for api
proof unfold_locales
  show "reads api s s" for s by (auto simp: reads_def intro!: exI[of _ "env s"] quiet_refl)
  show "reads api s u" if "reads api s t" "reads api t u" for s t u
    using that by (auto simp: reads_def intro!: exI[of _ "env u"] intro: quiet_trans)
qed

lemma reads_in_env [keeps_rules]:
  assumes "\<And>s x u. m s = (x, u) \<Longrightarrow> quiet api s u"
  shows "keeps (reads api) (in_env m)"
  using assms by (auto simp: keeps_def in_env_def reads_def split: prod.splits)

lemma reads_in_db [keeps_rules]:
  fixes api :: "'s stripe_api"
  assumes "\<And>d. snd (m d) = d"
  shows "keeps (reads api) (in_db m)"
proof (rule keepsI)
  fix w :: "'s bworld"
  obtain x where "m (db w) = (x, db w)" using assms by (metis prod.collapse)
  then have "snd (in_db m w) = w\<lparr>env := env w\<rparr>" by (simp add: in_db_def)
  then show "reads api w (snd (in_db m w))"
    by (simp only: reads_def) (intro exI[of _ "env w"] conjI quiet_refl refl)
qed

lemma reads_calls [keeps_rules]:
  "keeps (reads api) (in_env (api_invoice_status api i))"
  "keeps (reads api) (in_env (api_item_list api cu g))"
  "keeps (reads api) (utcnow api)"
  "keeps (reads api) (destination api rq)"
  "keeps (reads api) (collectable report params)"
  "keeps (reads api) (find_existing api report c rq a)"
proof -
  show *: "keeps (reads api) (in_env (api_invoice_status api i))"
    "keeps (reads api) (in_env (api_item_list api cu g))" "keeps (reads api) (utcnow api)" for i cu g
    unfolding utcnow_def by (auto intro!: reads_in_env intro: quiet_calls split: prod.splits)
  show "keeps (reads api) (destination api rq)" "keeps (reads api) (collectable report params)"
    "keeps (reads api) (find_existing api report c rq a)"
    unfolding destination_def collectable_def find_existing_def
    by (intro keeps_rules *; simp add: get_subscription_by_org_def)+
qed

lemma destination_params:
  "destination api rq w = (Inr params, w') \<Longrightarrow> params = rq \<or> params = rq\<lparr>rq_invoice := None\<rparr>"
  by (auto simp: destination_def bindE_Inr_iff split: option.splits)

text \<open>An iteration follows the protocol; one that raises has written nothing.\<close>

definition follows :: "'s stripe_api \<Rightarrow> uuid \<Rightarrow> 's \<Rightarrow> 's bworld \<Rightarrow> (error + bool loop) \<times> 's bworld \<Rightarrow> bool" where
  "follows api i s w res \<longleftrightarrow> (case res of (x, w') \<Rightarrow>
     committed w' = db w' \<and> redis w' = redis w \<and> iter_run api i (db w) s x (db w') (env w'))"

lemma first_attempt_follows:
  assumes w: "committed w = db w" and i: "br_id r = i" and s: "api_now api s = (now, env w)"
    and o: "open_request i (db w) r c rq" "br_attempted_at r c = None"
  shows "follows api i s w (first_attempt api now r c rq w)"
proof -
  have q: "quiet api s (env w)" using s by (rule quiet_calls)
  obtain x w1 where d: "destination api rq w = (x, w1)" by fastforce
  obtain s1 where s1: "quiet api (env w) s1" "w1 = w\<lparr>env := s1\<rparr>"
    using keepsD2[OF reads_calls(4) d] by (auto simp: reads_def)
  show ?thesis
  proof (cases x)
    case (Inl e)
    with d s1 w q show ?thesis
      by (auto simp: follows_def first_attempt_def bindE_def intro: read_fail quiet_trans)
  next
    case (Inr params)
    obtain y w2 where k: "collectable r params w1 = (y, w2)" by fastforce
    obtain s2 where s2: "quiet api s1 s2" "w2 = w\<lparr>env := s2\<rparr>"
      using keepsD2[OF reads_calls(5) k] s1 by (auto simp: reads_def)
    note s12 = quiet_trans[OF s2(1) s1(1)]
    show ?thesis
    proof (cases y)
      case (Inl e)
      with d k Inr s12 s2 w q show ?thesis
        by (auto simp: follows_def first_attempt_def bindE_def intro: read_fail quiet_trans)
    next
      case (Inr ok)
      with d k \<open>x = Inr params\<close> s12 s2 w q i s o destination_params[of api rq w params w1] show ?thesis
        by (cases ok) (auto simp: follows_def first_attempt_def bindE_def review_def session_defs exec_defs
            intro: freeze to_review quiet_trans)
    qed
  qed
qed

lemma send_follows:
  assumes w: "committed w = db w" and i: "br_id r = i" and s: "api_now api s = (now, env w)"
    and o: "open_request i (db w) r c rq" "br_attempted_at r c = Some a" "now - a < SAFE_RETRY_AGE"
  shows "follows api i s w (bindE (send_request api now r c rq) (record_item now i c) w)"
proof -
  obtain x s1 where c: "api_item_create api rq (env w) = (x, s1)" by fastforce
  show ?thesis
  proof (cases x)
    case (Inr it)
    with c w s o show ?thesis
      by (auto simp: follows_def send_request_def record_item_def session_defs exec_defs intro: sent)
  next
    case (Inl e)
    note fail = send_fail[OF o(1,2) s o(3), of e s1]
    have plain: "follows api i s w (Inl e', w\<lparr>env := s2\<rparr>)" if "quiet api s1 s2" for e' s2
      using fail that c Inl w by (simp add: follows_def)
    show ?thesis
    proof (cases "\<exists>p q j. e = StripeInvalidRequest p q \<and> rq_invoice rq = Some j \<and>
        (p = Some ''invoice_not_editable'' \<or> q = Some ''invoice'')")
      case False
      then have "bindE (send_request api now r c rq) (record_item now i c) w = (Inl e, w\<lparr>env := s1\<rparr>)"
        using c Inl by (auto simp: send_request_def session_defs exec_defs split: error.splits option.splits)
      then show ?thesis using plain[OF quiet_refl] by simp
    next
      case True
      then obtain p q j where e: "e = StripeInvalidRequest p q" "rq_invoice rq = Some j"
        "p = Some ''invoice_not_editable'' \<or> q = Some ''invoice''" by blast
      obtain y s2 where st: "api_invoice_status api j s1 = (y, s2)" by fastforce
      have q: "quiet api s1 s2" using st by (rule quiet_calls)
      note carry = carried[OF o(1,2) s o(3) c[unfolded Inl e(1)] _ q]
      show ?thesis
        using c Inl e st plain[OF q] carry w i
        by (auto simp: follows_def send_request_def record_item_def session_defs exec_defs split: sum.splits)
    qed
  qed
qed

lemma find_existing_Inr:
  assumes "find_existing api r c rq a w = (Inr (Some it), w')"
  obtains its where "api_item_list api (br_customer r) (a div 1000000 - 60) (env w) = (Inr its, env w')"
    "it \<in> set its" "it_report_id it = Some (br_id r)" "it_category it = Some c" "it_amount it = rq_amount rq"
proof -
  from assms obtain its where l: "api_item_list api (br_customer r) (a div 1000000 - 60) (env w) = (Inr its, env w')"
    and f: "find (\<lambda>it. it_report_id it = Some (br_id r) \<and> it_category it = Some c) (take 1000 its) = Some it"
    and am: "it_amount it = rq_amount rq"
    by (auto simp: find_existing_def bindE_Inr_iff in_env_def split: prod.splits option.splits if_splits)
  from f have "it \<in> set (take 1000 its)" "it_report_id it = Some (br_id r)" "it_category it = Some c"
    by (auto simp: find_Some_iff in_set_conv_nth)
  with l am that show thesis by (meson in_set_takeD)
qed

lemma recover_follows:
  assumes w: "committed w = db w" and i: "br_id r = i" and s: "api_now api s = (now, env w)"
    and o: "open_request i (db w) r c rq" "br_attempted_at r c = Some a"
  shows "follows api i s w (bindE (recover_request api now r c rq a) (record_item now i c) w)"
proof -
  have q: "quiet api s (env w)" using s by (rule quiet_calls)
  obtain x w1 where f: "find_existing api r c rq a w = (x, w1)" by fastforce
  obtain s1 where s1: "quiet api (env w) s1" "w1 = w\<lparr>env := s1\<rparr>"
    using keepsD2[OF reads_calls(6) f] by (auto simp: reads_def)
  note qs = quiet_trans[OF s1(1) q]
  consider e where "x = Inl e" | "x = Inr None" | it where "x = Inr (Some it)"
    by (metis sum.exhaust option.exhaust)
  then show ?thesis
  proof cases
    case 1
    with f s1 w qs o i show ?thesis
      by (cases "is_pandaprobe_error e") (auto simp: follows_def recover_request_def record_item_def review_def
          session_defs exec_defs intro: read_fail to_review)
  next
    case 2
    with f s1 w qs o i show ?thesis
      by (auto simp: follows_def recover_request_def record_item_def review_def session_defs exec_defs intro: to_review)
  next
    case 3
    obtain its where "api_item_list api (br_customer r) (a div 1000000 - 60) (env w) = (Inr its, s1)"
      "it \<in> set its" "it_report_id it = Some i" "it_category it = Some c" "it_amount it = rq_amount rq"
      using find_existing_Inr[OF f[unfolded 3]] s1 i by auto
    note rec = recovered[OF o s this]
    show ?thesis using f s1 w 3 rec
      by (auto simp: follows_def recover_request_def record_item_def session_defs exec_defs)
  qed
qed

lemma next_request_SomeD:
  "next_request r = Some (c, rq) \<Longrightarrow> (c, rq) \<in> set (br_requests r) \<and> br_item_ids r c = None"
  by (auto simp: next_request_def find_Some_iff in_set_conv_nth)

lemma next_request_None: "next_request r = None \<longleftrightarrow> (\<forall>(c, rq) \<in> set (br_requests r). br_item_ids r c \<noteq> None)"
  by (auto simp: next_request_def find_None_iff)

theorem deliver_iter_follows:
  assumes wf: "billing_wf (db w)" and w: "committed w = db w"
  shows "follows api i (env w) w (deliver_iter api i w)"
proof (cases "report_at i (db w)")
  case None
  with w show ?thesis
    by (auto simp: follows_def deliver_iter_def lock_report_eq[OF wf] session_defs exec_defs intro: idle)
next
  case (Some r)
  then have i: "br_id r = i" by (auto dest: report_at_Some)
  show ?thesis
  proof (cases "br_status r = Pending")
    case False
    with Some w show ?thesis
      by (auto simp: follows_def deliver_iter_def lock_report_eq[OF wf] session_defs exec_defs intro: idle)
  next
    case pend: True
    obtain now s1 where t: "api_now api (env w) = (now, s1)" by fastforce
    let ?w = "w\<lparr>env := s1\<rparr>"
    have step: "deliver_iter api i w = (case next_request r of
        None \<Rightarrow> bindE (in_db (finish_report now r)) (\<lambda>_. bindE commit (\<lambda>_. ret (Return True)))
      | Some (c, rq) \<Rightarrow> (case br_attempted_at r c of
            None \<Rightarrow> first_attempt api now r c rq
          | Some a \<Rightarrow> bindE (if SAFE_RETRY_AGE \<le> now - a then recover_request api now r c rq a
                          else send_request api now r c rq) (record_item now i c))) ?w"
      using Some pend t
      by (simp add: deliver_iter_def lock_report_eq[OF wf] in_db_def utcnow_def in_env_def bindE_def)
    show ?thesis
    proof (cases "next_request r")
      case None
      obtain x d' where fin: "finish_report now r (db w) = (x, d')" by fastforce
      have "d' = db w" if "x = Inl e" for e
        using fin that by (auto simp: finish_report_def Let_def split: list.splits)
      then show ?thesis using None fin w step Some pend quiet_calls(1)[OF t]
        by (cases x) (auto simp: follows_def session_defs exec_defs intro: read_fail finished)
    next
      case (Some p)
      obtain c rq where p: "p = (c, rq)" by fastforce
      have o: "open_request i (db ?w) r c rq"
        using \<open>report_at i (db w) = Some r\<close> pend Some p by (simp add: open_request_def)
      have t': "api_now api (env w) = (now, env ?w)" using t by simp
      have "follows api i (env w) ?w (deliver_iter api i w)"
      proof (cases "br_attempted_at r c")
        case None
        then show ?thesis using first_attempt_follows[OF _ i t' o None] w step Some p by simp
      next
        case a: (Some a)
        then show ?thesis
          using recover_follows[OF _ i t' o a] send_follows[OF _ i t' o a] w step Some p
          by (cases "SAFE_RETRY_AGE \<le> now - a") simp_all
      qed
      then show ?thesis by (simp add: follows_def split: prod.splits)
    qed
  qed
qed

section \<open>The loop ends\<close>

text \<open>
  The work left in a report: a request without an item needs one more call, one more
  iteration when it was never attempted, and two more when a rejection can still turn
  it into a carryover.
\<close>

definition request_work :: "billing_report \<Rightarrow> usage_category \<times> bill_request \<Rightarrow> nat" where
  "request_work r = (\<lambda>(c, rq). if br_item_ids r c \<noteq> None then 0
     else 1 + (if br_attempted_at r c = None then 1 else 0) + (if rq_invoice rq = None then 0 else 2))"

definition report_work :: "billing_report \<Rightarrow> nat" where
  "report_work r = sum_list (map (request_work r) (br_requests r))"

definition work_at :: "uuid \<Rightarrow> billing_db \<Rightarrow> nat" where
  "work_at i d = (case report_at i d of None \<Rightarrow> 0 | Some r \<Rightarrow> report_work r)"

lemma request_work_le: "request_work r x \<le> 4"
  by (cases x) (simp add: request_work_def)

lemma length_requests:
  assumes "distinct (map fst (br_requests r))"
  shows "length (br_requests r) \<le> 3"
proof -
  have "fst ` set (br_requests r) \<subseteq> {TRACES, TRACE_EVALS, SESSION_EVALS}"
    using usage_category.exhaust by blast
  then have "card (fst ` set (br_requests r)) \<le> card {TRACES, TRACE_EVALS, SESSION_EVALS}"
    by (intro card_mono) simp_all
  then show ?thesis using assms distinct_card[of "map fst (br_requests r)"] by (simp add: card_insert_if split: if_splits)
qed

lemma report_work_bound:
  assumes "distinct (map fst (br_requests r))"
  shows "report_work r \<le> 12"
proof -
  have "sum_list (map (request_work r) xs) \<le> 4 * length xs" for xs
    by (induction xs) (use request_work_le[of r] in \<open>auto intro: add_mono\<close>)
  from this[of "br_requests r"] length_requests[OF assms] show ?thesis by (simp add: report_work_def)
qed

text \<open>Changing one request changes the work by that request only.\<close>

lemma sum_update_less:
  fixes f g :: "usage_category \<times> bill_request \<Rightarrow> nat"
  assumes "distinct (map fst xs)" "(c, rq) \<in> set xs" "g (c, rq') < f (c, rq)"
    and "\<And>c' q. c' \<noteq> c \<Longrightarrow> g (c', q) = f (c', q)"
  shows "sum_list (map g (AList.update c rq' xs)) < sum_list (map f xs)"
  using assms
proof (induction xs)
  case (Cons x xs)
  obtain c0 q0 where x: "x = (c0, q0)" by fastforce
  show ?case
  proof (cases "c0 = c")
    case True
    with Cons.prems x have "q0 = rq" "c \<notin> fst ` set xs" by (auto simp: image_iff)
    then have "map g xs = map f xs" using Cons.prems(4) by (auto simp: image_iff)
    then have "sum_list (map g xs) = sum_list (map f xs)" by (rule arg_cong)
    with True x \<open>q0 = rq\<close> Cons.prems(3) show ?thesis by simp
  next
    case False
    with Cons x show ?thesis by auto
  qed
qed simp

lemma report_work_update:
  assumes "distinct (map fst (br_requests r))" "(c, rq) \<in> set (br_requests r)"
    and "br_requests r' = AList.update c rq' (br_requests r)"
    and "request_work r' (c, rq') < request_work r (c, rq)"
    and "\<And>c'. c' \<noteq> c \<Longrightarrow> br_item_ids r' c' = br_item_ids r c' \<and> br_attempted_at r' c' = br_attempted_at r c'"
  shows "report_work r' < report_work r"
  unfolding report_work_def assms(3)
  using assms(1,2)
proof (rule sum_update_less)
  show "request_work r' (c, rq') < request_work r (c, rq)" by (rule assms(4))
qed (use assms(5) in \<open>simp add: request_work_def\<close>)

lemma AList_update_id: "distinct (map fst xs) \<Longrightarrow> (c, x) \<in> set xs \<Longrightarrow> AList.update c x xs = xs"
  by (induction xs) (auto simp: image_iff)

lemma work_at_update:
  assumes "report_at i d = Some r" "\<And>r. br_id (f r) = br_id r"
  shows "work_at i (update_report now i f d) = report_work (f r)"
proof -
  have "request_work (r'\<lparr>br_updated_at := now\<rparr>) = request_work r'" for r'
    by (simp add: request_work_def cong: if_cong)
  then have "report_work (r'\<lparr>br_updated_at := now\<rparr>) = report_work r'" for r'
    by (simp add: report_work_def)
  then show ?thesis using assms by (simp add: work_at_def report_at_update)
qed

text \<open>Each iteration that goes on leaves less work.\<close>

lemma iter_run_progress:
  assumes "iter_run api i d s (Inr Continue) d' s'" "billing_wf d"
  shows "work_at i d' < work_at i d"
proof -
  have wfr: "distinct (map fst (br_requests r))" if "report_at i d = Some r" for r
    using assms(2) that report_at_Some by (auto simp: billing_wf_def)
  from assms(1) show ?thesis
  proof cases
    case (freeze r c rq now s1 rq')
    have "report_work (set_request c rq' (Some now) r) < report_work r"
      using freeze wfr[of r] next_request_SomeD[of r c rq]
      by (intro report_work_update[where c = c and rq = rq and rq' = rq'])
         (auto simp: set_request_def request_work_def open_request_def)
    with freeze show ?thesis by (simp add: work_at_update open_request_def work_at_def[of i d] set_request_def)
  next
    case (sent r c rq a now s1 it)
    have "report_work (r\<lparr>br_item_ids := (br_item_ids r)(c \<mapsto> it_id it)\<rparr>) < report_work r"
      using sent wfr[of r] next_request_SomeD[of r c rq]
      by (intro report_work_update[where c = c and rq = rq and rq' = rq])
         (auto simp: request_work_def open_request_def AList_update_id)
    with sent show ?thesis by (simp add: work_at_update open_request_def work_at_def[of i d])
  next
    case (carried r c rq a now s1 x y s2)
    let ?rq = "rq\<lparr>rq_invoice := None, rq_key := carryover_key (rq_key rq)\<rparr>"
    have "report_work (set_request c ?rq None r) < report_work r"
      using carried wfr[of r] next_request_SomeD[of r c rq]
      by (intro report_work_update[where c = c and rq = rq and rq' = ?rq])
         (auto simp: set_request_def request_work_def open_request_def)
    with carried show ?thesis by (simp add: work_at_update open_request_def work_at_def[of i d] set_request_def)
  next
    case (recovered r c rq a now s1 cu g its it)
    have "report_work (r\<lparr>br_item_ids := (br_item_ids r)(c \<mapsto> it_id it)\<rparr>) < report_work r"
      using recovered wfr[of r] next_request_SomeD[of r c rq]
      by (intro report_work_update[where c = c and rq = rq and rq' = rq])
         (auto simp: request_work_def open_request_def AList_update_id)
    with recovered show ?thesis by (simp add: work_at_update open_request_def work_at_def[of i d])
  qed
qed

text \<open>Changing the attempt of a request keeps the ledger: the reserved range stays.\<close>

lemma same_ledger_entry_set_request:
  assumes "map_of (br_requests r) c = Some rq" "rq_from_count rq' = rq_from_count rq" "rq_to_count rq' = rq_to_count rq"
  shows "same_ledger_entry r (set_request c rq' a r)"
  using assms by (auto simp: same_ledger_entry_def covers_def set_request_def update_conv split: option.splits)

lemma distinct_set_request:
  "distinct (map fst (br_requests r)) \<Longrightarrow> distinct (map fst (br_requests (set_request c rq a r)))"
  by (simp add: set_request_def distinct_update)

lemma set_request_ids [simp]:
  "br_id (set_request c rq a r) = br_id r" "br_usage_id (set_request c rq a r) = br_usage_id r"
  by (simp_all add: set_request_def)

text \<open>An iteration keeps the invariant of the tables.\<close>

lemma iter_run_inv:
  assumes "iter_run api i d s x d' s'" "billing_inv d"
  shows "billing_inv d'"
proof -
  have wf: "billing_wf d" using assms(2) by (simp add: billing_inv_def)
  have one: "r' = r" "map_of (br_requests r) c = Some rq"
    if "open_request i d r c rq" "r' \<in> set (reports d)" "br_id r' = i" for r r' c rq
  proof -
    have "report_at i d = Some r" using that by (simp add: open_request_def)
    moreover have "report_at i d = Some r'" using report_at_mem[OF wf that(2)] that(3) by simp
    ultimately show "r' = r" by simp
    then show "map_of (br_requests r) c = Some rq"
      using that wf next_request_SomeD[of r c rq] by (auto simp: open_request_def billing_wf_def)
  qed
  from assms(1) show ?thesis
  proof cases
    case (freeze r c rq now s1 rq')
    show ?thesis unfolding freeze
      by (rule billing_inv_update_report[OF assms(2)])
         (use freeze one[of r c rq] same_ledger_entry_set_request in \<open>auto simp: distinct_set_request\<close>)
  next
    case (carried r c rq a now s1 x y s2)
    show ?thesis unfolding carried
      by (rule billing_inv_update_report[OF assms(2)])
         (use carried one[of r c rq] same_ledger_entry_set_request in \<open>auto simp: distinct_set_request\<close>)
  next
    case (finished r now)
    then show ?thesis using billing_inv_finish assms(2) by blast
  qed (use assms(2) in \<open>auto intro!: billing_inv_update_report\<close>)
qed

lemma deliver_loop_ends:
  assumes "billing_inv (db w)" "committed w = db w" "work_at i (db w) < fuel"
  shows "\<exists>x w'. deliver_loop fuel api i w = (x, w') \<and> x \<noteq> Inr None \<and> billing_inv (db w') \<and> committed w' = db w'"
  using assms
proof (induction fuel arbitrary: w)
  case (Suc fuel)
  obtain x w1 where it: "deliver_iter api i w = (x, w1)" by fastforce
  have wf: "billing_wf (db w)" using Suc.prems by (simp add: billing_inv_def)
  have run: "iter_run api i (db w) (env w) x (db w1) (env w1)" and c: "committed w1 = db w1"
    using deliver_iter_follows[OF wf Suc.prems(2), of api i] it by (simp_all add: follows_def)
  have inv: "billing_inv (db w1)" using run Suc.prems(1) by (rule iter_run_inv)
  show ?case
  proof (cases "x = Inr Continue")
    case True
    then have "work_at i (db w1) < fuel" using iter_run_progress run wf Suc.prems(3) by fastforce
    with Suc.IH[OF inv c] it True show ?thesis by (simp add: bindE_def)
  next
    case False
    with it inv c show ?thesis by (cases x) (auto simp: bindE_def split: loop.splits)
  qed
qed simp

lemma work_at_bound: "billing_wf d \<Longrightarrow> work_at i d \<le> 12"
  using report_work_bound by (auto simp: work_at_def billing_wf_def split: option.splits dest!: report_at_Some)

lemma report_at_finish:
  assumes "finish_report now r d = (Inr (), d')" "report_at i d = Some r"
  shows "report_at i d' = Some (r\<lparr>br_status := Reported, br_last_error := None, br_updated_at := now\<rparr>)"
proof -
  have i: "br_id r = i" using assms(2) by (auto dest: report_at_Some)
  from assms(1) obtain us where d': "d' = update_report now (br_id r)
      (\<lambda>r. r\<lparr>br_status := Reported, br_last_error := None\<rparr>) (d\<lparr>usages := us\<rparr>)"
    by (auto simp: finish_report_def Let_def split: list.splits)
  have "report_at i (d\<lparr>usages := us\<rparr>) = Some r" using assms(2) by (simp add: report_at_def)
  with i show ?thesis unfolding d' by (subst report_at_update) simp_all
qed

definition all_delivered :: "uuid \<Rightarrow> billing_db \<Rightarrow> bool" where
  "all_delivered i d \<longleftrightarrow> (\<exists>r. report_at i d = Some r \<and> br_status r = Reported \<and>
     (\<forall>(c, rq) \<in> set (br_requests r). br_item_ids r c \<noteq> None))"

lemma iter_run_True:
  assumes "iter_run api i d s (Inr (Return True)) d' s'"
  shows "all_delivered i d'"
  using assms
proof cases
  case (finished r now)
  from report_at_finish[OF finished(4,1)] finished(3) show ?thesis
    by (auto simp: all_delivered_def next_request_None)
qed auto

lemma deliver_loop_True:
  assumes "deliver_loop fuel api i w = (Inr (Some True), w')" "billing_inv (db w)" "committed w = db w"
  shows "all_delivered i (committed w')"
  using assms
proof (induction fuel arbitrary: w)
  case (Suc fuel)
  obtain x w1 where it: "deliver_iter api i w = (x, w1)" by fastforce
  have wf: "billing_wf (db w)" using Suc.prems by (simp add: billing_inv_def)
  have run: "iter_run api i (db w) (env w) x (db w1) (env w1)" and c: "committed w1 = db w1"
    using deliver_iter_follows[OF wf Suc.prems(3), of api i] it by (simp_all add: follows_def)
  have inv: "billing_inv (db w1)" using run Suc.prems(2) by (rule iter_run_inv)
  consider "x = Inr Continue" "deliver_loop fuel api i w1 = (Inr (Some True), w')" | "x = Inr (Return True)" "w' = w1"
    using Suc.prems(1) it by (cases x) (auto simp: bindE_def split: loop.splits)
  then show ?case
  proof cases
    case 1
    then show ?thesis using Suc.IH inv c by blast
  next
    case 2
    then show ?thesis using iter_run_True run c by simp
  qed
qed simp

lemma deliver_safely_ok:
  assumes "billing_inv (db w)" "committed w = db w"
  shows "\<exists>b w'. deliver_safely api i w = (Inr (Some b), w') \<and> billing_inv (db w') \<and> committed w' = db w'"
proof -
  obtain x w1 where d: "deliver api i w = (x, w1)" "x \<noteq> Inr None" "billing_inv (db w1)" "committed w1 = db w1"
    using deliver_loop_ends[OF assms, of i 13 api] work_at_bound[of "db w" i] assms(1)
    by (auto simp: billing_inv_def deliver_def)
  have wf: "billing_wf (db w1)" using d(3) by (simp add: billing_inv_def)
  have le: "billing_inv (update_report now j (\<lambda>r. r\<lparr>br_last_error := e\<rparr>) (db w1))" for now j e
    using d(3) by (rule billing_inv_update_report) (simp_all add: same_ledger_entry_def covers_def)
  show ?thesis
  proof (cases x)
    case (Inl e)
    with d le show ?thesis
      by (auto simp: deliver_safely_def catchE_def session_defs lock_report_eq[OF wf] bindE_def
          split: option.splits prod.splits)
  next
    case (Inr y)
    with d show ?thesis by (auto simp: deliver_safely_def catchE_def)
  qed
qed

end
