(* ===== verification/BillingSystem.thy ===== *)
theory BillingSystem
  imports BillingDelivery
begin

text \<open>
  The billing pipeline as a system: workers stage and deliver reports, processes crash
  between a Stripe call and the commit that records it, time passes. Under what Stripe
  documents of idempotency keys, no unit of usage is charged twice.
\<close>

section \<open>What is relied on of Stripe\<close>

text \<open>A charge that exists at Stripe: the key it was created with, when, and the item.\<close>

type_synonym charge = "idempotency_key \<times> datetime \<times> stripe_item"

fun key_report :: "idempotency_key \<Rightarrow> uuid" where
  "key_report (ReportKey i c n) = i"

fun key_category :: "idempotency_key \<Rightarrow> usage_category" where
  "key_category (ReportKey i c n) = c"

definition hours :: "int \<Rightarrow> int" where
  "hours n = seconds (n * 3600)"

definition item_of :: "bill_request \<Rightarrow> stripe_item \<Rightarrow> bool" where
  "item_of rq it \<longleftrightarrow> it_report_id it = Some (rq_report_id rq) \<and> it_category it = Some (rq_category rq) \<and>
     it_amount it = rq_amount rq \<and> it_currency it = rq_currency rq"

text \<open>Stripe keeps the outcome of a request under its idempotency key for 24 hours.\<close>

definition recently_charged :: "idempotency_key \<Rightarrow> datetime \<Rightarrow> charge list \<Rightarrow> bool" where
  "recently_charged k now chs \<longleftrightarrow> (\<exists>t it. (k, t, it) \<in> set chs \<and> now < t + hours 24)"

text \<open>
  A creation call, executed at the instant \<open>tc\<close>: it adds at most the one item it asks
  for, none when its key was charged within the window; the item it returns exists; an
  invalid request was not charged and no charge is remembered under its key.
\<close>

definition create_contract ::
    "bill_request \<Rightarrow> datetime \<Rightarrow> charge list \<Rightarrow> error + stripe_item \<Rightarrow> charge list \<Rightarrow> bool" where
  "create_contract rq tc chs r chs' \<longleftrightarrow>
     (chs' = chs \<or> (\<exists>it. chs' = chs @ [(rq_key rq, tc, it)] \<and> item_of rq it \<and> \<not> recently_charged (rq_key rq) tc chs))
   \<and> (case r of
        Inr it \<Rightarrow> \<exists>t. (rq_key rq, t, it) \<in> set chs'
      | Inl (StripeInvalidRequest _ _) \<Rightarrow> chs' = chs \<and> \<not> recently_charged (rq_key rq) tc chs
      | Inl _ \<Rightarrow> True)"

text \<open>
  The contract of the API, for the charges that exist and the clock of an environment
  state: reading creates nothing, the clock does not run backwards, a listed item with a
  report's metadata was created for that report, and a creation takes at most an hour.
\<close>

definition reading_contract :: "('s \<Rightarrow> charge list) \<Rightarrow> ('s \<Rightarrow> datetime) \<Rightarrow> 's \<Rightarrow> 's \<Rightarrow> bool" where
  "reading_contract charges clock s s' \<longleftrightarrow> charges s' = charges s \<and> clock s \<le> clock s'"

definition list_contract :: "charge list \<Rightarrow> error + stripe_item list \<Rightarrow> bool" where
  "list_contract chs x \<longleftrightarrow> (\<forall>its it i c. x = Inr its \<longrightarrow> it \<in> set its \<longrightarrow> it_report_id it = Some i \<longrightarrow>
     it_category it = Some c \<longrightarrow> (\<exists>n t. (ReportKey i c n, t, it) \<in> set chs))"

definition timed_create :: "('s \<Rightarrow> charge list) \<Rightarrow> ('s \<Rightarrow> datetime) \<Rightarrow> bill_request \<Rightarrow> 's \<Rightarrow> error + stripe_item \<Rightarrow> 's \<Rightarrow> bool" where
  "timed_create charges clock rq s r s' \<longleftrightarrow>
     (\<exists>tc. clock s \<le> tc \<and> tc \<le> clock s + hours 1 \<and> tc \<le> clock s' \<and> create_contract rq tc (charges s) r (charges s'))"

definition stripe_contract :: "'s stripe_api \<Rightarrow> ('s \<Rightarrow> charge list) \<Rightarrow> ('s \<Rightarrow> datetime) \<Rightarrow> bool" where
  "stripe_contract api charges clock \<longleftrightarrow>
     (\<forall>s now s'. api_now api s = (now, s') \<longrightarrow> reading_contract charges clock s s' \<and> clock s' = now)
   \<and> (\<forall>i s x s'. api_invoice_status api i s = (x, s') \<longrightarrow> reading_contract charges clock s s')
   \<and> (\<forall>cu g s x s'. api_item_list api cu g s = (x, s') \<longrightarrow> reading_contract charges clock s s' \<and> list_contract (charges s) x)
   \<and> (\<forall>rq s r s'. api_item_create api rq s = (r, s') \<longrightarrow> timed_create charges clock rq s r s')"

lemma contract_calls:
  assumes "stripe_contract api charges clock"
  shows "api_now api s = (now, s') \<Longrightarrow> reading_contract charges clock s s' \<and> clock s' = now"
    and "api_invoice_status api i s = (x, s') \<Longrightarrow> reading_contract charges clock s s'"
    and "api_item_list api cu g s = (y, s') \<Longrightarrow> reading_contract charges clock s s' \<and> list_contract (charges s) y"
    and "api_item_create api rq s = (r, s') \<Longrightarrow> timed_create charges clock rq s r s'"
  using assms unfolding stripe_contract_def by blast+

lemma contract_quiet:
  assumes k: "stripe_contract api charges clock" and "quiet api s s'"
  shows "reading_contract charges clock s s'"
  using assms(2)
proof (induction rule: quiet.induct)
  case (quiet_now s t x u)
  with contract_calls(1)[OF k quiet_now(2)] show ?case by (auto simp: reading_contract_def)
next
  case (quiet_status s t i x u)
  with contract_calls(2)[OF k quiet_status(2)] show ?case by (auto simp: reading_contract_def)
next
  case (quiet_list s t cu g x u)
  with contract_calls(3)[OF k quiet_list(2)] show ?case by (auto simp: reading_contract_def)
qed (simp add: reading_contract_def)

section \<open>Charges and requests\<close>

definition charges_for :: "uuid \<Rightarrow> usage_category \<Rightarrow> charge list \<Rightarrow> charge list" where
  "charges_for i c chs = filter (\<lambda>(k, _, _). key_report k = i \<and> key_category k = c) chs"

text \<open>
  How the charges of a request follow its record in the table: none before it was
  attempted, at most one under its frozen key once it was, exactly one when its item is
  stored; always for the reserved amount.
\<close>

definition charges_fit ::
    "charge list \<Rightarrow> datetime \<Rightarrow> uuid \<Rightarrow> string option \<Rightarrow> datetime option \<Rightarrow> usage_category \<Rightarrow> bill_request \<Rightarrow> bool" where
  "charges_fit chs now i item attempted c rq \<longleftrightarrow>
     rq_report_id rq = i \<and> rq_category rq = c \<and> key_report (rq_key rq) = i \<and> key_category (rq_key rq) = c
   \<and> length chs \<le> 1 \<and> (\<forall>x \<in> set chs. it_amount (snd (snd x)) = rq_amount rq)
   \<and> (item \<noteq> None \<longrightarrow> length chs = 1)
   \<and> (item = None \<longrightarrow> (case attempted of
        None \<Rightarrow> chs = []
      | Some a \<Rightarrow> a \<le> now \<and> (\<forall>x \<in> set chs. fst x = rq_key rq \<and> a \<le> fst (snd x))))"

definition charged_right :: "charge list \<Rightarrow> datetime \<Rightarrow> billing_report \<Rightarrow> usage_category \<times> bill_request \<Rightarrow> bool" where
  "charged_right chs now r x =
     charges_fit (charges_for (br_id r) (fst x) chs) now (br_id r) (br_item_ids r (fst x))
       (br_attempted_at r (fst x)) (fst x) (snd x)"

definition charge_inv :: "billing_db \<Rightarrow> charge list \<Rightarrow> datetime \<Rightarrow> bool" where
  "charge_inv d chs now \<longleftrightarrow>
     (\<forall>r \<in> set (reports d). \<forall>x \<in> set (br_requests r). charged_right chs now r x)
   \<and> (\<forall>x \<in> set chs. \<exists>r \<in> set (reports d). br_id r = key_report (fst x) \<and> key_category (fst x) \<in> fst ` set (br_requests r))"

lemma charges_for_snoc:
  "charges_for i c (chs @ [(k, t, it)]) =
     charges_for i c chs @ (if key_report k = i \<and> key_category k = c then [(k, t, it)] else [])"
  by (simp add: charges_for_def)

lemma charged_rightD:
  assumes "charged_right chs now r (c, rq)"
  shows "length (charges_for (br_id r) c chs) \<le> 1"
    "x \<in> set (charges_for (br_id r) c chs) \<Longrightarrow> it_amount (snd (snd x)) = rq_amount rq"
    "br_item_ids r c \<noteq> None \<Longrightarrow> length (charges_for (br_id r) c chs) = 1"
  using assms by (simp_all add: charged_right_def charges_fit_def)

lemma charged_right_later:
  "charged_right chs now r x \<Longrightarrow> now \<le> now' \<Longrightarrow> charged_right chs now' r x"
  by (cases "br_attempted_at r (fst x)") (auto simp: charged_right_def charges_fit_def)

lemma charge_inv_later: "charge_inv d chs now \<Longrightarrow> now \<le> now' \<Longrightarrow> charge_inv d chs now'"
  by (auto simp: charge_inv_def intro: charged_right_later)

lemma key_cases: "key_report k = i \<Longrightarrow> key_category k = c \<Longrightarrow> \<exists>n. k = ReportKey i c n"
  by (cases k) auto

text \<open>
  The heart of the argument. A request is only sent while less than 23 hours have passed
  since it was frozen, so a charge made for it is still remembered by Stripe when the
  call, which takes less than an hour, is executed.
\<close>

lemma create_charged_right:
  assumes ok: "charged_right chs now r (c, rq)" and o: "br_item_ids r c = None" "br_attempted_at r c = Some a"
    and t: "tc \<le> now + hours 1" "now \<le> tc" "now - a < SAFE_RETRY_AGE"
    and cr: "create_contract rq tc chs res chs'"
  shows "charged_right chs' tc r (c, rq)"
    and "res = Inr it \<Longrightarrow> length (charges_for (br_id r) c chs') = 1"
    and "res = Inl (StripeInvalidRequest x y) \<Longrightarrow> charges_for (br_id r) c chs = []"
proof -
  let ?f = "charges_for (br_id r) c"
  have key: "key_report (rq_key rq) = br_id r" "key_category (rq_key rq) = c" "a \<le> now"
    and meta: "rq_report_id rq = br_id r" "rq_category rq = c"
    and old: "\<And>x. x \<in> set (?f chs) \<Longrightarrow> fst x = rq_key rq \<and> a \<le> fst (snd x)"
    and le1: "length (?f chs) \<le> 1"
    using ok o by (auto simp: charged_right_def charges_fit_def)
  have recent: "?f chs = []" if "\<not> recently_charged (rq_key rq) tc chs"
  proof (rule ccontr)
    assume "?f chs \<noteq> []"
    then obtain k t it where m: "(k, t, it) \<in> set (?f chs)" by (metis list.set_intros(1) neq_Nil_conv prod_cases3)
    then have "(k, t, it) \<in> set chs" by (simp add: charges_for_def)
    moreover have "k = rq_key rq" "tc < t + hours 24"
      using old[OF m] t by (auto simp: hours_def SAFE_RETRY_AGE_def seconds_def)
    ultimately show False using that by (auto simp: recently_charged_def)
  qed
  have new: "chs' = chs \<or> (\<exists>it. chs' = chs @ [(rq_key rq, tc, it)] \<and> item_of rq it \<and> ?f chs = [])"
    using cr recent by (auto simp: create_contract_def)
  then show right: "charged_right chs' tc r (c, rq)"
  proof
    assume "chs' = chs"
    then show ?thesis using charged_right_later[OF ok t(2)] by simp
  next
    assume "\<exists>it. chs' = chs @ [(rq_key rq, tc, it)] \<and> item_of rq it \<and> ?f chs = []"
    then show ?thesis using ok o key t
      by (auto simp: charged_right_def charges_fit_def charges_for_snoc item_of_def)
  qed
  show "length (?f chs') = 1" if "res = Inr it"
  proof -
    from cr that obtain t' where "(rq_key rq, t', it) \<in> set chs'" by (auto simp: create_contract_def)
    then have "(rq_key rq, t', it) \<in> set (?f chs')" using key by (simp add: charges_for_def)
    then have "?f chs' \<noteq> []" by auto
    moreover have "length (?f chs') \<le> 1" using right by (simp add: charged_right_def charges_fit_def)
    ultimately show ?thesis by (cases "?f chs'") auto
  qed
  show "?f chs = []" if "res = Inl (StripeInvalidRequest x y)"
    using recent cr that by (simp add: create_contract_def)
qed

text \<open>The charges of other requests are not touched by a creation.\<close>

lemma create_other:
  assumes "create_contract rq tc chs res chs'" "(i, c) \<noteq> (key_report (rq_key rq), key_category (rq_key rq))"
  shows "charges_for i c chs' = charges_for i c chs"
  using assms by (auto simp: create_contract_def charges_for_snoc)

lemma charged_right_cong:
  "charges_for (br_id r) (fst x) chs' = charges_for (br_id r) (fst x) chs \<Longrightarrow>
   charged_right chs' now r x = charged_right chs now r x"
  by (simp add: charged_right_def)

lemma open_request_mem:
  assumes "open_request i d r c rq" "billing_wf d"
  shows "r \<in> set (reports d)" "br_id r = i" "(c, rq) \<in> set (br_requests r)" "br_item_ids r c = None"
    "distinct (map fst (br_requests r))"
  using assms report_at_Some[of i d r] next_request_SomeD[of r c rq] by (auto simp: open_request_def billing_wf_def)

lemma charge_inv_create:
  assumes inv: "charge_inv d chs now" and wf: "billing_wf d"
    and o: "open_request i d r c rq" "br_attempted_at r c = Some a"
    and t: "tc \<le> now + hours 1" "now \<le> tc" "now - a < SAFE_RETRY_AGE"
    and cr: "create_contract rq tc chs res chs'"
  shows "charge_inv d chs' tc"
proof -
  note r = open_request_mem[OF o(1) wf]
  have ok: "charged_right chs now r (c, rq)" using inv r by (auto simp: charge_inv_def)
  then have key: "key_report (rq_key rq) = br_id r" "key_category (rq_key rq) = c"
    by (simp_all add: charged_right_def charges_fit_def)
  have "charged_right chs' tc r' x" if r': "r' \<in> set (reports d)" "x \<in> set (br_requests r')" for r' x
  proof (cases "br_id r' = br_id r \<and> fst x = c")
    case True
    then have "Some r' = Some r"
      by (metis report_at_mem[OF wf r'(1)] report_at_mem[OF wf r(1)])
    then have "r' = r" by simp
    moreover have "x = (c, rq)"
      using eq_key_imp_eq_value[OF r(5), of c "snd x" rq] True r'(2) r(3) \<open>r' = r\<close> by (cases x) simp
    ultimately show ?thesis
      using create_charged_right(1)[OF ok r(4) o(2) t cr] by simp
  next
    case False
    then have "charges_for (br_id r') (fst x) chs' = charges_for (br_id r') (fst x) chs"
      using create_other[OF cr] key by auto
    moreover have "charged_right chs tc r' x"
      using inv r' t(2) by (auto simp: charge_inv_def intro: charged_right_later)
    ultimately show ?thesis using charged_right_cong by blast
  qed
  moreover have "\<exists>r \<in> set (reports d). br_id r = key_report (fst x) \<and> key_category (fst x) \<in> fst ` set (br_requests r)"
    if "x \<in> set chs'" for x
  proof (cases "x \<in> set chs")
    case True
    then show ?thesis using inv by (simp add: charge_inv_def)
  next
    case False
    then have "fst x = rq_key rq" using that cr by (auto simp: create_contract_def)
    then show ?thesis using r key by (intro bexI[of _ r]) force+
  qed
  ultimately show ?thesis by (simp add: charge_inv_def)
qed

lemma charged_right_updated_at [simp]:
  "charged_right chs now (r\<lparr>br_updated_at := t\<rparr>) x = charged_right chs now r x"
  "charged_right chs now (r\<lparr>br_status := st, br_last_error := e\<rparr>) x = charged_right chs now r x"
  "charged_right chs now (r\<lparr>br_status := st, br_last_error := e, br_updated_at := t\<rparr>) x = charged_right chs now r x"
  by (simp_all add: charged_right_def)

lemma charge_inv_update:
  assumes inv: "charge_inv d chs now" and wf: "billing_wf d" and r: "report_at i d = Some r"
    and f: "br_id (f r) = br_id r" "fst ` set (br_requests (f r)) = fst ` set (br_requests r)"
    and ok: "\<forall>x \<in> set (br_requests (f r)). charged_right chs now (f r) x"
  shows "charge_inv (update_report t i f d) chs now"
proof -
  let ?g = "\<lambda>r. (f r)\<lparr>br_updated_at := t\<rparr>"
  have mem: "r' \<in> set (reports (update_report t i f d)) \<longleftrightarrow>
      r' = ?g r \<or> r' \<in> set (reports d) \<and> br_id r' \<noteq> i" for r'
  proof -
    have "r'' = r" if "r'' \<in> set (reports d)" "br_id r'' = i" for r''
      using report_at_mem[OF wf that(1)] r that(2) by simp
    then show ?thesis using report_at_Some[OF r] by (auto simp: update_report_def set_update_where)
  qed
  have "\<exists>r' \<in> set (reports (update_report t i f d)). br_id r' = key_report (fst x) \<and> key_category (fst x) \<in> fst ` set (br_requests r')"
    if "x \<in> set chs" for x
  proof -
    obtain r0 where r0: "r0 \<in> set (reports d)" "br_id r0 = key_report (fst x)" "key_category (fst x) \<in> fst ` set (br_requests r0)"
      using inv \<open>x \<in> set chs\<close> unfolding charge_inv_def by blast
    show ?thesis
    proof (cases "br_id r0 = i")
      case True
      then have "r0 = r" using report_at_mem[OF wf r0(1)] r by simp
      then show ?thesis using r0 f by (intro bexI[of _ "?g r"]) (simp_all add: mem)
    next
      case False
      then show ?thesis using r0 by (intro bexI[of _ r0]) (simp_all add: mem)
    qed
  qed
  moreover have "charged_right chs now r' x" if "r' \<in> set (reports (update_report t i f d))" "x \<in> set (br_requests r')" for r' x
    using that ok inv by (auto simp: mem charge_inv_def)
  ultimately show ?thesis by (simp add: charge_inv_def)
qed

section \<open>One iteration keeps charges and requests together\<close>

lemma charge_inv_reading:
  "charge_inv d (charges s) (clock s) \<Longrightarrow> reading_contract charges clock s s' \<Longrightarrow> charge_inv d (charges s') (clock s')"
  by (auto simp: reading_contract_def intro: charge_inv_later)

text \<open>Rewriting one request of a report, or storing its item.\<close>

lemma charge_inv_one_request:
  assumes inv: "charge_inv d chs now" and wf: "billing_wf d" and o: "open_request i d r c rq"
    and f: "br_id (f r) = br_id r" "br_requests (f r) = AList.update c rq' (br_requests r)"
      "\<And>c'. c' \<noteq> c \<Longrightarrow> br_item_ids (f r) c' = br_item_ids r c' \<and> br_attempted_at (f r) c' = br_attempted_at r c'"
    and ok: "charged_right chs now (f r) (c, rq')"
  shows "charge_inv (update_report t i f d) chs now"
proof (rule charge_inv_update[OF inv wf])
  note r = open_request_mem[OF o wf]
  show "report_at i d = Some r" using o by (simp add: open_request_def)
  show "fst ` set (br_requests (f r)) = fst ` set (br_requests r)"
    using r(3) unfolding f(2) by (simp add: dom_update insert_absorb rev_image_eqI)
  show "\<forall>x \<in> set (br_requests (f r)). charged_right chs now (f r) x"
  proof
    fix x assume x: "x \<in> set (br_requests (f r))"
    have d: "distinct (map fst (br_requests (f r)))" using r(5) by (simp add: f(2) distinct_update)
    have mo: "map_of (br_requests (f r)) = (map_of (br_requests r))(c \<mapsto> rq')" by (simp add: f(2) update_conv')
    have xs: "map_of (br_requests (f r)) (fst x) = Some (snd x)" using x d by (simp add: map_of_is_SomeI)
    show "charged_right chs now (f r) x"
    proof (cases "fst x = c")
      case True
      then have "x = (c, rq')" using xs mo by (cases x) simp
      then show ?thesis using ok by simp
    next
      case False
      then have "x \<in> set (br_requests r)" using xs mo map_of_SomeD[of "br_requests r" "fst x" "snd x"] by simp
      then have "charged_right chs now r x" using inv r(1) by (simp add: charge_inv_def)
      then show ?thesis using f(1,3) False by (simp add: charged_right_def)
    qed
  qed
qed (rule f(1))

lemma charge_inv_item:
  assumes inv: "charge_inv d chs now" and wf: "billing_wf d" and o: "open_request i d r c rq"
    and one: "length (charges_for i c chs) = 1"
  shows "charge_inv (update_report t i (\<lambda>r. r\<lparr>br_item_ids := (br_item_ids r)(c \<mapsto> x)\<rparr>) d) chs now"
proof (rule charge_inv_one_request[OF inv wf o])
  note r = open_request_mem[OF o wf]
  show "br_requests (r\<lparr>br_item_ids := (br_item_ids r)(c \<mapsto> x)\<rparr>) = AList.update c rq (br_requests r)"
    using r by (simp add: AList_update_id)
  have "charged_right chs now r (c, rq)" using inv r by (auto simp: charge_inv_def)
  then show "charged_right chs now (r\<lparr>br_item_ids := (br_item_ids r)(c \<mapsto> x)\<rparr>) (c, rq)"
    using one r(2) by (auto simp: charged_right_def charges_fit_def)
qed auto

lemma send_charges:
  assumes k: "stripe_contract api charges clock" and wf: "billing_wf d"
    and inv: "charge_inv d (charges s) (clock s)"
    and o: "open_request i d r c rq" "br_attempted_at r c = Some a"
    and t: "api_now api s = (now, s1)" "now - a < SAFE_RETRY_AGE" and cr: "api_item_create api rq s1 = (res, s2)"
  shows "charge_inv d (charges s2) (clock s2)"
    and "res = Inr it \<Longrightarrow> length (charges_for i c (charges s2)) = 1"
    and "res = Inl (StripeInvalidRequest p q) \<Longrightarrow> charges_for i c (charges s2) = []"
proof -
  note r = open_request_mem[OF o(1) wf]
  have s1: "reading_contract charges clock s s1" "clock s1 = now" using contract_calls(1)[OF k t(1)] by simp_all
  have inv1: "charge_inv d (charges s1) now" using charge_inv_reading[OF inv s1(1)] s1(2) by simp
  obtain tc where tc: "now \<le> tc" "tc \<le> now + hours 1" "tc \<le> clock s2"
    "create_contract rq tc (charges s1) res (charges s2)"
    using contract_calls(4)[OF k cr] s1(2) by (auto simp: timed_create_def)
  show "charge_inv d (charges s2) (clock s2)"
    using charge_inv_create[OF inv1 wf o tc(2,1) t(2) tc(4)] tc(3) by (rule charge_inv_later)
  have "charged_right (charges s1) now r (c, rq)" using inv1 r by (auto simp: charge_inv_def)
  note one = create_charged_right(2,3)[OF this r(4) o(2) tc(2,1) t(2) tc(4)]
  then show "res = Inr it \<Longrightarrow> length (charges_for i c (charges s2)) = 1" using r(2) by simp
  show "charges_for i c (charges s2) = []" if "res = Inl (StripeInvalidRequest p q)"
    using one(2)[OF that] tc(4) that r(2) by (simp add: create_contract_def)
qed

lemma charge_inv_status:
  assumes "charge_inv d chs now" "billing_wf d" "report_at i d = Some r"
  shows "charge_inv (update_report t i (\<lambda>r. r\<lparr>br_status := st, br_last_error := e\<rparr>) d) chs now"
  using assms by (intro charge_inv_update) (auto simp: charge_inv_def dest: report_at_Some)

lemma charge_inv_set_request:
  assumes inv: "charge_inv d chs now" and wf: "billing_wf d" and o: "open_request i d r c rq"
    and ok: "charged_right chs now (set_request c rq' a r) (c, rq')"
  shows "charge_inv (update_report t i (set_request c rq' a) d) chs now"
  by (rule charge_inv_one_request[OF inv wf o, where rq' = rq']) (use ok in \<open>auto simp: set_request_def\<close>)

lemma iter_run_charges:
  assumes k: "stripe_contract api charges clock" and wf: "billing_wf d"
    and inv: "charge_inv d (charges s) (clock s)" and run: "iter_run api i d s x d' s'"
  shows "charge_inv d (charges s') (clock s') \<and> charge_inv d' (charges s') (clock s')"
proof -
  have quietly: "charge_inv d (charges v) (clock v)" if "charge_inv d (charges u) (clock u)" "quiet api u v" for u v
    using charge_inv_reading[OF that(1) contract_quiet[OF k that(2)]] .
  have right: "charged_right (charges u) (clock u) r (c, rq)"
    if "open_request i d r c rq" "charge_inv d (charges u) (clock u)" for r c rq u
    using open_request_mem[OF that(1) wf] that(2) by (auto simp: charge_inv_def)
  from run show ?thesis
  proof cases
    case (freeze r c rq now s1 rq')
    note r = open_request_mem[OF freeze(3) wf]
    have inv': "charge_inv d (charges s') (clock s')"
      using quietly[OF inv quiet_trans[OF freeze(6) quiet_calls(1)[OF freeze(5)]]] .
    have "now \<le> clock s'"
      using contract_quiet[OF k freeze(6)] contract_calls(1)[OF k freeze(5)] by (simp add: reading_contract_def)
    with right[OF freeze(3) inv'] have "charged_right (charges s') (clock s') (set_request c rq' (Some now) r) (c, rq')"
      using freeze(4,7) r by (auto simp: charged_right_def charges_fit_def set_request_def)
    with inv' show ?thesis unfolding freeze(2) by (auto intro: charge_inv_set_request wf freeze(3))
  next
    case (sent r c rq a now s1 it)
    note snt = send_charges[OF k wf inv sent(3-7)]
    show ?thesis using snt(1) charge_inv_item[OF snt(1) wf sent(3) snt(2)[OF refl]] sent(2) by simp
  next
    case (send_fail r c rq a now s1 e s2 e')
    show ?thesis
      using quietly[OF send_charges(1)[OF k wf inv send_fail(3-7)] send_fail(8)] send_fail(2) by simp
  next
    case (carried r c rq a now s1 p q s2)
    let ?rq = "rq\<lparr>rq_invoice := None, rq_key := carryover_key (rq_key rq)\<rparr>"
    note snt = send_charges[OF k wf inv carried(3-7)]
    have inv': "charge_inv d (charges s') (clock s')" using quietly[OF snt(1) carried(9)] .
    have none: "charges_for i c (charges s') = []"
      using snt(3)[OF refl] contract_quiet[OF k carried(9)] by (simp add: reading_contract_def)
    have "charged_right (charges s') (clock s') (set_request c ?rq None r) (c, ?rq)"
      using right[OF carried(3) inv'] none open_request_mem[OF carried(3) wf]
      by (cases "rq_key rq") (auto simp: charged_right_def charges_fit_def set_request_def)
    with inv' show ?thesis unfolding carried(2) by (auto intro: charge_inv_set_request wf carried(3))
  next
    case (recovered r c rq a now s1 cu g its it)
    note r = open_request_mem[OF recovered(3) wf]
    have q: "quiet api s s'" using recovered(5,6) by (blast intro: quiet.intros)
    have inv': "charge_inv d (charges s') (clock s')" using quietly[OF inv q] .
    obtain n t where "(ReportKey i c n, t, it) \<in> set (charges s1)"
      using contract_calls(3)[OF k recovered(6)] recovered(7-9) unfolding list_contract_def by blast
    then have "(ReportKey i c n, t, it) \<in> set (charges_for i c (charges s'))"
      using contract_calls(3)[OF k recovered(6)] by (simp add: reading_contract_def charges_for_def)
    then have "length (charges_for i c (charges s')) = 1"
      using right[OF recovered(3) inv'] r by (cases "charges_for i c (charges s')") (auto simp: charged_right_def charges_fit_def)
    with inv' show ?thesis unfolding recovered(2) by (auto intro: charge_inv_item wf recovered(3))
  next
    case (finished r now)
    have inv': "charge_inv d (charges s') (clock s')" using quietly[OF inv finished(6)] .
    from finished(5) obtain us where d': "d' = update_report now (br_id r)
        (\<lambda>r. r\<lparr>br_status := Reported, br_last_error := None\<rparr>) (d\<lparr>usages := us\<rparr>)" "br_id r = i"
      using finished(2) report_at_Some by (auto simp: finish_report_def Let_def split: list.splits)
    then have "d' = (update_report now i (\<lambda>r. r\<lparr>br_status := Reported, br_last_error := None\<rparr>) d)\<lparr>usages := us\<rparr>"
      by (simp add: update_report_def)
    moreover have "charge_inv (update_report now i (\<lambda>r. r\<lparr>br_status := Reported, br_last_error := None\<rparr>) d) (charges s') (clock s')"
      using inv' wf finished(2) by (rule charge_inv_status)
    ultimately show ?thesis using inv' by (simp add: charge_inv_def)
  qed (use quietly inv wf in \<open>auto intro!: charge_inv_status simp: open_request_def\<close>)
qed

section \<open>The system\<close>

text \<open>
  The transactions that write the billing tables, each from the committed state. A worker
  runs one iteration of \<open>deliver\<close> at a time, since it gives up the row lock with the commit
  that ends it; other workers' transactions may come in between. A crash keeps what Stripe
  has done and loses what was not committed.
\<close>

definition transaction :: "(error + 'a) \<times> billing_db \<Rightarrow> 's bworld \<Rightarrow> 's bworld" where
  "transaction res w = (case res of
       (Inl _, _) \<Rightarrow> w\<lparr>db := committed w\<rparr>
     | (Inr _, d) \<Rightarrow> w\<lparr>db := d, committed := d\<rparr>)"

inductive billing_step :: "'s stripe_api \<Rightarrow> ('s \<Rightarrow> charge list) \<Rightarrow> ('s \<Rightarrow> datetime) \<Rightarrow> 's bworld \<Rightarrow> 's bworld \<Rightarrow> bool"
  for api charges clock where
  counters_synced: "billing_step api charges clock w (transaction (upsert_usage_counters now org pstart pend t e s (db w)) w)"
| report_staged: "billing_step api charges clock w (transaction (stage now sub pstart invoice clo allow (db w)) w)"
| iteration_done: "deliver_iter api i w = (x, w') \<Longrightarrow> billing_step api charges clock w w'"
| iteration_crashed: "deliver_iter api i w = (x, w') \<Longrightarrow> billing_step api charges clock w (w\<lparr>env := env w'\<rparr>)"
| period_closed: "billing_step api charges clock w (transaction (Inr (), mark_billed now org pstart invoice (db w)) w)"
| subscriptions_changed: "unique_subs rows \<Longrightarrow> billing_step api charges clock w (transaction (Inr (), (db w)\<lparr>subs := rows\<rparr>) w)"
| time_passes: "charges s' = charges (env w) \<Longrightarrow> clock (env w) \<le> clock s' \<Longrightarrow> billing_step api charges clock w (w\<lparr>env := s'\<rparr>)"

inductive_cases billing_stepE: "billing_step api charges clock w w'"

definition billing_start :: "('s \<Rightarrow> charge list) \<Rightarrow> 's bworld \<Rightarrow> bool" where
  "billing_start charges w \<longleftrightarrow> db w = empty_billing_db \<and> committed w = empty_billing_db \<and> charges (env w) = []"

definition billing_safe :: "('s \<Rightarrow> charge list) \<Rightarrow> ('s \<Rightarrow> datetime) \<Rightarrow> 's bworld \<Rightarrow> bool" where
  "billing_safe charges clock w \<longleftrightarrow> committed w = db w \<and> billing_inv (db w) \<and>
     charge_inv (db w) (charges (env w)) (clock (env w))"

lemma billing_start_safe: "billing_start charges w \<Longrightarrow> billing_safe charges clock w"
  using billing_inv_empty by (simp add: billing_start_def billing_safe_def charge_inv_def) (simp add: empty_billing_db_def)

lemma charge_inv_same_reports:
  "charge_inv d chs now \<Longrightarrow> reports d' = reports d \<Longrightarrow> charge_inv d' chs now"
  by (simp add: charge_inv_def)

lemma charge_inv_stage:
  assumes inv: "charge_inv d chs now" and wf: "billing_wf d" and st: "stage t sub pstart invoice clo allow d = (x, d')"
  shows "charge_inv d' chs now"
  using wf st
proof (cases rule: stage_outcome)
  case (inserted usage cust row)
  have fresh: "key_report (fst x) \<noteq> next_id d" if x: "x \<in> set chs" for x
  proof -
    obtain r where "r \<in> set (reports d)" "br_id r = key_report (fst x)"
      using inv x unfolding charge_inv_def by blast
    then show ?thesis using wf by (auto simp: billing_wf_def)
  qed
  then have none: "charges_for (next_id d) c chs = []" for c
    by (auto simp: charges_for_def filter_empty_conv)
  have "charged_right chs now row x" if "x \<in> set (br_requests row)" for x
  proof -
    obtain c rq where x: "x = (c, rq)" by fastforce
    then have "map_of (br_requests row) c = Some rq"
      using that distinct_stage_requests inserted(3) by simp
    from stage_requests_lookup(2)[OF this[unfolded inserted(3) new_report_fields]] x show ?thesis
      by (simp add: charged_right_def charges_fit_def none inserted(3) new_report_def Let_def)
  qed
  then show ?thesis using inv unfolding inserted(5) charge_inv_def by auto
qed (use inv in \<open>simp_all add: charge_inv_def\<close>)

lemma upsert_reports: "upsert_usage_counters now org s e t te se d = (x, d') \<Longrightarrow> reports d' = reports d"
  by (auto simp: upsert_usage_counters_def create_usage_record_def get_current_usage_record_def bindE_def Let_def
      split: sum.splits option.splits if_splits)

lemma transaction_safe:
  assumes "billing_safe charges clock w"
    and "billing_inv (snd res)" "charge_inv (snd res) (charges (env w)) (clock (env w))"
  shows "billing_safe charges clock (transaction res w)"
  using assms by (auto simp: transaction_def billing_safe_def split: prod.splits sum.splits)

lemma billing_step_safe:
  assumes k: "stripe_contract api charges clock"
    and step: "billing_step api charges clock w w'" and safe: "billing_safe charges clock w"
  shows "billing_safe charges clock w'"
proof -
  have inv: "billing_inv (db w)" and c: "committed w = db w"
    and ch: "charge_inv (db w) (charges (env w)) (clock (env w))"
    using safe unfolding billing_safe_def by blast+
  have wf: "billing_wf (db w)" using inv by (simp add: billing_inv_def)
  have iter: "committed v = db v \<and> iter_run api i (db w) (env w) x (db v) (env v)"
    if "deliver_iter api i w = (x, v)" for i x v
    using deliver_iter_follows[OF wf c, of api i] unfolding that by (simp add: follows_def)
  from step show ?thesis
  proof cases
    case (counters_synced now org pstart pend t e s)
    obtain x d' where "upsert_usage_counters now org pstart pend t e s (db w) = (x, d')" by fastforce
    with billing_inv_upsert[OF inv this] upsert_reports[OF this] show ?thesis
      unfolding counters_synced by (intro transaction_safe[OF safe]) (auto intro: charge_inv_same_reports[OF ch])
  next
    case (report_staged now sub pstart invoice clo allow)
    obtain x d' where "stage now sub pstart invoice clo allow (db w) = (x, d')" by fastforce
    with billing_inv_stage[OF inv this] charge_inv_stage[OF ch wf this] show ?thesis
      unfolding report_staged by (intro transaction_safe[OF safe]) auto
  next
    case (iteration_done i x)
    with iter[OF iteration_done] iter_run_inv[OF _ inv] iter_run_charges[OF k wf ch] show ?thesis
      by (auto simp: billing_safe_def)
  next
    case (iteration_crashed i x v)
    with iter[OF iteration_crashed(2)] iter_run_charges[OF k wf ch] inv c show ?thesis
      by (auto simp: billing_safe_def)
  next
    case (period_closed now org pstart invoice)
    show ?thesis unfolding period_closed
      by (rule transaction_safe[OF safe])
         (use billing_inv_mark_billed[OF inv] charge_inv_same_reports[OF ch] in \<open>simp_all add: mark_billed_def\<close>)
  next
    case (subscriptions_changed rows)
    show ?thesis unfolding subscriptions_changed
      by (rule transaction_safe[OF safe])
         (use billing_inv_subs[OF inv] subscriptions_changed charge_inv_same_reports[OF ch] in simp_all)
  next
    case (time_passes s')
    with safe show ?thesis by (auto simp: billing_safe_def intro: charge_inv_later)
  qed
qed

lemma billing_reachable_safe:
  assumes k: "stripe_contract api charges clock" and "billing_start charges w0"
    and "(billing_step api charges clock)\<^sup>*\<^sup>* w0 w"
  shows "billing_safe charges clock w"
  using assms(3)
  by (induction rule: rtranclp_induct) (auto intro: billing_start_safe[OF assms(2)] billing_step_safe[OF k])

section \<open>No unit is charged twice\<close>

text \<open>The number of Stripe charges whose reserved range contains usage unit \<open>n\<close>.\<close>

definition times_charged :: "usage_category \<Rightarrow> int \<Rightarrow> uuid \<Rightarrow> billing_db \<Rightarrow> charge list \<Rightarrow> nat" where
  "times_charged c n u d chs =
     sum_list (map (\<lambda>r. covers c n r * length (charges_for (br_id r) c chs)) (reports_of u d))"

lemma times_charged_le:
  assumes "charge_inv d chs now"
  shows "times_charged c n u d chs \<le> times_reserved c n u d"
  unfolding times_charged_def times_reserved_def
proof (rule sum_list_mono)
  fix r assume "r \<in> set (reports_of u d)"
  then have r: "r \<in> set (reports d)" by (simp add: reports_of_def)
  show "covers c n r * length (charges_for (br_id r) c chs) \<le> covers c n r"
  proof (cases "map_of (br_requests r) c")
    case None
    then show ?thesis by (simp add: covers_def)
  next
    case (Some rq)
    then have "charged_right chs now r (c, rq)" using assms r map_of_SomeD[OF Some] by (auto simp: charge_inv_def)
    then show ?thesis by (auto simp: charged_right_def charges_fit_def)
  qed
qed

section \<open>A Stripe that honours the contract\<close>

text \<open>
  A reference environment: a clock that advances a second per reading, invoices that are
  drafts, and a list of charges consulted by idempotency key.
\<close>

record ref_stripe =
  rs_clock :: datetime
  rs_charges :: "charge list"

definition remembered :: "idempotency_key \<Rightarrow> datetime \<Rightarrow> charge list \<Rightarrow> charge option" where
  "remembered k now chs = find (\<lambda>(k', t, it). k' = k \<and> now < t + hours 24) chs"

definition ref_item :: "bill_request \<Rightarrow> stripe_item" where
  "ref_item rq = \<lparr>it_id = ''ii_1'', it_report_id = Some (rq_report_id rq), it_category = Some (rq_category rq),
     it_amount = rq_amount rq, it_currency = rq_currency rq\<rparr>"

definition ref_create :: "bill_request \<Rightarrow> ref_stripe \<Rightarrow> (error + stripe_item) \<times> ref_stripe" where
  "ref_create rq s = (case remembered (rq_key rq) (rs_clock s) (rs_charges s) of
       Some (k, t, it) \<Rightarrow> (Inr it, s)
     | None \<Rightarrow>
         if key_report (rq_key rq) = rq_report_id rq \<and> key_category (rq_key rq) = rq_category rq
         then (Inr (ref_item rq), s\<lparr>rs_charges := rs_charges s @ [(rq_key rq, rs_clock s, ref_item rq)]\<rparr>)
         else (Inl (StripeFailure ''api''), s))"

definition ref_api :: "ref_stripe stripe_api" where
  "ref_api = \<lparr>api_now = (\<lambda>s. (rs_clock s + seconds 1, s\<lparr>rs_clock := rs_clock s + seconds 1\<rparr>)),
     api_invoice_status = (\<lambda>i s. (Inr ''draft'', s)),
     api_item_create = ref_create,
     api_item_list = (\<lambda>cu g s. (Inr (map (snd \<circ> snd) (filter (\<lambda>(k, t, it).
         it_report_id it = Some (key_report k) \<and> it_category it = Some (key_category k)) (rs_charges s))), s)),
     api_sub_items = (\<lambda>i s. (Inr [], s))\<rparr>"

lemma remembered_None: "remembered k now chs = None \<longleftrightarrow> \<not> recently_charged k now chs"
  by (auto simp: remembered_def recently_charged_def find_None_iff)

lemma remembered_Some: "remembered k now chs = Some (k', t, it) \<Longrightarrow> k' = k \<and> (k, t, it) \<in> set chs"
  by (auto simp: remembered_def find_Some_iff in_set_conv_nth)

lemma ref_create_contract:
  assumes "ref_create rq s = (r, s')"
  shows "rs_clock s' = rs_clock s \<and> create_contract rq (rs_clock s) (rs_charges s) r (rs_charges s')"
proof (cases "remembered (rq_key rq) (rs_clock s) (rs_charges s)")
  case None
  with assms show ?thesis
    by (auto simp: ref_create_def create_contract_def remembered_None item_of_def ref_item_def split: if_splits)
next
  case (Some x)
  then show ?thesis using assms
    by (cases x) (auto simp: ref_create_def create_contract_def dest!: remembered_Some)
qed

lemma ref_list_contract:
  "list_contract chs (Inr (map (snd \<circ> snd) (filter (\<lambda>(k, t, it).
     it_report_id it = Some (key_report k) \<and> it_category it = Some (key_category k)) chs)))"
proof -
  have "\<exists>n t. (ReportKey i c n, t, it) \<in> set chs"
    if "(k, t, it) \<in> set chs" "key_report k = i" "key_category k = c" for k t it i c
    using that by (cases k) auto
  then show ?thesis by (auto simp: list_contract_def)
qed

lemma ref_stripe_contract: "stripe_contract ref_api rs_charges rs_clock"
proof -
  have "timed_create rs_charges rs_clock rq s r s'" if "ref_create rq s = (r, s')" for rq s r s'
    unfolding timed_create_def
    by (rule exI[of _ "rs_clock s"]) (use ref_create_contract[OF that] in \<open>auto simp: hours_def seconds_def\<close>)
  then show ?thesis
    by (auto simp: stripe_contract_def ref_api_def reading_contract_def seconds_def ref_list_contract)
qed

section \<open>Properties\<close>

text \<open>A run: a paying organization that used 5250 traces, staged and delivered.\<close>

definition demo_start :: "ref_stripe bworld" where
  "demo_start = \<lparr>committed = empty_billing_db, db = empty_billing_db, redis = Map.empty,
     env = \<lparr>rs_clock = 0, rs_charges = []\<rparr>\<rparr>"

definition demo_synced :: "ref_stripe bworld" where
  "demo_synced = transaction (upsert_usage_counters 0 1 0 (days 30) 5250 0 0 (db demo_start)) demo_start"

definition demo_staged :: "ref_stripe bworld" where
  "demo_staged = transaction (stage 0 demo_sub 0 None None False (db demo_synced)) demo_synced"

definition demo_frozen :: "ref_stripe bworld" where
  "demo_frozen = snd (deliver_iter ref_api 1 demo_staged)"

text \<open>The first call to Stripe succeeds but the worker dies; a second worker sends again.\<close>

definition demo_crashed :: "ref_stripe bworld" where
  "demo_crashed = demo_frozen\<lparr>env := env (snd (deliver_iter ref_api 1 demo_frozen))\<rparr>"

definition demo_sent :: "ref_stripe bworld" where
  "demo_sent = snd (deliver_iter ref_api 1 demo_crashed)"

lemma demo_reachable: "(billing_step ref_api rs_charges rs_clock)\<^sup>*\<^sup>* demo_start demo_sent" (is "?R\<^sup>*\<^sup>* _ _")
proof -
  have it: "?R w (snd (deliver_iter ref_api i w))" for i w
    by (rule iteration_done[OF prod.collapse[symmetric]])
  have "?R\<^sup>*\<^sup>* demo_start demo_synced"
    unfolding demo_synced_def by (rule r_into_rtranclp) (rule counters_synced)
  also have "?R demo_synced demo_staged" unfolding demo_staged_def by (rule report_staged)
  also have "?R demo_staged demo_frozen" unfolding demo_frozen_def by (rule it)
  also have "?R demo_frozen demo_crashed"
    unfolding demo_crashed_def by (rule iteration_crashed[OF prod.collapse[symmetric]])
  also have "?R demo_crashed demo_sent" unfolding demo_sent_def by (rule it)
  finally show ?thesis .
qed

lemma demo_start: "billing_start rs_charges demo_start"
  by (simp add: billing_start_def demo_start_def)

lemma demo_staged_inv: "billing_inv (db demo_staged)" "committed demo_staged = db demo_staged"
proof -
  have "(billing_step ref_api rs_charges rs_clock)\<^sup>*\<^sup>* demo_start demo_synced"
    unfolding demo_synced_def by (rule r_into_rtranclp) (rule counters_synced)
  also have "billing_step ref_api rs_charges rs_clock demo_synced demo_staged"
    unfolding demo_staged_def by (rule report_staged)
  finally have "billing_safe rs_charges rs_clock demo_staged"
    by (rule billing_reachable_safe[OF ref_stripe_contract demo_start])
  then show "billing_inv (db demo_staged)" "committed demo_staged = db demo_staged"
    by (simp_all add: billing_safe_def)
qed

lemma demo_charge: "map (\<lambda>x. it_amount (snd (snd x))) (rs_charges (env demo_sent)) = [100]"
  "map (\<lambda>r. map (\<lambda>x. (fst x, br_item_ids r (fst x))) (br_requests r)) (reports (committed demo_sent)) = [[(TRACES, Some ''ii_1'')]]"
  by code_simp+

text \<open>
  C1: In every state the billing system can reach, through crashes and concurrent workers,
  each reserved charge exists at most once at Stripe, for the reserved amount, exactly once
  when its item is recorded, and Stripe holds no charge that the tables did not reserve.
\<close>

theorem charged_at_most_once:
  assumes "stripe_contract api charges clock" "billing_start charges w0"
    and "(billing_step api charges clock)\<^sup>*\<^sup>* w0 w"
  shows "(\<forall>r \<in> set (reports (committed w)). \<forall>(c, rq) \<in> set (br_requests r).
      length (charges_for (br_id r) c (charges (env w))) \<le> 1
    \<and> (\<forall>x \<in> set (charges_for (br_id r) c (charges (env w))). it_amount (snd (snd x)) = rq_amount rq)
    \<and> (br_item_ids r c \<noteq> None \<longrightarrow> length (charges_for (br_id r) c (charges (env w))) = 1))
   \<and> (\<forall>x \<in> set (charges (env w)). \<exists>r \<in> set (reports (committed w)).
        br_id r = key_report (fst x) \<and> key_category (fst x) \<in> fst ` set (br_requests r))"
proof -
  have "charge_inv (committed w) (charges (env w)) (clock (env w))"
    using billing_reachable_safe[OF assms] by (simp add: billing_safe_def)
  then show ?thesis using charged_rightD unfolding charge_inv_def by fastforce
qed

theorem charged_at_most_once_witness:
  "length (charges_for 1 TRACES (rs_charges (env demo_sent))) = 1 \<and> length (rs_charges (env demo_sent)) = 1"
proof -
  let ?r = "hd (reports (committed demo_sent))" and ?x = "hd (br_requests (hd (reports (committed demo_sent))))"
  have "reports (committed demo_sent) \<noteq> []" "br_requests ?r \<noteq> []" by code_simp+
  then have mem: "?r \<in> set (reports (committed demo_sent))" "(fst ?x, snd ?x) \<in> set (br_requests ?r)" by simp_all
  have eval: "br_id ?r = 1" "fst ?x = TRACES" "br_item_ids ?r TRACES \<noteq> None" "length (rs_charges (env demo_sent)) = 1"
    by code_simp+
  have "br_item_ids ?r (fst ?x) \<noteq> None \<longrightarrow> length (charges_for (br_id ?r) (fst ?x) (rs_charges (env demo_sent))) = 1"
    using charged_at_most_once[OF ref_stripe_contract demo_start demo_reachable] mem by blast
  with eval show ?thesis by simp
qed

text \<open>
  C2: In every reachable state and for every usage record and category, a unit of usage
  above the included amount is covered by at most one Stripe charge.
\<close>

theorem unit_charged_at_most_once:
  assumes "stripe_contract api charges clock" "billing_start charges w0"
    and "(billing_step api charges clock)\<^sup>*\<^sup>* w0 w" "ledger_base c u (committed w) < n"
  shows "times_charged c n u (committed w) (charges (env w)) \<le> 1"
proof -
  have safe: "billing_safe charges clock w" using billing_reachable_safe[OF assms(1-3)] .
  then have "times_charged c n u (db w) (charges (env w)) \<le> times_reserved c n u (db w)"
    by (auto simp: billing_safe_def intro: times_charged_le)
  also have "\<dots> \<le> 1"
    using safe assms(4) by (auto simp: billing_safe_def billing_inv_def ledger_ok_def ledger_at_def)
  finally show ?thesis using safe by (simp add: billing_safe_def)
qed

theorem unit_charged_at_most_once_witness:
  "ledger_base TRACES 0 (committed demo_sent) < 5100 \<and>
   times_charged TRACES 5100 0 (committed demo_sent) (rs_charges (env demo_sent)) \<le> 1"
proof -
  have "ledger_base TRACES 0 (committed demo_sent) < 5100" by code_simp
  with unit_charged_at_most_once[OF ref_stripe_contract demo_start demo_reachable this] show ?thesis by simp
qed

text \<open>
  C25: Delivering a report always ends, returning or raising: the thirteen iterations of
  the model are never used up, whatever the Stripe API does. It leaves the tables in a
  state that satisfies their invariant, with nothing uncommitted.
\<close>

theorem deliver_returns:
  assumes "billing_inv (db w)" "committed w = db w"
  shows "\<exists>x w'. deliver api i w = (x, w') \<and> x \<noteq> Inr None \<and> billing_inv (db w') \<and> committed w' = db w'"
proof -
  have "work_at i (db w) < 13"
    using assms(1) work_at_bound[of "db w" i] by (simp add: billing_inv_def)
  from deliver_loop_ends[OF assms this] show ?thesis by (simp add: deliver_def)
qed

theorem deliver_returns_witness:
  "\<exists>x w'. deliver ref_api 1 demo_staged = (x, w') \<and> x \<noteq> Inr None \<and> billing_inv (db w') \<and> committed w' = db w'"
  using deliver_returns[OF demo_staged_inv] .



text \<open>
  \<open>deliver_safely\<close> never raises and never leaves a partial transaction: whatever error
  Stripe produces, it returns a boolean and the tables keep their invariant.
\<close>

theorem deliver_safely_total:
  assumes "billing_inv (db w)" "committed w = db w"
  shows "\<exists>b w'. deliver_safely api i w = (Inr (Some b), w') \<and> billing_inv (db w') \<and> committed w' = db w'"
  using deliver_safely_ok[OF assms] .

theorem deliver_safely_total_witness:
  "\<exists>b w'. deliver_safely ref_api 1 demo_staged = (Inr (Some b), w') \<and> billing_inv (db w') \<and> committed w' = db w'"
  using deliver_safely_total[OF demo_staged_inv] .

end
