(* ===== verification/UsageService.thy ===== *)
theory UsageService
  imports BillingReporting
begin

text \<open>
  \<open>services/usage_service.py\<close>: the two Lua scripts that count usage in Redis, the quota
  check built on them, the compensating decrement, the read-through subscription cache and
  the sync of the counters to the usage table.

  An operation takes the current instant and, where the code draws a \<open>uuid4\<close> for the
  retry-deduplication key, that identifier as the argument \<open>nonce\<close>.
\<close>

section \<open>Keys and expiry\<close>

definition usage_key :: "uuid \<Rightarrow> datetime \<Rightarrow> redis_key" where
  "usage_key org pstart = UsageKey org (date_of pstart)"

text \<open>\<open>int(x)\<close> of a number of seconds truncates towards zero.\<close>

definition trunc_seconds :: "int \<Rightarrow> int" where
  "trunc_seconds x = (if 0 \<le> x then x div 1000000 else - ((- x) div 1000000))"

definition compute_ttl :: "datetime \<Rightarrow> datetime \<Rightarrow> int" where
  "compute_ttl now pend =
     (let buffer = USAGE_KEY_BUFFER_DAYS * 86400
      in max (trunc_seconds (pend - now) + buffer) buffer)"

definition USAGE_RETRY_DEDUP_TTL :: int where
  "USAGE_RETRY_DEDUP_TTL = 60"

lemma compute_ttl_pos: "0 < compute_ttl now pend"
  by (simp add: compute_ttl_def USAGE_KEY_BUFFER_DAYS_def Let_def max_def)

section \<open>The Lua scripts\<close>

text \<open>The deduplication key only ever holds the decimal text of an integer.\<close>

definition lua_check_and_increment ::
    "datetime \<Rightarrow> redis_key \<Rightarrow> redis_key \<Rightarrow> usage_category \<Rightarrow> int \<Rightarrow> int \<Rightarrow> int \<Rightarrow> int \<Rightarrow> redis \<Rightarrow> int \<times> redis" where
  "lua_check_and_increment now k dk f n lmt ttl dttl r =
     (case r_get now r dk of
        Some (RInt cached) \<Rightarrow> (cached, r)
      | _ \<Rightarrow>
          (case r_hincrby now r k f n of (current, r1) \<Rightarrow>
             if 0 \<le> lmt \<and> lmt < current then
               let r2 = snd (r_hincrby now r1 k f (- n))
               in (-1, r_set_ex now r2 dk (RInt (-1)) dttl)
             else (current, r_set_ex now (r_expire now r1 k ttl) dk (RInt current) dttl)))"

definition lua_rollback_increment ::
    "datetime \<Rightarrow> redis_key \<Rightarrow> redis_key \<Rightarrow> usage_category \<Rightarrow> int \<Rightarrow> int \<Rightarrow> redis \<Rightarrow> int \<times> redis" where
  "lua_rollback_increment now k dk f n dttl r =
     (case r_get now r dk of
        Some (RInt cached) \<Rightarrow> (cached, r)
      | _ \<Rightarrow>
          (case r_hincrby now r k f (- n) of (current, r1) \<Rightarrow>
             (current, r_set_ex now r1 dk (RInt current) dttl)))"

section \<open>Operations\<close>

definition in_redis :: "(redis \<Rightarrow> 'a \<times> redis) \<Rightarrow> (error, 's bworld, 'a) exec" where
  "in_redis m = (\<lambda>w. case m (redis w) of (x, r) \<Rightarrow> (Inr x, w\<lparr>redis := r\<rparr>))"

definition modify_redis :: "(redis \<Rightarrow> redis) \<Rightarrow> (error, 's bworld, unit) exec" where
  "modify_redis f = modifyE (\<lambda>w. w\<lparr>redis := f (redis w)\<rparr>)"

definition get_subscription_cached :: "datetime \<Rightarrow> uuid \<Rightarrow> (error, 's bworld, subscription option) exec" where
  "get_subscription_cached now org =
     bindE (getsE (\<lambda>w. r_get now (redis w) (SubCacheKey org))) (\<lambda>cached.
     case cached of
       Some (RSub s) \<Rightarrow> ret (Some s)
     | _ \<Rightarrow>
         bindE (in_db (get_subscription_by_org org)) (\<lambda>sub.
         case sub of
           None \<Rightarrow> ret None
         | Some s \<Rightarrow>
             bindE (modify_redis (\<lambda>r. r_set_ex now r (SubCacheKey org) (RSub s) SUB_CACHE_TTL)) (\<lambda>_.
             ret (Some s))))"

definition hard_limit :: "subscription \<Rightarrow> usage_category \<Rightarrow> int" where
  "hard_limit sub c =
     (if \<not> pay_as_you_go (get_plan_config (sub_plan sub))
      then (case get_limit_for_category (sub_plan sub) c of Some l \<Rightarrow> l | None \<Rightarrow> -1)
      else -1)"

definition usage_allowed :: "subscription_status \<Rightarrow> bool" where
  "usage_allowed st \<longleftrightarrow> st = subscription_status.ACTIVE \<or> st = PAST_DUE"

definition check_and_increment ::
    "datetime \<Rightarrow> uuid \<Rightarrow> uuid \<Rightarrow> string \<Rightarrow> int \<Rightarrow> (error, 's bworld, int) exec" where
  "check_and_increment now nonce org category count =
     bindE (liftE (usage_category_of category)) (\<lambda>c.
     bindE (get_subscription_cached now org) (\<lambda>found.
     case found of
       None \<Rightarrow> raise (QuotaExceededError ''No active subscription found for this organization.'')
     | Some sub \<Rightarrow>
         if \<not> usage_allowed (sub_status sub)
         then raise (QuotaExceededError ''Your subscription is not active.'')
         else
           bindE (in_redis (lua_check_and_increment now
               (usage_key org (sub_period_start sub))
               (UsageRetryKey org (date_of (sub_period_start sub)) nonce)
               c count (hard_limit sub c) (compute_ttl now (sub_period_end sub)) USAGE_RETRY_DEDUP_TTL)) (\<lambda>new_val.
           if new_val = -1 then raise (QuotaExceededError ''You've reached the limit for your plan.'')
           else ret new_val)))"

definition rollback_increment ::
    "datetime \<Rightarrow> uuid \<Rightarrow> uuid \<Rightarrow> string \<Rightarrow> int \<Rightarrow> (error, 's bworld, unit) exec" where
  "rollback_increment now nonce org category count =
     catchE
       (bindE (liftE (usage_category_of category)) (\<lambda>c.
        bindE (get_subscription_cached now org) (\<lambda>found.
        case found of
          None \<Rightarrow> ret ()
        | Some sub \<Rightarrow>
            bindE (in_redis (lua_rollback_increment now
                (usage_key org (sub_period_start sub))
                (RollbackRetryKey org (date_of (sub_period_start sub)) nonce)
                c count USAGE_RETRY_DEDUP_TTL)) (\<lambda>_. ret ()))))
       (\<lambda>_. ret ())"

definition get_current_usage :: "datetime \<Rightarrow> uuid \<Rightarrow> (error, 's bworld, usage_summary) exec" where
  "get_current_usage now org =
     bindE (get_subscription_cached now org) (\<lambda>found.
     case found of
       None \<Rightarrow> ret \<lparr>us_plan = HOBBY, us_status = subscription_status.ACTIVE, us_period_start = now, us_period_end = now,
                us_traces = 0, us_trace_evals = 0, us_session_evals = 0, us_limits = None\<rparr>
     | Some sub \<Rightarrow>
         bindE (getsE (\<lambda>w. r_hgetall now (redis w) (usage_key org (sub_period_start sub)))) (\<lambda>raw.
         ret \<lparr>us_plan = sub_plan sub, us_status = sub_status sub,
              us_period_start = sub_period_start sub, us_period_end = sub_period_end sub,
              us_traces = hash_field raw TRACES, us_trace_evals = hash_field raw TRACE_EVALS,
              us_session_evals = hash_field raw SESSION_EVALS,
              us_limits = Some (get_plan_config (sub_plan sub))\<rparr>))"

definition require_monitoring_allowed :: "datetime \<Rightarrow> uuid \<Rightarrow> (error, 's bworld, unit) exec" where
  "require_monitoring_allowed now org =
     bindE (get_subscription_cached now org) (\<lambda>found.
     case found of
       None \<Rightarrow> raise (QuotaExceededError ''No active subscription found for this organization.'')
     | Some sub \<Rightarrow>
         if \<not> monitoring_allowed (get_plan_config (sub_plan sub))
         then raise (QuotaExceededError ''Monitoring is not available on your plan. Please upgrade.'')
         else ret ())"

text \<open>\<open>if not raw\<close>: a hash without fields does not exist.\<close>

definition sync_period :: "datetime \<Rightarrow> uuid \<Rightarrow> datetime \<Rightarrow> datetime \<Rightarrow> (error, 's bworld, unit) exec" where
  "sync_period now org pstart pend =
     bindE (getsE (\<lambda>w. r_hgetall now (redis w) (usage_key org pstart))) (\<lambda>raw.
     if raw TRACES = None \<and> raw TRACE_EVALS = None \<and> raw SESSION_EVALS = None then ret ()
     else in_db (upsert_usage_counters now org pstart pend
       (hash_field raw TRACES) (hash_field raw TRACE_EVALS) (hash_field raw SESSION_EVALS)))"

definition sync_to_database ::
    "datetime \<Rightarrow> uuid \<Rightarrow> datetime option \<Rightarrow> datetime option \<Rightarrow> (error, 's bworld, unit) exec" where
  "sync_to_database now org pstart pend = (case (pstart, pend) of
       (Some s, Some e) \<Rightarrow> sync_period now org s e
     | (None, None) \<Rightarrow>
         bindE (in_db (get_subscription_by_org org)) (\<lambda>sub.
         case sub of
           None \<Rightarrow> ret ()
         | Some s \<Rightarrow> sync_period now org (sub_period_start s) (sub_period_end s))
     | _ \<Rightarrow> raise (ValueError ''Both period bounds are required.''))"

definition invalidate_subscription_cache :: "uuid \<Rightarrow> (error, 's bworld, unit) exec" where
  "invalidate_subscription_cache org = modify_redis (\<lambda>r. r_del r (SubCacheKey org))"

definition delete_usage_key :: "uuid \<Rightarrow> datetime \<Rightarrow> (error, 's bworld, unit) exec" where
  "delete_usage_key org pstart = modify_redis (\<lambda>r. r_del r (usage_key org pstart))"

section \<open>The interface of a metered counter\<close>

text \<open>
  What the quota check relies on: an increment that would pass a non-negative limit is
  refused and leaves the counter, any other is added; a decrement is subtracted. Each call
  carries a token, and a repeated token has no further effect.
\<close>

datatype 't meter_op = Charge 't int | Refund 't int

definition run_meter_op ::
    "('t \<Rightarrow> int \<Rightarrow> 's \<Rightarrow> int \<times> 's) \<Rightarrow> ('t \<Rightarrow> int \<Rightarrow> 's \<Rightarrow> int \<times> 's) \<Rightarrow> 't meter_op \<Rightarrow> 's \<Rightarrow> 's" where
  "run_meter_op chg rfd op s = (case op of Charge t n \<Rightarrow> snd (chg t n s) | Refund t n \<Rightarrow> snd (rfd t n s))"

locale meter =
  fixes reading :: "'s \<Rightarrow> int"
    and charge :: "'t \<Rightarrow> int \<Rightarrow> 's \<Rightarrow> int \<times> 's"
    and refund :: "'t \<Rightarrow> int \<Rightarrow> 's \<Rightarrow> int \<times> 's"
    and charged :: "'s \<Rightarrow> 't \<Rightarrow> bool"
    and refunded :: "'s \<Rightarrow> 't \<Rightarrow> bool"
    and lmt :: int
  assumes charge_new: "\<not> charged s t \<Longrightarrow> reading (snd (charge t n s)) =
      (if 0 \<le> lmt \<and> lmt < reading s + n then reading s else reading s + n)"
    and charge_result: "\<not> charged s t \<Longrightarrow> fst (charge t n s) =
      (if 0 \<le> lmt \<and> lmt < reading s + n then -1 else reading s + n)"
    and charge_again: "charged s t \<Longrightarrow> snd (charge t n s) = s"
    and charge_marks: "charged (snd (charge t n s)) t"
    and refund_new: "\<not> refunded s t \<Longrightarrow> reading (snd (refund t n s)) = reading s - n"
    and refund_again: "refunded s t \<Longrightarrow> snd (refund t n s) = s"
begin

lemma charge_bounded:
  assumes "0 \<le> lmt" "reading s \<le> lmt"
  shows "reading (snd (charge t n s)) \<le> lmt"
  using assms by (cases "charged s t") (simp_all add: charge_again charge_new)

lemma refund_bounded:
  assumes "0 \<le> n"
  shows "reading (snd (refund t n s)) \<le> reading s"
  using assms by (cases "refunded s t") (simp_all add: refund_again refund_new)

lemma run_bounded:
  assumes "0 \<le> lmt" "reading s \<le> lmt" "\<forall>t n. Refund t n \<in> set ops \<longrightarrow> 0 \<le> n"
  shows "reading (fold (run_meter_op charge refund) ops s) \<le> lmt"
  using assms(2,3)
proof (induction ops arbitrary: s)
  case (Cons op ops)
  have "reading (run_meter_op charge refund op s) \<le> lmt"
  proof (cases op)
    case (Charge t n)
    with assms(1) Cons.prems show ?thesis by (simp add: run_meter_op_def charge_bounded)
  next
    case (Refund t n)
    then have "0 \<le> n" using Cons.prems(2) by simp
    from refund_bounded[OF this, of t s] Refund Cons.prems(1) show ?thesis by (simp add: run_meter_op_def)
  qed
  with Cons show ?case by simp
qed simp

lemma charge_refund:
  assumes "\<not> charged s t" "fst (charge t n s) \<noteq> -1" "\<not> refunded (snd (charge t n s)) u"
  shows "reading (snd (refund u n (snd (charge t n s)))) = reading s"
  using assms by (auto simp: refund_new charge_new charge_result split: if_splits)

end

section \<open>The Lua scripts implement the meter\<close>

definition usage_reading :: "datetime \<Rightarrow> uuid \<Rightarrow> int \<Rightarrow> usage_category \<Rightarrow> redis \<Rightarrow> int" where
  "usage_reading now org day c r = hash_field (r_hgetall now r (UsageKey org day)) c"

definition dedup_hit :: "datetime \<Rightarrow> redis_key \<Rightarrow> redis \<Rightarrow> bool" where
  "dedup_hit now dk r = (case r_get now r dk of Some (RInt _) \<Rightarrow> True | _ \<Rightarrow> False)"

definition run_charge :: "datetime \<Rightarrow> uuid \<Rightarrow> int \<Rightarrow> usage_category \<Rightarrow> int \<Rightarrow> int \<Rightarrow> uuid \<Rightarrow> int \<Rightarrow> redis \<Rightarrow> int \<times> redis" where
  "run_charge now org day c lmt ttl t n =
     lua_check_and_increment now (UsageKey org day) (UsageRetryKey org day t) c n lmt ttl USAGE_RETRY_DEDUP_TTL"

definition run_refund :: "datetime \<Rightarrow> uuid \<Rightarrow> int \<Rightarrow> usage_category \<Rightarrow> uuid \<Rightarrow> int \<Rightarrow> redis \<Rightarrow> int \<times> redis" where
  "run_refund now org day c t n =
     lua_rollback_increment now (UsageKey org day) (RollbackRetryKey org day t) c n USAGE_RETRY_DEDUP_TTL"

lemma dedup_hit_cases:
  "(case r_get now r dk of Some (RInt v) \<Rightarrow> f v | _ \<Rightarrow> g) =
   (if dedup_hit now dk r then (case r_get now r dk of Some (RInt v) \<Rightarrow> f v | _ \<Rightarrow> g) else g)"
  by (auto simp: dedup_hit_def split: option.splits redis_value.splits)

lemma lua_check_new:
  assumes "\<not> dedup_hit now dk r" "dk \<noteq> k" "0 < ttl" "0 < dttl"
    and v_def: "v = hash_field (r_hgetall now r k) f + n"
  shows "fst (lua_check_and_increment now k dk f n lmt ttl dttl r) = (if 0 \<le> lmt \<and> lmt < v then -1 else v)"
    and "hash_field (r_hgetall now (snd (lua_check_and_increment now k dk f n lmt ttl dttl r)) k) f =
      (if 0 \<le> lmt \<and> lmt < v then v - n else v)"
    and "dedup_hit now dk (snd (lua_check_and_increment now k dk f n lmt ttl dttl r))"
proof -
  obtain r1 where inc: "r_hincrby now r k f n = (v, r1)"
    using fst_r_hincrby[of now r k f n] by (metis prod.collapse v_def)
  have h1: "r_hgetall now r1 k = (r_hgetall now r k)(f \<mapsto> v)"
    using r_hgetall_hincrby[of now r k f n k] inc v_def by simp
  have h2: "hash_field (r_hgetall now (snd (r_hincrby now r1 k f (- n))) k) f = v - n"
    by (simp add: r_hgetall_hincrby h1)
  have lua: "lua_check_and_increment now k dk f n lmt ttl dttl r =
     (if 0 \<le> lmt \<and> lmt < v then (-1, r_set_ex now (snd (r_hincrby now r1 k f (- n))) dk (RInt (-1)) dttl)
      else (v, r_set_ex now (r_expire now r1 k ttl) dk (RInt v) dttl))"
    using assms(1) inc unfolding lua_check_and_increment_def
    by (subst dedup_hit_cases) (simp add: Let_def)
  show "fst (lua_check_and_increment now k dk f n lmt ttl dttl r) = (if 0 \<le> lmt \<and> lmt < v then -1 else v)"
    by (simp add: lua)
  show "hash_field (r_hgetall now (snd (lua_check_and_increment now k dk f n lmt ttl dttl r)) k) f =
      (if 0 \<le> lmt \<and> lmt < v then v - n else v)"
    using assms(2,3) h1 h2 by (auto simp: lua r_hgetall_expire)
  show "dedup_hit now dk (snd (lua_check_and_increment now k dk f n lmt ttl dttl r))"
    using assms(4) by (simp add: lua dedup_hit_def)
qed

lemma lua_check_again:
  "dedup_hit now dk r \<Longrightarrow> snd (lua_check_and_increment now k dk f n lmt ttl dttl r) = r"
  by (auto simp: lua_check_and_increment_def dedup_hit_def split: option.splits redis_value.splits)

lemma lua_rollback_new:
  assumes "\<not> dedup_hit now dk r" "dk \<noteq> k"
  shows "hash_field (r_hgetall now (snd (lua_rollback_increment now k dk f n dttl r)) k) f =
    hash_field (r_hgetall now r k) f - n"
proof -
  have "snd (lua_rollback_increment now k dk f n dttl r) =
      r_set_ex now (snd (r_hincrby now r k f (- n))) dk (RInt (fst (r_hincrby now r k f (- n)))) dttl"
    using assms(1) unfolding lua_rollback_increment_def
    by (subst dedup_hit_cases) (simp split: prod.splits)
  then show ?thesis using assms(2) by (simp add: r_hgetall_hincrby)
qed

lemma lua_rollback_again:
  "dedup_hit now dk r \<Longrightarrow> snd (lua_rollback_increment now k dk f n dttl r) = r"
  by (auto simp: lua_rollback_increment_def dedup_hit_def split: option.splits redis_value.splits)

interpretation usage_meter:
  meter "usage_reading now org day c" "run_charge now org day c lmt (compute_ttl now pend)" "run_refund now org day c"
    "\<lambda>r t. dedup_hit now (UsageRetryKey org day t) r" "\<lambda>r t. dedup_hit now (RollbackRetryKey org day t) r" lmt
  for now org day c lmt pend
proof unfold_locales
  fix r t and n :: int
  note new = lua_check_new[OF _ _ compute_ttl_pos _ refl, of now "UsageRetryKey org day t" r "UsageKey org day" USAGE_RETRY_DEDUP_TTL]
  assume "\<not> dedup_hit now (UsageRetryKey org day t) r"
  then show "usage_reading now org day c (snd (run_charge now org day c lmt (compute_ttl now pend) t n r)) =
      (if 0 \<le> lmt \<and> lmt < usage_reading now org day c r + n then usage_reading now org day c r
       else usage_reading now org day c r + n)"
    "fst (run_charge now org day c lmt (compute_ttl now pend) t n r) =
      (if 0 \<le> lmt \<and> lmt < usage_reading now org day c r + n then -1 else usage_reading now org day c r + n)"
    using new by (auto simp: run_charge_def usage_reading_def USAGE_RETRY_DEDUP_TTL_def)
next
  fix r t and n :: int
  show "dedup_hit now (UsageRetryKey org day t) (snd (run_charge now org day c lmt (compute_ttl now pend) t n r))"
    using lua_check_new(3)[OF _ _ compute_ttl_pos _ refl, of now "UsageRetryKey org day t" r "UsageKey org day" USAGE_RETRY_DEDUP_TTL]
      lua_check_again[of now "UsageRetryKey org day t" r]
    by (cases "dedup_hit now (UsageRetryKey org day t) r") (auto simp: run_charge_def USAGE_RETRY_DEDUP_TTL_def)
qed (simp_all add: run_charge_def run_refund_def usage_reading_def lua_check_again lua_rollback_new lua_rollback_again)

section \<open>Every call keeps the hard limit\<close>

text \<open>The stored value of a counter, whether or not its hash has expired.\<close>

definition stored_reading :: "uuid \<Rightarrow> int \<Rightarrow> usage_category \<Rightarrow> redis \<Rightarrow> int" where
  "stored_reading org day c r = (case r (UsageKey org day) of Some (RHash h, _) \<Rightarrow> hash_field h c | _ \<Rightarrow> 0)"

lemma usage_reading_le: "usage_reading now org day c r \<le> max 0 (stored_reading org day c r)"
  by (auto simp: usage_reading_def stored_reading_def r_hgetall_def r_get_def hash_field_def
      split: option.splits redis_value.splits)

lemma stored_hincrby:
  "stored_reading org day c (snd (r_hincrby now r (UsageKey org day) f n)) =
     usage_reading now org day c r + (if c = f then n else 0)"
  by (simp add: stored_reading_def r_hincrby_def Let_def usage_reading_def)

lemma stored_other [simp]:
  "k \<noteq> UsageKey org day \<Longrightarrow> stored_reading org day c (r_set_ex now r k v ttl) = stored_reading org day c r"
  "k \<noteq> UsageKey org day \<Longrightarrow> stored_reading org day c (r_del r k) = stored_reading org day c r"
  by (simp_all add: stored_reading_def r_set_ex_def r_del_def)

lemma stored_expire: "stored_reading org day c (r_expire now r k ttl) = stored_reading org day c r"
  by (auto simp: stored_reading_def r_expire_def r_get_def split: option.splits if_splits)

lemma usage_reading_hincrby:
  "usage_reading now org day c (snd (r_hincrby now r (UsageKey org day) f n)) =
     usage_reading now org day c r + (if c = f then n else 0)"
  by (simp add: usage_reading_def r_hgetall_hincrby)

lemma run_charge_keeps:
  assumes "stored_reading org day c r \<le> l" "0 \<le> l" "f = c \<Longrightarrow> lmt = l"
  shows "stored_reading org day c (snd (run_charge now org day f lmt ttl t n r)) \<le> l"
proof -
  let ?k = "UsageKey org day"
  have le: "usage_reading now org day c r \<le> l" using usage_reading_le[of now org day c r] assms(1,2) by linarith
  obtain v r1 where inc: "r_hincrby now r ?k f n = (v, r1)" by fastforce
  have v: "v = usage_reading now org day f r + n"
    using fst_r_hincrby[of now r ?k f n] inc by (simp add: usage_reading_def)
  have r1: "stored_reading org day c r1 = usage_reading now org day c r + (if c = f then n else 0)"
    using stored_hincrby[of org day c now r f n] inc by simp
  have r2: "stored_reading org day c (snd (r_hincrby now r1 ?k f (- n))) = usage_reading now org day c r"
    using usage_reading_hincrby[of now org day c r f n] inc by (simp add: stored_hincrby)
  show ?thesis
  proof (cases "dedup_hit now (UsageRetryKey org day t) r")
    case True
    then show ?thesis using assms(1) by (simp add: run_charge_def lua_check_again)
  next
    case False
    then show ?thesis using le r1 r2 v assms(2,3) inc
      unfolding run_charge_def lua_check_and_increment_def
      by (subst dedup_hit_cases) (auto simp: Let_def stored_expire)
  qed
qed

lemma run_refund_keeps:
  assumes "stored_reading org day c r \<le> l" "0 \<le> l" "0 \<le> n"
  shows "stored_reading org day c (snd (run_refund now org day f t n r)) \<le> l"
proof (cases "dedup_hit now (RollbackRetryKey org day t) r")
  case True
  then show ?thesis using assms(1) by (simp add: run_refund_def lua_rollback_again)
next
  case False
  have le: "usage_reading now org day c r \<le> l" using usage_reading_le[of now org day c r] assms(1,2) by linarith
  obtain v r1 where inc: "r_hincrby now r (UsageKey org day) f (- n) = (v, r1)" by fastforce
  have "stored_reading org day c r1 = usage_reading now org day c r + (if c = f then - n else 0)"
    using stored_hincrby[of org day c now r f "- n"] inc by simp
  with False le assms(3) inc show ?thesis
    unfolding run_refund_def lua_rollback_increment_def by (subst dedup_hit_cases) auto
qed

text \<open>The calls of the service that count usage, and running one of them.\<close>

datatype usage_call = Check uuid string int | Undo uuid string int

definition run_usage_call :: "uuid \<Rightarrow> datetime \<times> usage_call \<Rightarrow> 's bworld \<Rightarrow> 's bworld" where
  "run_usage_call org tc w = (case tc of
       (now, Check nonce cat n) \<Rightarrow> snd (check_and_increment now nonce org cat n w)
     | (now, Undo nonce cat n) \<Rightarrow> snd (rollback_increment now nonce org cat n w))"

text \<open>The subscription of an organization is stored and, when cached, cached unchanged.\<close>

definition sub_stable :: "uuid \<Rightarrow> subscription \<Rightarrow> 's bworld \<Rightarrow> bool" where
  "sub_stable org sub w \<longleftrightarrow> filter (\<lambda>s. sub_org_id s = org) (subs (db w)) = [sub] \<and>
     (\<forall>v x. redis w (SubCacheKey org) = Some (v, x) \<longrightarrow> v = RSub sub)"

lemma get_subscription_cached_stable:
  assumes "sub_stable org sub w"
  shows "\<exists>r. get_subscription_cached now org w = (Inr (Some sub), w\<lparr>redis := r\<rparr>) \<and>
     (r = redis w \<or> r = r_set_ex now (redis w) (SubCacheKey org) (RSub sub) SUB_CACHE_TTL)"
proof -
  have "get_subscription_by_org org (db w) = (Inr (Some sub), db w)"
    using assms by (simp add: sub_stable_def get_subscription_by_org_def)
  moreover have "r_get now (redis w) (SubCacheKey org) \<in> {None, Some (RSub sub)}"
    using assms by (auto simp: sub_stable_def r_get_def split: option.splits)
  ultimately show ?thesis
    by (auto simp: get_subscription_cached_def in_db_def modify_redis_def bindE_def
        intro: exI[of _ "redis w"])
qed

lemma check_and_increment_run:
  assumes "sub_stable org sub w" "usage_category_of cat = Inr c"
  obtains r where "get_subscription_cached now org w = (Inr (Some sub), w\<lparr>redis := r\<rparr>)"
    "r = redis w \<or> r = r_set_ex now (redis w) (SubCacheKey org) (RSub sub) SUB_CACHE_TTL"
    "check_and_increment now nonce org cat n w =
      (if \<not> usage_allowed (sub_status sub) then (Inl (QuotaExceededError ''Your subscription is not active.''), w\<lparr>redis := r\<rparr>)
       else case run_charge now org (date_of (sub_period_start sub)) c (hard_limit sub c) (compute_ttl now (sub_period_end sub)) nonce n r of
         (v, r') \<Rightarrow> (if v = -1 then Inl (QuotaExceededError ''You've reached the limit for your plan.'') else Inr v, w\<lparr>redis := r'\<rparr>))"
    "rollback_increment now nonce org cat n w =
      (Inr (), w\<lparr>redis := snd (run_refund now org (date_of (sub_period_start sub)) c nonce n r)\<rparr>)"
proof -
  obtain r where r: "get_subscription_cached now org w = (Inr (Some sub), w\<lparr>redis := r\<rparr>)"
    "r = redis w \<or> r = r_set_ex now (redis w) (SubCacheKey org) (RSub sub) SUB_CACHE_TTL"
    using get_subscription_cached_stable[OF assms(1)] by blast
  show thesis
    by (rule that[OF r])
       (use r(1) assms(2) in \<open>auto simp: check_and_increment_def rollback_increment_def bindE_def catchE_def in_redis_def
         run_charge_def run_refund_def usage_key_def split: prod.splits\<close>)
qed

lemma usage_category_of_cases: "\<exists>e. usage_category_of cat = Inl e \<or> (\<exists>c. usage_category_of cat = Inr c)"
  by (cases "usage_category_of cat") auto

lemma lua_sub_cache:
  "snd (run_charge now org day f lmt ttl t n r) (SubCacheKey o') = r (SubCacheKey o')"
  "snd (run_refund now org day f t n r) (SubCacheKey o') = r (SubCacheKey o')"
  by (auto simp: run_charge_def run_refund_def lua_check_and_increment_def lua_rollback_increment_def r_hincrby_def Let_def
      r_set_ex_def r_expire_def split: option.splits redis_value.splits if_splits prod.splits)

lemma run_usage_call_keeps:
  assumes st: "sub_stable org sub w" and l: "hard_limit sub c = l" "0 \<le> l"
    and le: "stored_reading org (date_of (sub_period_start sub)) c (redis w) \<le> l"
    and pos: "\<And>now t cat n. call = (now, Undo t cat n) \<Longrightarrow> 0 \<le> n"
  shows "sub_stable org sub (run_usage_call org call w) \<and>
    stored_reading org (date_of (sub_period_start sub)) c (redis (run_usage_call org call w)) \<le> l"
proof -
  let ?day = "date_of (sub_period_start sub)"
  obtain now t cat n where call: "call = (now, Check t cat n) \<or> call = (now, Undo t cat n)"
    by (metis prod.exhaust usage_call.exhaust)
  show ?thesis
  proof (cases "usage_category_of cat")
    case (Inl e)
    then have "run_usage_call org call w = w"
      using call by (auto simp: run_usage_call_def check_and_increment_def rollback_increment_def catchE_def)
    with st le show ?thesis by simp
  next
    case (Inr f)
    from st Inr obtain r where r: "r = redis w \<or> r = r_set_ex now (redis w) (SubCacheKey org) (RSub sub) SUB_CACHE_TTL"
      and runs: "check_and_increment now t org cat n w =
      (if \<not> usage_allowed (sub_status sub) then (Inl (QuotaExceededError ''Your subscription is not active.''), w\<lparr>redis := r\<rparr>)
       else case run_charge now org ?day f (hard_limit sub f) (compute_ttl now (sub_period_end sub)) t n r of
         (v, r') \<Rightarrow> (if v = -1 then Inl (QuotaExceededError ''You've reached the limit for your plan.'') else Inr v, w\<lparr>redis := r'\<rparr>))"
      "rollback_increment now t org cat n w = (Inr (), w\<lparr>redis := snd (run_refund now org ?day f t n r)\<rparr>)"
      by (rule check_and_increment_run)
    have le': "stored_reading org ?day c r \<le> l" using r le by auto
    have cache: "\<forall>v x. r (SubCacheKey org) = Some (v, x) \<longrightarrow> v = RSub sub"
      using r st by (auto simp: sub_stable_def r_set_ex_def)
    let ?chg = "snd (run_charge now org ?day f (hard_limit sub f) (compute_ttl now (sub_period_end sub)) t n r)"
    let ?rfd = "snd (run_refund now org ?day f t n r)"
    have chk: "snd (check_and_increment now t org cat n w) = w\<lparr>redis := (if usage_allowed (sub_status sub) then ?chg else r)\<rparr>"
      by (simp add: runs(1) split: prod.splits)
    have chg: "stored_reading org ?day c ?chg \<le> l" by (rule run_charge_keeps[OF le' l(2)]) (simp add: l(1))
    from call have "\<exists>r'. run_usage_call org call w = w\<lparr>redis := r'\<rparr> \<and> stored_reading org ?day c r' \<le> l \<and>
        r' (SubCacheKey org) = r (SubCacheKey org)"
    proof
      assume "call = (now, Check t cat n)"
      then show ?thesis
        by (intro exI[of _ "if usage_allowed (sub_status sub) then ?chg else r"])
           (simp add: run_usage_call_def chk chg le' lua_sub_cache)
    next
      assume undo: "call = (now, Undo t cat n)"
      then show ?thesis using run_refund_keeps[OF le' l(2) pos[OF undo]]
        by (intro exI[of _ ?rfd]) (simp add: run_usage_call_def runs(2) lua_sub_cache)
    qed
    with st cache show ?thesis by (auto simp: sub_stable_def)
  qed
qed

lemma fold_usage_calls_keep:
  assumes "sub_stable org sub w" "hard_limit sub c = l" "0 \<le> l"
    and "stored_reading org (date_of (sub_period_start sub)) c (redis w) \<le> l"
    and "\<forall>now t cat n. (now, Undo t cat n) \<in> set calls \<longrightarrow> 0 \<le> n"
  shows "stored_reading org (date_of (sub_period_start sub)) c (redis (fold (run_usage_call org) calls w)) \<le> l"
  using assms(1,4,5)
proof (induction calls arbitrary: w)
  case (Cons call calls)
  have "sub_stable org sub (run_usage_call org call w) \<and>
    stored_reading org (date_of (sub_period_start sub)) c (redis (run_usage_call org call w)) \<le> l"
    by (rule run_usage_call_keeps) (use Cons.prems assms(2,3) in auto)
  then show ?case using Cons.IH Cons.prems(3) by simp
qed simp

section \<open>Properties\<close>

definition demo_hobby :: subscription where
  "demo_hobby = \<lparr>sub_id = 7, sub_org_id = 1, sub_plan = HOBBY, sub_status = subscription_status.ACTIVE,
     sub_customer = None, sub_stripe_id = None, sub_period_start = 0, sub_period_end = days 30,
     sub_canceled_at = None, sub_created_at = 0, sub_updated_at = 0\<rparr>"

definition demo_world :: "unit bworld" where
  "demo_world = \<lparr>committed = \<lparr>subs = [demo_hobby], usages = [], reports = [], next_id = 9\<rparr>,
     db = \<lparr>subs = [demo_hobby], usages = [], reports = [], next_id = 9\<rparr>, redis = Map.empty, env = ()\<rparr>"

lemma demo_world_stable: "sub_stable 1 demo_hobby demo_world"
  by (simp add: sub_stable_def demo_world_def demo_hobby_def)

text \<open>
  C4: The quota of a plan with a hard limit is never exceeded: whatever sequence of quota
  checks and compensating decrements runs, at whatever instants and with whatever counts,
  the counter of the period stays within the limit.
\<close>

theorem quota_never_exceeded:
  assumes "sub_stable org sub w" "0 \<le> hard_limit sub c"
    and "stored_reading org (date_of (sub_period_start sub)) c (redis w) \<le> hard_limit sub c"
    and "\<forall>now t cat n. (now, Undo t cat n) \<in> set calls \<longrightarrow> 0 \<le> n"
  shows "usage_reading now org (date_of (sub_period_start sub)) c (redis (fold (run_usage_call org) calls w)) \<le> hard_limit sub c"
  using fold_usage_calls_keep[OF assms(1) refl assms(2-4)] assms(2) usage_reading_le
  by (meson max.boundedI order_trans)

theorem quota_never_exceeded_witness:
  "usage_reading 5 1 0 SESSION_EVALS (redis (fold (run_usage_call 1)
     [(1, Check 10 ''session_evals'' 6), (2, Check 11 ''session_evals'' 6), (3, Undo 12 ''session_evals'' 1)] demo_world)) \<le> 10"
proof -
  have l: "hard_limit demo_hobby SESSION_EVALS = 10" "date_of (sub_period_start demo_hobby) = 0"
    by (simp_all add: hard_limit_def demo_hobby_def get_plan_config_def get_limit_for_category_def date_of_def)
  show ?thesis
    using quota_never_exceeded[OF demo_world_stable, of SESSION_EVALS
      "[(1, Check 10 ''session_evals'' 6), (2, Check 11 ''session_evals'' 6), (3, Undo 12 ''session_evals'' 1)]" 5]
    by (simp add: l stored_reading_def demo_world_def)
qed

text \<open>
  A quota check answers exactly: for an active subscription it returns the new count
  when no hard limit applies or the count fits, and otherwise raises the quota error and
  leaves the counter as it was.
\<close>

theorem check_and_increment_exact:
  assumes st: "sub_stable org sub w" and c: "usage_category_of cat = Inr c" and act: "usage_allowed (sub_status sub)"
    and fresh: "\<not> dedup_hit now (UsageRetryKey org day nonce) (redis w)" and day: "day = date_of (sub_period_start sub)"
    and pos: "0 \<le> usage_reading now org day c (redis w)" "0 \<le> n"
  shows "\<exists>w'. check_and_increment now nonce org cat n w =
      (if 0 \<le> hard_limit sub c \<and> hard_limit sub c < usage_reading now org day c (redis w) + n
       then Inl (QuotaExceededError ''You've reached the limit for your plan.'')
       else Inr (usage_reading now org day c (redis w) + n), w')
    \<and> usage_reading now org day c (redis w') =
      (if 0 \<le> hard_limit sub c \<and> hard_limit sub c < usage_reading now org day c (redis w) + n
       then usage_reading now org day c (redis w) else usage_reading now org day c (redis w) + n)"
proof -
  obtain r where r: "r = redis w \<or> r = r_set_ex now (redis w) (SubCacheKey org) (RSub sub) SUB_CACHE_TTL"
    and run: "check_and_increment now nonce org cat n w =
      (if \<not> usage_allowed (sub_status sub) then (Inl (QuotaExceededError ''Your subscription is not active.''), w\<lparr>redis := r\<rparr>)
       else case run_charge now org (date_of (sub_period_start sub)) c (hard_limit sub c) (compute_ttl now (sub_period_end sub)) nonce n r of
         (v, r') \<Rightarrow> (if v = -1 then Inl (QuotaExceededError ''You've reached the limit for your plan.'') else Inr v, w\<lparr>redis := r'\<rparr>))"
    using st c by (rule check_and_increment_run)
  have same: "usage_reading now org day c r = usage_reading now org day c (redis w)"
    "dedup_hit now (UsageRetryKey org day nonce) r = dedup_hit now (UsageRetryKey org day nonce) (redis w)"
    using r by (auto simp: usage_reading_def dedup_hit_def)
  note m = usage_meter.charge_result[of now org day nonce r c "hard_limit sub c" "sub_period_end sub" n]
    usage_meter.charge_new[of now org day nonce r c "hard_limit sub c" "sub_period_end sub" n]
  show ?thesis using m same fresh act pos run day by (auto split: prod.splits)
qed

theorem check_and_increment_exact_witness:
  "\<exists>w'. check_and_increment 0 5 1 ''session_evals'' 11 demo_world =
      (Inl (QuotaExceededError ''You've reached the limit for your plan.''), w')
    \<and> usage_reading 0 1 0 SESSION_EVALS (redis w') = 0"
proof -
  have l: "hard_limit demo_hobby SESSION_EVALS = 10" "0 = date_of (sub_period_start demo_hobby)"
    by (simp_all add: hard_limit_def demo_hobby_def get_plan_config_def get_limit_for_category_def date_of_def)
  have c: "usage_category_of ''session_evals'' = Inr SESSION_EVALS" "usage_allowed (sub_status demo_hobby)" by code_simp+
  have z: "\<not> dedup_hit 0 (UsageRetryKey 1 0 5) (redis demo_world)" "usage_reading 0 1 0 SESSION_EVALS (redis demo_world) = 0"
    by (simp_all add: dedup_hit_def r_get_def usage_reading_def r_hgetall_def demo_world_def hash_field_def)
  show ?thesis
    using check_and_increment_exact[OF demo_world_stable c z(1) l(2), of 11] by (simp add: z(2)[simplified] l(1))
qed

text \<open>
  The scripts are safe to retry. A client that did not see the answer and repeats the
  call with the same deduplication key within its lifetime gets the answer of the first
  execution, and the counter moves only once; the same holds for the decrement.
\<close>

theorem usage_scripts_replay:
  assumes "now \<le> now'" "now' < now + seconds dttl" "dk \<noteq> k" "r_get now r dk = None"
  shows "(\<forall>v r'. lua_check_and_increment now k dk f n lmt ttl dttl r = (v, r') \<longrightarrow>
      lua_check_and_increment now' k dk f n lmt ttl dttl r' = (v, r'))
    \<and> (\<forall>v r'. lua_rollback_increment now k dk f n dttl r = (v, r') \<longrightarrow>
      lua_rollback_increment now' k dk f n dttl r' = (v, r'))"
  using assms r_get_set_ex_later[OF assms(2)]
  by (auto simp: lua_check_and_increment_def lua_rollback_increment_def Let_def split: prod.splits if_splits option.splits)

theorem usage_scripts_replay_witness:
  "lua_rollback_increment 7 (UsageKey 1 0) (RollbackRetryKey 1 0 3) TRACES 4 60
     (snd (lua_rollback_increment 5 (UsageKey 1 0) (RollbackRetryKey 1 0 3) TRACES 4 60 Map.empty)) =
   lua_rollback_increment 5 (UsageKey 1 0) (RollbackRetryKey 1 0 3) TRACES 4 60 Map.empty"
  using usage_scripts_replay[of 5 7 60 "RollbackRetryKey 1 0 3" "UsageKey 1 0" Map.empty TRACES 4]
  by (cases "lua_rollback_increment 5 (UsageKey 1 0) (RollbackRetryKey 1 0 3) TRACES 4 60 Map.empty")
     (simp add: r_get_def seconds_def)

text \<open>
  The compensating decrement undoes a successful quota check: the counter returns to
  its value before the check, so a failed request is not billed.
\<close>

theorem rollback_undoes_check:
  assumes st: "sub_stable org sub w" and c: "usage_category_of cat = Inr c" and day: "day = date_of (sub_period_start sub)"
    and fresh: "\<not> dedup_hit now (UsageRetryKey org day t) (redis w)" "\<not> dedup_hit now (RollbackRetryKey org day u) (redis w)"
    and ok: "check_and_increment now t org cat n w = (Inr v, w1)"
  shows "\<exists>w2. rollback_increment now u org cat n w1 = (Inr (), w2) \<and>
     usage_reading now org day c (redis w2) = usage_reading now org day c (redis w)"
proof -
  obtain r where r: "r = redis w \<or> r = r_set_ex now (redis w) (SubCacheKey org) (RSub sub) SUB_CACHE_TTL"
    and run: "check_and_increment now t org cat n w =
      (if \<not> usage_allowed (sub_status sub) then (Inl (QuotaExceededError ''Your subscription is not active.''), w\<lparr>redis := r\<rparr>)
       else case run_charge now org (date_of (sub_period_start sub)) c (hard_limit sub c) (compute_ttl now (sub_period_end sub)) t n r of
         (v, r') \<Rightarrow> (if v = -1 then Inl (QuotaExceededError ''You've reached the limit for your plan.'') else Inr v, w\<lparr>redis := r'\<rparr>))"
    using st c by (rule check_and_increment_run)
  let ?chg = "run_charge now org day c (hard_limit sub c) (compute_ttl now (sub_period_end sub)) t n r"
  have w1: "w1 = w\<lparr>redis := snd ?chg\<rparr>" "fst ?chg \<noteq> -1"
    using ok run day by (auto split: if_splits prod.splits)
  have frsh: "\<not> dedup_hit now (UsageRetryKey org day t) r" "\<not> dedup_hit now (RollbackRetryKey org day u) r"
    and same: "usage_reading now org day c r = usage_reading now org day c (redis w)"
    using r fresh by (auto simp: usage_reading_def dedup_hit_def)
  have other: "r_get now (snd ?chg) (RollbackRetryKey org day u) = r_get now r (RollbackRetryKey org day u)"
    by (auto simp: run_charge_def lua_check_and_increment_def r_hincrby_def Let_def r_expire_def r_get_def r_set_ex_def
        split: option.splits redis_value.splits prod.splits if_splits)
  have st1: "sub_stable org sub w1"
    using st r by (auto simp: w1 sub_stable_def lua_sub_cache r_set_ex_def)
  from st1 c obtain r1 where r1': "r1 = redis w1 \<or> r1 = r_set_ex now (redis w1) (SubCacheKey org) (RSub sub) SUB_CACHE_TTL"
    and undo': "rollback_increment now u org cat n w1 =
      (Inr (), w1\<lparr>redis := snd (run_refund now org (date_of (sub_period_start sub)) c u n r1)\<rparr>)"
    by (rule check_and_increment_run)
  have r1: "r1 = snd ?chg \<or> r1 = r_set_ex now (snd ?chg) (SubCacheKey org) (RSub sub) SUB_CACHE_TTL"
    using r1' w1 by simp
  have undo: "rollback_increment now u org cat n w1 = (Inr (), w1\<lparr>redis := snd (run_refund now org day c u n r1)\<rparr>)"
    using undo' day by simp
  have "\<not> dedup_hit now (RollbackRetryKey org day u) r1" "usage_reading now org day c r1 = usage_reading now org day c (snd ?chg)"
    using r1 frsh(2) other by (auto simp: dedup_hit_def usage_reading_def)
  then have "usage_reading now org day c (snd (run_refund now org day c u n r1)) = usage_reading now org day c (snd ?chg) - n"
    using usage_meter.refund_new[of now org day u r1 c n] by simp
  also have "\<dots> = usage_reading now org day c r"
    using usage_meter.charge_new[OF frsh(1), of c "hard_limit sub c" "sub_period_end sub" n]
      usage_meter.charge_result[OF frsh(1), of c "hard_limit sub c" "sub_period_end sub" n] w1(2) by (auto split: if_splits)
  finally show ?thesis using undo same by simp
qed

theorem rollback_undoes_check_witness:
  "\<exists>w2. rollback_increment 0 6 1 ''traces'' 30 (snd (check_and_increment 0 5 1 ''traces'' 30 demo_world)) = (Inr (), w2) \<and>
     usage_reading 0 1 0 TRACES (redis w2) = usage_reading 0 1 0 TRACES (redis demo_world)"
proof -
  have l: "0 = date_of (sub_period_start demo_hobby)" by (simp add: demo_hobby_def date_of_def)
  have c: "usage_category_of ''traces'' = Inr TRACES" by code_simp
  have z: "\<not> dedup_hit 0 (UsageRetryKey 1 0 5) (redis demo_world)" "\<not> dedup_hit 0 (RollbackRetryKey 1 0 6) (redis demo_world)"
    by (simp_all add: dedup_hit_def r_get_def demo_world_def)
  have "fst (check_and_increment 0 5 1 ''traces'' 30 demo_world) = Inr 30" by code_simp
  then have "check_and_increment 0 5 1 ''traces'' 30 demo_world = (Inr 30, snd (check_and_increment 0 5 1 ''traces'' 30 demo_world))"
    by (metis prod.collapse)
  from rollback_undoes_check[OF demo_world_stable c l z this] show ?thesis .
qed

text \<open>
  Syncing a period writes what Redis holds: when the hash of the period exists, the
  one usage record of the organization and period has exactly its three counters.
\<close>

theorem sync_period_writes_counters:
  assumes one: "filter (same_period org pstart) (usages (db w)) \<in> {[], [u]}"
    and some: "r_hgetall now (redis w) (usage_key org pstart) \<noteq> Map.empty"
  shows "\<exists>w' u'. sync_period now org pstart pend w = (Inr (), w') \<and> redis w' = redis w \<and>
     filter (same_period org pstart) (usages (db w')) = [u'] \<and>
     (\<forall>c. counter c u' = hash_field (r_hgetall now (redis w) (usage_key org pstart)) c)"
proof -
  let ?h = "r_hgetall now (redis w) (usage_key org pstart)"
  let ?set = "set_counters now (hash_field ?h TRACES) (hash_field ?h TRACE_EVALS) (hash_field ?h SESSION_EVALS)"
  have cnt: "counter c (?set v) = hash_field ?h c" for c v
    by (cases c; cases v) (auto simp: set_counters_def Let_def)
  have keep: "same_period org pstart (?set v) = same_period org pstart v" for v
    by (simp add: same_period_def set_counters_def Let_def)
  have nonempty: "\<not> (?h TRACES = None \<and> ?h TRACE_EVALS = None \<and> ?h SESSION_EVALS = None)"
    using some by (metis (full_types) ext usage_category.exhaust)
  have up: "filter (same_period org pstart) (update_where (same_period org pstart) ?set us) =
      map ?set (filter (same_period org pstart) us)" for us
    by (induction us) (auto simp: keep)
  have new: "same_period org pstart (fresh_usage now (next_id (db w)) org pstart pend)"
    by (simp add: same_period_def fresh_usage_def)
  show ?thesis
  proof (cases "filter (same_period org pstart) (usages (db w)) = []")
    case True
    then have "\<not> list_ex (same_period org pstart) (usages (db w))" by (simp add: list_ex_iff filter_empty_conv)
    with True nonempty new cnt keep show ?thesis
      by (auto simp: sync_period_def in_db_def upsert_usage_counters_def get_current_usage_record_def
          create_usage_record_def bindE_def Let_def up)
  next
    case False
    with one nonempty cnt show ?thesis
      by (auto simp: sync_period_def in_db_def upsert_usage_counters_def get_current_usage_record_def bindE_def up)
  qed
qed

theorem sync_period_writes_counters_witness:
  "\<exists>w' u'. sync_period 0 1 0 (days 30) (demo_world\<lparr>redis := [UsageKey 1 0 \<mapsto> (RHash [TRACES \<mapsto> 42], None)]\<rparr>) = (Inr (), w') \<and>
     filter (same_period 1 0) (usages (db w')) = [u'] \<and> counter TRACES u' = 42"
proof -
  let ?w = "demo_world\<lparr>redis := [UsageKey 1 0 \<mapsto> (RHash [TRACES \<mapsto> 42], None)]\<rparr>"
  have h: "r_hgetall 0 (redis ?w) (usage_key 1 0) = [TRACES \<mapsto> 42]"
    by (simp add: r_hgetall_def r_get_def live_def usage_key_def date_of_def)
  have "filter (same_period 1 0) (usages (db ?w)) \<in> {[], [u]}" for u by (simp add: demo_world_def)
  from sync_period_writes_counters[OF this, of 0 "days 30"] obtain w' u' where
    "sync_period 0 1 0 (days 30) ?w = (Inr (), w')" "filter (same_period 1 0) (usages (db w')) = [u']"
    "\<forall>c. counter c u' = hash_field [TRACES \<mapsto> 42] c"
    unfolding h by auto
  then show ?thesis by (metis (mono_tags) counter.simps(1) fun_upd_same hash_field_def option.case(2))
qed

text \<open>
  A refused first increment leaves a counter hash that never expires: when the hash of
  the period does not exist and the count passes the hard limit, the script creates the hash
  by incrementing, takes the increment back and returns without setting the expiry.
\<close>

theorem refused_increment_no_expiry:
  assumes "r k = None" "r dk = None" "dk \<noteq> k" "0 \<le> lmt" "lmt < n"
  shows "\<exists>r'. lua_check_and_increment now k dk f n lmt ttl dttl r = (-1, r') \<and>
     r' k = Some (RHash [f \<mapsto> 0], None) \<and> (\<forall>later. r_hgetall later r' k = [f \<mapsto> 0])"
  using assms by (auto simp: lua_check_and_increment_def r_get_def r_hincrby_def Let_def r_hgetall_def hash_field_def
      r_set_ex_def live_def)

theorem refused_increment_no_expiry_witness:
  "\<exists>r'. lua_check_and_increment 0 (UsageKey 1 0) (UsageRetryKey 1 0 5) TRACES 101 100 604800 60 Map.empty = (-1, r') \<and>
     r' (UsageKey 1 0) = Some (RHash [TRACES \<mapsto> 0], None) \<and> (\<forall>later. r_hgetall later r' (UsageKey 1 0) = [TRACES \<mapsto> 0])"
  using refused_increment_no_expiry[of Map.empty "UsageKey 1 0" "UsageRetryKey 1 0 5" 100 101] by simp

end
