(* ===== verification/BillingService.thy ===== *)
theory BillingService
  imports UsageService BillingDelivery
begin

text \<open>
  \<open>services/billing_service.py\<close>: the overage lock, checkout and portal sessions, overage
  calculation and reporting, and the handlers of the Stripe webhook events.

  A handler runs at one instant \<open>now\<close>, which stands for the timestamps it writes and the
  expiry it sets; delivering reads the clock of the environment. A service with
  \<open>redis_client=None\<close> has \<open>has_redis\<close> false. Stripe objects are records of the attributes
  the handlers read, \<open>None\<close> where \<open>getattr\<close> finds nothing.
\<close>

section \<open>Stripe objects\<close>

datatype subscription_ref = SubId string | SubExpanded "string option"

record invoice_object =
  inv_id :: string
  inv_parent_subscription :: "subscription_ref option"
  inv_subscription :: "subscription_ref option"
  inv_billing_reason :: "string option"
  inv_period_start :: "int option"
  inv_period_end :: "int option"

record checkout_object =
  co_org_id :: "uuid option"
  co_plan :: string
  co_customer :: "string option"
  co_subscription :: string

record subscription_object =
  so_id :: string
  so_status :: "string option"
  so_items :: "stripe_period_item list"
  so_canceled_at :: "int option"

text \<open>The settings, and whether Redis fails when a worker releases the lock it holds under a token.\<close>

record billing_config =
  has_redis :: bool
  stripe_secret_key :: string
  stripe_pro_price_id :: string
  stripe_startup_price_id :: string
  release_failure :: "uuid \<Rightarrow> error option"

definition RENEWAL_BILLING_REASON :: string where
  "RENEWAL_BILLING_REASON = ''subscription_cycle''"

definition ensure_stripe_configured :: "bool \<Rightarrow> billing_config \<Rightarrow> error + unit" where
  "ensure_stripe_configured configured cfg =
     (if configured then Inr () else if stripe_secret_key cfg = [] then Inl StripeNotConfiguredError else Inr ())"

text \<open>A later key of the dictionary wins when both prices are the same.\<close>

definition resolve_plan_from_price_id :: "billing_config \<Rightarrow> string \<Rightarrow> subscription_plan option" where
  "resolve_plan_from_price_id cfg price =
     [stripe_pro_price_id cfg \<mapsto> PRO, stripe_startup_price_id cfg \<mapsto> STARTUP] price"

definition invoice_subscription_id :: "invoice_object \<Rightarrow> string option" where
  "invoice_subscription_id obj =
     (case (case inv_parent_subscription obj of None \<Rightarrow> inv_subscription obj | x \<Rightarrow> x) of
        None \<Rightarrow> None
      | Some (SubId s) \<Rightarrow> Some s
      | Some (SubExpanded i) \<Rightarrow> i)"

definition from_timestamp :: "int option \<Rightarrow> error + datetime" where
  "from_timestamp t = (case t of None \<Rightarrow> Inl TypeError | Some n \<Rightarrow> Inr (seconds n))"

definition get_sub_period :: "stripe_period_item list \<Rightarrow> error + datetime \<times> datetime" where
  "get_sub_period items = (case items of
       [] \<Rightarrow> Inl IndexError
     | it # _ \<Rightarrow> (case (from_timestamp (si_period_start it), from_timestamp (si_period_end it)) of
         (Inr s, Inr e) \<Rightarrow> Inr (s, e)
       | _ \<Rightarrow> Inl TypeError))"

definition invoice_period :: "invoice_object \<Rightarrow> error + datetime \<times> datetime" where
  "invoice_period obj = (case (inv_period_start obj, inv_period_end obj) of
       (Some s, Some e) \<Rightarrow>
         if 0 < s \<and> s < e then Inr (seconds s, seconds e)
         else Inl (PandaProbeError ''Renewal invoice has no valid billing period; reconciliation required.'')
     | _ \<Rightarrow> Inl (PandaProbeError ''Renewal invoice has no valid billing period; reconciliation required.''))"

section \<open>Cache and lock\<close>

text \<open>Every failure is swallowed.\<close>

definition warm_sub_cache :: "billing_config \<Rightarrow> datetime \<Rightarrow> uuid \<Rightarrow> (error, 's bworld, unit) exec" where
  "warm_sub_cache cfg now org =
     (if \<not> has_redis cfg then ret ()
      else catchE
        (bindE (in_db (get_subscription_by_org org)) (\<lambda>sub.
         case sub of
           None \<Rightarrow> modify_redis (\<lambda>r. r_del r (SubCacheKey org))
         | Some s \<Rightarrow> modify_redis (\<lambda>r. r_set_ex now r (SubCacheKey org) (RSub s) SUB_CACHE_TTL)))
        (\<lambda>_. ret ()))"

definition acquire_overage_lock ::
    "billing_config \<Rightarrow> datetime \<Rightarrow> uuid \<Rightarrow> uuid \<Rightarrow> (error, 's bworld, bool) exec" where
  "acquire_overage_lock cfg now nonce org =
     (if \<not> has_redis cfg then ret True
      else in_redis (acquire_owned_lock now (OverageLockKey org) OVERAGE_LOCK_TTL (Token nonce)))"

text \<open>
  The token remembered by a successful acquisition is the one of the same call. A failure of Redis
  propagates, and the lock stays until it expires.
\<close>

definition release_overage_lock ::
    "billing_config \<Rightarrow> datetime \<Rightarrow> uuid \<Rightarrow> uuid \<Rightarrow> (error, 's bworld, unit) exec" where
  "release_overage_lock cfg now nonce org =
     (if \<not> has_redis cfg then ret ()
      else case release_failure cfg nonce of
        Some e \<Rightarrow> raise e
      | None \<Rightarrow> modify_redis (release_owned_lock now (OverageLockKey org) (Token nonce)))"

section \<open>Checkout and portal\<close>

record checkout_request =
  ck_price :: string
  ck_success_url :: string
  ck_cancel_url :: string
  ck_org_id :: uuid
  ck_plan :: string
  ck_customer :: "string option"

definition create_checkout_session ::
    "billing_config \<Rightarrow> (checkout_request \<Rightarrow> 's \<Rightarrow> (error + string) \<times> 's) \<Rightarrow> uuid \<Rightarrow> subscription_plan \<Rightarrow>
     string \<Rightarrow> string \<Rightarrow> (error, 's bworld, string) exec" where
  "create_checkout_session cfg send org plan success_url cancel_url =
     (if plan \<noteq> PRO \<and> plan \<noteq> STARTUP then raise (ValueError ''Checkout is only available for PRO and STARTUP plans.'')
      else
        bindE (in_db (get_subscription_by_org org)) (\<lambda>sub.
        in_env (send \<lparr>ck_price = (if plan = PRO then stripe_pro_price_id cfg else stripe_startup_price_id cfg),
          ck_success_url = success_url, ck_cancel_url = cancel_url,
          ck_org_id = org, ck_plan = subscription_plan_value plan,
          ck_customer = (case sub of None \<Rightarrow> None | Some s \<Rightarrow> truthy (sub_customer s))\<rparr>)))"

definition create_portal_session ::
    "(string \<Rightarrow> string \<Rightarrow> 's \<Rightarrow> (error + string) \<times> 's) \<Rightarrow> uuid \<Rightarrow> string \<Rightarrow> (error, 's bworld, string) exec" where
  "create_portal_session send org return_url =
     bindE (in_db (get_subscription_by_org org)) (\<lambda>sub.
     case (case sub of None \<Rightarrow> None | Some s \<Rightarrow> sub_customer s) of
       None \<Rightarrow> raise (ValidationError ''No billing account exists for this organization. Upgrade to a paid plan to access billing management.'')
     | Some cust \<Rightarrow> in_env (send cust return_url))"

section \<open>Overages\<close>

definition overage_since :: "usage_category \<Rightarrow> plan_config \<Rightarrow> usage_record \<Rightarrow> int" where
  "overage_since c plan usage =
     (let base = or_zero (plan_base c plan)
      in max 0 (max 0 (counter c usage - base) - max 0 (reported c usage - base)))"

definition calculate_unreported_overages ::
    "uuid \<Rightarrow> datetime option \<Rightarrow> (error, 's bworld, overage_detail) exec" where
  "calculate_unreported_overages org pstart =
     bindE (in_db (get_subscription_by_org org)) (\<lambda>found.
     case found of
       None \<Rightarrow> ret empty_overage
     | Some sub \<Rightarrow>
         if \<not> pay_as_you_go (get_plan_config (sub_plan sub)) then ret empty_overage else
         bindE (in_db (get_current_usage_record org (case pstart of Some t \<Rightarrow> t | None \<Rightarrow> sub_period_start sub))) (\<lambda>usage.
         case usage of
           None \<Rightarrow> ret empty_overage
         | Some u \<Rightarrow>
             if ur_billed u then ret empty_overage else
             let plan = get_plan_config (sub_plan sub);
                 dt = overage_since TRACES plan u; de = overage_since TRACE_EVALS plan u;
                 ds = overage_since SESSION_EVALS plan u
             in ret \<lparr>trace_overage = dt, trace_eval_overage = de, session_eval_overage = ds,
                  trace_overage_cost = OVERAGE_UNIT_PRICE * of_int dt,
                  trace_eval_overage_cost = OVERAGE_UNIT_PRICE * of_int de,
                  session_eval_overage_cost = OVERAGE_UNIT_PRICE * of_int ds,
                  total_cost = OVERAGE_UNIT_PRICE * of_int (dt + de + ds),
                  od_snapshot_trace_count = trace_count u, od_snapshot_trace_eval_count = trace_eval_count u,
                  od_snapshot_session_eval_count = session_eval_count u\<rparr>))"

definition report_overages_to_stripe ::
    "'s stripe_api \<Rightarrow> datetime \<Rightarrow> uuid \<Rightarrow> datetime option \<Rightarrow> string option \<Rightarrow> (error, 's bworld, bool) exec" where
  "report_overages_to_stripe api now org pstart invoice_id =
     bindE (in_db (get_subscription_by_org org)) (\<lambda>found.
     case found of
       None \<Rightarrow> ret False
     | Some sub \<Rightarrow>
         if sub_customer sub = None then ret False else
         bindE (in_db (stage now sub (case pstart of Some t \<Rightarrow> t | None \<Rightarrow> sub_period_start sub) invoice_id None False)) (\<lambda>report.
         bindE commit (\<lambda>_.
         case report of
           None \<Rightarrow> ret False
         | Some r \<Rightarrow> bindE (deliver_safely api (br_id r)) (\<lambda>b. ret (b = Some True)))))"

section \<open>Webhook handlers\<close>

definition handle_checkout_completed ::
    "billing_config \<Rightarrow> 's stripe_api \<Rightarrow> datetime \<Rightarrow> checkout_object \<Rightarrow> (error, 's bworld, unit) exec" where
  "handle_checkout_completed cfg api now obj =
     (case co_org_id obj of
        None \<Rightarrow> raise KeyError
      | Some org \<Rightarrow>
          bindE (liftE (subscription_plan_of (co_plan obj))) (\<lambda>plan.
          bindE (in_env (api_sub_items api (co_subscription obj))) (\<lambda>items.
          bindE (liftE (get_sub_period items)) (\<lambda>(pstart, pend).
          bindE (in_db (get_subscription_by_org org)) (\<lambda>existing.
          bindE (case existing of
                   Some _ \<Rightarrow>
                     bindE (in_db (update_subscription now org (\<lambda>s. s\<lparr>sub_plan := plan,
                       sub_status := subscription_status.ACTIVE, sub_customer := co_customer obj,
                       sub_stripe_id := Some (co_subscription obj), sub_period_start := pstart,
                       sub_period_end := pend, sub_canceled_at := None\<rparr>))) (\<lambda>_. ret ())
                 | None \<Rightarrow>
                     bindE (in_db (create_subscription now org plan (co_customer obj)
                       (Some (co_subscription obj)) (Some pstart) (Some pend))) (\<lambda>_. ret ())) (\<lambda>_.
          bindE (in_db (get_or_create_usage_record now org pstart pend)) (\<lambda>_.
          bindE commit (\<lambda>_.
          warm_sub_cache cfg now org))))))))"

text \<open>The end of \<open>_sync_invoice_period\<close>: sync the counters, then read the record again.\<close>

definition synced_usage ::
    "billing_config \<Rightarrow> datetime \<Rightarrow> uuid \<Rightarrow> datetime \<Rightarrow> datetime \<Rightarrow> (error, 's bworld, usage_record) exec" where
  "synced_usage cfg now org pstart pend =
     bindE (if has_redis cfg then sync_to_database now org (Some pstart) (Some pend) else ret ()) (\<lambda>_.
     bindE (in_db (get_current_usage_record org pstart)) (\<lambda>usage.
     case usage of
       None \<Rightarrow> raise (PandaProbeError ''Invoice usage history is missing; reconciliation required.'')
     | Some u \<Rightarrow> ret u))"

definition sync_invoice_period ::
    "billing_config \<Rightarrow> datetime \<Rightarrow> subscription \<Rightarrow> invoice_object \<Rightarrow> (error, 's bworld, usage_record) exec" where
  "sync_invoice_period cfg now sub obj =
     bindE (liftE (invoice_period obj)) (\<lambda>(pstart, pend).
     bindE (in_db (get_current_usage_record (sub_org_id sub) pstart)) (\<lambda>usage.
     case usage of
       None \<Rightarrow> synced_usage cfg now (sub_org_id sub) pstart pend
     | Some u \<Rightarrow>
         if ur_period_end u \<noteq> pend
         then raise (PandaProbeError ''Invoice period does not match usage history; reconciliation required.'')
         else if ur_billed u then ret u
         else synced_usage cfg now (sub_org_id sub) pstart pend))"

text \<open>\<open>if not await acquire: raise \<dots>; try: body finally: release\<close>.\<close>

definition with_overage_lock ::
    "billing_config \<Rightarrow> datetime \<Rightarrow> uuid \<Rightarrow> uuid \<Rightarrow> (error, 's bworld, unit) exec \<Rightarrow> (error, 's bworld, unit) exec" where
  "with_overage_lock cfg now nonce org body =
     bindE (acquire_overage_lock cfg now nonce org) (\<lambda>ok.
     if \<not> ok then raise (PandaProbeError ''Overage reporting is busy; retry the invoice webhook.'')
     else finallyE body (release_overage_lock cfg now nonce org))"

text \<open>The subscription a webhook object refers to, or \<open>None\<close> when the handler returns early.\<close>

definition invoice_subscription :: "invoice_object \<Rightarrow> (error, 's bworld, subscription option) exec" where
  "invoice_subscription obj = (case truthy (invoice_subscription_id obj) of
       None \<Rightarrow> ret None
     | Some sid \<Rightarrow> in_db (get_subscription_by_stripe_subscription sid))"

definition handle_invoice_created ::
    "billing_config \<Rightarrow> 's stripe_api \<Rightarrow> datetime \<Rightarrow> uuid \<Rightarrow> invoice_object \<Rightarrow> (error, 's bworld, unit) exec" where
  "handle_invoice_created cfg api now nonce obj =
     (if inv_billing_reason obj \<noteq> Some RENEWAL_BILLING_REASON then ret () else
      bindE (invoice_subscription obj) (\<lambda>found.
      case found of
        None \<Rightarrow> ret ()
      | Some sub \<Rightarrow>
          if \<not> pay_as_you_go (get_plan_config (sub_plan sub)) then ret () else
          with_overage_lock cfg now nonce (sub_org_id sub)
            (bindE (sync_invoice_period cfg now sub obj) (\<lambda>usage.
             bindE (if ur_billed usage then ret ()
                    else bindE (report_overages_to_stripe api now (sub_org_id sub) (Some (ur_period_start usage)) (Some (inv_id obj)))
                      (\<lambda>_. ret ())) (\<lambda>_.
             commit)))))"

text \<open>The new period opened by a paid invoice, and the subscription active again.\<close>

definition open_period :: "datetime \<Rightarrow> uuid \<Rightarrow> datetime \<Rightarrow> datetime \<Rightarrow> (error, 's bworld, unit) exec" where
  "open_period now org new_start new_end =
     bindE (modify_db (advance_period now org new_start new_end)) (\<lambda>_.
     bindE (in_db (get_or_create_usage_record now org new_start new_end)) (\<lambda>_.
     bindE (in_db (update_subscription now org (\<lambda>s. s\<lparr>sub_status := subscription_status.ACTIVE\<rparr>))) (\<lambda>_.
     commit)))"

text \<open>Closing the ending period of a renewal invoice.\<close>

definition close_period ::
    "billing_config \<Rightarrow> datetime \<Rightarrow> subscription \<Rightarrow> invoice_object \<Rightarrow> (error, 's bworld, unit) exec" where
  "close_period cfg now sub obj =
     bindE (sync_invoice_period cfg now sub obj) (\<lambda>usage.
     if ur_billed usage then ret ()
     else
       bindE (in_db (stage now sub (ur_period_start usage) None (Some (inv_id obj)) False)) (\<lambda>_.
       modify_db (mark_billed now (sub_org_id sub) (ur_period_start usage) (Some (inv_id obj)))))"

definition handle_invoice_paid ::
    "billing_config \<Rightarrow> 's stripe_api \<Rightarrow> datetime \<Rightarrow> uuid \<Rightarrow> invoice_object \<Rightarrow> (error, 's bworld, unit) exec" where
  "handle_invoice_paid cfg api now nonce obj =
     bindE (invoice_subscription obj) (\<lambda>found.
     case found of
       None \<Rightarrow> ret ()
     | Some sub \<Rightarrow>
         bindE (case invoice_subscription_id obj of
                  None \<Rightarrow> raise TypeError
                | Some sid \<Rightarrow> in_env (api_sub_items api sid)) (\<lambda>items.
         bindE (liftE (get_sub_period items)) (\<lambda>(new_start, new_end).
         bindE (if inv_billing_reason obj = Some RENEWAL_BILLING_REASON
                then with_overage_lock cfg now nonce (sub_org_id sub)
                  (bindE (close_period cfg now sub obj) (\<lambda>_. open_period now (sub_org_id sub) new_start new_end))
                else open_period now (sub_org_id sub) new_start new_end) (\<lambda>_.
         warm_sub_cache cfg now (sub_org_id sub)))))"

definition handle_invoice_payment_failed ::
    "billing_config \<Rightarrow> datetime \<Rightarrow> invoice_object \<Rightarrow> (error, 's bworld, unit) exec" where
  "handle_invoice_payment_failed cfg now obj =
     bindE (invoice_subscription obj) (\<lambda>found.
     case found of
       None \<Rightarrow> ret ()
     | Some sub \<Rightarrow>
         bindE (in_db (update_subscription now (sub_org_id sub) (\<lambda>s. s\<lparr>sub_status := PAST_DUE\<rparr>))) (\<lambda>_.
         bindE commit (\<lambda>_.
         warm_sub_cache cfg now (sub_org_id sub))))"

definition map_status :: "string option \<Rightarrow> subscription_status" where
  "map_status st = (case st of
       Some x \<Rightarrow>
         if x = ''past_due'' then PAST_DUE else if x = ''canceled'' then CANCELED
         else if x = ''incomplete'' then INCOMPLETE else subscription_status.ACTIVE
     | None \<Rightarrow> subscription_status.ACTIVE)"

text \<open>A missing or zero number is false where the code tests it.\<close>

definition truthy_int :: "int option \<Rightarrow> int option" where
  "truthy_int x = (case x of Some n \<Rightarrow> if n = 0 then None else x | None \<Rightarrow> None)"

definition updated_plan :: "billing_config \<Rightarrow> subscription_object \<Rightarrow> subscription_plan option" where
  "updated_plan cfg obj = (case so_items obj of
       [] \<Rightarrow> None
     | it # _ \<Rightarrow> (case truthy (si_price_id it) of None \<Rightarrow> None | Some p \<Rightarrow> resolve_plan_from_price_id cfg p))"

definition handle_subscription_updated ::
    "billing_config \<Rightarrow> datetime \<Rightarrow> subscription_object \<Rightarrow> (error, 's bworld, unit) exec" where
  "handle_subscription_updated cfg now obj =
     bindE (in_db (get_subscription_by_stripe_subscription (so_id obj))) (\<lambda>found.
     case found of
       None \<Rightarrow> ret ()
     | Some sub \<Rightarrow>
         bindE (case so_items obj of
                  [] \<Rightarrow> ret ()
                | it # _ \<Rightarrow>
                    (case (truthy_int (si_period_start it), truthy_int (si_period_end it)) of
                       (Some s, Some e) \<Rightarrow> modify_db (advance_period now (sub_org_id sub) (seconds s) (seconds e))
                     | _ \<Rightarrow> ret ())) (\<lambda>_.
         bindE (in_db (update_subscription now (sub_org_id sub) (\<lambda>s. s\<lparr>
             sub_status := map_status (so_status obj),
             sub_plan := (case updated_plan cfg obj of Some p \<Rightarrow> p | None \<Rightarrow> sub_plan s),
             sub_canceled_at := (case truthy_int (so_canceled_at obj) of Some t \<Rightarrow> Some (seconds t) | None \<Rightarrow> None)\<rparr>))) (\<lambda>_.
         bindE commit (\<lambda>_.
         warm_sub_cache cfg now (sub_org_id sub)))))"

text \<open>The overage of a subscription that ends.\<close>

definition finalize_overages ::
    "billing_config \<Rightarrow> 's stripe_api \<Rightarrow> datetime \<Rightarrow> uuid \<Rightarrow> subscription \<Rightarrow> (error, 's bworld, unit) exec" where
  "finalize_overages cfg api now nonce sub =
     bindE (if has_redis cfg then sync_to_database now (sub_org_id sub) None None else ret ()) (\<lambda>_.
     bindE (acquire_overage_lock cfg now nonce (sub_org_id sub)) (\<lambda>ok.
     bindE (if ok
            then finallyE (bindE (report_overages_to_stripe api now (sub_org_id sub) None None) (\<lambda>_. ret ()))
              (release_overage_lock cfg now nonce (sub_org_id sub))
            else ret ()) (\<lambda>_.
     bindE (in_db (get_current_usage_record (sub_org_id sub) (sub_period_start sub))) (\<lambda>old.
     case old of
       Some u \<Rightarrow>
         if \<not> ur_billed u then modify_db (mark_billed now (sub_org_id sub) (sub_period_start sub) None) else ret ()
     | None \<Rightarrow> ret ()))))"

definition handle_subscription_deleted ::
    "billing_config \<Rightarrow> 's stripe_api \<Rightarrow> datetime \<Rightarrow> uuid \<Rightarrow> subscription_object \<Rightarrow> (error, 's bworld, unit) exec" where
  "handle_subscription_deleted cfg api now nonce obj =
     bindE (in_db (get_subscription_by_stripe_subscription (so_id obj))) (\<lambda>found.
     case found of
       None \<Rightarrow> ret ()
     | Some sub \<Rightarrow>
         bindE (if pay_as_you_go (get_plan_config (sub_plan sub)) \<and> truthy (sub_customer sub) \<noteq> None
                then finalize_overages cfg api now nonce sub else ret ()) (\<lambda>_.
         bindE (in_db (update_subscription now (sub_org_id sub) (\<lambda>s. s\<lparr>sub_plan := HOBBY,
             sub_status := subscription_status.ACTIVE, sub_stripe_id := None, sub_canceled_at := Some now,
             sub_period_start := now, sub_period_end := now + days 30\<rparr>))) (\<lambda>_.
         bindE (in_db (create_usage_record now (sub_org_id sub) now (now + days 30))) (\<lambda>_.
         bindE commit (\<lambda>_.
         warm_sub_cache cfg now (sub_org_id sub))))))"

end
