(* ===== verification/BillingHandlers.thy ===== *)
theory BillingHandlers
  imports BillingService
begin

text \<open>
  What the billing handlers promise: they keep the invariant of the billing tables whatever
  event they receive, a failed renewal commits nothing unless only the release of its lock failed, a
  period never moves backwards while a subscription runs, and only a renewal closes a period.
\<close>

section \<open>The invariant of the tables, statement by statement\<close>

definition inv_rel :: "billing_db \<Rightarrow> billing_db \<Rightarrow> bool" where
  "inv_rel d d' \<longleftrightarrow> (billing_inv d \<longrightarrow> billing_inv d')"

interpretation inv_db: exec_preorder inv_rel
  by unfold_locales (auto simp: inv_rel_def)

lemma inv_rel_keepsI: "(\<And>d x d'. billing_inv d \<Longrightarrow> m d = (x, d') \<Longrightarrow> billing_inv d') \<Longrightarrow> keeps inv_rel m"
  by (metis inv_rel_def keepsI prod.collapse)

lemma unique_subs_update:
  assumes "unique_subs rows" "\<And>s. sub_org_id (f s) = sub_org_id s" "\<And>s. sub_stripe_id (f s) = sub_stripe_id s"
  shows "unique_subs (update_where P f rows)"
proof -
  have "filter (\<lambda>s. sub_stripe_id s \<noteq> None) (update_where P f rows) = update_where P f (filter (\<lambda>s. sub_stripe_id s \<noteq> None) rows)"
    using assms(3) by (intro filter_update_where) simp
  then show ?thesis using assms by (simp add: unique_subs_def map_update_where)
qed

lemma inv_advance_period: "billing_inv d \<Longrightarrow> billing_inv (advance_period now org s e d)"
  unfolding advance_period_def
  by (intro billing_inv_subs unique_subs_update) (auto simp: billing_inv_def billing_wf_def)

lemma inv_flush_subs [keeps_rules]: "keeps inv_rel (flush_subs rows)"
  by (rule inv_rel_keepsI) (auto simp: flush_subs_def billing_inv_subs split: if_splits)

lemma inv_read [keeps_rules]: "(\<And>d. snd (m d) = d) \<Longrightarrow> keeps inv_rel m"
  by (rule keepsI) (simp add: inv_rel_def)

lemma inv_next_id: "billing_inv d \<Longrightarrow> billing_inv (d\<lparr>next_id := Suc (next_id d)\<rparr>)"
  by (simp add: billing_inv_def billing_wf_next_id ledger_ok_def)

lemma inv_repo [keeps_rules]:
  "keeps inv_rel (get_subscription_by_org org)"
  "keeps inv_rel (get_subscription_by_stripe_subscription stripe_id)"
  "keeps inv_rel (get_current_usage_record org s)"
  "keeps inv_rel (create_usage_record now org s e)"
  "keeps inv_rel (get_or_create_usage_record now org s e)"
  "keeps inv_rel (upsert_usage_counters now org s e t te se)"
  "keeps inv_rel (update_subscription now org f)"
  "keeps inv_rel (create_subscription now org plan cust sid ps pe)"
  "keeps inv_rel (stage now sub pstart invoice clo allow)"
proof -
  show org: "keeps inv_rel (get_subscription_by_org org)" for org
    by (rule inv_read) (simp add: get_subscription_by_org_def)
  show "keeps inv_rel (get_subscription_by_stripe_subscription stripe_id)"
    by (rule inv_read) (simp add: get_subscription_by_stripe_subscription_def)
  show cur: "keeps inv_rel (get_current_usage_record org s)" for org s
    by (rule inv_read) (simp add: get_current_usage_record_def)
  show cre: "keeps inv_rel (create_usage_record now org s e)"
    by (rule inv_rel_keepsI) (rule billing_inv_create_usage)
  show "keeps inv_rel (get_or_create_usage_record now org s e)"
    unfolding get_or_create_usage_record_def by (intro keeps_rules cur cre)
  show "keeps inv_rel (upsert_usage_counters now org s e t te se)"
    by (rule inv_rel_keepsI) (rule billing_inv_upsert)
  show "keeps inv_rel (update_subscription now org f)"
    unfolding update_subscription_def by (intro keeps_rules org inv_flush_subs)
  show "keeps inv_rel (create_subscription now org plan cust sid ps pe)"
    unfolding create_subscription_def
    by (intro keeps_rules inv_flush_subs inv_db.keeps_modify) (simp add: inv_rel_def inv_next_id)
  show "keeps inv_rel (stage now sub pstart invoice clo allow)"
    by (rule inv_rel_keepsI) (rule billing_inv_stage)
qed

section \<open>The invariant of a world\<close>

definition world_inv :: "'s bworld \<Rightarrow> bool" where
  "world_inv w \<longleftrightarrow> billing_inv (db w) \<and> billing_inv (committed w)"

definition keeps_world :: "'s bworld \<Rightarrow> 's bworld \<Rightarrow> bool" where
  "keeps_world w w' \<longleftrightarrow> (world_inv w \<longrightarrow> world_inv w')"

interpretation inv_world: exec_preorder keeps_world
  by unfold_locales (auto simp: keeps_world_def)

lemma world_in_db [keeps_rules]: "keeps inv_rel m \<Longrightarrow> keeps keeps_world (in_db m)"
  by (auto simp: keeps_def keeps_world_def world_inv_def inv_rel_def in_db_def split: prod.splits)

lemma world_modify_db: "(\<And>d. billing_inv d \<Longrightarrow> billing_inv (f d)) \<Longrightarrow> keeps keeps_world (modify_db f)"
  by (simp add: keeps_def keeps_world_def world_inv_def modify_db_def)

lemma world_other [keeps_rules]:
  "keeps keeps_world (in_env m)" "keeps keeps_world (in_redis h)" "keeps keeps_world (modify_redis k)"
  "keeps keeps_world commit" "keeps keeps_world rollback"
  by (auto simp: keeps_def keeps_world_def world_inv_def in_env_def in_redis_def modify_redis_def commit_def rollback_def
      split: prod.splits)

lemma world_advance [keeps_rules]: "keeps keeps_world (modify_db (advance_period now org s e))"
  by (rule world_modify_db) (rule inv_advance_period)

lemma world_mark_billed [keeps_rules]: "keeps keeps_world (modify_db (mark_billed now org s i))"
  by (rule world_modify_db) (rule billing_inv_mark_billed)

lemma world_commit_then [keeps_rules]:
  assumes "\<And>w. committed w = db w \<Longrightarrow> billing_inv (db w) \<Longrightarrow> world_inv (snd (m w))"
  shows "keeps keeps_world (bindE commit (\<lambda>_. m))"
  using assms by (auto simp: keeps_def keeps_world_def world_inv_def commit_def)

lemma deliver_safely_world:
  assumes "committed w = db w" "billing_inv (db w)"
  shows "world_inv (snd (deliver_safely api i w))"
  using deliver_safely_ok[OF assms(2,1), of api i] by (auto simp: world_inv_def)

lemma world_report_overages [keeps_rules]: "keeps keeps_world (report_overages_to_stripe api now org ps invoice)"
proof -
  have tail: "world_inv (snd ((case report of None \<Rightarrow> ret False
      | Some r \<Rightarrow> bindE (deliver_safely api (br_id r)) (\<lambda>b. ret (b = Some True))) w))"
    if "committed w = db w" "billing_inv (db w)" for report w
    using deliver_safely_ok[OF that(2,1), of api "br_id (the report)"] that
    by (cases report) (auto simp: world_inv_def bindE_def)
  show ?thesis unfolding report_overages_to_stripe_def
    by (intro keeps_rules inv_world.keeps_bind inv_world.keeps_ret world_commit_then tail)
qed

lemma world_sync [keeps_rules]: "keeps keeps_world (sync_to_database now org ps pe)"
  unfolding sync_to_database_def sync_period_def
  by (cases ps; cases pe) (simp_all, (intro keeps_rules)+)

lemma world_release [keeps_rules]: "keeps keeps_world (release_overage_lock cfg now nonce org)"
  unfolding release_overage_lock_def by (intro keeps_rules)

lemma world_service [keeps_rules]:
  "keeps keeps_world (acquire_overage_lock cfg now nonce org)"
  "keeps keeps_world (warm_sub_cache cfg now org)"
  "keeps keeps_world (sync_invoice_period cfg now sub obj)"
  "keeps keeps_world (invoice_subscription obj)"
  "keeps keeps_world (open_period now org s e)"
  unfolding acquire_overage_lock_def warm_sub_cache_def sync_invoice_period_def synced_usage_def
    invoice_subscription_def open_period_def
  by (intro keeps_rules)+

lemma world_locked [keeps_rules]:
  "keeps keeps_world m \<Longrightarrow> keeps keeps_world (with_overage_lock cfg now nonce org m)"
  unfolding with_overage_lock_def by (intro keeps_rules)

lemma world_close_period [keeps_rules]: "keeps keeps_world (close_period cfg now sub obj)"
  unfolding close_period_def by (intro keeps_rules)

lemma world_finalize [keeps_rules]: "keeps keeps_world (finalize_overages cfg api now nonce sub)"
  unfolding finalize_overages_def by (intro keeps_rules)

lemma world_handlers [keeps_rules]:
  "keeps keeps_world (handle_checkout_completed cfg api now co)"
  "keeps keeps_world (handle_invoice_created cfg api now nonce io)"
  "keeps keeps_world (handle_invoice_paid cfg api now nonce io)"
  "keeps keeps_world (handle_invoice_payment_failed cfg now io)"
  "keeps keeps_world (handle_subscription_updated cfg now so)"
  "keeps keeps_world (handle_subscription_deleted cfg api now nonce so)"
  unfolding handle_checkout_completed_def handle_invoice_created_def handle_invoice_paid_def
    handle_invoice_payment_failed_def handle_subscription_updated_def handle_subscription_deleted_def
  by (intro keeps_rules)+

section \<open>A handler that fails commits nothing\<close>

definition same_committed :: "'s bworld \<Rightarrow> 's bworld \<Rightarrow> bool" where
  "same_committed w w' \<longleftrightarrow> committed w' = committed w"

interpretation uncommitted: exec_preorder same_committed
  by unfold_locales (auto simp: same_committed_def)

definition atomic :: "('e, 's bworld, 'a) exec \<Rightarrow> bool" where
  "atomic m \<longleftrightarrow> (\<forall>w e w'. m w = (Inl e, w') \<longrightarrow> committed w' = committed w)"

definition never_raises :: "('e, 's, 'a) exec \<Rightarrow> bool" where
  "never_raises m \<longleftrightarrow> (\<forall>w. \<exists>x w'. m w = (Inr x, w'))"

lemma uncommitted_basic [keeps_rules]:
  "keeps same_committed (in_db m)" "keeps same_committed (modify_db f)" "keeps same_committed (in_env k)"
  "keeps same_committed (in_redis h)" "keeps same_committed (modify_redis g)"
  by (auto simp: keeps_def same_committed_def in_db_def modify_db_def in_env_def in_redis_def modify_redis_def split: prod.splits)

lemma uncommitted_sync [keeps_rules]: "keeps same_committed (sync_to_database now org ps pe)"
  unfolding sync_to_database_def sync_period_def by (cases ps; cases pe) (simp_all, (intro keeps_rules)+)

lemma uncommitted_service [keeps_rules]:
  "keeps same_committed (acquire_overage_lock cfg now nonce org)"
  "keeps same_committed (invoice_subscription obj)"
  "keeps same_committed (close_period cfg now sub obj)"
  unfolding acquire_overage_lock_def invoice_subscription_def close_period_def sync_invoice_period_def synced_usage_def
  by (intro keeps_rules)+

lemma atomicI: "keeps same_committed m \<Longrightarrow> atomic m"
  by (auto simp: atomic_def same_committed_def dest: keepsD2)

lemma atomic_bind: "keeps same_committed m \<Longrightarrow> (\<And>x. atomic (f x)) \<Longrightarrow> atomic (bindE m f)"
  by (auto simp: atomic_def bindE_Inl_iff) (metis keepsD2 same_committed_def)+

lemma atomic_bind_total: "atomic m \<Longrightarrow> (\<And>x. never_raises (f x)) \<Longrightarrow> atomic (bindE m f)"
  by (auto simp: atomic_def bindE_Inl_iff never_raises_def) (metis Inl_Inr_False prod.inject)

lemma commit_never_raises: "never_raises commit"
  by (simp add: never_raises_def commit_def)

lemma warm_never_raises: "never_raises (warm_sub_cache cfg now org)"
  by (auto simp: never_raises_def warm_sub_cache_def in_db_def modify_redis_def bindE_def catchE_def
      split: prod.splits sum.splits option.splits)

lemma atomic_open_period: "atomic (open_period now org s e)"
  unfolding open_period_def
  by (intro atomic_bind keeps_rules atomic_bind_total[OF atomicI] commit_never_raises)

text \<open>
  Only the release of the lock may fail after the commit. \<open>atomic_but f m m'\<close>: when \<open>m\<close> raises, it has
  committed nothing, or it raises the failure \<open>f\<close> and has committed what \<open>m'\<close> commits in a successful run.
\<close>

definition atomic_but :: "'e option \<Rightarrow> ('e, 's bworld, 'a) exec \<Rightarrow> ('e, 's bworld, 'a) exec \<Rightarrow> bool" where
  "atomic_but f m m' \<longleftrightarrow> (\<forall>w e v. m w = (Inl e, v) \<longrightarrow>
     committed v = committed w \<or> (f = Some e \<and> (\<exists>x u. m' w = (Inr x, u) \<and> committed u = committed v)))"

lemma atomic_butI: "atomic m \<Longrightarrow> atomic_but f m m'"
  by (auto simp: atomic_def atomic_but_def)

lemma atomic_but_leaf: "atomic_but f (ret x) m'" "atomic_but f (raise e) m'"
  by (simp_all add: atomic_but_def)

lemma atomic_but_bind:
  assumes "keeps same_committed m" "\<And>x. atomic_but f (k x) (k' x)"
  shows "atomic_but f (bindE m k) (bindE m k')"
  unfolding atomic_but_def bindE_Inl_iff
proof (intro allI impI)
  fix w e v assume "m w = (Inl e, v) \<or> (\<exists>x t. m w = (Inr x, t) \<and> k x t = (Inl e, v))"
  then show "committed v = committed w \<or> (f = Some e \<and> (\<exists>x u. bindE m k' w = (Inr x, u) \<and> committed u = committed v))"
  proof (elim disjE exE conjE)
    assume "m w = (Inl e, v)"
    from keepsD2[OF assms(1) this] show ?thesis by (simp add: same_committed_def)
  next
    fix x t assume t: "m w = (Inr x, t)" "k x t = (Inl e, v)"
    from keepsD2[OF assms(1) t(1)] t(2) assms(2)[of x] show ?thesis
      unfolding atomic_but_def bindE_Inr_iff same_committed_def using t(1) by metis
  qed
qed

lemma atomic_but_total:
  assumes "atomic_but f m m'" "\<And>x. never_raises (k x)" "\<And>x. keeps same_committed (k x)"
  shows "atomic_but f (bindE m k) (bindE m' k)"
  unfolding atomic_but_def bindE_Inl_iff
proof (intro allI impI)
  fix w e v assume "m w = (Inl e, v) \<or> (\<exists>x t. m w = (Inr x, t) \<and> k x t = (Inl e, v))"
  then have m: "m w = (Inl e, v)" using assms(2) by (auto simp: never_raises_def) (metis Inl_Inr_False prod.inject)
  show "committed v = committed w \<or> (f = Some e \<and> (\<exists>x u. bindE m' k w = (Inr x, u) \<and> committed u = committed v))"
  proof (cases "committed v = committed w")
    case False
    with assms(1) m obtain x u where u: "f = Some e" "m' w = (Inr x, u)" "committed u = committed v"
      unfolding atomic_but_def by metis
    moreover obtain y u' where "k x u = (Inr y, u')" using assms(2)[of x] unfolding never_raises_def by blast
    moreover from keepsD2[OF assms(3) this] have "committed u' = committed u" by (simp add: same_committed_def)
    ultimately show ?thesis unfolding bindE_Inr_iff by metis
  qed simp
qed

lemma atomic_but_locked:
  fixes m :: "(error, 's bworld, unit) exec"
  assumes "atomic m" "has_redis cfg' = has_redis cfg" "release_failure cfg' nonce = None"
  shows "atomic_but (release_failure cfg nonce) (with_overage_lock cfg now nonce org m) (with_overage_lock cfg' now nonce org m)"
proof -
  have "atomic_but (release_failure cfg nonce) (finallyE m (release_overage_lock cfg now nonce org)) (finallyE m (release_overage_lock cfg' now nonce org))"
    using assms by (auto simp: atomic_but_def atomic_def finallyE_def release_overage_lock_def modify_redis_def
        split: prod.splits sum.splits if_splits option.splits) (metis (full_types) sumE old.unit.exhaust)
  moreover have "acquire_overage_lock cfg' now nonce org = (acquire_overage_lock cfg now nonce org :: (error, 's bworld, bool) exec)"
    using assms(2) by (simp add: acquire_overage_lock_def)
  ultimately show ?thesis unfolding with_overage_lock_def
    by (auto intro!: atomic_but_bind keeps_rules atomic_but_leaf)
qed

lemma uncommitted_warm [keeps_rules]: "keeps same_committed (warm_sub_cache cfg now org)"
  unfolding warm_sub_cache_def by (intro keeps_rules)

lemma other_release_same:
  "close_period (cfg\<lparr>release_failure := g\<rparr>) = close_period cfg" "warm_sub_cache (cfg\<lparr>release_failure := g\<rparr>) = warm_sub_cache cfg"
proof -
  have "has_redis (cfg\<lparr>release_failure := g\<rparr>) = has_redis cfg" by simp
  then show "close_period (cfg\<lparr>release_failure := g\<rparr>) = close_period cfg" "warm_sub_cache (cfg\<lparr>release_failure := g\<rparr>) = warm_sub_cache cfg"
    unfolding fun_eq_iff close_period_def sync_invoice_period_def synced_usage_def warm_sub_cache_def by (simp_all only: simp_thms)
qed

lemma invoice_paid_atomic_but:
  "atomic_but (release_failure cfg nonce) (handle_invoice_paid cfg api now nonce obj)
     (handle_invoice_paid (cfg\<lparr>release_failure := \<lambda>_. None\<rparr>) api now nonce obj)"
proof -
  let ?cfg = "cfg\<lparr>release_failure := \<lambda>_. None\<rparr>"
  have body: "atomic_but (release_failure cfg nonce)
      (bindE (if b then with_overage_lock cfg now nonce org (bindE (close_period cfg now sub obj) (\<lambda>_. open_period now org s e))
        else open_period now org s e) (\<lambda>_. warm_sub_cache cfg now org))
      (bindE (if b then with_overage_lock ?cfg now nonce org (bindE (close_period cfg now sub obj) (\<lambda>_. open_period now org s e))
        else open_period now org s e) (\<lambda>_. warm_sub_cache cfg now org))" for b org sub s e
    by (intro atomic_but_total warm_never_raises uncommitted_warm)
      (cases b; simp only: if_True if_False; intro atomic_but_locked atomic_butI atomic_bind keeps_rules atomic_open_period; simp)
  show ?thesis unfolding handle_invoice_paid_def other_release_same
    by (intro atomic_but_bind keeps_rules)
      (auto intro!: atomic_but_leaf body atomic_but_bind keeps_rules split: option.splits prod.splits)
qed

section \<open>Periods move forward\<close>

definition sub_forward :: "subscription \<Rightarrow> subscription \<Rightarrow> bool" where
  "sub_forward s s' \<longleftrightarrow> sub_org_id s' = sub_org_id s \<and> sub_period_start s \<le> sub_period_start s' \<and> sub_period_end s \<le> sub_period_end s'"

definition periods_forward :: "billing_db \<Rightarrow> billing_db \<Rightarrow> bool" where
  "periods_forward d d' \<longleftrightarrow> list_all2 sub_forward (subs d) (subs d')"

lemma sub_forward_refl [simp]: "sub_forward s s"
  by (simp add: sub_forward_def)

interpretation forward_db: exec_preorder periods_forward
proof unfold_locales
  show "periods_forward d d" for d by (simp add: periods_forward_def list_all2_refl)
  show "periods_forward d d''" if "periods_forward d d'" "periods_forward d' d''" for d d' d''
    using that unfolding periods_forward_def
    by (rule list_all2_trans[rotated]) (auto simp: sub_forward_def)
qed

text \<open>On worlds, for the session's view and for what is committed.\<close>

definition world_forward :: "'s bworld \<Rightarrow> 's bworld \<Rightarrow> bool" where
  "world_forward w w' \<longleftrightarrow> (periods_forward (committed w) (db w) \<longrightarrow>
     periods_forward (committed w) (committed w') \<and> periods_forward (committed w') (db w'))"

interpretation forward: exec_preorder world_forward
  by unfold_locales (auto simp: world_forward_def intro: forward_db.rel_refl forward_db.rel_trans)

lemma forward_same_subs: "subs d' = subs d \<Longrightarrow> periods_forward d d'"
  by (simp add: periods_forward_def list_all2_refl)

lemma forward_update_where:
  "(\<And>s. P s \<Longrightarrow> sub_forward s (f s)) \<Longrightarrow> list_all2 sub_forward rows (update_where P f rows)"
  by (induction rows) auto

lemma forward_advance_db: "periods_forward d (advance_period now org s e d)"
  by (auto simp: periods_forward_def advance_period_def sub_forward_def intro!: forward_update_where)

lemma forward_in_db [keeps_rules]: "keeps periods_forward m \<Longrightarrow> keeps world_forward (in_db m)"
  by (auto simp: keeps_def world_forward_def in_db_def intro: forward_db.rel_refl forward_db.rel_trans split: prod.splits)
     (metis forward_db.rel_trans snd_conv)

lemma forward_modify_db: "(\<And>d. periods_forward d (f d)) \<Longrightarrow> keeps world_forward (modify_db f)"
  by (auto simp: keeps_def world_forward_def modify_db_def intro: forward_db.rel_refl forward_db.rel_trans)

lemma forward_other [keeps_rules]:
  "keeps world_forward (in_env m)" "keeps world_forward (in_redis h)" "keeps world_forward (modify_redis k)"
  "keeps world_forward commit" "keeps world_forward rollback"
  by (auto simp: keeps_def world_forward_def in_env_def in_redis_def modify_redis_def commit_def rollback_def
      intro: forward_db.rel_refl split: prod.splits)

lemma forward_read: "(\<And>d. subs (snd (m d)) = subs d) \<Longrightarrow> keeps periods_forward m"
  by (rule keepsI) (simp add: forward_same_subs)

lemma forward_repo [keeps_rules]:
  "keeps periods_forward (get_subscription_by_org org)" "keeps periods_forward (get_subscription_by_stripe_subscription i)"
  "keeps periods_forward (get_current_usage_record org s)" "keeps periods_forward (create_usage_record now org s e)"
  "keeps periods_forward (lock_report j)" "keeps periods_forward (finish_report now r)"
  "keeps periods_forward (create_report row)"
  by (rule forward_read;
      auto simp: get_subscription_by_org_def get_subscription_by_stripe_subscription_def get_current_usage_record_def
        create_usage_record_def lock_report_def finish_report_def create_report_def update_report_def Let_def
        split: list.splits)+

lemma forward_get_or_create [keeps_rules]: "keeps periods_forward (get_or_create_usage_record now org s e)"
  unfolding get_or_create_usage_record_def by (intro keeps_rules)

lemma forward_upsert [keeps_rules]: "keeps periods_forward (upsert_usage_counters now org s e t te se)"
  unfolding upsert_usage_counters_def
  by (intro keeps_rules forward_db.keeps_modify) (simp add: forward_same_subs)

lemma forward_stage [keeps_rules]: "keeps periods_forward (stage now sub ps invoice clo allow)"
  unfolding stage_def insert_report_def lock_usage_def
  by (intro keeps_rules forward_db.keeps_modify) (simp_all add: forward_same_subs)

text \<open>Updating fields other than the period, of one organization.\<close>

lemma forward_update_subscription:
  assumes "\<And>s. sub_forward s (f s)"
  shows "keeps periods_forward (update_subscription now org f)"
proof (rule keepsI)
  fix d :: billing_db
  have "sub_forward s (touch_sub now f s)" for s
    using assms[of s] by (simp add: touch_sub_def sub_forward_def)
  then have up: "list_all2 sub_forward (subs d) (update_where P (touch_sub now f) (subs d))" for P
    by (intro forward_update_where)
  show "periods_forward d (snd (update_subscription now org f d))"
    using up by (auto simp: update_subscription_def get_subscription_by_org_def flush_subs_def bindE_def periods_forward_def
        list_all2_refl split: sum.splits option.splits prod.splits)
qed

lemma forward_updates [keeps_rules]:
  "keeps periods_forward (update_subscription now org (\<lambda>s. s\<lparr>sub_status := st\<rparr>))"
  "keeps periods_forward (update_subscription now org (\<lambda>s. s\<lparr>sub_status := st, sub_plan := p s, sub_canceled_at := t\<rparr>))"
  by (rule forward_update_subscription; simp add: sub_forward_def)+

lemma forward_modifies [keeps_rules]:
  "keeps world_forward (modify_db (advance_period now org s e))"
  "keeps world_forward (modify_db (mark_billed now org s i))"
  "keeps world_forward (modify_db (update_report now j f))"
  by (intro forward_modify_db forward_advance_db; simp add: mark_billed_def update_report_def forward_same_subs)+

lemma forward_deliver_parts [keeps_rules]:
  "keeps world_forward (utcnow api)" "keeps world_forward (review now r reason)"
  "keeps world_forward (first_attempt api now r c rq)"
  "keeps world_forward (find_existing api r c rq a)"
  "keeps world_forward (record_item now j c res)"
  unfolding utcnow_def review_def first_attempt_def destination_def collectable_def find_existing_def record_item_def
  by (intro keeps_rules)+

lemma forward_send [keeps_rules]:
  "keeps world_forward (send_request api now r c rq)"
  unfolding send_request_def
  by (intro keeps_rules) (auto split: error.splits option.splits intro!: keeps_rules)

lemma forward_recover [keeps_rules]: "keeps world_forward (recover_request api now r c rq a)"
  unfolding recover_request_def by (intro keeps_rules)

lemma forward_iter [keeps_rules]: "keeps world_forward (deliver_iter api i)"
  unfolding deliver_iter_def by (intro keeps_rules)

lemma forward_loop [keeps_rules]: "keeps world_forward (deliver_loop fuel api i)"
proof (induction fuel)
  case (Suc fuel)
  have "keeps world_forward (case ctl of Return b \<Rightarrow> ret (Some b) | Continue \<Rightarrow> deliver_loop fuel api i)" for ctl
    using Suc by (cases ctl) (auto intro: keeps_rules)
  then show ?case by (simp add: forward.keeps_bind forward_iter)
qed (simp only: deliver_loop.simps forward.keeps_ret)

lemma forward_deliver_safely [keeps_rules]: "keeps world_forward (deliver_safely api i)"
  unfolding deliver_safely_def deliver_def by (intro keeps_rules)

lemma forward_report_overages [keeps_rules]: "keeps world_forward (report_overages_to_stripe api now org ps invoice)"
  unfolding report_overages_to_stripe_def by (intro keeps_rules)

lemma forward_sync [keeps_rules]: "keeps world_forward (sync_to_database now org ps pe)"
  unfolding sync_to_database_def sync_period_def by (cases ps; cases pe) (simp_all, (intro keeps_rules)+)

lemma forward_release [keeps_rules]: "keeps world_forward (release_overage_lock cfg now nonce org)"
  unfolding release_overage_lock_def by (intro keeps_rules)

lemma forward_sync_invoice [keeps_rules]: "keeps world_forward (sync_invoice_period cfg now sub obj)"
  unfolding sync_invoice_period_def synced_usage_def by (intro keeps_rules)

lemma forward_service [keeps_rules]:
  "keeps world_forward (acquire_overage_lock cfg now nonce org)" "keeps world_forward (warm_sub_cache cfg now org)"
  "keeps world_forward (invoice_subscription obj)" "keeps world_forward (close_period cfg now sub obj)"
  unfolding acquire_overage_lock_def warm_sub_cache_def invoice_subscription_def close_period_def
  by (intro keeps_rules)+

lemma forward_open_period [keeps_rules]: "keeps world_forward (open_period now org s e)"
  unfolding open_period_def by (intro keeps_rules)

lemma forward_locked [keeps_rules]:
  "keeps world_forward m \<Longrightarrow> keeps world_forward (with_overage_lock cfg now nonce org m)"
  unfolding with_overage_lock_def by (intro keeps_rules)

lemma forward_handlers:
  "keeps world_forward (handle_invoice_created cfg api now nonce io)"
  "keeps world_forward (handle_invoice_paid cfg api now nonce io)"
  "keeps world_forward (handle_invoice_payment_failed cfg now io)"
  "keeps world_forward (handle_subscription_updated cfg now so)"
  unfolding handle_invoice_created_def handle_invoice_paid_def
    handle_invoice_payment_failed_def handle_subscription_updated_def
  by (intro keeps_rules)+

section \<open>Usage history\<close>

text \<open>Existing usage records and reports stay as they are; at most new records are added.\<close>

definition history_kept :: "'s bworld \<Rightarrow> 's bworld \<Rightarrow> bool" where
  "history_kept w w' \<longleftrightarrow> set (usages (db w)) \<subseteq> set (usages (db w')) \<and> reports (db w') = reports (db w)"

interpretation history: exec_preorder history_kept
  by unfold_locales (auto simp: history_kept_def)

lemma history_in_db:
  assumes "\<And>d. set (usages d) \<subseteq> set (usages (snd (m d))) \<and> reports (snd (m d)) = reports d"
  shows "keeps history_kept (in_db m)"
  using assms by (auto simp: keeps_def history_kept_def in_db_def split: prod.splits) (metis snd_conv subsetD)+

lemma history_repo [keeps_rules]:
  "keeps history_kept (in_db (get_subscription_by_stripe_subscription i))"
  "keeps history_kept (in_db (get_subscription_by_org org))"
  "keeps history_kept (in_db (get_or_create_usage_record now org s e))"
  "keeps history_kept (in_db (update_subscription now org f))"
  by (rule history_in_db;
      auto simp: get_subscription_by_stripe_subscription_def get_subscription_by_org_def get_or_create_usage_record_def
        get_current_usage_record_def create_usage_record_def update_subscription_def flush_subs_def bindE_def Let_def
        split: sum.splits option.splits)+

lemma history_other [keeps_rules]:
  "keeps history_kept (in_env k)" "keeps history_kept (modify_redis g)" "keeps history_kept commit"
  "keeps history_kept (modify_db (advance_period now org s e))"
  by (auto simp: keeps_def history_kept_def in_env_def modify_redis_def commit_def modify_db_def advance_period_def
      split: prod.splits)

lemma history_open_period [keeps_rules]: "keeps history_kept (open_period now org s e)"
  unfolding open_period_def by (intro keeps_rules)

lemma history_warm [keeps_rules]: "keeps history_kept (warm_sub_cache cfg now org)"
  unfolding warm_sub_cache_def by (intro keeps_rules)

lemma history_invoice_subscription [keeps_rules]: "keeps history_kept (invoice_subscription obj)"
  unfolding invoice_subscription_def by (intro keeps_rules)

section \<open>Properties\<close>

definition demo_paid_sub :: subscription where
  "demo_paid_sub = demo_sub\<lparr>sub_stripe_id := Some ''sub_1''\<rparr>"

definition demo_paid_world :: "unit bworld" where
  "demo_paid_world = \<lparr>committed = demo_db\<lparr>subs := [demo_paid_sub]\<rparr>, db = demo_db\<lparr>subs := [demo_paid_sub]\<rparr>,
     redis = Map.empty, env = ()\<rparr>"

definition demo_cfg :: billing_config where
  "demo_cfg = \<lparr>has_redis = True, stripe_secret_key = ''sk'', stripe_pro_price_id = ''p1'', stripe_startup_price_id = ''p2'', release_failure = (\<lambda>_. None)\<rparr>"

definition demo_api :: "unit stripe_api" where
  "demo_api = \<lparr>api_now = (\<lambda>s. (0, s)), api_invoice_status = (\<lambda>i s. (Inr ''draft'', s)),
     api_item_create = (\<lambda>rq s. (Inl (StripeFailure ''down''), s)), api_item_list = (\<lambda>c g s. (Inr [], s)),
     api_sub_items = (\<lambda>i s. (Inr [\<lparr>si_price_id = None, si_period_start = Some 2592000, si_period_end = Some 5184000\<rparr>], s))\<rparr>"

definition demo_invoice :: "string \<Rightarrow> invoice_object" where
  "demo_invoice reason = \<lparr>inv_id = ''in_1'', inv_parent_subscription = Some (SubId ''sub_1''), inv_subscription = None,
     inv_billing_reason = Some reason, inv_period_start = Some 1, inv_period_end = Some 2592000\<rparr>"

lemma demo_paid_world_inv: "world_inv demo_paid_world"
  using billing_inv_subs[OF demo_db_inv, of "[demo_paid_sub]"]
  by (simp add: world_inv_def demo_paid_world_def unique_subs_def)

text \<open>
  Every webhook handler keeps the invariant of the billing tables, committed and
  uncommitted, whatever object the event carries and whether it returns or raises.
\<close>

theorem handlers_keep_invariant:
  fixes w :: "'s bworld"
  assumes "world_inv w"
  shows "world_inv (snd (handle_checkout_completed cfg api now co w)) \<and> world_inv (snd (handle_invoice_created cfg api now nonce io w))
    \<and> world_inv (snd (handle_invoice_paid cfg api now nonce io w)) \<and> world_inv (snd (handle_invoice_payment_failed cfg now io w))
    \<and> world_inv (snd (handle_subscription_updated cfg now so w)) \<and> world_inv (snd (handle_subscription_deleted cfg api now nonce so w))"
proof -
  have inv: "world_inv (snd (m w))" if "keeps keeps_world m" for m :: "(error, 's bworld, unit) exec"
    using keepsD[OF that, of w] assms by (simp add: keeps_world_def)
  show ?thesis by (intro conjI inv world_handlers)
qed

theorem handlers_keep_invariant_witness:
  "world_inv (snd (handle_invoice_paid demo_cfg demo_api 0 3 (demo_invoice ''subscription_cycle'') demo_paid_world))"
  using handlers_keep_invariant[OF demo_paid_world_inv] by blast

text \<open>
  C29: Closing a period is atomic. When \<open>invoice.paid\<close> fails, the committed tables are exactly those
  before the event, so the retry finds the period still open and nothing half reserved; or the failure
  is that of Redis on releasing the overage lock after the commit, and then the committed tables are
  those of a run in which the release works, with the whole renewal done. Nothing in between is ever
  committed.
\<close>

theorem invoice_paid_atomic:
  assumes "handle_invoice_paid cfg api now nonce obj w = (Inl e, w')"
  shows "committed w' = committed w
    \<or> (release_failure cfg nonce = Some e
        \<and> (\<exists>v. handle_invoice_paid (cfg\<lparr>release_failure := \<lambda>_. None\<rparr>) api now nonce obj w = (Inr (), v) \<and> committed w' = committed v))"
  using invoice_paid_atomic_but[of cfg nonce api now obj] assms unfolding atomic_but_def by (metis (full_types) old.unit.exhaust)

theorem invoice_paid_atomic_witness:
  "fst (handle_invoice_paid demo_cfg demo_api 0 3 (demo_invoice ''subscription_cycle'') demo_paid_world) =
     Inl (PandaProbeError ''Invoice usage history is missing; reconciliation required.'') \<and>
   committed (snd (handle_invoice_paid demo_cfg demo_api 0 3 (demo_invoice ''subscription_cycle'') demo_paid_world)) =
     committed demo_paid_world"
proof -
  let ?run = "handle_invoice_paid demo_cfg demo_api 0 3 (demo_invoice ''subscription_cycle'') demo_paid_world"
  have fail: "fst ?run = Inl (PandaProbeError ''Invoice usage history is missing; reconciliation required.'')" by code_simp
  then have "?run = (Inl (PandaProbeError ''Invoice usage history is missing; reconciliation required.''), snd ?run)"
    by (metis prod.collapse)
  from fail invoice_paid_atomic[OF this] show ?thesis by (simp add: demo_cfg_def)
qed

text \<open>The events of a running subscription, and their handlers one after another, each in a session of its own.\<close>

definition period_events :: "billing_config \<Rightarrow> 's stripe_api \<Rightarrow> (error, 's bworld, unit) exec set" where
  "period_events cfg api = (\<Union>now nonce io so.
     {handle_invoice_created cfg api now nonce io, handle_invoice_paid cfg api now nonce io,
      handle_invoice_payment_failed cfg now io, handle_subscription_updated cfg now so})"

definition handle_all :: "(error, 's bworld, unit) exec list \<Rightarrow> 's bworld \<Rightarrow> 's bworld" where
  "handle_all ms = fold (\<lambda>m w. snd (m (w\<lparr>db := committed w\<rparr>))) ms"

lemma handle_all_forward:
  "set ms \<subseteq> period_events cfg api \<Longrightarrow> periods_forward (committed w) (committed (handle_all ms w))"
proof (induction ms arbitrary: w)
  case (Cons m ms)
  have "keeps world_forward m" using Cons.prems forward_handlers by (auto simp: period_events_def)
  from keepsD[OF this, of "w\<lparr>db := committed w\<rparr>"]
  have "periods_forward (committed w) (committed (snd (m (w\<lparr>db := committed w\<rparr>))))"
    by (simp add: world_forward_def forward_db.rel_refl)
  with Cons show ?case by (auto simp: handle_all_def intro: forward_db.rel_trans)
qed (simp add: handle_all_def forward_db.rel_refl)

text \<open>
  C30: The billing period of a subscription never moves backwards while it runs: whatever sequence of
  the events \<open>invoice.created\<close>, \<open>invoice.paid\<close>, \<open>invoice.payment_failed\<close> and
  \<open>customer.subscription.updated\<close> arrives, in whatever order, late or repeated, and whether their handlers
  return or raise, each subscription row stays the organization's and its committed period start and end
  are at least what they were. A completed checkout and the deletion of a subscription are not among these
  events: they start a new period.
\<close>

theorem events_move_periods_forward:
  assumes "set ms \<subseteq> period_events cfg api"
  shows "list_all2 sub_forward (subs (committed w)) (subs (committed (handle_all ms w)))"
  using handle_all_forward[OF assms] by (simp add: periods_forward_def)

theorem events_move_periods_forward_witness:
  "let w = handle_all [handle_invoice_paid demo_cfg demo_api 0 3 (demo_invoice ''subscription_create''),
       handle_subscription_updated demo_cfg 5 \<lparr>so_id = ''sub_1'', so_status = None,
         so_items = [\<lparr>si_price_id = None, si_period_start = Some 1, si_period_end = Some 2\<rparr>], so_canceled_at = None\<rparr>] demo_paid_world
   in list_all2 sub_forward (subs (committed demo_paid_world)) (subs (committed w)) \<and> map sub_period_start (subs (committed w)) = [2592000000000]"
proof -
  let ?late = "\<lparr>so_id = ''sub_1'', so_status = None,
         so_items = [\<lparr>si_price_id = None, si_period_start = Some 1, si_period_end = Some 2\<rparr>], so_canceled_at = None\<rparr>"
  let ?ms = "[handle_invoice_paid demo_cfg demo_api 0 3 (demo_invoice ''subscription_create''), handle_subscription_updated demo_cfg 5 ?late]"
  have "set ?ms \<subseteq> period_events demo_cfg demo_api" by (auto simp: period_events_def)
  then have "list_all2 sub_forward (subs (committed demo_paid_world)) (subs (committed (handle_all ?ms demo_paid_world)))"
    by (rule events_move_periods_forward)
  moreover have "map sub_period_start (subs (committed (handle_all ?ms demo_paid_world))) = [2592000000000]" by code_simp
  ultimately show ?thesis by (simp only: Let_def simp_thms)
qed

text \<open>
  Only a renewal closes a period: a paid invoice with any other billing reason leaves
  every usage record and every report as it was, so no overage of an open month is cut off.
\<close>

theorem only_renewal_closes_period:
  assumes "inv_billing_reason obj \<noteq> Some RENEWAL_BILLING_REASON"
  shows "set (usages (db w)) \<subseteq> set (usages (db (snd (handle_invoice_paid cfg api now nonce obj w))))
    \<and> reports (db (snd (handle_invoice_paid cfg api now nonce obj w))) = reports (db w)"
proof -
  have "keeps history_kept (handle_invoice_paid cfg api now nonce obj)"
    unfolding handle_invoice_paid_def using assms by (simp only: if_False) (intro keeps_rules)
  from keepsD[OF this, of w] show ?thesis by (simp add: history_kept_def)
qed

theorem only_renewal_closes_period_witness:
  "set (usages (db demo_paid_world)) \<subseteq>
     set (usages (db (snd (handle_invoice_paid demo_cfg demo_api 0 3 (demo_invoice ''subscription_create'') demo_paid_world)))) \<and>
   map ur_billed (usages (db (snd (handle_invoice_paid demo_cfg demo_api 0 3 (demo_invoice ''subscription_create'') demo_paid_world))))
     = [False, False]"
proof -
  have "inv_billing_reason (demo_invoice ''subscription_create'') \<noteq> Some RENEWAL_BILLING_REASON" by code_simp
  note kept = only_renewal_closes_period[OF this, THEN conjunct1]
  show ?thesis by (rule conjI[OF kept]) code_simp
qed

definition demo_busy_world :: "unit bworld" where
  "demo_busy_world = demo_paid_world\<lparr>redis := [OverageLockKey 1 \<mapsto> (RLock (Token 99), Some (seconds 300))]\<rparr>"

text \<open>
  A cancellation that finds the overage lock held by another worker still succeeds: it
  closes the usage record, here with 250 traces above the included 5000, without reserving
  the overage. Nothing reserves it later, for the record is closed and has no closing report.
\<close>

theorem cancellation_with_busy_lock:
  "let run = handle_subscription_deleted demo_cfg demo_api 1 3
       \<lparr>so_id = ''sub_1'', so_status = None, so_items = [], so_canceled_at = None\<rparr> demo_busy_world
   in fst run = Inr () \<and> reports (committed (snd run)) = [] \<and>
      map (\<lambda>u. (trace_count u, ur_billed u)) (usages (committed (snd run))) = [(5250, True), (0, False)] \<and>
      recent_closures 0 (committed (snd run)) = [] \<and>
      fst (stage 2 demo_paid_sub 0 None None False (committed (snd run))) = Inr None"
  by code_simp

end
