(* ===== verification/Webhooks.thy ===== *)
theory Webhooks
  imports BillingHandlers
begin

text \<open>
  \<open>api/v1/routes/webhooks.py\<close>: receiving a Stripe event, its deduplication in Redis and the
  dispatch to the billing handlers. The signature check is Stripe's own code; its outcome is
  the argument. The body of a response is the record of its status code and detail. A request
  has two instants: \<open>now\<close>, when it claims the event and runs the handler, and \<open>fin\<close>, when the handler
  has ended and the claim is completed or released; by then the claim may have expired.
\<close>

datatype stripe_event =
    CheckoutCompleted checkout_object
  | InvoiceCreated invoice_object
  | InvoicePaid invoice_object
  | InvoicePaymentFailed invoice_object
  | SubscriptionUpdated subscription_object
  | SubscriptionDeleted subscription_object
  | UnhandledEvent string

datatype verification = InvalidPayload | InvalidSignature | Verified string stripe_event

datatype webhook_response = Received | BadRequest string

fun response_status :: "webhook_response \<Rightarrow> int" where
  "response_status Received = 200"
| "response_status (BadRequest _) = 400"

definition IDEMPOTENCY_TTL :: int where "IDEMPOTENCY_TTL = 259200"
definition PROCESSING_LOCK_TTL :: int where "PROCESSING_LOCK_TTL = 300"

fun handled_event :: "stripe_event \<Rightarrow> bool" where
  "handled_event (UnhandledEvent _) = False"
| "handled_event _ = True"

text \<open>\<open>async with async_session_factory() as session\<close>: closing discards what was not committed.\<close>

definition in_session :: "(error, 's bworld, 'a) exec \<Rightarrow> (error, 's bworld, 'a) exec" where
  "in_session m = (\<lambda>w. case m (w\<lparr>db := committed w\<rparr>) of (x, w') \<Rightarrow> (x, w'\<lparr>db := committed w'\<rparr>))"

definition dispatch_event ::
    "billing_config \<Rightarrow> 's stripe_api \<Rightarrow> datetime \<Rightarrow> uuid \<Rightarrow> stripe_event \<Rightarrow> (error, 's bworld, unit) exec" where
  "dispatch_event cfg api now nonce ev = (case ev of
       CheckoutCompleted obj \<Rightarrow> handle_checkout_completed cfg api now obj
     | InvoiceCreated obj \<Rightarrow> handle_invoice_created cfg api now nonce obj
     | InvoicePaid obj \<Rightarrow> handle_invoice_paid cfg api now nonce obj
     | InvoicePaymentFailed obj \<Rightarrow> handle_invoice_payment_failed cfg now obj
     | SubscriptionUpdated obj \<Rightarrow> handle_subscription_updated cfg now obj
     | SubscriptionDeleted obj \<Rightarrow> handle_subscription_deleted cfg api now nonce obj
     | UnhandledEvent _ \<Rightarrow> ret ())"

definition process_event ::
    "billing_config \<Rightarrow> 's stripe_api \<Rightarrow> datetime \<Rightarrow> datetime \<Rightarrow> uuid \<Rightarrow> string \<Rightarrow> stripe_event \<Rightarrow> (error, 's bworld, unit) exec" where
  "process_event cfg api now fin nonce event_id ev =
     catchE
       (in_session (bindE (liftE (ensure_stripe_configured False cfg)) (\<lambda>_. dispatch_event cfg api now nonce ev)))
       (\<lambda>exc. bindE (modify_redis (release_owned_lock fin (StripeEventKey event_id) (Token nonce))) (\<lambda>_. raise exc))"

text \<open>A claim that was lost meanwhile, where \<open>complete_owned_lock\<close> answers no, is only logged.\<close>

definition stripe_webhook ::
    "billing_config \<Rightarrow> 's stripe_api \<Rightarrow> datetime \<Rightarrow> datetime \<Rightarrow> uuid \<Rightarrow> verification \<Rightarrow> (error, 's bworld, webhook_response) exec" where
  "stripe_webhook cfg api now fin nonce v = (case v of
       InvalidPayload \<Rightarrow> ret (BadRequest ''Invalid payload'')
     | InvalidSignature \<Rightarrow> ret (BadRequest ''Invalid signature'')
     | Verified event_id ev \<Rightarrow>
         if \<not> handled_event ev then ret Received else
         bindE (in_redis (acquire_owned_lock now (StripeEventKey event_id) PROCESSING_LOCK_TTL (Token nonce))) (\<lambda>acquired.
         if \<not> acquired then ret Received else
         bindE (process_event cfg api now fin nonce event_id ev) (\<lambda>_.
         bindE (in_redis (complete_owned_lock fin (StripeEventKey event_id) IDEMPOTENCY_TTL (Token nonce))) (\<lambda>completed.
         ret Received))))"

section \<open>Syncing, staging and delivering do not touch Redis\<close>

definition same_redis :: "'s bworld \<Rightarrow> 's bworld \<Rightarrow> bool" where
  "same_redis w w' \<longleftrightarrow> redis w' = redis w"

interpretation redis_frame: exec_preorder same_redis
  by unfold_locales (auto simp: same_redis_def)

lemma same_redis_basic [keeps_rules]:
  "keeps same_redis (in_db m)" "keeps same_redis (modify_db f)" "keeps same_redis (in_env k)"
  "keeps same_redis commit" "keeps same_redis rollback"
  by (auto simp: keeps_def same_redis_def in_db_def modify_db_def in_env_def commit_def rollback_def split: prod.splits)

lemma same_redis_deliver [keeps_rules]: "keeps same_redis (deliver_safely api i)"
proof -
  have parts: "keeps same_redis (utcnow api)" "keeps same_redis (review now r reason)"
    "keeps same_redis (first_attempt api now r c rq)" "keeps same_redis (find_existing api r c rq a)"
    "keeps same_redis (record_item now j c res)" for now r reason c rq a j res
    unfolding utcnow_def review_def first_attempt_def destination_def collectable_def find_existing_def record_item_def
    by (intro keeps_rules)+
  have send: "keeps same_redis (send_request api now r c rq)" for now r c rq
    unfolding send_request_def
    by (intro keeps_rules) (auto split: error.splits option.splits intro!: keeps_rules)
  have iter: "keeps same_redis (deliver_iter api i)"
    unfolding deliver_iter_def recover_request_def by (intro keeps_rules parts send)
  have loop: "keeps same_redis (deliver_loop fuel api i)" for fuel
  proof (induction fuel)
    case (Suc fuel)
    have "keeps same_redis (case ctl of Return b \<Rightarrow> ret (Some b) | Continue \<Rightarrow> deliver_loop fuel api i)" for ctl
      using Suc by (cases ctl) (auto intro: keeps_rules)
    then show ?case by (simp add: redis_frame.keeps_bind iter)
  qed (simp only: deliver_loop.simps redis_frame.keeps_ret)
  show ?thesis unfolding deliver_safely_def deliver_def by (intro keeps_rules parts loop)
qed

lemma same_redis_sync [keeps_rules]: "keeps same_redis (sync_to_database now org ps pe)"
  unfolding sync_to_database_def sync_period_def by (cases ps; cases pe) (simp_all, (intro keeps_rules)+)

lemma same_redis_report [keeps_rules]: "keeps same_redis (report_overages_to_stripe api now org ps invoice)"
  unfolding report_overages_to_stripe_def by (intro keeps_rules)

section \<open>The handlers do not touch the keys of events\<close>

definition event_keys_kept :: "'s bworld \<Rightarrow> 's bworld \<Rightarrow> bool" where
  "event_keys_kept w w' \<longleftrightarrow> (\<forall>i. redis w' (StripeEventKey i) = redis w (StripeEventKey i))"

interpretation event_keys: exec_preorder event_keys_kept
  by unfold_locales (auto simp: event_keys_kept_def)

lemma event_keys_same_redis: "keeps same_redis m \<Longrightarrow> keeps event_keys_kept m"
  by (simp add: keeps_def event_keys_kept_def same_redis_def)

lemmas event_keys_basic [keeps_rules] =
  same_redis_basic[THEN event_keys_same_redis] same_redis_deliver[THEN event_keys_same_redis]
  same_redis_sync[THEN event_keys_same_redis] same_redis_report[THEN event_keys_same_redis]

lemma event_keys_redis [keeps_rules]:
  "keeps event_keys_kept (modify_redis (\<lambda>r. r_set_ex now r (SubCacheKey org) v ttl))"
  "keeps event_keys_kept (modify_redis (\<lambda>r. r_del r (SubCacheKey org)))"
  "keeps event_keys_kept (in_redis (acquire_owned_lock now (OverageLockKey org) ttl t))"
  by (auto simp: keeps_def event_keys_kept_def modify_redis_def in_redis_def r_set_ex_def r_del_def acquire_owned_lock_def
      split: prod.splits if_splits)

lemma event_keys_release [keeps_rules]: "keeps event_keys_kept (release_overage_lock cfg now nonce org)"
proof -
  have "keeps event_keys_kept (modify_redis (release_owned_lock now (OverageLockKey org) t))" for t
    by (simp add: keeps_def modify_redis_def event_keys_kept_def release_owned_lock_def r_del_def)
  then show ?thesis unfolding release_overage_lock_def by (intro keeps_rules)
qed

lemma event_keys_service [keeps_rules]:
  "keeps event_keys_kept (acquire_overage_lock cfg now nonce org)" "keeps event_keys_kept (warm_sub_cache cfg now org)"
  "keeps event_keys_kept (invoice_subscription obj)" "keeps event_keys_kept (open_period now org s e)"
  "keeps event_keys_kept (sync_invoice_period cfg now sub obj)"
  unfolding acquire_overage_lock_def warm_sub_cache_def invoice_subscription_def open_period_def
    sync_invoice_period_def synced_usage_def
  by (intro keeps_rules)+

lemma event_keys_closing [keeps_rules]:
  "keeps event_keys_kept (close_period cfg now sub obj)"
  "keeps event_keys_kept (finalize_overages cfg api now nonce sub)"
  "keeps event_keys_kept m \<Longrightarrow> keeps event_keys_kept (with_overage_lock cfg now nonce org m)"
  unfolding close_period_def finalize_overages_def with_overage_lock_def
  by (intro keeps_rules)+

lemma event_keys_dispatch [keeps_rules]: "keeps event_keys_kept (dispatch_event cfg api now nonce ev)"
proof (cases ev)
  case (CheckoutCompleted obj)
  then show ?thesis unfolding dispatch_event_def handle_checkout_completed_def by (simp, intro keeps_rules)
next
  case (InvoiceCreated obj)
  then show ?thesis unfolding dispatch_event_def handle_invoice_created_def by (simp only: stripe_event.case) (intro keeps_rules)
next
  case (InvoicePaid obj)
  then show ?thesis unfolding dispatch_event_def handle_invoice_paid_def by (simp only: stripe_event.case) (intro keeps_rules)
next
  case (InvoicePaymentFailed obj)
  then show ?thesis unfolding dispatch_event_def handle_invoice_payment_failed_def by (simp, intro keeps_rules)
next
  case (SubscriptionUpdated obj)
  then show ?thesis unfolding dispatch_event_def handle_subscription_updated_def by (simp only: stripe_event.case) (intro keeps_rules)
next
  case (SubscriptionDeleted obj)
  then show ?thesis unfolding dispatch_event_def handle_subscription_deleted_def by (simp only: stripe_event.case) (intro keeps_rules)
qed (simp only: dispatch_event_def stripe_event.case event_keys.keeps_ret)

lemma in_session_event_keys:
  assumes "keeps event_keys_kept m"
  shows "keeps event_keys_kept (in_session m)"
proof (rule keepsI)
  fix w
  show "event_keys_kept w (snd (in_session m w))"
    using keepsD[OF assms, of "w\<lparr>db := committed w\<rparr>"]
    by (cases "m (w\<lparr>db := committed w\<rparr>)") (auto simp: in_session_def event_keys_kept_def split: sum.splits)
qed

lemma process_event_keys:
  assumes "process_event cfg api now fin nonce event_id ev w = (Inr u, w')"
  shows "event_keys_kept w w'"
proof -
  have "keeps event_keys_kept (in_session (bindE (liftE (ensure_stripe_configured False cfg)) (\<lambda>_. dispatch_event cfg api now nonce ev)))"
    by (intro in_session_event_keys keeps_rules)
  moreover have "in_session (bindE (liftE (ensure_stripe_configured False cfg)) (\<lambda>_. dispatch_event cfg api now nonce ev)) w = (Inr u, w')"
    using assms by (auto simp: process_event_def catchE_def modify_redis_def bindE_def split: prod.splits sum.splits)
  ultimately show ?thesis by (rule keepsD2)
qed

lemma process_event_fails:
  assumes "process_event cfg api now fin nonce event_id ev w = (Inl e, w')"
    and "redis w (StripeEventKey event_id) = Some (RLock (Token nonce), Some (now + seconds ttl))" "fin \<le> later"
  shows "r_get later (redis w') (StripeEventKey event_id) = None"
proof -
  let ?m = "in_session (bindE (liftE (ensure_stripe_configured False cfg)) (\<lambda>_. dispatch_event cfg api now nonce ev))"
  obtain e' v where m: "?m w = (Inl e', v)" and w': "w' = v\<lparr>redis := release_owned_lock fin (StripeEventKey event_id) (Token nonce) (redis v)\<rparr>"
    using assms(1) by (auto simp: process_event_def catchE_def modify_redis_def bindE_def split: prod.splits sum.splits)
  have "keeps event_keys_kept ?m" by (intro in_session_event_keys keeps_rules)
  from keepsD2[OF this m] have "redis v (StripeEventKey event_id) = Some (RLock (Token nonce), Some (now + seconds ttl))"
    using assms(2) by (simp add: event_keys_kept_def)
  then show ?thesis using assms(3) by (simp add: w' release_owned_lock_def r_get_def live_def r_del_def)
qed

lemma world_in_session: "keeps keeps_world m \<Longrightarrow> keeps keeps_world (in_session m)"
  unfolding keeps_def keeps_world_def world_inv_def in_session_def
  by (clarsimp split: prod.splits) (metis bworld.select_convs(1,2) bworld.surjective bworld.update_convs(2) snd_conv)

lemma world_dispatch [keeps_rules]: "keeps keeps_world (dispatch_event cfg api now nonce ev)"
  by (cases ev) (simp_all only: dispatch_event_def stripe_event.case world_handlers inv_world.keeps_ret)

lemma world_webhook: "keeps keeps_world (stripe_webhook cfg api now fin nonce v)"
  unfolding stripe_webhook_def process_event_def
  by (cases v) (simp_all only: verification.case, (intro keeps_rules world_in_session)+)

section \<open>Properties\<close>

lemma acquire_event_lock:
  assumes "r_get now r (StripeEventKey i) = None"
  shows "acquire_owned_lock now (StripeEventKey i) PROCESSING_LOCK_TTL t r =
    (True, r_set_ex now r (StripeEventKey i) (RLock t) PROCESSING_LOCK_TTL)"
  using assms by (simp add: acquire_owned_lock_def)

text \<open>
  Every request to the webhook endpoint keeps the invariant of the billing tables,
  with any payload, signature and event, for any behaviour of Stripe.
\<close>

theorem webhook_keeps_invariant:
  assumes "world_inv w"
  shows "world_inv (snd (stripe_webhook cfg api now fin nonce v w))"
  using keepsD[OF world_webhook, of w cfg api now fin nonce v] assms by (simp add: keeps_world_def)

theorem webhook_keeps_invariant_witness:
  "world_inv (snd (stripe_webhook demo_cfg demo_api 0 2 3 (Verified ''evt_1'' (InvoicePaid (demo_invoice ''subscription_cycle''))) demo_paid_world))"
  using webhook_keeps_invariant[OF demo_paid_world_inv] .

lemma claimed_run:
  assumes "stripe_webhook cfg api now fin nonce (Verified i ev) w = (Inr resp, w')" "handled_event ev"
    and "r_get now (redis w) (StripeEventKey i) = None"
  shows "\<exists>v. w' = v\<lparr>redis := snd (complete_owned_lock fin (StripeEventKey i) IDEMPOTENCY_TTL (Token nonce) (redis v))\<rparr>
    \<and> redis v (StripeEventKey i) = Some (RLock (Token nonce), Some (now + seconds PROCESSING_LOCK_TTL))"
proof -
  let ?w1 = "w\<lparr>redis := r_set_ex now (redis w) (StripeEventKey i) (RLock (Token nonce)) PROCESSING_LOCK_TTL\<rparr>"
  obtain v where pe: "process_event cfg api now fin nonce i ev ?w1 = (Inr (), v)"
    and w': "w' = v\<lparr>redis := snd (complete_owned_lock fin (StripeEventKey i) IDEMPOTENCY_TTL (Token nonce) (redis v))\<rparr>"
    using assms(1,2) acquire_event_lock[OF assms(3)]
    by (auto simp: stripe_webhook_def in_redis_def bindE_def split: prod.splits sum.splits)
  moreover have "redis v (StripeEventKey i) = Some (RLock (Token nonce), Some (now + seconds PROCESSING_LOCK_TTL))"
    using process_event_keys[OF pe] by (simp add: event_keys_kept_def r_set_ex_def)
  ultimately show ?thesis by blast
qed

text \<open>
  C28: An event is processed once. Let a request find an event unclaimed, process it with success and end
  within the five minutes of its claim. Then in every later world in which the key of the event is still as
  the request left it, every delivery under the identifier of the event within 72 hours of that end is
  answered with success and changes nothing at all, neither the tables nor Redis nor Stripe. A request
  that takes longer loses its claim and answers success without leaving the marker.
\<close>

theorem webhook_processed_once:
  assumes ok: "stripe_webhook cfg api now fin nonce (Verified i ev) w = (Inr resp, w')" and h: "handled_event ev"
    and free: "r_get now (redis w) (StripeEventKey i) = None"
    and held: "now \<le> fin" "fin < now + seconds PROCESSING_LOCK_TTL"
    and later: "fin \<le> now'" "now' < fin + seconds IDEMPOTENCY_TTL" and kept: "redis w2 (StripeEventKey i) = redis w' (StripeEventKey i)"
  shows "stripe_webhook cfg' api' now' fin' nonce' (Verified i ev') w2 = (Inr Received, w2)"
proof -
  let ?k = "StripeEventKey i"
  obtain v where w': "w' = v\<lparr>redis := snd (complete_owned_lock fin ?k IDEMPOTENCY_TTL (Token nonce) (redis v))\<rparr>"
    and v: "redis v ?k = Some (RLock (Token nonce), Some (now + seconds PROCESSING_LOCK_TTL))"
    using claimed_run[OF ok h free] by blast
  from v held(2) have "r_get fin (redis v) ?k = Some (RLock (Token nonce))" by (simp add: r_get_def live_def)
  then have "redis w' = r_set_ex fin (redis v) ?k (RLock Completed) IDEMPOTENCY_TTL"
    by (simp add: w' complete_owned_lock_def)
  then have "r_get now' (redis w2) ?k = Some (RLock Completed)" using later kept by (simp add: r_get_def r_set_ex_def live_def)
  then show ?thesis by (simp add: stripe_webhook_def in_redis_def acquire_owned_lock_def bindE_def)
qed

theorem webhook_processed_once_witness:
  "stripe_webhook demo_cfg demo_api 100 101 9 (Verified ''evt_1'' (InvoicePaymentFailed (demo_invoice ''subscription_cycle'')))
     (snd (stripe_webhook demo_cfg demo_api 0 2 3 (Verified ''evt_1'' (InvoicePaymentFailed (demo_invoice ''subscription_cycle''))) demo_paid_world)) =
   (Inr Received, snd (stripe_webhook demo_cfg demo_api 0 2 3 (Verified ''evt_1'' (InvoicePaymentFailed (demo_invoice ''subscription_cycle''))) demo_paid_world))"
proof -
  let ?run = "stripe_webhook demo_cfg demo_api 0 2 3 (Verified ''evt_1'' (InvoicePaymentFailed (demo_invoice ''subscription_cycle''))) demo_paid_world"
  have "fst ?run = Inr Received" by code_simp
  then have "?run = (Inr Received, snd ?run)" by (metis prod.collapse)
  then show ?thesis
    by (rule webhook_processed_once) (simp_all add: demo_paid_world_def r_get_def seconds_def IDEMPOTENCY_TTL_def PROCESSING_LOCK_TTL_def)
qed

text \<open>A request that outlives its claim answers success, but leaves the event free to be processed again.\<close>

lemma webhook_outlives_claim:
  assumes "stripe_webhook cfg api now fin nonce (Verified i ev) w = (Inr resp, w')" "handled_event ev"
    and "r_get now (redis w) (StripeEventKey i) = None" "now + seconds PROCESSING_LOCK_TTL \<le> fin" "fin \<le> now'"
  shows "r_get now' (redis w') (StripeEventKey i) = None"
proof -
  obtain v where w': "w' = v\<lparr>redis := snd (complete_owned_lock fin (StripeEventKey i) IDEMPOTENCY_TTL (Token nonce) (redis v))\<rparr>"
    and v: "redis v (StripeEventKey i) = Some (RLock (Token nonce), Some (now + seconds PROCESSING_LOCK_TTL))"
    using claimed_run[OF assms(1-3)] by blast
  from v assms(4) have "redis w' = redis v" by (simp add: w' complete_owned_lock_def r_get_def live_def)
  with v assms(4,5) show ?thesis by (simp add: r_get_def live_def)
qed

text \<open>
  A failed event can be retried: when the endpoint raises while processing an event it
  has claimed, the claim is released or has expired, so the next delivery is processed again.
\<close>

theorem webhook_failure_releases_claim:
  assumes fail: "stripe_webhook cfg api now fin nonce (Verified i ev) w = (Inl e, w')"
    and free: "r_get now (redis w) (StripeEventKey i) = None" and "fin \<le> now'"
  shows "r_get now' (redis w') (StripeEventKey i) = None"
proof -
  let ?w1 = "w\<lparr>redis := r_set_ex now (redis w) (StripeEventKey i) (RLock (Token nonce)) PROCESSING_LOCK_TTL\<rparr>"
  have pe: "process_event cfg api now fin nonce i ev ?w1 = (Inl e, w')"
    using fail acquire_event_lock[OF free]
    by (auto simp: stripe_webhook_def in_redis_def bindE_def split: prod.splits sum.splits if_splits)
  show ?thesis
    by (rule process_event_fails[OF pe, where ttl = PROCESSING_LOCK_TTL]) (use assms(3) in \<open>simp_all add: r_set_ex_def\<close>)
qed

theorem webhook_failure_releases_claim_witness:
  "r_get 5 (redis (snd (stripe_webhook demo_cfg demo_api 0 2 3
     (Verified ''evt_1'' (InvoicePaid (demo_invoice ''subscription_cycle''))) demo_paid_world))) (StripeEventKey ''evt_1'') = None"
proof -
  let ?run = "stripe_webhook demo_cfg demo_api 0 2 3 (Verified ''evt_1'' (InvoicePaid (demo_invoice ''subscription_cycle''))) demo_paid_world"
  have "fst ?run = Inl (PandaProbeError ''Invoice usage history is missing; reconciliation required.'')" by code_simp
  then have "?run = (Inl (PandaProbeError ''Invoice usage history is missing; reconciliation required.''), snd ?run)"
    by (metis prod.collapse)
  then show ?thesis
    by (rule webhook_failure_releases_claim) (simp_all add: demo_paid_world_def r_get_def)
qed

end
