(* ===== verification/BillingTasks.thy ===== *)
theory BillingTasks
  imports Webhooks
begin

text \<open>
  The billing tasks of \<open>infrastructure/queue/tasks.py\<close>: the dispatchers that run on a schedule
  and fan out one task per organization or report, the workers those tasks run, and the
  lock that collapses duplicate dispatches.

  A dispatcher returns the number it reports and the messages it hands to Celery. A worker
  that calls \<open>self.retry\<close> ends with \<open>Retry\<close>, which carries the exception; Celery runs it again
  later. A worker opens its own session, and what it did not commit is gone when it ends.
\<close>

datatype task =
    SyncSingleOrgUsage uuid
  | BillSingleOrg uuid
  | DeliverBillingReport uuid
  | CheckClosedBillingPeriod uuid datetime datetime uuid
  | ResetSingleHobbyOrg uuid

datatype 'a task_result = Finished 'a | Retry error

datatype worker_status =
    Synced
  | SkippedLocked
  | ReportedOverage
  | NoOverage
  | StripeUnconfigured
  | NoSubscription
  | PeriodReset

datatype dispatch_status = Dispatched nat | SkippedDuplicate

section \<open>Dispatchers\<close>

definition DISPATCH_LOCK_TTL :: int where
  "DISPATCH_LOCK_TTL = 120"

text \<open>\<open>SET key 1 NX EX ttl\<close>; the value is any lock value, here the marker.\<close>

definition dispatch_once :: "datetime \<Rightarrow> string \<Rightarrow> (error, 's bworld, bool) exec" where
  "dispatch_once now name =
     bindE (getsE (\<lambda>w. r_get now (redis w) (DispatchLockKey name))) (\<lambda>held.
     if held \<noteq> None then ret False
     else bindE (modify_redis (\<lambda>r. r_set_ex now r (DispatchLockKey name) (RLock Completed) DISPATCH_LOCK_TTL)) (\<lambda>_. ret True))"

definition dispatch ::
    "datetime \<Rightarrow> string \<Rightarrow> (billing_db \<Rightarrow> task list) \<Rightarrow> (error, 's bworld, dispatch_status \<times> task list) exec" where
  "dispatch now name query =
     bindE (dispatch_once now name) (\<lambda>claimed.
     if \<not> claimed then ret (SkippedDuplicate, [])
     else in_session (bindE (getsE (\<lambda>w. query (db w))) (\<lambda>ts. ret (Dispatched (length ts), ts))))"

definition dispatch_sync_usage :: "datetime \<Rightarrow> (error, 's bworld, dispatch_status \<times> task list) exec" where
  "dispatch_sync_usage now = dispatch now ''sync_usage'' (\<lambda>d. map SyncSingleOrgUsage (list_all_active_org_ids d))"

definition dispatch_overage_billing :: "datetime \<Rightarrow> (error, 's bworld, dispatch_status \<times> task list) exec" where
  "dispatch_overage_billing now = dispatch now ''overage_billing'' (\<lambda>d. map BillSingleOrg (list_paid_active_org_ids d))"

definition dispatch_billing_reports :: "datetime \<Rightarrow> (error, 's bworld, dispatch_status \<times> task list) exec" where
  "dispatch_billing_reports now = dispatch now ''billing_reports'' (\<lambda>d.
     map DeliverBillingReport (pending_ids 200 d)
     @ map (\<lambda>(org, s, e, i). CheckClosedBillingPeriod org s e i) (recent_closures (now - days USAGE_KEY_BUFFER_DAYS) d))"

definition dispatch_hobby_reset :: "datetime \<Rightarrow> (error, 's bworld, dispatch_status \<times> task list) exec" where
  "dispatch_hobby_reset now = dispatch now ''hobby_reset'' (\<lambda>d. map ResetSingleHobbyOrg (list_hobby_org_ids_due_for_reset now d))"

section \<open>Workers\<close>

definition or_retry :: "(error, 's bworld, 'a) exec \<Rightarrow> (error, 's bworld, 'a task_result) exec" where
  "or_retry m = catchE (bindE m (\<lambda>x. ret (Finished x))) (\<lambda>exc. ret (Retry exc))"

definition sync_single_org_usage :: "datetime \<Rightarrow> uuid \<Rightarrow> (error, 's bworld, worker_status task_result) exec" where
  "sync_single_org_usage now org = or_retry (in_session
     (bindE (sync_to_database now org None None) (\<lambda>_.
      bindE commit (\<lambda>_. ret Synced))))"

definition deliver_billing_report :: "billing_config \<Rightarrow> 's stripe_api \<Rightarrow> uuid \<Rightarrow> (error, 's bworld, bool option) exec" where
  "deliver_billing_report cfg api i =
     bindE (liftE (ensure_stripe_configured False cfg)) (\<lambda>_. in_session (deliver_safely api i))"

definition check_closed_billing_period ::
    "datetime \<Rightarrow> uuid \<Rightarrow> datetime \<Rightarrow> datetime \<Rightarrow> uuid \<Rightarrow> (error, 's bworld, unit) exec" where
  "check_closed_billing_period now org pstart pend i = in_session
     (bindE (in_db (lock_report i)) (\<lambda>marker.
      case marker of
        None \<Rightarrow> ret ()
      | Some m \<Rightarrow>
          bindE (in_db (get_subscription_by_org org)) (\<lambda>found.
          case found of
            None \<Rightarrow> ret ()
          | Some sub \<Rightarrow>
              bindE (sync_to_database now (sub_org_id sub) (Some pstart) (Some pend)) (\<lambda>_.
              bindE (in_db (stage now sub pstart None None True)) (\<lambda>_.
              bindE (modify_db (update_report now (br_id m) id)) (\<lambda>_.
              commit))))))"

text \<open>The body of \<open>_bill_single_org\<close> under the lock.\<close>

definition report_org :: "'s stripe_api \<Rightarrow> datetime \<Rightarrow> uuid \<Rightarrow> (error, 's bworld, bool) exec" where
  "report_org api now org =
     catchE
       (bindE (sync_to_database now org None None) (\<lambda>_.
        bindE (report_overages_to_stripe api now org None None) (\<lambda>reported.
        bindE commit (\<lambda>_. ret reported))))
       (\<lambda>exc. bindE rollback (\<lambda>_. raise exc))"

definition bill_org :: "billing_config \<Rightarrow> 's stripe_api \<Rightarrow> datetime \<Rightarrow> uuid \<Rightarrow> uuid \<Rightarrow> (error, 's bworld, worker_status) exec" where
  "bill_org cfg api now nonce org = in_session
     (bindE (liftE (ensure_stripe_configured False cfg)) (\<lambda>_.
      bindE (acquire_overage_lock (cfg\<lparr>has_redis := True\<rparr>) now nonce org) (\<lambda>ok.
      if \<not> ok then ret SkippedLocked
      else bindE (finallyE (report_org api now org) (release_overage_lock (cfg\<lparr>has_redis := True\<rparr>) now nonce org)) (\<lambda>reported.
        ret (if reported then ReportedOverage else NoOverage)))))"

definition bill_single_org ::
    "billing_config \<Rightarrow> 's stripe_api \<Rightarrow> datetime \<Rightarrow> uuid \<Rightarrow> uuid \<Rightarrow> (error, 's bworld, worker_status task_result) exec" where
  "bill_single_org cfg api now nonce org =
     catchE (bindE (bill_org cfg api now nonce org) (\<lambda>x. ret (Finished x)))
       (\<lambda>exc. if exc = StripeNotConfiguredError then ret (Finished StripeUnconfigured) else ret (Retry exc))"

definition reset_single_hobby_org :: "datetime \<Rightarrow> uuid \<Rightarrow> (error, 's bworld, worker_status task_result) exec" where
  "reset_single_hobby_org now org = or_retry (in_session
     (bindE (in_db (get_subscription_by_org org)) (\<lambda>found.
      case found of
        None \<Rightarrow> ret NoSubscription
      | Some sub \<Rightarrow>
          bindE (modify_db (advance_period now org (sub_period_end sub) (sub_period_end sub + days 30))) (\<lambda>_.
          bindE (in_db (create_usage_record now org (sub_period_end sub) (sub_period_end sub + days 30))) (\<lambda>_.
          bindE commit (\<lambda>_.
          bindE (delete_usage_key org (sub_period_start sub)) (\<lambda>_.
          bindE (invalidate_subscription_cache org) (\<lambda>_.
          ret PeriodReset))))))))"

text \<open>What a worker process does with a message: the result, which Celery stores, is dropped.\<close>

definition run_task ::
    "billing_config \<Rightarrow> 's stripe_api \<Rightarrow> datetime \<Rightarrow> uuid \<Rightarrow> task \<Rightarrow> (error, 's bworld, unit) exec" where
  "run_task cfg api now nonce t = (case t of
       SyncSingleOrgUsage org \<Rightarrow> bindE (sync_single_org_usage now org) (\<lambda>_. ret ())
     | BillSingleOrg org \<Rightarrow> bindE (bill_single_org cfg api now nonce org) (\<lambda>_. ret ())
     | DeliverBillingReport i \<Rightarrow> bindE (deliver_billing_report cfg api i) (\<lambda>_. ret ())
     | CheckClosedBillingPeriod org s e i \<Rightarrow> check_closed_billing_period now org s e i
     | ResetSingleHobbyOrg org \<Rightarrow> bindE (reset_single_hobby_org now org) (\<lambda>_. ret ()))"

section \<open>Workers and webhooks in sequence\<close>

text \<open>
  A state of the deployment: the queue and the world. Steps are whole tasks, dispatches and
  webhook requests, one after another in any order; a message may be delivered again after it ran, as
  Celery and Stripe may do. Each runs at a time of its own and with its own random token. Two of them
  never overlap, so that the row locks of the code (\<open>FOR UPDATE\<close>, \<open>SKIP LOCKED\<close>) are plain reads.
\<close>

definition dispatchers :: "datetime \<Rightarrow> (error, 's bworld, dispatch_status \<times> task list) exec list" where
  "dispatchers now = [dispatch_sync_usage now, dispatch_overage_billing now, dispatch_billing_reports now, dispatch_hobby_reset now]"

inductive workers ::
    "billing_config \<Rightarrow> 's stripe_api \<Rightarrow> task list \<times> 's bworld \<Rightarrow> task list \<times> 's bworld \<Rightarrow> bool"
  for cfg api where
  idle: "workers cfg api c c"
| beat: "workers cfg api c (q, w) \<Longrightarrow> m \<in> set (dispatchers now) \<Longrightarrow> m w = (Inr (st, ts), w') \<Longrightarrow>
    workers cfg api c (q @ ts, w')"
| work: "workers cfg api c (q, w) \<Longrightarrow> t \<in> set q \<Longrightarrow> workers cfg api c (remove1 t q, snd (run_task cfg api now nonce t w))"
| redeliver: "workers cfg api c (q, w) \<Longrightarrow> t \<in> set q \<Longrightarrow> workers cfg api c (q, snd (run_task cfg api now nonce t w))"
| event: "workers cfg api c (q, w) \<Longrightarrow> workers cfg api c (q, snd (stripe_webhook cfg api now fin nonce v w))"

section \<open>The invariant of the tables\<close>

lemma world_dispatchers: "m \<in> set (dispatchers now) \<Longrightarrow> keeps keeps_world m"
  unfolding dispatchers_def dispatch_sync_usage_def dispatch_overage_billing_def dispatch_billing_reports_def
    dispatch_hobby_reset_def dispatch_def dispatch_once_def
  by (auto intro!: keeps_rules world_in_session)

lemma world_session_deliver [keeps_rules]: "keeps keeps_world (in_session (deliver_safely api i))"
proof (rule keepsI)
  fix w :: "'a bworld"
  obtain x w' where run: "deliver_safely api i (w\<lparr>db := committed w\<rparr>) = (x, w')" by fastforce
  have "world_inv w'" if "world_inv w"
    using deliver_safely_world[of "w\<lparr>db := committed w\<rparr>" api i] that run by (simp add: world_inv_def)
  then show "keeps_world w (snd (in_session (deliver_safely api i) w))"
    using run by (auto simp: keeps_world_def in_session_def world_inv_def)
qed

lemma world_touch_report [keeps_rules]: "keeps keeps_world (modify_db (update_report now i id))"
  by (intro world_modify_db billing_inv_update_report) (auto simp: same_ledger_entry_def)

lemma world_lock_report [keeps_rules]: "keeps inv_rel (lock_report i)"
  by (rule inv_read) (simp add: lock_report_def)

lemma world_tasks [keeps_rules]:
  "keeps keeps_world (sync_single_org_usage now org)" "keeps keeps_world (deliver_billing_report cfg api i)"
  "keeps keeps_world (check_closed_billing_period now org s e i)" "keeps keeps_world (bill_single_org cfg api now nonce org)"
  "keeps keeps_world (reset_single_hobby_org now org)"
  unfolding sync_single_org_usage_def deliver_billing_report_def check_closed_billing_period_def bill_single_org_def
    bill_org_def report_org_def reset_single_hobby_org_def or_retry_def delete_usage_key_def invalidate_subscription_cache_def
  by (intro keeps_rules world_in_session)+

lemma world_run_task: "keeps keeps_world (run_task cfg api now nonce t)"
  unfolding run_task_def by (cases t) (simp_all only: task.case, (intro keeps_rules)+)

lemma keeps_worldD: "keeps keeps_world m \<Longrightarrow> world_inv w \<Longrightarrow> world_inv (snd (m w))"
  by (auto simp: keeps_def keeps_world_def)

lemma workers_world_inv: "workers cfg api c c' \<Longrightarrow> world_inv (snd c) \<Longrightarrow> world_inv (snd c')"
proof (induction rule: workers.induct)
  case (beat c q w m now st ts w')
  then show ?case using keeps_worldD[OF world_dispatchers[of m now], of w] by simp
qed (simp_all add: keeps_worldD world_run_task world_webhook)

section \<open>The overage lock\<close>

lemma same_redis_report_org: "keeps same_redis (report_org api now org)"
  unfolding report_org_def by (intro keeps_rules)

lemma bill_org_lock:
  assumes free: "r_get now (redis w) (OverageLockKey org) = None" and works: "release_failure cfg nonce = None"
  shows "r_get now (redis (snd (bill_org cfg api now nonce org w))) (OverageLockKey org) = None"
proof (cases "stripe_secret_key cfg = []")
  case True
  with free show ?thesis by (simp add: bill_org_def in_session_def ensure_stripe_configured_def)
next
  case False
  let ?k = "OverageLockKey org"
  let ?w = "w\<lparr>db := committed w, redis := r_set_ex now (redis w) ?k (RLock (Token nonce)) OVERAGE_LOCK_TTL\<rparr>"
  obtain x v where run: "report_org api now org ?w = (x, v)" by fastforce
  have "redis v = redis ?w" using keepsD2[OF same_redis_report_org run] by (simp add: same_redis_def)
  moreover have "redis (snd (bill_org cfg api now nonce org w)) = release_owned_lock now ?k (Token nonce) (redis v)"
    using False free run works
    by (cases x) (simp_all add: bill_org_def in_session_def ensure_stripe_configured_def acquire_overage_lock_def in_redis_def
        acquire_owned_lock_def bindE_def finallyE_def release_overage_lock_def modify_redis_def)
  ultimately show ?thesis by (simp add: release_owned_lock_def r_get_def r_del_def r_set_ex_def)
qed

lemma bill_single_org_redis: "redis (snd (bill_single_org cfg api now nonce org w)) = redis (snd (bill_org cfg api now nonce org w))"
  by (cases "bill_org cfg api now nonce org w" rule: prod.exhaust) (auto simp: bill_single_org_def catchE_def bindE_def split: sum.splits)

section \<open>Resetting a free organization\<close>

definition next_period :: "datetime \<Rightarrow> subscription \<Rightarrow> subscription" where
  "next_period now sub = sub\<lparr>sub_period_start := sub_period_end sub, sub_period_end := sub_period_end sub + days 30, sub_updated_at := now\<rparr>"

lemma days_30_pos: "0 < days 30"
  by (simp add: days_def seconds_def)

lemma filter_advance:
  assumes sub: "filter (\<lambda>s. sub_org_id s = org) (subs d) = [sub]" and le: "sub_period_start sub \<le> sub_period_end sub"
  shows "filter (\<lambda>s. sub_org_id s = org) (subs (advance_period now org (sub_period_end sub) (sub_period_end sub + days 30) d)) =
   [next_period now sub]"
proof -
  have "sub \<in> set (filter (\<lambda>s. sub_org_id s = org) (subs d))" by (simp only: sub list.set_intros)
  then have "sub_org_id sub = org" by simp
  moreover have "filter (\<lambda>s. sub_org_id s = org) (update_where P f (subs d)) = update_where P f [sub]"
    if "\<And>s. sub_org_id (f s) = sub_org_id s" for P f
    using filter_update_where[of P "\<lambda>s. sub_org_id s = org" f "subs d"] that sub by simp
  ultimately show ?thesis using le days_30_pos by (simp add: advance_period_def next_period_def)
qed

lemma advance_period_usages: "usages (advance_period now org s e d) = usages d" "next_id (advance_period now org s e d) = next_id d"
  by (simp_all add: advance_period_def)

lemma reset_opens_next_period:
  assumes sub: "filter (\<lambda>s. sub_org_id s = org) (subs (committed w)) = [sub]" and le: "sub_period_start sub \<le> sub_period_end sub"
    and new: "\<not> list_ex (same_period org (sub_period_end sub)) (usages (committed w))"
  obtains w' where "reset_single_hobby_org now org w = (Inr (Finished PeriodReset), w')"
    "filter (\<lambda>s. sub_org_id s = org) (subs (committed w')) = [next_period now sub]"
    "usages (committed w') = usages (committed w) @
       [fresh_usage now (next_id (committed w)) org (sub_period_end sub) (sub_period_end sub + days 30)]"
    "redis w' = r_del (r_del (redis w) (usage_key org (sub_period_start sub))) (SubCacheKey org)"
proof -
  have "scalar_one_or_none (filter (\<lambda>s. sub_org_id s = org) (subs (committed w))) = Inr (Some sub)" using sub by simp
  then show thesis
    using new
    by (intro that[of "snd (reset_single_hobby_org now org w)"])
       (simp_all add: reset_single_hobby_org_def or_retry_def in_session_def catchE_def bindE_def in_db_def get_subscription_by_org_def
         modify_db_def create_usage_record_def Let_def commit_def delete_usage_key_def modify_redis_def
         invalidate_subscription_cache_def filter_advance[OF sub le] advance_period_usages)
qed

definition resets :: "datetime \<Rightarrow> uuid \<Rightarrow> nat \<Rightarrow> 's bworld \<Rightarrow> 's bworld" where
  "resets now org n = (\<lambda>w. snd (reset_single_hobby_org now org w)) ^^ n"

lemma resets_period_end:
  assumes "filter (\<lambda>s. sub_org_id s = org) (subs (committed w)) = [sub]" "sub_period_start sub \<le> sub_period_end sub"
    and "\<forall>u \<in> set (usages (committed w)). ur_org_id u = org \<longrightarrow> ur_period_start u < sub_period_end sub"
  shows "\<exists>sub'. filter (\<lambda>s. sub_org_id s = org) (subs (committed (resets now org n w))) = [sub'] \<and>
    sub_period_end sub' = sub_period_end sub + int n * days 30"
  using assms
proof (induction n arbitrary: w sub)
  case (Suc n)
  have "\<not> list_ex (same_period org (sub_period_end sub)) (usages (committed w))"
    using Suc.prems(3) by (auto simp: list_ex_iff same_period_def)
  from reset_opens_next_period[OF Suc.prems(1,2) this, of now]
  obtain w' where w': "reset_single_hobby_org now org w = (Inr (Finished PeriodReset), w')"
    and sub': "filter (\<lambda>s. sub_org_id s = org) (subs (committed w')) = [next_period now sub]"
    and us: "usages (committed w') = usages (committed w) @
       [fresh_usage now (next_id (committed w)) org (sub_period_end sub) (sub_period_end sub + days 30)]" by metis
  have later: "ur_period_start u < sub_period_end sub + days 30" if "u \<in> set (usages (committed w'))" "ur_org_id u = org" for u
    using that Suc.prems(3) us days_30_pos by (cases "u \<in> set (usages (committed w))") (auto simp: fresh_usage_def dest!: bspec)
  have "\<exists>s'. filter (\<lambda>s. sub_org_id s = org) (subs (committed (resets now org n w'))) = [s'] \<and>
      sub_period_end s' = sub_period_end (next_period now sub) + int n * days 30"
    using sub' later days_30_pos by (intro Suc.IH) (simp_all add: next_period_def)
  moreover have "resets now org (Suc n) w = resets now org n w'"
    using w' by (simp add: resets_def funpow_Suc_right del: funpow.simps)
  ultimately show ?case by (auto simp: next_period_def algebra_simps)
qed (auto simp: resets_def)

lemma not_due:
  assumes "filter (\<lambda>s. sub_org_id s = org) (subs d) = [sub]" "now < sub_period_end sub"
  shows "org \<notin> set (list_hobby_org_ids_due_for_reset now d)"
proof
  assume "org \<in> set (list_hobby_org_ids_due_for_reset now d)"
  then obtain s where "s \<in> set (filter (\<lambda>s. sub_org_id s = org) (subs d))" "sub_period_end s \<le> now"
    by (auto simp: list_hobby_org_ids_due_for_reset_def)
  with assms show False by simp
qed

section \<open>Properties\<close>

text \<open>
  C31: Whatever webhook requests, dispatches and tasks run one after another, in any order and at any
  times, with messages delivered more than once, with whatever answers of Stripe and with each of them
  succeeding or failing at any statement that can fail, the billing tables keep their invariant. Each
  request, dispatch and task is one step here; how their statements may overlap is not covered.
\<close>

theorem workers_keep_invariant:
  assumes "workers cfg api (q, w) (q', w')" "world_inv w"
  shows "world_inv w'"
  using workers_world_inv[OF assms(1)] assms(2) by simp

theorem workers_keep_invariant_witness:
  "world_inv (snd (run_task demo_cfg demo_api 60 4 (BillSingleOrg 1)
     (snd (dispatch_overage_billing 0 demo_paid_world))))"
proof -
  have "fst (dispatch_overage_billing 0 demo_paid_world) = Inr (Dispatched 1, [BillSingleOrg 1])" by code_simp
  then have run: "dispatch_overage_billing 0 demo_paid_world =
      (Inr (Dispatched 1, [BillSingleOrg 1]), snd (dispatch_overage_billing 0 demo_paid_world))" by (metis prod.collapse)
  have "workers demo_cfg demo_api ([], demo_paid_world) ([BillSingleOrg 1], snd (dispatch_overage_billing 0 demo_paid_world))"
    using workers.beat[OF workers.idle, of "dispatch_overage_billing 0" 0 demo_paid_world _ _ _ demo_cfg demo_api "[]"] run
    by (simp add: dispatchers_def)
  then have "workers demo_cfg demo_api ([], demo_paid_world) (remove1 (BillSingleOrg 1) [BillSingleOrg 1],
      snd (run_task demo_cfg demo_api 60 4 (BillSingleOrg 1) (snd (dispatch_overage_billing 0 demo_paid_world))))"
    by (rule workers.work) simp
  then show ?thesis by (rule workers_keep_invariant) (rule demo_paid_world_inv)
qed

text \<open>
  Billing an organization gives the overage lock back on every path: when it was free
  before the task it is free after, whether the task reported, had nothing to report,
  failed and is to be retried, or Stripe is not configured.
\<close>

theorem bill_single_org_releases_lock:
  assumes "r_get now (redis w) (OverageLockKey org) = None" "release_failure cfg nonce = None"
  shows "r_get now (redis (snd (bill_single_org cfg api now nonce org w))) (OverageLockKey org) = None"
  using bill_org_lock[OF assms] by (simp add: bill_single_org_redis)

theorem bill_single_org_releases_lock_witness:
  "fst (bill_single_org demo_cfg demo_api 0 7 1 demo_paid_world) = Inr (Finished NoOverage) \<and>
   r_get 0 (redis (snd (bill_single_org demo_cfg demo_api 0 7 1 demo_paid_world))) (OverageLockKey 1) = None"
proof (rule conjI)
  show "fst (bill_single_org demo_cfg demo_api 0 7 1 demo_paid_world) = Inr (Finished NoOverage)" by code_simp
  show "r_get 0 (redis (snd (bill_single_org demo_cfg demo_api 0 7 1 demo_paid_world))) (OverageLockKey 1) = None"
    by (rule bill_single_org_releases_lock) (simp_all add: demo_paid_world_def demo_cfg_def r_get_def)
qed

text \<open>
  Duplicate dispatches collapse: within 120 seconds of a dispatch, a second one of the
  same dispatcher hands out nothing and changes nothing, unless the key was removed.
\<close>

theorem dispatch_single_flight:
  assumes "now \<le> now'" "now' < now + seconds DISPATCH_LOCK_TTL"
    and "redis w' (DispatchLockKey name) = redis (snd (dispatch now name query w)) (DispatchLockKey name)"
    and "r_get now (redis w) (DispatchLockKey name) = None"
  shows "dispatch now' name query' w' = (Inr (SkippedDuplicate, []), w')"
proof -
  have "redis (snd (dispatch now name query w)) (DispatchLockKey name) = Some (RLock Completed, Some (now + seconds DISPATCH_LOCK_TTL))"
    using assms(4) by (simp add: dispatch_def dispatch_once_def modify_redis_def in_session_def r_set_ex_def bindE_def)
  then have "r_get now' (redis w') (DispatchLockKey name) = Some (RLock Completed)"
    using assms(2,3) by (simp add: r_get_def live_def)
  then show ?thesis by (simp add: dispatch_def dispatch_once_def bindE_def)
qed

theorem dispatch_single_flight_witness:
  "dispatch_overage_billing 119000000 (snd (dispatch_overage_billing 0 demo_paid_world)) =
     (Inr (SkippedDuplicate, []), snd (dispatch_overage_billing 0 demo_paid_world))"
  unfolding dispatch_overage_billing_def
proof (rule dispatch_single_flight)
  show "r_get 0 (redis demo_paid_world) (DispatchLockKey ''overage_billing'') = None" by code_simp
qed (simp_all add: seconds_def DISPATCH_LOCK_TTL_def)

text \<open>
  Resetting a free organization opens the period that follows its last one: the period
  starts where the last ended and lasts 30 days, it has a usage record with zero counters,
  and the counters and the cached subscription of the last period are gone from Redis. The task
  does not test that the period is over, so every further run opens one more period.
\<close>

theorem hobby_reset_opens_next_period:
  assumes "filter (\<lambda>s. sub_org_id s = org) (subs (committed w)) = [sub]" "sub_period_start sub \<le> sub_period_end sub"
    and "\<not> list_ex (same_period org (sub_period_end sub)) (usages (committed w))"
  shows "\<exists>w'. reset_single_hobby_org now org w = (Inr (Finished PeriodReset), w') \<and>
    filter (\<lambda>s. sub_org_id s = org) (subs (committed w')) =
      [sub\<lparr>sub_period_start := sub_period_end sub, sub_period_end := sub_period_end sub + days 30, sub_updated_at := now\<rparr>] \<and>
    usages (committed w') = usages (committed w) @
      [fresh_usage now (next_id (committed w)) org (sub_period_end sub) (sub_period_end sub + days 30)] \<and>
    redis w' (usage_key org (sub_period_start sub)) = None \<and> redis w' (SubCacheKey org) = None"
  by (rule reset_opens_next_period[OF assms, of now]) (simp add: next_period_def r_del_def)

definition demo_hobby_world :: "unit bworld" where
  "demo_hobby_world = demo_paid_world\<lparr>committed := demo_db\<lparr>subs := [demo_paid_sub\<lparr>sub_plan := HOBBY\<rparr>]\<rparr>\<rparr>"

lemma demo_hobby_sub:
  "filter (\<lambda>s. sub_org_id s = 1) (subs (committed demo_hobby_world)) = [demo_paid_sub\<lparr>sub_plan := HOBBY\<rparr>]"
  by code_simp

theorem hobby_reset_opens_next_period_witness:
  "\<exists>w'. reset_single_hobby_org 5 1 demo_hobby_world = (Inr (Finished PeriodReset), w') \<and>
     map sub_period_end (subs (committed w')) = [days 60]"
proof -
  have "sub_period_start (demo_paid_sub\<lparr>sub_plan := HOBBY\<rparr>) \<le> sub_period_end (demo_paid_sub\<lparr>sub_plan := HOBBY\<rparr>)"
    "\<not> list_ex (same_period 1 (sub_period_end (demo_paid_sub\<lparr>sub_plan := HOBBY\<rparr>))) (usages (committed demo_hobby_world))"
    by code_simp+
  from hobby_reset_opens_next_period[OF demo_hobby_sub this, of 5]
  obtain w' where "reset_single_hobby_org 5 1 demo_hobby_world = (Inr (Finished PeriodReset), w')" by blast
  moreover have "map sub_period_end (subs (committed (snd (reset_single_hobby_org 5 1 demo_hobby_world)))) = [days 60]" by code_simp
  ultimately show ?thesis by simp
qed

text \<open>
  C32: A free organization that fell behind catches up: after enough resets it is no longer due,
  one reset for each 30 days it is behind.
\<close>

theorem hobby_reset_catches_up:
  assumes "filter (\<lambda>s. sub_org_id s = org) (subs (committed w)) = [sub]" "sub_period_start sub \<le> sub_period_end sub"
    and "\<forall>u \<in> set (usages (committed w)). ur_org_id u = org \<longrightarrow> ur_period_start u < sub_period_end sub"
    and "sub_period_end sub \<le> now"
  shows "org \<notin> set (list_hobby_org_ids_due_for_reset now
    (committed (resets now org (nat ((now - sub_period_end sub) div days 30) + 1) w)))"
proof -
  let ?n = "nat ((now - sub_period_end sub) div days 30) + 1"
  obtain sub' where sub': "filter (\<lambda>s. sub_org_id s = org) (subs (committed (resets now org ?n w))) = [sub']"
    and "sub_period_end sub' = sub_period_end sub + int ?n * days 30"
    using resets_period_end[OF assms(1-3), of now ?n] by blast
  moreover have "now - sub_period_end sub < ((now - sub_period_end sub) div days 30 + 1) * days 30"
    using days_30_pos by (metis mod_pos_pos_trivial div_mult_mod_eq pos_mod_bound add_less_cancel_left distrib_right mult_1)
  moreover have "int ?n = (now - sub_period_end sub) div days 30 + 1"
    using assms(4) days_30_pos by (simp add: pos_imp_zdiv_nonneg_iff)
  ultimately have "now < sub_period_end sub'" by (simp only:)
  with sub' show ?thesis by (rule not_due)
qed

theorem hobby_reset_catches_up_witness:
  "1 \<in> set (list_hobby_org_ids_due_for_reset (days 70) (committed demo_hobby_world)) \<and>
   1 \<notin> set (list_hobby_org_ids_due_for_reset (days 70) (committed (resets (days 70) 1 2 demo_hobby_world)))"
proof (rule conjI)
  show "1 \<in> set (list_hobby_org_ids_due_for_reset (days 70) (committed demo_hobby_world))" by code_simp
  let ?sub = "demo_paid_sub\<lparr>sub_plan := HOBBY\<rparr>"
  have "sub_period_start ?sub \<le> sub_period_end ?sub" "sub_period_end ?sub \<le> days 70"
    "\<forall>u \<in> set (usages (committed demo_hobby_world)). ur_org_id u = 1 \<longrightarrow> ur_period_start u < sub_period_end ?sub"
    "nat ((days 70 - sub_period_end ?sub) div days 30) + 1 = 2" by code_simp+
  with hobby_reset_catches_up[OF demo_hobby_sub]
  show "1 \<notin> set (list_hobby_org_ids_due_for_reset (days 70) (committed (resets (days 70) 1 2 demo_hobby_world)))" by metis
qed

end
