(* ===== verification/IdentityRepo.thy ===== *)
theory IdentityRepo
  imports BillingRepo
begin

text \<open>
  The entities of \<open>core/identity/entities.py\<close> and the repositories over them:
  \<open>identity_repo.py\<close>, \<open>invitation_repo.py\<close>, \<open>project_repo.py\<close> and \<open>user_repo.py\<close>.

  Tables are lists of rows, as in the billing repositories, with the unique and foreign key
  constraints of \<open>models.py\<close>. A statement that violates one raises \<open>IntegrityError\<close> and leaves
  the tables. The names and addresses that a joined row adds to a membership or an
  invitation for display are left out. Text is a list of 8-bit characters, and \<open>str.lower\<close> and
  SQL \<open>lower\<close> change the letters A to Z only.
\<close>

section \<open>Entities\<close>

record user =
  usr_id :: uuid
  usr_external_id :: string
  usr_email :: string
  usr_display_name :: string
  usr_created_at :: datetime
  usr_last_sign_in_at :: "datetime option"

record organization =
  org_id :: uuid
  org_name :: string
  org_created_at :: datetime

record membership =
  mb_id :: uuid
  mb_user_id :: uuid
  mb_org_id :: uuid
  mb_role :: membership_role
  mb_created_at :: datetime

record project =
  pj_id :: uuid
  pj_org_id :: uuid
  pj_name :: string
  pj_description :: string
  pj_created_at :: datetime

record invitation =
  iv_id :: uuid
  iv_org_id :: uuid
  iv_email :: string
  iv_role :: membership_role
  iv_invited_by :: uuid
  iv_status :: invitation_status
  iv_created_at :: datetime
  iv_expires_at :: datetime

record api_key =
  ak_id :: uuid
  ak_org_id :: uuid
  ak_hash :: string
  ak_prefix :: string
  ak_name :: string
  ak_is_active :: bool
  ak_created_at :: datetime
  ak_expires_at :: "datetime option"
  ak_last_used_at :: "datetime option"
  ak_created_by :: "uuid option"

record identity_db =
  users :: "user list"
  orgs :: "organization list"
  members :: "membership list"
  invites :: "invitation list"
  projects :: "project list"
  api_keys :: "api_key list"
  fresh_id :: uuid
  billing :: billing_db

definition in_billing :: "(error, billing_db, 'a) exec \<Rightarrow> (error, identity_db, 'a) exec" where
  "in_billing m = (\<lambda>d. case m (billing d) of (r, b) \<Rightarrow> (r, d\<lparr>billing := b\<rparr>))"

text \<open>A new row takes the next identifier.\<close>

definition new_id :: "(error, identity_db, uuid) exec" where
  "new_id = (\<lambda>d. (Inr (fresh_id d), d\<lparr>fresh_id := Suc (fresh_id d)\<rparr>))"

definition user_exists :: "uuid \<Rightarrow> identity_db \<Rightarrow> bool" where
  "user_exists u d = list_ex (\<lambda>r. usr_id r = u) (users d)"

definition org_exists :: "uuid \<Rightarrow> identity_db \<Rightarrow> bool" where
  "org_exists o' d = list_ex (\<lambda>r. org_id r = o') (orgs d)"

section \<open>Organizations\<close>

definition create_organization_row :: "datetime \<Rightarrow> string \<Rightarrow> (error, identity_db, organization) exec" where
  "create_organization_row now name =
     bindE new_id (\<lambda>i.
     let row = \<lparr>org_id = i, org_name = name, org_created_at = now\<rparr>
     in bindE (modifyE (\<lambda>d. d\<lparr>orgs := orgs d @ [row]\<rparr>)) (\<lambda>_. ret row))"

definition get_organization_row :: "uuid \<Rightarrow> (error, identity_db, organization option) exec" where
  "get_organization_row i = getsE (\<lambda>d. find (\<lambda>r. org_id r = i) (orgs d))"

definition update_organization_row :: "uuid \<Rightarrow> string option \<Rightarrow> (error, identity_db, organization option) exec" where
  "update_organization_row i name =
     bindE (get_organization_row i) (\<lambda>found.
     case found of
       None \<Rightarrow> ret None
     | Some _ \<Rightarrow>
         bindE (modifyE (\<lambda>d. d\<lparr>orgs := update_where (\<lambda>r. org_id r = i)
           (\<lambda>r. case name of None \<Rightarrow> r | Some n \<Rightarrow> r\<lparr>org_name := n\<rparr>) (orgs d)\<rparr>)) (\<lambda>_.
         get_organization_row i))"

text \<open>
  The cascades of the model: memberships, projects, keys, invitations, the subscription, the
  usage records and with them their billing reports.
\<close>

definition delete_billing_of :: "uuid \<Rightarrow> billing_db \<Rightarrow> billing_db" where
  "delete_billing_of i b =
     b\<lparr>subs := delete_where (\<lambda>s. sub_org_id s = i) (subs b),
       reports := delete_where (\<lambda>r. list_ex (\<lambda>u. ur_org_id u = i \<and> ur_id u = br_usage_id r) (usages b)) (reports b),
       usages := delete_where (\<lambda>u. ur_org_id u = i) (usages b)\<rparr>"

definition delete_organization_row :: "uuid \<Rightarrow> (error, identity_db, unit) exec" where
  "delete_organization_row i =
     bindE (get_organization_row i) (\<lambda>found.
     case found of
       None \<Rightarrow> ret ()
     | Some _ \<Rightarrow> modifyE (\<lambda>d. d\<lparr>
         orgs := delete_where (\<lambda>r. org_id r = i) (orgs d),
         members := delete_where (\<lambda>r. mb_org_id r = i) (members d),
         projects := delete_where (\<lambda>r. pj_org_id r = i) (projects d),
         api_keys := delete_where (\<lambda>r. ak_org_id r = i) (api_keys d),
         invites := delete_where (\<lambda>r. iv_org_id r = i) (invites d),
         billing := delete_billing_of i (billing d)\<rparr>))"

section \<open>Memberships\<close>

definition create_membership :: "datetime \<Rightarrow> uuid \<Rightarrow> uuid \<Rightarrow> membership_role \<Rightarrow> (error, identity_db, membership) exec" where
  "create_membership now user org role = (\<lambda>d.
     let row = \<lparr>mb_id = fresh_id d, mb_user_id = user, mb_org_id = org, mb_role = role, mb_created_at = now\<rparr> in
     if \<not> user_exists user d \<or> \<not> org_exists org d
        \<or> list_ex (\<lambda>m. mb_user_id m = user \<and> mb_org_id m = org) (members d)
     then (Inl IntegrityError, d)
     else (Inr row, d\<lparr>members := members d @ [row], fresh_id := Suc (fresh_id d)\<rparr>))"

definition get_membership :: "uuid \<Rightarrow> uuid \<Rightarrow> (error, identity_db, membership option) exec" where
  "get_membership user org =
     (\<lambda>d. (scalar_one_or_none (filter (\<lambda>m. mb_user_id m = user \<and> mb_org_id m = org) (members d)), d))"

definition list_user_orgs :: "uuid \<Rightarrow> identity_db \<Rightarrow> membership list" where
  "list_user_orgs user d = sort_key (\<lambda>m. - mb_created_at m) (filter (\<lambda>m. mb_user_id m = user) (members d))"

definition list_org_members :: "uuid \<Rightarrow> identity_db \<Rightarrow> membership list" where
  "list_org_members org d = sort_key mb_created_at (filter (\<lambda>m. mb_org_id m = org) (members d))"

definition update_membership_role :: "uuid \<Rightarrow> uuid \<Rightarrow> membership_role \<Rightarrow> (error, identity_db, membership option) exec" where
  "update_membership_role user org role =
     bindE (get_membership user org) (\<lambda>found.
     case found of
       None \<Rightarrow> ret None
     | Some m \<Rightarrow>
         bindE (modifyE (\<lambda>d. d\<lparr>members := update_where (\<lambda>r. mb_user_id r = user \<and> mb_org_id r = org)
           (\<lambda>r. r\<lparr>mb_role := role\<rparr>) (members d)\<rparr>)) (\<lambda>_.
         ret (Some (m\<lparr>mb_role := role\<rparr>))))"

definition count_user_owned_orgs :: "uuid \<Rightarrow> identity_db \<Rightarrow> nat" where
  "count_user_owned_orgs user d = length (filter (\<lambda>m. mb_user_id m = user \<and> mb_role m = OWNER) (members d))"

definition delete_membership :: "uuid \<Rightarrow> uuid \<Rightarrow> (error, identity_db, unit) exec" where
  "delete_membership user org =
     modifyE (\<lambda>d. d\<lparr>members := delete_where (\<lambda>m. mb_user_id m = user \<and> mb_org_id m = org) (members d)\<rparr>)"

definition count_org_members :: "uuid \<Rightarrow> identity_db \<Rightarrow> nat" where
  "count_org_members org d = length (filter (\<lambda>m. mb_org_id m = org) (members d))"

section \<open>API keys\<close>

definition create_api_key_row ::
    "datetime \<Rightarrow> uuid \<Rightarrow> string \<Rightarrow> string \<Rightarrow> string \<Rightarrow> uuid option \<Rightarrow> datetime option \<Rightarrow> (error, identity_db, api_key) exec" where
  "create_api_key_row now org hash prefix name created_by expires_at = (\<lambda>d.
     let row = \<lparr>ak_id = fresh_id d, ak_org_id = org, ak_hash = hash, ak_prefix = prefix, ak_name = name, ak_is_active = True,
           ak_created_at = now, ak_expires_at = expires_at, ak_last_used_at = None, ak_created_by = created_by\<rparr> in
     if \<not> org_exists org d \<or> (case created_by of None \<Rightarrow> False | Some u \<Rightarrow> \<not> user_exists u d)
        \<or> list_ex (\<lambda>k. ak_hash k = hash) (api_keys d)
     then (Inl IntegrityError, d)
     else (Inr row, d\<lparr>api_keys := api_keys d @ [row], fresh_id := Suc (fresh_id d)\<rparr>))"

definition get_api_key_row :: "uuid \<Rightarrow> (error, identity_db, api_key option) exec" where
  "get_api_key_row i = getsE (\<lambda>d. find (\<lambda>k. ak_id k = i) (api_keys d))"

definition get_api_key_by_hash :: "string \<Rightarrow> (error, identity_db, api_key option) exec" where
  "get_api_key_by_hash hash =
     (\<lambda>d. (scalar_one_or_none (filter (\<lambda>k. ak_hash k = hash \<and> ak_is_active k) (api_keys d)), d))"

definition touch_api_key :: "datetime \<Rightarrow> uuid \<Rightarrow> (error, identity_db, unit) exec" where
  "touch_api_key now i = modifyE (\<lambda>d. d\<lparr>api_keys := update_where (\<lambda>k. ak_id k = i) (\<lambda>k. k\<lparr>ak_last_used_at := Some now\<rparr>) (api_keys d)\<rparr>)"

definition revoke_api_key_row :: "uuid \<Rightarrow> (error, identity_db, unit) exec" where
  "revoke_api_key_row i = modifyE (\<lambda>d. d\<lparr>api_keys := update_where (\<lambda>k. ak_id k = i) (\<lambda>k. k\<lparr>ak_is_active := False\<rparr>) (api_keys d)\<rparr>)"

definition delete_api_key_row :: "uuid \<Rightarrow> (error, identity_db, unit) exec" where
  "delete_api_key_row i = modifyE (\<lambda>d. d\<lparr>api_keys := delete_where (\<lambda>k. ak_id k = i) (api_keys d)\<rparr>)"

definition list_api_key_rows :: "uuid \<Rightarrow> identity_db \<Rightarrow> api_key list" where
  "list_api_key_rows org d = sort_key (\<lambda>k. - ak_created_at k) (filter (\<lambda>k. ak_org_id k = org) (api_keys d))"

section \<open>Invitations\<close>

definition create_invitation_row ::
    "datetime \<Rightarrow> uuid \<Rightarrow> string \<Rightarrow> membership_role \<Rightarrow> uuid \<Rightarrow> datetime \<Rightarrow> (error, identity_db, invitation) exec" where
  "create_invitation_row now org email role inviter expires_at = (\<lambda>d.
     let row = \<lparr>iv_id = fresh_id d, iv_org_id = org, iv_email = email, iv_role = role, iv_invited_by = inviter,
           iv_status = invitation_status.PENDING, iv_created_at = now, iv_expires_at = expires_at\<rparr> in
     if \<not> org_exists org d \<or> \<not> user_exists inviter d then (Inl IntegrityError, d)
     else (Inr row, d\<lparr>invites := invites d @ [row], fresh_id := Suc (fresh_id d)\<rparr>))"

definition get_invitation :: "uuid \<Rightarrow> (error, identity_db, invitation option) exec" where
  "get_invitation i = (\<lambda>d. (scalar_one_or_none (filter (\<lambda>v. iv_id v = i) (invites d)), d))"

text \<open>\<open>status = PENDING AND expires_at > now\<close>.\<close>

definition pending_at :: "datetime \<Rightarrow> invitation \<Rightarrow> bool" where
  "pending_at now v \<longleftrightarrow> iv_status v = invitation_status.PENDING \<and> now < iv_expires_at v"

definition get_pending_invitation :: "datetime \<Rightarrow> uuid \<Rightarrow> string \<Rightarrow> (error, identity_db, invitation option) exec" where
  "get_pending_invitation now org email =
     (\<lambda>d. (scalar_one_or_none (filter (\<lambda>v. iv_org_id v = org \<and> iv_email v = email \<and> pending_at now v) (invites d)), d))"

definition list_org_invitations :: "uuid \<Rightarrow> invitation_status option \<Rightarrow> identity_db \<Rightarrow> invitation list" where
  "list_org_invitations org status d = sort_key (\<lambda>v. - iv_created_at v)
     (filter (\<lambda>v. iv_org_id v = org \<and> (case status of None \<Rightarrow> True | Some s \<Rightarrow> iv_status v = s)) (invites d))"

definition list_pending_for_email :: "datetime \<Rightarrow> string \<Rightarrow> identity_db \<Rightarrow> invitation list" where
  "list_pending_for_email now email d = sort_key (\<lambda>v. - iv_created_at v)
     (filter (\<lambda>v. iv_email v = email \<and> pending_at now v) (invites d))"

definition update_status :: "uuid \<Rightarrow> invitation_status \<Rightarrow> (error, identity_db, invitation option) exec" where
  "update_status i status =
     bindE (get_invitation i) (\<lambda>found.
     case found of
       None \<Rightarrow> ret None
     | Some v \<Rightarrow>
         bindE (modifyE (\<lambda>d. d\<lparr>invites := update_where (\<lambda>r. iv_id r = i) (\<lambda>r. r\<lparr>iv_status := status\<rparr>) (invites d)\<rparr>)) (\<lambda>_.
         ret (Some (v\<lparr>iv_status := status\<rparr>))))"

definition count_pending_for_org :: "datetime \<Rightarrow> uuid \<Rightarrow> identity_db \<Rightarrow> nat" where
  "count_pending_for_org now org d = length (filter (\<lambda>v. iv_org_id v = org \<and> pending_at now v) (invites d))"

definition stale :: "datetime \<Rightarrow> invitation \<Rightarrow> bool" where
  "stale now v \<longleftrightarrow> iv_status v = invitation_status.PENDING \<and> iv_expires_at v \<le> now"

definition expire_stale_invitations :: "datetime \<Rightarrow> (error, identity_db, nat) exec" where
  "expire_stale_invitations now =
     bindE (getsE (\<lambda>d. length (filter (stale now) (invites d)))) (\<lambda>n.
     bindE (modifyE (\<lambda>d. d\<lparr>invites := update_where (stale now) (\<lambda>v. v\<lparr>iv_status := EXPIRED\<rparr>) (invites d)\<rparr>)) (\<lambda>_.
     ret n))"

section \<open>Projects\<close>

definition project_name_taken :: "uuid \<Rightarrow> string \<Rightarrow> identity_db \<Rightarrow> bool" where
  "project_name_taken org name d = list_ex (\<lambda>p. pj_org_id p = org \<and> pj_name p = name) (projects d)"

text \<open>The flush of a new row; the savepoint turns a violated constraint into an exception.\<close>

definition insert_project :: "datetime \<Rightarrow> uuid \<Rightarrow> string \<Rightarrow> string \<Rightarrow> (error, identity_db, project) exec" where
  "insert_project now org name description = (\<lambda>d.
     let row = \<lparr>pj_id = fresh_id d, pj_org_id = org, pj_name = name, pj_description = description, pj_created_at = now\<rparr> in
     if \<not> org_exists org d \<or> project_name_taken org name d then (Inl IntegrityError, d)
     else (Inr row, d\<lparr>projects := projects d @ [row], fresh_id := Suc (fresh_id d)\<rparr>))"

definition PROJECT_NAME_CONFLICT :: error where
  "PROJECT_NAME_CONFLICT = ConflictError ''A project with this name already exists in this organization.''"

definition create_project_row :: "datetime \<Rightarrow> uuid \<Rightarrow> string \<Rightarrow> string \<Rightarrow> (error, identity_db, project) exec" where
  "create_project_row now org name description =
     catchE (insert_project now org name description) (\<lambda>e. raise (if e = IntegrityError then PROJECT_NAME_CONFLICT else e))"

definition get_project_row :: "uuid \<Rightarrow> (error, identity_db, project option) exec" where
  "get_project_row i = getsE (\<lambda>d. find (\<lambda>p. pj_id p = i) (projects d))"

definition get_project_by_name :: "uuid \<Rightarrow> string \<Rightarrow> (error, identity_db, project option) exec" where
  "get_project_by_name org name =
     (\<lambda>d. (scalar_one_or_none (filter (\<lambda>p. pj_org_id p = org \<and> pj_name p = name) (projects d)), d))"

definition get_or_create_project :: "datetime \<Rightarrow> uuid \<Rightarrow> string \<Rightarrow> (error, identity_db, project) exec" where
  "get_or_create_project now org name =
     bindE (get_project_by_name org name) (\<lambda>existing.
     case existing of
       Some p \<Rightarrow> ret p
     | None \<Rightarrow> catchE (insert_project now org name []) (\<lambda>e.
         if e \<noteq> IntegrityError then raise e else
         bindE (get_project_by_name org name) (\<lambda>again.
         case again of Some p \<Rightarrow> ret p | None \<Rightarrow> raise e)))"

definition edit_project :: "string option \<Rightarrow> string option \<Rightarrow> project \<Rightarrow> project" where
  "edit_project name description p =
     p\<lparr>pj_name := (case name of Some n \<Rightarrow> n | None \<Rightarrow> pj_name p),
       pj_description := (case description of Some t \<Rightarrow> t | None \<Rightarrow> pj_description p)\<rparr>"

definition update_project_row ::
    "uuid \<Rightarrow> string option \<Rightarrow> string option \<Rightarrow> (error, identity_db, project option) exec" where
  "update_project_row i name description =
     bindE (get_project_row i) (\<lambda>found.
     case found of
       None \<Rightarrow> ret None
     | Some p \<Rightarrow> (\<lambda>d.
         if list_ex (\<lambda>q. pj_id q \<noteq> i \<and> pj_org_id q = pj_org_id p \<and> pj_name q = pj_name (edit_project name description p)) (projects d)
         then (Inl PROJECT_NAME_CONFLICT, d)
         else (Inr (Some (edit_project name description p)),
           d\<lparr>projects := update_where (\<lambda>q. pj_id q = i) (edit_project name description) (projects d)\<rparr>)))"

definition delete_project_row :: "uuid \<Rightarrow> (error, identity_db, unit) exec" where
  "delete_project_row i = modifyE (\<lambda>d. d\<lparr>projects := delete_where (\<lambda>p. pj_id p = i) (projects d)\<rparr>)"

definition list_projects :: "uuid \<Rightarrow> identity_db \<Rightarrow> project list" where
  "list_projects org d = sort_key (\<lambda>p. - pj_created_at p) (filter (\<lambda>p. pj_org_id p = org) (projects d))"

section \<open>Users\<close>

definition upsert_user ::
    "datetime \<Rightarrow> string \<Rightarrow> string \<Rightarrow> string \<Rightarrow> (error, identity_db, user \<times> bool \<times> datetime option) exec" where
  "upsert_user now external_id email display_name = (\<lambda>d.
     case scalar_one_or_none (filter (\<lambda>u. usr_external_id u = external_id) (users d)) of
       Inl e \<Rightarrow> (Inl e, d)
     | Inr None \<Rightarrow>
         let row = \<lparr>usr_id = fresh_id d, usr_external_id = external_id, usr_email = email, usr_display_name = display_name,
               usr_created_at = now, usr_last_sign_in_at = Some now\<rparr> in
         if list_ex (\<lambda>u. usr_email u = email) (users d) then (Inl IntegrityError, d)
         else (Inr (row, True, None), d\<lparr>users := users d @ [row], fresh_id := Suc (fresh_id d)\<rparr>)
     | Inr (Some u) \<Rightarrow>
         let u' = u\<lparr>usr_last_sign_in_at := Some now,
               usr_display_name := (if display_name \<noteq> [] \<and> usr_display_name u = [] then display_name else usr_display_name u)\<rparr> in
         (Inr (u', False, usr_last_sign_in_at u),
          d\<lparr>users := update_where (\<lambda>x. usr_id x = usr_id u) (\<lambda>_. u') (users d)\<rparr>))"

definition get_user :: "uuid \<Rightarrow> (error, identity_db, user option) exec" where
  "get_user i = getsE (\<lambda>d. find (\<lambda>u. usr_id u = i) (users d))"

definition get_user_by_email :: "string \<Rightarrow> (error, identity_db, user option) exec" where
  "get_user_by_email email = (\<lambda>d. (scalar_one_or_none (filter (\<lambda>u. lower (usr_email u) = lower email) (users d)), d))"

end
