(* ===== verification/IdentityService.thy ===== *)
theory IdentityService
  imports IdentityRepo
begin

text \<open>
  \<open>services/identity_service.py\<close>: organizations, memberships and roles, invitations, projects and
  API keys; \<open>registry/security.py\<close>; and the credential checks of \<open>api/dependencies.py\<close>.

  Each operation reads the clock once, as \<open>now\<close>. SHA-256 and the random token of a key are
  not code of the repository: the hash is the parameter \<open>sha256\<close>, the token an argument. Messages
  sent to the mail and analytics services are left out, they read the tables only.
\<close>

section \<open>Helpers\<close>

text \<open>\<open>except ValueError as exc: raise ValidationError(str(exc))\<close>.\<close>

definition as_validation :: "error + 'a \<Rightarrow> error + 'a" where
  "as_validation r = (case r of Inl (ValueError m) \<Rightarrow> Inl (ValidationError m) | _ \<Rightarrow> r)"

fun map_optionE :: "('a \<Rightarrow> error + 'b) \<Rightarrow> 'a option \<Rightarrow> error + 'b option" where
  "map_optionE f None = Inr None"
| "map_optionE f (Some x) = (case f x of Inl e \<Rightarrow> Inl e | Inr y \<Rightarrow> Inr (Some y))"

definition required :: "error \<Rightarrow> 'a option \<Rightarrow> (error, 's, 'a) exec" where
  "required e x = (case x of None \<Rightarrow> raise e | Some y \<Rightarrow> ret y)"

definition guardE :: "bool \<Rightarrow> error \<Rightarrow> (error, 's, unit) exec" where
  "guardE b e = (if b then ret () else raise e)"

definition DESCRIPTION_MAX :: nat where "DESCRIPTION_MAX = 2000"

definition API_KEY_PREFIX :: string where "API_KEY_PREFIX = ''sk_pp_''"

definition generate_api_key :: "string \<Rightarrow> string" where
  "generate_api_key token = API_KEY_PREFIX @ token"

definition key_prefix :: "string \<Rightarrow> string" where
  "key_prefix raw = take (length API_KEY_PREFIX + 4) raw"

section \<open>Organizations\<close>

definition create_organization ::
    "datetime \<Rightarrow> string \<Rightarrow> uuid \<Rightarrow> subscription_plan option \<Rightarrow> (error, identity_db, organization) exec" where
  "create_organization now name owner plan =
     bindE (getsE (count_user_owned_orgs owner)) (\<lambda>owned.
     bindE (guardE (int owned < MAX_OWNED_ORGS) OrgLimitReachedError) (\<lambda>_.
     bindE (liftE (as_validation (validate_resource_name name))) (\<lambda>clean.
     bindE (create_organization_row now clean) (\<lambda>org.
     bindE (create_membership now owner (org_id org) OWNER) (\<lambda>_.
     bindE (in_billing (create_subscription now (org_id org) (case plan of Some p \<Rightarrow> p | None \<Rightarrow> HOBBY) None None None None)) (\<lambda>sub.
     bindE (in_billing (create_usage_record now (org_id org) (sub_period_start sub) (sub_period_end sub))) (\<lambda>_.
     bindE (create_project_row now (org_id org) ''onboarding'' ''Your onboarding project'') (\<lambda>_.
     ret org))))))))"

definition ORG_NOT_FOUND :: error where "ORG_NOT_FOUND = NotFoundError ''Organization not found.''"

definition get_organization :: "uuid \<Rightarrow> (error, identity_db, organization) exec" where
  "get_organization i = bindE (get_organization_row i) (required ORG_NOT_FOUND)"

definition update_organization :: "uuid \<Rightarrow> string option \<Rightarrow> (error, identity_db, organization) exec" where
  "update_organization i name =
     bindE (liftE (map_optionE (\<lambda>n. as_validation (validate_resource_name n)) name)) (\<lambda>final_name.
     bindE (update_organization_row i final_name) (required ORG_NOT_FOUND))"

definition delete_organization :: "uuid \<Rightarrow> (error, identity_db, unit) exec" where
  "delete_organization i = bindE (get_organization i) (\<lambda>_. delete_organization_row i)"

section \<open>Membership\<close>

definition require_membership :: "uuid \<Rightarrow> uuid \<Rightarrow> (error, identity_db, membership) exec" where
  "require_membership user org =
     bindE (get_membership user org) (required (AuthorizationError ''You are not a member of this organization.''))"

definition require_admin :: "uuid \<Rightarrow> uuid \<Rightarrow> (error, identity_db, membership) exec" where
  "require_admin user org =
     bindE (require_membership user org) (\<lambda>m.
     bindE (guardE (mb_role m = OWNER \<or> mb_role m = ADMIN) (AuthorizationError ''Admin or Owner role required.'')) (\<lambda>_.
     ret m))"

definition require_owner :: "uuid \<Rightarrow> uuid \<Rightarrow> (error, identity_db, membership) exec" where
  "require_owner user org =
     bindE (require_membership user org) (\<lambda>m.
     bindE (guardE (mb_role m = OWNER) (AuthorizationError ''Owner role required.'')) (\<lambda>_.
     ret m))"

section \<open>Invitations\<close>

definition INVITATION_TTL :: int where "INVITATION_TTL = days 7"

definition may_invite :: "membership_role \<Rightarrow> membership_role \<Rightarrow> error + unit" where
  "may_invite actor role =
     (if actor = MEMBER then Inl (AuthorizationError ''Members cannot invite users to the organization.'')
      else if actor = ADMIN \<and> role \<noteq> MEMBER then Inl (AuthorizationError ''Admins can only invite users with MEMBER role.'')
      else if role = OWNER then Inl (AuthorizationError ''Cannot invite a user as OWNER.'')
      else Inr ())"

definition MEMBER_QUOTA :: error where
  "MEMBER_QUOTA = QuotaExceededError ''Your plan allows no more members. Please upgrade to invite more.''"

text \<open>The plan's limit on members, counting the invitations that are pending.\<close>

definition check_member_quota :: "datetime \<Rightarrow> uuid \<Rightarrow> (error, identity_db, unit) exec" where
  "check_member_quota now org =
     bindE (in_billing (get_subscription_by_org org)) (\<lambda>sub.
     case sub of
       None \<Rightarrow> ret ()
     | Some s \<Rightarrow> (case max_members (get_plan_config (sub_plan s)) of
         None \<Rightarrow> ret ()
       | Some n \<Rightarrow>
           bindE (getsE (count_org_members org)) (\<lambda>member_count.
           bindE (getsE (count_pending_for_org now org)) (\<lambda>pending_count.
           guardE (int member_count + int pending_count < n) MEMBER_QUOTA))))"

definition not_yet_member :: "uuid \<Rightarrow> string \<Rightarrow> (error, identity_db, unit) exec" where
  "not_yet_member org email =
     bindE (get_user_by_email email) (\<lambda>existing.
     case existing of
       None \<Rightarrow> ret ()
     | Some u \<Rightarrow>
         bindE (get_membership (usr_id u) org) (\<lambda>m.
         guardE (m = None) (ConflictError ''User is already a member of this organization.'')))"

definition create_invitation ::
    "datetime \<Rightarrow> uuid \<Rightarrow> uuid \<Rightarrow> string \<Rightarrow> membership_role \<Rightarrow> (error, identity_db, invitation) exec" where
  "create_invitation now actor_id org raw_email role =
     bindE (require_membership actor_id org) (\<lambda>actor.
     bindE (liftE (may_invite (mb_role actor) role)) (\<lambda>_.
     let email = lower (strip raw_email) in
     bindE (get_user actor_id) (\<lambda>actor_user.
     bindE (guardE (case actor_user of None \<Rightarrow> True | Some u \<Rightarrow> lower (usr_email u) \<noteq> email)
        (ConflictError ''You cannot invite yourself.'')) (\<lambda>_.
     bindE (not_yet_member org email) (\<lambda>_.
     bindE (get_pending_invitation now org email) (\<lambda>pending.
     bindE (guardE (pending = None) (ConflictError ''An invitation for this email is already pending.'')) (\<lambda>_.
     bindE (check_member_quota now org) (\<lambda>_.
     create_invitation_row now org email role actor_id (now + INVITATION_TTL)))))))))"

definition INVITATION_NOT_FOUND :: error where "INVITATION_NOT_FOUND = NotFoundError ''Invitation not found.''"
definition ALREADY_PROCESSED :: error where "ALREADY_PROCESSED = ConflictError ''This invitation has already been processed.''"
definition INVITATION_EXPIRED :: error where "INVITATION_EXPIRED = ConflictError ''This invitation has expired.''"

text \<open>What \<open>accept_invitation\<close> and \<open>decline_invitation\<close> do first.\<close>

definition own_pending_invitation :: "datetime \<Rightarrow> uuid \<Rightarrow> uuid \<Rightarrow> (error, identity_db, invitation) exec" where
  "own_pending_invitation now user_id i =
     bindE (get_invitation i) (\<lambda>found.
     bindE (required INVITATION_NOT_FOUND found) (\<lambda>v.
     bindE (get_user user_id) (\<lambda>u.
     bindE (required (NotFoundError ''User not found.'') u) (\<lambda>user.
     bindE (guardE (lower (usr_email user) = lower (iv_email v))
        (AuthorizationError ''This invitation was sent to a different email address.'')) (\<lambda>_.
     bindE (guardE (iv_status v = invitation_status.PENDING) ALREADY_PROCESSED) (\<lambda>_.
     if iv_expires_at v < now
     then bindE (update_status i EXPIRED) (\<lambda>_. raise INVITATION_EXPIRED)
     else ret v))))))"

definition accept_invitation :: "datetime \<Rightarrow> uuid \<Rightarrow> uuid \<Rightarrow> (error, identity_db, membership) exec" where
  "accept_invitation now user_id i =
     bindE (own_pending_invitation now user_id i) (\<lambda>v.
     bindE (get_membership user_id (iv_org_id v)) (\<lambda>existing.
     bindE (guardE (existing = None) (ConflictError ''You are already a member of this organization.'')) (\<lambda>_.
     bindE (create_membership now user_id (iv_org_id v) (iv_role v)) (\<lambda>m.
     bindE (update_status i ACCEPTED) (\<lambda>_.
     ret m)))))"

definition decline_invitation :: "datetime \<Rightarrow> uuid \<Rightarrow> uuid \<Rightarrow> (error, identity_db, unit) exec" where
  "decline_invitation now user_id i =
     bindE (own_pending_invitation now user_id i) (\<lambda>_.
     bindE (update_status i DECLINED) (\<lambda>_. ret ()))"

definition revoke_invitation :: "uuid \<Rightarrow> uuid \<Rightarrow> uuid \<Rightarrow> (error, identity_db, unit) exec" where
  "revoke_invitation actor_id org i =
     bindE (get_invitation i) (\<lambda>found.
     bindE (required INVITATION_NOT_FOUND found) (\<lambda>v.
     bindE (guardE (iv_org_id v = org) INVITATION_NOT_FOUND) (\<lambda>_.
     bindE (require_admin actor_id org) (\<lambda>_.
     bindE (guardE (iv_status v = invitation_status.PENDING) (ConflictError ''Only pending invitations can be revoked.'')) (\<lambda>_.
     bindE (update_status i REVOKED) (\<lambda>_. ret ()))))))"

definition list_my_invitations :: "datetime \<Rightarrow> string \<Rightarrow> identity_db \<Rightarrow> invitation list" where
  "list_my_invitations now email = list_pending_for_email now (lower email)"

section \<open>Roles and removal\<close>

definition TARGET_NOT_MEMBER :: error where
  "TARGET_NOT_MEMBER = NotFoundError ''Target user is not a member of this organization.''"

definition update_member_role :: "uuid \<Rightarrow> uuid \<Rightarrow> uuid \<Rightarrow> membership_role \<Rightarrow> (error, identity_db, membership) exec" where
  "update_member_role actor_id org target_id new_role =
     bindE (guardE (actor_id \<noteq> target_id) (AuthorizationError ''Cannot change your own role.'')) (\<lambda>_.
     bindE (require_membership actor_id org) (\<lambda>actor.
     bindE (guardE (mb_role actor = OWNER) (AuthorizationError ''Only owners can change member roles.'')) (\<lambda>_.
     bindE (get_membership target_id org) (\<lambda>found.
     bindE (required TARGET_NOT_MEMBER found) (\<lambda>target.
     bindE (guardE (mb_role target \<noteq> OWNER) (AuthorizationError ''Cannot change the role of another owner.'')) (\<lambda>_.
     bindE (update_membership_role target_id org new_role) (required TARGET_NOT_MEMBER)))))))"

definition remove_member :: "uuid \<Rightarrow> uuid \<Rightarrow> uuid \<Rightarrow> (error, identity_db, unit) exec" where
  "remove_member actor_id org target_id =
     bindE (require_membership actor_id org) (\<lambda>actor.
     bindE (get_membership target_id org) (\<lambda>found.
     bindE (required TARGET_NOT_MEMBER found) (\<lambda>target.
     bindE (guardE (mb_role target \<noteq> OWNER) (AuthorizationError ''Cannot remove an OWNER from the organization.'')) (\<lambda>_.
     bindE (guardE (mb_role actor \<noteq> MEMBER) (AuthorizationError ''Members cannot remove other members.'')) (\<lambda>_.
     bindE (guardE (\<not> (mb_role actor = ADMIN \<and> mb_role target \<noteq> MEMBER))
        (AuthorizationError ''Admins can only remove members with MEMBER role.'')) (\<lambda>_.
     delete_membership target_id org))))))"

section \<open>Projects\<close>

definition create_project :: "datetime \<Rightarrow> uuid \<Rightarrow> string \<Rightarrow> string \<Rightarrow> (error, identity_db, project) exec" where
  "create_project now org name description =
     bindE (liftE (as_validation (validate_resource_name name))) (\<lambda>clean.
     bindE (liftE (as_validation (sanitize_text DESCRIPTION_MAX description))) (\<lambda>clean_desc.
     bindE (get_organization org) (\<lambda>_.
     create_project_row now org clean clean_desc)))"

definition PROJECT_NOT_FOUND :: error where "PROJECT_NOT_FOUND = NotFoundError ''Project not found.''"

definition get_project :: "uuid \<Rightarrow> uuid option \<Rightarrow> (error, identity_db, project) exec" where
  "get_project i org =
     bindE (get_project_row i) (\<lambda>found.
     bindE (required PROJECT_NOT_FOUND found) (\<lambda>p.
     bindE (guardE (case org of None \<Rightarrow> True | Some o' \<Rightarrow> pj_org_id p = o')
        (AuthorizationError ''Project does not belong to this organization.'')) (\<lambda>_.
     ret p)))"

definition update_project :: "uuid \<Rightarrow> uuid \<Rightarrow> string option \<Rightarrow> string option \<Rightarrow> (error, identity_db, project) exec" where
  "update_project org i name description =
     bindE (get_project i (Some org)) (\<lambda>p.
     bindE (liftE (as_validation (map_optionE validate_resource_name name))) (\<lambda>final_name.
     bindE (liftE (as_validation (map_optionE (sanitize_text DESCRIPTION_MAX) description))) (\<lambda>final_desc.
     bindE (update_project_row (pj_id p) final_name final_desc) (required PROJECT_NOT_FOUND))))"

definition delete_project :: "uuid \<Rightarrow> uuid \<Rightarrow> (error, identity_db, unit) exec" where
  "delete_project org i = bindE (get_project i (Some org)) (\<lambda>_. delete_project_row i)"

section \<open>API keys\<close>

definition expiration_deltas :: "string \<Rightarrow> int option option" where
  "expiration_deltas = [''never'' \<mapsto> None, ''90d'' \<mapsto> Some (days 90)]"

definition create_api_key ::
    "(string \<Rightarrow> string) \<Rightarrow> datetime \<Rightarrow> string \<Rightarrow> uuid \<Rightarrow> string \<Rightarrow> uuid option \<Rightarrow> string \<Rightarrow>
     (error, identity_db, api_key \<times> string) exec" where
  "create_api_key sha256 now token org name created_by expiration =
     bindE (get_organization org) (\<lambda>_.
     case expiration_deltas expiration of
       None \<Rightarrow> raise (ValidationError ''Unsupported expiration value.'')
     | Some delta \<Rightarrow>
         let raw = generate_api_key token in
         bindE (create_api_key_row now org (sha256 raw) (key_prefix raw) name created_by (map_option (\<lambda>t. now + t) delta)) (\<lambda>k.
         ret (k, raw)))"

definition get_api_key :: "uuid \<Rightarrow> uuid \<Rightarrow> (error, identity_db, api_key) exec" where
  "get_api_key i org =
     bindE (get_api_key_row i) (\<lambda>found.
     bindE (required (NotFoundError ''API key not found.'') found) (\<lambda>k.
     bindE (guardE (ak_org_id k = org) (AuthorizationError ''API key does not belong to this organization.'')) (\<lambda>_.
     ret k)))"

definition list_api_keys :: "uuid \<Rightarrow> (error, identity_db, api_key list) exec" where
  "list_api_keys org = bindE (get_organization org) (\<lambda>_. getsE (list_api_key_rows org))"

definition rotate_api_key ::
    "(string \<Rightarrow> string) \<Rightarrow> datetime \<Rightarrow> string \<Rightarrow> uuid \<Rightarrow> uuid \<Rightarrow> uuid option \<Rightarrow> (error, identity_db, api_key \<times> string) exec" where
  "rotate_api_key sha256 now token i org created_by =
     bindE (get_api_key i org) (\<lambda>old.
     bindE (guardE (ak_is_active old) (ValidationError ''Cannot rotate a revoked API key.'')) (\<lambda>_.
     bindE (guardE (ak_expires_at old \<noteq> None) (ValidationError ''Only keys with an expiration can be rotated.'')) (\<lambda>_.
     create_api_key sha256 now token org (ak_name old) created_by ''90d'')))"

definition revoke_api_key :: "uuid \<Rightarrow> uuid \<Rightarrow> (error, identity_db, unit) exec" where
  "revoke_api_key i org = bindE (get_api_key i org) (\<lambda>_. revoke_api_key_row i)"

definition delete_api_key :: "uuid \<Rightarrow> uuid \<Rightarrow> (error, identity_db, unit) exec" where
  "delete_api_key i org = bindE (get_api_key i org) (\<lambda>_. delete_api_key_row i)"

section \<open>Credentials of a request\<close>

datatype auth_method = JWT | API_KEY

record api_context =
  cx_auth_method :: auth_method
  cx_organization :: organization
  cx_project :: "project option"
  cx_user :: "user option"

record jwt_claims =
  cl_sub :: string
  cl_email :: string
  cl_display_name :: string

text \<open>
  A request header with an identifier: absent, no valid UUID, or the UUID it parses to.
  Verifying the token is the identity provider's code; its outcome is an argument.
\<close>

datatype uuid_header = Absent | Malformed | Uuid uuid

definition pick_organization :: "membership list \<Rightarrow> uuid_header \<Rightarrow> (error, identity_db, organization option) exec" where
  "pick_organization ms header = (case header of
       Malformed \<Rightarrow> raise (ValidationError ''X-Organization-ID must be a valid UUID.'')
     | Uuid target \<Rightarrow>
         bindE (guardE (list_ex (\<lambda>m. mb_org_id m = target) ms)
           (AuthenticationError ''You are not a member of the specified organization.'')) (\<lambda>_.
         get_organization_row target)
     | Absent \<Rightarrow> (case ms of [] \<Rightarrow> raise IndexError | m # _ \<Rightarrow> get_organization_row (mb_org_id m)))"

definition pick_project :: "uuid \<Rightarrow> uuid_header \<Rightarrow> (error, identity_db, project option) exec" where
  "pick_project org header = (case header of
       Absent \<Rightarrow> ret None
     | Malformed \<Rightarrow> raise (ValidationError ''X-Project-ID must be a valid UUID.'')
     | Uuid i \<Rightarrow>
         bindE (get_project_row i) (\<lambda>p.
         bindE (guardE (case p of None \<Rightarrow> False | Some q \<Rightarrow> pj_org_id q = org)
           (ValidationError ''Project not found or does not belong to your organization.'')) (\<lambda>_.
         ret p)))"

definition resolve_jwt ::
    "bool \<Rightarrow> datetime \<Rightarrow> error + jwt_claims \<Rightarrow> uuid_header \<Rightarrow> uuid_header \<Rightarrow> (error, identity_db, api_context) exec" where
  "resolve_jwt auth_enabled now verified org_header project_header =
     bindE (liftE verified) (\<lambda>claims.
     bindE (upsert_user now (cl_sub claims) (cl_email claims) (cl_display_name claims)) (\<lambda>(user, _, _).
     bindE (getsE (list_user_orgs (usr_id user))) (\<lambda>ms.
     bindE (if ms = []
            then bindE (create_organization now ''My Organization'' (usr_id user) (if auth_enabled then None else Some DEVELOPMENT))
              (\<lambda>_. getsE (list_user_orgs (usr_id user)))
            else ret ms) (\<lambda>memberships.
     bindE (pick_organization memberships org_header) (\<lambda>found.
     bindE (required (AuthenticationError ''Organization could not be resolved.'') found) (\<lambda>org.
     bindE (pick_project (org_id org) project_header) (\<lambda>project.
     ret \<lparr>cx_auth_method = JWT, cx_organization = org, cx_project = project, cx_user = Some user\<rparr>)))))))"

definition resolve_api_key ::
    "(string \<Rightarrow> string) \<Rightarrow> datetime \<Rightarrow> string \<Rightarrow> string option \<Rightarrow> (error, identity_db, api_context) exec" where
  "resolve_api_key sha256 now raw_key project_name =
     bindE (get_api_key_by_hash (sha256 raw_key)) (\<lambda>found.
     bindE (required (AuthenticationError ''Invalid or revoked API key.'') found) (\<lambda>k.
     bindE (guardE (case ak_expires_at k of None \<Rightarrow> True | Some t \<Rightarrow> \<not> t < now)
        (AuthenticationError ''API key has expired. Please generate a new one.'')) (\<lambda>_.
     bindE (touch_api_key now (ak_id k)) (\<lambda>_.
     bindE (get_organization_row (ak_org_id k)) (\<lambda>o'.
     bindE (required (AuthenticationError ''Organization associated with API key not found.'') o') (\<lambda>org.
     bindE (case project_name of
              None \<Rightarrow> ret None
            | Some pn \<Rightarrow>
                if strip pn = [] then ret None
                else bindE (liftE (as_validation (validate_resource_name pn))) (\<lambda>clean.
                  bindE (get_or_create_project now (ak_org_id k) clean) (\<lambda>p. ret (Some p)))) (\<lambda>project.
     ret \<lparr>cx_auth_method = API_KEY, cx_organization = org, cx_project = project, cx_user = None\<rparr>)))))))"

text \<open>\<open>get_api_context\<close> of the management routes and \<open>get_data_plane_context\<close> of the others.\<close>

record credentials =
  cr_bearer :: "string option"
  cr_api_key :: "string option"
  cr_org_header :: uuid_header
  cr_project_header :: uuid_header
  cr_project_name :: "string option"

definition get_api_context ::
    "bool \<Rightarrow> (string \<Rightarrow> error + jwt_claims) \<Rightarrow> datetime \<Rightarrow> credentials \<Rightarrow> (error, identity_db, api_context) exec" where
  "get_api_context auth_enabled verify now cr = (case cr_bearer cr of
       Some token \<Rightarrow> resolve_jwt auth_enabled now (verify token) (cr_org_header cr) Absent
     | None \<Rightarrow>
         if \<not> auth_enabled then resolve_jwt auth_enabled now (verify ''dev-no-auth'') (cr_org_header cr) Absent
         else raise (AuthenticationError ''Bearer token required. Provide Authorization: Bearer <token>.''))"

definition get_data_plane_context ::
    "bool \<Rightarrow> (string \<Rightarrow> error + jwt_claims) \<Rightarrow> (string \<Rightarrow> string) \<Rightarrow> datetime \<Rightarrow> credentials \<Rightarrow>
     (error, identity_db, api_context) exec" where
  "get_data_plane_context auth_enabled verify sha256 now cr =
     (case cr_api_key cr of
        Some (c # cs) \<Rightarrow> resolve_api_key sha256 now (c # cs) (cr_project_name cr)
      | _ \<Rightarrow> (case cr_bearer cr of
          Some token \<Rightarrow> resolve_jwt auth_enabled now (verify token) (cr_org_header cr) (cr_project_header cr)
        | None \<Rightarrow>
            if \<not> auth_enabled then resolve_jwt auth_enabled now (verify ''dev-no-auth'') (cr_org_header cr) (cr_project_header cr)
            else raise (AuthenticationError ''Missing credentials. Provide Authorization: Bearer <token> (with X-Project-ID) or X-API-Key header.'')))"

definition require_project :: "api_context \<Rightarrow> error + api_context" where
  "require_project ctx = (case cx_project ctx of
       None \<Rightarrow> Inl (ValidationError ''Project scope required. Provide X-Project-ID (Bearer) or X-Project-Name (API key).'')
     | Some _ \<Rightarrow> Inr ctx)"

end
