(* ===== verification/IdentityRoutes.thy ===== *)
theory IdentityRoutes
  imports IdentityService
begin

text \<open>
  The management endpoints: \<open>api/v1/routes/organizations.py\<close>, \<open>projects.py\<close>, \<open>api_keys.py\<close> and
  \<open>user.py\<close>. An endpoint gets the context that \<open>get_api_context\<close> resolved from the credentials
  and runs in the same database session, which \<open>get_db_session\<close> commits or rolls back.

  Parsing of paths and bodies, rate limits and the length bounds of request fields are the
  web framework's; a response holds the entities its fields are copied from.
\<close>

datatype response =
    OrgResponse organization
  | MyOrgResponse organization membership_role
  | MyOrgsResponse "(organization \<times> membership_role) list"
  | MembersResponse "membership list"
  | MemberResponse membership
  | InvitationResponse invitation
  | InvitationsResponse "invitation list"
  | ProjectResponse project
  | ProjectsResponse "project list"
  | KeyResponse api_key bool "string option"
  | KeysResponse "(api_key \<times> bool) list"
  | ProfileResponse user
  | NoContent

definition require_user :: "api_context \<Rightarrow> (error, identity_db, user) exec" where
  "require_user ctx = required (AuthenticationError ''This endpoint requires user authentication (Bearer token).'') (cx_user ctx)"

section \<open>Organizations and members\<close>

definition create_organization_route :: "datetime \<Rightarrow> string \<Rightarrow> api_context \<Rightarrow> (error, identity_db, response) exec" where
  "create_organization_route now name ctx =
     bindE (require_user ctx) (\<lambda>user.
     bindE (create_organization now name (usr_id user) None) (\<lambda>org.
     ret (OrgResponse org)))"

fun orgs_of_memberships :: "membership list \<Rightarrow> (error, identity_db, (organization \<times> membership_role) list) exec" where
  "orgs_of_memberships [] = ret []"
| "orgs_of_memberships (m # ms) =
     bindE (get_organization (mb_org_id m)) (\<lambda>org.
     bindE (orgs_of_memberships ms) (\<lambda>rest.
     ret ((org, mb_role m) # rest)))"

definition list_my_organizations_route :: "api_context \<Rightarrow> (error, identity_db, response) exec" where
  "list_my_organizations_route ctx =
     bindE (require_user ctx) (\<lambda>user.
     bindE (getsE (list_user_orgs (usr_id user))) (\<lambda>ms.
     bindE (orgs_of_memberships ms) (\<lambda>res.
     ret (MyOrgsResponse res))))"

definition get_organization_route :: "uuid \<Rightarrow> api_context \<Rightarrow> (error, identity_db, response) exec" where
  "get_organization_route org ctx =
     bindE (require_user ctx) (\<lambda>user.
     bindE (require_membership (usr_id user) org) (\<lambda>m.
     bindE (get_organization org) (\<lambda>o'.
     ret (MyOrgResponse o' (mb_role m)))))"

definition update_organization_route :: "uuid \<Rightarrow> string option \<Rightarrow> api_context \<Rightarrow> (error, identity_db, response) exec" where
  "update_organization_route org name ctx =
     bindE (require_user ctx) (\<lambda>user.
     bindE (require_admin (usr_id user) org) (\<lambda>_.
     bindE (update_organization org name) (\<lambda>o'.
     ret (OrgResponse o'))))"

definition delete_organization_route :: "uuid \<Rightarrow> api_context \<Rightarrow> (error, identity_db, response) exec" where
  "delete_organization_route org ctx =
     bindE (require_user ctx) (\<lambda>user.
     bindE (require_owner (usr_id user) org) (\<lambda>_.
     bindE (delete_organization org) (\<lambda>_.
     ret NoContent)))"

definition list_members_route :: "uuid \<Rightarrow> api_context \<Rightarrow> (error, identity_db, response) exec" where
  "list_members_route org ctx =
     bindE (require_user ctx) (\<lambda>user.
     bindE (require_membership (usr_id user) org) (\<lambda>_.
     bindE (getsE (list_org_members org)) (\<lambda>ms.
     ret (MembersResponse ms))))"

definition update_member_role_route ::
    "uuid \<Rightarrow> uuid \<Rightarrow> membership_role \<Rightarrow> api_context \<Rightarrow> (error, identity_db, response) exec" where
  "update_member_role_route org target role ctx =
     bindE (require_user ctx) (\<lambda>user.
     bindE (update_member_role (usr_id user) org target role) (\<lambda>m.
     ret (MemberResponse m)))"

definition remove_member_route :: "uuid \<Rightarrow> uuid \<Rightarrow> api_context \<Rightarrow> (error, identity_db, response) exec" where
  "remove_member_route org target ctx =
     bindE (require_user ctx) (\<lambda>user.
     bindE (remove_member (usr_id user) org target) (\<lambda>_.
     ret NoContent))"

section \<open>Invitations\<close>

definition create_invitation_route ::
    "datetime \<Rightarrow> uuid \<Rightarrow> string \<Rightarrow> membership_role \<Rightarrow> api_context \<Rightarrow> (error, identity_db, response) exec" where
  "create_invitation_route now org email role ctx =
     bindE (require_user ctx) (\<lambda>user.
     bindE (create_invitation now (usr_id user) org email role) (\<lambda>v.
     ret (InvitationResponse v)))"

definition list_invitations_route :: "uuid \<Rightarrow> api_context \<Rightarrow> (error, identity_db, response) exec" where
  "list_invitations_route org ctx =
     bindE (require_user ctx) (\<lambda>user.
     bindE (require_membership (usr_id user) org) (\<lambda>_.
     bindE (getsE (list_org_invitations org None)) (\<lambda>vs.
     ret (InvitationsResponse vs))))"

definition revoke_invitation_route :: "uuid \<Rightarrow> uuid \<Rightarrow> api_context \<Rightarrow> (error, identity_db, response) exec" where
  "revoke_invitation_route org i ctx =
     bindE (require_user ctx) (\<lambda>user.
     bindE (revoke_invitation (usr_id user) org i) (\<lambda>_.
     ret NoContent))"

definition get_me_route :: "api_context \<Rightarrow> (error, identity_db, response) exec" where
  "get_me_route ctx = bindE (require_user ctx) (\<lambda>user. ret (ProfileResponse user))"

definition list_my_invitations_route :: "datetime \<Rightarrow> api_context \<Rightarrow> (error, identity_db, response) exec" where
  "list_my_invitations_route now ctx =
     bindE (require_user ctx) (\<lambda>user.
     bindE (getsE (list_my_invitations now (usr_email user))) (\<lambda>vs.
     ret (InvitationsResponse vs)))"

definition accept_invitation_route :: "datetime \<Rightarrow> uuid \<Rightarrow> api_context \<Rightarrow> (error, identity_db, response) exec" where
  "accept_invitation_route now i ctx =
     bindE (require_user ctx) (\<lambda>user.
     bindE (accept_invitation now (usr_id user) i) (\<lambda>m.
     ret (MemberResponse m)))"

definition decline_invitation_route :: "datetime \<Rightarrow> uuid \<Rightarrow> api_context \<Rightarrow> (error, identity_db, response) exec" where
  "decline_invitation_route now i ctx =
     bindE (require_user ctx) (\<lambda>user.
     bindE (decline_invitation now (usr_id user) i) (\<lambda>_.
     ret NoContent))"

section \<open>Projects\<close>

definition create_project_route :: "datetime \<Rightarrow> uuid \<Rightarrow> string \<Rightarrow> string \<Rightarrow> api_context \<Rightarrow> (error, identity_db, response) exec" where
  "create_project_route now org name description ctx =
     bindE (require_user ctx) (\<lambda>user.
     bindE (require_admin (usr_id user) org) (\<lambda>_.
     bindE (create_project now org name description) (\<lambda>p.
     ret (ProjectResponse p))))"

definition list_projects_route :: "uuid \<Rightarrow> api_context \<Rightarrow> (error, identity_db, response) exec" where
  "list_projects_route org ctx =
     bindE (require_user ctx) (\<lambda>user.
     bindE (require_membership (usr_id user) org) (\<lambda>_.
     bindE (getsE (list_projects org)) (\<lambda>ps.
     ret (ProjectsResponse ps))))"

definition get_project_route :: "uuid \<Rightarrow> uuid \<Rightarrow> api_context \<Rightarrow> (error, identity_db, response) exec" where
  "get_project_route org i ctx =
     bindE (require_user ctx) (\<lambda>user.
     bindE (require_membership (usr_id user) org) (\<lambda>_.
     bindE (get_project i (Some org)) (\<lambda>p.
     ret (ProjectResponse p))))"

definition update_project_route ::
    "uuid \<Rightarrow> uuid \<Rightarrow> string option \<Rightarrow> string option \<Rightarrow> api_context \<Rightarrow> (error, identity_db, response) exec" where
  "update_project_route org i name description ctx =
     bindE (require_user ctx) (\<lambda>user.
     bindE (require_admin (usr_id user) org) (\<lambda>_.
     bindE (update_project org i name description) (\<lambda>p.
     ret (ProjectResponse p))))"

definition delete_project_route :: "uuid \<Rightarrow> uuid \<Rightarrow> api_context \<Rightarrow> (error, identity_db, response) exec" where
  "delete_project_route org i ctx =
     bindE (require_user ctx) (\<lambda>user.
     bindE (require_owner (usr_id user) org) (\<lambda>_.
     bindE (delete_project org i) (\<lambda>_.
     ret NoContent)))"

section \<open>API keys\<close>

definition is_effectively_active :: "datetime \<Rightarrow> api_key \<Rightarrow> bool" where
  "is_effectively_active now k \<longleftrightarrow> ak_is_active k \<and> (case ak_expires_at k of None \<Rightarrow> True | Some t \<Rightarrow> \<not> t < now)"

definition key_response :: "datetime \<Rightarrow> api_key \<Rightarrow> string option \<Rightarrow> response" where
  "key_response now k raw = KeyResponse k (is_effectively_active now k) raw"

definition create_api_key_route ::
    "(string \<Rightarrow> string) \<Rightarrow> datetime \<Rightarrow> string \<Rightarrow> uuid \<Rightarrow> string \<Rightarrow> string \<Rightarrow> api_context \<Rightarrow> (error, identity_db, response) exec" where
  "create_api_key_route sha256 now token org name expiration ctx =
     bindE (require_user ctx) (\<lambda>user.
     bindE (require_membership (usr_id user) org) (\<lambda>_.
     bindE (create_api_key sha256 now token org name (Some (usr_id user)) expiration) (\<lambda>(k, raw).
     ret (key_response now k (Some raw)))))"

definition list_org_api_keys_route :: "datetime \<Rightarrow> uuid \<Rightarrow> api_context \<Rightarrow> (error, identity_db, response) exec" where
  "list_org_api_keys_route now org ctx =
     bindE (require_user ctx) (\<lambda>user.
     bindE (require_membership (usr_id user) org) (\<lambda>_.
     bindE (list_api_keys org) (\<lambda>ks.
     ret (KeysResponse (map (\<lambda>k. (k, is_effectively_active now k)) ks)))))"

definition get_api_key_route :: "datetime \<Rightarrow> uuid \<Rightarrow> uuid \<Rightarrow> api_context \<Rightarrow> (error, identity_db, response) exec" where
  "get_api_key_route now org i ctx =
     bindE (require_user ctx) (\<lambda>user.
     bindE (require_membership (usr_id user) org) (\<lambda>_.
     bindE (get_api_key i org) (\<lambda>k.
     ret (key_response now k None))))"

definition rotate_api_key_route ::
    "(string \<Rightarrow> string) \<Rightarrow> datetime \<Rightarrow> string \<Rightarrow> uuid \<Rightarrow> uuid \<Rightarrow> api_context \<Rightarrow> (error, identity_db, response) exec" where
  "rotate_api_key_route sha256 now token org i ctx =
     bindE (require_user ctx) (\<lambda>user.
     bindE (require_admin (usr_id user) org) (\<lambda>_.
     bindE (rotate_api_key sha256 now token i org (Some (usr_id user))) (\<lambda>(k, raw).
     ret (key_response now k (Some raw)))))"

definition delete_api_key_route :: "uuid \<Rightarrow> uuid \<Rightarrow> bool \<Rightarrow> api_context \<Rightarrow> (error, identity_db, response) exec" where
  "delete_api_key_route org i permanent ctx =
     bindE (require_user ctx) (\<lambda>user.
     bindE (require_admin (usr_id user) org) (\<lambda>_.
     bindE (if permanent then delete_api_key i org else revoke_api_key i org) (\<lambda>_.
     ret NoContent)))"

section \<open>Requests\<close>

datatype endpoint =
    CreateOrganization string
  | ListMyOrganizations
  | GetOrganization uuid
  | UpdateOrganization uuid "string option"
  | DeleteOrganization uuid
  | ListMembers uuid
  | UpdateMemberRole uuid uuid membership_role
  | RemoveMember uuid uuid
  | CreateInvitation uuid string membership_role
  | ListInvitations uuid
  | RevokeInvitation uuid uuid
  | GetMe
  | ListMyInvitations
  | AcceptInvitation uuid
  | DeclineInvitation uuid
  | CreateProject uuid string string
  | ListProjects uuid
  | GetProject uuid uuid
  | UpdateProject uuid uuid "string option" "string option"
  | DeleteProject uuid uuid
  | CreateApiKey uuid string string
  | ListApiKeys uuid
  | GetApiKey uuid uuid
  | RotateApiKey uuid uuid
  | DeleteApiKey uuid uuid bool

fun handle_endpoint ::
    "(string \<Rightarrow> string) \<Rightarrow> datetime \<Rightarrow> string \<Rightarrow> endpoint \<Rightarrow> api_context \<Rightarrow> (error, identity_db, response) exec" where
  "handle_endpoint h now token (CreateOrganization name) = create_organization_route now name"
| "handle_endpoint h now token ListMyOrganizations = list_my_organizations_route"
| "handle_endpoint h now token (GetOrganization org) = get_organization_route org"
| "handle_endpoint h now token (UpdateOrganization org name) = update_organization_route org name"
| "handle_endpoint h now token (DeleteOrganization org) = delete_organization_route org"
| "handle_endpoint h now token (ListMembers org) = list_members_route org"
| "handle_endpoint h now token (UpdateMemberRole org target role) = update_member_role_route org target role"
| "handle_endpoint h now token (RemoveMember org target) = remove_member_route org target"
| "handle_endpoint h now token (CreateInvitation org email role) = create_invitation_route now org email role"
| "handle_endpoint h now token (ListInvitations org) = list_invitations_route org"
| "handle_endpoint h now token (RevokeInvitation org i) = revoke_invitation_route org i"
| "handle_endpoint h now token GetMe = get_me_route"
| "handle_endpoint h now token ListMyInvitations = list_my_invitations_route now"
| "handle_endpoint h now token (AcceptInvitation i) = accept_invitation_route now i"
| "handle_endpoint h now token (DeclineInvitation i) = decline_invitation_route now i"
| "handle_endpoint h now token (CreateProject org name t) = create_project_route now org name t"
| "handle_endpoint h now token (ListProjects org) = list_projects_route org"
| "handle_endpoint h now token (GetProject org i) = get_project_route org i"
| "handle_endpoint h now token (UpdateProject org i name t) = update_project_route org i name t"
| "handle_endpoint h now token (DeleteProject org i) = delete_project_route org i"
| "handle_endpoint h now token (CreateApiKey org name expiration) = create_api_key_route h now token org name expiration"
| "handle_endpoint h now token (ListApiKeys org) = list_org_api_keys_route now org"
| "handle_endpoint h now token (GetApiKey org i) = get_api_key_route now org i"
| "handle_endpoint h now token (RotateApiKey org i) = rotate_api_key_route h now token org i"
| "handle_endpoint h now token (DeleteApiKey org i permanent) = delete_api_key_route org i permanent"

text \<open>
  What the process has: whether authentication is on, how tokens are verified and keys are
  hashed. A request comes with the time, the random token a new key would take, and its
  credentials.
\<close>

record auth_env =
  ae_enabled :: bool
  ae_verify :: "string \<Rightarrow> error + jwt_claims"
  ae_sha256 :: "string \<Rightarrow> string"

definition serve :: "auth_env \<Rightarrow> datetime \<Rightarrow> string \<Rightarrow> credentials \<Rightarrow> endpoint \<Rightarrow> (error, identity_db, response) exec" where
  "serve ae now token cr ep = get_db_session
     (bindE (get_api_context (ae_enabled ae) (ae_verify ae) now cr) (handle_endpoint (ae_sha256 ae) now token ep))"

text \<open>A request of the data plane resolves its context, which may create a project.\<close>

definition serve_data :: "auth_env \<Rightarrow> datetime \<Rightarrow> credentials \<Rightarrow> (error, identity_db, api_context) exec" where
  "serve_data ae now cr = get_db_session
     (bindE (get_data_plane_context (ae_enabled ae) (ae_verify ae) (ae_sha256 ae) now cr) (\<lambda>ctx. liftE (require_project ctx)))"

text \<open>The periodic task that expires invitations.\<close>

definition expire_stale_invitations_task :: "datetime \<Rightarrow> (error, identity_db, nat) exec" where
  "expire_stale_invitations_task now = get_db_session (expire_stale_invitations now)"

inductive identity_step :: "auth_env \<Rightarrow> datetime \<Rightarrow> identity_db \<Rightarrow> identity_db \<Rightarrow> bool" for ae now where
  request: "serve ae now token cr ep d = (x, d') \<Longrightarrow> identity_step ae now d d'"
| data: "serve_data ae now cr d = (y, d') \<Longrightarrow> identity_step ae now d d'"
| expiry: "expire_stale_invitations_task now d = (z, d') \<Longrightarrow> identity_step ae now d d'"

inductive_cases identity_stepE: "identity_step ae now d d'"

end
