(* ===== verification/IdentityInv.thy ===== *)
theory IdentityInv
  imports IdentityRoutes
begin

text \<open>
  The well-formedness of the identity tables, what each operation does when it succeeds, and
  that every request keeps the tables well-formed.
\<close>

section \<open>Well-formed tables\<close>

text \<open>
  Keys are unique, identifiers come from the counter, and the users and organizations that memberships,
  invitations, projects, keys and subscriptions belong to exist. Who sent an invitation and who created a
  key (\<open>invited_by\<close>, \<open>created_by\<close>) is not part of it: nothing that is proved rests on these two.
\<close>

definition wf_users :: "identity_db \<Rightarrow> bool" where
  "wf_users d \<longleftrightarrow> distinct (map usr_id (users d)) \<and> distinct (map usr_external_id (users d)) \<and> distinct (map usr_email (users d))
     \<and> (\<forall>u \<in> set (users d). usr_id u < fresh_id d)"

definition wf_orgs :: "identity_db \<Rightarrow> bool" where
  "wf_orgs d \<longleftrightarrow> distinct (map org_id (orgs d)) \<and> (\<forall>r \<in> set (orgs d). org_id r < fresh_id d)"

definition wf_members :: "identity_db \<Rightarrow> bool" where
  "wf_members d \<longleftrightarrow> distinct (map (\<lambda>m. (mb_user_id m, mb_org_id m)) (members d))
     \<and> (\<forall>m \<in> set (members d). user_exists (mb_user_id m) d \<and> org_exists (mb_org_id m) d)"

definition wf_invites :: "identity_db \<Rightarrow> bool" where
  "wf_invites d \<longleftrightarrow> distinct (map iv_id (invites d))
     \<and> (\<forall>v \<in> set (invites d). iv_id v < fresh_id d \<and> org_exists (iv_org_id v) d \<and> iv_role v \<noteq> OWNER)"

definition wf_projects :: "identity_db \<Rightarrow> bool" where
  "wf_projects d \<longleftrightarrow> distinct (map pj_id (projects d)) \<and> distinct (map (\<lambda>p. (pj_org_id p, pj_name p)) (projects d))
     \<and> (\<forall>p \<in> set (projects d). pj_id p < fresh_id d \<and> org_exists (pj_org_id p) d)"

definition wf_keys :: "identity_db \<Rightarrow> bool" where
  "wf_keys d \<longleftrightarrow> distinct (map ak_id (api_keys d)) \<and> distinct (map ak_hash (api_keys d))
     \<and> (\<forall>k \<in> set (api_keys d). ak_id k < fresh_id d \<and> org_exists (ak_org_id k) d)"

definition wf_subs :: "identity_db \<Rightarrow> bool" where
  "wf_subs d \<longleftrightarrow> unique_subs (subs (billing d)) \<and> (\<forall>s \<in> set (subs (billing d)). org_exists (sub_org_id s) d)"

definition identity_wf :: "identity_db \<Rightarrow> bool" where
  "identity_wf d \<longleftrightarrow> wf_users d \<and> wf_orgs d \<and> wf_members d \<and> wf_invites d \<and> wf_projects d \<and> wf_keys d \<and> wf_subs d"

lemmas wf_defs = wf_users_def wf_orgs_def wf_members_def wf_invites_def wf_projects_def wf_keys_def wf_subs_def
  user_exists_def org_exists_def list_ex_iff

section \<open>Successful statements\<close>

lemma required_Inr [simp]: "required e x s = (Inr y, t) \<longleftrightarrow> x = Some y \<and> t = s"
  by (auto simp: required_def split: option.splits)

lemma guardE_Inr [simp]: "guardE b e s = (Inr u, t) \<longleftrightarrow> b \<and> t = s"
  by (auto simp: guardE_def)

lemma as_validation_Inr [simp]: "as_validation r = Inr x \<longleftrightarrow> r = Inr x"
  by (auto simp: as_validation_def split: sum.splits error.splits)

lemma option_as_list [simp]:
  "[n] = (case x of None \<Rightarrow> [] | Some m \<Rightarrow> [m]) \<longleftrightarrow> x = Some n" "[] = (case x of None \<Rightarrow> [] | Some m \<Rightarrow> [m]) \<longleftrightarrow> x = None"
  by (auto split: option.splits)

lemma get_membership_ok [simp]:
  "get_membership u g d = (Inr x, d') \<longleftrightarrow>
     d' = d \<and> filter (\<lambda>m. mb_user_id m = u \<and> mb_org_id m = g) (members d) = (case x of None \<Rightarrow> [] | Some m \<Rightarrow> [m])"
  by (auto simp: get_membership_def split: option.splits dest: scalar_one_or_none_SomeD scalar_one_or_none_NoneD)

lemma get_invitation_ok [simp]:
  "get_invitation i d = (Inr x, d') \<longleftrightarrow> d' = d \<and> filter (\<lambda>v. iv_id v = i) (invites d) = (case x of None \<Rightarrow> [] | Some v \<Rightarrow> [v])"
  by (auto simp: get_invitation_def split: option.splits dest: scalar_one_or_none_SomeD scalar_one_or_none_NoneD)

lemma require_membership_ok [simp]:
  "require_membership u g d = (Inr m, d') \<longleftrightarrow>
     d' = d \<and> filter (\<lambda>m. mb_user_id m = u \<and> mb_org_id m = g) (members d) = [m]"
  by (auto simp: require_membership_def bindE_Inr_iff)

lemma require_admin_ok [simp]:
  "require_admin u g d = (Inr m, d') \<longleftrightarrow>
     d' = d \<and> filter (\<lambda>m. mb_user_id m = u \<and> mb_org_id m = g) (members d) = [m] \<and> (mb_role m = OWNER \<or> mb_role m = ADMIN)"
  by (auto simp: require_admin_def bindE_Inr_iff)

lemma require_owner_ok [simp]:
  "require_owner u g d = (Inr m, d') \<longleftrightarrow>
     d' = d \<and> filter (\<lambda>m. mb_user_id m = u \<and> mb_org_id m = g) (members d) = [m] \<and> mb_role m = OWNER"
  by (auto simp: require_owner_def bindE_Inr_iff)

lemma require_user_ok [simp]: "require_user ctx d = (Inr u, d') \<longleftrightarrow> d' = d \<and> cx_user ctx = Some u"
  by (auto simp: require_user_def)

lemma update_status_ok:
  "update_status i st d = (Inr x, d') \<Longrightarrow> filter (\<lambda>v. iv_id v = i) (invites d) = [v] \<Longrightarrow>
     d' = d\<lparr>invites := update_where (\<lambda>r. iv_id r = i) (\<lambda>r. r\<lparr>iv_status := st\<rparr>) (invites d)\<rparr>"
  by (auto simp: update_status_def bindE_Inr_iff split: option.splits)

lemma own_pending_ok:
  "own_pending_invitation now u i d = (Inr v, d') \<longleftrightarrow>
     d' = d \<and> filter (\<lambda>v. iv_id v = i) (invites d) = [v] \<and> iv_status v = invitation_status.PENDING \<and> now \<le> iv_expires_at v
     \<and> (\<exists>user. find (\<lambda>x. usr_id x = u) (users d) = Some user \<and> lower (usr_email user) = lower (iv_email v))"
  by (auto simp: own_pending_invitation_def bindE_Inr_iff get_user_def not_less intro!: exI[of _ v])

lemma create_membership_ok:
  "create_membership now u g r d = (Inr m, d') \<longleftrightarrow>
     m = \<lparr>mb_id = fresh_id d, mb_user_id = u, mb_org_id = g, mb_role = r, mb_created_at = now\<rparr> \<and>
     d' = d\<lparr>members := members d @ [m], fresh_id := Suc (fresh_id d)\<rparr> \<and> user_exists u d \<and> org_exists g d \<and>
     (\<forall>x \<in> set (members d). \<not> (mb_user_id x = u \<and> mb_org_id x = g))"
  by (auto simp: create_membership_def Let_def list_ex_iff)

lemma accept_invitation_ok:
  assumes "accept_invitation now u i d = (Inr m, d')"
  obtains v where "filter (\<lambda>v. iv_id v = i) (invites d) = [v]" "iv_status v = invitation_status.PENDING" "now \<le> iv_expires_at v"
    "m = \<lparr>mb_id = fresh_id d, mb_user_id = u, mb_org_id = iv_org_id v, mb_role = iv_role v, mb_created_at = now\<rparr>"
    "d' = d\<lparr>members := members d @ [m], fresh_id := Suc (fresh_id d),
       invites := update_where (\<lambda>r. iv_id r = i) (\<lambda>r. r\<lparr>iv_status := ACCEPTED\<rparr>) (invites d)\<rparr>"
    "user_exists u d" "org_exists (iv_org_id v) d" "\<forall>x \<in> set (members d). \<not> (mb_user_id x = u \<and> mb_org_id x = iv_org_id v)"
proof -
  from assms obtain v d1 x where own: "own_pending_invitation now u i d = (Inr v, d)"
    and cm: "create_membership now u (iv_org_id v) (iv_role v) d = (Inr m, d1)"
    and us: "update_status i ACCEPTED d1 = (Inr x, d')"
    by (auto simp: accept_invitation_def bindE_Inr_iff own_pending_ok)
  from own have v: "filter (\<lambda>v. iv_id v = i) (invites d) = [v]" by (simp add: own_pending_ok)
  with cm have "filter (\<lambda>v. iv_id v = i) (invites d1) = [v]" by (simp add: create_membership_ok)
  from update_status_ok[OF us this] cm own show thesis
    by (intro that[OF v]) (auto simp: own_pending_ok create_membership_ok)
qed

lemma decline_invitation_ok:
  assumes "decline_invitation now u i d = (Inr r, d')"
  obtains v where "filter (\<lambda>v. iv_id v = i) (invites d) = [v]" "iv_status v = invitation_status.PENDING"
    "d' = d\<lparr>invites := update_where (\<lambda>r. iv_id r = i) (\<lambda>r. r\<lparr>iv_status := DECLINED\<rparr>) (invites d)\<rparr>"
  using assms by (auto simp: decline_invitation_def bindE_Inr_iff own_pending_ok dest: update_status_ok)

lemma revoke_invitation_ok:
  assumes "revoke_invitation a g i d = (Inr r, d')"
  obtains v m where "filter (\<lambda>v. iv_id v = i) (invites d) = [v]" "iv_status v = invitation_status.PENDING" "iv_org_id v = g"
    "filter (\<lambda>m. mb_user_id m = a \<and> mb_org_id m = g) (members d) = [m]" "mb_role m = OWNER \<or> mb_role m = ADMIN"
    "d' = d\<lparr>invites := update_where (\<lambda>r. iv_id r = i) (\<lambda>r. r\<lparr>iv_status := REVOKED\<rparr>) (invites d)\<rparr>"
  using assms by (auto simp: revoke_invitation_def bindE_Inr_iff dest: update_status_ok)

lemma update_member_role_ok:
  assumes "update_member_role a g t r d = (Inr m', d')"
  obtains m n where "a \<noteq> t" "filter (\<lambda>m. mb_user_id m = a \<and> mb_org_id m = g) (members d) = [m]" "mb_role m = OWNER"
    "filter (\<lambda>m. mb_user_id m = t \<and> mb_org_id m = g) (members d) = [n]" "mb_role n \<noteq> OWNER"
    "d' = d\<lparr>members := update_where (\<lambda>x. mb_user_id x = t \<and> mb_org_id x = g) (\<lambda>x. x\<lparr>mb_role := r\<rparr>) (members d)\<rparr>"
  using assms by (auto simp: update_member_role_def update_membership_role_def bindE_Inr_iff split: option.splits)

definition may_remove :: "membership_role \<Rightarrow> membership_role \<Rightarrow> bool" where
  "may_remove actor target \<longleftrightarrow> (actor, target) \<in> {(OWNER, ADMIN), (OWNER, MEMBER), (ADMIN, MEMBER)}"

lemma remove_member_ok:
  "remove_member a g t d = (Inr u, d') \<longleftrightarrow>
    (\<exists>m n. filter (\<lambda>m. mb_user_id m = a \<and> mb_org_id m = g) (members d) = [m] \<and>
      filter (\<lambda>m. mb_user_id m = t \<and> mb_org_id m = g) (members d) = [n] \<and> may_remove (mb_role m) (mb_role n) \<and>
      d' = d\<lparr>members := delete_where (\<lambda>m. mb_user_id m = t \<and> mb_org_id m = g) (members d)\<rparr>)"
proof -
  have roles: "mb_role n \<noteq> OWNER \<and> mb_role m \<noteq> MEMBER \<and> \<not> (mb_role m = ADMIN \<and> mb_role n \<noteq> MEMBER) \<longleftrightarrow> may_remove (mb_role m) (mb_role n)"
    for m n by (cases "mb_role m"; cases "mb_role n") (simp_all add: may_remove_def)
  show ?thesis unfolding roles[symmetric]
    by (auto simp: remove_member_def bindE_Inr_iff delete_membership_def)
qed

lemma get_subscription_same [simp]: "snd (in_billing (get_subscription_by_org g) d) = d"
  by (simp add: in_billing_def get_subscription_by_org_def split: prod.splits)

lemma check_member_quota_same: "check_member_quota now g d = (Inr u, d') \<Longrightarrow> d' = d"
  using get_subscription_same[of g d]
  by (auto simp: check_member_quota_def bindE_Inr_iff split: option.splits simp del: get_subscription_same)

lemma not_yet_member_same: "not_yet_member g e d = (Inr u, d') \<Longrightarrow> d' = d"
  by (auto simp: not_yet_member_def get_user_by_email_def bindE_Inr_iff split: option.splits)

lemma create_invitation_ok:
  assumes "create_invitation now a g e r d = (Inr v, d')"
  obtains m where "filter (\<lambda>m. mb_user_id m = a \<and> mb_org_id m = g) (members d) = [m]" "mb_role m \<noteq> MEMBER" "r \<noteq> OWNER"
    "check_member_quota now g d = (Inr (), d)" "org_exists g d"
    "v = \<lparr>iv_id = fresh_id d, iv_org_id = g, iv_email = lower (strip e), iv_role = r, iv_invited_by = a,
       iv_status = invitation_status.PENDING, iv_created_at = now, iv_expires_at = now + INVITATION_TTL\<rparr>"
    "d' = d\<lparr>invites := invites d @ [v], fresh_id := Suc (fresh_id d)\<rparr>"
proof -
  from assms obtain m d1 where m: "filter (\<lambda>m. mb_user_id m = a \<and> mb_org_id m = g) (members d) = [m]"
    and inv: "may_invite (mb_role m) r = Inr ()" and quota: "check_member_quota now g d = (Inr (), d1)"
    and row: "create_invitation_row now g (lower (strip e)) r a (now + INVITATION_TTL) d1 = (Inr v, d')"
    by (auto simp: create_invitation_def bindE_Inr_iff Let_def get_user_def get_pending_invitation_def simp del: bindE_liftE
        dest!: not_yet_member_same)
  have "d1 = d" using check_member_quota_same[OF quota] .
  moreover have "mb_role m \<noteq> MEMBER" "r \<noteq> OWNER" using inv by (auto simp: may_invite_def split: if_splits)
  ultimately show thesis using row quota by (intro that[OF m]) (auto simp: create_invitation_row_def Let_def split: if_splits)
qed

lemma in_billing_ok: "in_billing m d = (Inr x, d') \<longleftrightarrow> (\<exists>b. m (billing d) = (Inr x, b) \<and> d' = d\<lparr>billing := b\<rparr>)"
  by (auto simp: in_billing_def split: prod.splits)

lemma create_subscription_row:
  assumes "create_subscription now g plan c i ps pe b = (Inr s, b')"
  shows "subs b' = subs b @ [s] \<and> unique_subs (subs b') \<and> sub_org_id s = g \<and> sub_plan s = plan"
  using assms by (clarsimp simp: create_subscription_def bindE_def flush_subs_def split: if_splits)

lemma create_subscription_ok:
  assumes "in_billing (create_subscription now g plan c i ps pe) d = (Inr s, d')"
  obtains b where "d' = d\<lparr>billing := b\<rparr>" "subs b = subs (billing d) @ [s]" "unique_subs (subs b)" "sub_org_id s = g" "sub_plan s = plan"
  using assms create_subscription_row by (metis in_billing_ok)

lemma create_usage_ok:
  assumes "in_billing (create_usage_record now g ps pe) d = (Inr r, d')"
  obtains b where "d' = d\<lparr>billing := b\<rparr>" "subs b = subs (billing d)"
proof -
  from assms obtain b where b: "create_usage_record now g ps pe (billing d) = (Inr r, b)" "d' = d\<lparr>billing := b\<rparr>"
    by (auto simp: in_billing_ok)
  then have "subs b = subs (billing d)" by (clarsimp simp: create_usage_record_def Let_def split: if_splits)
  with b show thesis by (intro that)
qed

lemma insert_project_ok:
  "insert_project now g n t d = (Inr p, d') \<longleftrightarrow>
     p = \<lparr>pj_id = fresh_id d, pj_org_id = g, pj_name = n, pj_description = t, pj_created_at = now\<rparr> \<and>
     d' = d\<lparr>projects := projects d @ [p], fresh_id := Suc (fresh_id d)\<rparr> \<and> org_exists g d \<and>
     (\<forall>q \<in> set (projects d). \<not> (pj_org_id q = g \<and> pj_name q = n))"
  by (auto simp: insert_project_def Let_def project_name_taken_def list_ex_iff)

lemma create_project_row_ok: "create_project_row now g n t d = (Inr p, d') \<longleftrightarrow> insert_project now g n t d = (Inr p, d')"
  by (auto simp: create_project_row_def catchE_def split: prod.splits sum.splits)

lemma create_organization_row_ok:
  "create_organization_row now n d = (Inr g, d') \<longleftrightarrow> g = \<lparr>org_id = fresh_id d, org_name = n, org_created_at = now\<rparr> \<and>
     d' = d\<lparr>orgs := orgs d @ [g], fresh_id := Suc (fresh_id d)\<rparr>"
  by (auto simp: create_organization_row_def bindE_Inr_iff new_id_def Let_def)

lemma create_organization_ok:
  assumes "create_organization now name u plan d = (Inr g, d')"
  obtains m p b s where
    "org_id g = fresh_id d" "validate_resource_name name = Inr (org_name g)"
    "m = \<lparr>mb_id = Suc (fresh_id d), mb_user_id = u, mb_org_id = fresh_id d, mb_role = OWNER, mb_created_at = now\<rparr>"
    "pj_id p = Suc (Suc (fresh_id d))" "pj_org_id p = fresh_id d"
    "d' = d\<lparr>orgs := orgs d @ [g], members := members d @ [m], projects := projects d @ [p],
       fresh_id := Suc (Suc (Suc (fresh_id d))), billing := b\<rparr>"
    "user_exists u d" "int (count_user_owned_orgs u d) < MAX_OWNED_ORGS"
    "subs b = subs (billing d) @ [s]" "unique_subs (subs b)" "sub_org_id s = fresh_id d"
    "sub_plan s = (case plan of Some q \<Rightarrow> q | None \<Rightarrow> HOBBY)"
proof -
  let ?plan = "case plan of Some q \<Rightarrow> q | None \<Rightarrow> HOBBY"
  from assms obtain n d1 m d2 s d3 r d4 p where lim: "int (count_user_owned_orgs u d) < MAX_OWNED_ORGS"
    and n: "validate_resource_name name = Inr n" and g: "create_organization_row now n d = (Inr g, d1)"
    and m: "create_membership now u (org_id g) OWNER d1 = (Inr m, d2)"
    and s: "in_billing (create_subscription now (org_id g) ?plan None None None None) d2 = (Inr s, d3)"
    and r: "in_billing (create_usage_record now (org_id g) (sub_period_start s) (sub_period_end s)) d3 = (Inr r, d4)"
    and p: "create_project_row now (org_id g) ''onboarding'' ''Your onboarding project'' d4 = (Inr p, d')"
    by (clarsimp simp: create_organization_def bindE_Inr_iff simp del: bindE_liftE)
  obtain b3 where d3: "d3 = d2\<lparr>billing := b3\<rparr>" and s3: "subs b3 = subs (billing d2) @ [s]" "unique_subs (subs b3)"
      "sub_org_id s = org_id g" "sub_plan s = ?plan"
    using create_subscription_ok[OF s] by metis
  obtain b4 where d4: "d4 = d3\<lparr>billing := b4\<rparr>" and s4: "subs b4 = subs (billing d3)" using create_usage_ok[OF r] by metis
  note rows = g[unfolded create_organization_row_ok] m[unfolded create_membership_ok] p[unfolded create_project_row_ok insert_project_ok]
  show thesis
    by (rule that[of m p b4 s]) (use n rows s3 s4 lim in \<open>simp_all add: d3 d4 user_exists_def\<close>)
qed

end
