(* ===== verification/IdentityAccess.thy ===== *)
theory IdentityAccess
  imports IdentityInv
begin

text \<open>
  Access control: an abstract machine over the roles that users hold in organizations, and
  the proof that the endpoints implement it. Its steps are the moves the role hierarchy
  allows to one caller; every endpoint, whatever it is asked to do, makes such moves only.
\<close>

section \<open>The abstract machine\<close>

type_synonym role_table = "uuid \<Rightarrow> uuid \<Rightarrow> membership_role option"

text \<open>
  \<open>access_step u\<close>: what user \<open>u\<close> may do. Only an owner changes roles, and not those of owners;
  a removal follows the hierarchy; only an owner dissolves an organization; a user joins only
  an organization that has an owner and never as owner, but founds one as its owner.
\<close>

inductive access_step :: "uuid \<Rightarrow> role_table \<Rightarrow> role_table \<Rightarrow> bool" for u where
  found: "R g = Map.empty \<Longrightarrow> access_step u R (R(g := [u \<mapsto> OWNER]))"
| join: "R g u = None \<Longrightarrow> R g a = Some OWNER \<Longrightarrow> r \<noteq> OWNER \<Longrightarrow> access_step u R (R(g := (R g)(u \<mapsto> r)))"
| change: "R g u = Some OWNER \<Longrightarrow> t \<noteq> u \<Longrightarrow> R g t = Some r \<Longrightarrow> r \<noteq> OWNER \<Longrightarrow> access_step u R (R(g := (R g)(t \<mapsto> r')))"
| remove: "R g u = Some ru \<Longrightarrow> R g t = Some rt \<Longrightarrow> may_remove ru rt \<Longrightarrow> access_step u R (R(g := (R g)(t := None)))"
| dissolve: "R g u = Some OWNER \<Longrightarrow> access_step u R (R(g := Map.empty))"

definition owned :: "role_table \<Rightarrow> bool" where
  "owned R \<longleftrightarrow> (\<forall>g. R g \<noteq> Map.empty \<longrightarrow> (\<exists>u. R g u = Some OWNER))"

lemma access_step_owned: "access_step u R R' \<Longrightarrow> owned R \<Longrightarrow> owned R'"
proof (induction rule: access_step.induct)
  case (found R g)
  then show ?case by (auto simp: owned_def)
next
  case (join R g a r)
  then have "((R g)(u \<mapsto> r)) a = Some OWNER" by (cases "a = u") auto
  with join show ?case by (auto simp: owned_def simp del: fun_upd_apply) (metis fun_upd_apply)
next
  case (change R g t r r')
  then have "((R g)(t \<mapsto> r')) u = Some OWNER" by simp
  with change show ?case by (auto simp: owned_def simp del: fun_upd_apply) (metis fun_upd_apply)
next
  case (remove R g ru t rt)
  then have "R g \<noteq> Map.empty" by (metis option.distinct(1))
  with remove obtain a where "R g a = Some OWNER" by (auto simp: owned_def)
  then have "((R g)(t := None)) a = Some OWNER" using remove by (cases "a = t") (auto simp: may_remove_def)
  with remove show ?case by (auto simp: owned_def simp del: fun_upd_apply) (metis fun_upd_apply)
qed (auto simp: owned_def)

section \<open>The roles in the tables\<close>

definition roles :: "identity_db \<Rightarrow> role_table" where
  "roles d g u = map_option mb_role (find (\<lambda>m. mb_user_id m = u \<and> mb_org_id m = g) (members d))"

lemma find_filter: "find P xs = (case filter P xs of [] \<Rightarrow> None | x # _ \<Rightarrow> Some x)"
  by (induction xs) auto

lemma roles_filter:
  "filter (\<lambda>m. mb_user_id m = u \<and> mb_org_id m = g) (members d) = [m] \<Longrightarrow> roles d g u = Some (mb_role m)"
  by (simp add: roles_def find_filter)

lemma find_append: "find P (xs @ ys) = (case find P xs of None \<Rightarrow> find P ys | r \<Rightarrow> r)"
  by (induction xs) auto

lemma roles_None: "roles d g u = None \<longleftrightarrow> (\<forall>m \<in> set (members d). \<not> (mb_user_id m = u \<and> mb_org_id m = g))"
  by (auto simp: roles_def find_None_iff)

lemma roles_add:
  assumes "roles d (mb_org_id m) (mb_user_id m) = None" "members d' = members d @ [m]"
  shows "roles d' = (roles d)(mb_org_id m := (roles d (mb_org_id m))(mb_user_id m \<mapsto> mb_role m))"
proof (intro ext)
  fix g u
  show "roles d' g u = ((roles d)(mb_org_id m := (roles d (mb_org_id m))(mb_user_id m \<mapsto> mb_role m))) g u"
    using assms by (cases "g = mb_org_id m \<and> u = mb_user_id m")
      (auto simp: roles_def find_append split: option.splits)
qed

lemma find_update_role:
  "find (\<lambda>m. mb_user_id m = u \<and> mb_org_id m = g) (update_where (\<lambda>x. mb_user_id x = t \<and> mb_org_id x = h) (\<lambda>x. x\<lparr>mb_role := r\<rparr>) ms) =
   map_option (if u = t \<and> g = h then (\<lambda>x. x\<lparr>mb_role := r\<rparr>) else id) (find (\<lambda>m. mb_user_id m = u \<and> mb_org_id m = g) ms)"
  by (induction ms) auto

lemma roles_update:
  assumes "roles d h t \<noteq> None"
    "members d' = update_where (\<lambda>x. mb_user_id x = t \<and> mb_org_id x = h) (\<lambda>x. x\<lparr>mb_role := r\<rparr>) (members d)"
  shows "roles d' = (roles d)(h := (roles d h)(t \<mapsto> r))"
proof (intro ext)
  fix g u
  show "roles d' g u = ((roles d)(h := (roles d h)(t \<mapsto> r))) g u"
    using assms by (cases "g = h"; cases "u = t")
      (auto simp: roles_def find_update_role option.map_comp option.map_id)
qed

lemma find_delete:
  "find P (delete_where Q ms) = find (\<lambda>m. P m \<and> \<not> Q m) ms"
  by (induction ms) (auto simp: delete_where_def)

lemma roles_remove:
  assumes "members d' = delete_where (\<lambda>m. mb_user_id m = t \<and> mb_org_id m = h) (members d)"
  shows "roles d' = (roles d)(h := (roles d h)(t := None))"
proof (intro ext)
  fix g u
  have "find (\<lambda>m. (mb_user_id m = u \<and> mb_org_id m = g) \<and> \<not> (mb_user_id m = t \<and> mb_org_id m = h)) (members d) =
      find (\<lambda>m. (mb_user_id m = u \<and> mb_org_id m = g) \<and> \<not> (u = t \<and> g = h)) (members d)" by (rule find_cong) auto
  then have "roles d' g u = map_option mb_role (find (\<lambda>m. (mb_user_id m = u \<and> mb_org_id m = g) \<and> \<not> (u = t \<and> g = h)) (members d))"
    using assms by (simp only: roles_def find_delete)
  then show "roles d' g u = ((roles d)(h := (roles d h)(t := None))) g u"
    by (cases "g = h \<and> u = t") (auto simp: roles_def find_None_iff)
qed

lemma roles_dissolve:
  assumes "members d' = delete_where (\<lambda>m. mb_org_id m = h) (members d)"
  shows "roles d' = (roles d)(h := Map.empty)"
proof (intro ext)
  fix g u
  have "find (\<lambda>m. (mb_user_id m = u \<and> mb_org_id m = g) \<and> mb_org_id m \<noteq> h) (members d) =
      find (\<lambda>m. (mb_user_id m = u \<and> mb_org_id m = g) \<and> g \<noteq> h) (members d)" by (rule find_cong) auto
  then have "roles d' g u = map_option mb_role (find (\<lambda>m. (mb_user_id m = u \<and> mb_org_id m = g) \<and> g \<noteq> h) (members d))"
    using assms by (simp only: roles_def find_delete)
  then show "roles d' g u = ((roles d)(h := Map.empty)) g u"
    by (cases "g = h") (auto simp: roles_def find_None_iff)
qed

section \<open>Lawful transactions\<close>

text \<open>Every organization has an owner.\<close>

definition has_owners :: "identity_db \<Rightarrow> bool" where
  "has_owners d \<longleftrightarrow> (\<forall>g \<in> set (orgs d). \<exists>u. roles d (org_id g) u = Some OWNER)"

definition identity_inv :: "identity_db \<Rightarrow> bool" where
  "identity_inv d \<longleftrightarrow> identity_wf d \<and> has_owners d"

text \<open>An invitation keeps its addressee and role, and its status changes only from pending.\<close>

definition invitation_forward :: "invitation \<Rightarrow> invitation \<Rightarrow> bool" where
  "invitation_forward v v' \<longleftrightarrow> v' = v\<lparr>iv_status := iv_status v'\<rparr> \<and> (iv_status v' = iv_status v \<or> iv_status v = invitation_status.PENDING)"

definition invites_forward :: "identity_db \<Rightarrow> identity_db \<Rightarrow> bool" where
  "invites_forward d d' \<longleftrightarrow> fresh_id d \<le> fresh_id d' \<and>
     (\<forall>v' \<in> set (invites d'). iv_id v' < fresh_id d \<longrightarrow> (\<exists>v \<in> set (invites d). invitation_forward v v'))"

lemma invitation_forward_trans: "invitation_forward a b \<Longrightarrow> invitation_forward b c \<Longrightarrow> invitation_forward a c"
  by (cases a; cases b; cases c) (auto simp: invitation_forward_def)

lemma invitation_forward_refl [simp]: "invitation_forward v v"
  by (simp add: invitation_forward_def)

lemma invitation_forward_id: "invitation_forward v v' \<Longrightarrow> iv_id v' = iv_id v"
  unfolding invitation_forward_def by (metis invitation.ext_inject invitation.surjective invitation.update_convs(6))

lemma invites_forward_refl: "invites_forward d d"
  unfolding invites_forward_def using invitation_forward_refl by blast

lemma invites_forward_trans:
  assumes "invites_forward a b" "invites_forward b c"
  shows "invites_forward a c"
  unfolding invites_forward_def
proof (intro conjI ballI impI)
  show "fresh_id a \<le> fresh_id c" using assms by (simp add: invites_forward_def)
  fix v3 assume v3: "v3 \<in> set (invites c)" "iv_id v3 < fresh_id a"
  then obtain v2 where v2: "v2 \<in> set (invites b)" "invitation_forward v2 v3"
    using assms by (fastforce simp: invites_forward_def)
  then have "iv_id v3 = iv_id v2" by (simp add: invitation_forward_id)
  with v2 v3 assms(1) obtain v1 where "v1 \<in> set (invites a)" "invitation_forward v1 v2"
    by (fastforce simp: invites_forward_def)
  with v2 show "\<exists>v \<in> set (invites a). invitation_forward v v3" using invitation_forward_trans by blast
qed

text \<open>No user disappears or takes another identity.\<close>

definition known_users :: "identity_db \<Rightarrow> (uuid \<times> string) set" where
  "known_users d = (\<lambda>u. (usr_id u, usr_external_id u)) ` set (users d)"

definition lawful :: "uuid \<Rightarrow> identity_db \<Rightarrow> identity_db \<Rightarrow> bool" where
  "lawful u d d' \<longleftrightarrow> (identity_inv d \<longrightarrow>
     identity_inv d' \<and> (access_step u)\<^sup>*\<^sup>* (roles d) (roles d') \<and> invites_forward d d' \<and> known_users d \<subseteq> known_users d')"

interpretation lawful: exec_preorder "lawful u" for u
  by unfold_locales (auto simp: lawful_def intro: invites_forward_refl invites_forward_trans rtranclp_trans)

lemma lawful_frame:
  assumes "identity_inv d \<Longrightarrow> identity_wf d'" "members d' = members d" "invites d' = invites d"
    "map org_id (orgs d') = map org_id (orgs d)" "fresh_id d \<le> fresh_id d'" "identity_inv d \<Longrightarrow> known_users d \<subseteq> known_users d'"
  shows "lawful u d d'"
proof -
  have "roles d' = roles d" using assms(2) by (simp add: roles_def fun_eq_iff)
  moreover from this have "has_owners d \<Longrightarrow> has_owners d'"
    using arg_cong[OF assms(4), of set] unfolding has_owners_def set_map by (metis (no_types, lifting) imageE image_eqI)
  moreover have "invites_forward d d'" using assms(3,5) invitation_forward_refl unfolding invites_forward_def by metis
  ultimately show ?thesis using assms(1,6) by (simp add: lawful_def identity_inv_def)
qed

section \<open>Changing one table keeps the others well-formed\<close>

lemma wf_with_projects:
  "identity_wf d \<Longrightarrow> fresh_id d \<le> n \<Longrightarrow> wf_projects (d\<lparr>projects := ps, fresh_id := n\<rparr>) \<Longrightarrow> identity_wf (d\<lparr>projects := ps, fresh_id := n\<rparr>)"
  by (auto simp: identity_wf_def wf_defs intro: order_less_le_trans)

lemma wf_with_keys:
  "identity_wf d \<Longrightarrow> fresh_id d \<le> n \<Longrightarrow> wf_keys (d\<lparr>api_keys := ks, fresh_id := n\<rparr>) \<Longrightarrow> identity_wf (d\<lparr>api_keys := ks, fresh_id := n\<rparr>)"
  by (auto simp: identity_wf_def wf_defs intro: order_less_le_trans)

lemma user_exists_iff: "user_exists u d \<longleftrightarrow> u \<in> usr_id ` set (users d)"
  by (auto simp: user_exists_def list_ex_iff)

lemma wf_with_users:
  assumes "identity_wf d" "fresh_id d \<le> n" "wf_users (d\<lparr>users := us, fresh_id := n\<rparr>)" "usr_id ` set (users d) \<subseteq> usr_id ` set us"
  shows "identity_wf (d\<lparr>users := us, fresh_id := n\<rparr>)"
proof -
  let ?d = "d\<lparr>users := us, fresh_id := n\<rparr>"
  have "user_exists u ?d" if "user_exists u d" for u using that assms(4) by (auto simp: user_exists_iff)
  then have "wf_members ?d" using assms(1) by (auto simp: identity_wf_def wf_members_def org_exists_def)
  with assms(1-3) show ?thesis
    by (auto simp: identity_wf_def wf_orgs_def wf_invites_def wf_projects_def wf_keys_def wf_subs_def org_exists_def
        intro: order_less_le_trans)
qed

lemma wf_with_invites:
  "identity_wf d \<Longrightarrow> fresh_id d \<le> n \<Longrightarrow> wf_invites (d\<lparr>invites := vs, fresh_id := n\<rparr>) \<Longrightarrow> identity_wf (d\<lparr>invites := vs, fresh_id := n\<rparr>)"
  by (auto simp: identity_wf_def wf_defs intro: order_less_le_trans)

lemma wf_with_members:
  "identity_wf d \<Longrightarrow> fresh_id d \<le> n \<Longrightarrow> wf_members (d\<lparr>members := ms, fresh_id := n\<rparr>) \<Longrightarrow> identity_wf (d\<lparr>members := ms, fresh_id := n\<rparr>)"
  by (auto simp: identity_wf_def wf_defs intro: order_less_le_trans)

lemma wf_members_table: "identity_wf d \<Longrightarrow> wf_members (d\<lparr>members := ms\<rparr>) \<Longrightarrow> identity_wf (d\<lparr>members := ms\<rparr>)"
  using wf_with_members[of d "fresh_id d" ms] by simp

lemma wf_members_change:
  "wf_members d \<Longrightarrow> wf_members (d\<lparr>members := update_where P (\<lambda>x. x\<lparr>mb_role := r\<rparr>) (members d)\<rparr>)"
  "wf_members d \<Longrightarrow> wf_members (d\<lparr>members := delete_where P (members d)\<rparr>)"
  by (auto simp: wf_members_def user_exists_def org_exists_def map_update_where set_update_where)
     (simp add: delete_where_def distinct_map_filter)

lemma wf_invites_update:
  assumes "identity_wf d"
  shows "identity_wf (d\<lparr>invites := update_where P (\<lambda>r. r\<lparr>iv_status := st\<rparr>) (invites d)\<rparr>)"
proof -
  have "wf_invites (d\<lparr>invites := update_where P (\<lambda>r. r\<lparr>iv_status := st\<rparr>) (invites d), fresh_id := fresh_id d\<rparr>)"
    using assms by (auto simp: identity_wf_def wf_invites_def org_exists_def map_update_where set_update_where)
  from wf_with_invites[OF assms _ this] show ?thesis by simp
qed

lemma invites_forward_update:
  assumes "\<And>v. v \<in> set (invites d) \<Longrightarrow> P v \<Longrightarrow> iv_status v = invitation_status.PENDING"
    "invites d' = update_where P (\<lambda>r. r\<lparr>iv_status := st\<rparr>) (invites d)" "fresh_id d \<le> fresh_id d'"
  shows "invites_forward d d'"
  unfolding invites_forward_def
proof (intro conjI ballI impI)
  fix v' assume "v' \<in> set (invites d')"
  then obtain v where v: "v \<in> set (invites d)" "v' = (if P v then v\<lparr>iv_status := st\<rparr> else v)"
    using assms(2) by (auto simp: update_where_def)
  then have "invitation_forward v v'" using assms(1)[of v] by (auto simp: invitation_forward_def)
  with v show "\<exists>v \<in> set (invites d). invitation_forward v v'" by blast
qed (rule assms(3))

lemma invites_forward_new:
  assumes "\<And>v. v \<in> set (invites d') \<Longrightarrow> v \<in> set (invites d) \<or> fresh_id d \<le> iv_id v" "fresh_id d \<le> fresh_id d'"
  shows "invites_forward d d'"
  unfolding invites_forward_def
proof (intro conjI ballI impI)
  fix v' assume "v' \<in> set (invites d')" "iv_id v' < fresh_id d"
  then have "v' \<in> set (invites d)" using assms(1)[of v'] by auto
  then show "\<exists>v \<in> set (invites d). invitation_forward v v'" using invitation_forward_refl[of v'] by blast
qed (rule assms(2))

lemma filter_single_in: "filter P xs = [x] \<Longrightarrow> y \<in> set xs \<Longrightarrow> P y \<Longrightarrow> y = x"
  using set_filter[of P xs] by auto

lemma filter_single_mem: "filter P xs = [x] \<Longrightarrow> x \<in> set xs \<and> P x"
  using set_filter[of P xs] by auto

lemma owners_kept:
  assumes "has_owners d" "orgs d' = orgs d" "\<And>g u. roles d g u = Some OWNER \<Longrightarrow> roles d' g u = Some OWNER"
  shows "has_owners d'"
  using assms by (fastforce simp: has_owners_def)

lemma lawfulI:
  assumes "identity_inv d \<Longrightarrow> identity_wf d'" "identity_inv d \<Longrightarrow> has_owners d'"
    "identity_inv d \<Longrightarrow> access_step u (roles d) (roles d') \<or> roles d' = roles d" "invites_forward d d'"
    "users d' = users d"
  shows "lawful u d d'"
  using assms by (auto simp: lawful_def identity_inv_def known_users_def)

section \<open>Memberships and invitations\<close>

lemma lawful_status:
  assumes "\<And>v. v \<in> set (invites d) \<Longrightarrow> P v \<Longrightarrow> iv_status v = invitation_status.PENDING"
  shows "lawful u d (d\<lparr>invites := update_where P (\<lambda>r. r\<lparr>iv_status := st\<rparr>) (invites d)\<rparr>)"
proof (rule lawfulI)
  let ?d = "d\<lparr>invites := update_where P (\<lambda>r. r\<lparr>iv_status := st\<rparr>) (invites d)\<rparr>"
  have same: "roles ?d = roles d" by (simp add: roles_def fun_eq_iff)
  then show "access_step u (roles d) (roles ?d) \<or> roles ?d = roles d" by simp
  show "identity_wf ?d" if "identity_inv d" using that by (simp add: identity_inv_def wf_invites_update)
  show "has_owners ?d" if "identity_inv d" using that same by (simp add: identity_inv_def has_owners_def)
qed (rule invites_forward_update[OF assms], simp_all)

lemma lawful_decline: "commits (lawful u) (decline_invitation now u i)"
proof (rule commitsI)
  fix d r d' assume "decline_invitation now u i d = (Inr r, d')"
  then obtain v where v: "filter (\<lambda>v. iv_id v = i) (invites d) = [v]" "iv_status v = invitation_status.PENDING"
    and d': "d' = d\<lparr>invites := update_where (\<lambda>r. iv_id r = i) (\<lambda>r. r\<lparr>iv_status := DECLINED\<rparr>) (invites d)\<rparr>"
    by (rule decline_invitation_ok)
  show "lawful u d d'" unfolding d' using v filter_single_in[OF v(1)] by (intro lawful_status) auto
qed

lemma lawful_revoke: "commits (lawful u) (revoke_invitation a g i)"
proof (rule commitsI)
  fix d r d' assume "revoke_invitation a g i d = (Inr r, d')"
  then obtain v m where v: "filter (\<lambda>v. iv_id v = i) (invites d) = [v]" "iv_status v = invitation_status.PENDING"
    and d': "d' = d\<lparr>invites := update_where (\<lambda>r. iv_id r = i) (\<lambda>r. r\<lparr>iv_status := REVOKED\<rparr>) (invites d)\<rparr>"
    by (rule revoke_invitation_ok)
  show "lawful u d d'" unfolding d' using v filter_single_in[OF v(1)] by (intro lawful_status) auto
qed

lemma lawful_expire: "commits (lawful u) (expire_stale_invitations now)"
proof (rule commitsI)
  fix d r d' assume "expire_stale_invitations now d = (Inr r, d')"
  then have d': "d' = d\<lparr>invites := update_where (stale now) (\<lambda>v. v\<lparr>iv_status := EXPIRED\<rparr>) (invites d)\<rparr>"
    by (simp add: expire_stale_invitations_def bindE_def)
  show "lawful u d d'" unfolding d' by (intro lawful_status) (simp add: stale_def)
qed

lemma lawful_invite: "commits (lawful u) (create_invitation now a g e r)"
proof (rule commitsI)
  fix d v d' assume "create_invitation now a g e r d = (Inr v, d')"
  then obtain m where r: "r \<noteq> OWNER" and g: "org_exists g d"
    and v: "v = \<lparr>iv_id = fresh_id d, iv_org_id = g, iv_email = lower (strip e), iv_role = r, iv_invited_by = a,
       iv_status = invitation_status.PENDING, iv_created_at = now, iv_expires_at = now + INVITATION_TTL\<rparr>"
    and d': "d' = d\<lparr>invites := invites d @ [v], fresh_id := Suc (fresh_id d)\<rparr>" by (rule create_invitation_ok)
  show "lawful u d d'"
  proof (rule lawfulI)
    show same: "access_step u (roles d) (roles d') \<or> roles d' = roles d" by (simp add: roles_def fun_eq_iff d')
    show "identity_wf d'" if "identity_inv d" unfolding d'
      by (rule wf_with_invites) (use that r g in \<open>fastforce simp: v identity_inv_def identity_wf_def wf_invites_def org_exists_def\<close>)+
    show "has_owners d'" if "identity_inv d" using that by (simp add: identity_inv_def has_owners_def d' roles_def)
    show "invites_forward d d'"
      by (rule invites_forward_new) (auto simp: d' v)
  qed (simp add: d')
qed

lemma lawful_accept: "commits (lawful u) (accept_invitation now u i)"
proof (rule commitsI)
  fix d m d' assume "accept_invitation now u i d = (Inr m, d')"
  then obtain v where v: "filter (\<lambda>v. iv_id v = i) (invites d) = [v]" "iv_status v = invitation_status.PENDING"
    and m: "m = \<lparr>mb_id = fresh_id d, mb_user_id = u, mb_org_id = iv_org_id v, mb_role = iv_role v, mb_created_at = now\<rparr>"
    and d': "d' = d\<lparr>members := members d @ [m], fresh_id := Suc (fresh_id d),
       invites := update_where (\<lambda>r. iv_id r = i) (\<lambda>r. r\<lparr>iv_status := ACCEPTED\<rparr>) (invites d)\<rparr>"
    and fk: "user_exists u d" "org_exists (iv_org_id v) d"
    and new: "\<forall>x \<in> set (members d). \<not> (mb_user_id x = u \<and> mb_org_id x = iv_org_id v)" by (rule accept_invitation_ok)
  have none: "roles d (iv_org_id v) u = None" using new by (simp add: roles_None)
  have R: "roles d' = (roles d)(iv_org_id v := (roles d (iv_org_id v))(u \<mapsto> iv_role v))"
    using roles_add[of d m d'] none by (simp add: d' m)
  show "lawful u d d'"
  proof (rule lawfulI)
    assume inv: "identity_inv d"
    then obtain a where a: "roles d (iv_org_id v) a = Some OWNER"
      using fk(2) by (auto simp: identity_inv_def has_owners_def org_exists_def list_ex_iff)
    have "iv_role v \<noteq> OWNER"
      using inv filter_single_mem[OF v(1)] by (auto simp: identity_inv_def identity_wf_def wf_invites_def)
    then show "access_step u (roles d) (roles d') \<or> roles d' = roles d"
      unfolding R using access_step.join[of "roles d" "iv_org_id v" u a] none a by blast
    have "identity_wf (d\<lparr>members := members d @ [m], fresh_id := Suc (fresh_id d)\<rparr>)"
      by (rule wf_with_members)
        (use inv fk new in \<open>auto simp: m identity_inv_def identity_wf_def wf_members_def user_exists_def org_exists_def\<close>)
    from wf_invites_update[OF this, of "\<lambda>r. iv_id r = i" ACCEPTED] show "identity_wf d'" by (simp add: d')
    show "has_owners d'"
      by (rule owners_kept[of d]) (use inv none in \<open>auto simp: identity_inv_def R, simp add: d'\<close>)
  next
    show "users d' = users d" by (simp add: d')
  qed (rule invites_forward_update[of _ "\<lambda>r. iv_id r = i" _ ACCEPTED], use v filter_single_in[OF v(1)] in \<open>auto simp: d'\<close>)
qed

lemma lawful_change_role: "commits (lawful u) (update_member_role u g t r)"
proof (rule commitsI)
  fix d m' d' assume "update_member_role u g t r d = (Inr m', d')"
  then obtain m n where ne: "u \<noteq> t" and m: "filter (\<lambda>m. mb_user_id m = u \<and> mb_org_id m = g) (members d) = [m]" "mb_role m = OWNER"
    and n: "filter (\<lambda>m. mb_user_id m = t \<and> mb_org_id m = g) (members d) = [n]" "mb_role n \<noteq> OWNER"
    and d': "d' = d\<lparr>members := update_where (\<lambda>x. mb_user_id x = t \<and> mb_org_id x = g) (\<lambda>x. x\<lparr>mb_role := r\<rparr>) (members d)\<rparr>"
    by (rule update_member_role_ok)
  note R = roles_filter[OF m(1)] roles_filter[OF n(1)]
  have R': "roles d' = (roles d)(g := (roles d g)(t \<mapsto> r))"
    using R(2) by (intro roles_update) (simp_all add: d')
  show "lawful u d d'"
  proof (rule lawfulI)
    show "access_step u (roles d) (roles d') \<or> roles d' = roles d"
      unfolding R' using access_step.change[of "roles d" g u t "mb_role n" r] R m n ne by auto
    show "identity_wf d'" if "identity_inv d"
      using that unfolding d' identity_inv_def by (intro wf_members_table wf_members_change) (simp_all add: identity_wf_def)
    show "has_owners d'" if "identity_inv d"
      by (rule owners_kept[of d]) (use that R n in \<open>auto simp: identity_inv_def R', simp_all add: d'\<close>)
    show "invites_forward d d'" by (rule invites_forward_new) (simp_all add: d')
  qed (simp add: d')
qed

lemma lawful_remove: "commits (lawful u) (remove_member u g t)"
proof (rule commitsI)
  fix d x d' assume "remove_member u g t d = (Inr x, d')"
  then obtain m n where m: "filter (\<lambda>m. mb_user_id m = u \<and> mb_org_id m = g) (members d) = [m]"
    and n: "filter (\<lambda>m. mb_user_id m = t \<and> mb_org_id m = g) (members d) = [n]" and may: "may_remove (mb_role m) (mb_role n)"
    and d': "d' = d\<lparr>members := delete_where (\<lambda>m. mb_user_id m = t \<and> mb_org_id m = g) (members d)\<rparr>"
    by (auto simp: remove_member_ok)
  note R = roles_filter[OF m] roles_filter[OF n]
  have R': "roles d' = (roles d)(g := (roles d g)(t := None))" by (rule roles_remove) (simp add: d')
  show "lawful u d d'"
  proof (rule lawfulI)
    show "access_step u (roles d) (roles d') \<or> roles d' = roles d"
      unfolding R' using access_step.remove[of "roles d" g u _ t] R may by auto
    show "identity_wf d'" if "identity_inv d"
      using that unfolding d' identity_inv_def by (intro wf_members_table wf_members_change) (simp_all add: identity_wf_def)
    show "has_owners d'" if "identity_inv d"
      by (rule owners_kept[of d]) (use that R may in \<open>auto simp: identity_inv_def R' may_remove_def, simp_all add: d'\<close>)
    show "invites_forward d d'" by (rule invites_forward_new) (simp_all add: d')
  qed (simp add: d')
qed

section \<open>Organizations\<close>

lemma delete_organization_ok:
  assumes "delete_organization g d = (Inr x, d')"
  shows "d' = d\<lparr>orgs := delete_where (\<lambda>r. org_id r = g) (orgs d), members := delete_where (\<lambda>r. mb_org_id r = g) (members d),
      projects := delete_where (\<lambda>r. pj_org_id r = g) (projects d), api_keys := delete_where (\<lambda>r. ak_org_id r = g) (api_keys d),
      invites := delete_where (\<lambda>r. iv_org_id r = g) (invites d), billing := delete_billing_of g (billing d)\<rparr>"
  using assms
  by (auto simp: delete_organization_def get_organization_def delete_organization_row_def bindE_Inr_iff get_organization_row_def
      split: option.splits)

lemma org_exists_delete:
  "org_exists h (d\<lparr>orgs := delete_where (\<lambda>r. org_id r = g) (orgs d), members := ms, projects := ps, api_keys := ks, invites := vs, billing := b\<rparr>)
     \<longleftrightarrow> h \<noteq> g \<and> org_exists h d"
  by (auto simp: org_exists_def list_ex_iff)

lemma unique_subs_delete:
  assumes "unique_subs xs"
  shows "unique_subs (delete_where P xs)"
proof -
  have "filter (\<lambda>s. sub_stripe_id s \<noteq> None) (delete_where P xs) = filter (\<lambda>s. \<not> P s) (filter (\<lambda>s. sub_stripe_id s \<noteq> None) xs)"
    by (induction xs) (auto simp: delete_where_def)
  then have "distinct (map sub_stripe_id (filter (\<lambda>s. sub_stripe_id s \<noteq> None) (delete_where P xs)))"
    using assms by (simp only: unique_subs_def distinct_map_filter)
  moreover have "distinct (map sub_org_id (delete_where P xs))"
    using assms by (simp only: unique_subs_def delete_where_def distinct_map_filter)
  ultimately show ?thesis by (simp only: unique_subs_def)
qed

lemma wf_dissolve:
  assumes "identity_wf d" "delete_organization g d = (Inr x, d')"
  shows "identity_wf d'"
proof -
  note d' = delete_organization_ok[OF assms(2)]
  have ex: "org_exists h d' \<longleftrightarrow> h \<noteq> g \<and> org_exists h d" for h unfolding d' by (rule org_exists_delete)
  have us: "user_exists h d' = user_exists h d" for h by (simp add: d' user_exists_def)
  show ?thesis unfolding identity_wf_def
  proof (intro conjI)
    show "wf_users d'" using assms(1) by (simp add: identity_wf_def wf_users_def d')
    show "wf_orgs d'" using assms(1) by (simp add: identity_wf_def wf_orgs_def d' delete_where_def distinct_map_filter)
    show "wf_members d'" using assms(1) unfolding identity_wf_def wf_members_def ex us
      by (auto simp: d') (simp add: delete_where_def distinct_map_filter)
    show "wf_invites d'" using assms(1) unfolding identity_wf_def wf_invites_def ex
      by (auto simp: d') (simp add: delete_where_def distinct_map_filter)
    show "wf_projects d'" using assms(1) unfolding identity_wf_def wf_projects_def ex
      by (auto simp: d') (simp_all add: delete_where_def distinct_map_filter)
    show "wf_keys d'" using assms(1) unfolding identity_wf_def wf_keys_def ex
      by (auto simp: d') (simp_all add: delete_where_def distinct_map_filter)
    show "wf_subs d'" using assms(1) unfolding identity_wf_def wf_subs_def ex
      by (auto simp: d' delete_billing_of_def unique_subs_delete)
  qed
qed

lemma lawful_dissolve:
  "commits (lawful u) (bindE (require_owner u g) (\<lambda>_. bindE (delete_organization g) k))"
  if "\<And>x. commits (lawful u) (k x)" for k
proof (intro commitsI)
  fix d y d2 assume "bindE (require_owner u g) (\<lambda>_. bindE (delete_organization g) k) d = (Inr y, d2)"
  then obtain m x d' where m: "filter (\<lambda>m. mb_user_id m = u \<and> mb_org_id m = g) (members d) = [m]" "mb_role m = OWNER"
    and del: "delete_organization g d = (Inr x, d')" and k: "k x d' = (Inr y, d2)" by (auto simp: bindE_Inr_iff)
  note d' = delete_organization_ok[OF del]
  have R': "roles d' = (roles d)(g := Map.empty)" by (rule roles_dissolve) (simp add: d')
  have "lawful u d d'"
  proof (rule lawfulI)
    show "access_step u (roles d) (roles d') \<or> roles d' = roles d"
      unfolding R' using access_step.dissolve[of "roles d" g u] roles_filter[OF m(1)] m(2) by auto
    show "identity_wf d'" if "identity_inv d" using that del by (auto simp: identity_inv_def intro: wf_dissolve)
    show "has_owners d'" if "identity_inv d"
      using that by (auto simp: identity_inv_def has_owners_def R') (auto simp: d')
    show "invites_forward d d'"
      by (rule invites_forward_new) (simp_all add: d')
  qed (simp add: d')
  from this commitsD[OF that k] show "lawful u d d2" by (rule lawful.rel_trans)
qed

lemma lawful_found: "commits (lawful u) (create_organization now name u plan)"
proof (rule commitsI)
  fix d g d' assume "create_organization now name u plan d = (Inr g, d')"
  then obtain m p b s where g: "org_id g = fresh_id d"
    and m: "m = \<lparr>mb_id = Suc (fresh_id d), mb_user_id = u, mb_org_id = fresh_id d, mb_role = OWNER, mb_created_at = now\<rparr>"
    and p: "pj_id p = Suc (Suc (fresh_id d))" "pj_org_id p = fresh_id d"
    and d': "d' = d\<lparr>orgs := orgs d @ [g], members := members d @ [m], projects := projects d @ [p],
       fresh_id := Suc (Suc (Suc (fresh_id d))), billing := b\<rparr>"
    and u: "user_exists u d" and b: "subs b = subs (billing d) @ [s]" "unique_subs (subs b)" "sub_org_id s = fresh_id d"
    by (rule create_organization_ok)
  have ex: "org_exists h d' \<longleftrightarrow> h = fresh_id d \<or> org_exists h d" for h using g by (auto simp: org_exists_def d')
  have us: "user_exists h d' = user_exists h d" for h by (simp add: d' user_exists_def)
  show "lawful u d d'"
  proof (rule lawfulI)
    assume inv: "identity_inv d"
    then have wf: "identity_wf d" by (simp add: identity_inv_def)
    have new: "\<not> org_exists (fresh_id d) d" using wf by (auto simp: identity_wf_def wf_orgs_def org_exists_def list_ex_iff)
    have none: "mb_org_id x \<noteq> fresh_id d" if "x \<in> set (members d)" for x
      using wf new that by (auto simp: identity_wf_def wf_members_def)
    then have empty: "roles d (fresh_id d) = Map.empty" by (auto simp: fun_eq_iff roles_None)
    then have R: "roles d' = (roles d)(fresh_id d := [u \<mapsto> OWNER])" using roles_add[of d m d'] by (simp add: m d')
    show "access_step u (roles d) (roles d') \<or> roles d' = roles d"
      unfolding R using access_step.found[of "roles d" "fresh_id d" u] empty by blast
    show "has_owners d'"
      unfolding has_owners_def R using inv g by (auto simp: d' identity_inv_def has_owners_def)
    show "identity_wf d'" unfolding identity_wf_def
    proof (intro conjI)
      show "wf_users d'" using wf by (auto simp: identity_wf_def wf_users_def d' intro: less_SucI)
      show "wf_orgs d'" using wf g by (auto simp: identity_wf_def wf_orgs_def d' intro: less_SucI)
      show "wf_members d'" using wf u none unfolding identity_wf_def wf_members_def ex us by (auto simp: d' m dest: none)
      show "wf_invites d'" using wf unfolding identity_wf_def wf_invites_def ex by (auto simp: d' intro: less_SucI)
      show "wf_keys d'" using wf unfolding identity_wf_def wf_keys_def ex by (auto simp: d' intro: less_SucI)
      show "wf_subs d'" using wf b unfolding identity_wf_def wf_subs_def ex by (auto simp: d')
      show "wf_projects d'" using wf new p unfolding identity_wf_def wf_projects_def ex
        by (auto simp: d' intro: less_SucI)
    qed
  next
    show "invites_forward d d'" by (rule invites_forward_new) (simp_all add: d')
  qed (simp add: d')
qed

lemma lawful_rename: "commits (lawful u) (update_organization g name)"
proof (rule commitsI)
  fix d x d' assume "update_organization g name d = (Inr x, d')"
  then obtain n where d': "d' = d\<lparr>orgs := update_where (\<lambda>r. org_id r = g)
      (\<lambda>r. case n of None \<Rightarrow> r | Some n \<Rightarrow> r\<lparr>org_name := n\<rparr>) (orgs d)\<rparr>"
    by (auto simp: update_organization_def update_organization_row_def get_organization_row_def bindE_Inr_iff simp del: bindE_liftE
        split: option.splits)
  have ids: "map org_id (orgs d') = map org_id (orgs d)" by (auto simp: d' intro!: map_update_where split: option.splits)
  then have ids': "org_id ` set (orgs d') = org_id ` set (orgs d)" by (metis set_map)
  have ex: "org_exists h d' = org_exists h d" for h
  proof -
    have "org_exists h e \<longleftrightarrow> h \<in> org_id ` set (orgs e)" for e by (auto simp: org_exists_def list_ex_iff)
    with ids' show ?thesis by simp
  qed
  have same: "users d' = users d" "members d' = members d" "invites d' = invites d" "projects d' = projects d"
    "api_keys d' = api_keys d" "billing d' = billing d" "fresh_id d' = fresh_id d" by (simp_all add: d')
  have "wf_orgs e \<longleftrightarrow> distinct (map org_id (orgs e)) \<and> (\<forall>i \<in> org_id ` set (orgs e). i < fresh_id e)" for e
    by (simp add: wf_orgs_def)
  then have "wf_orgs d' \<longleftrightarrow> wf_orgs d" by (simp only: ids ids' same(7))
  then have "identity_wf d'" if "identity_wf d"
    using that unfolding identity_wf_def wf_users_def wf_members_def wf_invites_def wf_projects_def wf_keys_def wf_subs_def
      ex same user_exists_def by simp
  then show "lawful u d d'" using same ids by (intro lawful_frame) (auto simp: identity_inv_def known_users_def)
qed

section \<open>Projects, keys and users\<close>

lemma lawful_projects:
  assumes "identity_wf d \<Longrightarrow> wf_projects (d\<lparr>projects := ps, fresh_id := n\<rparr>)" "fresh_id d \<le> n"
  shows "lawful u d (d\<lparr>projects := ps, fresh_id := n\<rparr>)"
  using assms by (intro lawful_frame wf_with_projects) (auto simp: identity_inv_def known_users_def)

lemma lawful_insert_project: "commits (lawful u) (insert_project now g n t)"
proof (rule commitsI)
  fix d p d' assume "insert_project now g n t d = (Inr p, d')"
  then have p: "p = \<lparr>pj_id = fresh_id d, pj_org_id = g, pj_name = n, pj_description = t, pj_created_at = now\<rparr>"
    and d': "d' = d\<lparr>projects := projects d @ [p], fresh_id := Suc (fresh_id d)\<rparr>" and g: "org_exists g d"
    and new: "\<forall>q \<in> set (projects d). \<not> (pj_org_id q = g \<and> pj_name q = n)" by (simp_all add: insert_project_ok)
  show "lawful u d d'" unfolding d' using g new
    by (intro lawful_projects) (auto simp: p identity_wf_def wf_projects_def org_exists_def intro: less_SucI)
qed

lemma lawful_create_project_row: "commits (lawful u) (create_project_row now g n t)"
  using lawful_insert_project by (auto simp: commits_def create_project_row_ok)

lemma insert_project_raises: "insert_project now g n t d = (Inl e, d') \<Longrightarrow> d' = d"
  by (auto simp: insert_project_def Let_def split: if_splits)

lemma get_project_by_name_same [simp]: "snd (get_project_by_name g n d) = d"
  by (simp add: get_project_by_name_def)

lemma lawful_get_or_create_project: "commits (lawful u) (get_or_create_project now g n)"
proof -
  have "commits (lawful u) (catchE (insert_project now g n []) (\<lambda>e.
         if e \<noteq> IntegrityError then raise e else
         bindE (get_project_by_name g n) (\<lambda>again. case again of Some p \<Rightarrow> ret p | None \<Rightarrow> raise e)))" (is "commits _ ?m")
  proof (rule commitsI)
    fix d p d' assume run: "?m d = (Inr p, d')"
    show "lawful u d d'"
    proof (cases "insert_project now g n [] d")
      case (Pair r d1)
      show ?thesis
      proof (cases r)
        case (Inr q)
        then have "d1 = d'" using run Pair by (simp add: catchE_def)
        then show ?thesis using commitsD[OF lawful_insert_project] Pair Inr by blast
      next
        case (Inl e)
        then have "d1 = d" using Pair insert_project_raises by blast
        then have "d' = d" using run Pair Inl
          by (auto simp: catchE_def bindE_Inr_iff get_project_by_name_def split: if_splits option.splits)
        then show ?thesis by (simp add: lawful.rel_refl)
      qed
    qed
  qed
  then show ?thesis unfolding get_or_create_project_def
    by (intro keeps_rules lawful.commits_bind[OF lawful.commits_read]) simp_all
qed

lemma lawful_update_project: "commits (lawful u) (update_project_row i n t)"
proof (rule commitsI)
  fix d x d' assume run: "update_project_row i n t d = (Inr x, d')"
  show "lawful u d d'"
  proof (cases "find (\<lambda>p. pj_id p = i) (projects d)")
    case None
    with run show ?thesis by (simp add: update_project_row_def get_project_row_def bindE_def lawful.rel_refl)
  next
    case (Some p)
    let ?f = "edit_project n t"
    from Some have p: "p \<in> set (projects d)" "pj_id p = i" by (auto simp: find_Some_iff)
    have other: "\<not> (pj_org_id q = pj_org_id p \<and> pj_name q = pj_name (?f p))" if "q \<in> set (projects d)" "pj_id q \<noteq> i" for q
      using run Some that by (auto simp: update_project_row_def get_project_row_def bindE_def list_ex_iff split: if_splits)
    have d': "d' = d\<lparr>projects := update_where (\<lambda>q. pj_id q = i) ?f (projects d), fresh_id := fresh_id d\<rparr>"
      using run Some by (auto simp: update_project_row_def get_project_row_def bindE_def split: if_splits)
    have "wf_projects (d\<lparr>projects := update_where (\<lambda>q. pj_id q = i) ?f (projects d), fresh_id := fresh_id d\<rparr>)" if wf: "identity_wf d"
    proof -
      have one: "q = p" if "q \<in> set (projects d)" "pj_id q = i" for q
        using wf that p by (auto simp: identity_wf_def wf_projects_def distinct_map inj_on_def)
      have "distinct (map (\<lambda>p. (pj_org_id p, pj_name p)) (update_where (\<lambda>q. pj_id q = i) ?f (projects d)))"
      proof -
        have inj: "inj_on (\<lambda>q. (pj_org_id (if pj_id q = i then ?f q else q), pj_name (if pj_id q = i then ?f q else q))) (set (projects d))"
        proof (rule inj_onI)
          fix a b assume ab: "a \<in> set (projects d)" "b \<in> set (projects d)"
            "(pj_org_id (if pj_id a = i then ?f a else a), pj_name (if pj_id a = i then ?f a else a)) =
             (pj_org_id (if pj_id b = i then ?f b else b), pj_name (if pj_id b = i then ?f b else b))"
          then show "a = b" using one[of a] one[of b] other[of a] other[of b] wf
            by (auto simp: edit_project_def identity_wf_def wf_projects_def distinct_map inj_on_def split: if_splits)
        qed
        moreover have "distinct (projects d)" using wf by (auto simp: identity_wf_def wf_projects_def distinct_map)
        ultimately show ?thesis by (simp add: update_where_def distinct_map comp_def)
      qed
      moreover have "map pj_id (update_where (\<lambda>q. pj_id q = i) ?f (projects d)) = map pj_id (projects d)"
        by (rule map_update_where) (simp add: edit_project_def)
      ultimately show ?thesis using wf
        by (auto simp: identity_wf_def wf_projects_def org_exists_def set_update_where edit_project_def)
    qed
    then show ?thesis unfolding d' by (intro lawful_projects) simp_all
  qed
qed

lemma lawful_delete_project: "commits (lawful u) (delete_project_row i)"
proof (rule commitsI)
  fix d x d' assume "delete_project_row i d = (Inr x, d')"
  then have d': "d' = d\<lparr>projects := filter (\<lambda>p. pj_id p \<noteq> i) (projects d), fresh_id := fresh_id d\<rparr>"
    by (auto simp: delete_project_row_def delete_where_def)
  show "lawful u d d'" unfolding d'
    by (intro lawful_projects) (auto simp: identity_wf_def wf_projects_def org_exists_def distinct_map_filter)
qed

lemma lawful_keys:
  assumes "identity_wf d \<Longrightarrow> wf_keys (d\<lparr>api_keys := ks, fresh_id := n\<rparr>)" "fresh_id d \<le> n"
  shows "lawful u d (d\<lparr>api_keys := ks, fresh_id := n\<rparr>)"
  using assms by (intro lawful_frame wf_with_keys) (auto simp: identity_inv_def known_users_def)

lemma lawful_update_keys:
  assumes "\<And>k. ak_id (f k) = ak_id k \<and> ak_hash (f k) = ak_hash k \<and> ak_org_id (f k) = ak_org_id k"
  shows "lawful u d (d\<lparr>api_keys := update_where P f (api_keys d)\<rparr>)"
proof -
  have "wf_keys (d\<lparr>api_keys := update_where P f (api_keys d), fresh_id := fresh_id d\<rparr>)" if "identity_wf d"
    using that assms by (auto simp: identity_wf_def wf_keys_def org_exists_def map_update_where set_update_where)
  from lawful_keys[OF this] show ?thesis by simp
qed

lemma lawful_key_rows [keeps_rules]:
  "commits (lawful u) (create_api_key_row now g h pre n c e)" "commits (lawful u) (touch_api_key now i)"
  "commits (lawful u) (revoke_api_key_row i)" "commits (lawful u) (delete_api_key_row i)"
proof -
  show "commits (lawful u) (create_api_key_row now g h pre n c e)"
  proof (rule commitsI)
    fix d k d' assume "create_api_key_row now g h pre n c e d = (Inr k, d')"
    then have k: "ak_id k = fresh_id d" "ak_org_id k = g" "ak_hash k = h" and d': "d' = d\<lparr>api_keys := api_keys d @ [k], fresh_id := Suc (fresh_id d)\<rparr>"
      and g: "org_exists g d" and new: "\<forall>k \<in> set (api_keys d). ak_hash k \<noteq> h"
      by (auto simp: create_api_key_row_def Let_def list_ex_iff split: if_splits)
    show "lawful u d d'" unfolding d' using k g new
      by (intro lawful_keys) (auto simp: identity_wf_def wf_keys_def org_exists_def intro: less_SucI)
  qed
  show "commits (lawful u) (touch_api_key now i)" "commits (lawful u) (revoke_api_key_row i)"
    by (auto intro!: commitsI lawful_update_keys simp: touch_api_key_def revoke_api_key_row_def)
  show "commits (lawful u) (delete_api_key_row i)"
  proof (rule commitsI)
    fix d x d' assume "delete_api_key_row i d = (Inr x, d')"
    then have d': "d' = d\<lparr>api_keys := filter (\<lambda>k. ak_id k \<noteq> i) (api_keys d), fresh_id := fresh_id d\<rparr>"
      by (auto simp: delete_api_key_row_def delete_where_def)
    show "lawful u d d'" unfolding d'
      by (intro lawful_keys) (auto simp: identity_wf_def wf_keys_def org_exists_def distinct_map_filter)
  qed
qed

lemma upsert_user_ok:
  assumes "upsert_user now ext e n d = (Inr (user, created, prev), d')"
  shows "usr_external_id user = ext \<and> lawful u d d' \<and> (usr_id user, usr_external_id user) \<in> known_users d'"
proof (cases "scalar_one_or_none (filter (\<lambda>u. usr_external_id u = ext) (users d))")
  case (Inl e)
  with assms show ?thesis by (simp add: upsert_user_def)
next
  case (Inr found)
  show ?thesis
  proof (cases found)
    case None
    with Inr have no: "\<forall>x \<in> set (users d). usr_external_id x \<noteq> ext" by (auto dest!: scalar_one_or_none_NoneD simp: filter_empty_conv)
    have d': "d' = d\<lparr>users := users d @ [user], fresh_id := Suc (fresh_id d)\<rparr>" and user: "usr_id user = fresh_id d" "usr_external_id user = ext"
      "usr_email user = e" "\<forall>x \<in> set (users d). usr_email x \<noteq> e"
      using assms Inr None by (auto simp: upsert_user_def Let_def list_ex_iff split: if_splits)
    have "lawful u d d'" unfolding d'
    proof (rule lawful_frame)
      show "identity_wf (d\<lparr>users := users d @ [user], fresh_id := Suc (fresh_id d)\<rparr>)" if "identity_inv d"
        using that user no by (intro wf_with_users) (auto simp: identity_inv_def identity_wf_def wf_users_def intro: less_SucI)
    qed (auto simp: known_users_def)
    with user show ?thesis by (simp add: d' known_users_def)
  next
    case (Some x)
    with Inr have x: "filter (\<lambda>u. usr_external_id u = ext) (users d) = [x]" by (auto dest: scalar_one_or_none_SomeD)
    have d': "d' = d\<lparr>users := update_where (\<lambda>y. usr_id y = usr_id x) (\<lambda>_. user) (users d), fresh_id := fresh_id d\<rparr>"
      and user: "usr_id user = usr_id x" "usr_external_id user = usr_external_id x" "usr_email user = usr_email x"
      using assms Inr Some by (auto simp: upsert_user_def Let_def)
    have one: "y = x" if "identity_wf d" "y \<in> set (users d)" "usr_id y = usr_id x" for y
      using that filter_single_mem[OF x] by (auto simp: identity_wf_def wf_users_def distinct_map inj_on_def)
    have "lawful u d d'" unfolding d'
    proof (rule lawful_frame)
      assume "identity_inv d"
      then have wf: "identity_wf d" by (simp add: identity_inv_def)
      have keys: "map usr_id (update_where (\<lambda>y. usr_id y = usr_id x) (\<lambda>_. user) (users d)) = map usr_id (users d)"
        "map usr_external_id (update_where (\<lambda>y. usr_id y = usr_id x) (\<lambda>_. user) (users d)) = map usr_external_id (users d)"
        "map usr_email (update_where (\<lambda>y. usr_id y = usr_id x) (\<lambda>_. user) (users d)) = map usr_email (users d)"
        using one[OF wf] user by (auto simp: update_where_def)
      then have ids: "usr_id ` set (update_where (\<lambda>y. usr_id y = usr_id x) (\<lambda>_. user) (users d)) = usr_id ` set (users d)"
        by (metis set_map)
      show "identity_wf (d\<lparr>users := update_where (\<lambda>y. usr_id y = usr_id x) (\<lambda>_. user) (users d), fresh_id := fresh_id d\<rparr>)"
      proof (rule wf_with_users[OF wf])
        show "wf_users (d\<lparr>users := update_where (\<lambda>y. usr_id y = usr_id x) (\<lambda>_. user) (users d), fresh_id := fresh_id d\<rparr>)"
          using wf filter_single_mem[OF x] by (auto simp: identity_wf_def wf_users_def keys set_update_where user)
      qed (simp_all add: ids)
    next
      show "known_users d \<subseteq> known_users (d\<lparr>users := update_where (\<lambda>y. usr_id y = usr_id x) (\<lambda>_. user) (users d), fresh_id := fresh_id d\<rparr>)"
        if "identity_inv d"
      proof -
        have wf: "identity_wf d" using that by (simp add: identity_inv_def)
        have "map (\<lambda>u. (usr_id u, usr_external_id u)) (update_where (\<lambda>y. usr_id y = usr_id x) (\<lambda>_. user) (users d)) =
            map (\<lambda>u. (usr_id u, usr_external_id u)) (users d)" using one[OF wf] user by (auto simp: update_where_def)
        from arg_cong[OF this, of set] show ?thesis by (simp add: known_users_def)
      qed
    qed simp_all
    moreover have "user \<in> set (users d')" using filter_single_mem[OF x] by (auto simp: d' set_update_where)
    moreover from this have "(usr_id user, usr_external_id user) \<in> known_users d'" unfolding known_users_def by (rule imageI)
    ultimately show ?thesis using user(2) filter_single_mem[OF x] by simp
  qed
qed

section \<open>Endpoints\<close>

lemma reads_same [simp]:
  "snd (get_membership a g d) = d" "snd (require_membership a g d) = d" "snd (require_admin a g d) = d" "snd (require_owner a g d) = d"
  "snd (get_organization_row i d) = d" "snd (get_organization i d) = d" "snd (get_project_row i d) = d" "snd (get_project i o' d) = d"
  "snd (get_api_key_row i d) = d" "snd (get_api_key i g d) = d" "snd (get_api_key_by_hash h d) = d" "snd (list_api_keys g d) = d"
  "snd (required e y d) = d" "snd (guardE b e d) = d"
  by (auto simp: get_membership_def require_membership_def require_admin_def require_owner_def get_organization_row_def
      get_organization_def get_project_row_def get_project_def get_api_key_row_def get_api_key_def get_api_key_by_hash_def
      list_api_keys_def required_def guardE_def bindE_def split: prod.splits sum.splits option.splits)

lemmas lawful_reads [keeps_rules] = reads_same[THEN lawful.commits_read]

lemma lawful_orgs_of_memberships [keeps_rules]: "commits (lawful u) (orgs_of_memberships ms)"
  by (induction ms) (simp_all only: orgs_of_memberships.simps, (intro keeps_rules | assumption)+)

lemmas lawful_ops [keeps_rules] = lawful_decline lawful_revoke lawful_invite lawful_accept lawful_change_role lawful_remove
  lawful_found lawful_rename lawful_create_project_row lawful_get_or_create_project lawful_update_project lawful_delete_project

lemma lawful_services [keeps_rules]:
  "commits (lawful u) (create_project now g n t)" "commits (lawful u) (update_project g i n' t')" "commits (lawful u) (delete_project g i)"
  "commits (lawful u) (create_api_key sha now token g n c e)" "commits (lawful u) (rotate_api_key sha now token i g c)"
  "commits (lawful u) (revoke_api_key i g)" "commits (lawful u) (delete_api_key i g)"
  unfolding create_project_def update_project_def delete_project_def create_api_key_def rotate_api_key_def revoke_api_key_def
    delete_api_key_def Let_def
  by (intro keeps_rules)+

lemma require_user_Some: "cx_user ctx = Some user \<Longrightarrow> require_user ctx = ret user"
  by (simp add: require_user_def required_def)

text \<open>One fact per endpoint: what it does for the user of the context.\<close>

lemma lawful_endpoint:
  assumes "cx_user ctx = Some user"
  shows "commits (lawful (usr_id user)) (handle_endpoint h now token ep ctx)"
proof -
  note u = require_user_Some[OF assms]
  show ?thesis
    by (cases ep; simp only: handle_endpoint.simps create_organization_route_def list_my_organizations_route_def get_organization_route_def
        update_organization_route_def delete_organization_route_def list_members_route_def update_member_role_route_def
        remove_member_route_def create_invitation_route_def list_invitations_route_def revoke_invitation_route_def get_me_route_def
        list_my_invitations_route_def accept_invitation_route_def decline_invitation_route_def create_project_route_def
        list_projects_route_def get_project_route_def update_project_route_def delete_project_route_def create_api_key_route_def
        list_org_api_keys_route_def get_api_key_route_def rotate_api_key_route_def delete_api_key_route_def u bindE_ret;
        intro lawful_dissolve keeps_rules)
qed

lemma pick_same [simp]: "snd (pick_organization ms header d) = d" "snd (pick_project g header d) = d"
  by (auto simp: pick_organization_def pick_project_def bindE_def guardE_def get_organization_row_def get_project_row_def
      split: uuid_header.splits list.splits)

lemmas lawful_pick [keeps_rules] = pick_same[THEN lawful.commits_read]

lemma resolve_jwt_ok:
  assumes "resolve_jwt en now ver oh ph d = (Inr ctx, d')"
  obtains claims user where "ver = Inr claims" "cx_user ctx = Some user" "identity_inv d \<longrightarrow> (usr_id user, cl_sub claims) \<in> known_users d'"
    "lawful (usr_id user) d d'"
proof -
  let ?rest = "\<lambda>user. bindE (getsE (list_user_orgs (usr_id user))) (\<lambda>ms.
     bindE (if ms = []
            then bindE (create_organization now ''My Organization'' (usr_id user) (if en then None else Some DEVELOPMENT))
              (\<lambda>_. getsE (list_user_orgs (usr_id user)))
            else ret ms) (\<lambda>memberships.
     bindE (pick_organization memberships oh) (\<lambda>found.
     bindE (required (AuthenticationError ''Organization could not be resolved.'') found) (\<lambda>org.
     bindE (pick_project (org_id org) ph) (\<lambda>project.
     ret \<lparr>cx_auth_method = JWT, cx_organization = org, cx_project = project, cx_user = Some user\<rparr>)))))"
  from assms obtain claims user a b d1 where c: "ver = Inr claims"
    and up: "upsert_user now (cl_sub claims) (cl_email claims) (cl_display_name claims) d = (Inr (user, a, b), d1)"
    and rest: "?rest user d1 = (Inr ctx, d')"
    unfolding resolve_jwt_def by (cases ver) (auto simp: bindE_Inr_iff)
  have "commits (lawful (usr_id user)) (?rest user)" by (intro keeps_rules)
  from commitsD[OF this rest] have tail: "lawful (usr_id user) d1 d'" .
  have u: "usr_external_id user = cl_sub claims \<and> lawful (usr_id user) d d1 \<and> (usr_id user, usr_external_id user) \<in> known_users d1"
    using upsert_user_ok[OF up] .
  then have law: "lawful (usr_id user) d d'" using tail lawful.rel_trans by blast
  have known: "identity_inv d \<longrightarrow> (usr_id user, cl_sub claims) \<in> known_users d'"
    using u tail by (auto simp: lawful_def)
  have "cx_user ctx = Some user" using rest by (auto simp: bindE_Inr_iff split: if_splits)
  from that[OF c this known law] show thesis .
qed

lemma get_api_context_ok:
  assumes "get_api_context en verify now cr d = (Inr ctx, d')"
  obtains token claims user where "cr_bearer cr = Some token \<or> cr_bearer cr = None \<and> \<not> en \<and> token = ''dev-no-auth''"
    "verify token = Inr claims" "cx_user ctx = Some user" "identity_inv d \<longrightarrow> (usr_id user, cl_sub claims) \<in> known_users d'"
    "lawful (usr_id user) d d'"
proof (cases "cr_bearer cr")
  case (Some token)
  with assms have "resolve_jwt en now (verify token) (cr_org_header cr) Absent d = (Inr ctx, d')" by (simp add: get_api_context_def)
  then show thesis by (rule resolve_jwt_ok) (use that Some in blast)
next
  case None
  with assms have "\<not> en" "resolve_jwt en now (verify ''dev-no-auth'') (cr_org_header cr) Absent d = (Inr ctx, d')"
    by (auto simp: get_api_context_def split: if_splits)
  then show thesis using resolve_jwt_ok[of en now "verify ''dev-no-auth''" "cr_org_header cr" Absent d ctx d'] that None by blast
qed

lemma serve_ok:
  assumes "serve ae now token cr ep d = (Inr r, d')"
  obtains t claims and user :: user where "cr_bearer cr = Some t \<or> cr_bearer cr = None \<and> \<not> ae_enabled ae \<and> t = ''dev-no-auth''"
    "ae_verify ae t = Inr claims" "identity_inv d \<longrightarrow> (usr_id user, cl_sub claims) \<in> known_users d'" "lawful (usr_id user) d d'"
proof -
  from assms obtain ctx d1 where cx: "get_api_context (ae_enabled ae) (ae_verify ae) now cr d = (Inr ctx, d1)"
    and run: "handle_endpoint (ae_sha256 ae) now token ep ctx d1 = (Inr r, d')"
    by (auto simp: serve_def get_db_session_def bindE_Inr_iff split: prod.splits sum.splits)
  from cx obtain t claims user where t: "cr_bearer cr = Some t \<or> cr_bearer cr = None \<and> \<not> ae_enabled ae \<and> t = ''dev-no-auth''"
    "ae_verify ae t = Inr claims" and u: "cx_user ctx = Some user"
    and k: "identity_inv d \<longrightarrow> (usr_id user, cl_sub claims) \<in> known_users d1" and l: "lawful (usr_id user) d d1"
    by (rule get_api_context_ok)
  have tail: "lawful (usr_id user) d1 d'" using commitsD[OF lawful_endpoint[OF u] run] .
  have "identity_inv d \<longrightarrow> (usr_id user, cl_sub claims) \<in> known_users d'" using k l tail by (auto simp: lawful_def)
  moreover have "lawful (usr_id user) d d'" using l tail lawful.rel_trans by blast
  ultimately show thesis by (rule that[OF t])
qed

lemma serve_raises: "serve ae now token cr ep d = (Inl e, d') \<Longrightarrow> d' = d"
  by (auto simp: serve_def get_db_session_def split: prod.splits sum.splits)

lemma resolve_api_key_lawful: "commits (lawful u) (resolve_api_key sha now raw pn)"
  unfolding resolve_api_key_def by (intro keeps_rules)

lemma data_plane_ok:
  assumes "get_data_plane_context en verify sha now cr d = (Inr ctx, d')"
  shows "\<exists>u. lawful u d d'"
proof (cases "\<exists>c cs. cr_api_key cr = Some (c # cs)")
  case True
  then show ?thesis using assms commitsD[OF resolve_api_key_lawful] by (fastforce simp: get_data_plane_context_def)
next
  case False
  then obtain t where "resolve_jwt en now (verify t) (cr_org_header cr) (cr_project_header cr) d = (Inr ctx, d')"
    using assms by (auto simp: get_data_plane_context_def split: option.splits list.splits if_splits)
  then show ?thesis by (rule resolve_jwt_ok) blast
qed

lemma identity_step_lawful:
  assumes "identity_step ae now d d'"
  shows "\<exists>u. lawful u d d'"
  using assms
proof (cases rule: identity_step.cases)
  case (request token cr ep x)
  show ?thesis
  proof (cases x)
    case (Inl e)
    then show ?thesis using request serve_raises[of ae now token cr ep d e d'] by (auto simp: lawful.rel_refl)
  next
    case (Inr r)
    then show ?thesis using request serve_ok[of ae now token cr ep d r d'] by blast
  qed
next
  case (data cr y)
  then show ?thesis
  proof (cases y)
    case (Inl e)
    then show ?thesis using data by (auto simp: serve_data_def get_db_session_def lawful.rel_refl split: prod.splits sum.splits)
  next
    case (Inr ctx)
    with data obtain c where "get_data_plane_context (ae_enabled ae) (ae_verify ae) (ae_sha256 ae) now cr d = (Inr c, d')"
      by (auto simp: serve_data_def get_db_session_def bindE_Inr_iff split: prod.splits sum.splits)
    then show ?thesis by (rule data_plane_ok)
  qed
next
  case (expiry z)
  then have "d' = snd (get_db_session (expire_stale_invitations now) d)" by (simp add: expire_stale_invitations_task_def)
  then show ?thesis using keepsD[OF lawful.commits_session[OF lawful_expire], of _ d now] by blast
qed

lemma identity_step_inv: "identity_step ae now d d' \<Longrightarrow> identity_inv d \<Longrightarrow> identity_inv d'"
  using identity_step_lawful by (auto simp: lawful_def)

end
