(* ===== verification/IdentitySeats.thy ===== *)
theory IdentitySeats
  imports IdentityAccess
begin

text \<open>
  The seats of an organization: its members and the invitations that are pending. No
  request takes an organization past the number of members its plan allows.
\<close>

section \<open>Counting\<close>

lemma filter_update_one:
  assumes "filter P xs = [v]" "Q v" "\<And>x. P x \<Longrightarrow> \<not> Q (f x)"
  shows "Suc (length (filter Q (update_where P f xs))) = length (filter Q xs)"
  using assms(1)
proof (induction xs)
  case (Cons a xs)
  show ?case
  proof (cases "P a")
    case True
    with Cons.prems have "a = v" "\<forall>x \<in> set xs. \<not> P x" by (auto simp: filter_empty_conv)
    then have "update_where P f xs = xs" by (simp add: update_where_def map_idI)
    with True \<open>a = v\<close> assms(2,3) show ?thesis by simp
  next
    case False
    with Cons show ?thesis by auto
  qed
qed simp

lemma filter_update_le:
  assumes "\<And>x. P x \<Longrightarrow> Q (f x) \<Longrightarrow> Q x"
  shows "length (filter Q (update_where P f xs)) \<le> length (filter Q xs)"
  using assms by (induction xs) (auto intro: le_SucI)

lemma filter_delete_le: "length (filter Q (delete_where P xs)) \<le> length (filter Q xs)"
  by (induction xs) (auto simp: delete_where_def intro: le_SucI)

section \<open>Seats\<close>

definition seats :: "datetime \<Rightarrow> uuid \<Rightarrow> identity_db \<Rightarrow> nat" where
  "seats now g d = count_org_members g d + count_pending_for_org now g d"

definition seats_allowed :: "datetime \<Rightarrow> identity_db \<Rightarrow> bool" where
  "seats_allowed now d \<longleftrightarrow> (\<forall>s \<in> set (subs (billing d)). case max_members (get_plan_config (sub_plan s)) of
       None \<Rightarrow> True | Some n \<Rightarrow> int (seats now (sub_org_id s) d) \<le> n)"

text \<open>The instant of a request is not the exact instant at which an invitation expires.\<close>

definition no_expiry_now :: "datetime \<Rightarrow> identity_db \<Rightarrow> bool" where
  "no_expiry_now now d \<longleftrightarrow> (\<forall>v \<in> set (invites d). iv_expires_at v \<noteq> now)"

lemma seats_later: "t \<le> now \<Longrightarrow> seats now g d \<le> seats t g d"
proof -
  assume "t \<le> now"
  then have "length (filter (\<lambda>v. iv_org_id v = g \<and> pending_at now v) vs) \<le> length (filter (\<lambda>v. iv_org_id v = g \<and> pending_at t v) vs)" for vs
    by (induction vs) (auto simp: pending_at_def intro: le_SucI)
  then show ?thesis by (simp add: seats_def count_pending_for_org_def)
qed

lemma seats_allowed_mono:
  assumes "seats_allowed t d" "\<And>s. s \<in> set (subs (billing d')) \<Longrightarrow> s \<in> set (subs (billing d))"
    "\<And>g. seats now g d' \<le> seats t g d"
  shows "seats_allowed now d'"
  unfolding seats_allowed_def
proof
  fix s assume "s \<in> set (subs (billing d'))"
  then have "case max_members (get_plan_config (sub_plan s)) of None \<Rightarrow> True | Some n \<Rightarrow> int (seats t (sub_org_id s) d) \<le> n"
    using assms(1,2) by (simp add: seats_allowed_def)
  then show "case max_members (get_plan_config (sub_plan s)) of None \<Rightarrow> True | Some n \<Rightarrow> int (seats now (sub_org_id s) d') \<le> n"
    using assms(3)[of "sub_org_id s"] by (auto split: option.splits)
qed

lemma seats_allowed_later: "t \<le> now \<Longrightarrow> seats_allowed t d \<Longrightarrow> seats_allowed now d"
  by (rule seats_allowed_mono) (auto simp: seats_later)

definition seat_inv :: "datetime \<Rightarrow> identity_db \<Rightarrow> bool" where
  "seat_inv now d \<longleftrightarrow> identity_inv d \<and> no_expiry_now now d \<and> seats_allowed now d"

definition seat_safe :: "datetime \<Rightarrow> identity_db \<Rightarrow> identity_db \<Rightarrow> bool" where
  "seat_safe now d d' \<longleftrightarrow> (seat_inv now d \<longrightarrow> seat_inv now d')"

interpretation seat_safe: exec_preorder "seat_safe now" for now
  by unfold_locales (auto simp: seat_safe_def)

lemma seat_safeI:
  assumes "lawful u d d'" "\<And>v'. v' \<in> set (invites d') \<Longrightarrow> iv_expires_at v' = now \<Longrightarrow> \<exists>v \<in> set (invites d). iv_expires_at v = now"
    "seat_inv now d \<Longrightarrow> seats_allowed now d'"
  shows "seat_safe now d d'"
  using assms by (fastforce simp: seat_safe_def seat_inv_def lawful_def no_expiry_now_def)

lemma seat_safe_fewer:
  assumes "lawful u d d'" "\<And>s. s \<in> set (subs (billing d')) \<Longrightarrow> s \<in> set (subs (billing d))" "\<And>g. seats now g d' \<le> seats now g d"
    "\<And>v'. v' \<in> set (invites d') \<Longrightarrow> \<exists>v \<in> set (invites d). iv_expires_at v' = iv_expires_at v"
  shows "seat_safe now d d'"
proof (rule seat_safeI[OF assms(1)])
  show "seats_allowed now d'" if "seat_inv now d"
    by (rule seats_allowed_mono[of now d]) (use that assms(2,3) in \<open>auto simp: seat_inv_def\<close>)
qed (use assms(4) in fastforce)

section \<open>Operations that change seats\<close>

lemma seats_status:
  assumes "st \<noteq> invitation_status.PENDING"
  shows "seats now g (d\<lparr>invites := update_where P (\<lambda>r. r\<lparr>iv_status := st\<rparr>) (invites d)\<rparr>) \<le> seats now g d"
  using filter_update_le[of P "\<lambda>v. iv_org_id v = g \<and> pending_at now v" "\<lambda>r. r\<lparr>iv_status := st\<rparr>" "invites d"] assms
  by (simp add: seats_def count_pending_for_org_def count_org_members_def pending_at_def)

lemma seat_safe_status:
  assumes "commits (lawful u) m" "st \<noteq> invitation_status.PENDING"
    "\<And>d x d'. m d = (Inr x, d') \<Longrightarrow> \<exists>P. d' = d\<lparr>invites := update_where P (\<lambda>r. r\<lparr>iv_status := st\<rparr>) (invites d)\<rparr>"
  shows "commits (seat_safe now) m"
proof (rule commitsI)
  fix d x d' assume run: "m d = (Inr x, d')"
  then obtain P where d': "d' = d\<lparr>invites := update_where P (\<lambda>r. r\<lparr>iv_status := st\<rparr>) (invites d)\<rparr>" using assms(3) by blast
  show "seat_safe now d d'"
  proof (rule seat_safe_fewer[OF commitsD[OF assms(1) run]])
    show "seats now g d' \<le> seats now g d" for g unfolding d' by (rule seats_status[OF assms(2)])
    show "\<exists>v \<in> set (invites d). iv_expires_at v' = iv_expires_at v" if "v' \<in> set (invites d')" for v'
      using that by (fastforce simp: d' update_where_def)
  qed (simp add: d')
qed

lemma seat_safe_decline: "commits (seat_safe now) (decline_invitation now' u i)"
  by (rule seat_safe_status[OF lawful_decline, of DECLINED]) (auto elim!: decline_invitation_ok)

lemma seat_safe_revoke: "commits (seat_safe now) (revoke_invitation a g i)"
  by (rule seat_safe_status[OF lawful_revoke, of REVOKED]) (auto elim!: revoke_invitation_ok)

lemma seat_safe_expire: "commits (seat_safe now) (expire_stale_invitations now')"
  by (rule seat_safe_status[OF lawful_expire, of EXPIRED]) (auto simp: expire_stale_invitations_def bindE_def)

lemma seat_safe_change_role: "commits (seat_safe now) (update_member_role u g t r)"
proof (rule commitsI)
  fix d m' d' assume run: "update_member_role u g t r d = (Inr m', d')"
  then have d': "d' = d\<lparr>members := update_where (\<lambda>x. mb_user_id x = t \<and> mb_org_id x = g) (\<lambda>x. x\<lparr>mb_role := r\<rparr>) (members d)\<rparr>"
    by (rule update_member_role_ok)
  show "seat_safe now d d'"
  proof (rule seat_safe_fewer[OF commitsD[OF lawful_change_role run]])
    show "seats now h d' \<le> seats now h d" for h
      using filter_update_le[of "\<lambda>x. mb_user_id x = t \<and> mb_org_id x = g" "\<lambda>m. mb_org_id m = h" "\<lambda>x. x\<lparr>mb_role := r\<rparr>" "members d"]
      by (simp add: d' seats_def count_org_members_def count_pending_for_org_def)
  qed (auto simp: d')
qed

lemma seat_safe_remove: "commits (seat_safe now) (remove_member u g t)"
proof (rule commitsI)
  fix d x d' assume run: "remove_member u g t d = (Inr x, d')"
  then have d': "d' = d\<lparr>members := delete_where (\<lambda>m. mb_user_id m = t \<and> mb_org_id m = g) (members d)\<rparr>"
    by (auto simp: remove_member_ok)
  show "seat_safe now d d'"
    by (rule seat_safe_fewer[OF commitsD[OF lawful_remove run]])
      (auto simp: d' seats_def count_org_members_def count_pending_for_org_def filter_delete_le)
qed

lemma seat_safe_dissolve:
  assumes "\<And>x. commits (seat_safe now) (k x)"
  shows "commits (seat_safe now) (bindE (require_owner u g) (\<lambda>_. bindE (delete_organization g) k))"
proof (rule commitsI)
  fix d y d2 assume run: "bindE (require_owner u g) (\<lambda>_. bindE (delete_organization g) k) d = (Inr y, d2)"
  then obtain x d' where own: "bindE (require_owner u g) (\<lambda>_. bindE (delete_organization g) ret) d = (Inr x, d')"
    and del: "delete_organization g d = (Inr x, d')" and k: "k x d' = (Inr y, d2)" by (auto simp: bindE_Inr_iff)
  note d' = delete_organization_ok[OF del]
  have "lawful u d d'" using commitsD[OF lawful_dissolve[of u ret] own] by (auto intro: keeps_rules)
  then have "seat_safe now d d'"
    by (rule seat_safe_fewer)
      (auto simp: d' delete_billing_of_def seats_def count_org_members_def count_pending_for_org_def filter_delete_le add_mono)
  from this commitsD[OF assms k] show "seat_safe now d d2" by (rule seat_safe.rel_trans)
qed

lemma quota_checked:
  assumes "check_member_quota now g d = (Inr u, d1)" "unique_subs (subs (billing d))" "s \<in> set (subs (billing d))" "sub_org_id s = g"
    "max_members (get_plan_config (sub_plan s)) = Some n"
  shows "int (seats now g d) < n"
proof -
  have "scalar_one_or_none (filter (\<lambda>x. sub_org_id x = g) (subs (billing d))) = Inr (Some s)"
    using scalar_one_or_none_unique[of sub_org_id "subs (billing d)" s] assms(2-4) by (simp add: unique_subs_def)
  with assms(1,5) show ?thesis
    by (auto simp: check_member_quota_def bindE_Inr_iff in_billing_ok get_subscription_by_org_def seats_def)
qed

lemma seat_safe_invite: "commits (seat_safe now) (create_invitation now a g e r)"
proof (rule commitsI)
  fix d v d' assume run: "create_invitation now a g e r d = (Inr v, d')"
  then obtain m where quota: "check_member_quota now g d = (Inr (), d)"
    and v: "v = \<lparr>iv_id = fresh_id d, iv_org_id = g, iv_email = lower (strip e), iv_role = r, iv_invited_by = a,
       iv_status = invitation_status.PENDING, iv_created_at = now, iv_expires_at = now + INVITATION_TTL\<rparr>"
    and d': "d' = d\<lparr>invites := invites d @ [v], fresh_id := Suc (fresh_id d)\<rparr>" by (rule create_invitation_ok)
  have later: "0 < INVITATION_TTL" by (simp add: INVITATION_TTL_def days_def seconds_def)
  have vexp: "iv_expires_at v \<noteq> now" using later by (simp add: v)
  have seats': "seats now h d' = (if h = g then Suc (seats now h d) else seats now h d)" for h
    using later by (auto simp: d' v seats_def count_org_members_def count_pending_for_org_def pending_at_def)
  show "seat_safe now d d'"
  proof (rule seat_safeI[OF commitsD[OF lawful_invite run, of 0]])
    show "\<exists>v \<in> set (invites d). iv_expires_at v = now" if "v' \<in> set (invites d')" "iv_expires_at v' = now" for v'
      using that vexp by (auto simp: d')
    assume inv: "seat_inv now d"
    then have uni: "unique_subs (subs (billing d))" by (simp add: seat_inv_def identity_inv_def identity_wf_def wf_subs_def)
    show "seats_allowed now d'" unfolding seats_allowed_def
    proof
      fix s assume "s \<in> set (subs (billing d'))"
      then have s: "s \<in> set (subs (billing d))" by (simp add: d')
      then have old: "case max_members (get_plan_config (sub_plan s)) of None \<Rightarrow> True | Some n \<Rightarrow> int (seats now (sub_org_id s) d) \<le> n"
        using inv by (simp add: seat_inv_def seats_allowed_def)
      show "case max_members (get_plan_config (sub_plan s)) of None \<Rightarrow> True | Some n \<Rightarrow> int (seats now (sub_org_id s) d') \<le> n"
        using old quota_checked[OF quota uni s] by (cases "sub_org_id s = g") (auto simp: seats' split: option.splits)
    qed
  qed
qed

lemma seat_safe_accept: "commits (seat_safe now) (accept_invitation now u i)"
proof (rule commitsI)
  fix d m d' assume run: "accept_invitation now u i d = (Inr m, d')"
  then obtain v where v: "filter (\<lambda>v. iv_id v = i) (invites d) = [v]" "iv_status v = invitation_status.PENDING" "now \<le> iv_expires_at v"
    and m: "m = \<lparr>mb_id = fresh_id d, mb_user_id = u, mb_org_id = iv_org_id v, mb_role = iv_role v, mb_created_at = now\<rparr>"
    and d': "d' = d\<lparr>members := members d @ [m], fresh_id := Suc (fresh_id d),
       invites := update_where (\<lambda>r. iv_id r = i) (\<lambda>r. r\<lparr>iv_status := ACCEPTED\<rparr>) (invites d)\<rparr>" by (rule accept_invitation_ok)
  show "seat_safe now d d'"
  proof (rule seat_safeI[OF commitsD[OF lawful_accept run]])
    show "\<exists>v \<in> set (invites d). iv_expires_at v = now" if "v' \<in> set (invites d')" "iv_expires_at v' = now" for v'
      using that by (auto simp: d' set_update_where)
    assume inv: "seat_inv now d"
    then have "now < iv_expires_at v" using v filter_single_mem[OF v(1)] by (auto simp: seat_inv_def no_expiry_now_def order_less_le)
    then have pend: "pending_at now v" using v by (simp add: pending_at_def)
    let ?P = "\<lambda>h w. iv_org_id w = h \<and> pending_at now w"
    have "seats now h d' \<le> seats now h d" for h
    proof (cases "h = iv_org_id v")
      case True
      have "Suc (length (filter (?P h) (update_where (\<lambda>r. iv_id r = i) (\<lambda>r. r\<lparr>iv_status := ACCEPTED\<rparr>) (invites d)))) = length (filter (?P h) (invites d))"
        by (rule filter_update_one[OF v(1)]) (use True pend in \<open>simp_all add: pending_at_def\<close>)
      with True show ?thesis by (simp add: d' m seats_def count_org_members_def count_pending_for_org_def)
    next
      case False
      have "length (filter (?P h) (update_where (\<lambda>r. iv_id r = i) (\<lambda>r. r\<lparr>iv_status := ACCEPTED\<rparr>) (invites d))) \<le> length (filter (?P h) (invites d))"
        by (rule filter_update_le) (simp add: pending_at_def)
      with False show ?thesis by (simp add: d' m seats_def count_org_members_def count_pending_for_org_def)
    qed
    moreover have "subs (billing d') = subs (billing d)" by (simp add: d')
    moreover have "seats_allowed now d" using inv by (simp add: seat_inv_def)
    ultimately show "seats_allowed now d'" by (metis seats_allowed_mono)
  qed
qed

lemma plan_has_seat: "max_members (get_plan_config p) = Some n \<Longrightarrow> 1 \<le> n"
  by (cases p) (auto simp: get_plan_config_def)

lemma seat_safe_found: "commits (seat_safe now) (create_organization now' name u plan)"
proof (rule commitsI)
  fix d g d' assume run: "create_organization now' name u plan d = (Inr g, d')"
  then obtain m p b s where g: "org_id g = fresh_id d"
    and m: "m = \<lparr>mb_id = Suc (fresh_id d), mb_user_id = u, mb_org_id = fresh_id d, mb_role = OWNER, mb_created_at = now'\<rparr>"
    and d': "d' = d\<lparr>orgs := orgs d @ [g], members := members d @ [m], projects := projects d @ [p],
       fresh_id := Suc (Suc (Suc (fresh_id d))), billing := b\<rparr>"
    and b: "subs b = subs (billing d) @ [s]" "sub_org_id s = fresh_id d" by (rule create_organization_ok)
  show "seat_safe now d d'"
  proof (rule seat_safeI[OF commitsD[OF lawful_found run]])
    assume inv: "seat_inv now d"
    then have wf: "identity_wf d" by (simp add: seat_inv_def identity_inv_def)
    then have new: "\<not> org_exists (fresh_id d) d" by (auto simp: identity_wf_def wf_orgs_def org_exists_def list_ex_iff)
    have "\<forall>x \<in> set (members d). mb_org_id x \<noteq> fresh_id d" "\<forall>v \<in> set (invites d). iv_org_id v \<noteq> fresh_id d"
      using wf new by (auto simp: identity_wf_def wf_members_def wf_invites_def)
    then have one: "seats now (fresh_id d) d' = 1"
      by (auto simp: d' m seats_def count_org_members_def count_pending_for_org_def filter_empty_conv)
    have other: "seats now h d' = seats now h d" if "h \<noteq> fresh_id d" for h
      using that by (simp add: d' m seats_def count_org_members_def count_pending_for_org_def)
    show "seats_allowed now d'" unfolding seats_allowed_def
    proof
      fix s' assume "s' \<in> set (subs (billing d'))"
      then have "s' = s \<or> s' \<in> set (subs (billing d))" using b by (auto simp: d')
      moreover have "sub_org_id x \<noteq> fresh_id d" if "x \<in> set (subs (billing d))" for x
        using that wf new by (auto simp: identity_wf_def wf_subs_def)
      ultimately consider "s' = s" | "s' \<in> set (subs (billing d))" "sub_org_id s' \<noteq> fresh_id d" by blast
      then show "case max_members (get_plan_config (sub_plan s')) of None \<Rightarrow> True | Some n \<Rightarrow> int (seats now (sub_org_id s') d') \<le> n"
        using one plan_has_seat[of "sub_plan s"] b(2) inv
        by cases (auto simp: other seat_inv_def seats_allowed_def split: option.splits)
    qed
  qed (auto simp: d')
qed

section \<open>Operations that leave seats\<close>

definition same_seats :: "identity_db \<Rightarrow> identity_db \<Rightarrow> bool" where
  "same_seats d d' \<longleftrightarrow> members d' = members d \<and> invites d' = invites d \<and> subs (billing d') = subs (billing d)"

interpretation same_seats: exec_preorder same_seats
  by unfold_locales (auto simp: same_seats_def)

lemma seat_safe_same:
  assumes "commits (lawful u) m" "commits same_seats m"
  shows "commits (seat_safe now) m"
proof (rule commitsI)
  fix d x d' assume run: "m d = (Inr x, d')"
  from commitsD[OF assms(2) run] have same: "members d' = members d" "invites d' = invites d" "subs (billing d') = subs (billing d)"
    by (auto simp: same_seats_def)
  show "seat_safe now d d'"
    by (rule seat_safe_fewer[OF commitsD[OF assms(1) run]]) (auto simp: same seats_def count_org_members_def count_pending_for_org_def)
qed

lemma same_seats_keeps: "keeps same_seats m \<Longrightarrow> commits same_seats m"
  by (auto simp: commits_def dest: keepsD2)

lemmas same_seats_reads [keeps_rules] = reads_same[THEN same_seats.commits_read] pick_same[THEN same_seats.commits_read]
lemmas seat_safe_reads [keeps_rules] = reads_same[THEN seat_safe.commits_read] pick_same[THEN seat_safe.commits_read]

lemma same_seats_rows [keeps_rules]:
  "commits same_seats (insert_project now g n t)" "commits same_seats (create_project_row now g n t)"
  "commits same_seats (update_project_row i n' t')" "commits same_seats (delete_project_row i)"
  "commits same_seats (create_api_key_row now g h pre n c e)" "commits same_seats (touch_api_key now i)"
  "commits same_seats (revoke_api_key_row i)" "commits same_seats (delete_api_key_row i)"
  "commits same_seats (upsert_user now ext e' n)" "commits same_seats (update_organization g nm)"
  by (auto intro!: commitsI simp: same_seats_def insert_project_def create_project_row_ok update_project_row_def get_project_row_def
      delete_project_row_def create_api_key_row_def touch_api_key_def revoke_api_key_row_def delete_api_key_row_def upsert_user_def
      update_organization_def update_organization_row_def get_organization_row_def Let_def bindE_Inr_iff simp del: bindE_liftE
      split: if_splits option.splits sum.splits)

lemma same_seats_get_or_create: "commits same_seats (get_or_create_project now g n)"
proof (rule commitsI)
  fix d p d' assume "get_or_create_project now g n d = (Inr p, d')"
  then show "same_seats d d'"
    by (auto simp: get_or_create_project_def bindE_Inr_iff catchE_def insert_project_def get_project_by_name_def Let_def same_seats_def
        split: option.splits sum.splits prod.splits if_splits)
qed

lemma same_seats_services [keeps_rules]:
  "commits same_seats (create_project now g n t)" "commits same_seats (update_project g i n' t')" "commits same_seats (delete_project g i)"
  "commits same_seats (create_api_key sha now token g n c e)" "commits same_seats (rotate_api_key sha now token i g c)"
  "commits same_seats (revoke_api_key i g)" "commits same_seats (delete_api_key i g)" "commits same_seats (resolve_api_key sha now raw pn)"
  unfolding create_project_def update_project_def delete_project_def create_api_key_def rotate_api_key_def revoke_api_key_def
    delete_api_key_def resolve_api_key_def Let_def
  by (intro keeps_rules same_seats_get_or_create)+

lemma upsert_lawful: "commits (lawful u) (upsert_user now ext e n)"
  by (auto intro!: commitsI simp: upsert_user_ok)

lemma seat_safe_services [keeps_rules]:
  "commits (seat_safe now) (create_project now' g n t)" "commits (seat_safe now) (update_project g i n' t')"
  "commits (seat_safe now) (delete_project g i)" "commits (seat_safe now) (create_api_key sha now' token g n c e)"
  "commits (seat_safe now) (rotate_api_key sha now' token i g c)" "commits (seat_safe now) (revoke_api_key i g)"
  "commits (seat_safe now) (delete_api_key i g)" "commits (seat_safe now) (resolve_api_key sha now' raw pn)"
  "commits (seat_safe now) (upsert_user now' ext e' n)" "commits (seat_safe now) (update_organization g nm)"
  by (rule seat_safe_same[where u = 0], intro keeps_rules lawful_rename resolve_api_key_lawful upsert_lawful, intro keeps_rules)+

lemma seat_safe_orgs_of_memberships [keeps_rules]: "commits (seat_safe now) (orgs_of_memberships ms)"
  by (induction ms) (simp_all only: orgs_of_memberships.simps, (intro keeps_rules | assumption)+)

lemmas seat_safe_ops [keeps_rules] = seat_safe_decline seat_safe_revoke seat_safe_invite seat_safe_accept seat_safe_change_role
  seat_safe_remove seat_safe_found

lemma require_user_reads [simp]: "snd (require_user ctx d) = d"
  by (simp add: require_user_def)

lemmas seat_safe_require_user [keeps_rules] = require_user_reads[THEN seat_safe.commits_read]

lemma seat_safe_endpoint: "commits (seat_safe now) (handle_endpoint h now token ep ctx)"
  by (cases ep; simp only: handle_endpoint.simps create_organization_route_def list_my_organizations_route_def get_organization_route_def
      update_organization_route_def delete_organization_route_def list_members_route_def update_member_role_route_def
      remove_member_route_def create_invitation_route_def list_invitations_route_def revoke_invitation_route_def get_me_route_def
      list_my_invitations_route_def accept_invitation_route_def decline_invitation_route_def create_project_route_def
      list_projects_route_def get_project_route_def update_project_route_def delete_project_route_def create_api_key_route_def
      list_org_api_keys_route_def get_api_key_route_def rotate_api_key_route_def delete_api_key_route_def;
      intro seat_safe_dissolve keeps_rules)

lemma seat_safe_jwt [keeps_rules]: "commits (seat_safe now) (resolve_jwt en now' ver oh ph)"
  unfolding resolve_jwt_def by (intro keeps_rules)

lemma seat_safe_step:
  assumes "identity_step ae now d d'"
  shows "seat_safe now d d'"
proof -
  have ctx: "commits (seat_safe now) (get_api_context en ver now cr)" "commits (seat_safe now) (get_data_plane_context en ver sha now cr)"
    for en ver cr sha
    unfolding get_api_context_def get_data_plane_context_def by (intro keeps_rules | auto intro: keeps_rules split: list.splits)+
  have "keeps (seat_safe now) (serve ae now token cr ep)" "keeps (seat_safe now) (serve_data ae now cr)"
    "keeps (seat_safe now) (expire_stale_invitations_task now)" for token cr ep
    unfolding serve_def serve_data_def expire_stale_invitations_task_def
    by (intro seat_safe.commits_session keeps_rules ctx seat_safe_endpoint seat_safe_expire)+
  with assms show ?thesis by (cases rule: identity_step.cases) (metis keepsD2)+
qed

end
