(* ===== verification/IdentityProperties.thy ===== *)
theory IdentityProperties
  imports IdentitySeats
begin

text \<open>
  What the management API promises: roles change only as the hierarchy allows, every
  organization keeps an owner, an invitation is decided once, plans limit the members, and
  an API key authenticates until it is revoked or expires.
\<close>

text \<open>Any number of requests and tasks, at any times.\<close>

definition identity_run :: "auth_env \<Rightarrow> identity_db \<Rightarrow> identity_db \<Rightarrow> bool" where
  "identity_run ae = (\<lambda>d d'. \<exists>now. identity_step ae now d d')\<^sup>*\<^sup>*"

lemma run_lawful:
  assumes "identity_run ae d d'" "identity_inv d"
  shows "identity_inv d' \<and> invites_forward d d'"
  using assms unfolding identity_run_def
proof (induction rule: rtranclp_induct)
  case base
  then show ?case by (simp add: invites_forward_refl)
next
  case (step d1 d2)
  then obtain now u where "lawful u d1 d2" using identity_step_lawful by blast
  with step show ?case using invites_forward_trans by (auto simp: lawful_def)
qed

section \<open>Example tables\<close>

definition demo_user :: "uuid \<Rightarrow> string \<Rightarrow> string \<Rightarrow> user" where
  "demo_user i ext email = \<lparr>usr_id = i, usr_external_id = ext, usr_email = email, usr_display_name = [], usr_created_at = 0,
     usr_last_sign_in_at = None\<rparr>"

definition demo_member :: "uuid \<Rightarrow> uuid \<Rightarrow> uuid \<Rightarrow> membership_role \<Rightarrow> membership" where
  "demo_member i u g r = \<lparr>mb_id = i, mb_user_id = u, mb_org_id = g, mb_role = r, mb_created_at = 0\<rparr>"

definition demo_org_sub :: "uuid \<Rightarrow> subscription_plan \<Rightarrow> subscription" where
  "demo_org_sub g plan = \<lparr>sub_id = g, sub_org_id = g, sub_plan = plan, sub_status = subscription_status.ACTIVE, sub_customer = None,
     sub_stripe_id = None, sub_period_start = 0, sub_period_end = days 30, sub_canceled_at = None, sub_created_at = 0, sub_updated_at = 0\<rparr>"

text \<open>Ann owns organization 10, Bob is invited to it.\<close>

definition demo_idb :: identity_db where
  "demo_idb = \<lparr>users = [demo_user 1 ''ann'' ''ann@x.io'', demo_user 2 ''bob'' ''Bob@x.io''],
     orgs = [\<lparr>org_id = 10, org_name = ''Acme'', org_created_at = 0\<rparr>, \<lparr>org_id = 11, org_name = ''Bobs'', org_created_at = 0\<rparr>],
     members = [demo_member 20 1 10 OWNER, demo_member 21 2 11 OWNER],
     invites = [\<lparr>iv_id = 30, iv_org_id = 10, iv_email = ''bob@x.io'', iv_role = MEMBER, iv_invited_by = 1,
       iv_status = invitation_status.PENDING, iv_created_at = 0, iv_expires_at = days 7\<rparr>],
     projects = [], api_keys = [], fresh_id = 40,
     billing = \<lparr>subs = [demo_org_sub 10 PRO, demo_org_sub 11 HOBBY], usages = [], reports = [], next_id = 12\<rparr>\<rparr>"

text \<open>An identity provider that takes a token for the subject itself, and a hash.\<close>

definition demo_auth :: auth_env where
  "demo_auth = \<lparr>ae_enabled = True, ae_verify = (\<lambda>t. Inr \<lparr>cl_sub = t, cl_email = t @ ''@x.io'', cl_display_name = t\<rparr>),
     ae_sha256 = (\<lambda>s. ''h'' @ s)\<rparr>"

definition demo_cred :: "string \<Rightarrow> credentials" where
  "demo_cred t = \<lparr>cr_bearer = Some t, cr_api_key = None, cr_org_header = Absent, cr_project_header = Absent, cr_project_name = None\<rparr>"

lemma demo_idb_inv: "identity_inv demo_idb"
  unfolding identity_inv_def identity_wf_def wf_users_def wf_orgs_def wf_members_def wf_invites_def wf_projects_def wf_keys_def
    wf_subs_def has_owners_def
  by (simp add: demo_idb_def demo_user_def demo_member_def demo_org_sub_def user_exists_def org_exists_def unique_subs_def roles_def)

definition demo_joined :: identity_db where
  "demo_joined = snd (serve demo_auth 5 ''k'' (demo_cred ''bob'') (AcceptInvitation 30) demo_idb)"

lemma demo_join_step: "identity_step demo_auth 5 demo_idb demo_joined"
  unfolding demo_joined_def by (rule identity_step.request[OF prod.collapse[symmetric]])

lemma demo_join_run: "identity_run demo_auth demo_idb demo_joined"
  unfolding identity_run_def using demo_join_step by blast

section \<open>Properties\<close>

text \<open>
  C5: The management endpoints implement the access control machine: a request that
  succeeds changes the roles only by moves that the machine allows to the user whose
  token the request carries.
\<close>

theorem roles_follow_hierarchy:
  assumes "identity_inv d" "serve ae now token cr ep d = (Inr r, d')"
  shows "\<exists>t claims u. (cr_bearer cr = Some t \<or> cr_bearer cr = None \<and> \<not> ae_enabled ae \<and> t = ''dev-no-auth'') \<and>
    ae_verify ae t = Inr claims \<and> (u, cl_sub claims) \<in> known_users d' \<and> (access_step u)\<^sup>*\<^sup>* (roles d) (roles d')"
  using assms(2)
proof (rule serve_ok)
  fix t claims and user :: user
  assume "cr_bearer cr = Some t \<or> cr_bearer cr = None \<and> \<not> ae_enabled ae \<and> t = ''dev-no-auth''" "ae_verify ae t = Inr claims"
    "identity_inv d \<longrightarrow> (usr_id user, cl_sub claims) \<in> known_users d'" "lawful (usr_id user) d d'"
  with assms(1) show ?thesis by (auto simp: lawful_def)
qed

theorem roles_follow_hierarchy_witness:
  "roles demo_joined 10 2 = Some MEMBER \<and>
   (\<exists>u. (u, ''bob'') \<in> known_users demo_joined \<and> (access_step u)\<^sup>*\<^sup>* (roles demo_idb) (roles demo_joined))"
proof (rule conjI)
  show "roles demo_joined 10 2 = Some MEMBER" by code_simp
  have "\<not> isl (fst (serve demo_auth 5 ''k'' (demo_cred ''bob'') (AcceptInvitation 30) demo_idb))" by code_simp
  then have "\<exists>r. fst (serve demo_auth 5 ''k'' (demo_cred ''bob'') (AcceptInvitation 30) demo_idb) = Inr r" by (metis isl_def sum.exhaust)
  then obtain r where "serve demo_auth 5 ''k'' (demo_cred ''bob'') (AcceptInvitation 30) demo_idb = (Inr r, demo_joined)"
    unfolding demo_joined_def by (metis prod.collapse)
  from roles_follow_hierarchy[OF demo_idb_inv this]
  show "\<exists>u. (u, ''bob'') \<in> known_users demo_joined \<and> (access_step u)\<^sup>*\<^sup>* (roles demo_idb) (roles demo_joined)"
    by (auto simp: demo_cred_def demo_auth_def)
qed

text \<open>
  C33: Every organization keeps an owner, whatever requests are made in whatever order.
\<close>

theorem organizations_keep_owner:
  assumes "identity_inv d" "identity_run ae d d'" "g \<in> set (orgs d')"
  shows "\<exists>m \<in> set (members d'). mb_org_id m = org_id g \<and> mb_role m = OWNER"
proof -
  have "has_owners d'" using run_lawful[OF assms(2,1)] by (simp add: identity_inv_def)
  with assms(3) obtain u where "roles d' (org_id g) u = Some OWNER" by (auto simp: has_owners_def)
  then obtain m where "find (\<lambda>m. mb_user_id m = u \<and> mb_org_id m = org_id g) (members d') = Some m" "mb_role m = OWNER"
    by (auto simp: roles_def)
  then show ?thesis by (auto simp: find_Some_iff intro!: bexI[of _ m])
qed

theorem organizations_keep_owner_witness:
  "\<exists>m \<in> set (members demo_joined). mb_org_id m = 10 \<and> mb_role m = OWNER"
proof -
  have "\<exists>g \<in> set (orgs demo_joined). org_id g = 10" by code_simp
  then obtain g where "g \<in> set (orgs demo_joined)" "org_id g = 10" by blast
  with organizations_keep_owner[OF demo_idb_inv demo_join_run] show ?thesis by metis
qed

text \<open>
  C35: An invitation is decided once: after it was accepted, declined, revoked or expired no
  request changes it, and its organization, addressee and role never change.
\<close>

theorem invitation_decided_once:
  assumes "identity_inv d" "identity_run ae d d'" "v \<in> set (invites d)" "v' \<in> set (invites d')" "iv_id v' = iv_id v"
  shows "v' = v\<lparr>iv_status := iv_status v'\<rparr> \<and> (iv_status v' = iv_status v \<or> iv_status v = invitation_status.PENDING)"
proof -
  have wf: "distinct (map iv_id (invites d))" "iv_id v < fresh_id d"
    using assms(1,3) by (auto simp: identity_inv_def identity_wf_def wf_invites_def)
  obtain x where x: "x \<in> set (invites d)" "invitation_forward x v'"
    using run_lawful[OF assms(2,1)] assms(4,5) wf(2) by (auto simp: invites_forward_def)
  then have "x = v" using wf(1) assms(3,5) invitation_forward_id[of x v'] by (auto simp: distinct_map inj_on_def)
  with x show ?thesis by (simp add: invitation_forward_def)
qed

theorem invitation_decided_once_witness:
  "\<exists>v'. v' \<in> set (invites demo_joined) \<and> iv_status v' = ACCEPTED \<and> v' = (invites demo_idb ! 0)\<lparr>iv_status := iv_status v'\<rparr>"
proof -
  have "\<exists>v' \<in> set (invites demo_joined). iv_id v' = 30 \<and> iv_status v' = ACCEPTED" by code_simp
  then obtain v' where v': "v' \<in> set (invites demo_joined)" "iv_id v' = 30" "iv_status v' = ACCEPTED" by blast
  have "invites demo_idb ! 0 \<in> set (invites demo_idb)" "iv_id (invites demo_idb ! 0) = 30" by (simp_all add: demo_idb_def)
  with invitation_decided_once[OF demo_idb_inv demo_join_run _ v'(1)] v' show ?thesis by metis
qed



section \<open>API keys\<close>

lemma find_in_set: "\<exists>x \<in> set xs. P x \<Longrightarrow> \<exists>y. find P xs = Some y \<and> y \<in> set xs \<and> P y"
  by (induction xs) auto

lemma create_api_key_row_ok:
  "create_api_key_row now g h pre n c e d = (Inr k, d') \<Longrightarrow>
    d' = d\<lparr>api_keys := api_keys d @ [k], fresh_id := Suc (fresh_id d)\<rparr> \<and> ak_hash k = h \<and> ak_org_id k = g \<and>
    ak_is_active k \<and> org_exists g d \<and> (\<forall>x \<in> set (api_keys d). ak_hash x \<noteq> h)"
  by (auto simp: create_api_key_row_def Let_def list_ex_iff split: if_splits)

lemma create_api_key_ok:
  assumes "create_api_key sha now token g n c e d = (Inr (k, raw), d')"
  shows "d' = d\<lparr>api_keys := api_keys d @ [k], fresh_id := Suc (fresh_id d)\<rparr> \<and> ak_hash k = sha raw \<and> ak_org_id k = g \<and>
    ak_is_active k \<and> org_exists g d \<and> (\<forall>x \<in> set (api_keys d). ak_hash x \<noteq> sha raw)"
proof -
  from assms obtain x t delta where "get_organization g d = (Inr x, t)"
    and row: "create_api_key_row now g (sha raw) (key_prefix raw) n c (map_option ((+) now) delta) t = (Inr k, d')"
    by (cases "expiration_deltas e") (auto simp: create_api_key_def bindE_Inr_iff Let_def)
  then have "t = d" by (metis reads_same(6) snd_conv)
  with create_api_key_row_ok[OF row] show ?thesis by simp
qed

lemma resolve_active_key:
  assumes "filter (\<lambda>k. ak_hash k = sha raw \<and> ak_is_active k) (api_keys d) = [k]" "org_exists (ak_org_id k) d"
    "case ak_expires_at k of None \<Rightarrow> True | Some t \<Rightarrow> now \<le> t"
  shows "\<exists>ctx d'. resolve_api_key sha now raw None d = (Inr ctx, d') \<and> org_id (cx_organization ctx) = ak_org_id k \<and>
    cx_auth_method ctx = API_KEY \<and> cx_project ctx = None"
proof -
  from assms(2) obtain o' where o': "find (\<lambda>r. org_id r = ak_org_id k) (orgs d) = Some o'" "org_id o' = ak_org_id k"
    using find_in_set[of "orgs d" "\<lambda>r. org_id r = ak_org_id k"] by (auto simp: org_exists_def list_ex_iff)
  have "case ak_expires_at k of None \<Rightarrow> True | Some t \<Rightarrow> \<not> t < now" using assms(3) by (auto split: option.splits)
  with assms(1) o' show ?thesis
    by (simp add: resolve_api_key_def get_api_key_by_hash_def bindE_def required_def guardE_def touch_api_key_def get_organization_row_def)
qed

lemma created_key_resolves:
  assumes "create_api_key sha now token g n c e d = (Inr (k, raw), d')"
    and "case ak_expires_at k of None \<Rightarrow> True | Some t \<Rightarrow> now' \<le> t"
  shows "\<exists>ctx d''. resolve_api_key sha now' raw None d' = (Inr ctx, d'') \<and> org_id (cx_organization ctx) = g \<and>
    cx_auth_method ctx = API_KEY \<and> cx_project ctx = None"
proof -
  note ok = create_api_key_ok[OF assms(1)]
  then have "filter (\<lambda>k. ak_hash k = sha raw \<and> ak_is_active k) (api_keys d') = [k]" by (auto simp: filter_empty_conv)
  moreover have "org_exists (ak_org_id k) d'" using ok by (simp add: org_exists_def)
  ultimately show ?thesis using resolve_active_key[of sha raw d' k now'] assms(2) ok by simp
qed

text \<open>
  A new API key authenticates: the raw key that creating a key returns resolves to
  the organization it was created for, until the key expires. No assumption on the hash
  is needed, for a key whose hash is taken is refused.
\<close>

theorem api_key_authenticates:
  assumes "create_api_key sha now token g n c e d = (Inr (k, raw), d')"
    and "case ak_expires_at k of None \<Rightarrow> True | Some t \<Rightarrow> now' \<le> t"
  shows "\<exists>ctx d''. resolve_api_key sha now' raw None d' = (Inr ctx, d'') \<and> org_id (cx_organization ctx) = g \<and>
    cx_auth_method ctx = API_KEY \<and> cx_project ctx = None"
  by (rule created_key_resolves[OF assms])

theorem api_key_authenticates_witness:
  "\<exists>k raw d' ctx d''. create_api_key (\<lambda>s. ''h'' @ s) 0 ''00ff'' 10 ''ci'' (Some 1) ''90d'' demo_idb = (Inr (k, raw), d') \<and>
     resolve_api_key (\<lambda>s. ''h'' @ s) (days 90) raw None d' = (Inr ctx, d'') \<and> org_id (cx_organization ctx) = 10"
proof -
  let ?run = "create_api_key (\<lambda>s. ''h'' @ s) 0 ''00ff'' 10 ''ci'' (Some 1) ''90d'' demo_idb"
  have ok: "\<not> isl (fst ?run)" "ak_expires_at (fst (projr (fst ?run))) = Some (days 90)" by code_simp+
  obtain k raw d' where run: "?run = (Inr (k, raw), d')"
    using ok(1) by (cases "?run"; cases "fst ?run") auto
  with ok(2) have "ak_expires_at k = Some (days 90)" by simp
  then have "case ak_expires_at k of None \<Rightarrow> True | Some t \<Rightarrow> days 90 \<le> t" by simp
  from api_key_authenticates[OF run this] run show ?thesis by blast
qed

text \<open>
  A revoked API key does not authenticate: after revoking a key every raw key with
  its hash is refused, at any time and for any project.
\<close>

theorem revoked_key_refused:
  assumes "identity_inv d" "revoke_api_key i g d = (Inr x, d')" "k \<in> set (api_keys d)" "ak_id k = i" "sha raw = ak_hash k"
  shows "resolve_api_key sha now raw pn d' = (Inl (AuthenticationError ''Invalid or revoked API key.''), d')"
proof -
  have d': "d' = d\<lparr>api_keys := update_where (\<lambda>k. ak_id k = i) (\<lambda>k. k\<lparr>ak_is_active := False\<rparr>) (api_keys d)\<rparr>"
    using assms(2) by (auto simp: revoke_api_key_def revoke_api_key_row_def bindE_Inr_iff get_api_key_def get_api_key_row_def)
  have "distinct (map ak_hash (api_keys d))" using assms(1) by (simp add: identity_inv_def identity_wf_def wf_keys_def)
  then have one: "y = k" if "y \<in> set (api_keys d)" "ak_hash y = ak_hash k" for y
    using that assms(3) by (auto simp: distinct_map inj_on_def)
  have "filter (\<lambda>k. ak_hash k = sha raw \<and> ak_is_active k) (api_keys d') = []"
    using one assms(4,5) by (auto simp: filter_empty_conv d' update_where_def)
  then show ?thesis by (simp add: resolve_api_key_def get_api_key_by_hash_def bindE_def required_def)
qed

definition demo_key_idb :: identity_db where
  "demo_key_idb = snd (create_api_key (\<lambda>s. ''h'' @ s) 0 ''00ff'' 10 ''ci'' (Some 1) ''90d'' demo_idb)"

lemma demo_key_idb_inv: "identity_inv demo_key_idb"
proof -
  have "\<not> isl (fst (create_api_key (\<lambda>s. ''h'' @ s) 0 ''00ff'' 10 ''ci'' (Some 1) ''90d'' demo_idb))" by code_simp
  then obtain r where "create_api_key (\<lambda>s. ''h'' @ s) 0 ''00ff'' 10 ''ci'' (Some 1) ''90d'' demo_idb = (Inr r, demo_key_idb)"
    unfolding demo_key_idb_def by (metis prod.collapse sum.collapse(2))
  from commitsD[OF lawful_services(4)[of 0] this] show ?thesis using demo_idb_inv by (simp add: lawful_def)
qed

theorem revoked_key_refused_witness:
  "fst (resolve_api_key (\<lambda>s. ''h'' @ s) 1 ''sk_pp_00ff'' None demo_key_idb) \<noteq> Inl (AuthenticationError ''Invalid or revoked API key.'') \<and>
   fst (resolve_api_key (\<lambda>s. ''h'' @ s) 1 ''sk_pp_00ff'' None (snd (revoke_api_key 40 10 demo_key_idb))) =
     Inl (AuthenticationError ''Invalid or revoked API key.'')"
proof (rule conjI)
  have "\<not> isl (fst (resolve_api_key (\<lambda>s. ''h'' @ s) 1 ''sk_pp_00ff'' None demo_key_idb))" by code_simp
  then show "fst (resolve_api_key (\<lambda>s. ''h'' @ s) 1 ''sk_pp_00ff'' None demo_key_idb) \<noteq> Inl (AuthenticationError ''Invalid or revoked API key.'')"
    by (metis sum.disc(1))
  have "fst (revoke_api_key 40 10 demo_key_idb) = Inr ()" by code_simp
  then have run: "revoke_api_key 40 10 demo_key_idb = (Inr (), snd (revoke_api_key 40 10 demo_key_idb))" by (metis prod.collapse)
  have "\<exists>k \<in> set (api_keys demo_key_idb). ak_id k = 40 \<and> ''h'' @ ''sk_pp_00ff'' = ak_hash k" by code_simp
  then obtain k where "k \<in> set (api_keys demo_key_idb)" "ak_id k = 40" "''h'' @ ''sk_pp_00ff'' = ak_hash k" by blast
  from revoked_key_refused[OF demo_key_idb_inv run this(1,2), of "\<lambda>s. ''h'' @ s" "''sk_pp_00ff''" 1 None] this(3)
  show "fst (resolve_api_key (\<lambda>s. ''h'' @ s) 1 ''sk_pp_00ff'' None (snd (revoke_api_key 40 10 demo_key_idb))) =
     Inl (AuthenticationError ''Invalid or revoked API key.'')" by simp
qed

section \<open>Limits that do not hold\<close>

text \<open>Bob owns two organizations, the limit, and is a member of Ann's.\<close>

definition demo_two_orgs :: identity_db where
  "demo_two_orgs = snd (serve demo_auth 6 ''k'' (demo_cred ''bob'') (CreateOrganization ''Second'') demo_joined)"

text \<open>
  The limit on owned organizations binds creation only: Bob, who owns two, is refused a
  third, but when Ann makes him an owner of hers he owns three.
\<close>

theorem promotion_passes_owner_limit:
  "fst (serve demo_auth 7 ''k'' (demo_cred ''bob'') (CreateOrganization ''Third'') demo_two_orgs) = Inl OrgLimitReachedError \<and>
   count_user_owned_orgs 2 (snd (serve demo_auth 7 ''k'' (demo_cred ''ann'') (UpdateMemberRole 10 2 OWNER) demo_two_orgs)) = 3"
  by code_simp

text \<open>
  Accepting an expired invitation is refused, and the refusal is not recorded: the
  service marks the invitation as expired, but the session is rolled back.
\<close>

theorem expired_invitation_not_recorded:
  "let late = days 8; run = serve demo_auth late ''k'' (demo_cred ''bob'') (AcceptInvitation 30) demo_idb
   in fst run = Inl INVITATION_EXPIRED \<and> map iv_status (invites (snd run)) = [invitation_status.PENDING] \<and>
      map iv_status (invites (snd (accept_invitation late 2 30 demo_idb))) = [EXPIRED]"
  by code_simp

end
