(* ===== verification/Traces.thy ===== *)
theory Traces
  imports Constants Complex_Main
begin

text \<open>
  The entities of \<open>core/traces/entities.py\<close>, JSON values, and their text, which
  \<open>core/evals/metrics/utils.py\<close> feeds to the metrics.

  A JSON value is a tree; \<open>'n\<close> is what stands at its numbers. The values that clients send are
  of type \<open>payload\<close>, whose numbers are kept as the text Python prints for them.
\<close>

section \<open>JSON\<close>

datatype 'n json =
    JNull
  | JBool bool
  | JNum 'n
  | JStr string
  | JList "'n json list"
  | JObj "(string \<times> 'n json) list"

type_synonym payload = "string json"

text \<open>\<open>json.dumps\<close> with the default separators and \<open>ensure_ascii\<close>.\<close>

definition hex_digit :: "nat \<Rightarrow> char" where
  "hex_digit n = ''0123456789abcdef'' ! (n mod 16)"

definition escape_char :: "char \<Rightarrow> string" where
  "escape_char c = (let n = code c in
     if n = 34 then [CHR 0x5C, c]
     else if n = 92 then [c, c]
     else if n = 10 then [CHR 0x5C, CHR ''n'']
     else if n = 13 then [CHR 0x5C, CHR ''r'']
     else if n = 9 then [CHR 0x5C, CHR ''t'']
     else if n = 12 then [CHR 0x5C, CHR ''f'']
     else if n = 8 then [CHR 0x5C, CHR ''b'']
     else if 32 \<le> n \<and> n \<le> 126 then [c]
     else [CHR 0x5C, CHR ''u'', CHR ''0'', CHR ''0'', hex_digit (n div 16), hex_digit n])"

definition dump_string :: "string \<Rightarrow> string" where
  "dump_string s = [CHR 0x22] @ concat (map escape_char s) @ [CHR 0x22]"

fun join :: "string \<Rightarrow> string list \<Rightarrow> string" where
  "join sep [] = []"
| "join sep [x] = x"
| "join sep (x # y # xs) = x @ sep @ join sep (y # xs)"

fun dumps :: "payload \<Rightarrow> string" where
  "dumps JNull = ''null''"
| "dumps (JBool b) = (if b then ''true'' else ''false'')"
| "dumps (JNum n) = n"
| "dumps (JStr s) = dump_string s"
| "dumps (JList xs) = ''['' @ join '', '' (map dumps xs) @ '']''"
| "dumps (JObj kvs) = ''{'' @ join '', '' (map (\<lambda>kv. dump_string (fst kv) @ '': '' @ dumps (snd kv)) kvs) @ ''}''"

text \<open>\<open>to_text\<close>: an absent value has the empty text, a text is itself.\<close>

fun to_text :: "payload option \<Rightarrow> string" where
  "to_text None = []"
| "to_text (Some JNull) = []"
| "to_text (Some (JStr s)) = s"
| "to_text (Some v) = dumps v"

lemma to_text_empty_iff:
  "to_text v = [] \<longleftrightarrow> v = None \<or> v = Some JNull \<or> v = Some (JStr []) \<or> v = Some (JNum [])"
  by (cases v rule: to_text.cases) auto

section \<open>Spans and traces\<close>

record span =
  sp_span_id :: uuid
  sp_trace_id :: uuid
  sp_parent_span_id :: "uuid option"
  sp_name :: string
  sp_kind :: span_kind
  sp_status :: span_status_code
  sp_input :: "payload option"
  sp_output :: "payload option"
  sp_model :: "string option"
  sp_token_usage :: "(string \<times> payload) list option"
  sp_metadata :: "(string \<times> payload) list"
  sp_started_at :: datetime
  sp_ended_at :: "datetime option"
  sp_error :: "string option"
  sp_completion_start_time :: "datetime option"
  sp_model_parameters :: "(string \<times> payload) list option"
  sp_cost :: "(string \<times> real) list option"

record trace =
  tr_trace_id :: uuid
  tr_project_id :: uuid
  tr_name :: string
  tr_status :: trace_status
  tr_input :: "payload option"
  tr_output :: "payload option"
  tr_metadata :: "(string \<times> payload) list"
  tr_started_at :: datetime
  tr_ended_at :: "datetime option"
  tr_session_id :: "string option"
  tr_user_id :: "string option"
  tr_tags :: "string list"
  tr_environment :: "string option"
  tr_release :: "string option"
  tr_spans :: "span list"

end
