(* ===== verification/LlmEngine.thy ===== *)
theory LlmEngine
  imports Constants Complex_Main
begin

text \<open>
  \<open>infrastructure/llm/providers.py\<close> and \<open>infrastructure/llm/engine.py\<close>: the provider registry, the
  retrying structured call to the judge, and the cached embeddings.

  The LiteLLM package is a parameter: a record of the two calls the engine makes, each of
  which may fail and change the environment. A response schema is the function that parses
  and validates the text of a response. SHA-256 is a parameter. A \<open>float\<close> is a real number, so
  rounding of binary fractions is not part of the model.
\<close>

section \<open>Providers\<close>

record provider_spec =
  ps_name :: string
  litellm_prefix :: string
  required_env :: "string list"
  optional_env :: "string list"

definition PROVIDERS :: "(string \<times> provider_spec) list" where
  "PROVIDERS =
    [(''openai'', \<lparr>ps_name = ''OpenAI'', litellm_prefix = ''openai/'',
        required_env = [''OPENAI_API_KEY''], optional_env = []\<rparr>),
     (''anthropic'', \<lparr>ps_name = ''Anthropic'', litellm_prefix = ''anthropic/'',
        required_env = [''ANTHROPIC_API_KEY''], optional_env = []\<rparr>),
     (''google_genai'', \<lparr>ps_name = ''Google GenAI'', litellm_prefix = ''gemini/'',
        required_env = [''GEMINI_API_KEY''], optional_env = []\<rparr>),
     (''vertex_ai'', \<lparr>ps_name = ''Vertex AI'', litellm_prefix = ''vertex_ai/'',
        required_env = [''GOOGLE_CLOUD_PROJECT''], optional_env = [''VERTEX_AI_LOCATION'']\<rparr>)]"

text \<open>What the engine reads of \<open>settings\<close>; \<open>credential\<close> is \<open>getattr(settings, env_var, "")\<close>.\<close>

record llm_settings =
  credential :: "string \<Rightarrow> string"
  EVAL_LLM_MODEL :: string
  EVAL_LLM_TEMPERATURE :: real
  EVAL_EMBEDDING_MODEL :: string
  EVAL_EMBEDDING_CACHE_SIZE :: nat

definition starts_with :: "string \<Rightarrow> string \<Rightarrow> bool" where
  "starts_with s p \<longleftrightarrow> take (length p) s = p"

definition check_provider_credentials :: "llm_settings \<Rightarrow> string \<Rightarrow> bool \<times> string" where
  "check_provider_credentials st provider_key = (case map_of PROVIDERS provider_key of
       None \<Rightarrow> (False, ''Unknown provider'')
     | Some spec \<Rightarrow>
         let missing = filter (\<lambda>var. credential st var = []) (required_env spec) in
         if missing \<noteq> [] then (False, ''Provider is not configured.'') else (True, ''Provider is available.''))"

definition get_available_providers :: "llm_settings \<Rightarrow> (string \<times> string \<times> bool \<times> string) list" where
  "get_available_providers st = map (\<lambda>(key, spec).
     let (available, message) = check_provider_credentials st key in (key, ps_name spec, available, message)) PROVIDERS"

definition prefix_hints :: "(string \<times> string) list" where
  "prefix_hints = [(''gpt-'', ''openai/''), (''o1-'', ''openai/''), (''o3-'', ''openai/''),
     (''claude-'', ''anthropic/''), (''gemini-'', ''gemini/'')]"

definition resolve_model_string :: "string \<Rightarrow> string" where
  "resolve_model_string model =
     (if \<exists>(key, spec) \<in> set PROVIDERS. starts_with model (litellm_prefix spec) then model
      else case find (\<lambda>(hint, pre). starts_with model hint) prefix_hints of
             Some (hint, pre) \<Rightarrow> pre @ model
           | None \<Rightarrow> model)"

definition provider_key_from_model :: "string \<Rightarrow> string option" where
  "provider_key_from_model model = (let resolved = resolve_model_string model in
     map_option fst (find (\<lambda>(key, spec). starts_with resolved (litellm_prefix spec)) PROVIDERS))"

section \<open>The engine\<close>

definition MAX_RETRIES :: nat where "MAX_RETRIES = 3"

text \<open>
  \<open>acompletion model prompt temperature structured\<close>: the content of the first choice, with or
  without a response format; \<open>aembedding model texts\<close>: the vectors of the response.
\<close>

record 's litellm =
  acompletion :: "string \<Rightarrow> string \<Rightarrow> real \<Rightarrow> bool \<Rightarrow> (error, 's, string option) exec"
  aembedding :: "string \<Rightarrow> string list \<Rightarrow> (error, 's, real list list) exec"

record 's engine =
  embedding_cache :: "(string \<times> real list) list"
  provider :: 's

definition on_provider :: "(error, 's, 'a) exec \<Rightarrow> (error, 's engine, 'a) exec" where
  "on_provider m = (\<lambda>e. case m (provider e) of (r, s) \<Rightarrow> (r, e\<lparr>provider := s\<rparr>))"

text \<open>\<open>a or b\<close> on an optional text: the empty text is false.\<close>

definition or_text :: "string option \<Rightarrow> string \<Rightarrow> string" where
  "or_text a b = (case a of Some x \<Rightarrow> (if x = [] then b else x) | None \<Rightarrow> b)"

definition require_credentials :: "llm_settings \<Rightarrow> string \<Rightarrow> error + unit" where
  "require_credentials st resolved_model = (case provider_key_from_model resolved_model of
       None \<Rightarrow> Inr ()
     | Some key \<Rightarrow> (case check_provider_credentials st key of
           (ok, msg) \<Rightarrow> if ok then Inr () else Inl (ProviderNotConfiguredError msg)))"

text \<open>The text after the first newline, and \<open>s.rsplit(p, 1)[0]\<close>.\<close>

definition after_newline :: "string \<Rightarrow> error + string" where
  "after_newline s = (case dropWhile (\<lambda>c. code c \<noteq> 10) s of [] \<Rightarrow> Inl IndexError | _ # rest \<Rightarrow> Inr rest)"

definition before_last :: "string \<Rightarrow> string \<Rightarrow> string" where
  "before_last p s = (case find (\<lambda>i. starts_with (drop i s) p) (rev [0..<Suc (length s)]) of
       None \<Rightarrow> s | Some i \<Rightarrow> take i s)"

definition parse_response :: "(string \<Rightarrow> error + 'a) \<Rightarrow> string \<Rightarrow> error + 'a" where
  "parse_response schema raw = (let t = strip raw in
     if starts_with t ''```''
     then (case after_newline t of Inl e \<Rightarrow> Inl e | Inr rest \<Rightarrow> schema (strip (before_last ''```'' rest)))
     else schema t)"

definition engine_call :: "'s litellm \<Rightarrow> string \<Rightarrow> string \<Rightarrow> (string \<Rightarrow> error + 'a) \<Rightarrow> real \<Rightarrow> (error, 's engine, 'a) exec" where
  "engine_call ll model prompt schema temperature =
     (let attempt = (\<lambda>structured. bindE (on_provider (acompletion ll model prompt temperature structured))
                       (\<lambda>content. liftE (parse_response schema (or_text content [])))) in
      catchE (attempt True) (\<lambda>_. attempt False))"

definition reraised :: "error \<Rightarrow> bool" where
  "reraised e = (case e of ProviderNotConfiguredError _ \<Rightarrow> True | LLMEngineError _ \<Rightarrow> True | _ \<Rightarrow> False)"

text \<open>The loop over \<open>range(1, MAX_RETRIES + 1)\<close> with the \<open>raise\<close> after it.\<close>

fun retry_call :: "nat \<Rightarrow> (error, 's, 'a) exec \<Rightarrow> (error, 's, 'a) exec" where
  "retry_call 0 m = raise (LLMEngineError ''LLM call failed'')"
| "retry_call (Suc n) m = catchE m (\<lambda>e. if reraised e then raise e else retry_call n m)"

definition generate_structured ::
  "llm_settings \<Rightarrow> 's litellm \<Rightarrow> string \<Rightarrow> (string \<Rightarrow> error + 'a) \<Rightarrow> string option \<Rightarrow> real option \<Rightarrow> (error, 's engine, 'a) exec" where
  "generate_structured st ll prompt schema model temperature =
     (let resolved_model = resolve_model_string (or_text model (EVAL_LLM_MODEL st));
          temp = (case temperature of None \<Rightarrow> EVAL_LLM_TEMPERATURE st | Some t \<Rightarrow> t) in
      bindE (liftE (require_credentials st resolved_model))
        (\<lambda>_. retry_call MAX_RETRIES (engine_call ll resolved_model prompt schema temp)))"

text \<open>\<open>OrderedDict.move_to_end\<close> of a key that is present.\<close>

definition move_to_end :: "string \<Rightarrow> (string \<times> 'v) list \<Rightarrow> (string \<times> 'v) list" where
  "move_to_end h c = (case map_of c h of None \<Rightarrow> c | Some v \<Rightarrow> AList.delete h c @ [(h, v)])"

fun touch :: "string list \<Rightarrow> (string \<times> 'v) list \<Rightarrow> (string \<times> 'v) list" where
  "touch [] c = c"
| "touch (h # hs) c = touch hs (if h \<in> fst ` set c then move_to_end h c else c)"

fun put_all :: "(string \<times> 'v) list \<Rightarrow> (string \<times> 'v) list \<Rightarrow> (string \<times> 'v) list" where
  "put_all [] c = c"
| "put_all ((h, v) # ps) c = put_all ps (AList.update h v c)"

text \<open>Popping from the front until at most \<open>n\<close> entries are left.\<close>

definition evict :: "nat \<Rightarrow> 'v list \<Rightarrow> 'v list" where
  "evict n c = drop (length c - n) c"

definition cached_vectors :: "string list \<Rightarrow> (string \<times> 'v) list \<Rightarrow> error + 'v list" where
  "cached_vectors hs c = (if set hs \<subseteq> fst ` set c then Inr (map (\<lambda>h. the (map_of c h)) hs) else Inl KeyError)"

definition fill_cache :: "(string \<Rightarrow> string) \<Rightarrow> nat \<Rightarrow> string list \<Rightarrow> real list list \<Rightarrow> (error, 's engine, unit) exec" where
  "fill_cache sha256 max_size uncached_texts embeddings =
     bindE (modifyE (\<lambda>e. e\<lparr>embedding_cache := put_all (zip (map sha256 uncached_texts) embeddings) (embedding_cache e)\<rparr>)) (\<lambda>_.
     if length embeddings \<noteq> length uncached_texts
     then raise (ValueError ''zip() arguments have different lengths'')
     else modifyE (\<lambda>e. e\<lparr>embedding_cache := evict max_size (embedding_cache e)\<rparr>))"

definition embed_texts ::
  "llm_settings \<Rightarrow> 's litellm \<Rightarrow> (string \<Rightarrow> string) \<Rightarrow> string list \<Rightarrow> string option \<Rightarrow> (error, 's engine, real list list) exec" where
  "embed_texts st ll sha256 texts model =
     (let resolved_model = resolve_model_string (or_text model (EVAL_EMBEDDING_MODEL st));
          hashes = map sha256 texts in
      bindE (liftE (require_credentials st resolved_model)) (\<lambda>_.
      bindE (getsE (\<lambda>e. filter (\<lambda>t. sha256 t \<notin> fst ` set (embedding_cache e)) texts)) (\<lambda>uncached_texts.
      bindE (modifyE (\<lambda>e. e\<lparr>embedding_cache := touch hashes (embedding_cache e)\<rparr>)) (\<lambda>_.
      bindE (if uncached_texts = [] then ret ()
             else bindE (on_provider (aembedding ll resolved_model uncached_texts))
                    (fill_cache sha256 (EVAL_EMBEDDING_CACHE_SIZE st) uncached_texts)) (\<lambda>_.
      bindE (getsE embedding_cache) (\<lambda>c. liftE (cached_vectors hashes c)))))))"

text \<open>\<open>sum(a * b for a, b in zip(vec_a, vec_b, strict=True))\<close> and the Euclidean norm.\<close>

definition dot :: "real list \<Rightarrow> real list \<Rightarrow> real" where
  "dot xs ys = sum_list (map2 (*) xs ys)"

definition norm_of :: "real list \<Rightarrow> real" where
  "norm_of xs = sqrt (dot xs xs)"

definition clamp01 :: "real \<Rightarrow> real" where
  "clamp01 x = max 0 (min 1 x)"

definition cosine_distance :: "real list \<Rightarrow> real list \<Rightarrow> error + real" where
  "cosine_distance vec_a vec_b =
     (if length vec_a \<noteq> length vec_b then Inl (ValueError ''zip() arguments have different lengths'')
      else if norm_of vec_a = 0 \<or> norm_of vec_b = 0 then Inr 1
      else Inr (clamp01 (1 - dot vec_a vec_b / (norm_of vec_a * norm_of vec_b))))"


section \<open>Providers and responses\<close>

lemma resolve_model_string_idem: "resolve_model_string (resolve_model_string m) = resolve_model_string m"
proof (cases "\<exists>(key, spec) \<in> set PROVIDERS. starts_with m (litellm_prefix spec)")
  case False
  show ?thesis
  proof (cases "find (\<lambda>(hint, pre). starts_with m hint) prefix_hints")
    case (Some hp)
    then obtain hint pre where hp: "hp = (hint, pre)" "(hint, pre) \<in> set prefix_hints"
      by (cases hp) (metis find_Some_iff nth_mem)
    then have r: "resolve_model_string m = pre @ m"
      using False Some by (simp add: resolve_model_string_def)
    have "\<exists>(key, spec) \<in> set PROVIDERS. starts_with (pre @ m) (litellm_prefix spec)"
      using hp(2) by (auto simp: prefix_hints_def PROVIDERS_def starts_with_def)
    then show ?thesis unfolding r by (simp add: resolve_model_string_def)
  qed (use False in \<open>simp add: resolve_model_string_def\<close>)
qed (simp add: resolve_model_string_def)

lemma cosine_distance_range: "cosine_distance a b = Inr d \<Longrightarrow> 0 \<le> d \<and> d \<le> 1"
  by (auto simp: cosine_distance_def clamp01_def split: if_splits)

lemma cosine_distance_sym: "cosine_distance a b = cosine_distance b a"
proof (cases "length a = length b")
  case True
  then have "dot a b = dot b a"
    unfolding dot_def by (induction a b rule: list_induct2) (simp_all add: mult.commute)
  with True show ?thesis by (auto simp: cosine_distance_def mult.commute)
qed (auto simp: cosine_distance_def)

lemma retry_call_error:
  "retry_call n m s = (Inl e, t) \<Longrightarrow> reraised e"
  by (induction n arbitrary: s) (auto simp: catchE_def reraised_def split: prod.splits sum.splits if_splits)

text \<open>A structured call raises nothing but the engine's own exceptions.\<close>

lemma generate_structured_error:
  assumes "generate_structured st ll prompt schema model temp e = (Inl x, e')"
  shows "reraised x"
  using assms retry_call_error
  by (fastforce simp: generate_structured_def Let_def require_credentials_def reraised_def
      split: option.splits prod.splits sum.splits if_splits)

section \<open>The embedding cache\<close>

lemma delete_append: "AList.delete k (xs @ ys) = AList.delete k xs @ AList.delete k ys"
  by (simp add: AList.delete_eq)

lemma update_append_new: "k \<notin> fst ` set xs \<Longrightarrow> AList.update k v (xs @ ys) = xs @ AList.update k v ys"
  by (induction xs) auto

lemma distinct_move_to_end: "distinct (map fst c) \<Longrightarrow> distinct (map fst (move_to_end h c))"
  by (auto simp: move_to_end_def AList.delete_eq distinct_map_filter split: option.splits)

lemma set_move_to_end: "distinct (map fst c) \<Longrightarrow> set (move_to_end h c) = set c"
proof (cases "map_of c h")
  case (Some v)
  assume "distinct (map fst c)"
  with Some have "(h, w) \<in> set c \<longleftrightarrow> w = v" for w by (metis map_of_eq_Some_iff option.inject)
  with Some show ?thesis by (auto simp: move_to_end_def AList.delete_eq)
qed (simp add: move_to_end_def)

lemma touch_set:
  "distinct (map fst c) \<Longrightarrow> distinct (map fst (touch hs c)) \<and> set (touch hs c) = set c"
  by (induction hs arbitrary: c) (simp_all add: distinct_move_to_end set_move_to_end)

text \<open>Touching moves the keys that are present behind all others.\<close>

lemma move_to_end_split:
  assumes "h \<in> fst ` set (old @ recent)" "distinct (map fst (old @ recent))"
  obtains old' recent' where "move_to_end h (old @ recent) = old' @ recent'"
    "fst ` set recent' = insert h (fst ` set recent)"
proof -
  from assms(1) obtain v where "map_of (old @ recent) h = Some v"
    by (metis map_of_eq_None_iff not_None_eq)
  then have "move_to_end h (old @ recent) = AList.delete h old @ (AList.delete h recent @ [(h, v)])"
    by (simp add: move_to_end_def delete_append)
  moreover have "fst ` set (AList.delete h recent @ [(h, v)]) = insert h (fst ` set recent)"
    by (auto simp: AList.delete_eq image_iff)
  ultimately show ?thesis by (rule that)
qed

lemma touch_split:
  assumes "distinct (map fst c)" "c = old @ recent"
  shows "\<exists>old' recent'. touch hs c = old' @ recent' \<and>
           fst ` set recent' = fst ` set recent \<union> (set hs \<inter> fst ` set c)"
  using assms
proof (induction hs arbitrary: c old recent)
  case (Cons h hs)
  show ?case
  proof (cases "h \<in> fst ` set c")
    case True
    then obtain old1 recent1 where m: "move_to_end h c = old1 @ recent1"
        "fst ` set recent1 = insert h (fst ` set recent)"
      using move_to_end_split Cons.prems by metis
    have "distinct (map fst (move_to_end h c))" "set (move_to_end h c) = set c"
      using Cons.prems(1) by (simp_all add: distinct_move_to_end set_move_to_end)
    with Cons.IH[OF this(1) m(1)] m True show ?thesis by (auto simp: image_iff)
  next
    case False
    with Cons.IH[OF Cons.prems] show ?thesis by (auto simp: image_iff)
  qed
qed auto

lemma put_all_new:
  "fst ` set ps \<inter> fst ` set old = {} \<Longrightarrow> put_all ps (old @ new) = old @ put_all ps new"
  by (induction ps new rule: put_all.induct) (auto simp: update_append_new)

lemma put_all_keys: "fst ` set (put_all ps c) = fst ` set ps \<union> fst ` set c"
  by (induction ps c rule: put_all.induct) (simp_all add: dom_update Un_commute insert_commute)

lemma put_all_distinct: "distinct (map fst c) \<Longrightarrow> distinct (map fst (put_all ps c))"
  by (induction ps c rule: put_all.induct) (simp_all add: distinct_update)

lemma put_all_set: "set (put_all ps c) \<subseteq> set ps \<union> set c"
proof (induction ps c rule: put_all.induct)
  case (2 h v ps c)
  have "set (AList.update h v c) \<subseteq> insert (h, v) (set c)"
    by (induction c) auto
  with 2 show ?case by auto
qed simp

lemma length_distinct_keys: "distinct (map fst c) \<Longrightarrow> length c = card (fst ` set c)"
  by (metis distinct_card length_map list.set_map)

lemma evict_keeps_tail: "length new \<le> n \<Longrightarrow> set new \<subseteq> set (evict n (old @ new))"
  by (auto simp: evict_def)

text \<open>
  \<open>cache_ok\<close>: every entry is the vector of one of the texts \<open>T\<close> under the hash of that text.
\<close>

definition cache_ok :: "(string \<Rightarrow> string) \<Rightarrow> (string \<Rightarrow> 'v) \<Rightarrow> string set \<Rightarrow> (string \<times> 'v) list \<Rightarrow> bool" where
  "cache_ok sha256 emb T c \<longleftrightarrow> distinct (map fst c) \<and> (\<forall>(h, v) \<in> set c. \<exists>t \<in> T. h = sha256 t \<and> v = emb t)"

lemma cache_ok_lookup:
  assumes "cache_ok sha256 emb T c" "inj_on sha256 T" "t \<in> T" "sha256 t \<in> fst ` set c"
  shows "map_of c (sha256 t) = Some (emb t)"
proof -
  from assms(4) obtain v where v: "(sha256 t, v) \<in> set c" by auto
  with assms(1) obtain t' where "t' \<in> T" "sha256 t = sha256 t'" "v = emb t'"
    by (auto simp: cache_ok_def)
  with assms(2,3) have "v = emb t" by (metis inj_onD)
  with v assms(1) show ?thesis by (simp add: cache_ok_def)
qed

lemma cached_vectors_ok:
  assumes "cache_ok sha256 emb T c" "inj_on sha256 T" "set ts \<subseteq> T" "sha256 ` set ts \<subseteq> fst ` set c"
  shows "cached_vectors (map sha256 ts) c = Inr (map emb ts)"
proof -
  have "map_of c (sha256 t) = Some (emb t)" if "t \<in> set ts" for t
    using cache_ok_lookup[OF assms(1,2), of t] assms(3,4) that by blast
  with assms(4) show ?thesis by (simp add: cached_vectors_def)
qed

lemma cache_ok_evict: "cache_ok sha256 emb T c \<Longrightarrow> cache_ok sha256 emb T (evict n c)"
  by (auto simp: cache_ok_def evict_def drop_map[symmetric] dest: in_set_dropD)

lemma cache_ok_touch: "cache_ok sha256 emb T c \<Longrightarrow> cache_ok sha256 emb T (touch hs c)"
  using touch_set[of c hs] by (simp add: cache_ok_def)

lemma cache_ok_put_all:
  assumes "cache_ok sha256 emb T c" "set ts \<subseteq> T"
  shows "cache_ok sha256 emb T (put_all (zip (map sha256 ts) (map emb ts)) c)"
proof -
  have "set (zip (map sha256 ts) (map emb ts)) = (\<lambda>t. (sha256 t, emb t)) ` set ts"
    by (induction ts) auto
  with assms put_all_set[of "zip (map sha256 ts) (map emb ts)" c] put_all_distinct show ?thesis
    unfolding cache_ok_def by blast
qed

text \<open>A batch that fits is in the cache when its misses have been filled in.\<close>

lemma filled_batch_present:
  assumes ok: "distinct (map fst c)" and len: "length es = length us"
    and us: "us = filter (\<lambda>t. sha256 t \<notin> fst ` set c) texts"
    and fits: "card (sha256 ` set texts) \<le> n"
  shows "sha256 ` set texts \<subseteq> fst ` set (evict n (put_all (zip (map sha256 us) es) (touch (map sha256 texts) c)))"
proof -
  let ?ps = "zip (map sha256 us) es"
  have ps: "fst ` set ?ps = sha256 ` set us"
    by (metis (no_types) len length_map list.set_map map_fst_zip)
  note us = arg_cong[OF us, of set, simplified]
  obtain old recent where t: "touch (map sha256 texts) c = old @ recent"
      "fst ` set recent = sha256 ` set texts \<inter> fst ` set c"
    using touch_split[OF ok, of c "[]" "map sha256 texts"] by auto
  have d: "distinct (map fst (old @ recent))" "fst ` set (old @ recent) = fst ` set c"
    using touch_set[OF ok, of "map sha256 texts"] unfolding t by auto
  have "fst ` set ?ps \<inter> fst ` set old = {}"
    using d(2) ps us by (auto simp flip: d(2))
  then have e: "put_all ?ps (old @ recent) = old @ put_all ?ps recent" by (rule put_all_new)
  have k: "fst ` set (put_all ?ps recent) = sha256 ` set texts"
    using t(2) us by (auto simp: put_all_keys ps)
  have "distinct (map fst (put_all ?ps recent))" using d(1) by (simp add: put_all_distinct)
  then have "length (put_all ?ps recent) \<le> n" using fits k by (simp add: length_distinct_keys)
  then have "set (put_all ?ps recent) \<subseteq> set (evict n (put_all ?ps (touch (map sha256 texts) c)))"
    unfolding t(1) e by (rule evict_keeps_tail)
  with k show ?thesis by blast
qed


lemma embed_texts_unfold:
  assumes "require_credentials st m = Inr ()" "m = resolve_model_string (or_text model (EVAL_EMBEDDING_MODEL st))"
    and "us = filter (\<lambda>t. sha256 t \<notin> fst ` set (embedding_cache e)) texts"
    and "aembedding ll m us (provider e) = (Inr es, s')" "length es = length us"
  shows "embed_texts st ll sha256 texts model e =
    (let c = touch (map sha256 texts) (embedding_cache e);
         e' = (if us = [] then e\<lparr>embedding_cache := c\<rparr>
               else e\<lparr>embedding_cache := evict (EVAL_EMBEDDING_CACHE_SIZE st) (put_all (zip (map sha256 us) es) c), provider := s'\<rparr>)
     in (cached_vectors (map sha256 texts) (embedding_cache e'), e'))"
proof (cases "us = []")
  case True
  then show ?thesis using assms by (simp add: embed_texts_def Let_def)
next
  case False
  then show ?thesis using assms
    by (simp add: embed_texts_def Let_def bindE_def on_provider_def fill_cache_def)
qed


text \<open>
  A batch with a miss and more texts than the cache holds evicts vectors it is about to return.
\<close>

lemma embed_texts_overflow:
  assumes "require_credentials st m = Inr ()" "m = resolve_model_string (or_text model (EVAL_EMBEDDING_MODEL st))"
    and "us = filter (\<lambda>t. sha256 t \<notin> fst ` set (embedding_cache e)) texts" "us \<noteq> []"
    and "aembedding ll m us (provider e) = (Inr es, s')" "length es = length us"
    and over: "EVAL_EMBEDDING_CACHE_SIZE st < card (sha256 ` set texts)"
  shows "fst (embed_texts st ll sha256 texts model e) = Inl KeyError"
proof -
  let ?c = "evict (EVAL_EMBEDDING_CACHE_SIZE st) (put_all (zip (map sha256 us) es) (touch (map sha256 texts) (embedding_cache e)))"
  have "card (fst ` set ?c) \<le> EVAL_EMBEDDING_CACHE_SIZE st"
    by (rule order_trans[OF card_image_le], simp, rule order_trans[OF card_length]) (simp add: evict_def)
  with over have "\<not> sha256 ` set texts \<subseteq> fst ` set ?c"
    by (meson card_mono finite_imageI finite_set leD order_trans)
  then show ?thesis
    using embed_texts_unfold[OF assms(1,2,3,5,6)] assms(4) by (simp add: cached_vectors_def Let_def)
qed

definition length_vector :: "string \<Rightarrow> real list" where
  "length_vector t = [of_nat (length t), 1]"

definition demo_litellm :: "nat litellm" where
  "demo_litellm = \<lparr>acompletion = (\<lambda>m p t b s. (Inr None, Suc s)), aembedding = (\<lambda>m ts s. (Inr (map length_vector ts), Suc s))\<rparr>"

definition demo_llm_settings :: llm_settings where
  "demo_llm_settings = \<lparr>credential = (\<lambda>_. ''key''), EVAL_LLM_MODEL = ''gpt-4o'', EVAL_LLM_TEMPERATURE = 1,
     EVAL_EMBEDDING_MODEL = ''vertex_ai/text-embedding-004'', EVAL_EMBEDDING_CACHE_SIZE = 2\<rparr>"

text \<open>
  C38: The embedding cache is transparent under four conditions: the distinct texts of the batch fit into
  the cache, no two of the texts ever embedded have the same hash, the service embeds a text as a function of
  it, and everything in the cache was embedded by the model in use, which the keys do not record. Then
  \<open>embed_texts\<close> returns exactly the vectors that embedding the batch without a cache gives, whatever was
  cached, moved and evicted before, and leaves a cache that is right again and no larger than the limit allows.
\<close>

theorem embedding_cache_transparent:
  assumes "require_credentials st m = Inr ()" and "m = resolve_model_string (or_text model (EVAL_EMBEDDING_MODEL st))"
    and service: "\<And>ts s. fst (aembedding ll m ts s) = Inr (map emb ts)"
    and inj: "inj_on sha256 T" and T: "set texts \<subseteq> T"
    and ok: "cache_ok sha256 emb T (embedding_cache e)"
    and fits: "card (sha256 ` set texts) \<le> EVAL_EMBEDDING_CACHE_SIZE st"
  shows "fst (embed_texts st ll sha256 texts model e) = Inr (map emb texts) \<and>
    cache_ok sha256 emb T (embedding_cache (snd (embed_texts st ll sha256 texts model e))) \<and>
    length (embedding_cache (snd (embed_texts st ll sha256 texts model e)))
      \<le> max (length (embedding_cache e)) (EVAL_EMBEDDING_CACHE_SIZE st)"
proof -
  define us where "us = filter (\<lambda>t. sha256 t \<notin> fst ` set (embedding_cache e)) texts"
  obtain s' where s': "aembedding ll m us (provider e) = (Inr (map emb us), s')"
    using service[of us "provider e"] by (metis prod.collapse)
  note run = embed_texts_unfold[OF assms(1,2) us_def s' length_map]
  have d: "distinct (map fst (embedding_cache e))" using ok by (simp add: cache_ok_def)
  note touched = touch_set[OF d, of "map sha256 texts"]
  have tok: "cache_ok sha256 emb T (touch (map sha256 texts) (embedding_cache e))"
    using ok by (rule cache_ok_touch)
  have "set us \<subseteq> T" using T by (auto simp: us_def)
  then have full: "cache_ok sha256 emb T (evict (EVAL_EMBEDDING_CACHE_SIZE st)
      (put_all (zip (map sha256 us) (map emb us)) (touch (map sha256 texts) (embedding_cache e))))"
    using tok by (intro cache_ok_evict cache_ok_put_all)
  note present = filled_batch_present[OF d length_map us_def fits]
  show ?thesis
  proof (cases "us = []")
    case True
    then have "sha256 ` set texts \<subseteq> fst ` set (touch (map sha256 texts) (embedding_cache e))"
      using touched by (auto simp: us_def filter_empty_conv)
    moreover have "length (touch (map sha256 texts) (embedding_cache e)) = length (embedding_cache e)"
      using touched d by (simp add: length_distinct_keys)
    ultimately show ?thesis using True run tok cached_vectors_ok[OF tok inj T] by (simp add: Let_def)
  next
    case False
    then show ?thesis using run full cached_vectors_ok[OF full inj T present] by (simp add: Let_def evict_def)
  qed
qed

theorem embedding_cache_transparent_witness:
  "fst (embed_texts demo_llm_settings demo_litellm id [''ab'', ''abc'', ''ab''] None
     \<lparr>embedding_cache = [(''a'', [1, 1]), (''abc'', [3, 1])], provider = 0\<rparr>) = Inr [[2, 1], [3, 1], [2, 1]]"
proof -
  let ?e = "\<lparr>embedding_cache = [(''a'', [1, 1]), (''abc'', [3, 1])], provider = 0 :: nat\<rparr>"
  have creds: "require_credentials demo_llm_settings ''vertex_ai/text-embedding-004'' = Inr ()" by code_simp
  have model: "''vertex_ai/text-embedding-004'' = resolve_model_string (or_text None (EVAL_EMBEDDING_MODEL demo_llm_settings))"
    by code_simp
  have service: "fst (aembedding demo_litellm ''vertex_ai/text-embedding-004'' ts s) = Inr (map length_vector ts)" for ts s
    by (simp add: demo_litellm_def)
  have ok: "cache_ok id length_vector UNIV (embedding_cache ?e)"
    by (simp add: cache_ok_def length_vector_def)
  have fits: "card (id ` set [''ab'', ''abc'', ''ab'']) \<le> EVAL_EMBEDDING_CACHE_SIZE demo_llm_settings"
    by code_simp
  show ?thesis
    using embedding_cache_transparent[OF creds model service inj_on_id subset_UNIV ok fits]
    by (simp add: length_vector_def)
qed

end
