(* ===== verification/EvalMetrics.thy ===== *)
theory EvalMetrics
  imports Traces LlmEngine "HOL-Library.Multiset"
begin

text \<open>
  The metrics of \<open>core/evals/metrics\<close>. A trace metric scores one trace with the help of the
  language model; a session metric aggregates the scores of the traces of a session.

  The prompt texts of the \<open>template.py\<close> files are parameters, the fields of a record of
  functions, and so is the parsing of a response into the fields of a schema; the range
  constraints that the \<open>schema.py\<close> files add are written out. Numbers are real numbers. The text of
  an identifier is its numeral.
\<close>

section \<open>Numbers as the metrics print and round them\<close>

definition round_half_even :: "real \<Rightarrow> int" where
  "round_half_even x = (let f = \<lfloor>x\<rfloor>; r = x - of_int f in
     if r < 1 / 2 then f else if r > 1 / 2 then f + 1 else if even f then f else f + 1)"

definition round4 :: "real \<Rightarrow> real" where
  "round4 x = of_int (round_half_even (x * 10000)) / 10000"

fun show_nat :: "nat \<Rightarrow> string" where
  "show_nat n = (if n < 10 then [char_of (48 + n)] else show_nat (n div 10) @ [char_of (48 + n mod 10)])"

declare show_nat.simps [simp del]

definition four_digits :: "nat \<Rightarrow> string" where
  "four_digits n = map (\<lambda>d. char_of (48 + n div d mod 10)) [1000, 100, 10, 1]"

text \<open>\<open>f"{x:.4f}"\<close>.\<close>

definition fmt4 :: "real \<Rightarrow> string" where
  "fmt4 x = (let k = nat (round_half_even (\<bar>x\<bar> * 10000)) in
     (if x < 0 then ''-'' else []) @ show_nat (k div 10000) @ ''.'' @ four_digits (k mod 10000))"

section \<open>Results\<close>

datatype number = Literal string | Float real

type_synonym metadata = "(string \<times> number json) list"

record metric_result =
  mr_score :: real
  mr_reason :: "string option"
  mr_metadata :: metadata

abbreviation (input) JFloat :: "real \<Rightarrow> number json" where "JFloat x \<equiv> JNum (Float x)"
abbreviation (input) JInt :: "nat \<Rightarrow> number json" where "JInt n \<equiv> JNum (Literal (show_nat n))"

definition DEFAULT_SIGNAL_WEIGHTS :: "(string \<times> real) list" where
  "DEFAULT_SIGNAL_WEIGHTS = [(''confidence'', 1), (''loop_detection'', 1), (''tool_correctness'', 8 / 10), (''coherence'', 1)]"

text \<open>\<open>threshold\<close> of every metric class.\<close>

definition default_threshold :: real where "default_threshold = 1 / 2"

definition effective_threshold :: "real option \<Rightarrow> real" where
  "effective_threshold threshold = (case threshold of None \<Rightarrow> default_threshold | Some t \<Rightarrow> t)"

section \<open>Loop detection\<close>

text \<open>Maximal runs of characters of a class: \<open>str.split()\<close> and \<open>re.findall(r"\w+")\<close>.\<close>

function runs :: "(char \<Rightarrow> bool) \<Rightarrow> string \<Rightarrow> string list" where
  "runs P s = (let t = dropWhile (\<lambda>c. \<not> P c) s in
     if t = [] then [] else takeWhile P t # runs P (dropWhile P t))"
  by auto
termination
proof (relation "measure (\<lambda>(P, s). length s)")
  fix P :: "char \<Rightarrow> bool" and s t
  assume t: "t = dropWhile (\<lambda>c. \<not> P c) s" "t \<noteq> []"
  then have "P (hd t)" using hd_dropWhile by blast
  with t(2) have "length (dropWhile P t) < length t"
    by (cases t) (simp_all add: length_dropWhile_le less_Suc_eq_le)
  also have "\<dots> \<le> length s" unfolding t(1) by (rule length_dropWhile_le)
  finally show "((P, dropWhile P t), (P, s)) \<in> measure (\<lambda>(P, s). length s)" by simp
qed simp

declare runs.simps [simp del]

definition word_char :: "char \<Rightarrow> bool" where
  "word_char c \<longleftrightarrow> is_alnum c \<or> code c = 95"

definition STOP_WORDS :: "string list" where
  "STOP_WORDS = runs (\<lambda>c. \<not> is_space c)
    (''a an the is are was were be been being have has had do does did '' @
     ''will would shall should may might can could of in to for on with '' @
     ''at by from as into through during before after above below and '' @
     ''but or nor not so yet both either neither each every all any few '' @
     ''more most other some such no only own same than too very it its'')"

definition DEFAULT_WINDOW :: nat where "DEFAULT_WINDOW = 3"

definition tokenize :: "string \<Rightarrow> string set" where
  "tokenize s = set (filter (\<lambda>t. t \<notin> set STOP_WORDS \<and> 1 < length t) (runs word_char (lower s)))"

definition jaccard :: "string set \<Rightarrow> string set \<Rightarrow> real" where
  "jaccard a b =
     (if a = {} \<and> b = {} then 0
      else if card (a \<union> b) = 0 then 0 else of_nat (card (a \<inter> b)) / of_nat (card (a \<union> b)))"

definition last_n :: "nat \<Rightarrow> 'a list \<Rightarrow> 'a list" where
  "last_n n xs = drop (length xs - n) xs"

fun traverseE :: "('a \<Rightarrow> 'e + 'b) \<Rightarrow> 'a list \<Rightarrow> 'e + 'b list" where
  "traverseE f [] = Inr []"
| "traverseE f (x # xs) = (case f x of Inl e \<Rightarrow> Inl e | Inr y \<Rightarrow>
     (case traverseE f xs of Inl e \<Rightarrow> Inl e | Inr ys \<Rightarrow> Inr (y # ys)))"

text \<open>The similarities of the current output and one previous output.\<close>

definition compare_output :: "real list \<Rightarrow> string set \<Rightarrow> string \<times> real list \<Rightarrow> error + real \<times> real \<times> real" where
  "compare_output current_embedding current_tokens prev = (case cosine_distance current_embedding (snd prev) of
       Inl e \<Rightarrow> Inl e
     | Inr d \<Rightarrow> let cos_sim = 1 - d; jac_sim = jaccard current_tokens (tokenize (fst prev)) in
                 Inr (cos_sim, jac_sim, cos_sim * jac_sim))"

definition comparison_entry :: "nat \<Rightarrow> real \<times> real \<times> real \<Rightarrow> number json" where
  "comparison_entry i c = JObj
     [(''trace_index'', JInt i), (''cosine_similarity'', JFloat (round4 (fst c))),
      (''jaccard_similarity'', JFloat (round4 (fst (snd c)))), (''hybrid_score'', JFloat (round4 (snd (snd c))))]"

definition max_hybrid :: "(real \<times> real \<times> real) list \<Rightarrow> real" where
  "max_hybrid cs = fold (\<lambda>c m. max m (snd (snd c))) cs 0"

definition no_looping :: "string \<Rightarrow> string \<Rightarrow> metric_result" where
  "no_looping reason note = \<lparr>mr_score = 1, mr_reason = Some reason, mr_metadata = [(''note'', JStr note)]\<rparr>"

text \<open>\<open>threshold or self.threshold\<close>: a threshold of zero counts as none.\<close>

definition threshold_or_default :: "real option \<Rightarrow> real" where
  "threshold_or_default threshold = (case threshold of None \<Rightarrow> default_threshold | Some t \<Rightarrow> if t = 0 then default_threshold else t)"

definition loop_result :: "nat \<Rightarrow> real option \<Rightarrow> (real \<times> real \<times> real) list \<Rightarrow> metric_result" where
  "loop_result n_session threshold cs =
     (let m = max_hybrid cs; n = length cs; score = round4 (clamp01 (1 - m)); th = threshold_or_default threshold in
      \<lparr>mr_score = score, mr_reason = Some (''Max hybrid repetition score: '' @ fmt4 m),
       mr_metadata =
         [(''window_size'', JInt n), (''max_hybrid'', JFloat (round4 m)),
          (''comparisons'', JList (map2 comparison_entry [n_session - n..<n_session] cs)),
          (''threshold'', JFloat th), (''success'', JBool (th \<le> score))]\<rparr>)"

definition loop_detection ::
  "llm_settings \<Rightarrow> 's litellm \<Rightarrow> (string \<Rightarrow> string) \<Rightarrow> trace \<Rightarrow> real option \<Rightarrow> trace list \<Rightarrow> (error, 's engine, metric_result) exec" where
  "loop_detection st ll sha256 tr threshold session_traces =
     (let window = last_n DEFAULT_WINDOW session_traces;
          current_text = to_text (tr_output tr);
          prev_texts = filter (\<lambda>t. t \<noteq> []) (map (\<lambda>t. to_text (tr_output t)) window) in
      if session_traces = [] then ret (no_looping ''No session context provided; looping cannot be assessed.'' ''no session context provided'')
      else if current_text = [] then ret (no_looping ''Empty output; looping cannot be assessed.'' ''empty_output'')
      else if prev_texts = [] then ret (no_looping ''No previous outputs to compare.'' ''no_previous_outputs'')
      else bindE (embed_texts st ll sha256 (current_text # prev_texts) None) (\<lambda>embeddings.
           bindE (liftE (traverseE (compare_output (hd embeddings) (tokenize current_text)) (zip prev_texts (tl embeddings)))) (\<lambda>cs.
           ret (loop_result (length session_traces) threshold cs))))"

section \<open>Coherence\<close>

definition coherence ::
  "llm_settings \<Rightarrow> 's litellm \<Rightarrow> (string \<Rightarrow> string) \<Rightarrow> trace \<Rightarrow> real option \<Rightarrow> (error, 's engine, metric_result) exec" where
  "coherence st ll sha256 tr threshold =
     (let input_text = to_text (tr_input tr); output_text = to_text (tr_output tr) in
      if input_text = [] \<or> output_text = []
      then ret \<lparr>mr_score = 1, mr_reason = Some ''Input or output is empty; coherence assumed.'',
                mr_metadata = [(''coherence_gap'', JFloat 0), (''note'', JStr ''empty_input_or_output'')]\<rparr>
      else bindE (embed_texts st ll sha256 [input_text, output_text] None) (\<lambda>embeddings.
           bindE (liftE (cosine_distance (embeddings ! 0) (embeddings ! 1))) (\<lambda>gap.
           let score = clamp01 (1 - gap) in
           ret \<lparr>mr_score = round4 score, mr_reason = Some (''Coherence gap: '' @ fmt4 gap),
                mr_metadata = [(''coherence_gap'', JFloat (round4 gap)), (''threshold'', JFloat (effective_threshold threshold)),
                  (''success'', JBool (effective_threshold threshold \<le> score))]\<rparr>)))"

section \<open>Metrics of the judge\<close>

datatype argument_verdict = Yes | No | Neutral

fun verdict_text :: "argument_verdict \<Rightarrow> string" where
  "verdict_text Yes = ''yes''"
| "verdict_text No = ''no''"
| "verdict_text Neutral = ''neutral''"

text \<open>
  The functions of the templates that build the prompts, and for each response schema the
  parsing of a response into its fields; the schemas of the verdicts share one function that
  takes the name of the schema.
\<close>

record judge =
  evaluate_confidence :: "trace \<Rightarrow> string"
  extract_task_and_outcome :: "trace \<Rightarrow> string"
  generate_verdict :: "string \<Rightarrow> string \<Rightarrow> string"
  extract_task_from_trace :: "trace \<Rightarrow> string"
  get_execution_efficiency :: "string \<Rightarrow> trace \<Rightarrow> string"
  extract_tool_usage :: "trace \<Rightarrow> string"
  score_tool_selection :: "string \<Rightarrow> payload list \<Rightarrow> payload list \<Rightarrow> string"
  extract_plan_from_trace :: "trace \<Rightarrow> string"
  evaluate_plan_quality :: "string \<Rightarrow> string \<Rightarrow> string"
  evaluate_adherence :: "string \<Rightarrow> string \<Rightarrow> trace \<Rightarrow> string"
  extract_tool_calls :: "trace \<Rightarrow> string"
  generate_verdicts :: "string \<Rightarrow> payload list \<Rightarrow> string"
  generate_reason :: "string list \<Rightarrow> string \<Rightarrow> real \<Rightarrow> string"
  scored_response :: "string \<Rightarrow> string \<Rightarrow> error + real \<times> string option"
  task_and_outcome_response :: "string \<Rightarrow> error + string \<times> string"
  task_response :: "string \<Rightarrow> error + string"
  tool_usage_response :: "string \<Rightarrow> error + string \<times> payload list \<times> payload list"
  plan_response :: "string \<Rightarrow> error + string list"
  tool_calls_response :: "string \<Rightarrow> error + string \<times> payload list"
  argument_verdicts_response :: "string \<Rightarrow> error + (argument_verdict \<times> string option) list"
  reason_response :: "string \<Rightarrow> error + string"

text \<open>\<open>Field(ge=0.0, le=1.0)\<close> on the score of a verdict schema.\<close>

definition unit_score :: "(string \<Rightarrow> error + real \<times> 'r) \<Rightarrow> string \<Rightarrow> error + real \<times> 'r" where
  "unit_score parse text = (case parse text of Inl e \<Rightarrow> Inl e | Inr (v, r) \<Rightarrow>
     if 0 \<le> v \<and> v \<le> 1 then Inr (v, r) else Inl (ValueError ''Input should be between 0 and 1''))"

text \<open>The result every judged metric builds from a verdict.\<close>

definition judged :: "real option \<Rightarrow> metadata \<Rightarrow> real \<times> string option \<Rightarrow> metric_result" where
  "judged threshold details verdict =
     \<lparr>mr_score = fst verdict, mr_reason = snd verdict,
      mr_metadata = details @ [(''threshold'', JFloat (effective_threshold threshold)),
        (''success'', JBool (effective_threshold threshold \<le> fst verdict))]\<rparr>"

definition as_given :: "payload list \<Rightarrow> number json" where
  "as_given vs = JList (map (map_json Literal) vs)"

definition text_list :: "string list \<Rightarrow> number json" where
  "text_list xs = JList (map JStr xs)"

definition confidence ::
  "judge \<Rightarrow> llm_settings \<Rightarrow> 's litellm \<Rightarrow> trace \<Rightarrow> real option \<Rightarrow> string option \<Rightarrow> (error, 's engine, metric_result) exec" where
  "confidence j st ll tr threshold model =
     bindE (generate_structured st ll (evaluate_confidence j tr) (unit_score (scored_response j ''ConfidenceVerdict'')) model None) (\<lambda>verdict.
     ret (judged threshold [] verdict))"

definition task_completion ::
  "judge \<Rightarrow> llm_settings \<Rightarrow> 's litellm \<Rightarrow> trace \<Rightarrow> real option \<Rightarrow> string option \<Rightarrow> (error, 's engine, metric_result) exec" where
  "task_completion j st ll tr threshold model =
     bindE (generate_structured st ll (extract_task_and_outcome j tr) (task_and_outcome_response j) model None) (\<lambda>(task, outcome).
     bindE (generate_structured st ll (generate_verdict j task outcome) (unit_score (scored_response j ''TaskCompletionVerdict'')) model None) (\<lambda>verdict.
     ret (judged threshold [(''task'', JStr task), (''outcome'', JStr outcome)] verdict)))"

definition step_efficiency ::
  "judge \<Rightarrow> llm_settings \<Rightarrow> 's litellm \<Rightarrow> trace \<Rightarrow> real option \<Rightarrow> string option \<Rightarrow> (error, 's engine, metric_result) exec" where
  "step_efficiency j st ll tr threshold model =
     bindE (generate_structured st ll (extract_task_from_trace j tr) (task_response j) model None) (\<lambda>task.
     bindE (generate_structured st ll (get_execution_efficiency j task tr) (unit_score (scored_response j ''EfficiencyVerdict'')) model None) (\<lambda>verdict.
     ret (judged threshold [(''task'', JStr task)] verdict)))"

definition tool_correctness ::
  "judge \<Rightarrow> llm_settings \<Rightarrow> 's litellm \<Rightarrow> trace \<Rightarrow> real option \<Rightarrow> string option \<Rightarrow> (error, 's engine, metric_result) exec" where
  "tool_correctness j st ll tr threshold model =
     bindE (generate_structured st ll (extract_tool_usage j tr) (tool_usage_response j) model None) (\<lambda>(user_input, called, available).
     bindE (generate_structured st ll (score_tool_selection j user_input called available) (unit_score (scored_response j ''ToolSelectionScore'')) model None) (\<lambda>verdict.
     ret (judged threshold [(''user_input'', JStr user_input), (''tools_called'', as_given called),
       (''available_tools'', as_given available)] verdict)))"

text \<open>\<open>json.dumps(plan, indent=2)\<close> of a plan with a step, and the answer for a trace without one.\<close>

definition dump_plan :: "string list \<Rightarrow> string" where
  "dump_plan plan = [CHR ''['', CHR 0x0A] @
     join [CHR '','', CHR 0x0A] (map (\<lambda>x. ''  '' @ dump_string x) plan) @ [CHR 0x0A, CHR '']'']"

definition no_plan :: "real option \<Rightarrow> string \<Rightarrow> metric_result" where
  "no_plan threshold user_task =
     \<lparr>mr_score = 1, mr_reason = Some ''No plan found in trace'',
      mr_metadata = [(''task'', JStr user_task), (''plan'', JList []),
        (''threshold'', JFloat (effective_threshold threshold)), (''success'', JBool True)]\<rparr>"

definition plan_quality ::
  "judge \<Rightarrow> llm_settings \<Rightarrow> 's litellm \<Rightarrow> trace \<Rightarrow> real option \<Rightarrow> string option \<Rightarrow> (error, 's engine, metric_result) exec" where
  "plan_quality j st ll tr threshold model =
     bindE (generate_structured st ll (extract_task_from_trace j tr) (task_response j) model None) (\<lambda>user_task.
     bindE (generate_structured st ll (extract_plan_from_trace j tr) (plan_response j) model None) (\<lambda>plan.
     if plan = [] then ret (no_plan threshold user_task)
     else bindE (generate_structured st ll (evaluate_plan_quality j user_task (dump_plan plan)) (unit_score (scored_response j ''PlanQualityScore'')) model None)
       (\<lambda>verdict. ret (judged threshold [(''task'', JStr user_task), (''plan'', text_list plan)] verdict))))"

definition plan_adherence ::
  "judge \<Rightarrow> llm_settings \<Rightarrow> 's litellm \<Rightarrow> trace \<Rightarrow> real option \<Rightarrow> string option \<Rightarrow> (error, 's engine, metric_result) exec" where
  "plan_adherence j st ll tr threshold model =
     bindE (generate_structured st ll (extract_task_from_trace j tr) (task_response j) model None) (\<lambda>user_task.
     bindE (generate_structured st ll (extract_plan_from_trace j tr) (plan_response j) model None) (\<lambda>plan.
     if plan = [] then ret (no_plan threshold user_task)
     else bindE (generate_structured st ll (evaluate_adherence j user_task (dump_plan plan) tr) (unit_score (scored_response j ''PlanAdherenceScore'')) model None)
       (\<lambda>verdict. ret (judged threshold [(''task'', JStr user_task), (''plan'', text_list plan)] verdict))))"

text \<open>Neutral verdicts count neither way; without others the score is 1.\<close>

definition argument_score :: "(argument_verdict \<times> 'r) list \<Rightarrow> real" where
  "argument_score verdicts = (let task_verdicts = filter (\<lambda>v. fst v \<noteq> Neutral) verdicts in
     if task_verdicts = [] then 1
     else of_nat (length (filter (\<lambda>v. fst v = Yes) task_verdicts)) / of_nat (length task_verdicts))"

definition verdict_entry :: "argument_verdict \<times> string option \<Rightarrow> number json" where
  "verdict_entry v = JObj [(''verdict'', JStr (verdict_text (fst v))),
     (''reason'', case snd v of None \<Rightarrow> JNull | Some r \<Rightarrow> JStr r)]"

definition argument_correctness ::
  "judge \<Rightarrow> llm_settings \<Rightarrow> 's litellm \<Rightarrow> trace \<Rightarrow> real option \<Rightarrow> string option \<Rightarrow> (error, 's engine, metric_result) exec" where
  "argument_correctness j st ll tr threshold model =
     bindE (generate_structured st ll (extract_tool_calls j tr) (tool_calls_response j) model None) (\<lambda>(user_input, tool_calls).
     if tool_calls = []
     then ret \<lparr>mr_score = 1, mr_reason = Some ''No tool calls in trace; nothing to evaluate.'',
               mr_metadata = [(''user_input'', JStr user_input), (''verdicts'', JList []),
                 (''threshold'', JFloat (effective_threshold threshold)), (''success'', JBool True)]\<rparr>
     else bindE (generate_structured st ll (generate_verdicts j user_input tool_calls) (argument_verdicts_response j) model None) (\<lambda>verdicts.
       let task_verdicts = filter (\<lambda>v. fst v \<noteq> Neutral) verdicts; score = argument_score verdicts in
       bindE (if verdicts \<noteq> [] \<and> task_verdicts = []
              then ret ''Only Reflect rule and memory operations; no task-directed arguments to evaluate.''
              else generate_structured st ll
                     (generate_reason j (map (\<lambda>v. or_text (snd v) ''No reason provided'') (filter (\<lambda>v. fst v = No) task_verdicts)) user_input score)
                     (reason_response j) model None) (\<lambda>reason.
       ret (judged threshold [(''user_input'', JStr user_input), (''verdicts'', JList (map verdict_entry verdicts))] (score, Some reason)))))"

section \<open>The registry\<close>

text \<open>The trace metrics in the order of their names, and which of them need session context.\<close>

definition REGISTRY :: "string list" where
  "REGISTRY = [''argument_correctness'', ''coherence'', ''confidence'', ''loop_detection'', ''plan_adherence'',
     ''plan_quality'', ''step_efficiency'', ''task_completion'', ''tool_correctness'']"

definition requires_session_context :: "string \<Rightarrow> bool" where
  "requires_session_context name \<longleftrightarrow> name = ''loop_detection''"

definition list_metrics :: "string list" where
  "list_metrics = filter (\<lambda>k. \<not> requires_session_context k) REGISTRY"

definition list_session_metrics :: "string list" where
  "list_session_metrics = [''agent_consistency'', ''agent_reliability'']"

text \<open>\<open>get_metric(name)().evaluate(trace, llm, model=..., session_traces=...)\<close>.\<close>

definition evaluate_metric ::
  "judge \<Rightarrow> llm_settings \<Rightarrow> 's litellm \<Rightarrow> (string \<Rightarrow> string) \<Rightarrow> string \<Rightarrow> trace \<Rightarrow> string option \<Rightarrow> trace list \<Rightarrow> (error, 's engine, metric_result) exec" where
  "evaluate_metric j st ll sha256 name tr model session_traces =
     (if name = ''argument_correctness'' then argument_correctness j st ll tr None model
      else if name = ''coherence'' then coherence st ll sha256 tr None
      else if name = ''confidence'' then confidence j st ll tr None model
      else if name = ''loop_detection'' then loop_detection st ll sha256 tr None session_traces
      else if name = ''plan_adherence'' then plan_adherence j st ll tr None model
      else if name = ''plan_quality'' then plan_quality j st ll tr None model
      else if name = ''step_efficiency'' then step_efficiency j st ll tr None model
      else if name = ''task_completion'' then task_completion j st ll tr None model
      else if name = ''tool_correctness'' then tool_correctness j st ll tr None model
      else raise KeyError)"

section \<open>Session metrics\<close>

type_synonym signals = "(string \<times> real) list"

definition merged_weights :: "signals option \<Rightarrow> signals" where
  "merged_weights signal_weights = fold (\<lambda>(k, v). AList.update k v)
     (case signal_weights of None \<Rightarrow> [] | Some w \<Rightarrow> w) DEFAULT_SIGNAL_WEIGHTS"

definition get_or :: "signals \<Rightarrow> string \<Rightarrow> real \<Rightarrow> real" where
  "get_or d k v = (case map_of d k of None \<Rightarrow> v | Some x \<Rightarrow> x)"

text \<open>The signals in the order in which the metrics read them: name, detail key, default weight.\<close>

definition confidence_term :: "string \<times> string \<times> real" where
  "confidence_term = (''confidence'', ''confidence_risk'', 1)"

definition situation_terms :: "(string \<times> string \<times> real) list" where
  "situation_terms = [(''loop_detection'', ''loop_risk'', 1), (''tool_correctness'', ''tool_risk'', 8 / 10),
     (''coherence'', ''coherence_risk'', 1)]"

text \<open>One \<open>if name in signals\<close> block: detail key, risk and weighted risk.\<close>

definition risk_term :: "signals \<Rightarrow> signals \<Rightarrow> string \<times> string \<times> real \<Rightarrow> (string \<times> real \<times> real) list" where
  "risk_term weights sigs = (\<lambda>(name, key, dflt). case map_of sigs name of
       None \<Rightarrow> []
     | Some v \<Rightarrow> [(key, 1 - v, get_or weights name dflt * (1 - v))])"

definition risk_terms :: "signals \<Rightarrow> signals \<Rightarrow> (string \<times> string \<times> real) list \<Rightarrow> (string \<times> real \<times> real) list" where
  "risk_terms weights sigs ts = concat (map (risk_term weights sigs) ts)"

definition rounded_details :: "(string \<times> real \<times> real) list \<Rightarrow> (string \<times> number json) list" where
  "rounded_details rs = map (\<lambda>(key, risk, weighted). (key, JFloat (round4 risk))) rs"

definition weighted :: "(string \<times> real \<times> real) list \<Rightarrow> real list" where
  "weighted rs = map (\<lambda>(key, risk, w). w) rs"

text \<open>\<open>max\<close> of a list that is not empty.\<close>

fun max_of :: "real list \<Rightarrow> real" where
  "max_of (x # xs) = fold max xs x"
| "max_of [] = 0"

definition trace_signals :: "(uuid \<times> signals) list \<Rightarrow> trace \<Rightarrow> signals" where
  "trace_signals precomputed tr = (case map_of precomputed (tr_trace_id tr) of None \<Rightarrow> [] | Some s \<Rightarrow> s)"

text \<open>The step risk of one trace, or nothing for a trace the loop skips.\<close>

definition step_risk :: "signals \<Rightarrow> signals \<Rightarrow> real option" where
  "step_risk weights sigs = (let rs = risk_terms weights sigs (confidence_term # situation_terms) in
     if rs = [] then None else Some (max_of (weighted rs)))"

definition reliability_detail :: "signals \<Rightarrow> signals \<Rightarrow> number json" where
  "reliability_detail weights sigs = (let rs = risk_terms weights sigs (confidence_term # situation_terms) in
     JObj (rounded_details rs @ [(''step_risk'', JFloat (round4 (max_of (weighted rs))))]))"

definition uuid_text :: "uuid \<Rightarrow> string" where
  "uuid_text i = show_nat i"

text \<open>The loop over the traces: identifier, value and detail of every trace that has a value.\<close>

definition assessed ::
  "(signals \<Rightarrow> real option) \<Rightarrow> (signals \<Rightarrow> number json) \<Rightarrow> (uuid \<times> signals) list \<Rightarrow> trace list \<Rightarrow> (uuid \<times> real \<times> number json) list" where
  "assessed value detail precomputed traces = concat (map (\<lambda>tr.
     let sigs = trace_signals precomputed tr in
     if sigs = [] then [] else (case value sigs of None \<Rightarrow> [] | Some r \<Rightarrow> [(tr_trace_id tr, r, detail sigs)])) traces)"

definition details_of :: "(uuid \<times> real \<times> number json) list \<Rightarrow> (string \<times> number json) list" where
  "details_of rs = fold (\<lambda>(i, r, d). AList.update (uuid_text i) d) rs []"

definition weights_json :: "signals \<Rightarrow> number json" where
  "weights_json w = JObj (map (\<lambda>(k, v). (k, JFloat v)) w)"

definition empty_session :: metric_result where
  "empty_session = \<lparr>mr_score = 1, mr_reason = Some ''No traces or signals to evaluate.'',
     mr_metadata = [(''note'', JStr ''empty_session'')]\<rparr>"

definition no_evaluable_traces :: metric_result where
  "no_evaluable_traces = \<lparr>mr_score = 1, mr_reason = Some ''No evaluable traces.'', mr_metadata = []\<rparr>"

definition TOP_K_PERCENTILE :: real where "TOP_K_PERCENTILE = 15 / 100"
definition ENSEMBLE_WEIGHT_MAX :: real where "ENSEMBLE_WEIGHT_MAX = 1 / 10"

definition top_k :: "nat \<Rightarrow> nat" where
  "top_k n = max 1 (nat \<lceil>of_nat n * TOP_K_PERCENTILE\<rceil>)"

definition mean_top_k :: "real list \<Rightarrow> real" where
  "mean_top_k risks = (let k = top_k (length risks) in sum_list (take k (rev (sort risks))) / of_nat k)"

definition raw_risk :: "real list \<Rightarrow> real" where
  "raw_risk risks = (1 - ENSEMBLE_WEIGHT_MAX) * mean_top_k risks + ENSEMBLE_WEIGHT_MAX * hd (rev (sort risks))"

definition reliability_result :: "signals \<Rightarrow> trace list \<Rightarrow> (uuid \<times> real \<times> number json) list \<Rightarrow> metric_result" where
  "reliability_result weights traces rs =
     (let risks = map (\<lambda>(i, r, d). r) rs;
          flagged = map (\<lambda>(i, r, d). uuid_text i) (filter (\<lambda>(i, r, d). 1 / 2 < r) rs);
          n_flagged = length flagged; n_total = length risks in
      \<lparr>mr_score = round4 (clamp01 (1 - raw_risk risks)),
       mr_reason = Some (if n_flagged = 0 then ''No elevated risk across '' @ show_nat n_total @ '' traces.''
          else ''Elevated risk in '' @ show_nat n_flagged @ '' of '' @ show_nat n_total @ '' traces.''),
       mr_metadata =
         [(''total_traces_in_session'', JInt (length traces)), (''traces_evaluated'', JInt n_total),
          (''raw_risk'', JFloat (round4 (raw_risk risks))), (''signal_weights'', weights_json weights),
          (''per_trace_signals'', JObj (details_of rs)), (''flagged_traces'', text_list flagged),
          (''aggregation'', JObj
             [(''method'', JStr ''max_compose_top_k''), (''top_k_percentile'', JFloat TOP_K_PERCENTILE),
              (''ensemble_weight'', JFloat ENSEMBLE_WEIGHT_MAX), (''mean_top_k_risk'', JFloat (round4 (mean_top_k risks))),
              (''max_risk'', JFloat (round4 (hd (rev (sort risks)))))])]\<rparr>)"

definition agent_reliability :: "trace list \<Rightarrow> signals option \<Rightarrow> (uuid \<times> signals) list \<Rightarrow> metric_result" where
  "agent_reliability traces signal_weights precomputed =
     (if precomputed = [] \<or> traces = [] then empty_session
      else let weights = merged_weights signal_weights;
               rs = assessed (step_risk weights) (reliability_detail weights) precomputed traces in
           if rs = [] then no_evaluable_traces else reliability_result weights traces rs)"

definition penalty :: "signals \<Rightarrow> signals \<Rightarrow> real" where
  "penalty weights sigs = sum_list (weighted (risk_terms weights sigs situation_terms))"

definition weighted_uncertainty :: "signals \<Rightarrow> signals \<Rightarrow> real option" where
  "weighted_uncertainty weights sigs = (case map_of sigs ''confidence'' of
       None \<Rightarrow> None
     | Some v \<Rightarrow> Some ((1 + penalty weights sigs) * (get_or weights ''confidence'' 1 * (1 - v))))"

definition consistency_detail :: "signals \<Rightarrow> signals \<Rightarrow> number json" where
  "consistency_detail weights sigs = JObj
     (rounded_details (risk_terms weights sigs (confidence_term # situation_terms)) @
      [(''situational_penalty'', JFloat (round4 (penalty weights sigs))),
       (''weighted_uncertainty'', JFloat (round4 (case weighted_uncertainty weights sigs of None \<Rightarrow> 0 | Some wu \<Rightarrow> wu)))])"

definition rms :: "real list \<Rightarrow> real" where
  "rms us = sqrt (sum_list (map (\<lambda>u. u ^ 2) us) / of_nat (length us))"

definition consistency_result :: "signals \<Rightarrow> trace list \<Rightarrow> (uuid \<times> real \<times> number json) list \<Rightarrow> metric_result" where
  "consistency_result weights traces rs =
     (let us = map (\<lambda>(i, u, d). u) rs; n_total = length us; score = round4 (clamp01 (1 - rms us)) in
      \<lparr>mr_score = score,
       mr_reason = Some (if 8 / 10 \<le> score then ''Consistent performance across '' @ show_nat n_total @ '' traces.''
          else if 1 / 2 \<le> score then ''Moderate instability detected across '' @ show_nat n_total @ '' traces.''
          else ''High instability across '' @ show_nat n_total @ '' traces; multiple signals compound.''),
       mr_metadata =
         [(''total_traces_in_session'', JInt (length traces)), (''traces_evaluated'', JInt n_total),
          (''raw_instability'', JFloat (round4 (rms us))), (''signal_weights'', weights_json weights),
          (''per_trace_signals'', JObj (details_of rs)),
          (''aggregation'', JObj [(''method'', JStr ''weighted_rms''), (''rms_value'', JFloat (round4 (rms us)))])]\<rparr>)"

definition agent_consistency :: "trace list \<Rightarrow> signals option \<Rightarrow> (uuid \<times> signals) list \<Rightarrow> metric_result" where
  "agent_consistency traces signal_weights precomputed =
     (if precomputed = [] \<or> traces = [] then empty_session
      else let weights = merged_weights signal_weights;
               rs = assessed (weighted_uncertainty weights) (consistency_detail weights) precomputed traces in
           if rs = [] then no_evaluable_traces else consistency_result weights traces rs)"

text \<open>\<open>get_session_metric(name)().evaluate(\<dots>)\<close>.\<close>

definition evaluate_session_metric :: "string \<Rightarrow> trace list \<Rightarrow> signals option \<Rightarrow> (uuid \<times> signals) list \<Rightarrow> error + metric_result" where
  "evaluate_session_metric name traces signal_weights precomputed =
     (if name = ''agent_consistency'' then Inr (agent_consistency traces signal_weights precomputed)
      else if name = ''agent_reliability'' then Inr (agent_reliability traces signal_weights precomputed)
      else Inl KeyError)"

end
