(* ===== verification/EvalScores.thy ===== *)
theory EvalScores
  imports EvalMetrics
begin

text \<open>
  What the metrics promise: every score lies between 0 and 1, the tail risk of a session is the
  worst mean over all choices of that many traces, and improving a signal never lowers the
  score of a session.
\<close>

section \<open>Rounding\<close>

lemma round_half_even_bounds: "\<lfloor>x\<rfloor> \<le> round_half_even x" "round_half_even x \<le> \<lfloor>x\<rfloor> + 1"
  by (auto simp: round_half_even_def Let_def)

lemma round_half_even_mono:
  assumes "x \<le> y"
  shows "round_half_even x \<le> round_half_even y"
proof (cases "\<lfloor>x\<rfloor> = \<lfloor>y\<rfloor>")
  case True
  with assms show ?thesis by (auto simp: round_half_even_def Let_def)
next
  case False
  with assms have "\<lfloor>x\<rfloor> + 1 \<le> \<lfloor>y\<rfloor>" by (simp add: floor_mono order_less_le zless_imp_add1_zle)
  then show ?thesis using round_half_even_bounds(2)[of x] round_half_even_bounds(1)[of y] by linarith
qed

lemma round_half_even_of_int [simp]: "round_half_even (of_int k) = k"
  by (simp add: round_half_even_def)

lemma round4_mono: "x \<le> y \<Longrightarrow> round4 x \<le> round4 y"
  by (simp add: round4_def round_half_even_mono divide_right_mono)

lemma round4_close: "\<bar>round4 x - x\<bar> \<le> 1 / 20000"
proof -
  have "\<bar>of_int (round_half_even (x * 10000)) - x * 10000\<bar> \<le> 1 / 2"
    unfolding round_half_even_def Let_def using floor_correct[of "x * 10000"] by (auto simp: abs_le_iff)
  then show ?thesis by (simp add: round4_def abs_le_iff field_simps)
qed

lemma round4_0 [simp]: "round4 0 = 0"
  using round_half_even_of_int[of 0] by (simp add: round4_def)

lemma round4_1 [simp]: "round4 1 = 1"
  using round_half_even_of_int[of 10000] by (simp add: round4_def)

lemma round4_idem [simp]: "round4 (round4 x) = round4 x"
  by (simp add: round4_def)

definition unit_interval :: "real \<Rightarrow> bool" where
  "unit_interval x \<longleftrightarrow> 0 \<le> x \<and> x \<le> 1"

lemma unit_round4: "unit_interval x \<Longrightarrow> unit_interval (round4 x)"
  using round4_mono[of 0 x] round4_mono[of x 1] by (simp add: unit_interval_def)

lemma unit_clamp01 [simp]: "unit_interval (clamp01 x)"
  by (simp add: unit_interval_def clamp01_def)

lemma unit_1 [simp]: "unit_interval 1"
  by (simp add: unit_interval_def)

lemma clamp01_mono: "x \<le> y \<Longrightarrow> clamp01 x \<le> clamp01 y"
  by (simp add: clamp01_def)

section \<open>Every score is between 0 and 1\<close>

lemma retry_call_result:
  "retry_call n m s = (Inr x, t) \<Longrightarrow> \<exists>s'. m s' = (Inr x, t)"
  by (induction n arbitrary: s) (auto simp: catchE_def split: prod.splits sum.splits if_splits)

lemma engine_call_result:
  assumes "engine_call ll model prompt schema temp e = (Inr x, e')"
  shows "\<exists>raw. parse_response schema raw = Inr x"
  using assms by (auto simp: engine_call_def Let_def catchE_def bindE_def split: prod.splits sum.splits)

lemma generate_structured_result:
  assumes "generate_structured st ll prompt schema model temp e = (Inr x, e')"
  shows "\<exists>t. schema t = Inr x"
proof -
  from assms obtain s' t where "engine_call ll (resolve_model_string (or_text model (EVAL_LLM_MODEL st))) prompt schema t s' = (Inr x, e')"
    by (auto simp: generate_structured_def Let_def dest!: retry_call_result split: sum.splits)
  then have "\<exists>raw. parse_response schema raw = Inr x" by (rule engine_call_result)
  then show ?thesis by (auto simp: parse_response_def Let_def split: if_splits sum.splits)
qed

lemma unit_score_result:
  assumes "generate_structured st ll prompt (unit_score parse) model temp e = (Inr v, e')"
  shows "unit_interval (fst v)"
proof -
  from generate_structured_result[OF assms] obtain t where "unit_score parse t = Inr v" ..
  then show ?thesis by (auto simp: unit_score_def unit_interval_def split: sum.splits if_splits)
qed

text \<open>\<open>yields P m\<close>: what \<open>m\<close> returns satisfies \<open>P\<close>.\<close>

definition yields :: "('a \<Rightarrow> bool) \<Rightarrow> ('e, 's, 'a) exec \<Rightarrow> bool" where
  "yields P m \<longleftrightarrow> (\<forall>s x t. m s = (Inr x, t) \<longrightarrow> P x)"

lemma yieldsD: "yields P m \<Longrightarrow> m s = (Inr x, t) \<Longrightarrow> P x"
  by (auto simp: yields_def)

lemma yields_ret: "P x \<Longrightarrow> yields P (ret x)"
  by (simp add: yields_def)

lemma yields_raise: "yields P (raise e)"
  by (simp add: yields_def)

lemma yields_bind: "(\<And>x. yields P (f x)) \<Longrightarrow> yields P (bindE m f)"
  by (auto simp: yields_def bindE_Inr_iff)

lemma yields_if: "yields P m \<Longrightarrow> yields P n \<Longrightarrow> yields P (if b then m else n)"
  by simp

lemma yields_prod: "(\<And>a b. yields P (f a b)) \<Longrightarrow> yields P (case x of (a, b) \<Rightarrow> f a b)"
  by (cases x) simp

abbreviation (input) scores_unit :: "(error, 's, metric_result) exec \<Rightarrow> bool" where
  "scores_unit \<equiv> yields (\<lambda>r. unit_interval (mr_score r))"

lemma judged_bind:
  "scores_unit (bindE (generate_structured st ll prompt (unit_score parse) model temp) (\<lambda>v. ret (judged th d v)))"
  by (auto simp: yields_def bindE_Inr_iff judged_def dest: unit_score_result)

lemmas yields_intros = judged_bind yields_bind yields_prod yields_if yields_raise yields_ret

lemma argument_score_unit: "unit_interval (argument_score vs)"
proof (cases "filter (\<lambda>v. fst v \<noteq> Neutral) vs = []")
  case False
  let ?t = "filter (\<lambda>v. fst v \<noteq> Neutral) vs"
  have "length (filter (\<lambda>v. fst v = Yes) ?t) \<le> length ?t" by (rule length_filter_le)
  with False show ?thesis by (simp add: argument_score_def unit_interval_def Let_def del: filter_filter)
qed (simp add: argument_score_def)

lemma judged_metrics_unit:
  "scores_unit (argument_correctness j st ll tr th model)" "scores_unit (confidence j st ll tr th model)"
  "scores_unit (plan_adherence j st ll tr th model)" "scores_unit (plan_quality j st ll tr th model)"
  "scores_unit (step_efficiency j st ll tr th model)" "scores_unit (task_completion j st ll tr th model)"
  "scores_unit (tool_correctness j st ll tr th model)"
  unfolding argument_correctness_def confidence_def plan_adherence_def plan_quality_def
    step_efficiency_def task_completion_def tool_correctness_def Let_def
  by (intro yields_intros; simp add: no_plan_def judged_def argument_score_unit)+

lemma computed_metrics_unit:
  "scores_unit (coherence st ll sha256 tr th)" "scores_unit (loop_detection st ll sha256 tr th ts)"
  unfolding coherence_def loop_detection_def Let_def
  by (intro yields_intros; simp add: loop_result_def no_looping_def unit_round4 Let_def)+

lemma metric_score_unit: "scores_unit (evaluate_metric j st ll sha256 name tr model ts)"
  unfolding evaluate_metric_def by (intro yields_if judged_metrics_unit computed_metrics_unit yields_raise)

lemma session_score_unit:
  assumes "evaluate_session_metric name traces w p = Inr r"
  shows "unit_interval (mr_score r)"
  using assms
  by (auto simp: evaluate_session_metric_def agent_consistency_def agent_reliability_def empty_session_def
      no_evaluable_traces_def reliability_result_def consistency_result_def Let_def unit_round4 split: if_splits)

section \<open>Tail risk\<close>

text \<open>The largest mean over all choices of \<open>k\<close> entries.\<close>

definition worst_mean :: "nat \<Rightarrow> real list \<Rightarrow> real" where
  "worst_mean k xs = Max ((\<lambda>ys. sum_list ys / of_nat k) ` {ys \<in> set (subseqs xs). length ys = k})"

lemma descending_prefix_maximal:
  fixes M :: "real multiset"
  assumes "sorted_wrt (\<ge>) ds" "M \<subseteq># mset ds" "size M = k"
  shows "sum_mset M \<le> sum_list (take k ds)"
  using assms
proof (induction ds arbitrary: M k)
  case (Cons d ds)
  show ?case
  proof (cases k)
    case 0
    with Cons.prems show ?thesis by simp
  next
    case (Suc k')
    obtain x where x: "x \<in># M" "x \<le> d" "M - {#x#} \<subseteq># mset ds"
    proof (cases "d \<in># M")
      case True
      with Cons.prems(2) that[of d] show ?thesis
        by (simp add: insert_subset_eq_iff subset_eq_diff_conv)
    next
      case False
      with Cons.prems(2) have sub: "M \<subseteq># mset ds"
        by (metis diff_single_trivial mset.simps(2) subset_eq_diff_conv add_mset_add_single)
      from Cons.prems(3) Suc obtain x where x: "x \<in># M" by (metis multiset_nonemptyE size_empty nat.distinct(1))
      with sub have "x \<in> set ds" by (metis mset_subset_eqD set_mset_mset)
      then have "x \<le> d" using Cons.prems(1) by simp
      moreover have "M - {#x#} \<subseteq># mset ds" using sub by (meson diff_subset_eq_self subset_mset.order_trans)
      ultimately show ?thesis using that x by blast
    qed
    have "sum_mset (M - {#x#}) \<le> sum_list (take k' ds)"
      using Cons.IH[OF _ x(3), of k'] Cons.prems(1,3) x(1) Suc by (simp add: size_Diff_singleton)
    moreover have "sum_mset M = x + sum_mset (M - {#x#})" using x(1) by (simp add: sum_mset.remove)
    ultimately show ?thesis using x(2) Suc by simp
  qed
qed simp

lemma subseqs_mset: "ys \<in> set (subseqs xs) \<Longrightarrow> mset ys \<subseteq># mset xs"
proof (induction xs arbitrary: ys)
  case (Cons x xs)
  have step: "mset xs \<subseteq># add_mset x (mset xs)" by (simp add: mset_subset_eqI)
  from Cons show ?case by (auto simp: Let_def intro: subset_mset.order_trans[OF _ step])
qed simp

lemma mset_subseqs: "M \<subseteq># mset xs \<Longrightarrow> \<exists>ys \<in> set (subseqs xs). mset ys = M"
proof (induction xs arbitrary: M)
  case (Cons x xs)
  show ?case
  proof (cases "x \<in># M")
    case True
    with Cons.prems have "M - {#x#} \<subseteq># mset xs" by (simp add: subset_eq_diff_conv)
    with Cons.IH obtain ys where "ys \<in> set (subseqs xs)" "mset ys = M - {#x#}" by blast
    with True have "x # ys \<in> set (subseqs (x # xs))" "mset (x # ys) = M" by (auto simp: Let_def)
    then show ?thesis by blast
  next
    case False
    with Cons.prems have "M \<subseteq># mset xs"
      by (metis diff_single_trivial mset.simps(2) subset_eq_diff_conv add_mset_add_single)
    with Cons.IH show ?thesis by (auto simp: Let_def)
  qed
qed simp

lemma finite_choices [simp]: "finite {ys \<in> set (subseqs xs). length ys = k}"
  by simp

lemma worst_mean_sorted:
  assumes "0 < k" "k \<le> length xs"
  shows "worst_mean k xs = sum_list (take k (rev (sort xs))) / of_nat k"
  unfolding worst_mean_def
proof (rule Max_eqI)
  let ?ds = "rev (sort xs)"
  have desc: "sorted_wrt (\<ge>) ?ds" by (simp add: sorted_wrt_rev)
  show "v \<le> sum_list (take k ?ds) / real k"
    if v: "v \<in> (\<lambda>ys. sum_list ys / real k) ` {ys \<in> set (subseqs xs). length ys = k}" for v
  proof -
    from v obtain ys where ys: "v = sum_list ys / real k" "ys \<in> set (subseqs xs)" "length ys = k" by blast
    then have "sum_mset (mset ys) \<le> sum_list (take k ?ds)"
      by (intro descending_prefix_maximal[OF desc]) (simp_all add: subseqs_mset)
    with ys show ?thesis by (simp add: sum_mset_sum_list divide_right_mono)
  qed
  have "mset (take k ?ds) \<subseteq># mset xs"
    by (metis append_take_drop_id mset_append mset_rev mset_sort mset_subset_eq_add_left)
  then obtain ys where "ys \<in> set (subseqs xs)" "mset ys = mset (take k ?ds)" using mset_subseqs by blast
  with assms(2) have "ys \<in> {ys \<in> set (subseqs xs). length ys = k}" "sum_list ys = sum_list (take k ?ds)"
    by (auto dest: mset_eq_length simp flip: sum_mset_sum_list)
  then show "sum_list (take k ?ds) / real k \<in> (\<lambda>ys. sum_list ys / real k) ` {ys \<in> set (subseqs xs). length ys = k}"
    by (intro image_eqI[where x = ys]) simp_all
qed simp

lemma top_k_bounds: "0 < top_k n" "0 < n \<Longrightarrow> top_k n \<le> n"
  by (auto simp: top_k_def TOP_K_PERCENTILE_def ceiling_le_iff nat_le_iff)

lemma mean_top_k_worst: "xs \<noteq> [] \<Longrightarrow> mean_top_k xs = worst_mean (top_k (length xs)) xs"
  by (simp add: mean_top_k_def worst_mean_sorted top_k_bounds Let_def)

lemma hd_descending: "xs \<noteq> [] \<Longrightarrow> hd (rev (sort xs)) = Max (set xs)" for xs :: "real list"
proof -
  assume "xs \<noteq> []"
  then obtain d ds where ds: "rev (sort xs) = d # ds"
    by (metis list.exhaust mset.simps(1) mset_rev mset_sort mset_zero_iff_right)
  have "sorted_wrt (\<ge>) (rev (sort xs))" by (simp add: sorted_wrt_rev)
  moreover have "set xs = set (d # ds)" using ds by (metis set_rev set_sort)
  ultimately show ?thesis unfolding ds by (intro Max_eqI[symmetric]) auto
qed

section \<open>Improving a signal\<close>

lemma better_choice:
  fixes ys :: "real list"
  assumes "list_all2 (\<le>) xs xs'" "ys \<in> set (subseqs xs)"
  shows "\<exists>ys' \<in> set (subseqs xs'). length ys' = length ys \<and> sum_list ys \<le> sum_list ys'"
  using assms
proof (induction arbitrary: ys rule: list_all2_induct)
  case (Cons x xs x' xs')
  from Cons.prems consider zs where "ys = x # zs" "zs \<in> set (subseqs xs)" | "ys \<in> set (subseqs xs)"
    by (auto simp: Let_def)
  then show ?case
  proof cases
    case 1
    with Cons.IH obtain zs' where "zs' \<in> set (subseqs xs')" "length zs' = length zs" "sum_list zs \<le> sum_list zs'"
      by blast
    with 1 Cons.hyps(1) show ?thesis by (intro bexI[of _ "x' # zs'"]) (auto simp: Let_def)
  next
    case 2
    with Cons.IH show ?thesis by (auto simp: Let_def)
  qed
qed simp

lemma worst_mean_mono:
  assumes "list_all2 (\<le>) xs xs'" "k \<le> length xs"
  shows "worst_mean k xs \<le> worst_mean k xs'"
  unfolding worst_mean_def
proof (rule Max.boundedI)
  have "mset (take k xs) \<subseteq># mset xs"
    by (metis append_take_drop_id mset_append mset_subset_eq_add_left)
  then obtain ys where "ys \<in> set (subseqs xs)" "mset ys = mset (take k xs)" using mset_subseqs by blast
  with assms(2) have "ys \<in> {ys \<in> set (subseqs xs). length ys = k}" by (auto dest: mset_eq_length)
  then show "(\<lambda>ys. sum_list ys / real k) ` {ys \<in> set (subseqs xs). length ys = k} \<noteq> {}" by blast
next
  fix v assume "v \<in> (\<lambda>ys. sum_list ys / real k) ` {ys \<in> set (subseqs xs). length ys = k}"
  then obtain ys where v: "v = sum_list ys / real k" "ys \<in> set (subseqs xs)" "length ys = k" by blast
  from better_choice[OF assms(1) this(2)] obtain ys' where
    ys': "ys' \<in> {ys \<in> set (subseqs xs'). length ys = k}" "sum_list ys \<le> sum_list ys'" using v by auto
  then have "v \<le> sum_list ys' / real k" by (simp add: v divide_right_mono)
  also have "\<dots> \<le> Max ((\<lambda>ys. sum_list ys / real k) ` {ys \<in> set (subseqs xs'). length ys = k})"
    using ys'(1) by (intro Max_ge) auto
  finally show "v \<le> Max ((\<lambda>ys. sum_list ys / real k) ` {ys \<in> set (subseqs xs'). length ys = k})" .
qed simp

lemma Max_list_mono:
  fixes xs :: "real list"
  assumes "list_all2 (\<le>) xs xs'" "xs \<noteq> []"
  shows "Max (set xs) \<le> Max (set xs')"
proof (rule Max.boundedI)
  fix x assume "x \<in> set xs"
  then obtain i where i: "i < length xs" "x = xs ! i" by (metis in_set_conv_nth)
  with assms(1) have "x \<le> xs' ! i" "xs' ! i \<in> set xs'" by (auto simp: list_all2_conv_all_nth)
  then show "x \<le> Max (set xs')" by (meson List.finite_set Max_ge order_trans)
qed (use assms in auto)

lemma raw_risk_worst:
  "xs \<noteq> [] \<Longrightarrow> raw_risk xs = 9 / 10 * worst_mean (top_k (length xs)) xs + 1 / 10 * Max (set xs)"
  by (simp add: raw_risk_def hd_descending mean_top_k_worst ENSEMBLE_WEIGHT_MAX_def)

lemma raw_risk_mono:
  assumes "list_all2 (\<le>) xs xs'" "xs \<noteq> []"
  shows "raw_risk xs \<le> raw_risk xs'"
proof -
  from assms have ne: "xs' \<noteq> []" "length xs' = length xs" by (auto dest: list_all2_lengthD)
  have "worst_mean (top_k (length xs)) xs \<le> worst_mean (top_k (length xs)) xs'"
    using assms by (intro worst_mean_mono top_k_bounds) auto
  moreover have "Max (set xs) \<le> Max (set xs')" using assms by (rule Max_list_mono)
  ultimately show ?thesis unfolding raw_risk_worst[OF assms(2)] raw_risk_worst[OF ne(1)] ne(2) by linarith
qed

lemma rms_mono:
  assumes "list_all2 (\<lambda>x y. 0 \<le> x \<and> x \<le> y) us us'"
  shows "rms us \<le> rms us'"
proof -
  have "sum_list (map (\<lambda>u. u ^ 2) us) \<le> sum_list (map (\<lambda>u. u ^ 2) us')"
    using assms by (induction rule: list_all2_induct) (auto intro: add_mono power_mono)
  then show ?thesis using list_all2_lengthD[OF assms] by (simp add: rms_def divide_right_mono)
qed

text \<open>\<open>better s s'\<close>: the same signals with values that are at least as high, and at most 1.\<close>

definition better :: "signals \<Rightarrow> signals \<Rightarrow> bool" where
  "better = list_all2 (\<lambda>(k, v) (k', v'). k = k' \<and> v \<le> v' \<and> v' \<le> 1)"

definition better_session :: "(uuid \<times> signals) list \<Rightarrow> (uuid \<times> signals) list \<Rightarrow> bool" where
  "better_session = list_all2 (\<lambda>(i, s) (i', s'). i = i' \<and> better s s')"

lemma map_of_rel:
  "list_all2 (\<lambda>(k, v) (k', v'). k = k' \<and> R v v') xs ys \<Longrightarrow> rel_option R (map_of xs k) (map_of ys k)"
  by (induction rule: list_all2_induct) auto

lemma better_map_of: "better s s' \<Longrightarrow> rel_option (\<lambda>v v'. v \<le> v' \<and> v' \<le> 1) (map_of s k) (map_of s' k)"
  unfolding better_def by (rule map_of_rel)

lemma better_trace_signals: "better_session p p' \<Longrightarrow> better (trace_signals p tr) (trace_signals p' tr)"
  unfolding better_session_def trace_signals_def
  using map_of_rel[of better p p' "tr_trace_id tr"]
  by (auto simp: better_def split: option.splits elim: option.rel_cases)

definition nonneg :: "signals \<Rightarrow> bool" where
  "nonneg w \<longleftrightarrow> (\<forall>(k, v) \<in> set w. 0 \<le> v)"

lemma nonneg_update: "nonneg c \<Longrightarrow> 0 \<le> v \<Longrightarrow> nonneg (AList.update k v c)"
  by (induction c) (auto simp: nonneg_def)

lemma nonneg_merged:
  assumes "\<And>w. ws = Some w \<Longrightarrow> nonneg w"
  shows "nonneg (merged_weights ws)"
proof -
  have "nonneg (fold (\<lambda>(k, v). AList.update k v) w c)" if "nonneg w" "nonneg c" for w c
    using that
  proof (induction w arbitrary: c)
    case (Cons kv w)
    obtain k v where kv: "kv = (k, v)" by (cases kv)
    with Cons.prems(1) have "nonneg w" "0 \<le> v" by (simp_all add: nonneg_def)
    with Cons.prems(2) show ?case by (simp add: kv Cons.IH nonneg_update)
  qed simp
  moreover have "nonneg DEFAULT_SIGNAL_WEIGHTS" by (simp add: nonneg_def DEFAULT_SIGNAL_WEIGHTS_def)
  moreover have "nonneg (case ws of None \<Rightarrow> [] | Some w \<Rightarrow> w)"
    using assms by (cases ws) (simp_all add: nonneg_def)
  ultimately show ?thesis unfolding merged_weights_def by blast
qed

lemma get_or_nonneg: "nonneg w \<Longrightarrow> 0 \<le> d \<Longrightarrow> 0 \<le> get_or w k d"
  by (auto simp: get_or_def nonneg_def dest: map_of_SomeD split: option.splits)

text \<open>Better signals have lower risks, term by term.\<close>

definition lower_risks :: "(string \<times> real \<times> real) list \<Rightarrow> (string \<times> real \<times> real) list \<Rightarrow> bool" where
  "lower_risks = list_all2 (\<lambda>(k, r, w) (k', r', w'). 0 \<le> w' \<and> w' \<le> w)"

lemma risk_term_better:
  assumes "better s s'" "nonneg w" "0 \<le> snd (snd t)"
  shows "lower_risks (risk_term w s t) (risk_term w s' t)"
proof -
  obtain name key d where t: "t = (name, key, d)" by (cases t)
  have "0 \<le> get_or w name d" using assms(2,3) by (simp add: get_or_nonneg t)
  then show ?thesis using better_map_of[OF assms(1), of name]
    by (auto simp: t risk_term_def lower_risks_def mult_left_mono elim!: option.rel_cases split: option.splits)
qed

lemma risk_terms_better:
  assumes "better s s'" "nonneg w" "\<forall>t \<in> set ts. 0 \<le> snd (snd t)"
  shows "lower_risks (risk_terms w s ts) (risk_terms w s' ts)"
  using assms(3)
proof (induction ts)
  case (Cons t ts)
  then have "lower_risks (risk_term w s t) (risk_term w s' t)" by (intro risk_term_better assms(1,2)) simp
  with Cons show ?case by (simp add: risk_terms_def lower_risks_def list_all2_appendI)
qed (simp add: risk_terms_def lower_risks_def)

lemma lower_weighted:
  "lower_risks rs rs' \<Longrightarrow> list_all2 (\<lambda>x y. 0 \<le> x \<and> x \<le> y) (weighted rs') (weighted rs)"
  unfolding lower_risks_def by (induction rule: list_all2_induct) (auto simp: weighted_def)

lemma max_of_Max: "xs \<noteq> [] \<Longrightarrow> max_of xs = Max (set xs)"
  by (cases xs) (simp, metis Max.set_eq_fold max_of.simps(1))

lemma nonneg_terms: "\<forall>t \<in> set (confidence_term # situation_terms). 0 \<le> snd (snd t)"
  by (simp add: confidence_term_def situation_terms_def)

lemma step_risk_better:
  assumes "better s s'" "nonneg w"
  shows "rel_option (\<ge>) (step_risk w s) (step_risk w s')"
proof -
  have "lower_risks (risk_terms w s (confidence_term # situation_terms)) (risk_terms w s' (confidence_term # situation_terms))"
    by (rule risk_terms_better[OF assms nonneg_terms])
  moreover have "rel_option (\<ge>) (if rs = [] then None else Some (max_of (weighted rs)))
      (if rs' = [] then None else Some (max_of (weighted rs')))" if "lower_risks rs rs'" for rs rs'
  proof (cases "rs = []")
    case False
    with that have ne: "rs' \<noteq> []" by (auto simp: lower_risks_def)
    have "list_all2 (\<le>) (weighted rs') (weighted rs)"
      using lower_weighted[OF that] by (rule list_all2_mono) simp
    then have "Max (set (weighted rs')) \<le> Max (set (weighted rs))"
      using ne by (intro Max_list_mono) (simp_all add: weighted_def)
    moreover have "weighted rs \<noteq> []" "weighted rs' \<noteq> []" using False ne by (simp_all add: weighted_def)
    ultimately have "max_of (weighted rs') \<le> max_of (weighted rs)" by (simp only: max_of_Max not_False_eq_True)
    with False ne show ?thesis by simp
  qed (use that in \<open>simp add: lower_risks_def\<close>)
  ultimately show ?thesis unfolding step_risk_def Let_def by blast
qed

lemma penalty_better:
  assumes "better s s'" "nonneg w"
  shows "0 \<le> penalty w s'" "penalty w s' \<le> penalty w s"
proof -
  have "list_all2 (\<lambda>x y. 0 \<le> x \<and> x \<le> y) (weighted (risk_terms w s' situation_terms)) (weighted (risk_terms w s situation_terms))"
    using nonneg_terms by (intro lower_weighted risk_terms_better assms) simp
  then have "0 \<le> sum_list (weighted (risk_terms w s' situation_terms)) \<and>
      sum_list (weighted (risk_terms w s' situation_terms)) \<le> sum_list (weighted (risk_terms w s situation_terms))"
    by (induction rule: list_all2_induct) auto
  then show "0 \<le> penalty w s'" "penalty w s' \<le> penalty w s" by (simp_all add: penalty_def)
qed

lemma uncertainty_better:
  assumes "better s s'" "nonneg w"
  shows "rel_option (\<lambda>u u'. 0 \<le> u' \<and> u' \<le> u) (weighted_uncertainty w s) (weighted_uncertainty w s')"
proof (cases "map_of s ''confidence''")
  case None
  with better_map_of[OF assms(1), of "''confidence''"] show ?thesis by (simp add: weighted_uncertainty_def)
next
  case (Some v)
  with better_map_of[OF assms(1), of "''confidence''"] obtain v' where v': "map_of s' ''confidence'' = Some v'" "v \<le> v'" "v' \<le> 1"
    by (auto simp: option_rel_Some1)
  let ?w = "get_or w ''confidence'' 1"
  have "0 \<le> ?w * (1 - v')" "?w * (1 - v') \<le> ?w * (1 - v)"
    using get_or_nonneg[OF assms(2), of 1] v' by (simp_all add: mult_left_mono)
  then have "(1 + penalty w s') * (?w * (1 - v')) \<le> (1 + penalty w s) * (?w * (1 - v))"
    using penalty_better[OF assms] by - (rule mult_mono, auto)
  moreover have "0 \<le> (1 + penalty w s') * (?w * (1 - v'))"
    using penalty_better(1)[OF assms] \<open>0 \<le> ?w * (1 - v')\<close> by - (rule mult_nonneg_nonneg, auto)
  ultimately show ?thesis using Some v' by (simp add: weighted_uncertainty_def)
qed

text \<open>The loop over the traces then finds the same traces, with lower values.\<close>

lemma assessed_better:
  assumes "better_session p p'" "\<And>s s'. better s s' \<Longrightarrow> rel_option (\<lambda>x y. R y x) (value s) (value s')"
  shows "list_all2 R (map (\<lambda>(i, r, d). r) (assessed value det p' traces)) (map (\<lambda>(i, r, d). r) (assessed value det p traces))"
proof (induction traces)
  case (Cons tr traces)
  have b: "better (trace_signals p tr) (trace_signals p' tr)" using assms(1) by (rule better_trace_signals)
  then have "trace_signals p tr = [] \<longleftrightarrow> trace_signals p' tr = []" by (auto simp: better_def)
  with assms(2)[OF b] Cons show ?case
    by (auto simp: assessed_def Let_def split: option.splits elim: option.rel_cases)
qed (simp add: assessed_def)

definition worst_case_score :: "real list \<Rightarrow> real" where
  "worst_case_score risks = (if risks = [] then 1
     else round4 (clamp01 (1 - (9 / 10 * worst_mean (top_k (length risks)) risks + 1 / 10 * Max (set risks)))))"

text \<open>
  C37: The reliability of a session is what its specification says: with the step risks of the
  assessed traces, the score is the rounded complement of nine tenths of the largest mean over
  all choices of \<open>top_k\<close> traces plus one tenth of the largest risk. The code computes it by
  sorting the risks and averaging a prefix.
\<close>

theorem reliability_is_worst_case:
  "mr_score (agent_reliability traces ws p) =
     worst_case_score (map (\<lambda>(i, r, d). r)
       (assessed (step_risk (merged_weights ws)) (reliability_detail (merged_weights ws)) p traces))"
proof (cases "p = [] \<or> traces = []")
  case True
  then have "assessed (step_risk (merged_weights ws)) (reliability_detail (merged_weights ws)) p traces = []"
    by (auto simp: assessed_def trace_signals_def Let_def)
  with True show ?thesis by (simp add: agent_reliability_def empty_session_def worst_case_score_def)
next
  case False
  then show ?thesis
    by (simp add: agent_reliability_def no_evaluable_traces_def worst_case_score_def reliability_result_def raw_risk_worst Let_def)
qed

text \<open>
  Raising signals never lowers the score of a session. If two sessions have the same traces
  with the same signals present, every signal of the second is at least as high as that of the
  first and at most 1, and no weight is negative, then both session metrics score the second at
  least as high as the first.
\<close>

theorem better_signals_better_scores:
  assumes "better_session p p'" and "\<And>w. ws = Some w \<Longrightarrow> nonneg w"
  shows "mr_score (agent_reliability traces ws p) \<le> mr_score (agent_reliability traces ws p') \<and>
    mr_score (agent_consistency traces ws p) \<le> mr_score (agent_consistency traces ws p')"
proof -
  let ?w = "merged_weights ws"
  have nn: "nonneg ?w" using assms(2) by (rule nonneg_merged)
  have ne: "p = [] \<longleftrightarrow> p' = []" using assms(1) by (auto simp: better_session_def)
  let ?r = "\<lambda>p. assessed (step_risk ?w) (reliability_detail ?w) p traces"
  let ?u = "\<lambda>p. assessed (weighted_uncertainty ?w) (consistency_detail ?w) p traces"
  have risks: "list_all2 (\<le>) (map (\<lambda>(i, r, d). r) (?r p')) (map (\<lambda>(i, r, d). r) (?r p))"
    by (rule assessed_better[OF assms(1) step_risk_better[OF _ nn]])
  have uncs: "list_all2 (\<lambda>x y. 0 \<le> x \<and> x \<le> y) (map (\<lambda>(i, r, d). r) (?u p')) (map (\<lambda>(i, r, d). r) (?u p))"
    by (rule assessed_better[OF assms(1) uncertainty_better[OF _ nn]])
  have nil: "?r p = [] \<longleftrightarrow> ?r p' = []" "?u p = [] \<longleftrightarrow> ?u p' = []"
    using list_all2_lengthD[OF risks] list_all2_lengthD[OF uncs] by auto
  have "mr_score (reliability_result ?w traces (?r p)) \<le> mr_score (reliability_result ?w traces (?r p'))" if "?r p' \<noteq> []"
    using raw_risk_mono[OF risks] that by (simp add: reliability_result_def Let_def round4_mono clamp01_mono)
  moreover have "mr_score (consistency_result ?w traces (?u p)) \<le> mr_score (consistency_result ?w traces (?u p'))"
    using rms_mono[OF uncs] by (simp add: consistency_result_def Let_def round4_mono clamp01_mono)
  ultimately show ?thesis using ne nil
    by (simp add: agent_reliability_def agent_consistency_def Let_def)
qed

definition demo_trace :: "uuid \<Rightarrow> trace" where
  "demo_trace i = \<lparr>tr_trace_id = i, tr_project_id = 1, tr_name = ''run'', tr_status = trace_status.COMPLETED, tr_input = None,
     tr_output = None, tr_metadata = [], tr_started_at = 0, tr_ended_at = None, tr_session_id = Some ''s'',
     tr_user_id = None, tr_tags = [], tr_environment = None, tr_release = None, tr_spans = []\<rparr>"

theorem better_signals_better_scores_witness:
  "mr_score (agent_reliability [demo_trace 1] None [(1, [(''confidence'', 1 / 2)])]) \<le>
     mr_score (agent_reliability [demo_trace 1] None [(1, [(''confidence'', 3 / 4)])]) \<and>
   mr_score (agent_consistency [demo_trace 1] None [(1, [(''confidence'', 1 / 2)])]) \<le>
     mr_score (agent_consistency [demo_trace 1] None [(1, [(''confidence'', 3 / 4)])])"
  by (rule better_signals_better_scores) (simp_all add: better_session_def better_def)

end
