(* ===== verification/EvalEntities.thy ===== *)
theory EvalEntities
  imports EvalScores
begin

text \<open>
  The entities of \<open>core/evals/entities.py\<close>, the text form of scores and its validation, and the
  cadences of \<open>core/evals/cadence.py\<close>. The \<open>croniter\<close> package is a parameter: whether an
  expression is valid, and the next instant it matches.
\<close>

section \<open>Numbers as text\<close>

datatype float_value = Finite real | Infinite | NotANumber

definition digit_char :: "char \<Rightarrow> bool" where
  "digit_char c \<longleftrightarrow> 48 \<le> code c \<and> code c \<le> 57"

definition digit_val :: "char \<Rightarrow> nat" where
  "digit_val c = code c - 48"

text \<open>Digits, with single underscores between them.\<close>

fun read_digits :: "string \<Rightarrow> nat list \<times> string" where
  "read_digits [] = ([], [])"
| "read_digits [c] = (if digit_char c then ([digit_val c], []) else ([], [c]))"
| "read_digits (c # d # s) =
     (if \<not> digit_char c then ([], c # d # s)
      else if code d = 95 \<and> s \<noteq> [] \<and> digit_char (hd s)
      then (case read_digits s of (ds, r) \<Rightarrow> (digit_val c # ds, r))
      else (case read_digits (d # s) of (ds, r) \<Rightarrow> (digit_val c # ds, r)))"

definition digits_nat :: "nat list \<Rightarrow> nat" where
  "digits_nat ds = foldl (\<lambda>n d. 10 * n + d) 0 ds"

text \<open>An optional exponent, and nothing after it.\<close>

definition read_exponent :: "string \<Rightarrow> int option" where
  "read_exponent s = (case s of
       [] \<Rightarrow> Some 0
     | c # t \<Rightarrow>
         if code c \<in> {69, 101} then
           (let (sign, u) = (case t of d # v \<Rightarrow> if code d = 45 then (-1, v) else if code d = 43 then (1, v) else (1, t) | [] \<Rightarrow> (1 :: int, t))
            in case read_digits u of (ds, r) \<Rightarrow> if ds \<noteq> [] \<and> r = [] then Some (sign * int (digits_nat ds)) else None)
         else None)"

definition scale10 :: "int \<Rightarrow> real" where
  "scale10 e = (if 0 \<le> e then 10 ^ nat e else 1 / 10 ^ nat (- e))"

definition read_decimal :: "string \<Rightarrow> real option" where
  "read_decimal s = (case read_digits s of (ip, r) \<Rightarrow>
     (let (fp, r') = (case r of c # t \<Rightarrow> if code c = 46 then read_digits t else ([], r) | [] \<Rightarrow> ([], r)) in
      if ip = [] \<and> fp = [] then None
      else (case read_exponent r' of
              None \<Rightarrow> None
            | Some e \<Rightarrow> Some (of_nat (digits_nat (ip @ fp)) / 10 ^ length fp * scale10 e))))"

text \<open>\<open>float(value)\<close> of a text; \<open>None\<close> where it raises \<open>ValueError\<close>.\<close>

definition parse_float :: "string \<Rightarrow> float_value option" where
  "parse_float s =
     (let t = lower (strip s);
          (neg, u) = (case t of c # v \<Rightarrow> if code c = 45 then (True, v) else if code c = 43 then (False, v) else (False, t) | [] \<Rightarrow> (False, t)) in
      if u = ''inf'' \<or> u = ''infinity'' then Some Infinite
      else if u = ''nan'' then Some NotANumber
      else map_option (\<lambda>x. Finite (if neg then - x else x)) (read_decimal u))"

text \<open>\<open>str\<close> of a number with at most four decimals.\<close>

definition decimals :: "nat \<Rightarrow> string" where
  "decimals k = (let ds = rev (dropWhile (\<lambda>c. code c = 48) (rev (four_digits k))) in if ds = [] then ''0'' else ds)"

definition score_text :: "real \<Rightarrow> string" where
  "score_text x = (let k = nat (round_half_even (\<bar>x\<bar> * 10000)) in
     (if x < 0 then ''-'' else []) @ show_nat (k div 10000) @ ''.'' @ decimals (k mod 10000))"

section \<open>Scores\<close>

definition validate_score_value :: "string \<Rightarrow> score_data_type \<Rightarrow> error + unit" where
  "validate_score_value value data_type = (case data_type of
       NUMERIC \<Rightarrow> (case parse_float value of
           None \<Rightarrow> Inl (ValueError ''NUMERIC score must be a valid number'')
         | Some (Finite score) \<Rightarrow> if 0 \<le> score \<and> score \<le> 1 then Inr () else Inl (ValueError ''NUMERIC score must be in [0.0, 1.0]'')
         | Some _ \<Rightarrow> Inl (ValueError ''NUMERIC score must be in [0.0, 1.0]''))
     | BOOLEAN \<Rightarrow> if lower value \<in> {''true'', ''false''} then Inr () else Inl (ValueError ''BOOLEAN score must be true or false'')
     | CATEGORICAL \<Rightarrow> Inr ())"

record trace_score =
  ts_id :: uuid
  ts_trace_id :: uuid
  ts_project_id :: uuid
  ts_name :: string
  ts_data_type :: score_data_type
  ts_value :: "string option"
  ts_source :: score_source
  ts_status :: score_status
  ts_eval_run_id :: "uuid option"
  ts_author_user_id :: "string option"
  ts_reason :: "string option"
  ts_environment :: "string option"
  ts_config_id :: "string option"
  ts_metadata :: metadata
  ts_created_at :: datetime
  ts_updated_at :: datetime

record session_score =
  ss_id :: uuid
  ss_session_id :: string
  ss_project_id :: uuid
  ss_name :: string
  ss_data_type :: score_data_type
  ss_value :: "string option"
  ss_source :: score_source
  ss_status :: score_status
  ss_eval_run_id :: "uuid option"
  ss_author_user_id :: "string option"
  ss_reason :: "string option"
  ss_environment :: "string option"
  ss_config_id :: "string option"
  ss_metadata :: metadata
  ss_created_at :: datetime
  ss_updated_at :: datetime

text \<open>\<open>_validate_value\<close>: what constructing a score checks.\<close>

definition validate_value :: "string option \<Rightarrow> score_data_type \<Rightarrow> error + unit" where
  "validate_value v data_type = (case v of None \<Rightarrow> Inr () | Some x \<Rightarrow> validate_score_value x data_type)"

section \<open>Runs and monitors\<close>

datatype target_type = TRACE | SESSION

text \<open>The keys of the filter dictionaries that the code reads or writes; \<open>None\<close> for an absent key.\<close>

record eval_filters =
  f_status :: "trace_status option"
  f_session_id :: "string option"
  f_user_id :: "string option"
  f_tags :: "string list option"
  f_name :: "string option"
  f_date_from :: "datetime option"
  f_date_to :: "datetime option"
  f_has_error :: "bool option"
  f_min_trace_count :: "nat option"
  f_signal_weights :: "signals option"
  f_trace_ids :: "uuid list option"
  f_session_ids :: "string list option"
  f_retry_of :: "uuid option"

record eval_run =
  er_id :: uuid
  er_project_id :: uuid
  er_name :: "string option"
  er_target_type :: target_type
  er_metric_names :: "string list"
  er_filters :: eval_filters
  er_sampling_rate :: real
  er_model :: "string option"
  er_monitor_id :: "uuid option"
  er_status :: evaluation_status
  er_total_targets :: nat
  er_evaluated_count :: nat
  er_failed_count :: nat
  er_error_message :: "string option"
  er_created_at :: datetime
  er_completed_at :: "datetime option"

text \<open>The filters of a monitor are \<open>None\<close> where the column holds the JSON null.\<close>

record eval_monitor =
  mo_id :: uuid
  mo_project_id :: uuid
  mo_name :: string
  mo_target_type :: target_type
  mo_metric_names :: "string list"
  mo_filters :: "eval_filters option"
  mo_sampling_rate :: real
  mo_model :: "string option"
  mo_cadence :: string
  mo_only_if_changed :: bool
  mo_status :: monitor_status
  mo_last_run_at :: "datetime option"
  mo_last_run_id :: "uuid option"
  mo_next_run_at :: "datetime option"
  mo_created_at :: datetime
  mo_updated_at :: datetime

section \<open>Cadences\<close>

record croniter =
  is_valid :: "string \<Rightarrow> bool"
  get_next :: "string \<Rightarrow> datetime \<Rightarrow> datetime"

definition PREDEFINED_DELTAS :: "(string \<times> int) list" where
  "PREDEFINED_DELTAS = [(''every_6h'', seconds (6 * 3600)), (''daily'', days 1), (''weekly'', days 7)]"

definition CRON_PREFIX :: string where "CRON_PREFIX = ''cron:''"

definition cron_expr :: "string \<Rightarrow> string" where
  "cron_expr cadence = strip (drop (length CRON_PREFIX) cadence)"

definition validate_cadence :: "croniter \<Rightarrow> string \<Rightarrow> error + string" where
  "validate_cadence cron cadence =
     (if cadence \<in> fst ` set PREDEFINED_DELTAS then Inr cadence
      else if starts_with cadence CRON_PREFIX then
        (let expr = cron_expr cadence in
         if expr = [] then Inl (ValueError ''Cron expression must not be empty after cron: prefix.'')
         else if \<not> is_valid cron expr then Inl (ValueError ''Invalid cron expression'')
         else Inr (CRON_PREFIX @ expr))
      else Inl (ValueError ''Invalid cadence''))"

definition compute_next_run :: "croniter \<Rightarrow> string \<Rightarrow> datetime \<Rightarrow> error + datetime" where
  "compute_next_run cron cadence from_time = (case map_of PREDEFINED_DELTAS cadence of
       Some delta \<Rightarrow> Inr (from_time + delta)
     | None \<Rightarrow>
         if starts_with cadence CRON_PREFIX then
           (let expr = cron_expr cadence in
            if is_valid cron expr then Inr (get_next cron expr from_time) else Inl (ValueError ''Invalid cron expression''))
         else Inl (ValueError ''Cannot compute next run for cadence''))"

section \<open>Text round trip\<close>

lemma code_digit [simp]: "n < 10 \<Longrightarrow> code (char_of (48 + n)) = 48 + n"
  by (simp add: code_def)

lemma code_zero [simp]: "code (char_of (48 :: nat)) = 48"
  by (simp add: code_def)

lemma digit_char_of [simp]: "n < 10 \<Longrightarrow> digit_char (char_of (48 + n))" "n < 10 \<Longrightarrow> digit_val (char_of (48 + n)) = n"
  by (simp_all add: digit_char_def digit_val_def)

lemma read_digits_all:
  assumes "\<forall>d \<in> set ds. d < 10"
  shows "read_digits (map (\<lambda>d. char_of (48 + d)) ds) = (ds, [])"
  using assms
proof (induction ds rule: induct_list012)
  case (3 a b ds)
  then have "code (char_of (48 + b)) \<noteq> 95" by simp
  with 3 show ?case by simp
qed simp_all

lemma lower_digit [simp]: "n < 10 \<Longrightarrow> lower_char (char_of (48 + n :: nat)) = char_of (48 + n)"
  by (simp add: lower_char_def Let_def)

lemma space_digit [simp]: "n < 10 \<Longrightarrow> \<not> is_space (char_of (48 + n :: nat))"
  by (simp add: is_space_def Let_def)

abbreviation (input) digits_text :: "nat list \<Rightarrow> string" where
  "digits_text ds \<equiv> map (\<lambda>d. char_of (48 + d)) ds"

lemma digits_nat_Cons: "digits_nat (i # ds) = i * 10 ^ length ds + digits_nat ds"
proof -
  have "foldl (\<lambda>n d. 10 * n + d) a ds = a * 10 ^ length ds + foldl (\<lambda>n d. 10 * n + d) 0 ds" for a :: nat
  proof (induction ds arbitrary: a)
    case (Cons d ds)
    show ?case using Cons[of "10 * a + d"] Cons[of d] by (simp add: algebra_simps)
  qed simp
  from this[of i] show ?thesis by (simp add: digits_nat_def)
qed

text \<open>The decimals of a score are its four digits less the zeros at the end.\<close>

lemma decimals_digits:
  assumes "k < 10000"
  obtains ds where "ds \<noteq> []" "\<forall>d \<in> set ds. d < 10" "decimals k = digits_text ds"
    "real (digits_nat ds) / 10 ^ length ds = real k / 10000"
proof -
  define a b c d where "a = k div 1000 mod 10" and "b = k div 100 mod 10" and "c = k div 10 mod 10" and "d = k mod 10"
  have k: "k = 1000 * a + 100 * b + 10 * c + d"
  proof -
    have "k = 10 * (k div 10) + d" "k div 10 = 10 * (k div 100) + c" "k div 100 = 10 * (k div 1000) + b"
      using mult_div_mod_eq[of 10 k] mult_div_mod_eq[of 10 "k div 10"] mult_div_mod_eq[of 10 "k div 100"]
      by (simp_all add: b_def c_def d_def flip: div_mult2_eq)
    moreover have "k div 1000 = a" using assms by (simp add: a_def)
    ultimately show ?thesis by linarith
  qed
  have lt: "a < 10" "b < 10" "c < 10" "d < 10" by (simp_all add: a_def b_def c_def d_def)
  have four: "four_digits k = digits_text [a, b, c, d]"
    by (simp add: four_digits_def a_def b_def c_def d_def)
  have dec: "decimals k = (let ds = rev (dropWhile (\<lambda>c. code c = 48) (rev (digits_text [a, b, c, d]))) in if ds = [] then ''0'' else ds)"
    by (simp only: decimals_def four)
  have val: "real k = 1000 * real a + 100 * real b + 10 * real c + real d" by (simp add: k)
  consider "d \<noteq> 0" | "d = 0" "c \<noteq> 0" | "d = 0" "c = 0" "b \<noteq> 0" | "d = 0" "c = 0" "b = 0" "a \<noteq> 0" | "k = 0"
    using k by fastforce
  then show ?thesis
  proof cases
    case 1 with lt val dec show ?thesis by (intro that[of "[a, b, c, d]"]) (simp_all add: digits_nat_def)
  next
    case 2 with lt val dec show ?thesis by (intro that[of "[a, b, c]"]) (simp_all add: digits_nat_def)
  next
    case 3 with lt val dec show ?thesis by (intro that[of "[a, b]"]) (simp_all add: digits_nat_def)
  next
    case 4 with lt val dec show ?thesis by (intro that[of "[a]"]) (simp_all add: digits_nat_def)
  next
    case 5
    have "CHR ''0'' = char_of (48 :: nat)" by code_simp
    with 5 show ?thesis by (intro that[of "[0]"]) (simp_all add: decimals_def four_digits_def digits_nat_def)
  qed
qed

lemma read_decimal_point:
  assumes "i < 10" "ds \<noteq> []" "\<forall>d \<in> set ds. d < 10"
  shows "read_decimal (char_of (48 + i) # CHR ''.'' # digits_text ds) =
    Some (real i + real (digits_nat ds) / 10 ^ length ds)"
proof -
  have dot: "\<not> digit_char (CHR ''.'')" "code (CHR ''.'') = 46" by code_simp+
  have "read_digits (char_of (48 + i) # CHR ''.'' # digits_text ds) = ([i], CHR ''.'' # digits_text ds)"
    using assms(1,2) dot by (cases ds) simp_all
  then show ?thesis using assms dot
    by (simp add: read_decimal_def read_digits_all read_exponent_def scale10_def digits_nat_Cons add_divide_distrib)
qed

lemma parse_decimal_point:
  assumes "i < 10" "ds \<noteq> []" "\<forall>d \<in> set ds. d < 10"
  shows "parse_float (char_of (48 + i) # CHR ''.'' # digits_text ds) =
    Some (Finite (real i + real (digits_nat ds) / 10 ^ length ds))"
proof -
  let ?t = "char_of (48 + i) # CHR ''.'' # digits_text ds"
  have "\<not> is_space (last ?t)" using assms(2,3) by (simp add: last_map)
  then have st: "strip ?t = ?t" using assms(1) by (intro strip_fixed) simp
  have "lower_char (CHR ''.'') = CHR ''.''" by code_simp
  then have lo: "lower ?t = ?t" using assms by (simp add: lower_def)
  have "code (hd ?t) = 48 + i" using assms(1) by simp
  moreover have "code (CHR ''i'') = 105" "code (CHR ''n'') = 110" by code_simp+
  ultimately have "?t \<noteq> ''inf''" "?t \<noteq> ''infinity''" "?t \<noteq> ''nan''" using assms(1) by auto
  then show ?thesis
    unfolding parse_float_def st lo using assms(1) read_decimal_point[OF assms] by (simp add: Let_def)
qed

lemma show_digit: "i < 10 \<Longrightarrow> show_nat i = [char_of (48 + i)]"
  by (simp add: show_nat.simps)

lemma score_text_parse:
  assumes "unit_interval x"
  shows "parse_float (score_text x) = Some (Finite (round4 x))"
proof -
  define k where "k = nat (round_half_even (x * 10000))"
  have r: "0 \<le> round_half_even (x * 10000)" "round_half_even (x * 10000) \<le> 10000"
    using assms round_half_even_mono[of 0 "x * 10000"] round_half_even_mono[of "x * 10000" 10000]
      round_half_even_of_int[of 0] round_half_even_of_int[of 10000]
    by (simp_all add: unit_interval_def)
  then have x: "round4 x = real k / 10000" by (simp add: round4_def k_def)
  have i: "k div 10000 < 10" using r by (simp add: k_def)
  obtain ds where ds: "ds \<noteq> []" "\<forall>d \<in> set ds. d < 10" "decimals (k mod 10000) = digits_text ds"
      "real (digits_nat ds) / 10 ^ length ds = real (k mod 10000) / 10000"
    using decimals_digits[of "k mod 10000"] by auto
  have "score_text x = char_of (48 + k div 10000) # CHR ''.'' # digits_text ds"
    using assms i ds(3) by (simp add: score_text_def unit_interval_def Let_def show_digit flip: k_def)
  then have "parse_float (score_text x) = Some (Finite (real (k div 10000) + real (k mod 10000) / 10000))"
    using parse_decimal_point[OF i ds(1,2)] ds(4) by simp
  moreover have "real (k div 10000) + real (k mod 10000) / 10000 = real k / 10000"
    using arg_cong[OF div_mult_mod_eq[of k 10000], of real]
    by (simp only: of_nat_add of_nat_mult of_nat_numeral)
  ultimately show ?thesis by (simp add: x)
qed

lemma score_text_valid: "unit_interval x \<Longrightarrow> validate_score_value (score_text x) NUMERIC = Inr ()"
  using unit_round4[of x] by (simp add: validate_score_value_def score_text_parse unit_interval_def)

section \<open>What a cadence promises\<close>

lemma predefined_lookup: "c \<in> fst ` set PREDEFINED_DELTAS \<longleftrightarrow> map_of PREDEFINED_DELTAS c \<noteq> None"
  by (metis map_of_eq_None_iff)

lemma predefined_positive: "map_of PREDEFINED_DELTAS c = Some d \<Longrightarrow> 0 < d"
  by (auto simp: PREDEFINED_DELTAS_def seconds_def days_def split: if_splits)

lemma cron_not_predefined: "map_of PREDEFINED_DELTAS (CRON_PREFIX @ e) = None"
  by (simp add: PREDEFINED_DELTAS_def CRON_PREFIX_def)

lemma cron_expr_normal [simp]: "cron_expr (CRON_PREFIX @ strip e) = strip e"
  by (simp add: cron_expr_def)

lemma starts_with_append [simp]: "starts_with (p @ s) p"
  by (simp add: starts_with_def)

lemma validate_cadence_cases:
  assumes "validate_cadence cron c = Inr c'"
  obtains d where "c' = c" "map_of PREDEFINED_DELTAS c = Some d"
  | "c' = CRON_PREFIX @ cron_expr c" "cron_expr c \<noteq> []" "is_valid cron (cron_expr c)"
  using assms by (auto simp: validate_cadence_def predefined_lookup Let_def split: if_splits)

lemma validated_next:
  assumes cron: "\<And>e t. is_valid cron e \<Longrightarrow> t < get_next cron e t" and c: "validate_cadence cron c = Inr c'"
  shows "validate_cadence cron c' = Inr c' \<and> (\<exists>next. compute_next_run cron c' now = Inr next \<and> now < next)"
  using c
proof (cases rule: validate_cadence_cases)
  case (1 d)
  then show ?thesis using c predefined_positive[of c d] by (simp add: compute_next_run_def)
next
  case 2
  then show ?thesis using cron
    by (simp add: validate_cadence_def predefined_lookup compute_next_run_def cron_not_predefined Let_def
        cron_expr_def[of c])
qed

definition demo_croniter :: croniter where
  "demo_croniter = \<lparr>is_valid = (\<lambda>e. e \<noteq> []), get_next = (\<lambda>e t. t + seconds 60)\<rparr>"

text \<open>
  A validated cadence schedules. Validating is a projection, the next run of a validated
  cadence can always be computed and lies in the future, given that the next instant a cron
  expression matches lies after the instant it is asked for.
\<close>

theorem validated_cadence_schedules:
  assumes "\<And>e t. is_valid cron e \<Longrightarrow> t < get_next cron e t" and "validate_cadence cron c = Inr c'"
  shows "validate_cadence cron c' = Inr c' \<and> (\<exists>next. compute_next_run cron c' now = Inr next \<and> now < next)"
  using validated_next[OF assms] by blast

theorem validated_cadence_schedules_witness:
  "\<exists>next. compute_next_run demo_croniter ''cron:* * * * *'' 0 = Inr next \<and> 0 < next"
proof -
  have "validate_cadence demo_croniter ''cron: * * * * * '' = Inr ''cron:* * * * *''" by code_simp
  moreover have "t < get_next demo_croniter e t" for e t by (simp add: demo_croniter_def seconds_def)
  ultimately show ?thesis
    using validated_cadence_schedules[of demo_croniter "''cron: * * * * * ''" "''cron:* * * * *''" 0] by blast
qed

definition demo_judge :: judge where
  "demo_judge = \<lparr>evaluate_confidence = (\<lambda>t. ''confidence''), extract_task_and_outcome = (\<lambda>t. ''task''),
     generate_verdict = (\<lambda>a b. a @ b), extract_task_from_trace = (\<lambda>t. ''task''), get_execution_efficiency = (\<lambda>a t. a),
     extract_tool_usage = (\<lambda>t. ''usage''), score_tool_selection = (\<lambda>u c a. u), extract_plan_from_trace = (\<lambda>t. ''plan''),
     evaluate_plan_quality = (\<lambda>u p. p), evaluate_adherence = (\<lambda>u p t. p), extract_tool_calls = (\<lambda>t. ''calls''),
     generate_verdicts = (\<lambda>u c. u), generate_reason = (\<lambda>i u s. u), scored_response = (\<lambda>s t. Inr (3 / 4, None)),
     task_and_outcome_response = (\<lambda>t. Inr (t, t)), task_response = Inr, tool_usage_response = (\<lambda>t. Inr (t, [], [])),
     plan_response = (\<lambda>t. Inr []), tool_calls_response = (\<lambda>t. Inr (t, [])), argument_verdicts_response = (\<lambda>t. Inr []),
     reason_response = Inr\<rparr>"

text \<open>
  C40: A computed score survives storage. The text under which a worker stores the score of a
  metric passes the validation of a numeric score, and reads back as the score rounded to four
  decimals, for every metric, trace, language model and judge.
\<close>

theorem computed_score_roundtrip:
  assumes "evaluate_metric j st ll sha256 name tr model ts e = (Inr r, e')"
  shows "validate_score_value (score_text (mr_score r)) NUMERIC = Inr () \<and>
    parse_float (score_text (mr_score r)) = Some (Finite (round4 (mr_score r)))"
  using yieldsD[OF metric_score_unit assms] by (simp add: score_text_valid score_text_parse)

theorem computed_score_roundtrip_witness:
  "validate_score_value (score_text (3 / 4)) NUMERIC = Inr () \<and> parse_float (score_text (3 / 4)) = Some (Finite (round4 (3 / 4)))"
proof -
  let ?e = "\<lparr>embedding_cache = [], provider = 0 :: nat\<rparr>"
  have "fst (confidence demo_judge demo_llm_settings demo_litellm (demo_trace 1) None None ?e) =
      Inr (judged None [] (3 / 4, None))" by code_simp
  then have "fst (evaluate_metric demo_judge demo_llm_settings demo_litellm id ''confidence'' (demo_trace 1) None [] ?e) =
      Inr (judged None [] (3 / 4, None))" by (simp add: evaluate_metric_def)
  then obtain e' where "evaluate_metric demo_judge demo_llm_settings demo_litellm id ''confidence'' (demo_trace 1) None [] ?e =
      (Inr (judged None [] (3 / 4, None)), e')" by (metis prod.collapse)
  from computed_score_roundtrip[OF this] show ?thesis by (simp add: judged_def)
qed

end
