(* ===== verification/TraceRepo.thy ===== *)
theory TraceRepo
  imports EvalEntities "HOL-Library.List_Lexorder"
begin

text \<open>
  The tables of traces, spans, scores, runs and monitors, and the operations of
  \<open>repositories/trace_repo.py\<close> on the first two.

  A row of the trace table is a trace whose spans are left empty, with the instant of its
  creation; spans are rows of their own. In a JSON column \<open>None\<close> is the SQL null and \<open>Some JNull\<close>
  the JSON value null, which SQLAlchemy stores for Python's \<open>None\<close>; both are read as \<open>None\<close>. The
  order of text in the database is taken to be that of its code points.
\<close>

section \<open>Tables\<close>

record trace_row = trace +
  tw_created_at :: datetime

record obs_db =
  trace_rows :: "trace_row list"
  span_rows :: "span list"
  trace_scores :: "trace_score list"
  session_scores :: "session_score list"
  eval_runs :: "eval_run list"
  eval_monitors :: "eval_monitor list"
  obs_projects :: "uuid list"
  obs_next_id :: uuid

text \<open>\<open>None\<close> bound to a JSON column, and what a JSON column is read as.\<close>

definition bind_json :: "payload option \<Rightarrow> payload option" where
  "bind_json v = (case v of None \<Rightarrow> Some JNull | Some x \<Rightarrow> Some x)"

definition load_json :: "payload option \<Rightarrow> payload option" where
  "load_json v = (if v = Some JNull then None else v)"

definition coalesce :: "'a option \<Rightarrow> 'a option \<Rightarrow> 'a option" where
  "coalesce a b = (case a of None \<Rightarrow> b | Some x \<Rightarrow> Some x)"

text \<open>
  \<open>coalesce(excluded.c, c)\<close> for a JSON column \<open>c\<close> that is read as an optional object. An absent object is
  bound as the JSON null, which is not the SQL null, so the incoming value is always taken.
\<close>

definition coalesce_json :: "'a option \<Rightarrow> 'a option \<Rightarrow> 'a option" where
  "coalesce_json incoming existing = incoming"

text \<open>\<open>{**existing, **incoming}\<close>, and \<open>||\<close> of two JSON objects.\<close>

definition merge_dict :: "(string \<times> 'v) list \<Rightarrow> (string \<times> 'v) list \<Rightarrow> (string \<times> 'v) list" where
  "merge_dict existing incoming = fold (\<lambda>(k, v). AList.update k v) incoming existing"

text \<open>\<open>array_agg(DISTINCT \<dots>)\<close> of an array.\<close>

definition distinct_tags :: "string list \<Rightarrow> string list" where
  "distinct_tags xs = sort (remdups xs)"

section \<open>Upsert\<close>

definition bound_trace :: "datetime \<Rightarrow> trace \<Rightarrow> trace_row" where
  "bound_trace now t = trace.extend
     (t\<lparr>tr_input := bind_json (tr_input t), tr_output := bind_json (tr_output t), tr_spans := []\<rparr>)
     (trace_row.fields now)"

definition merge_trace :: "trace_row \<Rightarrow> trace_row \<Rightarrow> trace_row" where
  "merge_trace excluded t = t\<lparr>
     tr_name := tr_name excluded,
     tr_status := tr_status excluded,
     tr_input := coalesce (tr_input excluded) (tr_input t),
     tr_output := coalesce (tr_output excluded) (tr_output t),
     tr_metadata := merge_dict (tr_metadata t) (tr_metadata excluded),
     tr_started_at := tr_started_at excluded,
     tr_ended_at := coalesce (tr_ended_at excluded) (tr_ended_at t),
     tr_session_id := coalesce (tr_session_id excluded) (tr_session_id t),
     tr_user_id := coalesce (tr_user_id excluded) (tr_user_id t),
     tr_tags := distinct_tags (tr_tags t @ tr_tags excluded),
     tr_environment := coalesce (tr_environment excluded) (tr_environment t),
     tr_release := coalesce (tr_release excluded) (tr_release t)\<rparr>"

definition bound_span :: "span \<Rightarrow> span" where
  "bound_span s = s\<lparr>sp_input := bind_json (sp_input s), sp_output := bind_json (sp_output s)\<rparr>"

definition merge_span :: "span \<Rightarrow> span \<Rightarrow> span" where
  "merge_span excluded s = s\<lparr>
     sp_name := sp_name excluded,
     sp_kind := sp_kind excluded,
     sp_status := sp_status excluded,
     sp_input := coalesce (sp_input excluded) (sp_input s),
     sp_output := coalesce (sp_output excluded) (sp_output s),
     sp_model := coalesce (sp_model excluded) (sp_model s),
     sp_token_usage := coalesce_json (sp_token_usage excluded) (sp_token_usage s),
     sp_metadata := merge_dict (sp_metadata s) (sp_metadata excluded),
     sp_started_at := sp_started_at excluded,
     sp_ended_at := coalesce (sp_ended_at excluded) (sp_ended_at s),
     sp_error := coalesce (sp_error excluded) (sp_error s),
     sp_completion_start_time := coalesce (sp_completion_start_time excluded) (sp_completion_start_time s),
     sp_model_parameters := coalesce_json (sp_model_parameters excluded) (sp_model_parameters s),
     sp_cost := coalesce_json (sp_cost excluded) (sp_cost s)\<rparr>"

text \<open>\<open>INSERT \<dots> ON CONFLICT (key) DO UPDATE\<close>; the insert of a row whose reference is missing fails.\<close>

definition upsert_span :: "span \<Rightarrow> (error, obs_db, unit) exec" where
  "upsert_span s = (\<lambda>d.
     if sp_span_id s \<in> sp_span_id ` set (span_rows d)
     then (Inr (), d\<lparr>span_rows := update_where (\<lambda>r. sp_span_id r = sp_span_id s) (merge_span (bound_span s)) (span_rows d)\<rparr>)
     else if sp_trace_id s \<in> tr_trace_id ` set (trace_rows d)
     then (Inr (), d\<lparr>span_rows := span_rows d @ [bound_span s]\<rparr>)
     else (Inl IntegrityError, d))"

definition upsert_trace_row :: "datetime \<Rightarrow> trace \<Rightarrow> (error, obs_db, unit) exec" where
  "upsert_trace_row now t = (\<lambda>d.
     if tr_trace_id t \<in> tr_trace_id ` set (trace_rows d)
     then (Inr (), d\<lparr>trace_rows := update_where (\<lambda>r. tr_trace_id r = tr_trace_id t) (merge_trace (bound_trace now t)) (trace_rows d)\<rparr>)
     else if tr_project_id t \<in> set (obs_projects d)
     then (Inr (), d\<lparr>trace_rows := trace_rows d @ [bound_trace now t]\<rparr>)
     else (Inl IntegrityError, d))"

text \<open>\<open>for x in xs: f(x)\<close>.\<close>

fun forE :: "'a list \<Rightarrow> ('a \<Rightarrow> ('e, 's, unit) exec) \<Rightarrow> ('e, 's, unit) exec" where
  "forE [] f = ret ()"
| "forE (x # xs) f = bindE (f x) (\<lambda>_. forE xs f)"

definition upsert_trace :: "datetime \<Rightarrow> trace \<Rightarrow> (error, obs_db, unit) exec" where
  "upsert_trace now t = bindE (upsert_trace_row now t) (\<lambda>_. forE (tr_spans t) upsert_span)"

section \<open>Update\<close>

text \<open>The fields of a partial update, an explicit null as \<open>None\<close>.\<close>

datatype trace_update =
    SetName "string option"
  | SetStatus "trace_status option"
  | SetInput "payload option"
  | SetOutput "payload option"
  | SetMetadata "(string \<times> payload) list option"
  | SetEndedAt "datetime option"
  | SetSessionId "string option"
  | SetUserId "string option"
  | SetTags "string list option"
  | SetEnvironment "string option"
  | SetRelease "string option"

fun set_trace_field :: "trace_update \<Rightarrow> trace_row \<Rightarrow> trace_row" where
  "set_trace_field (SetName None) r = r"
| "set_trace_field (SetName (Some v)) r = r\<lparr>tr_name := v\<rparr>"
| "set_trace_field (SetStatus None) r = r"
| "set_trace_field (SetStatus (Some v)) r = r\<lparr>tr_status := v\<rparr>"
| "set_trace_field (SetTags None) r = r"
| "set_trace_field (SetTags (Some v)) r = r\<lparr>tr_tags := v\<rparr>"
| "set_trace_field (SetMetadata v) r = r\<lparr>tr_metadata := merge_dict (tr_metadata r) (case v of None \<Rightarrow> [] | Some m \<Rightarrow> m)\<rparr>"
| "set_trace_field (SetInput v) r = r\<lparr>tr_input := bind_json v\<rparr>"
| "set_trace_field (SetOutput v) r = r\<lparr>tr_output := bind_json v\<rparr>"
| "set_trace_field (SetEndedAt v) r = r\<lparr>tr_ended_at := v\<rparr>"
| "set_trace_field (SetSessionId v) r = r\<lparr>tr_session_id := v\<rparr>"
| "set_trace_field (SetUserId v) r = r\<lparr>tr_user_id := v\<rparr>"
| "set_trace_field (SetEnvironment v) r = r\<lparr>tr_environment := v\<rparr>"
| "set_trace_field (SetRelease v) r = r\<lparr>tr_release := v\<rparr>"

definition owns_trace :: "uuid \<Rightarrow> uuid \<Rightarrow> trace_row \<Rightarrow> bool" where
  "owns_trace i project r \<longleftrightarrow> tr_trace_id r = i \<and> tr_project_id r = project"

text \<open>The row of a trace in a project, and the row after the update.\<close>

definition find_trace :: "uuid \<Rightarrow> uuid \<Rightarrow> (error, obs_db, trace_row option) exec" where
  "find_trace i project = (\<lambda>d. (scalar_one_or_none (filter (owns_trace i project) (trace_rows d)), d))"

definition update_trace_row :: "uuid \<Rightarrow> uuid \<Rightarrow> trace_update list \<Rightarrow> (error, obs_db, trace_row option) exec" where
  "update_trace_row i project fs =
     bindE (find_trace i project) (\<lambda>found. case found of
       None \<Rightarrow> ret None
     | Some row \<Rightarrow>
         bindE (modifyE (\<lambda>d. d\<lparr>trace_rows := update_where (owns_trace i project) (fold set_trace_field fs) (trace_rows d)\<rparr>))
           (\<lambda>_. ret (Some (fold set_trace_field fs row))))"

datatype span_update =
    SetSpanName "string option"
  | SetSpanKind "span_kind option"
  | SetSpanStatus "span_status_code option"
  | SetSpanInput "payload option"
  | SetSpanOutput "payload option"
  | SetSpanModel "string option"
  | SetSpanTokenUsage "(string \<times> payload) list option"
  | SetSpanMetadata "(string \<times> payload) list option"
  | SetSpanEndedAt "datetime option"
  | SetSpanError "string option"
  | SetSpanCompletionStart "datetime option"
  | SetSpanModelParameters "(string \<times> payload) list option"
  | SetSpanCost "(string \<times> real) list option"

fun set_span_field :: "span_update \<Rightarrow> span \<Rightarrow> span" where
  "set_span_field (SetSpanName None) s = s"
| "set_span_field (SetSpanName (Some v)) s = s\<lparr>sp_name := v\<rparr>"
| "set_span_field (SetSpanKind None) s = s"
| "set_span_field (SetSpanKind (Some v)) s = s\<lparr>sp_kind := v\<rparr>"
| "set_span_field (SetSpanStatus None) s = s"
| "set_span_field (SetSpanStatus (Some v)) s = s\<lparr>sp_status := v\<rparr>"
| "set_span_field (SetSpanMetadata v) s = s\<lparr>sp_metadata := merge_dict (sp_metadata s) (case v of None \<Rightarrow> [] | Some m \<Rightarrow> m)\<rparr>"
| "set_span_field (SetSpanInput v) s = s\<lparr>sp_input := bind_json v\<rparr>"
| "set_span_field (SetSpanOutput v) s = s\<lparr>sp_output := bind_json v\<rparr>"
| "set_span_field (SetSpanModel v) s = s\<lparr>sp_model := v\<rparr>"
| "set_span_field (SetSpanTokenUsage v) s = s\<lparr>sp_token_usage := v\<rparr>"
| "set_span_field (SetSpanEndedAt v) s = s\<lparr>sp_ended_at := v\<rparr>"
| "set_span_field (SetSpanError v) s = s\<lparr>sp_error := v\<rparr>"
| "set_span_field (SetSpanCompletionStart v) s = s\<lparr>sp_completion_start_time := v\<rparr>"
| "set_span_field (SetSpanModelParameters v) s = s\<lparr>sp_model_parameters := v\<rparr>"
| "set_span_field (SetSpanCost v) s = s\<lparr>sp_cost := v\<rparr>"

text \<open>The span table joined with the traces of a project.\<close>

definition span_in_project :: "obs_db \<Rightarrow> uuid \<Rightarrow> span \<Rightarrow> bool" where
  "span_in_project d project s \<longleftrightarrow> (\<exists>r \<in> set (trace_rows d). tr_trace_id r = sp_trace_id s \<and> tr_project_id r = project)"

definition update_span_row :: "uuid \<Rightarrow> uuid \<Rightarrow> uuid \<Rightarrow> span_update list \<Rightarrow> (error, obs_db, span option) exec" where
  "update_span_row i trace_id project fs =
     bindE (\<lambda>d. (scalar_one_or_none (filter (\<lambda>s. sp_span_id s = i \<and> sp_trace_id s = trace_id \<and> span_in_project d project s) (span_rows d)), d))
       (\<lambda>found. case found of
          None \<Rightarrow> ret None
        | Some s \<Rightarrow>
            bindE (modifyE (\<lambda>d. d\<lparr>span_rows := update_where (\<lambda>r. sp_span_id r = sp_span_id s) (fold set_span_field fs) (span_rows d)\<rparr>))
              (\<lambda>_. ret (Some (fold set_span_field fs s))))"

definition add_span_rows :: "uuid \<Rightarrow> uuid \<Rightarrow> span list \<Rightarrow> (error, obs_db, bool) exec" where
  "add_span_rows trace_id project spans =
     bindE (find_trace trace_id project) (\<lambda>found. case found of
       None \<Rightarrow> ret False
     | Some _ \<Rightarrow> bindE (forE spans upsert_span) (\<lambda>_. ret True))"

section \<open>Read\<close>

text \<open>\<open>order_by(started_at, span_id)\<close> of the relationship, and the trace of a row with its spans.\<close>

definition spans_of :: "obs_db \<Rightarrow> uuid \<Rightarrow> span list" where
  "spans_of d i = sort_key (\<lambda>s. (sp_started_at s, sp_span_id s)) (filter (\<lambda>s. sp_trace_id s = i) (span_rows d))"

definition to_span :: "span \<Rightarrow> span" where
  "to_span s = s\<lparr>sp_input := load_json (sp_input s), sp_output := load_json (sp_output s)\<rparr>"

definition to_trace :: "span list \<Rightarrow> trace_row \<Rightarrow> trace" where
  "to_trace spans r = (trace.truncate r)\<lparr>tr_input := load_json (tr_input r), tr_output := load_json (tr_output r),
     tr_spans := map to_span spans\<rparr>"

definition get_trace :: "uuid \<Rightarrow> uuid \<Rightarrow> (error, obs_db, trace option) exec" where
  "get_trace i project = bindE (find_trace i project) (\<lambda>found.
     getsE (\<lambda>d. map_option (to_trace (spans_of d i)) found))"

text \<open>
  \<open>LIKE\<close> with the escape character of the database, and \<open>ILIKE\<close>. A pattern that ends with the
  escape character is an error there; the patterns below never do.
\<close>

fun like :: "string \<Rightarrow> string \<Rightarrow> bool" where
  "like [] s = (s = [])"
| "like (c # p) s =
     (if code c = 37 then like p s \<or> (case s of [] \<Rightarrow> False | _ # t \<Rightarrow> like (c # p) t)
      else if code c = 95 then (case s of [] \<Rightarrow> False | _ # t \<Rightarrow> like p t)
      else if code c = 92 then (case p of [] \<Rightarrow> False | d # q \<Rightarrow> (case s of [] \<Rightarrow> False | x # t \<Rightarrow> x = d \<and> like q t))
      else (case s of [] \<Rightarrow> False | x # t \<Rightarrow> x = c \<and> like p t))"

definition ilike :: "string \<Rightarrow> string \<Rightarrow> bool" where
  "ilike s pattern = like (lower pattern) (lower s)"

text \<open>\<open>str.replace\<close> of one character by another two.\<close>

definition replace_char :: "nat \<Rightarrow> string \<Rightarrow> string \<Rightarrow> string" where
  "replace_char n by s = concat (map (\<lambda>c. if code c = n then by else [c]) s)"

definition escape_like :: "string \<Rightarrow> string" where
  "escape_like value = replace_char 95 [CHR 0x5C, CHR ''_''] (replace_char 37 [CHR 0x5C, CHR ''%'']
     (replace_char 92 [CHR 0x5C, CHR 0x5C] value))"

definition contains_pattern :: "string \<Rightarrow> string" where
  "contains_pattern q = ''%'' @ escape_like q @ ''%''"

record trace_filter =
  tf_session_id :: "string option"
  tf_status :: "trace_status option"
  tf_user_id :: "string option"
  tf_tags :: "string list option"
  tf_name :: "string option"
  tf_started_after :: "datetime option"
  tf_started_before :: "datetime option"

definition opt_all :: "('a \<Rightarrow> bool) \<Rightarrow> 'a option \<Rightarrow> bool" where
  "opt_all P v = (case v of None \<Rightarrow> True | Some x \<Rightarrow> P x)"

definition overlap :: "string list \<Rightarrow> string list \<Rightarrow> bool" where
  "overlap xs ys \<longleftrightarrow> set xs \<inter> set ys \<noteq> {}"

definition apply_trace_filters :: "trace_filter \<Rightarrow> ('a trace_scheme) \<Rightarrow> bool" where
  "apply_trace_filters f t \<longleftrightarrow>
     opt_all (\<lambda>v. tr_session_id t = Some v) (tf_session_id f)
   \<and> opt_all (\<lambda>v. tr_status t = v) (tf_status f)
   \<and> opt_all (\<lambda>v. tr_user_id t = Some v) (tf_user_id f)
   \<and> opt_all (\<lambda>v. v = [] \<or> overlap (tr_tags t) v) (tf_tags f)
   \<and> opt_all (\<lambda>v. v = [] \<or> ilike (tr_name t) (contains_pattern v)) (tf_name f)
   \<and> opt_all (\<lambda>v. v \<le> tr_started_at t) (tf_started_after f)
   \<and> opt_all (\<lambda>v. tr_started_at t < v) (tf_started_before f)"

text \<open>\<open>offset(\<dots>).limit(\<dots>)\<close>.\<close>

definition page :: "nat \<Rightarrow> nat \<Rightarrow> 'a list \<Rightarrow> 'a list" where
  "page off lmt xs = take lmt (drop off xs)"

text \<open>The full traces of a session in the order in which they started.\<close>

definition session_trace_rows :: "uuid \<Rightarrow> string \<Rightarrow> obs_db \<Rightarrow> trace_row list" where
  "session_trace_rows project sid d =
     sort_key tr_started_at (filter (\<lambda>r. tr_project_id r = project \<and> tr_session_id r = Some sid) (trace_rows d))"

definition get_session_traces :: "uuid \<Rightarrow> string \<Rightarrow> nat \<Rightarrow> nat \<Rightarrow> (error, obs_db, trace list \<times> nat) exec" where
  "get_session_traces project sid lmt off = getsE (\<lambda>d. let rows = session_trace_rows project sid d in
     (map (\<lambda>r. to_trace (spans_of d (tr_trace_id r)) r) (page off lmt rows), length rows))"

section \<open>Delete and batches\<close>

text \<open>\<open>DELETE FROM traces\<close> with the cascades to the spans and the scores.\<close>

definition delete_traces :: "(trace_row \<Rightarrow> bool) \<Rightarrow> obs_db \<Rightarrow> obs_db" where
  "delete_traces P d = (let gone = tr_trace_id ` {r \<in> set (trace_rows d). P r} in
     d\<lparr>trace_rows := delete_where P (trace_rows d),
       span_rows := delete_where (\<lambda>s. sp_trace_id s \<in> gone) (span_rows d),
       trace_scores := delete_where (\<lambda>s. ts_trace_id s \<in> gone) (trace_scores d)\<rparr>)"

definition delete_traces_where :: "(trace_row \<Rightarrow> bool) \<Rightarrow> (error, obs_db, nat) exec" where
  "delete_traces_where P = bindE (getsE (\<lambda>d. length (filter P (trace_rows d)))) (\<lambda>n.
     bindE (modifyE (delete_traces P)) (\<lambda>_. ret n))"

definition delete_trace_row :: "uuid \<Rightarrow> uuid \<Rightarrow> (error, obs_db, bool) exec" where
  "delete_trace_row i project = bindE (delete_traces_where (owns_trace i project)) (\<lambda>n. ret (0 < n))"

definition batch_delete_traces :: "uuid \<Rightarrow> uuid list \<Rightarrow> (error, obs_db, nat) exec" where
  "batch_delete_traces project ids = delete_traces_where (\<lambda>r. tr_project_id r = project \<and> tr_trace_id r \<in> set ids)"

definition delete_session_rows :: "uuid \<Rightarrow> string \<Rightarrow> (error, obs_db, nat) exec" where
  "delete_session_rows project sid = delete_traces_where (\<lambda>r. tr_project_id r = project \<and> tr_session_id r = Some sid)"

text \<open>Tags are removed first, so a tag in both lists stays.\<close>

definition edit_tags :: "string list \<Rightarrow> string list \<Rightarrow> string list \<Rightarrow> string list" where
  "edit_tags add_tags remove_tags tags =
     (let kept = fold (\<lambda>t. filter (\<lambda>x. x \<noteq> t)) remove_tags tags in
      if add_tags = [] then kept else distinct_tags (kept @ add_tags))"

definition batch_update_tags :: "uuid \<Rightarrow> uuid list \<Rightarrow> string list \<Rightarrow> string list \<Rightarrow> (error, obs_db, nat) exec" where
  "batch_update_tags project ids add_tags remove_tags =
     (let P = (\<lambda>r. tr_project_id r = project \<and> tr_trace_id r \<in> set ids) in
      bindE (getsE (\<lambda>d. length (filter P (trace_rows d)))) (\<lambda>n.
      bindE (modifyE (\<lambda>d. d\<lparr>trace_rows := update_where P (\<lambda>r. r\<lparr>tr_tags := edit_tags add_tags remove_tags (tr_tags r)\<rparr>) (trace_rows d)\<rparr>))
        (\<lambda>_. ret n)))"

end
