(* ===== verification/TraceQueries.thy ===== *)
theory TraceQueries
  imports TraceRepo
begin

text \<open>
  The listing and aggregation queries of \<open>repositories/trace_repo.py\<close>: traces with the statistics
  of their spans, session summaries and users. Rows that compare equal keep the order of the
  table, where the database promises none.
\<close>

section \<open>Span statistics\<close>

text \<open>\<open>->>\<close> on a JSON object: the text of a member, null for an absent member and for the JSON null.\<close>

definition as_text :: "(string \<times> payload) list option \<Rightarrow> string \<Rightarrow> string option" where
  "as_text obj key = (case obj of None \<Rightarrow> None | Some kvs \<Rightarrow> (case map_of kvs key of
       None \<Rightarrow> None
     | Some JNull \<Rightarrow> None
     | Some (JStr s) \<Rightarrow> Some s
     | Some v \<Rightarrow> Some (dumps v)))"

text \<open>\<open>CAST(\<dots> AS INTEGER)\<close> of a text.\<close>

definition cast_integer :: "string \<Rightarrow> error + int" where
  "cast_integer s = (let t = strip s;
       (sign, u) = (case t of c # v \<Rightarrow> if code c = 45 then (-1, v) else if code c = 43 then (1, v) else (1, t) | [] \<Rightarrow> (1 :: int, t)) in
     if u \<noteq> [] \<and> (\<forall>c \<in> set u. digit_char c)
     then (let n = sign * int (digits_nat (map digit_val u)) in if - (2 ^ 31) \<le> n \<and> n < 2 ^ 31 then Inr n else Inl DataError)
     else Inl DataError)"

definition token_count :: "span \<Rightarrow> string \<Rightarrow> error + int" where
  "token_count s key = (case as_text (sp_token_usage s) key of None \<Rightarrow> Inr 0 | Some t \<Rightarrow> cast_integer t)"

text \<open>The sum of two integers of 32 bits is one too, or fails.\<close>

definition span_tokens :: "span \<Rightarrow> error + int" where
  "span_tokens s = (case token_count s ''prompt_tokens'' of Inl e \<Rightarrow> Inl e | Inr p \<Rightarrow>
     (case token_count s ''completion_tokens'' of Inl e \<Rightarrow> Inl e | Inr c \<Rightarrow>
      if - (2 ^ 31) \<le> p + c \<and> p + c < 2 ^ 31 then Inr (p + c) else Inl DataError))"

definition span_cost :: "span \<Rightarrow> real" where
  "span_cost s = (case sp_cost s of None \<Rightarrow> 0 | Some kvs \<Rightarrow> get_or kvs ''total'' 0)"

record span_stats =
  st_span_count :: nat
  st_total_tokens :: int
  st_total_cost :: real

definition stats_of :: "span list \<Rightarrow> error + span_stats" where
  "stats_of spans = (case traverseE span_tokens spans of Inl e \<Rightarrow> Inl e | Inr ts \<Rightarrow>
     Inr \<lparr>st_span_count = length spans, st_total_tokens = sum_list ts, st_total_cost = sum_list (map span_cost spans)\<rparr>)"

text \<open>The subquery: one entry per trace of the project that has spans.\<close>

definition project_traces :: "uuid \<Rightarrow> obs_db \<Rightarrow> trace_row list" where
  "project_traces project d = filter (\<lambda>r. tr_project_id r = project) (trace_rows d)"

definition span_stats_subquery :: "uuid \<Rightarrow> obs_db \<Rightarrow> error + (uuid \<times> span_stats) list" where
  "span_stats_subquery project d =
     traverseE (\<lambda>i. case stats_of (filter (\<lambda>s. sp_trace_id s = i) (span_rows d)) of Inl e \<Rightarrow> Inl e | Inr st \<Rightarrow> Inr (i, st))
       (filter (\<lambda>i. \<exists>s \<in> set (span_rows d). sp_trace_id s = i) (map tr_trace_id (project_traces project d)))"

definition no_spans :: span_stats where
  "no_spans = \<lparr>st_span_count = 0, st_total_tokens = 0, st_total_cost = 0\<rparr>"

definition stats_or_zero :: "(uuid \<times> span_stats) list \<Rightarrow> uuid \<Rightarrow> span_stats" where
  "stats_or_zero stats i = (case map_of stats i of None \<Rightarrow> no_spans | Some s \<Rightarrow> s)"

definition get_trace_span_stats :: "uuid \<Rightarrow> uuid list \<Rightarrow> (error, obs_db, (uuid \<times> int \<times> real) list) exec" where
  "get_trace_span_stats project ids =
     (if ids = [] then ret []
      else bindE (\<lambda>d. (span_stats_subquery project d, d)) (\<lambda>stats.
        ret (map (\<lambda>(i, s). (i, st_total_tokens s, st_total_cost s)) (filter (\<lambda>(i, s). i \<in> set ids) stats))))"

section \<open>Listing traces\<close>

datatype trace_sort_by = STARTED_AT | ENDED_AT | NAME | LATENCY | STATUS
datatype sort_order = ASC | DESC

text \<open>\<open>extract(epoch from ended_at - started_at) * 1000\<close>.\<close>

definition latency_ms :: "('a trace_scheme) \<Rightarrow> real option" where
  "latency_ms t = map_option (\<lambda>e. of_int (e - tr_started_at t) / 1000) (tr_ended_at t)"

fun trace_status_value :: "trace_status \<Rightarrow> string" where
  "trace_status_value trace_status.PENDING = ''PENDING''"
| "trace_status_value trace_status.RUNNING = ''RUNNING''"
| "trace_status_value trace_status.COMPLETED = ''COMPLETED''"
| "trace_status_value trace_status.ERROR = ''ERROR''"

text \<open>A sort key: nulls after all values when ascending, and so before them when descending.\<close>

type_synonym sort_value = "bool \<times> real \<times> string"

definition null_last :: "real option \<Rightarrow> sort_value" where
  "null_last v = (case v of None \<Rightarrow> (True, 0, []) | Some x \<Rightarrow> (False, x, []))"

fun resolve_sort_column :: "trace_sort_by \<Rightarrow> ('a trace_scheme) \<Rightarrow> sort_value" where
  "resolve_sort_column STARTED_AT t = null_last (Some (of_int (tr_started_at t)))"
| "resolve_sort_column ENDED_AT t = null_last (map_option of_int (tr_ended_at t))"
| "resolve_sort_column NAME t = (False, 0, tr_name t)"
| "resolve_sort_column STATUS t = (False, 0, trace_status_value (tr_status t))"
| "resolve_sort_column LATENCY t = null_last (latency_ms t)"

definition ordered :: "sort_order \<Rightarrow> ('a \<Rightarrow> sort_value) \<Rightarrow> 'a list \<Rightarrow> 'a list" where
  "ordered dir key rows = (let s = sort_key key rows in if dir = ASC then s else rev s)"

definition list_trace_rows ::
  "uuid \<Rightarrow> nat \<Rightarrow> nat \<Rightarrow> trace_filter \<Rightarrow> trace_sort_by \<Rightarrow> sort_order \<Rightarrow> (error, obs_db, (trace_row \<times> span_stats \<times> real option) list \<times> nat) exec" where
  "list_trace_rows project lmt off f sort_by dir =
     bindE (\<lambda>d. (span_stats_subquery project d, d)) (\<lambda>stats.
     getsE (\<lambda>d. let base = filter (apply_trace_filters f) (project_traces project d) in
       (map (\<lambda>r. (r, stats_or_zero stats (tr_trace_id r), latency_ms r))
          (page off lmt (ordered dir (resolve_sort_column sort_by) base)), length base)))"

section \<open>Sessions\<close>

datatype session_sort_by = RECENT | TRACE_COUNT | SESSION_LATENCY | COST

record session_row =
  se_session_id :: string
  se_trace_count :: nat
  se_first_trace_at :: datetime
  se_last_trace_at :: "datetime option"
  se_total_latency_ms :: "real option"
  se_has_error :: bool
  se_user_id :: "string option"
  se_tags :: "string list"
  se_total_span_count :: nat
  se_total_tokens :: int
  se_total_cost :: real

text \<open>Aggregates that ignore nulls and are null on no values.\<close>

definition somes :: "'a option list \<Rightarrow> 'a list" where
  "somes xs = concat (map (\<lambda>x. case x of None \<Rightarrow> [] | Some v \<Rightarrow> [v]) xs)"

definition sum_nulls :: "real option list \<Rightarrow> real option" where
  "sum_nulls xs = (let ys = somes xs in if ys = [] then None else Some (sum_list ys))"

definition max_nulls :: "datetime option list \<Rightarrow> datetime option" where
  "max_nulls xs = (case somes xs of [] \<Rightarrow> None | y # ys \<Rightarrow> Some (fold max ys y))"

definition first_user :: "trace_row list \<Rightarrow> string option" where
  "first_user rows = (case somes (map tr_user_id (sort_key tr_started_at rows)) of [] \<Rightarrow> None | u # _ \<Rightarrow> Some u)"

definition is_error :: "('a trace_scheme) \<Rightarrow> bool" where
  "is_error t \<longleftrightarrow> tr_status t = trace_status.ERROR"

definition summarize :: "(uuid \<times> span_stats) list \<Rightarrow> string \<Rightarrow> trace_row list \<Rightarrow> session_row" where
  "summarize stats sid rows = (let sts = map (\<lambda>r. stats_or_zero stats (tr_trace_id r)) rows in
     \<lparr>se_session_id = sid, se_trace_count = length rows,
      se_first_trace_at = (case map tr_started_at rows of [] \<Rightarrow> 0 | x # xs \<Rightarrow> fold min xs x),
      se_last_trace_at = max_nulls (map tr_ended_at rows),
      se_total_latency_ms = sum_nulls (map latency_ms rows),
      se_has_error = (\<exists>r \<in> set rows. is_error r),
      se_user_id = first_user rows,
      se_tags = distinct_tags (concat (map tr_tags rows)),
      se_total_span_count = sum_list (map st_span_count sts),
      se_total_tokens = sum_list (map st_total_tokens sts),
      se_total_cost = sum_list (map st_total_cost sts)\<rparr>)"

record session_filter =
  sf_user_id :: "string option"
  sf_has_error :: "bool option"
  sf_started_after :: "datetime option"
  sf_started_before :: "datetime option"
  sf_tags :: "string list option"
  sf_query :: "string option"

definition session_base :: "uuid \<Rightarrow> session_filter \<Rightarrow> trace_row \<Rightarrow> bool" where
  "session_base project f r \<longleftrightarrow> tr_project_id r = project \<and> tr_session_id r \<noteq> None
   \<and> opt_all (\<lambda>v. v \<le> tr_started_at r) (sf_started_after f)
   \<and> opt_all (\<lambda>v. tr_started_at r < v) (sf_started_before f)
   \<and> opt_all (\<lambda>v. tr_user_id r = Some v) (sf_user_id f)
   \<and> opt_all (\<lambda>v. v = [] \<or> overlap (tr_tags r) v) (sf_tags f)
   \<and> opt_all (\<lambda>v. v = [] \<or> (case tr_session_id r of None \<Rightarrow> False | Some s \<Rightarrow> ilike s (contains_pattern v))) (sf_query f)"

text \<open>\<open>GROUP BY session_id\<close>: the groups in the order of their first rows.\<close>

definition session_groups :: "trace_row list \<Rightarrow> (string \<times> trace_row list) list" where
  "session_groups rows = map (\<lambda>sid. (sid, filter (\<lambda>r. tr_session_id r = Some sid) rows)) (remdups (somes (map tr_session_id rows)))"

fun session_sort_column :: "session_sort_by \<Rightarrow> session_row \<times> trace_row list \<Rightarrow> sort_value" where
  "session_sort_column RECENT (s, rows) = null_last (map_option of_int (max_nulls (map (\<lambda>r. Some (tw_created_at r)) rows)))"
| "session_sort_column TRACE_COUNT (s, rows) = null_last (Some (of_nat (se_trace_count s)))"
| "session_sort_column SESSION_LATENCY (s, rows) = null_last (se_total_latency_ms s)"
| "session_sort_column COST (s, rows) = null_last (Some (se_total_cost s))"

definition list_session_rows ::
  "uuid \<Rightarrow> nat \<Rightarrow> nat \<Rightarrow> session_filter \<Rightarrow> session_sort_by \<Rightarrow> sort_order \<Rightarrow> (error, obs_db, session_row list \<times> nat) exec" where
  "list_session_rows project lmt off f sort_by dir =
     bindE (\<lambda>d. (span_stats_subquery project d, d)) (\<lambda>stats.
     getsE (\<lambda>d. let groups = session_groups (filter (session_base project f) (trace_rows d));
                    rows = filter (\<lambda>(s, g). opt_all (\<lambda>v. se_has_error s = v) (sf_has_error f))
                             (map (\<lambda>(sid, g). (summarize stats sid g, g)) groups) in
       (map fst (page off lmt (ordered dir (session_sort_column sort_by) rows)), length rows)))"

definition get_session_summary_row :: "uuid \<Rightarrow> string \<Rightarrow> (error, obs_db, session_row option) exec" where
  "get_session_summary_row project sid =
     bindE (\<lambda>d. (span_stats_subquery project d, d)) (\<lambda>stats.
     getsE (\<lambda>d. let rows = filter (\<lambda>r. tr_project_id r = project \<and> tr_session_id r = Some sid) (trace_rows d) in
       if rows = [] then None else Some (summarize stats sid rows)))"

section \<open>Users\<close>

record user_row =
  us_user_id :: string
  us_trace_count :: nat
  us_first_seen :: datetime
  us_last_seen :: datetime
  us_error_count :: nat

definition user_summary :: "trace_row list \<Rightarrow> string \<Rightarrow> user_row" where
  "user_summary rows u = (let g = filter (\<lambda>r. tr_user_id r = Some u) rows; ts = map tr_started_at g in
     \<lparr>us_user_id = u, us_trace_count = length g,
      us_first_seen = (case ts of [] \<Rightarrow> 0 | x # xs \<Rightarrow> fold min xs x),
      us_last_seen = (case ts of [] \<Rightarrow> 0 | x # xs \<Rightarrow> fold max xs x),
      us_error_count = length (filter is_error g)\<rparr>)"

definition list_trace_users :: "uuid \<Rightarrow> nat \<Rightarrow> nat \<Rightarrow> (error, obs_db, user_row list \<times> nat) exec" where
  "list_trace_users project lmt off = getsE (\<lambda>d.
     let rows = project_traces project d; users = map (user_summary rows) (remdups (somes (map tr_user_id rows))) in
     (page off lmt (ordered DESC (\<lambda>u. null_last (Some (of_int (us_last_seen u)))) users), length users))"

end
