(* ===== verification/TraceService.thy ===== *)
theory TraceService
  imports TraceQueries UsageService
begin

text \<open>
  \<open>services/trace_service.py\<close>, the endpoints of \<open>api/v1/routes/traces.py\<close> and \<open>sessions.py\<close> that read and
  write traces, and the task \<open>process_trace\<close>. An endpoint gets the project that \<open>require_project\<close>
  resolved and runs in a database session. A response holds the entities it is copied from.
\<close>

section \<open>Service\<close>

record trace_detail =
  td_trace :: trace
  td_total_tokens :: int
  td_total_cost :: real

definition no_trace :: error where "no_trace = NotFoundError ''Trace not found.''"
definition no_span :: error where "no_span = NotFoundError ''Span not found on trace.''"
definition no_session :: error where "no_session = NotFoundError ''Session not found.''"

text \<open>\<open>if x is None: raise e\<close>.\<close>

definition found_or :: "error \<Rightarrow> 'a option \<Rightarrow> (error, 's, 'a) exec" where
  "found_or e x = (case x of None \<Rightarrow> raise e | Some v \<Rightarrow> ret v)"

definition with_stats :: "(uuid \<times> int \<times> real) list \<Rightarrow> trace \<Rightarrow> trace_detail" where
  "with_stats stats t = (case map_of stats (tr_trace_id t) of
       None \<Rightarrow> \<lparr>td_trace = t, td_total_tokens = 0, td_total_cost = 0\<rparr>
     | Some (tokens, cost) \<Rightarrow> \<lparr>td_trace = t, td_total_tokens = tokens, td_total_cost = cost\<rparr>)"

definition enrich_trace :: "trace \<Rightarrow> (error, obs_db, trace_detail) exec" where
  "enrich_trace t = bindE (get_trace_span_stats (tr_project_id t) [tr_trace_id t]) (\<lambda>stats. ret (with_stats stats t))"

definition update_trace :: "uuid \<Rightarrow> uuid \<Rightarrow> trace_update list \<Rightarrow> (error, obs_db, trace_detail) exec" where
  "update_trace i project fs = bindE (update_trace_row i project fs) (\<lambda>row.
     bindE (found_or no_trace row) (\<lambda>r. enrich_trace (to_trace [] r)))"

definition update_span :: "uuid \<Rightarrow> uuid \<Rightarrow> uuid \<Rightarrow> span_update list \<Rightarrow> (error, obs_db, span) exec" where
  "update_span i trace_id project fs = bindE (update_span_row i trace_id project fs) (\<lambda>row.
     bindE (found_or no_span row) (\<lambda>s. ret (to_span s)))"

definition add_spans :: "uuid \<Rightarrow> uuid \<Rightarrow> span list \<Rightarrow> (error, obs_db, unit) exec" where
  "add_spans trace_id project spans = bindE (add_span_rows trace_id project spans) (\<lambda>ok.
     if ok then ret () else raise no_trace)"

definition get_trace_detail :: "uuid \<Rightarrow> uuid \<Rightarrow> (error, obs_db, trace_detail) exec" where
  "get_trace_detail i project = bindE (get_trace i project) (\<lambda>t. bindE (found_or no_trace t) enrich_trace)"

definition delete_trace :: "uuid \<Rightarrow> uuid \<Rightarrow> (error, obs_db, unit) exec" where
  "delete_trace i project = bindE (delete_trace_row i project) (\<lambda>deleted. if deleted then ret () else raise no_trace)"

definition get_session_summary :: "uuid \<Rightarrow> string \<Rightarrow> (error, obs_db, session_row) exec" where
  "get_session_summary project sid = bindE (get_session_summary_row project sid) (found_or no_session)"

definition get_session_trace_details :: "uuid \<Rightarrow> string \<Rightarrow> nat \<Rightarrow> nat \<Rightarrow> (error, obs_db, trace_detail list \<times> nat) exec" where
  "get_session_trace_details project sid lmt off =
     bindE (get_session_traces project sid lmt off) (\<lambda>(traces, total).
     bindE (get_trace_span_stats project (map tr_trace_id traces)) (\<lambda>stats.
     ret (map (with_stats stats) traces, total)))"

definition delete_session :: "uuid \<Rightarrow> string \<Rightarrow> (error, obs_db, nat) exec" where
  "delete_session project sid = bindE (delete_session_rows project sid) (\<lambda>n. if n = 0 then raise no_session else ret n)"

section \<open>Endpoints\<close>

datatype trace_endpoint =
    ListTraces nat nat trace_filter trace_sort_by sort_order
  | ListTraceUsers nat nat
  | BatchDelete "uuid list"
  | BatchTags "uuid list" "string list" "string list"
  | UpdateTrace uuid "trace_update list"
  | AddSpans uuid "span list"
  | UpdateSpan uuid uuid "span_update list"
  | GetTrace uuid
  | DeleteTrace uuid
  | ListSessions nat nat session_filter session_sort_by sort_order
  | GetSession string nat nat
  | DeleteSession string

datatype trace_response =
    TracePage "(trace_row \<times> span_stats \<times> real option) list" nat
  | UserPage "user_row list" nat
  | Affected nat
  | TraceMutation trace_detail
  | SpansAccepted "uuid list"
  | SpanOut span
  | TraceOut trace_detail
  | SessionPage "session_row list" nat
  | SessionOut session_row "trace_detail list"
  | NoContent

text \<open>A span of a request body gets the trace of the path.\<close>

definition placed_spans :: "uuid \<Rightarrow> span list \<Rightarrow> span list" where
  "placed_spans trace_id spans = map (\<lambda>s. s\<lparr>sp_trace_id := trace_id\<rparr>) spans"

fun handle_trace :: "uuid \<Rightarrow> trace_endpoint \<Rightarrow> (error, obs_db, trace_response) exec" where
  "handle_trace project (ListTraces lmt off f sort_by dir) =
     bindE (list_trace_rows project lmt off f sort_by dir) (\<lambda>(rows, total). ret (TracePage rows total))"
| "handle_trace project (ListTraceUsers lmt off) =
     bindE (list_trace_users project lmt off) (\<lambda>(rows, total). ret (UserPage rows total))"
| "handle_trace project (BatchDelete ids) = bindE (batch_delete_traces project ids) (\<lambda>n. ret (Affected n))"
| "handle_trace project (BatchTags ids add rem) =
     (if add = [] \<and> rem = [] then ret (Affected 0)
      else bindE (batch_update_tags project ids add rem) (\<lambda>n. ret (Affected n)))"
| "handle_trace project (UpdateTrace i fs) = bindE (update_trace i project fs) (\<lambda>t. ret (TraceMutation t))"
| "handle_trace project (AddSpans i spans) =
     bindE (add_spans i project (placed_spans i spans)) (\<lambda>_. ret (SpansAccepted (map sp_span_id spans)))"
| "handle_trace project (UpdateSpan i si fs) = bindE (update_span si i project fs) (\<lambda>s. ret (SpanOut s))"
| "handle_trace project (GetTrace i) = bindE (get_trace_detail i project) (\<lambda>t. ret (TraceOut t))"
| "handle_trace project (DeleteTrace i) = bindE (delete_trace i project) (\<lambda>_. ret NoContent)"
| "handle_trace project (ListSessions lmt off f sort_by dir) =
     bindE (list_session_rows project lmt off f sort_by dir) (\<lambda>(rows, total). ret (SessionPage rows total))"
| "handle_trace project (GetSession sid lmt off) =
     bindE (get_session_summary project sid) (\<lambda>row.
     bindE (get_session_trace_details project sid lmt off) (\<lambda>(details, total). ret (SessionOut row details)))"
| "handle_trace project (DeleteSession sid) = bindE (delete_session project sid) (\<lambda>n. ret (Affected n))"

definition serve_trace :: "uuid \<Rightarrow> trace_endpoint \<Rightarrow> (error, obs_db, trace_response) exec" where
  "serve_trace project ep = get_db_session (handle_trace project ep)"

section \<open>Ingestion\<close>

text \<open>The message for the trace of a request body: it gets the project of the request, and its spans its identifier.\<close>

definition trace_message :: "uuid \<Rightarrow> trace \<Rightarrow> trace" where
  "trace_message project body = body\<lparr>tr_project_id := project, tr_spans := placed_spans (tr_trace_id body) (tr_spans body)\<rparr>"

text \<open>
  \<open>ingest_trace\<close>: a unit of quota, then the message. Handing the message to the broker may fail,
  \<open>broker\<close> says how; then the unit is given back. The result is the payload of the message.
\<close>

definition ingest_trace ::
  "datetime \<Rightarrow> uuid \<Rightarrow> uuid \<Rightarrow> error option \<Rightarrow> uuid \<Rightarrow> uuid \<Rightarrow> trace \<Rightarrow> (error, 's bworld, trace) exec" where
  "ingest_trace now nonce nonce' broker org project body =
     bindE (check_and_increment now nonce org ''traces'' 1) (\<lambda>_.
     catchE
       (case broker of None \<Rightarrow> ret (trace_message project body) | Some e \<Rightarrow> raise e)
       (\<lambda>e. bindE (rollback_increment now nonce' org ''traces'' 1) (\<lambda>_. raise e)))"

text \<open>\<open>_persist_trace\<close>: the worker's session is committed only when every statement succeeds.\<close>

definition persist_trace :: "datetime \<Rightarrow> trace \<Rightarrow> (error, obs_db, uuid) exec" where
  "persist_trace now t = get_db_session (bindE (upsert_trace now t) (\<lambda>_. ret (tr_trace_id t)))"

text \<open>
  Everything a project can do to the tables of traces and spans: a request, or the task
  \<open>process_trace\<close> on the message that a request has put into the queue.
\<close>

datatype trace_operation = TraceRequest trace_endpoint | ProcessTrace datetime trace

fun perform_trace :: "uuid \<Rightarrow> trace_operation \<Rightarrow> (error, obs_db, trace_response + uuid) exec" where
  "perform_trace project (TraceRequest ep) = bindE (serve_trace project ep) (\<lambda>x. ret (Inl x))"
| "perform_trace project (ProcessTrace now body) = bindE (persist_trace now (trace_message project body)) (\<lambda>i. ret (Inr i))"

end
