(* ===== verification/TraceIsolation.thy ===== *)
theory TraceIsolation
  imports TraceService
begin

text \<open>
  Isolation of projects. What a request of one project, or the ingestion of one of its traces, does
  to the tables leaves the rows of every other project as they were, and what it returns depends on
  the rows of its own project only. Both hold when the span and trace identifiers it supplies are not
  in use elsewhere: the conflict clauses of the upserts name the primary keys alone.
\<close>

section \<open>Well-formed tables\<close>

definition obs_wf :: "obs_db \<Rightarrow> bool" where
  "obs_wf d \<longleftrightarrow>
     distinct (map tr_trace_id (trace_rows d)) \<and> distinct (map sp_span_id (span_rows d))
   \<and> sp_trace_id ` set (span_rows d) \<subseteq> tr_trace_id ` set (trace_rows d)
   \<and> ts_trace_id ` set (trace_scores d) \<subseteq> tr_trace_id ` set (trace_rows d)"

definition own_ids :: "uuid \<Rightarrow> obs_db \<Rightarrow> uuid set" where
  "own_ids p d = tr_trace_id ` {r \<in> set (trace_rows d). tr_project_id r = p}"

definition own_spans :: "uuid \<Rightarrow> obs_db \<Rightarrow> span list" where
  "own_spans p d = filter (\<lambda>s. sp_trace_id s \<in> own_ids p d) (span_rows d)"

definition foreign_spans :: "uuid \<Rightarrow> obs_db \<Rightarrow> span list" where
  "foreign_spans p d = filter (\<lambda>s. sp_trace_id s \<notin> own_ids p d) (span_rows d)"

text \<open>Everything that does not belong to project \<open>p\<close>.\<close>

definition foreign :: "uuid \<Rightarrow> obs_db \<Rightarrow> trace_row list \<times> span list \<times> trace_score list \<times> session_score list \<times> eval_run list \<times> eval_monitor list" where
  "foreign p d = (filter (\<lambda>r. tr_project_id r \<noteq> p) (trace_rows d), foreign_spans p d,
     filter (\<lambda>s. ts_trace_id s \<notin> own_ids p d) (trace_scores d), session_scores d, eval_runs d, eval_monitors d)"

text \<open>What of the traces and spans belongs to it.\<close>

definition own :: "uuid \<Rightarrow> obs_db \<Rightarrow> trace_row list \<times> span list" where
  "own p d = (project_traces p d, own_spans p d)"

lemma span_in_project_own: "span_in_project d p s \<longleftrightarrow> sp_trace_id s \<in> own_ids p d"
  by (auto simp: span_in_project_def own_ids_def image_iff)

lemma own_ids_project: "own_ids p d = tr_trace_id ` set (project_traces p d)"
  by (auto simp: own_ids_def project_traces_def)

text \<open>Two projects with a trace each, for the examples.\<close>

definition sample_trace :: "uuid \<Rightarrow> uuid \<Rightarrow> trace" where
  "sample_trace i p = \<lparr>tr_trace_id = i, tr_project_id = p, tr_name = ''Agent_1'', tr_status = trace_status.COMPLETED,
     tr_input = None, tr_output = None, tr_metadata = [], tr_started_at = 1, tr_ended_at = Some 5, tr_session_id = Some ''s'',
     tr_user_id = None, tr_tags = [], tr_environment = None, tr_release = None, tr_spans = []\<rparr>"

definition sample_span :: "uuid \<Rightarrow> uuid \<Rightarrow> span" where
  "sample_span i t = \<lparr>sp_span_id = i, sp_trace_id = t, sp_parent_span_id = None, sp_name = ''call'', sp_kind = LLM,
     sp_status = OK, sp_input = None, sp_output = None, sp_model = None,
     sp_token_usage = Some [(''prompt_tokens'', JNum ''3'')], sp_metadata = [], sp_started_at = 1, sp_ended_at = None,
     sp_error = None, sp_completion_start_time = None, sp_model_parameters = None, sp_cost = None\<rparr>"

definition sample_obs :: obs_db where
  "sample_obs = \<lparr>trace_rows = [bound_trace 1 (sample_trace 10 1), bound_trace 2 (sample_trace 20 2)],
     span_rows = [bound_span (sample_span 100 10), bound_span (sample_span 200 20)],
     trace_scores = [], session_scores = [], eval_runs = [], eval_monitors = [], obs_projects = [1, 2], obs_next_id = 1000\<rparr>"

text \<open>The same for the first project, the second one empty.\<close>

definition sample_obs_alone :: obs_db where
  "sample_obs_alone = sample_obs\<lparr>trace_rows := [bound_trace 1 (sample_trace 10 1)], span_rows := [bound_span (sample_span 100 10)]\<rparr>"

section \<open>Writes leave the others alone\<close>

definition isolated :: "uuid \<Rightarrow> obs_db \<Rightarrow> obs_db \<Rightarrow> bool" where
  "isolated p d d' \<longleftrightarrow> (obs_wf d \<longrightarrow> obs_wf d' \<and> foreign p d' = foreign p d)"

interpretation iso: exec_preorder "isolated p" for p
  by unfold_locales (auto simp: isolated_def)

lemma filter_update_where_own:
  "(\<And>r. r \<in> set rows \<Longrightarrow> P r \<Longrightarrow> \<not> Q r \<and> \<not> Q (f r)) \<Longrightarrow> filter Q (update_where P f rows) = filter Q rows"
  by (induction rows) auto

text \<open>An update of rows of the project that keeps identifiers and project.\<close>

lemma isolated_update_traces:
  assumes P: "\<And>r. P r \<Longrightarrow> tr_project_id r = p"
    and f: "\<And>r. tr_trace_id (f r) = tr_trace_id r" "\<And>r. tr_project_id (f r) = tr_project_id r"
  shows "isolated p d (d\<lparr>trace_rows := update_where P f (trace_rows d)\<rparr>)"
proof -
  let ?d = "d\<lparr>trace_rows := update_where P f (trace_rows d)\<rparr>"
  have m: "map (\<lambda>r. (tr_trace_id r, tr_project_id r)) (trace_rows ?d) = map (\<lambda>r. (tr_trace_id r, tr_project_id r)) (trace_rows d)"
    by (simp add: map_update_where f)
  have ids: "map tr_trace_id (trace_rows ?d) = map tr_trace_id (trace_rows d)" by (simp add: map_update_where f)
  have "own_ids p ?d = (\<lambda>x. fst x) ` {x \<in> (\<lambda>r. (tr_trace_id r, tr_project_id r)) ` set (trace_rows ?d). snd x = p}"
    by (force simp: own_ids_def)
  also have "\<dots> = own_ids p d" unfolding arg_cong[OF m, of set, simplified list.set_map] by (force simp: own_ids_def)
  finally have own: "own_ids p ?d = own_ids p d" .
  have "filter (\<lambda>r. tr_project_id r \<noteq> p) (trace_rows ?d) = filter (\<lambda>r. tr_project_id r \<noteq> p) (trace_rows d)"
    using P f(2) by (simp add: filter_update_where_own)
  moreover from ids have "tr_trace_id ` set (trace_rows ?d) = tr_trace_id ` set (trace_rows d)" by (metis list.set_map)
  ultimately show ?thesis
    using ids own by (auto simp del: obs_db.update_convs simp: isolated_def obs_wf_def foreign_def foreign_spans_def)
qed

lemma set_trace_field_keys:
  "tr_trace_id (set_trace_field u r) = tr_trace_id r" "tr_project_id (set_trace_field u r) = tr_project_id r"
  by (cases "(u, r)" rule: set_trace_field.cases; simp)+

lemma fold_trace_field_keys:
  "tr_trace_id (fold set_trace_field fs r) = tr_trace_id r" "tr_project_id (fold set_trace_field fs r) = tr_project_id r"
  by (induction fs arbitrary: r) (simp_all add: set_trace_field_keys)

lemma set_span_field_keys:
  "sp_span_id (set_span_field u s) = sp_span_id s" "sp_trace_id (set_span_field u s) = sp_trace_id s"
  by (cases "(u, s)" rule: set_span_field.cases; simp)+

lemma fold_span_field_keys:
  "sp_span_id (fold set_span_field fs s) = sp_span_id s" "sp_trace_id (fold set_span_field fs s) = sp_trace_id s"
  by (induction fs arbitrary: s) (simp_all add: set_span_field_keys)

lemma merge_span_keys: "sp_span_id (merge_span x s) = sp_span_id s" "sp_trace_id (merge_span x s) = sp_trace_id s"
  by (simp_all add: merge_span_def)

text \<open>An update of one span that is not foreign and that keeps its identifiers.\<close>

lemma isolated_update_span:
  assumes "i \<notin> sp_span_id ` set (foreign_spans p d)"
    and f: "\<And>s. sp_span_id (f s) = sp_span_id s" "\<And>s. sp_trace_id (f s) = sp_trace_id s"
  shows "isolated p d (d\<lparr>span_rows := update_where (\<lambda>r. sp_span_id r = i) f (span_rows d)\<rparr>)"
proof -
  let ?d = "d\<lparr>span_rows := update_where (\<lambda>r. sp_span_id r = i) f (span_rows d)\<rparr>"
  have own: "own_ids p ?d = own_ids p d" by (simp add: own_ids_def)
  have "foreign_spans p ?d = foreign_spans p d"
    unfolding foreign_spans_def own
    using assms by (auto simp: foreign_spans_def intro!: filter_update_where_own)
  moreover have "map sp_span_id (span_rows ?d) = map sp_span_id (span_rows d)"
    "map sp_trace_id (span_rows ?d) = map sp_trace_id (span_rows d)"
    by (simp_all add: map_update_where f)
  moreover from this(2) have "sp_trace_id ` set (span_rows ?d) = sp_trace_id ` set (span_rows d)"
    by (metis list.set_map)
  ultimately show ?thesis by (auto simp: isolated_def obs_wf_def foreign_def own)
qed

lemma upsert_span_isolated:
  assumes "sp_trace_id s \<in> own_ids p d" "sp_span_id s \<notin> sp_span_id ` set (foreign_spans p d)"
  shows "isolated p d (snd (upsert_span s d)) \<and> own_ids p (snd (upsert_span s d)) = own_ids p d"
proof (cases "sp_span_id s \<in> sp_span_id ` set (span_rows d)")
  case True
  then show ?thesis
    using isolated_update_span[OF assms(2), of "merge_span (bound_span s)"]
    by (simp add: upsert_span_def merge_span_keys own_ids_def)
next
  case False
  from assms(1) have t: "sp_trace_id s \<in> tr_trace_id ` set (trace_rows d)" by (auto simp: own_ids_def)
  have own: "own_ids p (d\<lparr>span_rows := span_rows d @ [bound_span s]\<rparr>) = own_ids p d" by (simp add: own_ids_def)
  with False t assms(1) show ?thesis
    by (auto simp: upsert_span_def isolated_def obs_wf_def foreign_def foreign_spans_def bound_span_def)
qed

lemma upsert_spans_isolated:
  assumes "obs_wf d" "sp_trace_id ` set ss \<subseteq> own_ids p d" "sp_span_id ` set ss \<inter> sp_span_id ` set (foreign_spans p d) = {}"
  shows "isolated p d (snd (forE ss upsert_span d))"
  using assms
proof (induction ss arbitrary: d)
  case (Cons s ss)
  obtain r d1 where run: "upsert_span s d = (r, d1)" by fastforce
  have step: "isolated p d d1" "own_ids p d1 = own_ids p d"
    using upsert_span_isolated[of s p d] Cons.prems run by auto
  then have "obs_wf d1" "foreign_spans p d1 = foreign_spans p d" using Cons.prems(1) by (auto simp: isolated_def foreign_def)
  then have "isolated p d1 (snd (forE ss upsert_span d1))"
    using Cons.prems(2,3) step(2) by (intro Cons.IH) auto
  with step(1) show ?case by (auto simp: bindE_def run intro: iso.rel_trans split: sum.splits)
qed (simp add: iso.rel_refl)

lemma delete_traces_isolated:
  assumes P: "\<And>r. P r \<Longrightarrow> tr_project_id r = p"
  shows "isolated p d (delete_traces P d)"
proof -
  let ?d = "delete_traces P d" and ?gone = "tr_trace_id ` {r \<in> set (trace_rows d). P r}"
  { assume wf: "obs_wf d"
    then have inj: "inj_on tr_trace_id (set (trace_rows d))" by (simp add: obs_wf_def distinct_map)
    have rows: "set (trace_rows ?d) = {r \<in> set (trace_rows d). \<not> P r}" by (simp add: delete_traces_def Let_def)
    have ids: "tr_trace_id ` set (trace_rows ?d) = tr_trace_id ` set (trace_rows d) - ?gone"
      unfolding rows using inj by (auto dest: inj_onD)
    have own: "own_ids p d = own_ids p ?d \<union> ?gone"
      using P by (auto simp: own_ids_def rows)
    have "filter (\<lambda>r. tr_project_id r \<noteq> p) (trace_rows ?d) = filter (\<lambda>r. tr_project_id r \<noteq> p) (trace_rows d)"
      using P by (auto simp: delete_traces_def delete_where_def Let_def intro: filter_cong)
    moreover have "foreign_spans p ?d = foreign_spans p d"
      unfolding foreign_spans_def own by (auto simp: delete_traces_def delete_where_def Let_def intro: filter_cong)
    moreover have "filter (\<lambda>s. ts_trace_id s \<notin> own_ids p ?d) (trace_scores ?d) = filter (\<lambda>s. ts_trace_id s \<notin> own_ids p d) (trace_scores d)"
      unfolding own by (auto simp: delete_traces_def delete_where_def Let_def intro: filter_cong)
    moreover have "distinct (map tr_trace_id (trace_rows ?d))" "distinct (map sp_span_id (span_rows ?d))"
      using wf by (simp_all add: obs_wf_def delete_traces_def delete_where_def Let_def distinct_map_filter)
    moreover have "sp_trace_id ` set (span_rows ?d) \<subseteq> tr_trace_id ` set (trace_rows ?d)"
        "ts_trace_id ` set (trace_scores ?d) \<subseteq> tr_trace_id ` set (trace_rows ?d)"
      unfolding ids using wf by (auto simp: obs_wf_def delete_traces_def Let_def)
    ultimately have "obs_wf ?d \<and> foreign p ?d = foreign p d"
      by (simp add: obs_wf_def foreign_def delete_traces_def Let_def) }
  then show ?thesis by (simp add: isolated_def)
qed

section \<open>Requests\<close>

text \<open>The identifiers that an operation supplies for spans and for a trace, and the traces of other projects.\<close>

fun supplied_spans :: "trace_operation \<Rightarrow> uuid set" where
  "supplied_spans (TraceRequest (AddSpans i spans)) = sp_span_id ` set spans"
| "supplied_spans (ProcessTrace now body) = sp_span_id ` set (tr_spans body)"
| "supplied_spans _ = {}"

fun supplied_traces :: "trace_operation \<Rightarrow> uuid set" where
  "supplied_traces (ProcessTrace now body) = {tr_trace_id body}"
| "supplied_traces _ = {}"

definition foreign_ids :: "uuid \<Rightarrow> obs_db \<Rightarrow> uuid set" where
  "foreign_ids p d = tr_trace_id ` {r \<in> set (trace_rows d). tr_project_id r \<noteq> p}"

lemma keeps_pure: "(\<And>d. snd (m d) = d) \<Longrightarrow> keeps (isolated p) m"
  by (simp add: keeps_def iso.rel_refl)

lemmas isolated_reads = keeps_pure[of "find_trace i q" for i q, simplified find_trace_def, simplified]
  keeps_pure[of "\<lambda>d. (f d, d)" for f, simplified]

lemma update_trace_row_isolated: "keeps (isolated p) (update_trace_row i p fs)"
  unfolding update_trace_row_def find_trace_def
  by (intro keeps_rules iso.keeps_bind iso.keeps_ret isolated_reads iso.keeps_modify isolated_update_traces)
    (simp_all add: owns_trace_def fold_trace_field_keys)

lemma own_span_not_foreign:
  assumes "obs_wf d" "s \<in> set (span_rows d)" "sp_trace_id s \<in> own_ids p d"
  shows "sp_span_id s \<notin> sp_span_id ` set (foreign_spans p d)"
  using assms by (auto simp: obs_wf_def foreign_spans_def distinct_map dest: inj_onD)

lemma scalar_in: "scalar_one_or_none xs = Inr (Some x) \<Longrightarrow> x \<in> set xs"
  by (auto dest: scalar_one_or_none_SomeD)

lemma update_span_row_isolated: "keeps (isolated p) (update_span_row si i p fs)"
proof (rule keepsI)
  fix d
  let ?q = "scalar_one_or_none (filter (\<lambda>s. sp_span_id s = si \<and> sp_trace_id s = i \<and> span_in_project d p s) (span_rows d))"
  consider (none) "\<nexists>s. ?q = Inr (Some s)" | (some) s where "?q = Inr (Some s)" by blast
  then show "isolated p d (snd (update_span_row si i p fs d))"
  proof cases
    case none
    then have "snd (update_span_row si i p fs d) = d"
      by (auto simp: update_span_row_def bindE_def split: sum.splits option.splits)
    then show ?thesis by (simp add: iso.rel_refl)
  next
    case some
    from scalar_in[OF some] have s: "s \<in> set (span_rows d)" "sp_trace_id s \<in> own_ids p d" by (auto simp: span_in_project_own)
    show ?thesis
    proof (cases "obs_wf d")
      case True
      from isolated_update_span[OF own_span_not_foreign[OF True s]] some show ?thesis
        by (simp add: update_span_row_def bindE_def fold_span_field_keys)
    qed (simp add: isolated_def)
  qed
qed

lemma add_span_rows_isolated:
  assumes "sp_span_id ` set ss \<inter> sp_span_id ` set (foreign_spans p d) = {}"
  shows "isolated p d (snd (add_span_rows i p (placed_spans i ss) d))"
proof -
  let ?q = "scalar_one_or_none (filter (owns_trace i p) (trace_rows d))"
  consider (none) "\<nexists>s. ?q = Inr (Some s)" | (some) s where "?q = Inr (Some s)" by blast
  then show ?thesis
  proof cases
    case none
    then have "snd (add_span_rows i p (placed_spans i ss) d) = d"
      by (auto simp: add_span_rows_def find_trace_def bindE_def split: sum.splits option.splits)
    then show ?thesis by (simp add: iso.rel_refl)
  next
    case some
    from scalar_in[OF some] have own: "i \<in> own_ids p d" by (auto simp: owns_trace_def own_ids_def)
    show ?thesis
    proof (cases "obs_wf d")
      case True
      have "isolated p d (snd (forE (placed_spans i ss) upsert_span d))"
        using True own assms by (intro upsert_spans_isolated) (auto simp: placed_spans_def image_image)
      with some show ?thesis
        by (auto simp: add_span_rows_def find_trace_def bindE_def split: prod.splits sum.splits)
    qed (simp add: isolated_def)
  qed
qed

lemma delete_traces_where_isolated:
  "(\<And>r. P r \<Longrightarrow> tr_project_id r = p) \<Longrightarrow> keeps (isolated p) (delete_traces_where P)"
  unfolding delete_traces_where_def
  by (intro iso.keeps_bind iso.keeps_gets iso.keeps_ret iso.keeps_modify delete_traces_isolated)

lemma batch_update_tags_isolated: "keeps (isolated p) (batch_update_tags p ids add rem)"
  unfolding batch_update_tags_def Let_def
  by (intro iso.keeps_bind iso.keeps_gets iso.keeps_ret iso.keeps_modify isolated_update_traces) auto

lemma enrich_trace_pure: "snd (enrich_trace t d) = d"
  by (auto simp: enrich_trace_def get_trace_span_stats_def bindE_def split: sum.splits)

lemma get_trace_span_stats_pure: "snd (get_trace_span_stats q ids d) = d"
  by (auto simp: get_trace_span_stats_def bindE_def split: sum.splits)

lemmas endpoint_defs = update_trace_def update_span_def add_spans_def get_trace_detail_def delete_trace_def
  get_session_summary_def get_session_trace_details_def delete_session_def found_or_def
  batch_delete_traces_def delete_trace_row_def delete_session_rows_def
  list_trace_rows_def list_trace_users_def list_session_rows_def get_session_summary_row_def
  get_session_traces_def get_trace_def find_trace_def

lemmas isolated_rules = keeps_rules iso.keeps_bind iso.keeps_ret iso.keeps_raise iso.keeps_gets isolated_reads
  keeps_pure[OF enrich_trace_pure] keeps_pure[OF get_trace_span_stats_pure]
  update_trace_row_isolated update_span_row_isolated batch_update_tags_isolated delete_traces_where_isolated

lemma handle_trace_isolated:
  assumes "supplied_spans (TraceRequest ep) \<inter> sp_span_id ` set (foreign_spans p d) = {}"
  shows "isolated p d (snd (handle_trace p ep d))"
proof (cases "\<exists>i ss. ep = AddSpans i ss")
  case True
  then obtain i ss where ep: "ep = AddSpans i ss" by blast
  have "isolated p d (snd (add_span_rows i p (placed_spans i ss) d))"
    using assms by (intro add_span_rows_isolated) (simp add: ep)
  then show ?thesis
    by (auto simp: ep add_spans_def bindE_assoc) (auto simp: bindE_def split: prod.splits sum.splits)
next
  case False
  then have "keeps (isolated p) (handle_trace p ep)"
    by (cases ep) (auto simp: endpoint_defs owns_trace_def intro!: isolated_rules)
  then show ?thesis by (rule keepsD)
qed

text \<open>Ingestion: the row of the trace, then its spans.\<close>

lemma merge_trace_keys: "tr_trace_id (merge_trace x r) = tr_trace_id r" "tr_project_id (merge_trace x r) = tr_project_id r"
  by (simp_all add: merge_trace_def)

lemma bound_trace_keys [simp]: "tr_trace_id (bound_trace n t) = tr_trace_id t" "tr_project_id (bound_trace n t) = tr_project_id t"
  by (simp_all add: bound_trace_def trace.defs trace_row.defs)

lemma trace_message_keys [simp]:
  "tr_trace_id (trace_message p body) = tr_trace_id body" "tr_project_id (trace_message p body) = p"
  "tr_spans (trace_message p body) = placed_spans (tr_trace_id body) (tr_spans body)"
  by (simp_all add: trace_message_def)

lemma update_where_own:
  assumes "i \<notin> foreign_ids p d"
  shows "update_where (\<lambda>r. tr_trace_id r = i) f (trace_rows d) = update_where (\<lambda>r. tr_trace_id r = i \<and> tr_project_id r = p) f (trace_rows d)"
  using assms by (auto simp: update_where_def foreign_ids_def)

lemma own_ids_new:
  "tr_project_id t = p \<Longrightarrow> own_ids p (d\<lparr>trace_rows := trace_rows d @ [bound_trace now t]\<rparr>) = insert (tr_trace_id t) (own_ids p d)"
  by (auto simp: own_ids_def intro: rev_image_eqI)

lemma upsert_trace_row_isolated:
  assumes wf: "obs_wf d" and t: "tr_project_id t = p" "tr_trace_id t \<notin> foreign_ids p d" and run: "upsert_trace_row now t d = (Inr x, d')"
  shows "isolated p d d' \<and> tr_trace_id t \<in> own_ids p d'"
proof (cases "tr_trace_id t \<in> tr_trace_id ` set (trace_rows d)")
  case True
  then obtain r where r: "r \<in> set (trace_rows d)" "tr_trace_id r = tr_trace_id t" by auto
  with t(2) have p: "tr_project_id r = p" unfolding foreign_ids_def by (metis (mono_tags, lifting) image_eqI mem_Collect_eq)
  from True run have d': "d' = d\<lparr>trace_rows := update_where (\<lambda>r. tr_trace_id r = tr_trace_id t \<and> tr_project_id r = p) (merge_trace (bound_trace now t)) (trace_rows d)\<rparr>"
    by (simp add: upsert_trace_row_def update_where_own[OF t(2)])
  have "merge_trace (bound_trace now t) r \<in> set (trace_rows d')" using r p by (simp add: d' set_update_where)
  then have "tr_trace_id t \<in> own_ids p d'" unfolding own_ids_def using r(2) p
    by (intro rev_image_eqI[of "merge_trace (bound_trace now t) r"]) (simp_all add: merge_trace_keys)
  moreover have "isolated p d d'" unfolding d' by (rule isolated_update_traces) (simp_all add: merge_trace_keys)
  ultimately show ?thesis by blast
next
  case False
  with run have d': "d' = d\<lparr>trace_rows := trace_rows d @ [bound_trace now t]\<rparr>" by (auto simp: upsert_trace_row_def split: if_splits)
  then have own: "own_ids p d' = insert (tr_trace_id t) (own_ids p d)" using t(1) by (simp add: own_ids_new)
  have "sp_trace_id s \<noteq> tr_trace_id t" if "s \<in> set (span_rows d)" for s
    using that wf False unfolding obs_wf_def by (metis image_eqI subsetD)
  moreover have "ts_trace_id s \<noteq> tr_trace_id t" if "s \<in> set (trace_scores d)" for s
    using that wf False unfolding obs_wf_def by (metis image_eqI subsetD)
  ultimately have "foreign p d' = foreign p d"
    unfolding foreign_def foreign_spans_def own using t(1) by (auto simp: d' intro!: filter_cong)
  moreover have "obs_wf d'" using wf False by (auto simp: obs_wf_def d')
  ultimately show ?thesis using own by (simp add: isolated_def)
qed

lemma persist_trace_isolated:
  assumes wf: "obs_wf d" and t: "tr_trace_id body \<notin> foreign_ids p d"
    and spans: "sp_span_id ` set (tr_spans body) \<inter> sp_span_id ` set (foreign_spans p d) = {}"
  shows "isolated p d (snd (persist_trace now (trace_message p body) d))"
proof (cases "upsert_trace_row now (trace_message p body) d")
  case (Pair r d1)
  show ?thesis
  proof (cases r)
    case (Inr x)
    have row: "isolated p d d1" "tr_trace_id body \<in> own_ids p d1"
      using upsert_trace_row_isolated[OF wf _ _ Pair[unfolded Inr], of p] t by simp_all
    then have "obs_wf d1" "foreign_spans p d1 = foreign_spans p d" using wf by (auto simp: isolated_def foreign_def)
    then have "isolated p d1 (snd (forE (placed_spans (tr_trace_id body) (tr_spans body)) upsert_span d1))"
      using row(2) spans by (intro upsert_spans_isolated) (auto simp: placed_spans_def image_image)
    then show ?thesis using row(1) iso.rel_refl
      by (auto simp: persist_trace_def upsert_trace_def get_db_session_def bindE_def Pair Inr intro: iso.rel_trans split: prod.splits sum.splits)
  qed (simp add: persist_trace_def upsert_trace_def get_db_session_def bindE_def Pair iso.rel_refl)
qed



section \<open>Confinement\<close>

text \<open>
  \<open>confined v m\<close>: what \<open>m\<close> returns, and what can be seen afterwards through the view \<open>v\<close>, depend
  only on what could be seen before.
\<close>

definition confined :: "('s \<Rightarrow> 'v) \<Rightarrow> ('e, 's, 'a) exec \<Rightarrow> bool" where
  "confined v m \<longleftrightarrow> (\<forall>s t. v s = v t \<longrightarrow> fst (m s) = fst (m t) \<and> v (snd (m s)) = v (snd (m t)))"

named_theorems confined_rules \<open>how computations that respect a view compose\<close>

lemma confined_read: "(\<And>s t. v s = v t \<Longrightarrow> f s = f t) \<Longrightarrow> confined v (\<lambda>s. (f s, s))"
  unfolding confined_def fst_conv snd_conv by blast

lemma confined_ret [confined_rules]: "confined v (ret x)" "confined v (raise e)"
  by (simp_all add: confined_def)

lemma confined_gets: "(\<And>s t. v s = v t \<Longrightarrow> f s = f t) \<Longrightarrow> confined v (getsE f)"
  unfolding confined_def run_exec fst_conv snd_conv by blast

lemma confined_modify: "(\<And>s t. v s = v t \<Longrightarrow> v (g s) = v (g t)) \<Longrightarrow> confined v (modifyE g)"
  unfolding confined_def run_exec fst_conv snd_conv by blast

lemma confined_bind_when:
  assumes "confined v m" "\<And>x s. fst (m s) = Inr x \<Longrightarrow> confined v (f x)"
  shows "confined v (bindE m f)"
  unfolding confined_def
proof (intro allI impI)
  fix s t assume "v s = v t"
  obtain r s' where s: "m s = (r, s')" by fastforce
  moreover obtain r' t' where t: "m t = (r', t')" by fastforce
  moreover have "fst (m s) = fst (m t)" "v (snd (m s)) = v (snd (m t))"
    using assms(1) \<open>v s = v t\<close> unfolding confined_def by blast+
  ultimately have r: "r' = r" and v: "v s' = v t'" by simp_all
  show "fst (bindE m f s) = fst (bindE m f t) \<and> v (snd (bindE m f s)) = v (snd (bindE m f t))"
  proof (cases r)
    case (Inr x)
    have "fst (f x s') = fst (f x t') \<and> v (snd (f x s')) = v (snd (f x t'))"
      using assms(2)[of s x] v unfolding confined_def s Inr fst_conv by blast
    then show ?thesis by (simp add: bindE_def s t r Inr)
  qed (simp add: bindE_def s t r v)
qed

lemma confined_bind [confined_rules]:
  "confined v m \<Longrightarrow> (\<And>x. confined v (f x)) \<Longrightarrow> confined v (bindE m f)"
  by (rule confined_bind_when)

lemma confined_if [confined_rules]:
  "(b \<Longrightarrow> confined v m) \<Longrightarrow> (\<not> b \<Longrightarrow> confined v n) \<Longrightarrow> confined v (if b then m else n)"
  by simp

lemma confined_case [confined_rules]:
  "(x = None \<Longrightarrow> confined v m) \<Longrightarrow> (\<And>y. x = Some y \<Longrightarrow> confined v (f y)) \<Longrightarrow>
   confined v (case x of None \<Rightarrow> m | Some y \<Rightarrow> f y)"
  "(\<And>a b. z = (a, b) \<Longrightarrow> confined v (g a b)) \<Longrightarrow> confined v (case z of (a, b) \<Rightarrow> g a b)"
  by (cases x, auto) (cases z, auto)

lemma confined_session:
  assumes "confined v m"
  shows "confined v (get_db_session m)"
  unfolding confined_def
proof (intro allI impI)
  fix s t assume v: "v s = v t"
  then have "fst (m s) = fst (m t)" "v (snd (m s)) = v (snd (m t))"
    using assms unfolding confined_def by blast+
  with v show "fst (get_db_session m s) = fst (get_db_session m t) \<and> v (snd (get_db_session m s)) = v (snd (get_db_session m t))"
    by (cases "m s"; cases "m t"; cases "fst (m s)") (simp_all add: get_db_session_def)
qed

text \<open>What the queries look at is part of the view.\<close>

lemma own_eqD:
  assumes "own p d = own p e"
  shows "project_traces p d = project_traces p e" "own_spans p d = own_spans p e" "own_ids p d = own_ids p e"
  using assms by (simp_all add: own_def own_ids_project)

lemma filter_own_traces: "(\<And>r. P r \<Longrightarrow> tr_project_id r = p) \<Longrightarrow> filter P (trace_rows d) = filter P (project_traces p d)"
  by (auto simp: project_traces_def intro: filter_cong)

lemma filter_own_spans: "(\<And>s. P s \<Longrightarrow> sp_trace_id s \<in> own_ids p d) \<Longrightarrow> filter P (span_rows d) = filter P (own_spans p d)"
  by (auto simp: own_spans_def intro: filter_cong)

lemma own_trace_span:
  "i \<in> own_ids p d \<Longrightarrow> filter (\<lambda>s. sp_trace_id s = i) (span_rows d) = filter (\<lambda>s. sp_trace_id s = i) (own_spans p d)"
  "i \<in> own_ids p d \<Longrightarrow> (\<exists>s \<in> set (span_rows d). sp_trace_id s = i) \<longleftrightarrow> (\<exists>s \<in> set (own_spans p d). sp_trace_id s = i)"
  by (rule filter_own_spans, simp) (auto simp: own_spans_def)

lemma traverseE_cong: "(\<And>x. x \<in> set xs \<Longrightarrow> f x = g x) \<Longrightarrow> traverseE f xs = traverseE g xs"
  by (induction xs) (auto split: sum.splits)

lemma span_stats_own:
  assumes "own p d = own p e"
  shows "span_stats_subquery p d = span_stats_subquery p e"
proof -
  note eq = own_eqD[OF assms]
  have ids: "filter (\<lambda>i. \<exists>s \<in> set (span_rows d). sp_trace_id s = i) (map tr_trace_id (project_traces p d))
      = filter (\<lambda>i. \<exists>s \<in> set (span_rows e). sp_trace_id s = i) (map tr_trace_id (project_traces p e))"
    unfolding eq(1)[symmetric] using eq(2,3)
    by (intro filter_cong) (auto simp: own_trace_span(2)[of _ p] own_ids_project)
  have "x \<in> own_ids p e" if "x \<in> set (filter (\<lambda>i. \<exists>s \<in> set (span_rows e). sp_trace_id s = i) (map tr_trace_id (project_traces p e)))" for x
    using that by (auto simp: own_ids_project)
  then show ?thesis
    unfolding span_stats_subquery_def ids using eq(2,3)
    by (intro traverseE_cong) (simp add: own_trace_span(1)[of _ p])
qed

lemma spans_of_own: "own p d = own p e \<Longrightarrow> i \<in> own_ids p e \<Longrightarrow> spans_of d i = spans_of e i"
  using own_eqD[of p d e] by (simp add: spans_of_def own_trace_span(1)[of i p])

lemma owned_rows_own:
  assumes "own p d = own p e"
  shows "filter (owns_trace i p) (trace_rows d) = filter (owns_trace i p) (trace_rows e)"
proof -
  have *: "filter (owns_trace i p) (trace_rows x) = filter (owns_trace i p) (project_traces p x)" for x
    by (rule filter_own_traces) (simp add: owns_trace_def)
  show ?thesis unfolding * own_eqD(1)[OF assms] ..
qed

lemma confined_find [confined_rules]: "confined (own p) (find_trace i p)"
  unfolding find_trace_def by (rule confined_read) (erule arg_cong[OF owned_rows_own])

lemma confined_stats [confined_rules]:
  "confined (own p) (\<lambda>d. (span_stats_subquery p d, d))"
  "confined (own p) (get_trace_span_stats p ids)"
proof -
  show *: "confined (own p) (\<lambda>d. (span_stats_subquery p d, d))" by (rule confined_read) (rule span_stats_own)
  show "confined (own p) (get_trace_span_stats p ids)"
    unfolding get_trace_span_stats_def by (intro confined_rules *)
qed

text \<open>Queries of the trace table alone.\<close>

lemma confined_query:
  assumes "\<And>d. f d = g (project_traces p d)"
  shows "confined (own p) (getsE f)"
proof (rule confined_gets)
  fix d e assume eq: "own p d = own p e"
  show "f d = f e" unfolding assms own_eqD(1)[OF eq] ..
qed

lemma project_traces_project: "filter (\<lambda>r. tr_project_id r = p \<and> Q r) (trace_rows d) = filter Q (project_traces p d)"
  by (simp add: project_traces_def conj_commute)

lemma confined_lists [confined_rules]:
  "confined (own p) (list_trace_rows p lmt off f sort_by dir)"
  "confined (own p) (list_trace_users p lmt off)"
  "confined (own p) (list_session_rows p lmt off sf ssort dir)"
  "confined (own p) (get_session_summary_row p sid)"
proof -
  show "confined (own p) (list_trace_rows p lmt off f sort_by dir)"
    unfolding list_trace_rows_def Let_def by (intro confined_rules confined_query) (rule refl)
  show "confined (own p) (list_trace_users p lmt off)"
    unfolding list_trace_users_def Let_def by (rule confined_query) (rule refl)
  have "session_base p sf = (\<lambda>r. tr_project_id r = p \<and> session_base p sf r)"
    by (auto simp: session_base_def fun_eq_iff)
  then have b: "filter (session_base p sf) (trace_rows d) = filter (session_base p sf) (project_traces p d)" for d
    by (metis project_traces_project)
  show "confined (own p) (list_session_rows p lmt off sf ssort dir)"
    unfolding list_session_rows_def Let_def b by (intro confined_rules confined_query) (rule refl)
  show "confined (own p) (get_session_summary_row p sid)"
    unfolding get_session_summary_row_def Let_def project_traces_project
    by (intro confined_rules confined_query) (rule refl)
qed

lemma confined_get_trace [confined_rules]: "confined (own p) (get_trace i p)"
proof -
  let ?found = "\<lambda>d. scalar_one_or_none (filter (owns_trace i p) (trace_rows d))"
  let ?f = "\<lambda>d. case ?found d of Inl e \<Rightarrow> Inl e | Inr x \<Rightarrow> Inr (map_option (to_trace (spans_of d i)) x)"
  have *: "get_trace i p = (\<lambda>d. (?f d, d))"
    by (auto simp: get_trace_def find_trace_def bindE_def fun_eq_iff split: sum.splits)
  show ?thesis unfolding *
  proof (rule confined_read)
    fix d e assume eq: "own p d = own p e"
    have "spans_of d i = spans_of e i" if "?found e = Inr (Some r)" for r
      using scalar_in[OF that] by (intro spans_of_own[OF eq]) (auto simp: owns_trace_def own_ids_def)
    then show "?f d = ?f e" unfolding owned_rows_own[OF eq] by (cases "?found e") (auto intro: option.map_cong)
  qed
qed

lemma confined_session_traces [confined_rules]: "confined (own p) (get_session_traces p sid lmt off)"
  unfolding get_session_traces_def
proof (rule confined_gets)
  fix d e assume eq: "own p d = own p e"
  have rows: "session_trace_rows p sid d = session_trace_rows p sid e"
    unfolding session_trace_rows_def project_traces_project own_eqD(1)[OF eq] ..
  have "spans_of d (tr_trace_id r) = spans_of e (tr_trace_id r)" if "r \<in> set (page off lmt (session_trace_rows p sid e))" for r
  proof -
    from that have "r \<in> set (session_trace_rows p sid e)" by (auto simp: page_def dest!: in_set_takeD in_set_dropD)
    then show ?thesis by (intro spans_of_own[OF eq]) (auto simp: session_trace_rows_def own_ids_def)
  qed
  then show "(let rows = session_trace_rows p sid d in (map (\<lambda>r. to_trace (spans_of d (tr_trace_id r)) r) (page off lmt rows), length rows))
      = (let rows = session_trace_rows p sid e in (map (\<lambda>r. to_trace (spans_of e (tr_trace_id r)) r) (page off lmt rows), length rows))"
    unfolding rows Let_def by simp
qed

text \<open>Writes of the endpoints.\<close>

lemma own_update_traces:
  assumes P: "\<And>r. P r \<Longrightarrow> tr_project_id r = p"
    and f: "\<And>r. tr_trace_id (f r) = tr_trace_id r" "\<And>r. tr_project_id (f r) = tr_project_id r"
  shows "own p (d\<lparr>trace_rows := update_where P f (trace_rows d)\<rparr>) = (update_where P f (project_traces p d), own_spans p d)"
proof -
  let ?d = "d\<lparr>trace_rows := update_where P f (trace_rows d)\<rparr>"
  have t: "project_traces p ?d = update_where P f (project_traces p d)"
    by (simp add: project_traces_def filter_update_where f)
  then have "own_ids p ?d = set (map tr_trace_id (update_where P f (project_traces p d)))" by (simp add: own_ids_project)
  also have "\<dots> = own_ids p d" by (simp add: map_update_where f own_ids_project del: set_map) (simp add: own_ids_project)
  finally show ?thesis using t by (simp add: own_def own_spans_def)
qed

lemma confined_update_traces:
  assumes "\<And>r. P r \<Longrightarrow> tr_project_id r = p" "\<And>r. tr_trace_id (f r) = tr_trace_id r" "\<And>r. tr_project_id (f r) = tr_project_id r"
  shows "confined (own p) (modifyE (\<lambda>d. d\<lparr>trace_rows := update_where P f (trace_rows d)\<rparr>))"
proof (rule confined_modify)
  fix d e assume eq: "own p d = own p e"
  show "own p (d\<lparr>trace_rows := update_where P f (trace_rows d)\<rparr>) = own p (e\<lparr>trace_rows := update_where P f (trace_rows e)\<rparr>)"
    using own_eqD[OF eq] own_update_traces[of P p f d] own_update_traces[of P p f e] assms by simp
qed

lemma own_update_spans:
  assumes "\<And>s. sp_trace_id (f s) = sp_trace_id s"
  shows "own p (d\<lparr>span_rows := update_where P f (span_rows d)\<rparr>) = (project_traces p d, update_where P f (own_spans p d))"
  by (simp add: own_def project_traces_def own_spans_def own_ids_def filter_update_where assms)

lemma confined_update_spans:
  assumes "\<And>s. sp_trace_id (f s) = sp_trace_id s"
  shows "confined (own p) (modifyE (\<lambda>d. d\<lparr>span_rows := update_where P f (span_rows d)\<rparr>))"
proof (rule confined_modify)
  fix d e assume eq: "own p d = own p e"
  show "own p (d\<lparr>span_rows := update_where P f (span_rows d)\<rparr>) = own p (e\<lparr>span_rows := update_where P f (span_rows e)\<rparr>)"
    unfolding own_update_spans[OF assms] own_eqD[OF eq] ..
qed

lemma own_delete_traces:
  assumes P: "\<And>r. P r \<Longrightarrow> tr_project_id r = p"
  shows "own p (delete_traces P d) = (delete_where P (project_traces p d),
     filter (\<lambda>s. sp_trace_id s \<notin> tr_trace_id ` {r \<in> set (project_traces p d). P r}
       \<and> sp_trace_id s \<in> tr_trace_id ` {r \<in> set (project_traces p d). \<not> P r}) (own_spans p d))"
proof -
  have gone: "{r \<in> set (trace_rows d). P r} = {r \<in> set (project_traces p d). P r}"
    using P by (auto simp: project_traces_def)
  have t: "project_traces p (delete_traces P d) = delete_where P (project_traces p d)"
    by (simp add: project_traces_def delete_traces_def delete_where_def Let_def conj_commute)
  then have ids: "own_ids p (delete_traces P d) = tr_trace_id ` {r \<in> set (project_traces p d). \<not> P r}"
    by (simp add: own_ids_project)
  have "span_rows (delete_traces P d) = filter (\<lambda>s. sp_trace_id s \<notin> tr_trace_id ` {r \<in> set (project_traces p d). P r}) (span_rows d)"
    by (simp add: delete_traces_def Let_def gone delete_where_def)
  then show ?thesis unfolding own_def own_spans_def ids t
    by (auto simp: own_ids_project intro: filter_cong)
qed

lemma confined_delete_where [confined_rules]:
  assumes P: "\<And>r. P r \<Longrightarrow> tr_project_id r = p"
  shows "confined (own p) (delete_traces_where P)"
  unfolding delete_traces_where_def
proof (intro confined_rules)
  show "confined (own p) (getsE (\<lambda>d. length (filter P (trace_rows d))))"
    by (rule confined_query) (rule arg_cong[OF filter_own_traces], erule P)
  show "confined (own p) (modifyE (delete_traces P))"
  proof (rule confined_modify)
    fix d e assume eq: "own p d = own p e"
    show "own p (delete_traces P d) = own p (delete_traces P e)"
      using own_eqD[OF eq] own_delete_traces[of P p d] own_delete_traces[of P p e] P by simp
  qed
qed

lemma confined_updates [confined_rules]:
  "confined (own p) (update_trace_row i p fs)"
  "confined (own p) (update_span_row si i p sfs)"
  "confined (own p) (batch_update_tags p ids add rem)"
proof -
  show "confined (own p) (update_trace_row i p fs)"
    unfolding update_trace_row_def
    by (intro confined_rules confined_update_traces) (simp_all add: owns_trace_def fold_trace_field_keys)
  have "confined (own p) (\<lambda>d. (scalar_one_or_none (filter (\<lambda>s. sp_span_id s = si \<and> sp_trace_id s = i \<and> span_in_project d p s) (span_rows d)), d))"
  proof (rule confined_read)
    fix d e assume eq: "own p d = own p e"
    have *: "filter (\<lambda>s. sp_span_id s = si \<and> sp_trace_id s = i \<and> span_in_project x p s) (span_rows x)
      = filter (\<lambda>s. sp_span_id s = si \<and> sp_trace_id s = i) (own_spans p x)" for x
      by (simp add: span_in_project_own own_spans_def conj_ac)
    show "scalar_one_or_none (filter (\<lambda>s. sp_span_id s = si \<and> sp_trace_id s = i \<and> span_in_project d p s) (span_rows d))
      = scalar_one_or_none (filter (\<lambda>s. sp_span_id s = si \<and> sp_trace_id s = i \<and> span_in_project e p s) (span_rows e))"
      unfolding * own_eqD[OF eq] ..
  qed
  then show "confined (own p) (update_span_row si i p sfs)"
    unfolding update_span_row_def by (intro confined_rules confined_update_spans) (simp_all add: fold_span_field_keys)
  have "confined (own p) (getsE (\<lambda>d. length (filter (\<lambda>r. tr_project_id r = p \<and> tr_trace_id r \<in> set ids) (trace_rows d))))"
    by (rule confined_query) (simp only: project_traces_project)
  then show "confined (own p) (batch_update_tags p ids add rem)"
    unfolding batch_update_tags_def Let_def by (intro confined_rules confined_update_traces) auto
qed

text \<open>Adding spans with identifiers that no foreign span has.\<close>

lemma own_upsert_span:
  assumes "sp_trace_id s \<in> own_ids p d" "sp_span_id s \<notin> sp_span_id ` set (foreign_spans p d)"
  shows "upsert_span s d = (Inr (), snd (upsert_span s d))"
    "own p (snd (upsert_span s d)) = (project_traces p d,
       if sp_span_id s \<in> sp_span_id ` set (own_spans p d)
       then update_where (\<lambda>r. sp_span_id r = sp_span_id s) (merge_span (bound_span s)) (own_spans p d)
       else own_spans p d @ [bound_span s])"
proof -
  have t: "sp_trace_id s \<in> tr_trace_id ` set (trace_rows d)" using assms(1) by (auto simp: own_ids_def)
  then show "upsert_span s d = (Inr (), snd (upsert_span s d))" by (simp add: upsert_span_def)
  have known: "sp_span_id s \<in> sp_span_id ` set (span_rows d) \<longleftrightarrow> sp_span_id s \<in> sp_span_id ` set (own_spans p d)"
    using assms(2) by (auto simp: own_spans_def foreign_spans_def)
  show "own p (snd (upsert_span s d)) = (project_traces p d,
       if sp_span_id s \<in> sp_span_id ` set (own_spans p d)
       then update_where (\<lambda>r. sp_span_id r = sp_span_id s) (merge_span (bound_span s)) (own_spans p d)
       else own_spans p d @ [bound_span s])"
  proof (cases "sp_span_id s \<in> sp_span_id ` set (own_spans p d)")
    case True
    with known show ?thesis by (simp add: upsert_span_def own_update_spans merge_span_keys)
  next
    case False
    with known t assms(1) show ?thesis
      by (simp add: upsert_span_def own_def project_traces_def own_spans_def own_ids_def bound_span_def)
  qed
qed

lemma own_upsert_spans:
  assumes "obs_wf d" "obs_wf e" "own p d = own p e" "sp_trace_id ` set ss \<subseteq> own_ids p d"
    and "sp_span_id ` set ss \<inter> sp_span_id ` set (foreign_spans p d) = {}"
    and "sp_span_id ` set ss \<inter> sp_span_id ` set (foreign_spans p e) = {}"
  shows "fst (forE ss upsert_span d) = fst (forE ss upsert_span e)
    \<and> own p (snd (forE ss upsert_span d)) = own p (snd (forE ss upsert_span e))"
  using assms
proof (induction ss arbitrary: d e)
  case (Cons s ss)
  let ?d = "snd (upsert_span s d)" and ?e = "snd (upsert_span s e)"
  have s: "sp_trace_id s \<in> own_ids p d" "sp_trace_id s \<in> own_ids p e"
    "sp_span_id s \<notin> sp_span_id ` set (foreign_spans p d)" "sp_span_id s \<notin> sp_span_id ` set (foreign_spans p e)"
    using Cons.prems own_eqD(3)[OF Cons.prems(3)] by auto
  note run = own_upsert_span[OF s(1,3)] own_upsert_span[OF s(2,4)]
  have eq: "own p ?d = own p ?e" unfolding run(2,4) own_eqD[OF Cons.prems(3)] ..
  have wf: "obs_wf ?d" "obs_wf ?e" "foreign_spans p ?d = foreign_spans p d" "foreign_spans p ?e = foreign_spans p e" "own_ids p ?d = own_ids p d"
    using upsert_span_isolated[OF s(1,3)] upsert_span_isolated[OF s(2,4)] Cons.prems(1,2)
    by (auto simp: isolated_def foreign_def)
  have step: "forE (s # ss) upsert_span x = forE ss upsert_span (snd (upsert_span s x))" if "upsert_span s x = (Inr (), snd (upsert_span s x))" for x
    by (cases "upsert_span s x") (use that in \<open>simp add: bindE_def\<close>)
  have "sp_trace_id ` set ss \<subseteq> own_ids p ?d" "sp_span_id ` set ss \<inter> sp_span_id ` set (foreign_spans p ?d) = {}"
    "sp_span_id ` set ss \<inter> sp_span_id ` set (foreign_spans p ?e) = {}"
    unfolding wf(3,4,5) using Cons.prems(4,5,6) by auto
  from Cons.IH[OF wf(1,2) eq this] show ?case unfolding step[OF run(1)] step[OF run(3)] .
qed simp

lemma confined_enrich: "tr_project_id t = p \<Longrightarrow> confined (own p) (enrich_trace t)"
  unfolding enrich_trace_def by (auto intro!: confined_rules)

lemma update_trace_row_project: "fst (update_trace_row i p fs d) = Inr (Some r) \<Longrightarrow> tr_project_id r = p"
  by (auto simp: update_trace_row_def find_trace_def bindE_def fold_trace_field_keys owns_trace_def
      dest!: scalar_in split: sum.splits option.splits)

lemma get_trace_project: "fst (get_trace i p d) = Inr (Some t) \<Longrightarrow> tr_project_id t = p"
  by (auto simp: get_trace_def find_trace_def bindE_def owns_trace_def to_trace_def trace.defs
      dest!: scalar_in split: sum.splits option.splits)

lemma confined_found_or [confined_rules]: "confined v (found_or e x)"
  by (auto simp: found_or_def intro!: confined_rules)

lemma found_or_Inr: "fst (found_or e x s) = Inr y \<Longrightarrow> x = Some y"
  by (auto simp: found_or_def split: option.splits)

lemma confined_trace_service [confined_rules]:
  "confined (own p) (update_trace i p fs)" "confined (own p) (get_trace_detail i p)"
proof -
  show "confined (own p) (update_trace i p fs)"
    unfolding update_trace_def
  proof (rule confined_bind_when)
    fix x d assume row: "fst (update_trace_row i p fs d) = Inr x"
    show "confined (own p) (bindE (found_or no_trace x) (\<lambda>r. enrich_trace (to_trace [] r)))"
    proof (rule confined_bind_when)
      fix r e assume "fst (found_or no_trace x (e :: obs_db)) = Inr r"
      with row have "tr_project_id r = p" by (auto dest!: found_or_Inr update_trace_row_project)
      then show "confined (own p) (enrich_trace (to_trace [] r))" by (simp add: confined_enrich to_trace_def trace.defs)
    qed (rule confined_rules)
  qed (rule confined_rules)
  show "confined (own p) (get_trace_detail i p)"
    unfolding get_trace_detail_def
  proof (rule confined_bind_when)
    fix x d assume row: "fst (get_trace i p d) = Inr x"
    show "confined (own p) (bindE (found_or no_trace x) enrich_trace)"
    proof (rule confined_bind_when)
      fix r e assume "fst (found_or no_trace x (e :: obs_db)) = Inr r"
      with row show "confined (own p) (enrich_trace r)" by (auto dest!: found_or_Inr get_trace_project intro: confined_enrich)
    qed (rule confined_rules)
  qed (rule confined_rules)
qed

lemma handle_trace_confined:
  assumes "\<nexists>i ss. ep = AddSpans i ss"
  shows "confined (own p) (handle_trace p ep)"
  using assms
  by (cases ep) (auto simp: update_span_def delete_trace_def get_session_summary_def get_session_trace_details_def
      delete_session_def batch_delete_traces_def delete_trace_row_def delete_session_rows_def owns_trace_def
      intro!: confined_rules)

lemma add_spans_confined:
  assumes wf: "obs_wf d" "obs_wf e" "own p d = own p e"
    and fresh: "sp_span_id ` set ss \<inter> sp_span_id ` set (foreign_spans p d) = {}" "sp_span_id ` set ss \<inter> sp_span_id ` set (foreign_spans p e) = {}"
  shows "fst (add_span_rows i p (placed_spans i ss) d) = fst (add_span_rows i p (placed_spans i ss) e)
    \<and> own p (snd (add_span_rows i p (placed_spans i ss) d)) = own p (snd (add_span_rows i p (placed_spans i ss) e))"
proof (cases "scalar_one_or_none (filter (owns_trace i p) (trace_rows d))")
  case (Inr x)
  show ?thesis
  proof (cases x)
    case (Some r)
    from scalar_in[OF Inr[unfolded Some]] have "i \<in> own_ids p d" by (auto simp: owns_trace_def own_ids_def)
    then have "fst (forE (placed_spans i ss) upsert_span d) = fst (forE (placed_spans i ss) upsert_span e)
      \<and> own p (snd (forE (placed_spans i ss) upsert_span d)) = own p (snd (forE (placed_spans i ss) upsert_span e))"
      using fresh by (intro own_upsert_spans[OF wf]) (auto simp: placed_spans_def image_image)
    then show ?thesis using Inr[unfolded owned_rows_own[OF wf(3)]] Inr Some
      by (auto simp: add_span_rows_def find_trace_def bindE_def split: prod.splits sum.splits)
  qed (use Inr[unfolded owned_rows_own[OF wf(3)]] Inr wf(3) in \<open>simp add: add_span_rows_def find_trace_def bindE_def\<close>)
next
  case (Inl x)
  then show ?thesis using Inl[unfolded owned_rows_own[OF wf(3)]] wf(3) by (simp add: add_span_rows_def find_trace_def bindE_def)
qed

lemma own_upsert_trace_row:
  assumes wf: "obs_wf d" and t: "tr_project_id t = p" "tr_trace_id t \<notin> foreign_ids p d"
  shows "fst (upsert_trace_row now t d) = (if tr_trace_id t \<in> own_ids p d \<or> p \<in> set (obs_projects d) then Inr () else Inl IntegrityError)"
    "own p (snd (upsert_trace_row now t d)) = (
       if tr_trace_id t \<in> own_ids p d
       then update_where (\<lambda>r. tr_trace_id r = tr_trace_id t \<and> tr_project_id r = p) (merge_trace (bound_trace now t)) (project_traces p d)
       else if p \<in> set (obs_projects d) then project_traces p d @ [bound_trace now t] else project_traces p d, own_spans p d)"
proof -
  have known: "tr_trace_id t \<in> tr_trace_id ` set (trace_rows d) \<longleftrightarrow> tr_trace_id t \<in> own_ids p d"
    using t(2) by (auto simp: own_ids_def foreign_ids_def)
  with t(1) show "fst (upsert_trace_row now t d) = (if tr_trace_id t \<in> own_ids p d \<or> p \<in> set (obs_projects d) then Inr () else Inl IntegrityError)"
    by (simp add: upsert_trace_row_def)
  have new: "own p (d\<lparr>trace_rows := trace_rows d @ [bound_trace now t]\<rparr>) = (project_traces p d @ [bound_trace now t], own_spans p d)"
    if "tr_trace_id t \<notin> own_ids p d"
  proof -
    have "own_ids p (d\<lparr>trace_rows := trace_rows d @ [bound_trace now t]\<rparr>) = insert (tr_trace_id t) (own_ids p d)"
      using t(1) by (rule own_ids_new)
    moreover have "sp_trace_id s \<noteq> tr_trace_id t" if "s \<in> set (span_rows d)" for s
      using that wf known \<open>tr_trace_id t \<notin> own_ids p d\<close> unfolding obs_wf_def by (metis image_eqI subsetD)
    ultimately show ?thesis using t(1) by (auto simp: own_def own_spans_def project_traces_def intro!: filter_cong)
  qed
  have old: "own p (d\<lparr>trace_rows := update_where (\<lambda>r. tr_trace_id r = tr_trace_id t) (merge_trace (bound_trace now t)) (trace_rows d)\<rparr>)
      = (update_where (\<lambda>r. tr_trace_id r = tr_trace_id t \<and> tr_project_id r = p) (merge_trace (bound_trace now t)) (project_traces p d), own_spans p d)"
    unfolding update_where_own[OF t(2)] by (rule own_update_traces) (simp_all add: merge_trace_keys)
  show "own p (snd (upsert_trace_row now t d)) = (
       if tr_trace_id t \<in> own_ids p d
       then update_where (\<lambda>r. tr_trace_id r = tr_trace_id t \<and> tr_project_id r = p) (merge_trace (bound_trace now t)) (project_traces p d)
       else if p \<in> set (obs_projects d) then project_traces p d @ [bound_trace now t] else project_traces p d, own_spans p d)"
    using known new old t(1) by (auto simp: upsert_trace_row_def own_def)
qed

lemma persist_trace_confined:
  assumes wf: "obs_wf d" "obs_wf e" "own p d = own p e" and proj: "p \<in> set (obs_projects d) \<longleftrightarrow> p \<in> set (obs_projects e)"
    and t: "tr_trace_id body \<notin> foreign_ids p d" "tr_trace_id body \<notin> foreign_ids p e"
    and spans: "sp_span_id ` set (tr_spans body) \<inter> sp_span_id ` set (foreign_spans p d) = {}"
      "sp_span_id ` set (tr_spans body) \<inter> sp_span_id ` set (foreign_spans p e) = {}"
  shows "fst (persist_trace now (trace_message p body) d) = fst (persist_trace now (trace_message p body) e)
    \<and> own p (snd (persist_trace now (trace_message p body) d)) = own p (snd (persist_trace now (trace_message p body) e))"
proof -
  let ?t = "trace_message p body"
  obtain r d1 where d1: "upsert_trace_row now ?t d = (r, d1)" by fastforce
  moreover obtain r' e1 where e1: "upsert_trace_row now ?t e = (r', e1)" by fastforce
  ultimately have eq: "r' = r" "own p d1 = own p e1"
    using own_upsert_trace_row[OF wf(1), of ?t p now] own_upsert_trace_row[OF wf(2), of ?t p now] t proj own_eqD[OF wf(3)] by simp_all
  show ?thesis
  proof (cases r)
    case (Inl x)
    then show ?thesis using wf(3) by (simp add: persist_trace_def upsert_trace_def get_db_session_def bindE_def d1 e1 eq)
  next
    case (Inr x)
    have id1: "isolated p d d1" "tr_trace_id body \<in> own_ids p d1" and ie1: "isolated p e e1"
      using upsert_trace_row_isolated[OF wf(1) _ _ d1[unfolded Inr], of p] upsert_trace_row_isolated[OF wf(2) _ _ e1[unfolded eq Inr], of p] t by simp_all
    then have wf1: "obs_wf d1" "obs_wf e1" and f1: "foreign_spans p d1 = foreign_spans p d" "foreign_spans p e1 = foreign_spans p e"
      using wf(1,2) by (auto simp: isolated_def foreign_def)
    have "fst (forE (tr_spans ?t) upsert_span d1) = fst (forE (tr_spans ?t) upsert_span e1)
      \<and> own p (snd (forE (tr_spans ?t) upsert_span d1)) = own p (snd (forE (tr_spans ?t) upsert_span e1))"
      using id1(2) spans by (intro own_upsert_spans[OF wf1 eq(2)]) (auto simp: placed_spans_def image_image f1)
    then show ?thesis using wf(3)
      by (auto simp: persist_trace_def upsert_trace_def get_db_session_def bindE_def d1 e1 eq Inr split: prod.splits sum.splits)
  qed
qed

lemma serve_trace_confined:
  assumes "obs_wf d" "obs_wf e" "own p d = own p e"
    and "supplied_spans (TraceRequest ep) \<inter> sp_span_id ` set (foreign_spans p d) = {}"
    and "supplied_spans (TraceRequest ep) \<inter> sp_span_id ` set (foreign_spans p e) = {}"
  shows "fst (serve_trace p ep d) = fst (serve_trace p ep e) \<and> own p (snd (serve_trace p ep d)) = own p (snd (serve_trace p ep e))"
proof (cases "\<exists>i ss. ep = AddSpans i ss")
  case True
  then obtain i ss where ep: "ep = AddSpans i ss" by blast
  have "fst (add_span_rows i p (placed_spans i ss) d) = fst (add_span_rows i p (placed_spans i ss) e)
    \<and> own p (snd (add_span_rows i p (placed_spans i ss) d)) = own p (snd (add_span_rows i p (placed_spans i ss) e))"
    using assms by (intro add_spans_confined) (simp_all add: ep)
  with assms(3) show ?thesis
    by (auto simp: ep serve_trace_def get_db_session_def add_spans_def bindE_def split: prod.splits sum.splits if_splits)
next
  case False
  then have "confined (own p) (serve_trace p ep)"
    unfolding serve_trace_def by (intro confined_session handle_trace_confined)
  with assms(3) show ?thesis unfolding confined_def by blast
qed

lemma tagged_confined:
  "fst (m d) = fst (m e) \<and> v (snd (m d)) = v (snd (m e)) \<Longrightarrow>
   fst (bindE m (\<lambda>x. ret (f x)) d) = fst (bindE m (\<lambda>x. ret (f x)) e) \<and> v (snd (bindE m (\<lambda>x. ret (f x)) d)) = v (snd (bindE m (\<lambda>x. ret (f x)) e))"
  by (cases "m d"; cases "m e") (auto simp: bindE_def split: sum.splits)

text \<open>
  C8: Confidentiality between projects. What a request to the trace and session endpoints answers, or
  what the ingestion of a trace results in, and what either makes of the traces and spans of its own
  project, depends on the traces and spans of that project alone: on two databases that agree on them
  (and on whether the project exists) it answers the same and leaves them agreeing, whatever the other
  projects hold. As for integrity, the spans and the trace it sends must not reuse an identifier of a
  foreign span or trace, in either database; the code does not test this, and a reused identifier
  would be merged into the foreign row.
\<close>

theorem trace_requests_confined:
  assumes "obs_wf d" "obs_wf e" "own p d = own p e" "p \<in> set (obs_projects d) \<longleftrightarrow> p \<in> set (obs_projects e)"
    and "supplied_spans op \<inter> sp_span_id ` set (foreign_spans p d) = {}" "supplied_traces op \<inter> foreign_ids p d = {}"
    and "supplied_spans op \<inter> sp_span_id ` set (foreign_spans p e) = {}" "supplied_traces op \<inter> foreign_ids p e = {}"
  shows "fst (perform_trace p op d) = fst (perform_trace p op e) \<and> own p (snd (perform_trace p op d)) = own p (snd (perform_trace p op e))"
proof (cases op)
  case (TraceRequest ep)
  with assms show ?thesis by (simp only: perform_trace.simps) (intro tagged_confined serve_trace_confined; simp)
next
  case (ProcessTrace now body)
  with assms show ?thesis by (simp only: perform_trace.simps) (intro tagged_confined persist_trace_confined; simp)
qed

theorem trace_requests_confined_witness:
  "own 1 sample_obs = own 1 sample_obs_alone \<and> sample_obs \<noteq> sample_obs_alone
   \<and> fst (perform_trace 1 (TraceRequest (DeleteTrace 20)) sample_obs) = fst (perform_trace 1 (TraceRequest (DeleteTrace 20)) sample_obs_alone)
   \<and> fst (perform_trace 1 (TraceRequest (DeleteTrace 20)) sample_obs) = Inl no_trace
   \<and> own 1 (snd (perform_trace 1 (ProcessTrace 7 (sample_trace 11 5)) sample_obs)) = own 1 (snd (perform_trace 1 (ProcessTrace 7 (sample_trace 11 5)) sample_obs_alone))"
proof -
  let ?new = "ProcessTrace 7 (sample_trace 11 5)"
  have dbs: "obs_wf sample_obs" "obs_wf sample_obs_alone" "own 1 sample_obs = own 1 sample_obs_alone"
    "1 \<in> set (obs_projects sample_obs) \<longleftrightarrow> 1 \<in> set (obs_projects sample_obs_alone)"
    by code_simp+
  have ids: "supplied_spans ?new \<inter> sp_span_id ` set (foreign_spans 1 sample_obs) = {}" "supplied_traces ?new \<inter> foreign_ids 1 sample_obs = {}"
    "supplied_spans ?new \<inter> sp_span_id ` set (foreign_spans 1 sample_obs_alone) = {}" "supplied_traces ?new \<inter> foreign_ids 1 sample_obs_alone = {}"
    by code_simp+
  have "sample_obs \<noteq> sample_obs_alone" "fst (perform_trace 1 (TraceRequest (DeleteTrace 20)) sample_obs) = Inl no_trace"
    by code_simp+
  then show ?thesis
    using dbs trace_requests_confined[OF dbs, of "TraceRequest (DeleteTrace 20)"] trace_requests_confined[OF dbs ids] by simp
qed

end
