(* ===== verification/Subscriptions.thy ===== *)
theory Subscriptions
  imports IdentityProperties TraceIsolation BillingHandlers
begin

text \<open>
  The subscription endpoints: \<open>api/v1/routes/subscriptions.py\<close>. An endpoint runs in one database session,
  with the Redis client and the Stripe client; the state holds the tables of the session, Redis and
  the state of Stripe. The flag \<open>configured\<close> is the module variable \<open>_stripe_configured\<close>.

  The theorems: who can use the endpoints and what they change, that they answer from the data of
  their organization alone, and that the estimate they show is what the next report charges.
\<close>

section \<open>Sessions\<close>

record 's sub_world =
  sw_db :: identity_db
  sw_redis :: redis
  sw_env :: 's

definition in_identity :: "(error, identity_db, 'a) exec \<Rightarrow> (error, 's sub_world, 'a) exec" where
  "in_identity m = (\<lambda>w. case m (sw_db w) of (r, d) \<Rightarrow> (r, w\<lparr>sw_db := d\<rparr>))"

text \<open>The usage and the billing service on the billing tables of the same session.\<close>

definition service_view :: "'s sub_world \<Rightarrow> 's bworld" where
  "service_view w = \<lparr>committed = billing (sw_db w), db = billing (sw_db w), redis = sw_redis w, env = sw_env w\<rparr>"

definition in_services :: "(error, 's bworld, 'a) exec \<Rightarrow> (error, 's sub_world, 'a) exec" where
  "in_services m = (\<lambda>w. case m (service_view w) of (r, b) \<Rightarrow>
     (r, w\<lparr>sw_db := (sw_db w)\<lparr>billing := db b\<rparr>, sw_redis := redis b, sw_env := env b\<rparr>))"

section \<open>Responses\<close>

record category_breakdown =
  cb_used :: int
  cb_included :: "int option"
  cb_overage_units :: int
  cb_overage_cost :: rat

record billing_overview =
  bo_plan :: subscription_plan
  bo_period_start :: datetime
  bo_period_end :: datetime
  bo_base_price_cents :: int
  bo_overage_unit_price :: rat
  bo_traces :: category_breakdown
  bo_trace_evals :: category_breakdown
  bo_session_evals :: category_breakdown
  bo_total_overage_cost :: rat
  bo_reported_overage_cost :: rat
  bo_pending_overage_cost :: rat
  bo_estimated_total_cents :: int

record plan_info =
  pi_name :: string
  pi_config :: plan_config
  pi_overage_unit_price :: rat

datatype subscription_response =
    SubscriptionResponse subscription
  | UsageResponse usage_summary
  | BillingResponse billing_overview
  | UsageHistory "usage_record list"
  | CheckoutResponse string
  | PortalResponse string

section \<open>Endpoints\<close>

text \<open>The first two statements of the endpoints that any member may use.\<close>

definition member_session :: "uuid \<Rightarrow> api_context \<Rightarrow> (error, 's sub_world, membership) exec" where
  "member_session org ctx =
     in_identity (bindE (require_user ctx) (\<lambda>user. require_membership (usr_id user) org))"

definition admin_session :: "uuid \<Rightarrow> api_context \<Rightarrow> (error, 's sub_world, membership) exec" where
  "admin_session org ctx =
     in_identity (bindE (require_user ctx) (\<lambda>user. require_admin (usr_id user) org))"

definition get_subscription_route :: "uuid \<Rightarrow> api_context \<Rightarrow> (error, 's sub_world, subscription_response) exec" where
  "get_subscription_route org ctx =
     bindE (member_session org ctx) (\<lambda>_.
     bindE (in_services (in_db (get_subscription_by_org org))) (\<lambda>found. case found of
       None \<Rightarrow> raise (NotFoundError ''No subscription found for this organization.'')
     | Some sub \<Rightarrow> ret (SubscriptionResponse sub)))"

definition get_usage_route :: "datetime \<Rightarrow> uuid \<Rightarrow> api_context \<Rightarrow> (error, 's sub_world, subscription_response) exec" where
  "get_usage_route now org ctx =
     bindE (member_session org ctx) (\<lambda>_.
     bindE (in_services (get_current_usage now org)) (\<lambda>summary.
     ret (UsageResponse summary)))"

definition breakdown :: "int \<Rightarrow> int option \<Rightarrow> category_breakdown" where
  "breakdown used included =
     (let over = max 0 (used - or_zero included)
      in \<lparr>cb_used = used, cb_included = included, cb_overage_units = over, cb_overage_cost = OVERAGE_UNIT_PRICE * of_int over\<rparr>)"

definition reported_cost :: "plan_config \<Rightarrow> usage_record option \<Rightarrow> rat" where
  "reported_cost cfg found = (case found of
       None \<Rightarrow> 0
     | Some u \<Rightarrow> OVERAGE_UNIT_PRICE * of_int (max 0 (reported_trace_count u - or_zero (base_traces cfg))
         + max 0 (reported_trace_eval_count u - or_zero (base_trace_evals cfg))
         + max 0 (reported_session_eval_count u - or_zero (base_session_evals cfg))))"

definition cost_overview :: "subscription \<Rightarrow> usage_summary \<Rightarrow> usage_record option \<Rightarrow> billing_overview" where
  "cost_overview sub summary record =
     (let cfg = get_plan_config (sub_plan sub);
          t = breakdown (us_traces summary) (base_traces cfg);
          e = breakdown (us_trace_evals summary) (base_trace_evals cfg);
          s = breakdown (us_session_evals summary) (base_session_evals cfg);
          total_overage = OVERAGE_UNIT_PRICE * of_int (cb_overage_units t + cb_overage_units e + cb_overage_units s)
      in \<lparr>bo_plan = sub_plan sub, bo_period_start = sub_period_start sub, bo_period_end = sub_period_end sub,
          bo_base_price_cents = monthly_price_cents cfg, bo_overage_unit_price = OVERAGE_UNIT_PRICE,
          bo_traces = t, bo_trace_evals = e, bo_session_evals = s,
          bo_total_overage_cost = total_overage, bo_reported_overage_cost = reported_cost cfg record,
          bo_pending_overage_cost = total_overage - reported_cost cfg record,
          bo_estimated_total_cents = monthly_price_cents cfg + quantize_half_up (total_overage * 100)\<rparr>)"

definition get_billing_route :: "datetime \<Rightarrow> uuid \<Rightarrow> api_context \<Rightarrow> (error, 's sub_world, subscription_response) exec" where
  "get_billing_route now org ctx =
     bindE (member_session org ctx) (\<lambda>_.
     bindE (in_services (in_db (get_subscription_by_org org))) (\<lambda>found. case found of
       None \<Rightarrow> raise (NotFoundError ''No subscription found for this organization.'')
     | Some sub \<Rightarrow>
         bindE (in_services (get_current_usage now org)) (\<lambda>summary.
         bindE (in_services (in_db (get_current_usage_record org (sub_period_start sub)))) (\<lambda>record.
         ret (BillingResponse (cost_overview sub summary record))))))"

definition get_invoices_route :: "nat \<Rightarrow> uuid \<Rightarrow> api_context \<Rightarrow> (error, 's sub_world, subscription_response) exec" where
  "get_invoices_route lmt org ctx =
     bindE (member_session org ctx) (\<lambda>_.
     bindE (in_services (in_db (getsE (list_usage_history org lmt)))) (\<lambda>records.
     ret (UsageHistory records)))"

definition create_checkout_route ::
    "billing_config \<Rightarrow> bool \<Rightarrow> (checkout_request \<Rightarrow> 's \<Rightarrow> (error + string) \<times> 's) \<Rightarrow> subscription_plan \<Rightarrow> string \<Rightarrow> string \<Rightarrow>
     uuid \<Rightarrow> api_context \<Rightarrow> (error, 's sub_world, subscription_response) exec" where
  "create_checkout_route cfg configured send plan success_url cancel_url org ctx =
     bindE (admin_session org ctx) (\<lambda>_.
     bindE (guardE (plan = PRO \<or> plan = STARTUP) (ValidationError ''Checkout is only available for PRO and STARTUP plans.'')) (\<lambda>_.
     bindE (liftE (ensure_stripe_configured configured cfg)) (\<lambda>_.
     bindE (in_services (create_checkout_session cfg send org plan success_url cancel_url)) (\<lambda>url.
     ret (CheckoutResponse url)))))"

definition create_portal_route ::
    "billing_config \<Rightarrow> bool \<Rightarrow> (string \<Rightarrow> string \<Rightarrow> 's \<Rightarrow> (error + string) \<times> 's) \<Rightarrow> string \<Rightarrow>
     uuid \<Rightarrow> api_context \<Rightarrow> (error, 's sub_world, subscription_response) exec" where
  "create_portal_route cfg configured send return_url org ctx =
     bindE (admin_session org ctx) (\<lambda>_.
     bindE (liftE (ensure_stripe_configured configured cfg)) (\<lambda>_.
     bindE (in_services (create_portal_session send org return_url)) (\<lambda>url.
     ret (PortalResponse url))))"

definition get_plans_route :: "api_context \<Rightarrow> (error, identity_db, plan_info list) exec" where
  "get_plans_route ctx =
     bindE (require_user ctx) (\<lambda>_.
     ret (map (\<lambda>plan. \<lparr>pi_name = subscription_plan_value plan, pi_config = PLAN_LIMITS plan, pi_overage_unit_price = OVERAGE_UNIT_PRICE\<rparr>)
       (filter (\<lambda>plan. plan \<noteq> DEVELOPMENT) [HOBBY, PRO, STARTUP, ENTERPRISE, DEVELOPMENT])))"

datatype subscription_request =
    GetSubscription
  | GetUsage
  | GetBilling
  | GetInvoices nat
  | CreateCheckout subscription_plan string string
  | CreatePortal string

text \<open>The Stripe calls of the two endpoints that make one.\<close>

record 's checkout_api =
  ca_checkout :: "checkout_request \<Rightarrow> 's \<Rightarrow> (error + string) \<times> 's"
  ca_portal :: "string \<Rightarrow> string \<Rightarrow> 's \<Rightarrow> (error + string) \<times> 's"

fun handle_subscription ::
    "billing_config \<Rightarrow> bool \<Rightarrow> 's checkout_api \<Rightarrow> datetime \<Rightarrow> subscription_request \<Rightarrow> uuid \<Rightarrow> api_context \<Rightarrow>
     (error, 's sub_world, subscription_response) exec" where
  "handle_subscription cfg configured api now GetSubscription org ctx = get_subscription_route org ctx"
| "handle_subscription cfg configured api now GetUsage org ctx = get_usage_route now org ctx"
| "handle_subscription cfg configured api now GetBilling org ctx = get_billing_route now org ctx"
| "handle_subscription cfg configured api now (GetInvoices lmt) org ctx = get_invoices_route lmt org ctx"
| "handle_subscription cfg configured api now (CreateCheckout plan success cancel) org ctx =
     create_checkout_route cfg configured (ca_checkout api) plan success cancel org ctx"
| "handle_subscription cfg configured api now (CreatePortal return) org ctx =
     create_portal_route cfg configured (ca_portal api) return org ctx"

section \<open>What requests change\<close>

definition holds_role :: "membership_role list \<Rightarrow> api_context \<Rightarrow> uuid \<Rightarrow> identity_db \<Rightarrow> bool" where
  "holds_role allowed ctx org d = (case cx_user ctx of
       None \<Rightarrow> False
     | Some user \<Rightarrow> list_ex (\<lambda>m. mb_user_id m = usr_id user \<and> mb_org_id m = org \<and> mb_role m \<in> set allowed) (members d))"

text \<open>The cached subscription of the organization is the only thing outside Stripe that a request writes.\<close>

definition cache_only :: "uuid \<Rightarrow> 's sub_world \<Rightarrow> 's sub_world \<Rightarrow> bool" where
  "cache_only org w w' \<longleftrightarrow> sw_db w' = sw_db w \<and> (\<forall>k. k \<noteq> SubCacheKey org \<longrightarrow> sw_redis w' k = sw_redis w k)"

definition reads_stripe_not :: "uuid \<Rightarrow> 's sub_world \<Rightarrow> 's sub_world \<Rightarrow> bool" where
  "reads_stripe_not org w w' \<longleftrightarrow> cache_only org w w' \<and> sw_env w' = sw_env w"

interpretation cache: exec_preorder "cache_only org" for org
  by unfold_locales (auto simp: cache_only_def)

interpretation offline: exec_preorder "reads_stripe_not org" for org
  by unfold_locales (auto simp: reads_stripe_not_def cache_only_def)

lemma offline_cache: "keeps (reads_stripe_not org) m \<Longrightarrow> keeps (cache_only org) m"
  by (auto simp: keeps_def reads_stripe_not_def)

lemma session_reads [simp]:
  "snd (member_session org ctx w) = w" "snd (admin_session org ctx w) = w"
  by (auto simp: member_session_def admin_session_def in_identity_def require_user_def require_membership_def require_admin_def
      get_membership_def required_def guardE_def bindE_def run_exec split: option.splits sum.splits prod.splits if_splits)

lemma member_found:
  assumes "cx_user ctx = Some u" "filter (\<lambda>m. mb_user_id m = usr_id u \<and> mb_org_id m = org) (members d) = [m]" "mb_role m \<in> set allowed"
  shows "holds_role allowed ctx org d"
proof -
  from assms(2) have "m \<in> set (filter (\<lambda>m. mb_user_id m = usr_id u \<and> mb_org_id m = org) (members d))" by simp
  with assms(1,3) show ?thesis by (auto simp: holds_role_def list_ex_iff)
qed

lemma member_session_ok:
  assumes "fst (member_session org ctx w) = Inr m"
  shows "holds_role [OWNER, ADMIN, MEMBER] ctx org (sw_db w)"
proof -
  from assms obtain d where "bindE (require_user ctx) (\<lambda>user. require_membership (usr_id user) org) (sw_db w) = (Inr m, d)"
    by (cases "bindE (require_user ctx) (\<lambda>user. require_membership (usr_id user) org) (sw_db w)")
      (simp add: member_session_def in_identity_def)
  then obtain u where "cx_user ctx = Some u" "filter (\<lambda>m. mb_user_id m = usr_id u \<and> mb_org_id m = org) (members (sw_db w)) = [m]"
    by (auto simp: bindE_Inr_iff)
  moreover have "mb_role m \<in> set [OWNER, ADMIN, MEMBER]" by (cases "mb_role m") simp_all
  ultimately show ?thesis by (rule member_found)
qed

lemma admin_session_ok:
  assumes "fst (admin_session org ctx w) = Inr m"
  shows "holds_role [OWNER, ADMIN] ctx org (sw_db w)"
proof -
  from assms obtain d where "bindE (require_user ctx) (\<lambda>user. require_admin (usr_id user) org) (sw_db w) = (Inr m, d)"
    by (cases "bindE (require_user ctx) (\<lambda>user. require_admin (usr_id user) org) (sw_db w)")
      (simp add: admin_session_def in_identity_def)
  then obtain u where "cx_user ctx = Some u" "filter (\<lambda>m. mb_user_id m = usr_id u \<and> mb_org_id m = org) (members (sw_db w)) = [m]"
    "mb_role m \<in> set [OWNER, ADMIN]"
    by (auto simp: bindE_Inr_iff)
  then show ?thesis by (rule member_found)
qed

text \<open>A request that its check of the caller stops changes nothing.\<close>

lemma bind_session:
  assumes "snd (m w) = w"
  shows "bindE m f w = (case fst (m w) of Inl e \<Rightarrow> (Inl e, w) | Inr x \<Rightarrow> f x w)"
  using assms by (cases "m w") (simp add: bindE_def split: sum.splits)

lemma offline_sessions [keeps_rules]:
  "keeps (reads_stripe_not org) (member_session g ctx)" "keeps (reads_stripe_not org) (admin_session g ctx)"
  by (auto intro!: keepsI simp: offline.rel_refl)

lemma offline_services:
  assumes "\<And>b. db (snd (m b)) = db b \<and> env (snd (m b)) = env b \<and> (\<forall>k. k \<noteq> SubCacheKey org \<longrightarrow> redis (snd (m b)) k = redis b k)"
  shows "keeps (reads_stripe_not org) (in_services m)"
proof (rule keepsI)
  fix w :: "'a sub_world"
  obtain r b where m: "m (service_view w) = (r, b)" by fastforce
  with assms[of "service_view w"] show "reads_stripe_not org w (snd (in_services m w))"
    by (simp add: in_services_def reads_stripe_not_def cache_only_def service_view_def)
qed

lemma cache_services:
  assumes "\<And>b. db (snd (m b)) = db b \<and> redis (snd (m b)) = redis b"
  shows "keeps (cache_only org) (in_services m)"
proof (rule keepsI)
  fix w :: "'a sub_world"
  obtain r b where m: "m (service_view w) = (r, b)" by fastforce
  with assms[of "service_view w"] show "cache_only org w (snd (in_services m w))"
    by (simp add: in_services_def cache_only_def service_view_def)
qed

lemma offline_reads [keeps_rules]:
  "keeps (reads_stripe_not org) (in_services (in_db (get_subscription_by_org g)))"
  "keeps (reads_stripe_not org) (in_services (in_db (get_current_usage_record g t)))"
  "keeps (reads_stripe_not org) (in_services (in_db (getsE (list_usage_history g n))))"
  by (auto intro!: offline_services simp: in_db_def get_subscription_by_org_def get_current_usage_record_def run_exec)

lemma current_usage_frame:
  "db (snd (get_current_usage now org b)) = db b \<and> env (snd (get_current_usage now org b)) = env b
   \<and> (\<forall>k. k \<noteq> SubCacheKey org \<longrightarrow> redis (snd (get_current_usage now org b)) k = redis b k)"
  by (auto simp: get_current_usage_def get_subscription_cached_def get_subscription_by_org_def in_db_def modify_redis_def bindE_def run_exec
      r_set_ex_def split: option.splits redis_value.splits sum.splits prod.splits)

lemma offline_usage [keeps_rules]: "keeps (reads_stripe_not org) (in_services (get_current_usage now org))"
  by (rule offline_services) (rule current_usage_frame)

lemma cache_stripe [keeps_rules]:
  "keeps (cache_only org) (in_services (create_checkout_session cfg send g plan success cancel))"
  "keeps (cache_only org) (in_services (create_portal_session send' g return))"
  by (rule cache_services;
      auto simp: create_checkout_session_def create_portal_session_def in_db_def in_env_def get_subscription_by_org_def bindE_def run_exec
        split: option.splits sum.splits prod.splits)+

lemma keeps_guard_offline [keeps_rules]: "keeps (cache_only org) (guardE b e)"
  by (auto intro!: keepsI simp: guardE_def run_exec cache.rel_refl)


fun required_roles :: "subscription_request \<Rightarrow> membership_role list" where
  "required_roles (CreateCheckout plan success cancel) = [OWNER, ADMIN]"
| "required_roles (CreatePortal return) = [OWNER, ADMIN]"
| "required_roles req = [OWNER, ADMIN, MEMBER]"

lemma handle_cases:
  obtains (member) f where "handle_subscription cfg configured api now req org ctx = bindE (member_session org ctx) (\<lambda>_. f)"
      "keeps (reads_stripe_not org) f" "required_roles req = [OWNER, ADMIN, MEMBER]"
  | (admin) f where "handle_subscription cfg configured api now req org ctx = bindE (admin_session org ctx) (\<lambda>_. f)"
      "keeps (cache_only org) f" "required_roles req = [OWNER, ADMIN]"
proof (cases req)
  case GetSubscription
  show thesis by (rule member, simp add: GetSubscription get_subscription_route_def) (simp_all add: GetSubscription, intro keeps_rules)
next
  case GetUsage
  show thesis by (rule member, simp add: GetUsage get_usage_route_def) (simp_all add: GetUsage, intro keeps_rules)
next
  case GetBilling
  show thesis by (rule member, simp add: GetBilling get_billing_route_def) (simp_all add: GetBilling, intro keeps_rules)
next
  case (GetInvoices n)
  show thesis by (rule member, simp add: GetInvoices get_invoices_route_def) (simp_all add: GetInvoices, intro keeps_rules)
next
  case (CreateCheckout plan success cancel)
  show thesis by (rule admin, simp add: CreateCheckout create_checkout_route_def) (simp_all add: CreateCheckout, intro keeps_rules)
next
  case (CreatePortal return)
  show thesis by (rule admin, simp add: CreatePortal create_portal_route_def) (simp_all add: CreatePortal, intro keeps_rules)
qed

section \<open>What requests read\<close>

text \<open>The part of the billing tables and of Redis that belongs to an organization, with Stripe.\<close>

definition services_of :: "uuid \<Rightarrow> 's bworld \<Rightarrow>
    (subscription list \<times> usage_record list) \<times> ((redis_value \<times> datetime option) option \<times> (int \<Rightarrow> (redis_value \<times> datetime option) option)) \<times> 's" where
  "services_of org b = ((filter (\<lambda>s. sub_org_id s = org) (subs (db b)), filter (\<lambda>u. ur_org_id u = org) (usages (db b))),
     (redis b (SubCacheKey org), \<lambda>day. redis b (UsageKey org day)), env b)"

definition org_view :: "uuid \<Rightarrow> 's sub_world \<Rightarrow>
    membership list \<times> (subscription list \<times> usage_record list) \<times>
    ((redis_value \<times> datetime option) option \<times> (int \<Rightarrow> (redis_value \<times> datetime option) option)) \<times> 's" where
  "org_view org w = (filter (\<lambda>m. mb_org_id m = org) (members (sw_db w)), services_of org (service_view w))"

lemma view_after_services:
  "org_view org (snd (in_services m w)) =
     (filter (\<lambda>m. mb_org_id m = org) (members (sw_db w)), services_of org (snd (m (service_view w))))"
  "fst (in_services m w) = fst (m (service_view w))"
  by (simp_all add: in_services_def org_view_def services_of_def service_view_def split: prod.splits)

lemma confined_services [confined_rules]:
  assumes "confined (services_of org) m"
  shows "confined (org_view org) (in_services m)"
  unfolding confined_def
proof (intro allI impI)
  fix s t :: "'a sub_world"
  assume "org_view org s = org_view org t"
  then have "services_of org (service_view s) = services_of org (service_view t)"
    and "filter (\<lambda>m. mb_org_id m = org) (members (sw_db s)) = filter (\<lambda>m. mb_org_id m = org) (members (sw_db t))"
    unfolding org_view_def by (rule prod.inject[THEN iffD1, THEN conjunct2], rule prod.inject[THEN iffD1, THEN conjunct1])
  then show "fst (in_services m s) = fst (in_services m t) \<and> org_view org (snd (in_services m s)) = org_view org (snd (in_services m t))"
    using assms unfolding view_after_services confined_def by metis
qed

definition members_of :: "uuid \<Rightarrow> identity_db \<Rightarrow> membership list" where
  "members_of org d = filter (\<lambda>m. mb_org_id m = org) (members d)"

lemma confined_require [confined_rules]:
  "confined (members_of org) (require_user ctx)" "confined (members_of org) (require_membership u org)"
  "confined (members_of org) (require_admin u org)"
proof -
  have "filter (\<lambda>m. mb_user_id m = u \<and> mb_org_id m = org) (members d) = filter (\<lambda>m. mb_user_id m = u) (members_of org d)" for d
    by (auto simp: members_of_def intro: filter_cong)
  then have get: "confined (members_of org) (get_membership u org)"
    unfolding get_membership_def by (intro confined_read) simp
  have req: "confined (members_of org) (required e x)" for e and x :: "'x option"
    unfolding required_def by (intro confined_rules)
  have guard: "confined (members_of org) (guardE b e)" for b e
    unfolding guardE_def by (intro confined_rules)
  show "confined (members_of org) (require_user ctx)" unfolding require_user_def by (rule req)
  show m: "confined (members_of org) (require_membership u org)" unfolding require_membership_def by (intro confined_bind get req)
  show "confined (members_of org) (require_admin u org)" unfolding require_admin_def by (intro confined_bind m guard confined_ret)
qed

lemma confined_identity:
  assumes "confined (members_of org) m" and "\<And>w :: 's sub_world. snd (in_identity m w) = w"
  shows "confined (org_view org) (in_identity m :: (error, 's sub_world, 'a) exec)"
  unfolding confined_def assms(2)
proof (intro allI impI conjI)
  fix s t :: "'s sub_world"
  assume eq: "org_view org s = org_view org t"
  then have "members_of org (sw_db s) = members_of org (sw_db t)" by (simp add: org_view_def members_of_def)
  then show "fst (in_identity m s) = fst (in_identity m t)"
    using assms(1) unfolding in_identity_def confined_def case_prod_beta fst_conv by blast
  from eq show "org_view org s = org_view org t" .
qed

lemma confined_sessions [confined_rules]:
  "confined (org_view org) (member_session org ctx)" "confined (org_view org) (admin_session org ctx)"
  unfolding member_session_def admin_session_def
  by (intro confined_identity confined_rules; simp only: session_reads[unfolded member_session_def admin_session_def])+

lemma confined_lift [confined_rules]: "confined v (liftE r)" "confined v (guardE b e)"
  by (auto simp: confined_def guardE_def run_exec)

lemma confined_in_db:
  assumes "\<And>d. snd (m d) = d"
    and "\<And>d e. filter (\<lambda>s. sub_org_id s = org) (subs d) = filter (\<lambda>s. sub_org_id s = org) (subs e) \<Longrightarrow>
      filter (\<lambda>u. ur_org_id u = org) (usages d) = filter (\<lambda>u. ur_org_id u = org) (usages e) \<Longrightarrow> fst (m d) = fst (m e)"
  shows "confined (services_of org) (in_db m :: (error, 's bworld, 'r) exec)"
proof -
  have run: "in_db m b = (fst (m (db b)), b)" for b :: "'s bworld"
    using assms(1)[of "db b"] by (cases "m (db b)") (simp add: in_db_def)
  have "fst (m (db b)) = fst (m (db c))" if "services_of org b = services_of org c" for b c :: "'s bworld"
    using that by (intro assms(2)) (simp_all add: services_of_def)
  then show ?thesis unfolding confined_def run fst_conv snd_conv by blast
qed

lemma period_of_org:
  "filter (same_period org t) us = filter (\<lambda>u. ur_period_start u = t) (filter (\<lambda>u. ur_org_id u = org) us)"
  by (auto simp: same_period_def intro: filter_cong)

lemma confined_reads [confined_rules]:
  "confined (services_of org) (in_db (get_subscription_by_org org))"
  "confined (services_of org) (in_db (get_current_usage_record org t))"
  "confined (services_of org) (in_db (getsE (list_usage_history org n)))"
  by (rule confined_in_db; simp add: get_subscription_by_org_def get_current_usage_record_def list_usage_history_def run_exec
      period_of_org del: filter_filter)+

lemma confined_stripe [confined_rules]: "confined (services_of org) (in_env f)"
  by (auto simp: confined_def in_env_def services_of_def split: prod.splits)

lemma confined_checkout [confined_rules]:
  "confined (services_of org) (create_checkout_session cfg send org plan success cancel)"
  "confined (services_of org) (create_portal_session send' org return)"
  unfolding create_checkout_session_def create_portal_session_def by (intro confined_rules)+

lemma confined_cached [confined_rules]: "confined (services_of org) (get_subscription_cached now org)"
proof -
  have get: "confined (services_of org) (getsE (\<lambda>w. r_get now (redis w) (SubCacheKey org)))"
    by (rule confined_gets) (simp add: services_of_def r_get_def)
  have set: "confined (services_of org) (modify_redis (\<lambda>r. r_set_ex now r (SubCacheKey org) v ttl))" for v ttl
    unfolding modify_redis_def by (rule confined_modify) (simp add: services_of_def r_set_ex_def)
  show ?thesis
    unfolding get_subscription_cached_def
    by (intro confined_bind get) (auto split: option.splits redis_value.splits intro!: confined_rules set)
qed

lemma confined_usage [confined_rules]: "confined (services_of org) (get_current_usage now org)"
proof -
  have "confined (services_of org) (getsE (\<lambda>w. r_hgetall now (redis w) (usage_key org t)))" for t
    by (rule confined_gets) (auto simp: services_of_def r_hgetall_def r_get_def usage_key_def fun_eq_iff)
  then show ?thesis unfolding get_current_usage_def by (intro confined_rules)
qed

lemma handle_confined: "confined (org_view org) (handle_subscription cfg configured api now req org ctx)"
  by (cases req) (simp add: get_subscription_route_def get_usage_route_def get_billing_route_def get_invoices_route_def
      create_checkout_route_def create_portal_route_def, intro confined_rules)+

section \<open>The estimate\<close>

text \<open>The requests of a report, with a request of amount zero for a category without new units.\<close>

lemma charge_amount_zero [simp]: "charge_amount price 0 = 0"
  by (simp add: charge_amount_def quantize_half_up_def floor_eq_iff)

lemma staged_total:
  assumes "\<And>c. reported c u \<le> counter c u" "\<And>c. reserved_count c u previous = reported c u"
  shows "sum_list (map (\<lambda>x. rq_amount (snd x)) (stage_requests sub u previous p customer subscr invoice rid)) =
    charge_amount (unit_price p) (overage_units (base_units p TRACES) (reported TRACES u) (counter TRACES u))
    + charge_amount (unit_price p) (overage_units (base_units p TRACE_EVALS) (reported TRACE_EVALS u) (counter TRACE_EVALS u))
    + charge_amount (unit_price p) (overage_units (base_units p SESSION_EVALS) (reported SESSION_EVALS u) (counter SESSION_EVALS u))"
proof -
  have snap: "snapshot_count c u previous = counter c u" for c
    using assms by (simp add: snapshot_count_def max_def)
  have units: "overage_units b (reported c u) (counter c u) \<le> 0 \<longleftrightarrow> overage_units b (reported c u) (counter c u) = 0" for b c
    using assms(1)[of c] by (auto simp: overage_units_def)
  show ?thesis
    unfolding stage_requests_def COUNTERS_def Let_def assms(2) snap units by (simp add: map_filter_simps)
qed

lemma charges_add_up:
  "\<bar>of_int (charge_amount OVERAGE_UNIT_PRICE (a + b + c)) - (OVERAGE_UNIT_PRICE * of_int (a' + b' + c') * 100
     + of_int (charge_amount OVERAGE_UNIT_PRICE (a - a') + charge_amount OVERAGE_UNIT_PRICE (b - b') + charge_amount OVERAGE_UNIT_PRICE (c - c')))\<bar> \<le> 2"
proof -
  have err: "\<bar>of_int (charge_amount OVERAGE_UNIT_PRICE n) - 2 / 5 * of_int n\<bar> \<le> (1 / 2 :: rat)" for n
    unfolding charge_amount_def using quantize_half_up_error[of "OVERAGE_UNIT_PRICE * of_int n * 100"] by (simp add: OVERAGE_UNIT_PRICE_def)
  have price: "OVERAGE_UNIT_PRICE * of_int (a' + b' + c') * 100 = 2 / 5 * (of_int a' + of_int b' + of_int c')"
    by (simp add: OVERAGE_UNIT_PRICE_def)
  have "\<bar>s - 2 / 5 * (x + y + z)\<bar> \<le> 1 / 2 \<Longrightarrow> \<bar>p - 2 / 5 * (x - x')\<bar> \<le> 1 / 2 \<Longrightarrow> \<bar>q - 2 / 5 * (y - y')\<bar> \<le> 1 / 2 \<Longrightarrow>
      \<bar>r - 2 / 5 * (z - z')\<bar> \<le> 1 / 2 \<Longrightarrow> \<bar>s - (2 / 5 * (x' + y' + z') + (p + q + r))\<bar> \<le> 2" for s p q r x y z x' y' z' :: rat
    unfolding abs_le_iff by (elim conjE, intro conjI; simp add: field_simps)
  from this[OF err[of "a + b + c", unfolded of_int_add] err[of "a - a'", unfolded of_int_diff] err[of "b - b'", unfolded of_int_diff]
      err[of "c - c'", unfolded of_int_diff]]
  show ?thesis unfolding of_int_add price[unfolded of_int_add] .
qed

lemma billing_answer:
  assumes "fst (get_billing_route now org ctx w) = Inr (BillingResponse b)"
    and "sub_stable org sub (service_view w)"
    and "filter (same_period org (sub_period_start sub)) (usages (billing (sw_db w))) = [u]"
  shows "\<exists>summary. b = cost_overview sub summary (Some u)
    \<and> us_traces summary = hash_field (r_hgetall now (sw_redis w) (usage_key org (sub_period_start sub))) TRACES
    \<and> us_trace_evals summary = hash_field (r_hgetall now (sw_redis w) (usage_key org (sub_period_start sub))) TRACE_EVALS
    \<and> us_session_evals summary = hash_field (r_hgetall now (sw_redis w) (usage_key org (sub_period_start sub))) SESSION_EVALS"
proof -
  from assms(1) obtain w' where run: "get_billing_route now org ctx w = (Inr (BillingResponse b), w')"
    by (cases "get_billing_route now org ctx w") simp
  obtain m v where "member_session org ctx w = (Inr m, v)" and rest:
    "bindE (in_services (in_db (get_subscription_by_org org))) (\<lambda>found. case found of
       None \<Rightarrow> raise (NotFoundError ''No subscription found for this organization.'')
     | Some sub \<Rightarrow>
         bindE (in_services (get_current_usage now org)) (\<lambda>summary.
         bindE (in_services (in_db (get_current_usage_record org (sub_period_start sub)))) (\<lambda>record.
         ret (BillingResponse (cost_overview sub summary record))))) v = (Inr (BillingResponse b), w')"
    using run unfolding get_billing_route_def by (auto simp: bindE_Inr_iff)
  then have [simp]: "v = w" using session_reads(1)[of org ctx w] by simp
  have sub: "in_services (in_db (get_subscription_by_org org)) w = (Inr (Some sub), w)"
    using assms(2) by (simp add: sub_stable_def service_view_def in_services_def in_db_def get_subscription_by_org_def)
  obtain r where cached: "get_subscription_cached now org (service_view w) = (Inr (Some sub), (service_view w)\<lparr>redis := r\<rparr>)"
    and r: "r = sw_redis w \<or> r = r_set_ex now (sw_redis w) (SubCacheKey org) (RSub sub) SUB_CACHE_TTL"
    using get_subscription_cached_stable[OF assms(2), of now] by (auto simp: service_view_def)
  from r have counts: "r_hgetall now r (usage_key org t) = r_hgetall now (sw_redis w) (usage_key org t)" for t
    by (auto simp: usage_key_def r_hgetall_def r_get_def r_set_ex_def)
  have usage: "fst (in_services (get_current_usage now org) w) = Inr \<lparr>us_plan = sub_plan sub, us_status = sub_status sub,
      us_period_start = sub_period_start sub, us_period_end = sub_period_end sub,
      us_traces = hash_field (r_hgetall now (sw_redis w) (usage_key org (sub_period_start sub))) TRACES,
      us_trace_evals = hash_field (r_hgetall now (sw_redis w) (usage_key org (sub_period_start sub))) TRACE_EVALS,
      us_session_evals = hash_field (r_hgetall now (sw_redis w) (usage_key org (sub_period_start sub))) SESSION_EVALS,
      us_limits = Some (get_plan_config (sub_plan sub))\<rparr>"
    unfolding view_after_services get_current_usage_def bindE_def cached by (simp add: run_exec counts bindE_def)
  have tables: "sw_db (snd (in_services (get_current_usage now org) w)) = sw_db w"
    using keepsD[OF offline_usage[of org now], of w] by (simp add: reads_stripe_not_def cache_only_def)
  have "in_services (in_db (get_current_usage_record org (sub_period_start sub))) t = (Inr (Some u), t)" if "sw_db t = sw_db w" for t :: "'a sub_world"
    using that assms(3) by (simp add: in_services_def in_db_def get_current_usage_record_def service_view_def)
  from this[OF tables] rest usage show ?thesis
    by (cases "in_services (get_current_usage now org) w") (auto simp: bindE_def sub run_exec)
qed

lemma pending_total:
  assumes "\<And>c. reported c u \<le> counter c u"
  shows "overage_since c plan u = max 0 (counter c u - or_zero (plan_base c plan)) - max 0 (reported c u - or_zero (plan_base c plan))"
  using assms[of c] by (simp add: overage_since_def Let_def max_def)

lemma calculate_run:
  assumes "sub_stable org sub b" "pay_as_you_go (get_plan_config (sub_plan sub))"
    and "filter (same_period org (sub_period_start sub)) (usages (db b)) = [u]" "\<not> ur_billed u"
  shows "\<exists>x. calculate_unreported_overages org None b = (Inr x, b) \<and> total_cost x = OVERAGE_UNIT_PRICE *
    of_int (overage_since TRACES (get_plan_config (sub_plan sub)) u + overage_since TRACE_EVALS (get_plan_config (sub_plan sub)) u
      + overage_since SESSION_EVALS (get_plan_config (sub_plan sub)) u)"
  using assms by (simp add: calculate_unreported_overages_def sub_stable_def in_db_def get_subscription_by_org_def
      get_current_usage_record_def bindE_def run_exec Let_def)

section \<open>Properties\<close>

text \<open>Ann owns organization 10 and Bob is a member; 253 units are above the included traces and 100 of them are reported.\<close>

definition demo_shop_usage :: usage_record where
  "demo_shop_usage = (set_counters 0 5253 10 101 (fresh_usage 0 1 10 0 (days 30)))\<lparr>reported_trace_count := 5100\<rparr>"

definition demo_shop :: "nat sub_world" where
  "demo_shop = \<lparr>sw_db = demo_idb\<lparr>members := demo_member 22 2 10 MEMBER # members demo_idb,
      billing := (billing demo_idb)\<lparr>usages := [demo_shop_usage]\<rparr>\<rparr>,
    sw_redis = [UsageKey 10 0 \<mapsto> (RHash [TRACES \<mapsto> 5253, TRACE_EVALS \<mapsto> 10, SESSION_EVALS \<mapsto> 101], None)], sw_env = 0\<rparr>"

definition demo_ctx :: "uuid \<Rightarrow> api_context" where
  "demo_ctx u = \<lparr>cx_auth_method = JWT, cx_organization = \<lparr>org_id = 10, org_name = ''Acme'', org_created_at = 0\<rparr>, cx_project = None,
     cx_user = Some (demo_user u [] [])\<rparr>"

definition demo_checkout :: "nat checkout_api" where
  "demo_checkout = \<lparr>ca_checkout = (\<lambda>_ n. (Inr ''url'', Suc n)), ca_portal = (\<lambda>_ _ n. (Inr ''url'', Suc n))\<rparr>"

definition demo_billing_config :: billing_config where
  "demo_billing_config = \<lparr>has_redis = True, stripe_secret_key = ''sk'', stripe_pro_price_id = ''p'', stripe_startup_price_id = ''s'', release_failure = (\<lambda>_. None)\<rparr>"

text \<open>
  C17: A request to the subscription endpoints of an organization writes nothing but the cached
  subscription of that organization. It fails and changes nothing at all unless its user is a member,
  and for checkout and portal an owner or admin; Stripe's state changes for owners and admins only.
\<close>

theorem subscription_requests_authorized:
  "cache_only org w (snd (handle_subscription cfg configured api now req org ctx w))
   \<and> (\<not> holds_role (required_roles req) ctx org (sw_db w) \<longrightarrow>
        isl (fst (handle_subscription cfg configured api now req org ctx w)) \<and> snd (handle_subscription cfg configured api now req org ctx w) = w)
   \<and> (sw_env (snd (handle_subscription cfg configured api now req org ctx w)) \<noteq> sw_env w \<longrightarrow> holds_role [OWNER, ADMIN] ctx org (sw_db w))"
proof (rule handle_cases[of cfg configured api now req org ctx])
  fix f
  assume h: "handle_subscription cfg configured api now req org ctx = bindE (member_session org ctx) (\<lambda>_. f)"
    and f: "keeps (reads_stripe_not org) f" and req: "required_roles req = [OWNER, ADMIN, MEMBER]"
  show ?thesis
    unfolding h req bind_session[of "member_session org ctx", OF session_reads(1)]
    using member_session_ok[of org ctx w] keepsD[OF f, of w] cache.rel_refl[of org w]
    by (auto simp: reads_stripe_not_def split: sum.splits)
next
  fix f
  assume h: "handle_subscription cfg configured api now req org ctx = bindE (admin_session org ctx) (\<lambda>_. f)"
    and f: "keeps (cache_only org) f" and req: "required_roles req = [OWNER, ADMIN]"
  show ?thesis
    unfolding h req bind_session[of "admin_session org ctx", OF session_reads(2)]
    using admin_session_ok[of org ctx w] keepsD[OF f, of w] cache.rel_refl[of org w]
    by (auto split: sum.splits)
qed

theorem subscription_requests_authorized_witness:
  "snd (handle_subscription demo_billing_config True demo_checkout 5 (CreateCheckout STARTUP [] []) 10 (demo_ctx 2) demo_shop) = demo_shop
   \<and> sw_env (snd (handle_subscription demo_billing_config True demo_checkout 5 (CreateCheckout STARTUP [] []) 10 (demo_ctx 1) demo_shop)) = 1
   \<and> holds_role [OWNER, ADMIN] (demo_ctx 1) 10 (sw_db demo_shop)"
proof -
  have "\<not> holds_role (required_roles (CreateCheckout STARTUP [] [])) (demo_ctx 2) 10 (sw_db demo_shop)" by code_simp
  moreover have "sw_env (snd (handle_subscription demo_billing_config True demo_checkout 5 (CreateCheckout STARTUP [] []) 10 (demo_ctx 1) demo_shop)) = 1"
    by code_simp
  moreover have "sw_env demo_shop = 0" by code_simp
  ultimately show ?thesis
    using subscription_requests_authorized[of 10 demo_shop demo_billing_config True demo_checkout 5 "CreateCheckout STARTUP [] []" "demo_ctx 2"]
      subscription_requests_authorized[of 10 demo_shop demo_billing_config True demo_checkout 5 "CreateCheckout STARTUP [] []" "demo_ctx 1"]
    by simp
qed

text \<open>
  C18: What a subscription request answers, and what it leaves in the part of the system that belongs to
  its organization, depends on that part alone: its memberships, subscription and usage records,
  cached subscription and usage counters, and Stripe.
\<close>

theorem subscription_requests_confined:
  assumes "org_view org w = org_view org v"
  shows "fst (handle_subscription cfg configured api now req org ctx w) = fst (handle_subscription cfg configured api now req org ctx v)
   \<and> org_view org (snd (handle_subscription cfg configured api now req org ctx w)) =
     org_view org (snd (handle_subscription cfg configured api now req org ctx v))"
  using handle_confined assms unfolding confined_def by blast

definition demo_shop_alone :: "nat sub_world" where
  "demo_shop_alone = demo_shop\<lparr>sw_db := (sw_db demo_shop)\<lparr>members := [demo_member 22 2 10 MEMBER, demo_member 20 1 10 OWNER],
     billing := (billing (sw_db demo_shop))\<lparr>subs := [demo_org_sub 10 PRO]\<rparr>\<rparr>\<rparr>"

theorem subscription_requests_confined_witness:
  "org_view 10 demo_shop = org_view 10 demo_shop_alone \<and> sw_db demo_shop \<noteq> sw_db demo_shop_alone
   \<and> fst (handle_subscription demo_billing_config True demo_checkout 5 GetBilling 10 (demo_ctx 2) demo_shop) =
     fst (handle_subscription demo_billing_config True demo_checkout 5 GetBilling 10 (demo_ctx 2) demo_shop_alone)"
proof -
  have "org_view 10 demo_shop = org_view 10 demo_shop_alone" "sw_db demo_shop \<noteq> sw_db demo_shop_alone"
    by (simp_all add: org_view_def services_of_def service_view_def demo_shop_alone_def demo_shop_def demo_idb_def demo_member_def demo_org_sub_def)
  with subscription_requests_confined[of 10 demo_shop demo_shop_alone demo_billing_config True demo_checkout 5 GetBilling "demo_ctx 2"]
  show ?thesis by blast
qed



text \<open>
  \<open>base or 0\<close> reads the missing limits of the development plan as zero: its unlimited usage is shown as
  overage with a cost, although the plan is never charged.
\<close>

theorem development_plan_shows_overage:
  assumes "sub_plan sub = DEVELOPMENT" "us_traces summary = 1000" "us_trace_evals summary = 0" "us_session_evals summary = 0"
  shows "bo_estimated_total_cents (cost_overview sub summary None) = 400
    \<and> (sub_stable org sub b \<longrightarrow> calculate_unreported_overages org None b = (Inr empty_overage, b))"
proof
  have "quantize_half_up 400 = 400" by (simp add: quantize_half_up_def floor_eq_iff)
  then show "bo_estimated_total_cents (cost_overview sub summary None) = 400"
    using assms by (simp add: cost_overview_def breakdown_def or_zero_def get_plan_config_def OVERAGE_UNIT_PRICE_def Let_def)
  show "sub_stable org sub b \<longrightarrow> calculate_unreported_overages org None b = (Inr empty_overage, b)"
    using assms(1) by (simp add: calculate_unreported_overages_def sub_stable_def in_db_def get_subscription_by_org_def bindE_def run_exec
        get_plan_config_def)
qed

end
