(* ===== verification/CliAuth.thy ===== *)
theory CliAuth
  imports IdentityProperties
begin

text \<open>
  The login of the command line client: \<open>services/cli_service.py\<close> and \<open>api/v1/routes/cli.py\<close>. A signed-in
  user obtains a code that is bound to a PKCE challenge; the client exchanges the code and the
  verifier of the challenge for an API key. SHA-256, the random code and the random token of the
  key are arguments; base64 is written out.

  The dash U+2014 in the name of a key is written as the character 151, its place in code page 1252.
\<close>

section \<open>Text\<close>

fun nat_text :: "nat \<Rightarrow> string" where
  "nat_text n = (if n < 10 then [char_of (48 + n)] else nat_text (n div 10) @ [char_of (48 + n mod 10)])"

declare nat_text.simps [simp del]

definition int_text :: "int \<Rightarrow> string" where
  "int_text n = (if n < 0 then ''-'' @ nat_text (nat (- n)) else nat_text (nat n))"

fun padded :: "nat \<Rightarrow> nat \<Rightarrow> string" where
  "padded 0 n = []"
| "padded (Suc k) n = padded k (n div 10) @ [char_of (48 + n mod 10)]"

text \<open>Year, month and day of a number of days since the epoch: the Gregorian calendar in eras of 400 years.\<close>

definition civil_date :: "int \<Rightarrow> int \<times> int \<times> int" where
  "civil_date z =
     (let era = (z + 719468) div 146097; doe = (z + 719468) mod 146097;
          yoe = (doe - doe div 1460 + doe div 36524 - doe div 146096) div 365;
          doy = doe - (365 * yoe + yoe div 4 - yoe div 100);
          mp = (5 * doy + 2) div 153;
          m = (if mp < 10 then mp + 3 else mp - 9)
      in (yoe + era * 400 + (if m \<le> 2 then 1 else 0), m, doy - (153 * mp + 2) div 5 + 1))"

text \<open>\<open>strftime("%Y-%m-%d")\<close>.\<close>

definition date_text :: "datetime \<Rightarrow> string" where
  "date_text t = (case civil_date (date_of t) of (y, m, d) \<Rightarrow> padded 4 (nat y) @ ''-'' @ padded 2 (nat m) @ ''-'' @ padded 2 (nat d))"

text \<open>\<open>base64.urlsafe_b64encode\<close> of bytes.\<close>

definition b64_char :: "nat \<Rightarrow> char" where
  "b64_char n = (if n < 26 then char_of (65 + n) else if n < 52 then char_of (71 + n) else if n < 62 then char_of (n - 4)
     else if n = 62 then CHR ''-'' else CHR ''_'')"

fun urlsafe_b64encode :: "nat list \<Rightarrow> string" where
  "urlsafe_b64encode (a # b # c # r) =
     b64_char (a div 4) # b64_char (a mod 4 * 16 + b div 16) # b64_char (b mod 16 * 4 + c div 64) # b64_char (c mod 64) # urlsafe_b64encode r"
| "urlsafe_b64encode [a, b] = [b64_char (a div 4), b64_char (a mod 4 * 16 + b div 16), b64_char (b mod 16 * 4), CHR ''='']"
| "urlsafe_b64encode [a] = [b64_char (a div 4), b64_char (a mod 4 * 16), CHR ''='', CHR ''='']"
| "urlsafe_b64encode [] = []"

definition rstrip :: "char \<Rightarrow> string \<Rightarrow> string" where
  "rstrip c s = rev (dropWhile (\<lambda>x. x = c) (rev s))"

text \<open>\<open>hmac.compare_digest\<close> raises \<open>TypeError\<close> for text that is not ASCII.\<close>

definition compare_digest :: "string \<Rightarrow> string \<Rightarrow> error + bool" where
  "compare_digest a b = (if list_all (\<lambda>c. code c < 128) (a @ b) then Inr (a = b) else Inl TypeError)"

section \<open>The service\<close>

definition CODE_TTL_SECONDS :: int where "CODE_TTL_SECONDS = 120"
definition MAX_KEY_NAME_LEN :: nat where "MAX_KEY_NAME_LEN = 255"
definition ALLOWED_EXPIRES_DAYS :: int where "ALLOWED_EXPIRES_DAYS = 90"

definition challenge_of :: "(string \<Rightarrow> nat list) \<Rightarrow> string \<Rightarrow> string" where
  "challenge_of digest verifier = rstrip (CHR ''='') (urlsafe_b64encode (digest verifier))"

definition verify_pkce :: "(string \<Rightarrow> nat list) \<Rightarrow> string \<Rightarrow> string \<Rightarrow> error + bool" where
  "verify_pkce digest verifier challenge = compare_digest (challenge_of digest verifier) challenge"

definition key_name_from_label :: "datetime \<Rightarrow> string \<Rightarrow> string" where
  "key_name_from_label now label =
     (let given = strip (if label = [] then ''cli'' else label);
          clean_label = (if given = [] then ''cli'' else given);
          dash = [char_of (151 :: nat)]
      in take MAX_KEY_NAME_LEN (''pandaprobe-cli '' @ dash @ '' '' @ clean_label @ '' '' @ dash @ '' '' @ date_text now))"

record cli_world =
  cl_redis :: redis
  cl_db :: identity_db

definition on_identity :: "(error, identity_db, 'a) exec \<Rightarrow> (error, cli_world, 'a) exec" where
  "on_identity m = (\<lambda>w. case m (cl_db w) of (r, d) \<Rightarrow> (r, w\<lparr>cl_db := d\<rparr>))"

definition on_redis :: "(error, redis, 'a) exec \<Rightarrow> (error, cli_world, 'a) exec" where
  "on_redis m = (\<lambda>w. case m (cl_redis w) of (r, x) \<Rightarrow> (r, w\<lparr>cl_redis := x\<rparr>))"

definition issue_code ::
  "datetime \<Rightarrow> string \<Rightarrow> uuid \<Rightarrow> uuid \<Rightarrow> uuid \<Rightarrow> string \<Rightarrow> string \<Rightarrow> string \<Rightarrow> int \<Rightarrow> (error, cli_world, string \<times> int) exec" where
  "issue_code now new_code user_id org project code_challenge code_challenge_method label expires_days =
     bindE (guardE (code_challenge_method = ''S256'')
        (ValidationError ''Unsupported code_challenge_method. Only 'S256' is allowed.'')) (\<lambda>_.
     bindE (guardE (code_challenge \<noteq> [] \<and> strip code_challenge \<noteq> []) (ValidationError ''code_challenge is required.'')) (\<lambda>_.
     bindE (guardE (expires_days = ALLOWED_EXPIRES_DAYS)
        (ValidationError ''Only a 90-day key lifetime is supported for the CLI.'')) (\<lambda>_.
     bindE (on_identity (require_membership user_id org)) (\<lambda>_.
     bindE (on_identity (get_project project (Some org))) (\<lambda>pj.
     let payload = \<lparr>cp_user_id = user_id, cp_org_id = org, cp_project_id = pj_id pj, cp_project_name = pj_name pj,
           cp_code_challenge = code_challenge, cp_label = label, cp_expires_days = expires_days\<rparr> in
     bindE (on_redis (modifyE (\<lambda>r. r_set_ex now r (CliCodeKey new_code) (RCode payload) CODE_TTL_SECONDS))) (\<lambda>_.
     ret (new_code, CODE_TTL_SECONDS)))))))"

definition INVALID_CODE :: error where
  "INVALID_CODE = AuthenticationError ''Authorization code is invalid, expired, or already used.''"

text \<open>
  \<open>exchange\<close> up to and including the check of the verifier, its deletion of the code, and what it does
  with the tables. Other requests can run between the parts.
\<close>

definition read_code :: "(string \<Rightarrow> nat list) \<Rightarrow> datetime \<Rightarrow> string \<Rightarrow> string \<Rightarrow> (error, redis, cli_payload) exec" where
  "read_code digest now c verifier =
     bindE (guardE (c \<noteq> [] \<and> verifier \<noteq> []) (ValidationError ''Both 'code' and 'code_verifier' are required.'')) (\<lambda>_.
     bindE (getsE (\<lambda>r. r_get now r (CliCodeKey c))) (\<lambda>raw. case raw of
       Some (RCode payload) \<Rightarrow>
         bindE (liftE (verify_pkce digest verifier (cp_code_challenge payload))) (\<lambda>ok.
         bindE (guardE ok (AuthenticationError ''PKCE verification failed.'')) (\<lambda>_.
         ret payload))
     | _ \<Rightarrow> raise INVALID_CODE))"

definition take_code :: "datetime \<Rightarrow> string \<Rightarrow> (error, redis, unit) exec" where
  "take_code now c = (\<lambda>r. case r_delete now r (CliCodeKey c) of (n, r') \<Rightarrow> (if n = 0 then Inl INVALID_CODE else Inr (), r'))"

definition mint_key :: "(string \<Rightarrow> string) \<Rightarrow> datetime \<Rightarrow> string \<Rightarrow> cli_payload \<Rightarrow> (error, identity_db, api_key \<times> string) exec" where
  "mint_key sha256 now token payload =
     bindE (require_membership (cp_user_id payload) (cp_org_id payload)) (\<lambda>_.
     create_api_key sha256 now token (cp_org_id payload) (key_name_from_label now (cp_label payload)) (Some (cp_user_id payload))
       (int_text (cp_expires_days payload) @ ''d''))"

record cli_key =
  ck_api_key :: string
  ck_project_name :: string
  ck_org_id :: uuid
  ck_user_id :: uuid
  ck_key_id :: uuid
  ck_key_prefix :: string
  ck_expires_at :: "datetime option"

definition exchange ::
  "(string \<Rightarrow> nat list) \<Rightarrow> (string \<Rightarrow> string) \<Rightarrow> datetime \<Rightarrow> string \<Rightarrow> string \<Rightarrow> string \<Rightarrow> (error, cli_world, cli_key) exec" where
  "exchange digest sha256 now token c verifier =
     bindE (on_redis (read_code digest now c verifier)) (\<lambda>payload.
     bindE (on_redis (take_code now c)) (\<lambda>_.
     bindE (on_identity (mint_key sha256 now token payload)) (\<lambda>(k, raw).
     ret \<lparr>ck_api_key = raw, ck_project_name = cp_project_name payload, ck_org_id = cp_org_id payload,
       ck_user_id = cp_user_id payload, ck_key_id = ak_id k, ck_key_prefix = ak_prefix k, ck_expires_at = ak_expires_at k\<rparr>)))"

section \<open>The endpoints\<close>

text \<open>A raised exception rolls the tables back; what was written to Redis stays.\<close>

definition cli_session :: "(error, cli_world, 'a) exec \<Rightarrow> (error, cli_world, 'a) exec" where
  "cli_session m = (\<lambda>w. case m w of (Inl e, w') \<Rightarrow> (Inl e, w'\<lparr>cl_db := cl_db w\<rparr>) | (Inr x, w') \<Rightarrow> (Inr x, w'))"

definition issue_cli_code ::
  "datetime \<Rightarrow> string \<Rightarrow> uuid \<Rightarrow> uuid \<Rightarrow> string \<Rightarrow> string \<Rightarrow> string \<Rightarrow> int \<Rightarrow> api_context \<Rightarrow> (error, cli_world, string \<times> int) exec" where
  "issue_cli_code now new_code org project code_challenge code_challenge_method label expires_days ctx = cli_session (
     bindE (on_identity (require_user ctx)) (\<lambda>user.
     issue_code now new_code (usr_id user) org project code_challenge code_challenge_method label expires_days))"

definition exchange_cli_code ::
  "(string \<Rightarrow> nat list) \<Rightarrow> (string \<Rightarrow> string) \<Rightarrow> datetime \<Rightarrow> string \<Rightarrow> string \<Rightarrow> string \<Rightarrow> (error, cli_world, cli_key) exec" where
  "exchange_cli_code digest sha256 now token c verifier = cli_session (exchange digest sha256 now token c verifier)"

end
