(* ===== verification/CliLogin.thy ===== *)
theory CliLogin
  imports CliAuth
begin

text \<open>
  What the login of the command line client promises, when any number of requests run at once: a code
  is good for one key, within two minutes, and only for whoever knows the verifier.
\<close>

section \<open>Exchanges that interleave\<close>

text \<open>
  The codes that were issued with what they are bound to and when; the exchanges that have read their
  code and checked the verifier; those that have deleted it; and the keys, each with the tables
  before it was made.
\<close>

type_synonym issued = "string \<times> uuid \<times> uuid \<times> string \<times> datetime"
type_synonym exchanging = "string \<times> string \<times> cli_payload"

record cli_state =
  cs_now :: datetime
  cs_redis :: redis
  cs_db :: identity_db
  cs_issued :: "issued list"
  cs_read :: "exchanging list"
  cs_taken :: "(exchanging \<times> datetime) list"
  cs_minted :: "((exchanging \<times> datetime) \<times> identity_db \<times> api_key) list"

text \<open>
  One command of one request: a code is issued, under a name that is not in use; an exchange reads,
  deletes, or makes its key, or ends there; another request writes to the tables, whatever it may be,
  or to other keys of Redis; time passes.
\<close>

inductive cli_step :: "(string \<Rightarrow> nat list) \<Rightarrow> (string \<Rightarrow> string) \<Rightarrow> cli_state \<Rightarrow> cli_state \<Rightarrow> bool" for digest sha256 where
  issue: "issue_code (cs_now s) c u g p ch meth label n \<lparr>cl_redis = cs_redis s, cl_db = cs_db s\<rparr> = (Inr x, w) \<Longrightarrow>
    c \<notin> fst ` set (cs_issued s) \<Longrightarrow>
    cli_step digest sha256 s (s\<lparr>cs_redis := cl_redis w, cs_db := cl_db w, cs_issued := (c, u, g, ch, cs_now s) # cs_issued s\<rparr>)"
| reads: "read_code digest (cs_now s) c v (cs_redis s) = (Inr pl, r) \<Longrightarrow>
    cli_step digest sha256 s (s\<lparr>cs_redis := r, cs_read := (c, v, pl) # cs_read s\<rparr>)"
| takes: "(c, v, pl) \<in> set (cs_read s) \<Longrightarrow> take_code (cs_now s) c (cs_redis s) = (Inr x, r) \<Longrightarrow>
    cli_step digest sha256 s (s\<lparr>cs_redis := r, cs_read := remove1 (c, v, pl) (cs_read s),
      cs_taken := ((c, v, pl), cs_now s) # cs_taken s\<rparr>)"
| too_late: "(c, v, pl) \<in> set (cs_read s) \<Longrightarrow> take_code (cs_now s) c (cs_redis s) = (Inl e, r) \<Longrightarrow>
    cli_step digest sha256 s (s\<lparr>cs_redis := r, cs_read := remove1 (c, v, pl) (cs_read s)\<rparr>)"
| mints: "((c, v, pl), t) \<in> set (cs_taken s) \<Longrightarrow> mint_key sha256 (cs_now s) token pl (cs_db s) = (Inr (k, raw), d) \<Longrightarrow>
    cli_step digest sha256 s (s\<lparr>cs_db := d, cs_taken := remove1 ((c, v, pl), t) (cs_taken s),
      cs_minted := (((c, v, pl), t), cs_db s, k) # cs_minted s\<rparr>)"
| gives_up: "cli_step digest sha256 s (s\<lparr>cs_taken := remove1 y (cs_taken s), cs_read := remove1 z (cs_read s)\<rparr>)"
| others: "(\<And>c. r (CliCodeKey c) = cs_redis s (CliCodeKey c)) \<Longrightarrow> cli_step digest sha256 s (s\<lparr>cs_db := d, cs_redis := r\<rparr>)"
| time: "cs_now s \<le> t \<Longrightarrow> cli_step digest sha256 s (s\<lparr>cs_now := t\<rparr>)"

definition no_codes :: "cli_state \<Rightarrow> bool" where
  "no_codes s \<longleftrightarrow> (\<forall>c. cs_redis s (CliCodeKey c) = None) \<and> cs_issued s = [] \<and> cs_read s = [] \<and> cs_taken s = [] \<and> cs_minted s = []"

inductive cli_reachable :: "(string \<Rightarrow> nat list) \<Rightarrow> (string \<Rightarrow> string) \<Rightarrow> cli_state \<Rightarrow> bool" for digest sha256 where
  start: "no_codes s \<Longrightarrow> cli_reachable digest sha256 s"
| step: "cli_reachable digest sha256 s \<Longrightarrow> cli_step digest sha256 s t \<Longrightarrow> cli_reachable digest sha256 t"

section \<open>The invariant\<close>

text \<open>What a payload has to do with the code it was issued for.\<close>

definition bound_to :: "cli_payload \<Rightarrow> string \<Rightarrow> issued \<Rightarrow> bool" where
  "bound_to pl c i \<longleftrightarrow> (case i of (c', u, g, ch, t) \<Rightarrow> c' = c \<and> cp_user_id pl = u \<and> cp_org_id pl = g \<and> cp_code_challenge pl = ch)"

definition issued_at :: "issued \<Rightarrow> datetime" where
  "issued_at i = (case i of (c, u, g, ch, t) \<Rightarrow> t)"

definition in_time :: "issued list \<Rightarrow> (string \<Rightarrow> nat list) \<Rightarrow> exchanging \<times> datetime \<Rightarrow> bool" where
  "in_time is digest x \<longleftrightarrow> (case x of ((c, v, pl), t) \<Rightarrow>
     verify_pkce digest v (cp_code_challenge pl) = Inr True
     \<and> (\<exists>i \<in> set is. bound_to pl c i \<and> t < issued_at i + seconds CODE_TTL_SECONDS))"

definition was_member :: "uuid \<Rightarrow> uuid \<Rightarrow> identity_db \<Rightarrow> bool" where
  "was_member u g d \<longleftrightarrow> (\<exists>m \<in> set (members d). mb_user_id m = u \<and> mb_org_id m = g)"

definition key_for :: "cli_payload \<Rightarrow> identity_db \<times> api_key \<Rightarrow> bool" where
  "key_for pl x \<longleftrightarrow> (case x of (d, k) \<Rightarrow> was_member (cp_user_id pl) (cp_org_id pl) d \<and> ak_org_id k = cp_org_id pl)"

text \<open>The codes for which a key was made or will be.\<close>

definition spent :: "cli_state \<Rightarrow> string list" where
  "spent s = map (\<lambda>x. fst (fst x)) (cs_taken s) @ map (\<lambda>y. fst (fst (fst y))) (cs_minted s)"

definition stored_ok :: "cli_state \<Rightarrow> bool" where
  "stored_ok s \<longleftrightarrow> (\<forall>c v x. cs_redis s (CliCodeKey c) = Some (v, x) \<longrightarrow>
     (\<exists>pl. v = RCode pl \<and> (\<exists>i \<in> set (cs_issued s). bound_to pl c i \<and> x = Some (issued_at i + seconds CODE_TTL_SECONDS))))"

definition cli_inv :: "(string \<Rightarrow> nat list) \<Rightarrow> cli_state \<Rightarrow> bool" where
  "cli_inv digest s \<longleftrightarrow> stored_ok s \<and> distinct (map fst (cs_issued s))
   \<and> distinct (spent s) \<and> (\<forall>c \<in> set (spent s). cs_redis s (CliCodeKey c) = None \<and> c \<in> fst ` set (cs_issued s))
   \<and> (\<forall>(c, v, pl) \<in> set (cs_read s). verify_pkce digest v (cp_code_challenge pl) = Inr True \<and> (\<exists>i \<in> set (cs_issued s). bound_to pl c i))
   \<and> (\<forall>x \<in> set (cs_taken s @ map fst (cs_minted s)). in_time (cs_issued s) digest x)
   \<and> (\<forall>(((c, v, pl), t), y) \<in> set (cs_minted s). key_for pl y)"

section \<open>The parts of an exchange\<close>

lemma reads_only:
  "snd (on_identity (require_membership u g) w) = w" "snd (on_identity (get_project p g') w) = w"
  by (auto simp: on_identity_def require_membership_def get_membership_def required_def get_project_def get_project_row_def
      guardE_def bindE_def split: option.splits sum.splits prod.splits if_splits)

lemma issue_code_ok:
  assumes "issue_code now c u g p ch meth label n w = (Inr x, w')"
  shows "\<exists>pl. bound_to pl c (c, u, g, ch, now) \<and> cp_expires_days pl = ALLOWED_EXPIRES_DAYS
    \<and> (\<exists>m. require_membership u g (cl_db w) = (Inr m, cl_db w))
    \<and> w' = w\<lparr>cl_redis := r_set_ex now (cl_redis w) (CliCodeKey c) (RCode pl) CODE_TTL_SECONDS\<rparr>"
proof -
  from assms obtain m t pj t' where run: "on_identity (require_membership u g) w = (Inr m, t)" "on_identity (get_project p (Some g)) t = (Inr pj, t')"
    and w': "w' = t'\<lparr>cl_redis := r_set_ex now (cl_redis t') (CliCodeKey c)
      (RCode \<lparr>cp_user_id = u, cp_org_id = g, cp_project_id = pj_id pj, cp_project_name = pj_name pj,
         cp_code_challenge = ch, cp_label = label, cp_expires_days = n\<rparr>) CODE_TTL_SECONDS\<rparr>"
    and n: "n = ALLOWED_EXPIRES_DAYS"
    by (auto simp: issue_code_def bindE_Inr_iff guardE_def on_redis_def Let_def split: if_splits)
  have t: "t = w" "t' = t" using run reads_only by (metis snd_conv)+
  then have "require_membership u g (cl_db w) = (Inr m, cl_db w)"
    using run(1) by (auto simp: on_identity_def split: prod.splits)
  with w' t n show ?thesis by (intro exI conjI) (auto simp: bound_to_def)
qed

lemma read_code_ok:
  assumes "read_code digest now c v r = (Inr pl, r')"
  shows "r' = r \<and> r_get now r (CliCodeKey c) = Some (RCode pl) \<and> verify_pkce digest v (cp_code_challenge pl) = Inr True"
  using assms
  by (auto simp: read_code_def bindE_Inr_iff guardE_def split: if_splits option.splits redis_value.splits sum.splits)

lemma take_code_run:
  "take_code now c r = (if r_get now r (CliCodeKey c) = None then Inl INVALID_CODE else Inr (), r_del r (CliCodeKey c))"
  by (simp add: take_code_def r_delete_def)

lemma mint_key_ok:
  assumes "mint_key sha256 now token pl d = (Inr (k, raw), d')"
  shows "key_for pl (d, k) \<and> (\<exists>n e. create_api_key sha256 now token (cp_org_id pl) n (Some (cp_user_id pl)) e d = (Inr (k, raw), d'))"
proof -
  let ?key = "create_api_key sha256 now token (cp_org_id pl) (key_name_from_label now (cp_label pl)) (Some (cp_user_id pl))
    (int_text (cp_expires_days pl) @ ''d'')"
  from assms obtain m t where m: "require_membership (cp_user_id pl) (cp_org_id pl) d = (Inr m, t)" and key: "?key t = (Inr (k, raw), d')"
    by (auto simp: mint_key_def bindE_Inr_iff)
  from m have "t = d \<and> was_member (cp_user_id pl) (cp_org_id pl) d"
    by (auto simp: was_member_def require_membership_def get_membership_def required_def bindE_Inr_iff
        filter_eq_Cons_iff split: option.splits dest!: scalar_one_or_none_SomeD)
  with key create_api_key_ok[OF key] show ?thesis by (auto simp: key_for_def)
qed

section \<open>Every step keeps the invariant\<close>

lemma bound_unique:
  assumes "distinct (map fst is)" "i \<in> set is" "j \<in> set is" "bound_to pl c i" "bound_to pl' c j"
  shows "i = j"
proof -
  have "fst i = fst j" using assms(4,5) by (auto simp: bound_to_def split: prod.splits)
  with assms(1-3) show ?thesis by (simp add: distinct_map inj_on_def)
qed

lemma in_time_more: "in_time is digest x \<Longrightarrow> set is \<subseteq> set js \<Longrightarrow> in_time js digest x"
  by (fastforce simp: in_time_def split: prod.splits)

lemma distinct_remove1_map: "distinct (map f xs @ ys) \<Longrightarrow> distinct (map f (remove1 x xs) @ ys)"
proof (induction xs)
  case (Cons a xs)
  then show ?case using set_remove1_subset[of x xs] by auto
qed simp

lemma cli_inv_start: "no_codes s \<Longrightarrow> cli_inv digest s"
  by (simp add: no_codes_def cli_inv_def stored_ok_def spent_def)

lemma cli_inv_issue:
  assumes "cli_inv digest s" and "bound_to pl c (c, u, g, ch, cs_now s)" and "c \<notin> fst ` set (cs_issued s)"
  shows "cli_inv digest (s\<lparr>cs_redis := r_set_ex (cs_now s) (cs_redis s) (CliCodeKey c) (RCode pl) CODE_TTL_SECONDS,
    cs_issued := (c, u, g, ch, cs_now s) # cs_issued s\<rparr>)"
proof -
  let ?t = "s\<lparr>cs_redis := r_set_ex (cs_now s) (cs_redis s) (CliCodeKey c) (RCode pl) CODE_TTL_SECONDS, cs_issued := (c, u, g, ch, cs_now s) # cs_issued s\<rparr>"
  have "stored_ok s" using assms(1) by (simp add: cli_inv_def)
  then have "stored_ok ?t" using assms(2) unfolding stored_ok_def
    by (simp add: r_set_ex_def issued_at_def) blast
  moreover have "spent ?t = spent s" by (simp add: spent_def)
  moreover have "x \<noteq> c" if "x \<in> set (spent s)" for x using that assms(1,3) by (auto simp: cli_inv_def)
  ultimately show ?thesis
    using assms(1,3) unfolding cli_inv_def by (auto simp: r_set_ex_def intro: in_time_more[OF _ set_subset_Cons])
qed

lemma cli_inv_take:
  assumes inv: "cli_inv digest s" and rd: "(c, v, pl) \<in> set (cs_read s)" and live: "r_get (cs_now s) (cs_redis s) (CliCodeKey c) \<noteq> None"
  shows "cli_inv digest (s\<lparr>cs_redis := r_del (cs_redis s) (CliCodeKey c), cs_read := remove1 (c, v, pl) (cs_read s),
    cs_taken := ((c, v, pl), cs_now s) # cs_taken s\<rparr>)"
proof -
  let ?t = "s\<lparr>cs_redis := r_del (cs_redis s) (CliCodeKey c), cs_read := remove1 (c, v, pl) (cs_read s), cs_taken := ((c, v, pl), cs_now s) # cs_taken s\<rparr>"
  from live obtain y x where e: "cs_redis s (CliCodeKey c) = Some (y, x)" "live (cs_now s) x"
    by (auto simp: r_get_def split: option.splits if_splits)
  have "stored_ok s" using inv by (simp add: cli_inv_def)
  with e(1) obtain pl' i' where i': "i' \<in> set (cs_issued s)" "bound_to pl' c i'" "x = Some (issued_at i' + seconds CODE_TTL_SECONDS)"
    unfolding stored_ok_def by blast
  from inv rd obtain i where i: "i \<in> set (cs_issued s)" "bound_to pl c i" and pk: "verify_pkce digest v (cp_code_challenge pl) = Inr True"
    by (fastforce simp: cli_inv_def)
  have "i = i'" using bound_unique inv i i' unfolding cli_inv_def by blast
  then have "in_time (cs_issued s) digest ((c, v, pl), cs_now s)" using pk i i' e by (auto simp: in_time_def live_def)
  moreover have "c \<notin> set (spent s)" using inv e by (auto simp: cli_inv_def)
  moreover have "spent ?t = c # spent s" by (simp add: spent_def)
  moreover have "c \<in> fst ` set (cs_issued s)" using i by (force simp: bound_to_def)
  moreover have "stored_ok ?t" using inv by (auto simp: cli_inv_def stored_ok_def r_del_def)
  ultimately show ?thesis
    using inv unfolding cli_inv_def by (auto simp: r_del_def dest: set_remove1_subset[THEN subsetD])
qed

lemma distinct_moved:
  "distinct (map f xs @ ys) \<Longrightarrow> x \<in> set xs \<Longrightarrow> distinct (map f (remove1 x xs) @ f x # ys)"
proof (induction xs)
  case (Cons a xs)
  then show ?case using set_remove1_subset[of x xs] by (cases "x = a") auto
qed simp

lemma cli_inv_drop_read:
  "cli_inv digest s \<Longrightarrow> cli_inv digest (s\<lparr>cs_read := remove1 z (cs_read s)\<rparr>)"
  unfolding cli_inv_def stored_ok_def spent_def by (auto dest: set_remove1_subset[THEN subsetD])

lemma cli_inv_drop_taken:
  assumes "cli_inv digest s"
  shows "cli_inv digest (s\<lparr>cs_taken := remove1 y (cs_taken s)\<rparr>)"
proof -
  let ?s = "s\<lparr>cs_taken := remove1 y (cs_taken s)\<rparr>"
  have "distinct (spent ?s)"
    using distinct_remove1_map[of "\<lambda>x. fst (fst x)" "cs_taken s" "map (\<lambda>y. fst (fst (fst y))) (cs_minted s)" y] assms
    by (simp add: cli_inv_def spent_def)
  moreover have "set (spent ?s) \<subseteq> set (spent s)" by (auto simp: spent_def dest: set_remove1_subset[THEN subsetD])
  moreover have "stored_ok ?s" using assms by (simp add: cli_inv_def stored_ok_def)
  ultimately show ?thesis using assms unfolding cli_inv_def by (auto dest: set_remove1_subset[THEN subsetD])
qed

lemma cli_inv_del:
  "cli_inv digest s \<Longrightarrow> cli_inv digest (s\<lparr>cs_redis := r_del (cs_redis s) (CliCodeKey c)\<rparr>)"
  unfolding cli_inv_def stored_ok_def spent_def by (auto simp: r_del_def)

lemma cli_inv_mint:
  assumes "cli_inv digest s" and x: "((c, v, pl), t) \<in> set (cs_taken s)" and "key_for pl y"
  shows "cli_inv digest (s\<lparr>cs_taken := remove1 ((c, v, pl), t) (cs_taken s), cs_minted := (((c, v, pl), t), y) # cs_minted s\<rparr>)"
proof -
  let ?s = "s\<lparr>cs_taken := remove1 ((c, v, pl), t) (cs_taken s), cs_minted := (((c, v, pl), t), y) # cs_minted s\<rparr>"
  have d: "distinct (spent ?s)"
    using distinct_moved[OF _ x, of "\<lambda>x. fst (fst x)" "map (\<lambda>y. fst (fst (fst y))) (cs_minted s)"] assms(1)
    by (simp add: cli_inv_def spent_def)
  have "set (spent ?s) \<subseteq> set (spent s)" using x by (force simp: spent_def dest: set_remove1_subset[THEN subsetD])
  moreover have "stored_ok ?s" using assms(1) by (simp add: cli_inv_def stored_ok_def)
  ultimately show ?thesis using assms d unfolding cli_inv_def by (auto dest: set_remove1_subset[THEN subsetD])
qed

lemma cli_inv_tables: "cli_inv digest (s\<lparr>cs_db := d\<rparr>) = cli_inv digest s" "cli_inv digest (s\<lparr>cs_now := t\<rparr>) = cli_inv digest s"
  by (simp_all add: cli_inv_def stored_ok_def spent_def)

lemma cli_step_inv:
  assumes "cli_step digest sha256 s t" and inv: "cli_inv digest s"
  shows "cli_inv digest t"
  using assms(1)
proof cases
  case (issue c u g p ch meth label n x w)
  from issue_code_ok[OF issue(2)] obtain pl where "bound_to pl c (c, u, g, ch, cs_now s)"
    "cl_redis w = r_set_ex (cs_now s) (cs_redis s) (CliCodeKey c) (RCode pl) CODE_TTL_SECONDS" by auto
  with cli_inv_issue[OF inv this(1) issue(3)] cli_inv_tables(1)
  show ?thesis unfolding issue(1) by (simp add: cli_inv_def stored_ok_def spent_def)
next
  case (reads c v pl r)
  note ok = read_code_ok[OF reads(2)]
  then obtain x where "cs_redis s (CliCodeKey c) = Some (RCode pl, x)" by (auto simp: r_get_def split: option.splits if_splits)
  then have "\<exists>i \<in> set (cs_issued s). bound_to pl c i" using inv unfolding cli_inv_def stored_ok_def by blast
  with ok inv show ?thesis unfolding reads(1) cli_inv_def stored_ok_def spent_def by simp
next
  case (takes c v pl x r)
  then show ?thesis using cli_inv_take[OF inv takes(2)] by (simp add: take_code_run split: if_splits)
next
  case (too_late c v pl e r)
  then show ?thesis using cli_inv_drop_read[OF cli_inv_del[OF inv, of c], of "(c, v, pl)"]
    by (simp add: take_code_run split: if_splits)
next
  case (mints c v pl tt token k raw d)
  have "key_for pl (cs_db s, k)" using mint_key_ok[OF mints(3)] by blast
  from cli_inv_mint[OF inv mints(2) this] show ?thesis unfolding mints(1) by (simp add: cli_inv_def stored_ok_def spent_def)
next
  case (gives_up z y)
  with cli_inv_drop_read[OF cli_inv_drop_taken[OF inv, of y], of z] show ?thesis by simp
next
  case (others r d)
  then show ?thesis using inv by (simp add: cli_inv_def stored_ok_def spent_def)
next
  case (time tt)
  then show ?thesis using inv by (simp add: cli_inv_tables)
qed

lemma cli_reachable_inv: "cli_reachable digest sha256 s \<Longrightarrow> cli_inv digest s"
  by (induction rule: cli_reachable.induct) (auto intro: cli_inv_start cli_step_inv)

section \<open>A code is good for one key\<close>

text \<open>
  C15: A login code yields at most one API key. However the requests of any number of clients
  interleave, Redis command by Redis command, no two keys are made for the same code; and every key
  that is made belongs to a code that was issued, to someone who presented the verifier of its
  challenge and whose deletion of the code came within 120 seconds of the issue; it is a key of the
  organization the code was issued for, and the user was a member of it when the key was made.
\<close>

theorem cli_code_single_use:
  assumes "cli_reachable digest sha256 s"
  shows "distinct (map (\<lambda>y. fst (fst (fst y))) (cs_minted s))
    \<and> (\<forall>(((c, v, pl), t), d, k) \<in> set (cs_minted s). \<exists>u g ch t0. (c, u, g, ch, t0) \<in> set (cs_issued s)
        \<and> verify_pkce digest v ch = Inr True \<and> t < t0 + seconds 120 \<and> was_member u g d \<and> ak_org_id k = g)"
proof -
  have inv: "cli_inv digest s" using assms by (rule cli_reachable_inv)
  then have "distinct (map (\<lambda>y. fst (fst (fst y))) (cs_minted s))" by (simp add: cli_inv_def spent_def)
  moreover have "\<exists>u g ch t0. (c, u, g, ch, t0) \<in> set (cs_issued s) \<and> verify_pkce digest v ch = Inr True \<and> t < t0 + seconds 120
      \<and> was_member u g d \<and> ak_org_id k = g" if "(((c, v, pl), t), d, k) \<in> set (cs_minted s)" for c v pl t d k
  proof -
    have "((c, v, pl), t) \<in> set (cs_taken s @ map fst (cs_minted s))" using that by force
    then have "in_time (cs_issued s) digest ((c, v, pl), t)" using inv unfolding cli_inv_def by blast
    moreover have "key_for pl (d, k)" using inv that unfolding cli_inv_def by fast
    ultimately show ?thesis by (force simp: in_time_def bound_to_def key_for_def issued_at_def CODE_TTL_SECONDS_def)
  qed
  ultimately show ?thesis by auto
qed

text \<open>Two clients that present the right verifier for one code at once.\<close>

definition demo_digest :: "string \<Rightarrow> nat list" where
  "demo_digest v = map (\<lambda>c. of_char c) v"

definition demo_cli :: cli_state where
  "demo_cli = \<lparr>cs_now = 0, cs_redis = Map.empty, cs_db = demo_idb\<lparr>projects := [\<lparr>pj_id = 35, pj_org_id = 10, pj_name = ''web'', pj_description = [], pj_created_at = 0\<rparr>]\<rparr>,
     cs_issued = [], cs_read = [], cs_taken = [], cs_minted = []\<rparr>"

definition demo_challenge :: string where
  "demo_challenge = challenge_of demo_digest ''secret''"

definition demo_payload :: cli_payload where
  "demo_payload = \<lparr>cp_user_id = 1, cp_org_id = 10, cp_project_id = 35, cp_project_name = ''web'', cp_code_challenge = demo_challenge,
     cp_label = ''laptop'', cp_expires_days = 90\<rparr>"

definition demo_issue :: "(error + string \<times> int) \<times> cli_world" where
  "demo_issue = issue_code 0 ''code'' 1 10 35 demo_challenge ''S256'' ''laptop'' 90 \<lparr>cl_redis = cs_redis demo_cli, cl_db = cs_db demo_cli\<rparr>"

definition demo_at :: "redis \<Rightarrow> exchanging list \<Rightarrow> (exchanging \<times> datetime) list \<Rightarrow> cli_state" where
  "demo_at r reading taken = \<lparr>cs_now = 0, cs_redis = r, cs_db = cl_db (snd demo_issue), cs_issued = [(''code'', 1, 10, demo_challenge, 0)],
     cs_read = reading, cs_taken = taken, cs_minted = []\<rparr>"

abbreviation demo_r :: redis where "demo_r \<equiv> cl_redis (snd demo_issue)"
abbreviation demo_ex :: exchanging where "demo_ex \<equiv> (''code'', ''secret'', demo_payload)"

lemma demo_issued: "cli_reachable demo_digest id (demo_at demo_r [] [])"
proof -
  have "fst demo_issue = Inr (''code'', 120)" by code_simp
  then have "demo_issue = (Inr (''code'', 120), snd demo_issue)" by (metis prod.collapse)
  then have "cli_step demo_digest id demo_cli (demo_at demo_r [] [])"
    using cli_step.issue[of demo_cli "''code''" 1 10 35 demo_challenge "''S256''" "''laptop''" 90]
    by (simp add: demo_issue_def demo_cli_def demo_at_def)
  moreover have "cli_reachable demo_digest id demo_cli" by (rule start) (simp add: no_codes_def demo_cli_def)
  ultimately show ?thesis by (metis step)
qed

lemma demo_read: "cli_step demo_digest id (demo_at demo_r rd tk) (demo_at demo_r (demo_ex # rd) tk)"
proof -
  have "fst (read_code demo_digest 0 ''code'' ''secret'' demo_r) = Inr demo_payload" by code_simp
  then have "read_code demo_digest 0 ''code'' ''secret'' demo_r = (Inr demo_payload, demo_r)"
    using read_code_ok by (metis prod.collapse)
  then show ?thesis
    using cli_step.reads[of demo_digest "demo_at demo_r rd tk" "''code''" "''secret''" demo_payload demo_r id] by (simp add: demo_at_def)
qed

lemma demo_take: "cli_step demo_digest id (demo_at demo_r (demo_ex # rd) []) (demo_at (r_del demo_r (CliCodeKey ''code'')) rd [(demo_ex, 0)])"
proof -
  have "r_get 0 demo_r (CliCodeKey ''code'') \<noteq> None" by code_simp
  then show ?thesis
    using cli_step.takes[of "''code''" "''secret''" demo_payload "demo_at demo_r (demo_ex # rd) []" "()" _ demo_digest id]
    by (simp add: take_code_run demo_at_def)
qed

lemma demo_late: "cli_step demo_digest id (demo_at (r_del demo_r (CliCodeKey ''code'')) (demo_ex # rd) tk) (demo_at (r_del demo_r (CliCodeKey ''code'')) rd tk)"
proof -
  let ?r = "r_del demo_r (CliCodeKey ''code'')"
  have "r_del ?r (CliCodeKey ''code'') = ?r" by (simp add: r_del_def)
  then show ?thesis
    using cli_step.too_late[of "''code''" "''secret''" demo_payload "demo_at ?r (demo_ex # rd) tk" INVALID_CODE _ demo_digest id]
    by (simp add: take_code_run demo_at_def)
qed

lemma demo_race: "cli_reachable demo_digest id (demo_at (r_del demo_r (CliCodeKey ''code'')) [] [(demo_ex, 0)])"
  using demo_issued demo_read demo_read demo_take demo_late by (meson step)

theorem cli_code_single_use_witness:
  "\<exists>s. cli_reachable demo_digest id s \<and> length (cs_minted s) = 1
    \<and> (\<forall>(((c, v, pl), t), d, k) \<in> set (cs_minted s). \<exists>u g ch t0. (c, u, g, ch, t0) \<in> set (cs_issued s)
        \<and> verify_pkce demo_digest v ch = Inr True \<and> t < t0 + seconds 120 \<and> was_member u g d \<and> ak_org_id k = g)"
proof -
  let ?s = "demo_at (r_del demo_r (CliCodeKey ''code'')) [] [(demo_ex, 0)]"
  let ?m = "mint_key id 0 ''00ff'' demo_payload (cl_db (snd demo_issue))"
  have "\<not> isl (fst ?m)" by code_simp
  then obtain k raw d where m: "?m = (Inr (k, raw), d)" by (cases ?m; cases "fst ?m") auto
  let ?t = "?s\<lparr>cs_db := d, cs_taken := [], cs_minted := [((demo_ex, 0), cl_db (snd demo_issue), k)]\<rparr>"
  have "cli_step demo_digest id ?s ?t"
    using cli_step.mints[of "''code''" "''secret''" demo_payload 0 ?s id "''00ff''" k raw d demo_digest] m by (simp add: demo_at_def)
  then have r: "cli_reachable demo_digest id ?t" using demo_race by (metis step)
  moreover have "length (cs_minted ?t) = 1" by simp
  ultimately show ?thesis using cli_code_single_use[OF r] by blast
qed

section \<open>The login succeeds\<close>

lemma b64_ascii: "code (b64_char n) < 128"
  by (auto simp: b64_char_def code_def)

lemma encode_ascii: "list_all (\<lambda>c. code c < 128) (urlsafe_b64encode bs)"
  by (induction bs rule: urlsafe_b64encode.induct) (auto simp: b64_ascii, auto simp: code_def)

lemma challenge_ascii: "list_all (\<lambda>c. code c < 128) (challenge_of digest v)"
  using encode_ascii[of "digest v"] by (auto simp: challenge_of_def rstrip_def list_all_iff dest: set_dropWhileD)

lemma own_verifier: "verify_pkce digest v (challenge_of digest v) = Inr True"
  using challenge_ascii[of digest v] by (simp add: verify_pkce_def compare_digest_def)

lemma mint_key_run:
  assumes "require_membership (cp_user_id pl) (cp_org_id pl) d = (Inr m, d)"
    and "user_exists (cp_user_id pl) d" "org_exists (cp_org_id pl) d" "cp_expires_days pl = ALLOWED_EXPIRES_DAYS"
    and "\<forall>k \<in> set (api_keys d). ak_hash k \<noteq> sha256 (generate_api_key token)"
  shows "\<exists>k d'. mint_key sha256 now token pl d = (Inr (k, generate_api_key token), d') \<and> ak_expires_at k = Some (now + days 90)"
proof -
  obtain o' where "find (\<lambda>r. org_id r = cp_org_id pl) (orgs d) = Some o'"
    using assms(3) by (cases "find (\<lambda>r. org_id r = cp_org_id pl) (orgs d)") (auto simp: org_exists_def list_ex_iff find_None_iff)
  then have "get_organization (cp_org_id pl) d = (Inr o', d)" by (simp add: get_organization_def get_organization_row_def bindE_def required_def)
  moreover have "int_text ALLOWED_EXPIRES_DAYS @ ''d'' = ''90d''" by code_simp
  moreover have "\<not> list_ex (\<lambda>k. ak_hash k = sha256 (generate_api_key token)) (api_keys d)" using assms(5) by (simp add: list_ex_iff)
  moreover have "mint_key sha256 now token pl d = create_api_key sha256 now token (cp_org_id pl) (key_name_from_label now (cp_label pl))
      (Some (cp_user_id pl)) (int_text (cp_expires_days pl) @ ''d'') d"
    unfolding mint_key_def bindE_def assms(1) by simp
  ultimately show ?thesis using assms(2-4)
    by (simp add: create_api_key_def bindE_def expiration_deltas_def create_api_key_row_def Let_def)
qed

text \<open>
  C16: The login of the command line client succeeds. The client that made the challenge gets, with its
  verifier and the code that a member of the organization obtained, a key within 120 seconds; the
  raw key authenticates as the organization for 90 days; and the same code is refused afterwards.
\<close>

theorem cli_login_roundtrip:
  assumes inv: "identity_inv (cl_db w)"
    and issue: "issue_code now c u g p (challenge_of digest v) meth label n w = (Inr x, w1)"
    and "c \<noteq> []" "v \<noteq> []" and time: "now' < now + seconds 120"
    and fresh: "\<forall>k \<in> set (api_keys (cl_db w)). ak_hash k \<noteq> sha256 (generate_api_key token)"
  shows "\<exists>k w2. exchange digest sha256 now' token c v w1 = (Inr k, w2)
    \<and> (\<forall>t \<le> now' + days 90. \<exists>ctx d. resolve_api_key sha256 t (ck_api_key k) None (cl_db w2) = (Inr ctx, d) \<and> org_id (cx_organization ctx) = g)
    \<and> fst (exchange digest sha256 now' token' c v w2) = Inl INVALID_CODE"
proof -
  obtain pl m where pl: "bound_to pl c (c, u, g, challenge_of digest v, now)" "cp_expires_days pl = ALLOWED_EXPIRES_DAYS"
    and m: "require_membership u g (cl_db w) = (Inr m, cl_db w)"
    and w1: "w1 = w\<lparr>cl_redis := r_set_ex now (cl_redis w) (CliCodeKey c) (RCode pl) CODE_TTL_SECONDS\<rparr>"
    using issue_code_ok[OF issue] by blast
  have get: "r_get now' (cl_redis w1) (CliCodeKey c) = Some (RCode pl)"
    using time by (simp add: w1 r_get_set_ex_later CODE_TTL_SECONDS_def)
  have read: "read_code digest now' c v (cl_redis w1) = (Inr pl, cl_redis w1)"
    using get assms(3,4) pl(1) by (simp add: read_code_def bindE_def guardE_def own_verifier bound_to_def)
  from m have "was_member u g (cl_db w)"
    by (auto simp: was_member_def require_membership_def get_membership_def required_def bindE_Inr_iff
        filter_eq_Cons_iff split: option.splits dest!: scalar_one_or_none_SomeD)
  then have ex: "user_exists u (cl_db w)" "org_exists g (cl_db w)"
    using inv by (auto simp: was_member_def identity_inv_def identity_wf_def wf_members_def)
  obtain k d where mint: "mint_key sha256 now' token pl (cl_db w) = (Inr (k, generate_api_key token), d)"
    and exp: "ak_expires_at k = Some (now' + days 90)"
    using mint_key_run[of pl "cl_db w" m sha256 token now'] m ex fresh pl by (auto simp: bound_to_def)
  obtain nm e where key: "create_api_key sha256 now' token g nm (Some u) e (cl_db w) = (Inr (k, generate_api_key token), d)"
    using mint_key_ok[OF mint] pl(1) by (auto simp: bound_to_def)
  let ?w2 = "w\<lparr>cl_redis := r_del (cl_redis w1) (CliCodeKey c), cl_db := d\<rparr>"
  obtain ck where run: "exchange digest sha256 now' token c v w1 = (Inr ck, ?w2)" "ck_api_key ck = generate_api_key token"
    using read get mint by (simp add: exchange_def bindE_def on_redis_def on_identity_def take_code_run w1)
  have "\<exists>ctx d'. resolve_api_key sha256 t (ck_api_key ck) None d = (Inr ctx, d') \<and> org_id (cx_organization ctx) = g" if "t \<le> now' + days 90" for t
    using created_key_resolves[OF key, of t] exp that run(2) by auto
  moreover have "fst (exchange digest sha256 now' token' c v ?w2) = Inl INVALID_CODE"
    using assms(3,4) by (simp add: exchange_def bindE_def on_redis_def read_code_def guardE_def)
  ultimately show ?thesis using run(1) by (intro exI[of _ ck] exI[of _ ?w2]) simp
qed

theorem cli_login_roundtrip_witness:
  "\<exists>k w2. exchange demo_digest id 1 ''00ff'' ''code'' ''secret'' (snd demo_issue) = (Inr k, w2)
    \<and> (\<exists>ctx d. resolve_api_key id (days 90) (ck_api_key k) None (cl_db w2) = (Inr ctx, d) \<and> org_id (cx_organization ctx) = 10)"
proof -
  let ?w = "\<lparr>cl_redis = cs_redis demo_cli, cl_db = cs_db demo_cli\<rparr>"
  have "identity_inv (cl_db ?w)"
    unfolding identity_inv_def identity_wf_def wf_users_def wf_orgs_def wf_members_def wf_invites_def wf_projects_def wf_keys_def
      wf_subs_def has_owners_def
    by (simp add: demo_cli_def demo_idb_def demo_user_def demo_member_def demo_org_sub_def user_exists_def org_exists_def unique_subs_def roles_def)
  moreover have "fst demo_issue = Inr (''code'', 120)" by code_simp
  then have "issue_code 0 ''code'' 1 10 35 (challenge_of demo_digest ''secret'') ''S256'' ''laptop'' 90 ?w = (Inr (''code'', 120), snd demo_issue)"
    by (metis demo_issue_def demo_challenge_def prod.collapse)
  moreover have "api_keys (cl_db ?w) = []" by (simp add: demo_cli_def demo_idb_def)
  ultimately have "\<exists>k w2. exchange demo_digest id 1 ''00ff'' ''code'' ''secret'' (snd demo_issue) = (Inr k, w2)
    \<and> (\<forall>t \<le> 1 + days 90. \<exists>ctx d. resolve_api_key id t (ck_api_key k) None (cl_db w2) = (Inr ctx, d) \<and> org_id (cx_organization ctx) = 10)
    \<and> fst (exchange demo_digest id 1 ''00ff'' ''code'' ''secret'' w2) = Inl INVALID_CODE"
    using cli_login_roundtrip[of ?w 0 "''code''" 1 10 35 demo_digest "''secret''" "''S256''" "''laptop''" 90 _ "snd demo_issue" 1 id "''00ff''" "''00ff''"]
    by (simp add: seconds_def)
  then show ?thesis by (meson le_add_same_cancel2 zero_le_one)
qed

end
