(* ===== verification/TraceIngestion.thy ===== *)
theory TraceIngestion
  imports TraceIsolation "HOL-Library.Sublist"
begin

text \<open>
  What the ingestion task leaves in the tables: a new trace is read back as it was sent, a message
  that the queue delivers again changes nothing but the form of its tags, and a trace identifier of
  another project is overwritten. The last section is about the search by name.
\<close>

section \<open>Merging\<close>

lemma coalesce_absorb: "coalesce a (coalesce a b) = coalesce a b" "coalesce a a = a"
  by (auto simp: coalesce_def split: option.splits)

lemma map_of_merge_dict: "map_of (merge_dict m x) = fold (\<lambda>(k, v) f. f(k \<mapsto> v)) x (map_of m)"
  by (induction x arbitrary: m) (auto simp: merge_dict_def update_conv')

lemma fst_update_known: "k \<in> fst ` set m \<Longrightarrow> map fst (AList.update k v m) = map fst m"
  by (induction m) auto

lemma update_same: "map_of m k = Some v \<Longrightarrow> AList.update k v m = m"
  by (induction m) auto

text \<open>What was merged once is there.\<close>

lemma merge_dict_has:
  "distinct (map fst x) \<Longrightarrow> (k, v) \<in> set x \<Longrightarrow> map_of (merge_dict m x) k = Some v"
proof (induction x arbitrary: m)
  case (Cons a x)
  show ?case
  proof (cases "a = (k, v)")
    case True
    with Cons.prems(1) have "k \<notin> fst ` set x" by auto
    then have "map_of (merge_dict n x) k = map_of n k" for n
      by (induction x arbitrary: n) (auto simp: merge_dict_def update_conv')
    with True show ?thesis by (simp add: merge_dict_def update_conv')
  next
    case False
    with Cons show ?thesis by (auto simp: merge_dict_def)
  qed
qed simp

lemma merge_dict_known:
  "(\<And>k v. (k, v) \<in> set x \<Longrightarrow> map_of m k = Some v) \<Longrightarrow> merge_dict m x = m"
  by (induction x) (auto simp: merge_dict_def update_same)

lemma merge_dict_again:
  "distinct (map fst x) \<Longrightarrow> merge_dict (merge_dict m x) x = merge_dict m x"
  "distinct (map fst x) \<Longrightarrow> merge_dict x x = x"
  by (rule merge_dict_known, simp add: merge_dict_has) (rule merge_dict_known, simp)

lemma merge_span_again:
  assumes "distinct (map fst (sp_metadata x))"
  shows "merge_span x (merge_span x s) = merge_span x s" "merge_span x x = x"
  using assms by (simp_all add: merge_span_def coalesce_json_def coalesce_absorb merge_dict_again)

section \<open>Replayed messages\<close>

definition sample_message :: trace where
  "sample_message = (sample_trace 11 1)\<lparr>tr_tags := [''b'', ''a'', ''b''], tr_metadata := [(''k'', JBool True)],
     tr_output := Some (JStr ''done''), tr_spans := [sample_span 112 11, sample_span 111 11]\<rparr>"

definition wf_message :: "trace \<Rightarrow> bool" where
  "wf_message t \<longleftrightarrow> distinct (map fst (tr_metadata t)) \<and> distinct (map sp_span_id (tr_spans t))
     \<and> (\<forall>s \<in> set (tr_spans t). distinct (map fst (sp_metadata s)))"

text \<open>A span is settled when upserting it again changes nothing.\<close>

definition settled :: "span \<Rightarrow> span list \<Rightarrow> bool" where
  "settled s rows \<longleftrightarrow> sp_span_id s \<in> sp_span_id ` set rows
     \<and> (\<forall>r \<in> set rows. sp_span_id r = sp_span_id s \<longrightarrow> merge_span (bound_span s) r = r)"

lemma settled_noop:
  assumes "settled s (span_rows d)"
  shows "upsert_span s d = (Inr (), d)"
proof -
  have "update_where (\<lambda>r. sp_span_id r = sp_span_id s) (merge_span (bound_span s)) (span_rows d) = span_rows d"
    using assms by (auto simp: settled_def update_where_def intro: map_idI)
  then show ?thesis using assms by (simp add: upsert_span_def settled_def)
qed

lemma bound_span_keys [simp]:
  "sp_span_id (bound_span s) = sp_span_id s" "sp_trace_id (bound_span s) = sp_trace_id s" "sp_metadata (bound_span s) = sp_metadata s"
  by (simp_all add: bound_span_def)

lemma upsert_settles:
  assumes "distinct (map fst (sp_metadata s))" "upsert_span s d = (Inr x, d')"
  shows "settled s (span_rows d')"
proof (cases "sp_span_id s \<in> sp_span_id ` set (span_rows d)")
  case True
  with assms(2) have d': "span_rows d' = update_where (\<lambda>r. sp_span_id r = sp_span_id s) (merge_span (bound_span s)) (span_rows d)"
    by (auto simp: upsert_span_def)
  then have "map sp_span_id (span_rows d') = map sp_span_id (span_rows d)"
    by (simp add: map_update_where merge_span_keys)
  then have "sp_span_id s \<in> sp_span_id ` set (span_rows d')" using True by (metis list.set_map)
  moreover have "merge_span (bound_span s) r = r" if "r \<in> set (span_rows d')" "sp_span_id r = sp_span_id s" for r
    using that assms(1) unfolding d'
    by (auto elim!: in_update_whereE simp: merge_span_again split: if_splits)
  ultimately show ?thesis by (simp add: settled_def)
next
  case False
  with assms have "span_rows d' = span_rows d @ [bound_span s]" by (auto simp: upsert_span_def split: if_splits)
  with False assms(1) show ?thesis by (auto simp: settled_def merge_span_again intro: rev_image_eqI)
qed

lemma upsert_keeps_settled:
  assumes "settled s (span_rows d)" "upsert_span s' d = (x, d')" "sp_span_id s' \<noteq> sp_span_id s"
  shows "settled s (span_rows d')"
  using assms
  by (auto simp: upsert_span_def settled_def set_update_where merge_span_keys image_iff split: if_splits)

lemma upserts_keep_settled:
  "settled s (span_rows d) \<Longrightarrow> forE ss upsert_span d = (x, d') \<Longrightarrow> sp_span_id s \<notin> sp_span_id ` set ss \<Longrightarrow> settled s (span_rows d')"
proof (induction ss arbitrary: d)
  case (Cons s' ss)
  obtain r e where e: "upsert_span s' d = (r, e)" by fastforce
  with Cons.prems have "settled s (span_rows e)" by (auto intro: upsert_keeps_settled)
  with Cons e show ?case by (cases r) (auto simp: bindE_def)
qed simp

lemma upserts_settle:
  assumes "forE ss upsert_span d = (Inr x, d')" "distinct (map sp_span_id ss)" "\<forall>s \<in> set ss. distinct (map fst (sp_metadata s))"
  shows "\<forall>s \<in> set ss. settled s (span_rows d')"
  using assms
proof (induction ss arbitrary: d)
  case (Cons s ss)
  then obtain e where e: "upsert_span s d = (Inr (), e)" "forE ss upsert_span e = (Inr x, d')"
    by (auto simp: bindE_Inr_iff)
  have "settled s (span_rows d')"
    using upserts_keep_settled[OF upsert_settles[OF _ e(1)] e(2)] Cons.prems(2,3) by simp
  with Cons e(2) show ?case by auto
qed simp

lemma settled_noops: "\<forall>s \<in> set ss. settled s (span_rows d) \<Longrightarrow> forE ss upsert_span d = (Inr (), d)"
  by (induction ss) (auto simp: bindE_def settled_noop)

text \<open>Upserting spans leaves the other tables alone.\<close>

lemma upsert_spans_frame:
  "forE ss upsert_span d = (x, d') \<Longrightarrow> d' = d\<lparr>span_rows := span_rows d'\<rparr>"
proof (induction ss arbitrary: d)
  case (Cons s ss)
  obtain r e where e: "upsert_span s d = (r, e)" by fastforce
  then have "e = d\<lparr>span_rows := span_rows e\<rparr>" by (auto simp: upsert_span_def split: if_splits)
  moreover have "d' = e \<or> d' = e\<lparr>span_rows := span_rows d'\<rparr>"
    using Cons.prems e Cons.IH[of e] by (cases r) (auto simp: bindE_def)
  ultimately show ?case by (metis obs_db.surjective obs_db.update_convs(2) obs_db.select_convs(2))
qed simp

text \<open>The merge of a row with itself: its tags become sorted and lose their duplicates.\<close>

definition tags_normalised :: "trace_row \<Rightarrow> trace_row" where
  "tags_normalised r = r\<lparr>tr_tags := distinct_tags (tr_tags r)\<rparr>"

lemma distinct_tags_absorb: "set ys \<subseteq> set xs \<Longrightarrow> distinct_tags (xs @ ys) = distinct_tags xs"
  unfolding distinct_tags_def sorted_list_of_set_sort_remdups[symmetric] by (simp add: Un_absorb2)

lemma set_distinct_tags [simp]: "set (distinct_tags xs) = set xs"
  by (simp add: distinct_tags_def)

lemma merge_trace_again:
  assumes "distinct (map fst (tr_metadata t))"
  shows "merge_trace (bound_trace n' t) (merge_trace (bound_trace n t) r) = tags_normalised (merge_trace (bound_trace n t) r)"
    "merge_trace (bound_trace n' t) (bound_trace n t) = tags_normalised (bound_trace n t)"
  using assms
  by (simp_all add: merge_trace_def bound_trace_def tags_normalised_def coalesce_absorb merge_dict_again distinct_tags_absorb trace.defs trace_row.defs)

lemma update_where_twice:
  "(\<And>r. P r \<Longrightarrow> P (f r)) \<Longrightarrow> update_where P g (update_where P f rows) = update_where P (g \<circ> f) rows"
  by (simp add: update_where_def)

lemma upsert_trace_row_again:
  assumes "distinct (map fst (tr_metadata t))" "upsert_trace_row n t d = (Inr x, d1)" "trace_rows e = trace_rows d1"
  shows "upsert_trace_row n' t e = (Inr (), e\<lparr>trace_rows := update_where (\<lambda>r. tr_trace_id r = tr_trace_id t) tags_normalised (trace_rows e)\<rparr>)"
proof (cases "tr_trace_id t \<in> tr_trace_id ` set (trace_rows d)")
  case True
  let ?P = "\<lambda>r :: trace_row. tr_trace_id r = tr_trace_id t"
  from True assms have e: "trace_rows e = update_where ?P (merge_trace (bound_trace n t)) (trace_rows d)"
    by (auto simp: upsert_trace_row_def)
  then have "map tr_trace_id (trace_rows e) = map tr_trace_id (trace_rows d)" by (simp add: map_update_where merge_trace_keys)
  then have "tr_trace_id t \<in> tr_trace_id ` set (trace_rows e)" using True by (metis list.set_map)
  moreover have "update_where ?P (merge_trace (bound_trace n' t)) (trace_rows e) = update_where ?P tags_normalised (trace_rows e)"
    unfolding e by (simp add: update_where_twice merge_trace_keys o_def merge_trace_again[OF assms(1)])
  ultimately show ?thesis by (simp add: upsert_trace_row_def)
next
  case False
  with assms have e: "trace_rows e = trace_rows d @ [bound_trace n t]"
    by (auto simp: upsert_trace_row_def split: if_splits)
  from False have "update_where (\<lambda>r. tr_trace_id r = tr_trace_id t) f (trace_rows d) = trace_rows d" for f
    by (force simp: update_where_def image_iff intro: map_idI)
  then show ?thesis
    by (simp add: upsert_trace_row_def e merge_trace_again[OF assms(1)])
qed

text \<open>
  C24: A trace message that the queue delivers again is harmless. Let the message have distinct span
  identifiers and no key twice in its metadata or that of its spans. Once the task has stored it, running
  it once more on the resulting tables succeeds with the same result, adds nothing and changes nothing
  but the tags of the stored trace, which are sorted and lose the duplicates they may have had.
\<close>

theorem replayed_trace_message:
  assumes "wf_message t" and "persist_trace n t d = (Inr i, d')"
  shows "persist_trace n' t d' =
    (Inr i, d'\<lparr>trace_rows := update_where (\<lambda>r. tr_trace_id r = tr_trace_id t) tags_normalised (trace_rows d')\<rparr>)"
proof -
  from assms(2) obtain d1 x y where d1: "upsert_trace_row n t d = (Inr x, d1)" and d': "forE (tr_spans t) upsert_span d1 = (Inr y, d')"
    and i: "i = tr_trace_id t"
    by (auto simp: persist_trace_def upsert_trace_def get_db_session_def bindE_Inr_iff split: prod.splits sum.splits)
  from upsert_spans_frame[OF d'] have "trace_rows d' = trace_rows d1" by (metis obs_db.ext_inject obs_db.surjective obs_db.update_convs(2))
  with d1 assms(1) have row: "upsert_trace_row n' t d' =
    (Inr (), d'\<lparr>trace_rows := update_where (\<lambda>r. tr_trace_id r = tr_trace_id t) tags_normalised (trace_rows d')\<rparr>)"
    by (intro upsert_trace_row_again) (auto simp: wf_message_def)
  have "\<forall>s \<in> set (tr_spans t). settled s (span_rows d')"
    using assms(1) by (intro upserts_settle[OF d']) (auto simp: wf_message_def)
  then show ?thesis
    by (simp add: persist_trace_def upsert_trace_def get_db_session_def bindE_def row settled_noops i)
qed

theorem replayed_trace_message_witness:
  "fst (persist_trace 7 sample_message sample_obs) = Inr 11
   \<and> map tr_tags (trace_rows (snd (persist_trace 7 sample_message sample_obs))) = [[], [], [''b'', ''a'', ''b'']]
   \<and> fst (persist_trace 8 sample_message (snd (persist_trace 7 sample_message sample_obs))) = Inr 11
   \<and> map tr_tags (trace_rows (snd (persist_trace 8 sample_message (snd (persist_trace 7 sample_message sample_obs))))) = [[], [], [''a'', ''b'']]"
proof -
  let ?d = "snd (persist_trace 7 sample_message sample_obs)"
  have wf: "wf_message sample_message" by code_simp
  have run: "fst (persist_trace 7 sample_message sample_obs) = Inr 11" by code_simp
  then have "persist_trace 7 sample_message sample_obs = (Inr 11, ?d)" by (metis prod.collapse)
  note again = replayed_trace_message[OF wf this, of 8]
  have "map tr_tags (trace_rows ?d) = [[], [], [''b'', ''a'', ''b'']]"
    "map tr_tags (update_where (\<lambda>r. tr_trace_id r = tr_trace_id sample_message) tags_normalised (trace_rows ?d)) = [[], [], [''a'', ''b'']]"
    by code_simp+
  with run again show ?thesis by simp
qed

section \<open>Reading back\<close>

lemma insort_key_map: "insort_key k (f x) (map f xs) = map f (insort_key (\<lambda>x. k (f x)) x xs)"
  by (induction xs) auto

lemma sort_key_map: "sort_key k (map f xs) = map f (sort_key (\<lambda>x. k (f x)) xs)"
  by (induction xs) (simp_all add: insort_key_map)

lemma upsert_fresh_spans:
  assumes "distinct (map sp_span_id ss)" "sp_span_id ` set ss \<inter> sp_span_id ` set (span_rows d) = {}"
    and "sp_trace_id ` set ss \<subseteq> tr_trace_id ` set (trace_rows d)"
  shows "forE ss upsert_span d = (Inr (), d\<lparr>span_rows := span_rows d @ map bound_span ss\<rparr>)"
  using assms
proof (induction ss arbitrary: d)
  case (Cons s ss)
  have "upsert_span s d = (Inr (), d\<lparr>span_rows := span_rows d @ [bound_span s]\<rparr>)"
    using Cons.prems by (simp add: upsert_span_def)
  moreover have "forE ss upsert_span (d\<lparr>span_rows := span_rows d @ [bound_span s]\<rparr>)
      = (Inr (), d\<lparr>span_rows := span_rows d @ map bound_span (s # ss)\<rparr>)"
    using Cons.prems by (subst Cons.IH) auto
  ultimately show ?case by (simp add: bindE_def)
qed simp

text \<open>No payload is the JSON null: the parser gives \<open>None\<close> for it.\<close>

definition plain_payloads :: "trace \<Rightarrow> bool" where
  "plain_payloads t \<longleftrightarrow> tr_input t \<noteq> Some JNull \<and> tr_output t \<noteq> Some JNull
     \<and> (\<forall>s \<in> set (tr_spans t). sp_input s \<noteq> Some JNull \<and> sp_output s \<noteq> Some JNull)"

lemma load_bind_json: "v \<noteq> Some JNull \<Longrightarrow> load_json (bind_json v) = v"
  by (auto simp: load_json_def bind_json_def split: option.splits)

lemma to_span_bound: "sp_input s \<noteq> Some JNull \<Longrightarrow> sp_output s \<noteq> Some JNull \<Longrightarrow> to_span (bound_span s) = s"
  by (simp add: to_span_def bound_span_def load_bind_json)

text \<open>
  C23: A new trace comes back as it was sent. Let a message have a trace identifier that is not in use
  and span identifiers that are distinct and not in use (a used one would be merged into the existing
  row), name an existing project, place its spans in the trace, and have no JSON null as a payload. Then
  the task stores it, and reading the trace in its project returns every field of the message, with the
  spans ordered by start and identifier.
\<close>

theorem persisted_trace_read_back:
  assumes wf: "obs_wf d" and new: "tr_trace_id t \<notin> tr_trace_id ` set (trace_rows d)" "tr_project_id t \<in> set (obs_projects d)"
    and spans: "distinct (map sp_span_id (tr_spans t))" "sp_span_id ` set (tr_spans t) \<inter> sp_span_id ` set (span_rows d) = {}"
      "sp_trace_id ` set (tr_spans t) \<subseteq> {tr_trace_id t}"
    and "plain_payloads t"
  shows "\<exists>d'. persist_trace now t d = (Inr (tr_trace_id t), d')
    \<and> get_trace (tr_trace_id t) (tr_project_id t) d' =
        (Inr (Some (t\<lparr>tr_spans := sort_key (\<lambda>s. (sp_started_at s, sp_span_id s)) (tr_spans t)\<rparr>)), d')"
proof -
  let ?i = "tr_trace_id t" and ?k = "\<lambda>s :: span. (sp_started_at s, sp_span_id s)"
  let ?d1 = "d\<lparr>trace_rows := trace_rows d @ [bound_trace now t]\<rparr>"
  let ?d' = "?d1\<lparr>span_rows := span_rows d @ map bound_span (tr_spans t)\<rparr>"
  have "forE (tr_spans t) upsert_span ?d1 = (Inr (), ?d')"
    using spans by (subst upsert_fresh_spans) auto
  then have run: "persist_trace now t d = (Inr ?i, ?d')"
    using new by (simp add: persist_trace_def upsert_trace_def upsert_trace_row_def get_db_session_def bindE_def)
  have none: "filter (owns_trace ?i (tr_project_id t)) (trace_rows d) = []"
    using new(1) by (auto simp: filter_empty_conv owns_trace_def image_iff)
  have owned: "owns_trace ?i (tr_project_id t) (bound_trace now t)" by (simp add: owns_trace_def)
  have "sp_trace_id s \<noteq> ?i" if "s \<in> set (span_rows d)" for s
    using wf new(1) that unfolding obs_wf_def by (metis image_eqI subsetD)
  then have "filter (\<lambda>s. sp_trace_id s = ?i) (span_rows d) = []" by (simp add: filter_empty_conv)
  moreover have "filter (\<lambda>s. sp_trace_id s = ?i) (map bound_span (tr_spans t)) = map bound_span (tr_spans t)"
    using spans(3) by (auto simp: filter_id_conv)
  ultimately have "spans_of ?d' ?i = map bound_span (sort_key ?k (tr_spans t))"
    by (simp add: spans_of_def sort_key_map) (simp add: bound_span_def)
  moreover have "map to_span (map bound_span (sort_key ?k (tr_spans t))) = sort_key ?k (tr_spans t)"
    using assms(7) by (auto simp: plain_payloads_def to_span_bound intro: map_idI)
  moreover have "to_trace ss (bound_trace now t) = t\<lparr>tr_spans := map to_span ss\<rparr>" for ss
    using assms(7) by (simp add: to_trace_def bound_trace_def trace.defs trace_row.defs load_bind_json plain_payloads_def)
  ultimately have "get_trace ?i (tr_project_id t) ?d' = (Inr (Some (t\<lparr>tr_spans := sort_key ?k (tr_spans t)\<rparr>)), ?d')"
    by (simp add: get_trace_def find_trace_def bindE_def none owned)
  with run show ?thesis by blast
qed

theorem persisted_trace_read_back_witness:
  "obs_wf sample_obs \<and> (\<exists>d'. persist_trace 7 sample_message sample_obs = (Inr 11, d')
     \<and> get_trace 11 1 d' = (Inr (Some (sample_message\<lparr>tr_spans := [sample_span 111 11, sample_span 112 11]\<rparr>)), d'))"
proof -
  have "sort_key (\<lambda>s. (sp_started_at s, sp_span_id s)) (tr_spans sample_message) = [sample_span 111 11, sample_span 112 11]"
    by code_simp
  moreover have "obs_wf sample_obs" "tr_trace_id sample_message \<notin> tr_trace_id ` set (trace_rows sample_obs)"
    "tr_project_id sample_message \<in> set (obs_projects sample_obs)" "distinct (map sp_span_id (tr_spans sample_message))"
    "sp_span_id ` set (tr_spans sample_message) \<inter> sp_span_id ` set (span_rows sample_obs) = {}"
    "sp_trace_id ` set (tr_spans sample_message) \<subseteq> {tr_trace_id sample_message}" "plain_payloads sample_message"
    by code_simp+
  ultimately show ?thesis
    using persisted_trace_read_back[of sample_obs sample_message 7] by (simp add: sample_message_def sample_trace_def)
qed

section \<open>What the conflict clause does not test\<close>

text \<open>
  The upsert finds the existing row by the trace identifier alone: a message of one project changes
  the name, status and times of a trace of another project, which stays where it is.
\<close>

lemma ingestion_overwrites_foreign_trace:
  assumes "r \<in> set (trace_rows d)" "tr_trace_id r = tr_trace_id t" "tr_project_id r \<noteq> tr_project_id t" "tr_spans t = []"
  shows "\<exists>d' r'. persist_trace now t d = (Inr (tr_trace_id t), d') \<and> r' \<in> set (trace_rows d')
    \<and> tr_trace_id r' = tr_trace_id r \<and> tr_project_id r' = tr_project_id r \<and> tr_name r' = tr_name t \<and> tr_status r' = tr_status t"
proof -
  let ?m = "merge_trace (bound_trace now t)"
  let ?d' = "d\<lparr>trace_rows := update_where (\<lambda>r. tr_trace_id r = tr_trace_id t) ?m (trace_rows d)\<rparr>"
  have "tr_trace_id t \<in> tr_trace_id ` set (trace_rows d)" using assms(1,2) by (auto intro: rev_image_eqI)
  then have "persist_trace now t d = (Inr (tr_trace_id t), ?d')"
    using assms(4) by (simp add: persist_trace_def upsert_trace_def upsert_trace_row_def get_db_session_def bindE_def)
  moreover have "?m r \<in> set (trace_rows ?d')" using assms(1,2) by (simp add: set_update_where)
  moreover have "tr_name (?m r) = tr_name t" "tr_status (?m r) = tr_status t"
    by (simp_all add: merge_trace_def bound_trace_def trace.defs trace_row.defs)
  ultimately show ?thesis using merge_trace_keys[of "bound_trace now t" r] by blast
qed

text \<open>A message without an output clears the output that is stored: \<open>None\<close> is bound as the JSON null.\<close>

lemma absent_output_clears:
  "tr_output t = None \<Longrightarrow> tr_output (to_trace ss (merge_trace (bound_trace now t) r)) = None"
  by (simp add: to_trace_def merge_trace_def bound_trace_def bind_json_def coalesce_def load_json_def trace.defs trace_row.defs)

section \<open>Search\<close>

definition escaped :: "char \<Rightarrow> string" where
  "escaped c = (if code c \<in> {92, 37, 95} then [CHR 0x5C, c] else [c])"

lemma code_inject: "code c = code d \<longleftrightarrow> c = d"
  by (simp add: code_def)

lemma special_codes [simp]: "code (CHR 0x5C) = 92" "code (CHR ''_'') = 95" "code (CHR ''%'') = 37"
  by code_simp+

lemma escape_like_escaped: "escape_like q = concat (map escaped q)"
proof (induction q)
  case (Cons c q)
  have "code c = 92 \<Longrightarrow> c = CHR 0x5C" "code c = 95 \<Longrightarrow> c = CHR ''_''" "code c = 37 \<Longrightarrow> c = CHR ''%''"
    using special_codes code_inject by metis+
  with Cons show ?case by (auto simp: escape_like_def replace_char_def escaped_def)
qed (simp add: escape_like_def replace_char_def)

lemma lower_char_code:
  "code (lower_char c) = (if (65 \<le> code c \<and> code c \<le> 90) \<or> (192 \<le> code c \<and> code c \<le> 222 \<and> code c \<noteq> 215) then code c + 32 else code c)"
  by (auto simp: lower_char_def code_def Let_def)

lemma lower_escaped: "map lower_char (escaped c) = escaped (lower_char c)"
proof -
  have "lower_char (CHR 0x5C) = CHR 0x5C" by code_simp
  then show ?thesis by (auto simp: escaped_def lower_char_code split: if_splits)
qed

lemma lower_escape_like: "lower (escape_like q) = escape_like (lower q)"
  by (induction q) (simp_all add: escape_like_escaped lower_def lower_escaped)

lemma like_escaped: "like (escape_like q @ p) s \<longleftrightarrow> (\<exists>t. s = q @ t \<and> like p t)"
proof (induction q arbitrary: s)
  case (Cons c q)
  have "like (escaped c @ p') s \<longleftrightarrow> (\<exists>t. s = c # t \<and> like p' t)" for p'
    by (cases s) (auto simp: escaped_def)
  with Cons show ?case by (auto simp: escape_like_escaped)
qed (simp add: escape_like_escaped)

lemma like_percent: "like (CHR ''%'' # p) s \<longleftrightarrow> (\<exists>a b. s = a @ b \<and> like p b)"
proof (induction s)
  case (Cons x s)
  then show ?case by (auto simp: Cons_eq_append_conv)
qed simp

text \<open>
  C39: The search by name means what its reader expects, whatever is typed. The condition that the
  listings build for a search text (escape, then percent signs around it, then a match that ignores
  case) holds exactly when the text occurs in the name up to case; percent signs, underscores and
  backslashes in it stand for themselves.
\<close>

theorem name_search_is_substring:
  "ilike name (contains_pattern q) \<longleftrightarrow> sublist (lower q) (lower name)"
proof -
  have "lower_char (CHR ''%'') = CHR ''%''" by code_simp
  then have "lower (contains_pattern q) = CHR ''%'' # escape_like (lower q) @ ''%''"
    by (simp add: contains_pattern_def lower_escape_like[symmetric]) (simp add: lower_def)
  moreover have "like ''%'' t" for t unfolding like_percent by auto
  ultimately show ?thesis unfolding ilike_def sublist_def by (simp only: like_percent like_escaped simp_thms) blast
qed

end
