(* ===== verification/Analytics.thy ===== *)
theory Analytics
  imports TraceQueries
begin

text \<open>
  The SQL functions that the analytics queries of the two large repositories share: \<open>date_trunc\<close>,
  \<open>GROUP BY\<close>, \<open>avg\<close>, \<open>percentile_cont\<close> and \<open>width_bucket\<close>, and the granularity of
  \<open>registry/constants.py\<close>. The time zone of the database session is UTC.
\<close>

section \<open>SQL functions\<close>

datatype analytics_granularity = HOUR | DAY | WEEK

text \<open>Weeks start on Mondays; the epoch was a Thursday.\<close>

fun date_trunc :: "analytics_granularity \<Rightarrow> datetime \<Rightarrow> datetime" where
  "date_trunc HOUR t = t - t mod seconds 3600"
| "date_trunc DAY t = t - t mod days 1"
| "date_trunc WEEK t = t - (t + days 3) mod days 7"

fun width_of :: "analytics_granularity \<Rightarrow> int" where
  "width_of HOUR = seconds 3600"
| "width_of DAY = days 1"
| "width_of WEEK = days 7"

text \<open>\<open>GROUP BY k\<close> with \<open>ORDER BY k\<close>, and without an order: the database may return the groups in any order.\<close>

definition groups_of :: "('a \<Rightarrow> 'k) \<Rightarrow> 'a list \<Rightarrow> ('k \<times> 'a list) list" where
  "groups_of f xs = map (\<lambda>k. (k, filter (\<lambda>x. f x = k) xs)) (remdups (map f xs))"

definition ordered_groups :: "('a \<Rightarrow> 'k :: linorder) \<Rightarrow> 'a list \<Rightarrow> ('k \<times> 'a list) list" where
  "ordered_groups f xs = map (\<lambda>k. (k, filter (\<lambda>x. f x = k) xs)) (sort (remdups (map f xs)))"

text \<open>Aggregates of the values that are not null.\<close>

definition sql_avg :: "real list \<Rightarrow> real option" where
  "sql_avg xs = (if xs = [] then None else Some (sum_list xs / of_nat (length xs)))"

definition sql_min :: "'a :: linorder list \<Rightarrow> 'a option" where
  "sql_min xs = (case sort xs of [] \<Rightarrow> None | x # _ \<Rightarrow> Some x)"

definition sql_max :: "'a :: linorder list \<Rightarrow> 'a option" where
  "sql_max xs = (case rev (sort xs) of [] \<Rightarrow> None | x # _ \<Rightarrow> Some x)"

text \<open>Linear interpolation between the two values next to the position \<open>p * (n - 1)\<close>.\<close>

definition interpolate :: "real list \<Rightarrow> real \<Rightarrow> real" where
  "interpolate ys x = (let lo = nat \<lfloor>x\<rfloor>; hi = nat \<lceil>x\<rceil> in ys ! lo + (x - of_nat lo) * (ys ! hi - ys ! lo))"

definition percentile_cont :: "real \<Rightarrow> real list \<Rightarrow> real option" where
  "percentile_cont p xs = (if xs = [] then None else Some (interpolate (sort xs) (p * of_nat (length xs - 1))))"

text \<open>\<open>width_bucket(x, 0.0, 1.0, n)\<close>: a value at or above the upper bound falls into bucket \<open>n + 1\<close>.\<close>

definition width_bucket :: "real \<Rightarrow> nat \<Rightarrow> nat" where
  "width_bucket x n = (if x < 0 then 0 else if 1 \<le> x then n + 1 else nat \<lfloor>x * of_nat n\<rfloor> + 1)"

section \<open>Their laws\<close>

lemma date_trunc_bounds: "date_trunc g t \<le> t \<and> t < date_trunc g t + width_of g"
proof -
  have "0 \<le> x mod m \<and> x mod m < m" if "0 < m" for x m :: int
    using that by simp
  from this[of "seconds 3600" t] this[of "days 1" t] this[of "days 7" "t + days 3"] show ?thesis
    by (cases g) (simp_all add: seconds_def days_def)
qed

text \<open>The instants with the same bucket are those between it and the next one.\<close>

lemma date_trunc_same: "date_trunc g t = date_trunc g s \<longleftrightarrow> date_trunc g s \<le> t \<and> t < date_trunc g s + width_of g"
proof -
  have "date_trunc g t = width_of g * ((t + c) div width_of g) - c" if "c = (case g of WEEK \<Rightarrow> days 3 | _ \<Rightarrow> 0)" for c t
    using that minus_mod_eq_mult_div[of "t + c" "width_of g"] by (cases g) (simp_all add: algebra_simps)
  moreover have "w * ((t + c) div w) - c = w * q - c \<longleftrightarrow> w * q - c \<le> t \<and> t < w * q - c + w" if "0 < w" for w q c :: int
  proof -
    have "(t + c) div w = q" if "w * q \<le> t + c" "t + c < w * q + w"
      using that by (intro int_div_pos_eq[of "t + c" w q "t + c - w * q"]) simp_all
    moreover have "w * ((t + c) div w) \<le> t + c" "t + c < w * ((t + c) div w) + w"
      using that mult_div_mod_eq[of w "t + c"] pos_mod_sign[of w "t + c"] pos_mod_bound[of w "t + c"] by linarith+
    ultimately have "(t + c) div w = q \<longleftrightarrow> w * q \<le> t + c \<and> t + c < w * q + w" by blast
    with that show ?thesis by auto
  qed
  moreover have "0 < width_of g" by (cases g) (simp_all add: seconds_def days_def)
  ultimately show ?thesis by simp
qed

lemma length_filter_split:
  "distinct ks \<Longrightarrow> sum_list (map (\<lambda>k. length (filter (\<lambda>x. f x = k) xs)) ks) = length (filter (\<lambda>x. f x \<in> set ks) xs)"
proof (induction ks)
  case (Cons k ks)
  have "length (filter (\<lambda>x. f x \<in> set (k # ks)) xs) =
      length (filter (\<lambda>x. f x = k) xs) + length (filter (\<lambda>x. f x \<in> set ks) xs)"
    using Cons.prems by (induction xs) auto
  with Cons show ?case by simp
qed simp

lemma groups_complete:
  "sum_list (map (\<lambda>(k, g). length g) (ordered_groups f xs)) = length xs"
  "sum_list (map (\<lambda>(k, g). length g) (groups_of f xs)) = length xs"
  by (simp_all add: ordered_groups_def groups_of_def comp_def length_filter_split)

lemma ordered_groups_keys: "sorted (map fst (ordered_groups f xs)) \<and> distinct (map fst (ordered_groups f xs))"
  by (simp add: ordered_groups_def comp_def)

lemma in_groups:
  "(k, g) \<in> set (ordered_groups f xs) \<longleftrightarrow> k \<in> f ` set xs \<and> g = filter (\<lambda>x. f x = k) xs"
  "(k, g) \<in> set (groups_of f xs) \<longleftrightarrow> k \<in> f ` set xs \<and> g = filter (\<lambda>x. f x = k) xs"
  by (auto simp: ordered_groups_def groups_of_def)

lemma interpolate_between:
  assumes "sorted ys" "0 \<le> x" "nat \<lceil>x\<rceil> < length ys"
  shows "ys ! nat \<lfloor>x\<rfloor> \<le> interpolate ys x \<and> interpolate ys x \<le> ys ! nat \<lceil>x\<rceil>"
proof -
  have lohi: "ys ! nat \<lfloor>x\<rfloor> \<le> ys ! nat \<lceil>x\<rceil>"
    using assms by (intro sorted_nth_mono) (auto intro: nat_mono floor_le_ceiling)
  have "0 \<le> x - of_nat (nat \<lfloor>x\<rfloor>)" "x - of_nat (nat \<lfloor>x\<rfloor>) \<le> 1"
    using assms(2) by (simp_all add: of_nat_nat) linarith
  with lohi have "0 \<le> (x - of_nat (nat \<lfloor>x\<rfloor>)) * (ys ! nat \<lceil>x\<rceil> - ys ! nat \<lfloor>x\<rfloor>)"
    "(x - of_nat (nat \<lfloor>x\<rfloor>)) * (ys ! nat \<lceil>x\<rceil> - ys ! nat \<lfloor>x\<rfloor>) \<le> ys ! nat \<lceil>x\<rceil> - ys ! nat \<lfloor>x\<rfloor>"
    by (simp_all add: mult_left_le_one_le)
  then show ?thesis by (simp add: interpolate_def Let_def)
qed

lemma interpolate_mono:
  assumes "sorted ys" "0 \<le> x" "x \<le> y" "nat \<lceil>y\<rceil> < length ys"
  shows "interpolate ys x \<le> interpolate ys y"
proof (cases "\<lceil>x\<rceil> \<le> \<lfloor>y\<rfloor>")
  case True
  have ceil: "nat \<lceil>x\<rceil> < length ys" using assms by (meson ceiling_mono le_less_trans nat_mono)
  have "nat \<lfloor>y\<rfloor> < length ys" using assms(4) floor_le_ceiling[of y] by linarith
  then have "ys ! nat \<lceil>x\<rceil> \<le> ys ! nat \<lfloor>y\<rfloor>" using True assms by (intro sorted_nth_mono nat_mono) auto
  with interpolate_between[OF assms(1,2) ceil] interpolate_between[of ys y] assms show ?thesis by auto
next
  case False
  then have same: "\<lfloor>x\<rfloor> = \<lfloor>y\<rfloor>" "\<lceil>x\<rceil> = \<lceil>y\<rceil>" using assms(3) by linarith+
  have "ys ! nat \<lfloor>y\<rfloor> \<le> ys ! nat \<lceil>y\<rceil>"
    using assms by (intro sorted_nth_mono) (auto intro: nat_mono floor_le_ceiling)
  then show ?thesis using assms(3) by (simp add: interpolate_def Let_def same mult_right_mono)
qed

lemma percentile_mono:
  assumes "percentile_cont p xs = Some a" "percentile_cont q xs = Some b" "0 \<le> p" "p \<le> q" "q \<le> 1"
  shows "a \<le> b \<and> (\<exists>lo \<in> set xs. lo \<le> a) \<and> (\<exists>hi \<in> set xs. b \<le> hi)"
proof -
  let ?n = "real (length xs - 1)" and ?ys = "sort xs"
  from assms have xs: "xs \<noteq> []" and ab: "a = interpolate ?ys (p * ?n)" "b = interpolate ?ys (q * ?n)"
    by (auto simp: percentile_cont_def split: if_splits)
  have pos: "0 \<le> p * ?n" "p * ?n \<le> q * ?n" "q * ?n \<le> ?n" using assms by (auto simp: mult_right_mono mult_left_le_one_le)
  then have le: "nat \<lceil>q * ?n\<rceil> \<le> length xs - 1" "nat \<lceil>p * ?n\<rceil> \<le> length xs - 1"
    by (simp_all add: nat_le_iff ceiling_le_iff)
  moreover have "length xs - 1 < length ?ys" using xs by simp
  ultimately have hi: "nat \<lceil>q * ?n\<rceil> < length ?ys" "nat \<lceil>p * ?n\<rceil> < length ?ys" by linarith+
  have lo: "nat \<lfloor>p * ?n\<rfloor> < length ?ys" using hi(2) floor_le_ceiling[of "p * ?n"] by linarith
  have "interpolate ?ys (p * ?n) \<le> interpolate ?ys (q * ?n)" by (rule interpolate_mono) (use pos hi in auto)
  moreover have "?ys ! nat \<lfloor>p * ?n\<rfloor> \<in> set xs" "?ys ! nat \<lceil>q * ?n\<rceil> \<in> set xs"
    using nth_mem[OF lo] nth_mem[OF hi(1)] by simp_all
  ultimately show ?thesis
    using interpolate_between[of ?ys "p * ?n"] interpolate_between[of ?ys "q * ?n"] pos hi unfolding ab
    by (metis order.trans sorted_sort)
qed

lemma sql_avg_between:
  assumes "sql_avg xs = Some a"
  shows "(\<exists>lo \<in> set xs. lo \<le> a) \<and> (\<exists>hi \<in> set xs. a \<le> hi)"
proof -
  from assms have xs: "xs \<noteq> []" and a: "a * of_nat (length xs) = sum_list xs" by (auto simp: sql_avg_def split: if_splits)
  have "sum_list xs < c * of_nat (length xs)" if "\<forall>x \<in> set xs. x < c" "xs \<noteq> []" for c :: real and xs
    using that by (induction xs) (fastforce simp: algebra_simps)+
  moreover have "c * of_nat (length xs) < sum_list xs" if "\<forall>x \<in> set xs. c < x" "xs \<noteq> []" for c :: real and xs
    using that by (induction xs) (fastforce simp: algebra_simps)+
  ultimately show ?thesis using xs a by (metis not_le less_irrefl)
qed

lemma sql_min_max:
  "sql_min xs = Some a \<Longrightarrow> a \<in> set xs \<and> (\<forall>x \<in> set xs. a \<le> x)"
  "sql_max xs = Some b \<Longrightarrow> b \<in> set xs \<and> (\<forall>x \<in> set xs. x \<le> b)"
proof -
  show "sql_min xs = Some a \<Longrightarrow> a \<in> set xs \<and> (\<forall>x \<in> set xs. a \<le> x)"
    using set_sort[of "\<lambda>x. x" xs] sorted_sort[of xs] by (cases "sort xs") (auto simp: sql_min_def)
  assume "sql_max xs = Some b"
  then obtain ys where "sort xs = ys @ [b]" by (auto simp: sql_max_def split: list.splits)
  then show "b \<in> set xs \<and> (\<forall>x \<in> set xs. x \<le> b)"
    using set_sort[of "\<lambda>x. x" xs] sorted_sort[of xs] by (auto simp: sorted_append)
qed

lemma width_bucket_bounds:
  assumes "0 \<le> x" "x \<le> 1" "0 < n"
  shows "1 \<le> width_bucket x n \<and> width_bucket x n \<le> n + 1
    \<and> (of_nat (width_bucket x n) - 1) / of_nat n \<le> x \<and> (x < of_nat (width_bucket x n) / of_nat n)
    \<and> (width_bucket x n = n + 1 \<longleftrightarrow> x = 1)"
proof (cases "x = 1")
  case False
  then have f: "0 \<le> x * of_nat n" "x * of_nat n < of_nat n" using assms by simp_all
  then have "nat \<lfloor>x * of_nat n\<rfloor> < n" by (simp add: nat_less_iff floor_less_iff)
  moreover have "of_nat (nat \<lfloor>x * of_nat n\<rfloor>) \<le> x * of_nat n" "x * of_nat n < of_nat (nat \<lfloor>x * of_nat n\<rfloor>) + 1"
    using f by (simp_all add: of_nat_nat)
  ultimately show ?thesis using assms False by (simp add: width_bucket_def field_simps)
qed (use assms in \<open>simp add: width_bucket_def field_simps\<close>)

end
