(* ===== verification/TraceAnalytics.thy ===== *)
theory TraceAnalytics
  imports Analytics TraceIsolation
begin

text \<open>
  The analytics queries of \<open>repositories/trace_repo.py\<close> and their endpoints in
  \<open>api/v1/routes/traces.py\<close> and \<open>sessions.py\<close>; the methods of \<open>services/trace_service.py\<close> between them only
  pass the arguments on. The theorem at the end: the buckets account for every trace of the window.
\<close>

section \<open>Traces by time\<close>

record trace_bucket =
  tb_bucket :: datetime
  tb_trace_count :: nat
  tb_error_count :: nat
  tb_avg_latency_ms :: "real option"
  tb_p50_latency_ms :: "real option"
  tb_p90_latency_ms :: "real option"
  tb_p99_latency_ms :: "real option"

text \<open>\<open>extract(epoch from ended_at - started_at)\<close>.\<close>

definition latency_secs :: "trace_row \<Rightarrow> real option" where
  "latency_secs r = map_option (\<lambda>e. of_int (e - tr_started_at r) / 1000000) (tr_ended_at r)"

definition times_1000 :: "real option \<Rightarrow> real option" where
  "times_1000 x = map_option (\<lambda>v. v * 1000) x"

definition in_window :: "datetime \<Rightarrow> datetime \<Rightarrow> datetime \<Rightarrow> bool" where
  "in_window after before t \<longleftrightarrow> after \<le> t \<and> t < before"

definition trace_bucket_of :: "datetime \<Rightarrow> trace_row list \<Rightarrow> trace_bucket" where
  "trace_bucket_of k g = (let ls = somes (map latency_secs g) in
     \<lparr>tb_bucket = k, tb_trace_count = length g, tb_error_count = length (filter is_error g),
      tb_avg_latency_ms = times_1000 (sql_avg ls),
      tb_p50_latency_ms = times_1000 (percentile_cont (1 / 2) ls),
      tb_p90_latency_ms = times_1000 (percentile_cont (9 / 10) ls),
      tb_p99_latency_ms = times_1000 (percentile_cont (99 / 100) ls)\<rparr>)"

definition get_trace_analytics ::
    "uuid \<Rightarrow> analytics_granularity \<Rightarrow> datetime \<Rightarrow> datetime \<Rightarrow> (error, obs_db, trace_bucket list) exec" where
  "get_trace_analytics project g after before = getsE (\<lambda>d.
     map (\<lambda>(k, rows). trace_bucket_of k rows)
       (ordered_groups (\<lambda>r. date_trunc g (tr_started_at r))
         (filter (\<lambda>r. tr_project_id r = project \<and> in_window after before (tr_started_at r)) (trace_rows d))))"

section \<open>Tokens and models\<close>

record token_bucket =
  kb_bucket :: datetime
  kb_total_tokens :: int
  kb_prompt_tokens :: int
  kb_completion_tokens :: int
  kb_total_cost :: real

text \<open>The spans joined with the traces of the project.\<close>

definition project_spans :: "uuid \<Rightarrow> datetime \<Rightarrow> datetime \<Rightarrow> obs_db \<Rightarrow> span list" where
  "project_spans project after before d =
     concat (map (\<lambda>s. map (\<lambda>_. s) (filter (\<lambda>r. tr_trace_id r = sp_trace_id s \<and> tr_project_id r = project) (trace_rows d)))
       (filter (\<lambda>s. in_window after before (sp_started_at s)) (span_rows d)))"

definition token_bucket_of :: "datetime \<Rightarrow> span list \<Rightarrow> error + token_bucket" where
  "token_bucket_of k g =
     (case traverseE span_tokens g of Inl e \<Rightarrow> Inl e | Inr tokens \<Rightarrow>
      case traverseE (\<lambda>s. token_count s ''prompt_tokens'') g of Inl e \<Rightarrow> Inl e | Inr prompt \<Rightarrow>
      case traverseE (\<lambda>s. token_count s ''completion_tokens'') g of Inl e \<Rightarrow> Inl e | Inr completion \<Rightarrow>
      Inr \<lparr>kb_bucket = k, kb_total_tokens = sum_list tokens, kb_prompt_tokens = sum_list prompt,
        kb_completion_tokens = sum_list completion, kb_total_cost = sum_list (map span_cost g)\<rparr>)"

definition get_token_cost_analytics ::
    "uuid \<Rightarrow> analytics_granularity \<Rightarrow> datetime \<Rightarrow> datetime \<Rightarrow> (error, obs_db, token_bucket list) exec" where
  "get_token_cost_analytics project g after before = (\<lambda>d.
     (traverseE (\<lambda>(k, spans). token_bucket_of k spans)
        (ordered_groups (\<lambda>s. date_trunc g (sp_started_at s)) (project_spans project after before d)), d))"

record top_model =
  tm_model :: string
  tm_call_count :: nat
  tm_total_tokens :: int
  tm_total_cost :: real

definition top_model_of :: "string \<Rightarrow> span list \<Rightarrow> error + top_model" where
  "top_model_of m g = (case traverseE span_tokens g of Inl e \<Rightarrow> Inl e | Inr tokens \<Rightarrow>
     Inr \<lparr>tm_model = m, tm_call_count = length g, tm_total_tokens = sum_list tokens, tm_total_cost = sum_list (map span_cost g)\<rparr>)"

definition get_top_models :: "uuid \<Rightarrow> datetime \<Rightarrow> datetime \<Rightarrow> nat \<Rightarrow> (error, obs_db, top_model list) exec" where
  "get_top_models project after before lmt =
     bindE (\<lambda>d. (traverseE (\<lambda>(m, spans). top_model_of (the m) spans)
        (groups_of sp_model (filter (\<lambda>s. sp_model s \<noteq> None) (project_spans project after before d))), d)) (\<lambda>rows.
     ret (take lmt (sort_key (\<lambda>r. - int (tm_call_count r)) rows)))"

section \<open>Sessions by time\<close>

record session_bucket =
  sb_bucket :: datetime
  sb_session_count :: nat
  sb_avg_traces_per_session :: "real option"
  sb_avg_session_duration_ms :: "real option"

text \<open>A row of the common table expression: the first start, the number of traces and the summed duration.\<close>

definition session_cte :: "uuid \<Rightarrow> datetime \<Rightarrow> datetime \<Rightarrow> obs_db \<Rightarrow> (datetime \<times> nat \<times> real option) list" where
  "session_cte project after before d =
     map (\<lambda>(sid, rows). (case map tr_started_at rows of [] \<Rightarrow> 0 | x # xs \<Rightarrow> fold min xs x, length rows,
         sum_nulls (map (\<lambda>r. times_1000 (latency_secs r)) rows)))
       (session_groups (filter (\<lambda>r. tr_project_id r = project \<and> tr_session_id r \<noteq> None \<and> in_window after before (tr_started_at r))
         (trace_rows d)))"

definition get_session_analytics ::
    "uuid \<Rightarrow> analytics_granularity \<Rightarrow> datetime \<Rightarrow> datetime \<Rightarrow> (error, obs_db, session_bucket list) exec" where
  "get_session_analytics project g after before = getsE (\<lambda>d.
     map (\<lambda>(k, rows). \<lparr>sb_bucket = k, sb_session_count = length rows,
         sb_avg_traces_per_session = sql_avg (map (\<lambda>(_, n, _). of_nat n) rows),
         sb_avg_session_duration_ms = sql_avg (somes (map (\<lambda>(_, _, t). t) rows))\<rparr>)
       (ordered_groups (\<lambda>(first, _, _). date_trunc g first) (session_cte project after before d)))"

section \<open>Endpoints\<close>

datatype analytics_metric = VOLUME | ERRORS | LATENCY_METRIC | COST_METRIC | TOKENS | MODELS

datatype analytics_response =
    TraceBuckets "trace_bucket list"
  | TokenBuckets "token_bucket list"
  | TopModels "top_model list"

definition get_analytics_route ::
    "uuid \<Rightarrow> analytics_metric \<Rightarrow> analytics_granularity \<Rightarrow> datetime \<Rightarrow> datetime \<Rightarrow> (error, obs_db, analytics_response) exec" where
  "get_analytics_route project metric g after before =
     (if metric \<in> {VOLUME, ERRORS, LATENCY_METRIC} then
        bindE (get_trace_analytics project g after before) (\<lambda>rows. ret (TraceBuckets rows))
      else if metric \<in> {COST_METRIC, TOKENS} then
        bindE (get_token_cost_analytics project g after before) (\<lambda>rows. ret (TokenBuckets rows))
      else bindE (get_top_models project after before 10) (\<lambda>rows. ret (TopModels rows)))"

definition get_session_analytics_route ::
    "uuid \<Rightarrow> analytics_granularity \<Rightarrow> datetime \<Rightarrow> datetime \<Rightarrow> (error, obs_db, session_bucket list) exec" where
  "get_session_analytics_route project g after before = get_session_analytics project g after before"

section \<open>Properties\<close>

lemma latency_percentiles:
  "sorted (somes [tb_p50_latency_ms (trace_bucket_of k g), tb_p90_latency_ms (trace_bucket_of k g), tb_p99_latency_ms (trace_bucket_of k g)])"
proof (cases "somes (map latency_secs g) = []")
  case False
  let ?ls = "somes (map latency_secs g)"
  obtain a b c where "percentile_cont (1 / 2) ?ls = Some a" "percentile_cont (9 / 10) ?ls = Some b" "percentile_cont (99 / 100) ?ls = Some c"
    using False by (simp add: percentile_cont_def)
  with percentile_mono[of "1 / 2" ?ls a "9 / 10" b] percentile_mono[of "9 / 10" ?ls b "99 / 100" c] show ?thesis
    by (simp add: trace_bucket_of_def times_1000_def somes_def Let_def)
qed (simp add: trace_bucket_of_def times_1000_def percentile_cont_def somes_def Let_def)

text \<open>
  C21: The trace analytics of a window account for every trace of the project that started in it exactly
  once. The buckets ascend; each counts the traces that started between its instant and the next of
  the granularity, with at most as many errors, and its latency percentiles ascend.
\<close>

theorem trace_buckets_account_for_window:
  "\<exists>bs. get_analytics_route p VOLUME g after before d = (Inr (TraceBuckets bs), d)
    \<and> sorted (map tb_bucket bs) \<and> distinct (map tb_bucket bs)
    \<and> sum_list (map tb_trace_count bs) = length (filter (\<lambda>r. tr_project_id r = p \<and> after \<le> tr_started_at r \<and> tr_started_at r < before) (trace_rows d))
    \<and> list_all (\<lambda>b. 0 < tb_trace_count b \<and> tb_error_count b \<le> tb_trace_count b
        \<and> tb_trace_count b = length (filter (\<lambda>r. tr_project_id r = p \<and> after \<le> tr_started_at r \<and> tr_started_at r < before
            \<and> tb_bucket b \<le> tr_started_at r \<and> tr_started_at r < tb_bucket b + width_of g) (trace_rows d))
        \<and> sorted (somes [tb_p50_latency_ms b, tb_p90_latency_ms b, tb_p99_latency_ms b])) bs"
proof -
  let ?rows = "filter (\<lambda>r. tr_project_id r = p \<and> in_window after before (tr_started_at r)) (trace_rows d)"
  let ?groups = "ordered_groups (\<lambda>r. date_trunc g (tr_started_at r)) ?rows"
  let ?bs = "map (\<lambda>(k, rows). trace_bucket_of k rows) ?groups"
  have run: "get_analytics_route p VOLUME g after before d = (Inr (TraceBuckets ?bs), d)"
    by (simp add: get_analytics_route_def get_trace_analytics_def run_exec bindE_def)
  have keys: "map tb_bucket ?bs = map fst ?groups" and counts: "map tb_trace_count ?bs = map (\<lambda>(k, g). length g) ?groups"
    by (auto simp: trace_bucket_of_def Let_def)
  have "sum_list (map tb_trace_count ?bs) = length ?rows" unfolding counts by (rule groups_complete)
  moreover have "list_all (\<lambda>b. 0 < tb_trace_count b \<and> tb_error_count b \<le> tb_trace_count b
        \<and> tb_trace_count b = length (filter (\<lambda>r. tr_project_id r = p \<and> after \<le> tr_started_at r \<and> tr_started_at r < before
            \<and> tb_bucket b \<le> tr_started_at r \<and> tr_started_at r < tb_bucket b + width_of g) (trace_rows d))
        \<and> sorted (somes [tb_p50_latency_ms b, tb_p90_latency_ms b, tb_p99_latency_ms b])) ?bs"
    unfolding list_all_iff
  proof
    fix b assume "b \<in> set ?bs"
    then obtain k rows where b: "b = trace_bucket_of k rows" and "(k, rows) \<in> set ?groups" by auto
    then obtain r where r: "r \<in> set ?rows" and k: "k = date_trunc g (tr_started_at r)" and rows: "rows = filter (\<lambda>r. date_trunc g (tr_started_at r) = k) ?rows"
      by (auto simp: in_groups)
    have fields: "tb_bucket b = k" "tb_trace_count b = length rows" "tb_error_count b = length (filter is_error rows)"
      by (simp_all add: b trace_bucket_of_def Let_def)
    have "r \<in> set rows" using r k by (simp add: rows)
    then have "0 < length rows" by (rule length_pos_if_in_set)
    moreover have window: "rows = filter (\<lambda>r. tr_project_id r = p \<and> after \<le> tr_started_at r \<and> tr_started_at r < before
        \<and> k \<le> tr_started_at r \<and> tr_started_at r < k + width_of g) (trace_rows d)"
      unfolding rows k date_trunc_same in_window_def filter_filter by (rule filter_cong) auto
    moreover have "length (filter is_error rows) \<le> length rows" by (rule length_filter_le)
    ultimately show "0 < tb_trace_count b \<and> tb_error_count b \<le> tb_trace_count b
        \<and> tb_trace_count b = length (filter (\<lambda>r. tr_project_id r = p \<and> after \<le> tr_started_at r \<and> tr_started_at r < before
            \<and> tb_bucket b \<le> tr_started_at r \<and> tr_started_at r < tb_bucket b + width_of g) (trace_rows d))
        \<and> sorted (somes [tb_p50_latency_ms b, tb_p90_latency_ms b, tb_p99_latency_ms b])"
      unfolding fields using latency_percentiles[of k rows, folded b] arg_cong[OF window, of length] by blast
  qed
  moreover have "sorted (map tb_bucket ?bs) \<and> distinct (map tb_bucket ?bs)" unfolding keys by (rule ordered_groups_keys)
  ultimately show ?thesis using run unfolding in_window_def by blast
qed

end
