(* ===== verification/EvalRepo.thy ===== *)
theory EvalRepo
  imports TraceRepo
begin

text \<open>
  \<open>repositories/eval_repo.py\<close>: the statements on trace scores, session scores, evaluation runs and
  monitors. An insert whose references are missing fails; deleting a run or a monitor clears the
  references to it. The analytics queries are in \<open>EvalAnalytics\<close>.
\<close>

section \<open>Trace scores\<close>

definition obs_new_id :: "(error, obs_db, uuid) exec" where
  "obs_new_id = (\<lambda>d. (Inr (obs_next_id d), d\<lparr>obs_next_id := Suc (obs_next_id d)\<rparr>))"

definition run_known :: "uuid option \<Rightarrow> obs_db \<Rightarrow> bool" where
  "run_known r d \<longleftrightarrow> opt_all (\<lambda>i. i \<in> er_id ` set (eval_runs d)) r"

definition create_score :: "trace_score \<Rightarrow> (error, obs_db, unit) exec" where
  "create_score s = (\<lambda>d.
     if ts_trace_id s \<in> tr_trace_id ` set (trace_rows d) \<and> ts_project_id s \<in> set (obs_projects d) \<and> run_known (ts_eval_run_id s) d
     then (Inr (), d\<lparr>trace_scores := trace_scores d @ [s]\<rparr>)
     else (Inl IntegrityError, d))"

definition batch_create_scores :: "trace_score list \<Rightarrow> (error, obs_db, unit) exec" where
  "batch_create_scores ss = forE ss create_score"

text \<open>\<open>order_by(created_at.desc())\<close>.\<close>

definition newest_first :: "('a \<Rightarrow> datetime) \<Rightarrow> 'a list \<Rightarrow> 'a list" where
  "newest_first created rows = rev (sort_key created rows)"

definition get_scores_for_trace :: "uuid \<Rightarrow> uuid \<Rightarrow> (error, obs_db, trace_score list) exec" where
  "get_scores_for_trace i project = getsE (\<lambda>d.
     newest_first ts_created_at (filter (\<lambda>s. ts_trace_id s = i \<and> ts_project_id s = project) (trace_scores d)))"

text \<open>\<open>DISTINCT ON (name)\<close> ordered by name and then newest first: the newest score of each name.\<close>

definition get_latest_scores_for_trace :: "uuid \<Rightarrow> uuid \<Rightarrow> (error, obs_db, trace_score list) exec" where
  "get_latest_scores_for_trace i project = bindE (get_scores_for_trace i project) (\<lambda>ss.
     ret (concat (map (\<lambda>n. take 1 (filter (\<lambda>s. ts_name s = n) ss)) (sort (remdups (map ts_name ss))))))"

text \<open>A dictionary in the order in which the newest scores mention the traces.\<close>

definition get_scores_for_traces :: "uuid list \<Rightarrow> uuid \<Rightarrow> (error, obs_db, (uuid \<times> trace_score list) list) exec" where
  "get_scores_for_traces ids project =
     (if ids = [] then ret []
      else getsE (\<lambda>d. let ss = newest_first ts_created_at (filter (\<lambda>s. ts_trace_id s \<in> set ids \<and> ts_project_id s = project) (trace_scores d)) in
        map (\<lambda>i. (i, filter (\<lambda>s. ts_trace_id s = i) ss)) (rev (remdups (rev (map ts_trace_id ss))))))"

record score_filter =
  cf_name :: "string option"
  cf_trace_id :: "uuid option"
  cf_source :: "score_source option"
  cf_status :: "score_status option"
  cf_data_type :: "score_data_type option"
  cf_eval_run_id :: "uuid option"
  cf_environment :: "string option"
  cf_date_from :: "datetime option"
  cf_date_to :: "datetime option"

definition score_matches :: "score_filter \<Rightarrow> trace_score \<Rightarrow> bool" where
  "score_matches f s \<longleftrightarrow>
     opt_all (\<lambda>v. ts_name s = v) (cf_name f)
   \<and> opt_all (\<lambda>v. ts_trace_id s = v) (cf_trace_id f)
   \<and> opt_all (\<lambda>v. ts_source s = v) (cf_source f)
   \<and> opt_all (\<lambda>v. ts_status s = v) (cf_status f)
   \<and> opt_all (\<lambda>v. ts_data_type s = v) (cf_data_type f)
   \<and> opt_all (\<lambda>v. ts_eval_run_id s = Some v) (cf_eval_run_id f)
   \<and> opt_all (\<lambda>v. ts_environment s = Some v) (cf_environment f)
   \<and> opt_all (\<lambda>v. v \<le> ts_created_at s) (cf_date_from f)
   \<and> opt_all (\<lambda>v. ts_created_at s < v) (cf_date_to f)"

definition list_scores :: "uuid \<Rightarrow> score_filter \<Rightarrow> nat \<Rightarrow> nat \<Rightarrow> (error, obs_db, trace_score list \<times> nat) exec" where
  "list_scores project f lmt off = getsE (\<lambda>d.
     let base = filter (\<lambda>s. ts_project_id s = project \<and> score_matches f s) (trace_scores d) in
     (page off lmt (newest_first ts_created_at base), length base))"

definition delete_scores_where :: "(trace_score \<Rightarrow> bool) \<Rightarrow> (error, obs_db, nat) exec" where
  "delete_scores_where P = bindE (getsE (\<lambda>d. length (filter P (trace_scores d)))) (\<lambda>n.
     bindE (modifyE (\<lambda>d. d\<lparr>trace_scores := delete_where P (trace_scores d)\<rparr>)) (\<lambda>_. ret n))"

definition delete_scores_for_trace :: "uuid \<Rightarrow> uuid \<Rightarrow> (error, obs_db, nat) exec" where
  "delete_scores_for_trace i project = delete_scores_where (\<lambda>s. ts_trace_id s = i \<and> ts_project_id s = project)"

definition owns_score :: "uuid \<Rightarrow> uuid \<Rightarrow> trace_score \<Rightarrow> bool" where
  "owns_score i project s \<longleftrightarrow> ts_id s = i \<and> ts_project_id s = project"

definition get_score_by_id :: "uuid \<Rightarrow> uuid \<Rightarrow> (error, obs_db, trace_score option) exec" where
  "get_score_by_id i project = (\<lambda>d. (scalar_one_or_none (filter (owns_score i project) (trace_scores d)), d))"

text \<open>The fields an edit passes: absent ones are dropped, status and source always given.\<close>

definition edit_score ::
  "datetime \<Rightarrow> string option \<Rightarrow> string option \<Rightarrow> metadata option \<Rightarrow> score_status \<Rightarrow> score_source \<Rightarrow> trace_score \<Rightarrow> trace_score" where
  "edit_score now v reason meta st src s = s\<lparr>
     ts_value := coalesce v (ts_value s),
     ts_reason := coalesce reason (ts_reason s),
     ts_metadata := (case meta of None \<Rightarrow> ts_metadata s | Some m \<Rightarrow> m),
     ts_status := st, ts_source := src, ts_updated_at := now\<rparr>"

definition update_score_row ::
  "datetime \<Rightarrow> uuid \<Rightarrow> uuid \<Rightarrow> string option \<Rightarrow> string option \<Rightarrow> metadata option \<Rightarrow> score_status \<Rightarrow> score_source \<Rightarrow> (error, obs_db, unit) exec" where
  "update_score_row now i project v reason meta st src = modifyE (\<lambda>d.
     d\<lparr>trace_scores := update_where (owns_score i project) (edit_score now v reason meta st src) (trace_scores d)\<rparr>)"

definition delete_score_row :: "uuid \<Rightarrow> uuid \<Rightarrow> (error, obs_db, unit) exec" where
  "delete_score_row i project = modifyE (\<lambda>d. d\<lparr>trace_scores := delete_where (owns_score i project) (trace_scores d)\<rparr>)"

text \<open>The newest successful score of a trace under a name, whatever its project or data type.\<close>

definition find_existing_trace_score :: "uuid \<Rightarrow> string \<Rightarrow> (error, obs_db, trace_score option) exec" where
  "find_existing_trace_score i name = getsE (\<lambda>d.
     case newest_first ts_created_at (filter (\<lambda>s. ts_trace_id s = i \<and> ts_name s = name \<and> ts_status s = SUCCESS) (trace_scores d)) of
       [] \<Rightarrow> None | s # _ \<Rightarrow> Some s)"

section \<open>Runs\<close>

definition create_eval_run :: "eval_run \<Rightarrow> (error, obs_db, unit) exec" where
  "create_eval_run r = (\<lambda>d.
     if er_project_id r \<in> set (obs_projects d) \<and> opt_all (\<lambda>m. m \<in> mo_id ` set (eval_monitors d)) (er_monitor_id r)
     then (Inr (), d\<lparr>eval_runs := eval_runs d @ [r]\<rparr>)
     else (Inl IntegrityError, d))"

definition owns_run :: "uuid \<Rightarrow> uuid \<Rightarrow> eval_run \<Rightarrow> bool" where
  "owns_run i project r \<longleftrightarrow> er_id r = i \<and> er_project_id r = project"

definition get_eval_run :: "uuid \<Rightarrow> uuid \<Rightarrow> (error, obs_db, eval_run option) exec" where
  "get_eval_run i project = (\<lambda>d. (scalar_one_or_none (filter (owns_run i project) (eval_runs d)), d))"

definition list_eval_runs :: "uuid \<Rightarrow> evaluation_status option \<Rightarrow> target_type option \<Rightarrow> nat \<Rightarrow> nat \<Rightarrow> (error, obs_db, eval_run list \<times> nat) exec" where
  "list_eval_runs project st tt lmt off = getsE (\<lambda>d.
     let base = filter (\<lambda>r. er_project_id r = project \<and> opt_all (\<lambda>v. er_status r = v) st \<and> opt_all (\<lambda>v. er_target_type r = v) tt) (eval_runs d) in
     (page off lmt (newest_first er_created_at base), length base))"

definition update_run :: "uuid \<Rightarrow> (eval_run \<Rightarrow> eval_run) \<Rightarrow> (error, obs_db, unit) exec" where
  "update_run i f = modifyE (\<lambda>d. d\<lparr>eval_runs := update_where (\<lambda>r. er_id r = i) f (eval_runs d)\<rparr>)"

definition set_run_status :: "datetime \<Rightarrow> evaluation_status \<Rightarrow> string option \<Rightarrow> eval_run \<Rightarrow> eval_run" where
  "set_run_status now st msg r =
     (if st = evaluation_status.FAILED then r\<lparr>er_status := st, er_error_message := msg, er_completed_at := Some now\<rparr>
      else if st = evaluation_status.COMPLETED then r\<lparr>er_status := st, er_error_message := None, er_completed_at := Some now\<rparr>
      else if st = evaluation_status.RUNNING then r\<lparr>er_status := st, er_error_message := None, er_completed_at := None\<rparr>
      else r\<lparr>er_status := st\<rparr>)"

definition update_run_status :: "datetime \<Rightarrow> uuid \<Rightarrow> evaluation_status \<Rightarrow> string option \<Rightarrow> (error, obs_db, unit) exec" where
  "update_run_status now i st msg = update_run i (set_run_status now st msg)"

definition increment_progress :: "uuid \<Rightarrow> (error, obs_db, unit) exec" where
  "increment_progress i = update_run i (\<lambda>r. r\<lparr>er_evaluated_count := er_evaluated_count r + 1\<rparr>)"

definition reset_run_counters :: "uuid \<Rightarrow> (error, obs_db, unit) exec" where
  "reset_run_counters i = update_run i (\<lambda>r. r\<lparr>er_evaluated_count := 0, er_failed_count := 0\<rparr>)"

definition increment_failed :: "uuid \<Rightarrow> (error, obs_db, unit) exec" where
  "increment_failed i = update_run i (\<lambda>r. r\<lparr>er_failed_count := er_failed_count r + 1\<rparr>)"

definition of_run :: "uuid \<Rightarrow> uuid \<Rightarrow> trace_score \<Rightarrow> bool" where
  "of_run i project s \<longleftrightarrow> ts_eval_run_id s = Some i \<and> ts_project_id s = project"

definition get_failed_scores_for_run :: "uuid \<Rightarrow> uuid \<Rightarrow> (error, obs_db, trace_score list) exec" where
  "get_failed_scores_for_run i project = getsE (\<lambda>d. filter (\<lambda>s. of_run i project s \<and> ts_status s = score_status.FAILED) (trace_scores d))"

definition get_scores_for_run :: "uuid \<Rightarrow> uuid \<Rightarrow> (error, obs_db, trace_score list) exec" where
  "get_scores_for_run i project = getsE (\<lambda>d. newest_first ts_created_at (filter (of_run i project) (trace_scores d)))"

definition delete_scores_for_run :: "uuid \<Rightarrow> uuid \<Rightarrow> (error, obs_db, nat) exec" where
  "delete_scores_for_run i project = delete_scores_where (of_run i project)"

text \<open>\<open>ON DELETE SET NULL\<close> on a reference.\<close>

definition unlink :: "uuid set \<Rightarrow> uuid option \<Rightarrow> uuid option" where
  "unlink gone r = (case r of None \<Rightarrow> None | Some i \<Rightarrow> if i \<in> gone then None else Some i)"

definition delete_eval_run_row :: "uuid \<Rightarrow> uuid \<Rightarrow> (error, obs_db, unit) exec" where
  "delete_eval_run_row i project = modifyE (\<lambda>d.
     let gone = er_id ` {r \<in> set (eval_runs d). owns_run i project r} in
     d\<lparr>eval_runs := delete_where (owns_run i project) (eval_runs d),
       trace_scores := map (\<lambda>s. s\<lparr>ts_eval_run_id := unlink gone (ts_eval_run_id s)\<rparr>) (trace_scores d),
       session_scores := map (\<lambda>s. s\<lparr>ss_eval_run_id := unlink gone (ss_eval_run_id s)\<rparr>) (session_scores d),
       eval_monitors := map (\<lambda>m. m\<lparr>mo_last_run_id := unlink gone (mo_last_run_id m)\<rparr>) (eval_monitors d)\<rparr>)"

section \<open>Session scores\<close>

definition create_session_score :: "session_score \<Rightarrow> (error, obs_db, unit) exec" where
  "create_session_score s = (\<lambda>d.
     if ss_project_id s \<in> set (obs_projects d) \<and> run_known (ss_eval_run_id s) d
     then (Inr (), d\<lparr>session_scores := session_scores d @ [s]\<rparr>)
     else (Inl IntegrityError, d))"

definition get_session_scores_for_session :: "string \<Rightarrow> uuid \<Rightarrow> (error, obs_db, session_score list) exec" where
  "get_session_scores_for_session sid project = getsE (\<lambda>d.
     newest_first ss_created_at (filter (\<lambda>s. ss_session_id s = sid \<and> ss_project_id s = project) (session_scores d)))"

definition session_of_run :: "uuid \<Rightarrow> uuid \<Rightarrow> session_score \<Rightarrow> bool" where
  "session_of_run i project s \<longleftrightarrow> ss_eval_run_id s = Some i \<and> ss_project_id s = project"

definition get_session_scores_for_run :: "uuid \<Rightarrow> uuid \<Rightarrow> (error, obs_db, session_score list) exec" where
  "get_session_scores_for_run i project = getsE (\<lambda>d. newest_first ss_created_at (filter (session_of_run i project) (session_scores d)))"

record session_score_filter =
  xf_name :: "string option"
  xf_session_id :: "string option"
  xf_source :: "score_source option"
  xf_status :: "score_status option"
  xf_eval_run_id :: "uuid option"
  xf_date_from :: "datetime option"
  xf_date_to :: "datetime option"

definition session_score_matches :: "session_score_filter \<Rightarrow> session_score \<Rightarrow> bool" where
  "session_score_matches f s \<longleftrightarrow>
     opt_all (\<lambda>v. ss_name s = v) (xf_name f)
   \<and> opt_all (\<lambda>v. ss_session_id s = v) (xf_session_id f)
   \<and> opt_all (\<lambda>v. ss_source s = v) (xf_source f)
   \<and> opt_all (\<lambda>v. ss_status s = v) (xf_status f)
   \<and> opt_all (\<lambda>v. ss_eval_run_id s = Some v) (xf_eval_run_id f)
   \<and> opt_all (\<lambda>v. v \<le> ss_created_at s) (xf_date_from f)
   \<and> opt_all (\<lambda>v. ss_created_at s < v) (xf_date_to f)"

definition list_session_scores :: "uuid \<Rightarrow> session_score_filter \<Rightarrow> nat \<Rightarrow> nat \<Rightarrow> (error, obs_db, session_score list \<times> nat) exec" where
  "list_session_scores project f lmt off = getsE (\<lambda>d.
     let base = filter (\<lambda>s. ss_project_id s = project \<and> session_score_matches f s) (session_scores d) in
     (page off lmt (newest_first ss_created_at base), length base))"

definition get_failed_session_scores_for_run :: "uuid \<Rightarrow> uuid \<Rightarrow> (error, obs_db, session_score list) exec" where
  "get_failed_session_scores_for_run i project = getsE (\<lambda>d.
     filter (\<lambda>s. session_of_run i project s \<and> ss_status s = score_status.FAILED) (session_scores d))"

definition delete_session_scores_for_run :: "uuid \<Rightarrow> uuid \<Rightarrow> (error, obs_db, nat) exec" where
  "delete_session_scores_for_run i project = bindE (getsE (\<lambda>d. length (filter (session_of_run i project) (session_scores d)))) (\<lambda>n.
     bindE (modifyE (\<lambda>d. d\<lparr>session_scores := delete_where (session_of_run i project) (session_scores d)\<rparr>)) (\<lambda>_. ret n))"

definition delete_session_score_row :: "uuid \<Rightarrow> uuid \<Rightarrow> (error, obs_db, unit) exec" where
  "delete_session_score_row i project = modifyE (\<lambda>d.
     d\<lparr>session_scores := delete_where (\<lambda>s. ss_id s = i \<and> ss_project_id s = project) (session_scores d)\<rparr>)"

section \<open>Monitors\<close>

definition create_monitor_row :: "eval_monitor \<Rightarrow> (error, obs_db, unit) exec" where
  "create_monitor_row m = (\<lambda>d.
     if mo_project_id m \<in> set (obs_projects d) \<and> run_known (mo_last_run_id m) d
     then (Inr (), d\<lparr>eval_monitors := eval_monitors d @ [m]\<rparr>)
     else (Inl IntegrityError, d))"

definition owns_monitor :: "uuid \<Rightarrow> uuid \<Rightarrow> eval_monitor \<Rightarrow> bool" where
  "owns_monitor i project m \<longleftrightarrow> mo_id m = i \<and> mo_project_id m = project"

text \<open>Building the entity of a row: its filters must be an object.\<close>

definition to_monitor :: "eval_monitor \<Rightarrow> error + eval_monitor" where
  "to_monitor m = (if mo_filters m = None then Inl (ValueError ''Input should be a valid dictionary'') else Inr m)"

definition get_monitor_row :: "uuid \<Rightarrow> uuid \<Rightarrow> (error, obs_db, eval_monitor option) exec" where
  "get_monitor_row i project = (\<lambda>d. (case scalar_one_or_none (filter (owns_monitor i project) (eval_monitors d)) of
       Inl e \<Rightarrow> Inl e
     | Inr None \<Rightarrow> Inr None
     | Inr (Some m) \<Rightarrow> (case to_monitor m of Inl e \<Rightarrow> Inl e | Inr m \<Rightarrow> Inr (Some m)), d))"

definition list_monitor_rows :: "uuid \<Rightarrow> monitor_status option \<Rightarrow> nat \<Rightarrow> nat \<Rightarrow> (error, obs_db, eval_monitor list \<times> nat) exec" where
  "list_monitor_rows project st lmt off = (\<lambda>d.
     let base = filter (\<lambda>m. mo_project_id m = project \<and> opt_all (\<lambda>v. mo_status m = v) st) (eval_monitors d) in
     (case traverseE to_monitor (page off lmt (newest_first mo_created_at base)) of Inl e \<Rightarrow> Inl e | Inr ms \<Rightarrow> Inr (ms, length base), d))"

text \<open>
  The values of an update, \<open>None\<close> for an explicit null. A null in a column that does not allow it fails
  when a row is updated; the filters are a JSON column and take the JSON null.
\<close>

datatype monitor_field =
    MName "string option"
  | MMetricNames "string list"
  | MFilters "eval_filters option"
  | MSamplingRate "real option"
  | MModel "string option"
  | MCadence "string option"
  | MOnlyIfChanged "bool option"
  | MStatus monitor_status
  | MNextRunAt "datetime option"

fun violates_not_null :: "monitor_field \<Rightarrow> bool" where
  "violates_not_null (MName v) = (v = None)"
| "violates_not_null (MSamplingRate v) = (v = None)"
| "violates_not_null (MCadence v) = (v = None)"
| "violates_not_null (MOnlyIfChanged v) = (v = None)"
| "violates_not_null _ = False"

fun set_monitor_field :: "monitor_field \<Rightarrow> eval_monitor \<Rightarrow> eval_monitor" where
  "set_monitor_field (MName (Some v)) m = m\<lparr>mo_name := v\<rparr>"
| "set_monitor_field (MMetricNames v) m = m\<lparr>mo_metric_names := v\<rparr>"
| "set_monitor_field (MFilters v) m = m\<lparr>mo_filters := v\<rparr>"
| "set_monitor_field (MSamplingRate (Some v)) m = m\<lparr>mo_sampling_rate := v\<rparr>"
| "set_monitor_field (MModel v) m = m\<lparr>mo_model := v\<rparr>"
| "set_monitor_field (MCadence (Some v)) m = m\<lparr>mo_cadence := v\<rparr>"
| "set_monitor_field (MOnlyIfChanged (Some v)) m = m\<lparr>mo_only_if_changed := v\<rparr>"
| "set_monitor_field (MStatus v) m = m\<lparr>mo_status := v\<rparr>"
| "set_monitor_field (MNextRunAt v) m = m\<lparr>mo_next_run_at := v\<rparr>"
| "set_monitor_field _ m = m"

definition update_monitor_row :: "datetime \<Rightarrow> uuid \<Rightarrow> uuid \<Rightarrow> monitor_field list \<Rightarrow> (error, obs_db, unit) exec" where
  "update_monitor_row now i project fs = (\<lambda>d.
     if fs = [] then (Inr (), d)
     else if (\<exists>f \<in> set fs. violates_not_null f) \<and> (\<exists>m \<in> set (eval_monitors d). owns_monitor i project m)
     then (Inl IntegrityError, d)
     else (Inr (), d\<lparr>eval_monitors := update_where (owns_monitor i project)
        (\<lambda>m. (fold set_monitor_field fs m)\<lparr>mo_updated_at := now\<rparr>) (eval_monitors d)\<rparr>))"

definition delete_monitor_row :: "uuid \<Rightarrow> uuid \<Rightarrow> (error, obs_db, unit) exec" where
  "delete_monitor_row i project = modifyE (\<lambda>d.
     let gone = mo_id ` {m \<in> set (eval_monitors d). owns_monitor i project m} in
     d\<lparr>eval_monitors := delete_where (owns_monitor i project) (eval_monitors d),
       eval_runs := map (\<lambda>r. r\<lparr>er_monitor_id := unlink gone (er_monitor_id r)\<rparr>) (eval_runs d)\<rparr>)"

definition monitor_due :: "datetime \<Rightarrow> eval_monitor \<Rightarrow> bool" where
  "monitor_due now m \<longleftrightarrow> mo_status m = monitor_status.ACTIVE \<and> (case mo_next_run_at m of None \<Rightarrow> False | Some t \<Rightarrow> t \<le> now)"

definition get_due_monitors :: "datetime \<Rightarrow> (error, obs_db, eval_monitor list) exec" where
  "get_due_monitors now = (\<lambda>d. (traverseE to_monitor
     (sort_key (\<lambda>m. case mo_next_run_at m of None \<Rightarrow> 0 | Some t \<Rightarrow> t) (filter (monitor_due now) (eval_monitors d))), d))"

text \<open>\<open>last_run_id\<close> references the runs.\<close>

definition advance_monitor :: "datetime \<Rightarrow> uuid \<Rightarrow> datetime \<Rightarrow> uuid option \<Rightarrow> datetime option \<Rightarrow> (error, obs_db, unit) exec" where
  "advance_monitor now i last_run_at last_run_id next_run_at = (\<lambda>d.
     if run_known last_run_id d
     then (Inr (), d\<lparr>eval_monitors := update_where (\<lambda>m. mo_id m = i)
       (\<lambda>m. m\<lparr>mo_last_run_at := Some last_run_at, mo_last_run_id := last_run_id, mo_updated_at := now,
              mo_next_run_at := coalesce next_run_at (mo_next_run_at m)\<rparr>) (eval_monitors d)\<rparr>)
     else (Inl IntegrityError, d))"

definition reschedule_monitor :: "datetime \<Rightarrow> uuid \<Rightarrow> datetime \<Rightarrow> (error, obs_db, unit) exec" where
  "reschedule_monitor now i next_run_at = modifyE (\<lambda>d.
     d\<lparr>eval_monitors := update_where (\<lambda>m. mo_id m = i) (\<lambda>m. m\<lparr>mo_next_run_at := Some next_run_at, mo_updated_at := now\<rparr>) (eval_monitors d)\<rparr>)"

definition list_runs_for_monitor :: "uuid \<Rightarrow> uuid \<Rightarrow> nat \<Rightarrow> nat \<Rightarrow> (error, obs_db, eval_run list \<times> nat) exec" where
  "list_runs_for_monitor i project lmt off = getsE (\<lambda>d.
     let base = filter (\<lambda>r. er_monitor_id r = Some i \<and> er_project_id r = project) (eval_runs d) in
     (page off lmt (newest_first er_created_at base), length base))"

end
