(* ===== verification/EvalService.thy ===== *)
theory EvalService
  imports EvalRepo TraceQueries UsageService
begin

text \<open>
  \<open>services/eval_service.py\<close>: runs are prepared in the session of the caller, committed and handed to
  the queue; scores are edited; monitors are created, changed, paused, resumed and made into runs.
  The read methods that only pass a query on are not repeated here.

  Filters are records of well-formed values: a dictionary with, say, a status that is no status is
  not represented. \<open>pick n k\<close> stands for \<open>random.sample\<close>: \<open>k\<close> positions of \<open>n\<close>. The product of a
  length and a sampling rate is a real number.
\<close>

section \<open>Sessions\<close>

text \<open>The committed tables, the ones a session sees, and what else the caller can reach.\<close>

record 'x eworld =
  ew_committed :: obs_db
  ew_db :: obs_db
  ew_rest :: 'x

definition on_db :: "(error, obs_db, 'a) exec \<Rightarrow> (error, 'x eworld, 'a) exec" where
  "on_db m = (\<lambda>w. case m (ew_db w) of (r, d) \<Rightarrow> (r, w\<lparr>ew_db := d\<rparr>))"

definition on_rest :: "(error, 'x, 'a) exec \<Rightarrow> (error, 'x eworld, 'a) exec" where
  "on_rest m = (\<lambda>w. case m (ew_rest w) of (r, x) \<Rightarrow> (r, w\<lparr>ew_rest := x\<rparr>))"

definition commit_obs :: "(error, 'x eworld, unit) exec" where
  "commit_obs = modifyE (\<lambda>w. w\<lparr>ew_committed := ew_db w\<rparr>)"

text \<open>A worker's session: what was not committed is lost when it closes.\<close>

definition worker_session :: "(error, 'x eworld, 'a) exec \<Rightarrow> (error, 'x eworld, 'a) exec" where
  "worker_session m = (\<lambda>w. case m (w\<lparr>ew_db := ew_committed w\<rparr>) of (r, w') \<Rightarrow> (r, w'\<lparr>ew_db := ew_committed w'\<rparr>))"

text \<open>A request's session: committed when the handler returns, rolled back when it raises.\<close>

definition request_session :: "(error, 'x eworld, 'a) exec \<Rightarrow> (error, 'x eworld, 'a) exec" where
  "request_session m = (\<lambda>w. case m (w\<lparr>ew_db := ew_committed w\<rparr>) of
       (Inl e, w') \<Rightarrow> (Inl e, w'\<lparr>ew_db := ew_committed w'\<rparr>)
     | (Inr x, w') \<Rightarrow> (Inr x, w'\<lparr>ew_committed := ew_db w'\<rparr>))"

section \<open>Targets\<close>

definition empty_filters :: eval_filters where
  "empty_filters = \<lparr>f_status = None, f_session_id = None, f_user_id = None, f_tags = None, f_name = None,
     f_date_from = None, f_date_to = None, f_has_error = None, f_min_trace_count = None, f_signal_weights = None,
     f_trace_ids = None, f_session_ids = None, f_retry_of = None\<rparr>"

definition filters_of :: "eval_monitor \<Rightarrow> eval_filters" where
  "filters_of m = (case mo_filters m of None \<Rightarrow> empty_filters | Some f \<Rightarrow> f)"

definition resolve_trace_ids :: "uuid \<Rightarrow> eval_filters \<Rightarrow> (error, obs_db, uuid list) exec" where
  "resolve_trace_ids project f = getsE (\<lambda>d.
     map tr_trace_id (filter (apply_trace_filters
       \<lparr>tf_session_id = f_session_id f, tf_status = f_status f, tf_user_id = f_user_id f, tf_tags = f_tags f, tf_name = f_name f,
        tf_started_after = f_date_from f, tf_started_before = f_date_to f\<rparr>) (project_traces project d)))"

text \<open>The conditions on traces that sessions and the test for new data share; empty values do not count.\<close>

definition trace_in_scope :: "eval_filters \<Rightarrow> trace_row \<Rightarrow> bool" where
  "trace_in_scope f r \<longleftrightarrow>
     opt_all (\<lambda>v. v \<le> tr_started_at r) (f_date_from f)
   \<and> opt_all (\<lambda>v. tr_started_at r < v) (f_date_to f)
   \<and> opt_all (\<lambda>v. v = [] \<or> tr_user_id r = Some v) (f_user_id f)
   \<and> opt_all (\<lambda>v. v = [] \<or> overlap (tr_tags r) v) (f_tags f)"

definition resolve_session_ids :: "uuid \<Rightarrow> eval_filters \<Rightarrow> (error, obs_db, string list) exec" where
  "resolve_session_ids project f = getsE (\<lambda>d.
     map fst (filter (\<lambda>(sid, g). opt_all (\<lambda>v. (\<exists>r \<in> set g. is_error r) = v) (f_has_error f)
                               \<and> opt_all (\<lambda>n. n \<le> length g) (f_min_trace_count f))
       (session_groups (filter (\<lambda>r. tr_session_id r \<noteq> None \<and> trace_in_scope f r) (project_traces project d)))))"

definition random_sample :: "(nat \<Rightarrow> nat \<Rightarrow> nat list) \<Rightarrow> 'a list \<Rightarrow> nat \<Rightarrow> 'a list" where
  "random_sample pick xs k = map ((!) xs) (pick (length xs) k)"

definition sample_count :: "nat \<Rightarrow> real \<Rightarrow> nat" where
  "sample_count n rate = nat \<lfloor>of_nat n * rate\<rfloor>"

text \<open>The sample of a requested run, empty for the rate zero, and the one of a monitor, never empty.\<close>

definition sample_targets :: "(nat \<Rightarrow> nat \<Rightarrow> nat list) \<Rightarrow> real \<Rightarrow> 'a list \<Rightarrow> 'a list" where
  "sample_targets pick rate xs =
     (if rate < 1
      then (let n = sample_count (length xs) rate; k = (if 0 < rate then max 1 n else n) in
            if 0 < k then random_sample pick xs k else [])
      else xs)"

definition sample_monitor :: "(nat \<Rightarrow> nat \<Rightarrow> nat list) \<Rightarrow> real \<Rightarrow> 'a list \<Rightarrow> 'a list" where
  "sample_monitor pick rate xs =
     (if rate < 1 then random_sample pick xs (max 1 (sample_count (length xs) rate)) else xs)"

section \<open>Preparing runs\<close>

datatype targets = TraceTargets "uuid list" | SessionTargets "string list"

record prepared_run =
  pr_run :: eval_run
  pr_project_id :: uuid
  pr_targets :: targets
  pr_trace_metric_map :: "(uuid \<times> string list) list option"

fun target_type_of :: "targets \<Rightarrow> target_type" where
  "target_type_of (TraceTargets _) = TRACE"
| "target_type_of (SessionTargets _) = SESSION"

definition resolve_model :: "llm_settings \<Rightarrow> string option \<Rightarrow> string" where
  "resolve_model st model = resolve_model_string (or_text model (EVAL_LLM_MODEL st))"

definition check_metrics :: "string list \<Rightarrow> string \<Rightarrow> string list \<Rightarrow> error + unit" where
  "check_metrics available unknown metric_names =
     (if \<exists>m \<in> set metric_names. m \<notin> set available then Inl (ValidationError unknown)
      else if metric_names = [] then Inl (ValidationError ''At least one metric is required.'')
      else Inr ())"

definition pending_run ::
  "datetime \<Rightarrow> uuid \<Rightarrow> uuid \<Rightarrow> string option \<Rightarrow> target_type \<Rightarrow> string list \<Rightarrow> eval_filters \<Rightarrow> real \<Rightarrow> string option \<Rightarrow> uuid option \<Rightarrow> nat \<Rightarrow> eval_run" where
  "pending_run now i project name tt metric_names f rate model monitor n =
     \<lparr>er_id = i, er_project_id = project, er_name = name, er_target_type = tt, er_metric_names = metric_names,
      er_filters = f, er_sampling_rate = rate, er_model = model, er_monitor_id = monitor,
      er_status = evaluation_status.PENDING, er_total_targets = n, er_evaluated_count = 0, er_failed_count = 0,
      er_error_message = None, er_created_at = now, er_completed_at = None\<rparr>"

fun target_count :: "targets \<Rightarrow> nat" where
  "target_count (TraceTargets ids) = length ids"
| "target_count (SessionTargets sids) = length sids"

text \<open>What every \<open>prepare\<close> method ends with: the run is added to the session.\<close>

definition add_run ::
  "datetime \<Rightarrow> uuid \<Rightarrow> string option \<Rightarrow> string list \<Rightarrow> eval_filters \<Rightarrow> real \<Rightarrow> string option \<Rightarrow> uuid option \<Rightarrow> targets \<Rightarrow>
   (uuid \<times> string list) list option \<Rightarrow> (error, obs_db, prepared_run) exec" where
  "add_run now project name metric_names f rate model monitor ts tmm =
     bindE obs_new_id (\<lambda>i.
     let run = pending_run now i project name (target_type_of ts) metric_names f rate model monitor (target_count ts) in
     bindE (create_eval_run run) (\<lambda>_.
     ret \<lparr>pr_run = run, pr_project_id = project, pr_targets = ts, pr_trace_metric_map = tmm\<rparr>))"

definition prepare_eval_run ::
  "(nat \<Rightarrow> nat \<Rightarrow> nat list) \<Rightarrow> llm_settings \<Rightarrow> datetime \<Rightarrow> uuid \<Rightarrow> string list \<Rightarrow> eval_filters \<Rightarrow> real \<Rightarrow> string option \<Rightarrow> string option \<Rightarrow>
   (error, obs_db, prepared_run) exec" where
  "prepare_eval_run pick st now project metric_names f rate model name =
     bindE (liftE (check_metrics list_metrics ''Unknown metrics'' metric_names)) (\<lambda>_.
     bindE (resolve_trace_ids project f) (\<lambda>ids.
     if ids = [] then raise (ValidationError ''No traces match the provided filters.'')
     else add_run now project name metric_names f rate (Some (resolve_model st model)) None (TraceTargets (sample_targets pick rate ids)) None))"

text \<open>\<open>list(dict.fromkeys(xs))\<close>.\<close>

definition unique_in_order :: "'a list \<Rightarrow> 'a list" where
  "unique_in_order xs = rev (remdups (rev xs))"

definition prepare_batch_eval_run ::
  "llm_settings \<Rightarrow> datetime \<Rightarrow> uuid \<Rightarrow> uuid list \<Rightarrow> string list \<Rightarrow> string option \<Rightarrow> string option \<Rightarrow> (error, obs_db, prepared_run) exec" where
  "prepare_batch_eval_run st now project ids metric_names model name =
     bindE (liftE (check_metrics list_metrics ''Unknown metrics'' metric_names)) (\<lambda>_.
     if ids = [] then raise (ValidationError ''At least one trace ID is required.'')
     else let us = unique_in_order ids in
       add_run now project name metric_names (empty_filters\<lparr>f_trace_ids := Some us\<rparr>) 1 (Some (resolve_model st model)) None (TraceTargets us) None)"

text \<open>\<open>if signal_weights\<close>.\<close>

definition with_weights :: "signals option \<Rightarrow> eval_filters \<Rightarrow> eval_filters" where
  "with_weights w f = (case w of None \<Rightarrow> f | Some [] \<Rightarrow> f | Some ws \<Rightarrow> f\<lparr>f_signal_weights := Some ws\<rparr>)"

definition prepare_session_eval_run ::
  "(nat \<Rightarrow> nat \<Rightarrow> nat list) \<Rightarrow> llm_settings \<Rightarrow> datetime \<Rightarrow> uuid \<Rightarrow> string list \<Rightarrow> eval_filters \<Rightarrow> real \<Rightarrow> string option \<Rightarrow> string option \<Rightarrow>
   signals option \<Rightarrow> (error, obs_db, prepared_run) exec" where
  "prepare_session_eval_run pick st now project metric_names f rate model name weights =
     bindE (liftE (check_metrics list_session_metrics ''Unknown session metrics'' metric_names)) (\<lambda>_.
     bindE (resolve_session_ids project f) (\<lambda>sids.
     if sids = [] then raise (ValidationError ''No sessions match the provided filters.'')
     else add_run now project name metric_names (with_weights weights f) rate (Some (resolve_model st model)) None
            (SessionTargets (sample_targets pick rate sids)) None))"

definition prepare_batch_session_eval_run ::
  "llm_settings \<Rightarrow> datetime \<Rightarrow> uuid \<Rightarrow> string list \<Rightarrow> string list \<Rightarrow> string option \<Rightarrow> string option \<Rightarrow> signals option \<Rightarrow>
   (error, obs_db, prepared_run) exec" where
  "prepare_batch_session_eval_run st now project sids metric_names model name weights =
     bindE (liftE (check_metrics list_session_metrics ''Unknown session metrics'' metric_names)) (\<lambda>_.
     if sids = [] then raise (ValidationError ''At least one session ID is required.'')
     else let us = unique_in_order sids in
       add_run now project name metric_names (with_weights weights (empty_filters\<lparr>f_session_ids := Some us\<rparr>)) 1 (Some (resolve_model st model)) None
         (SessionTargets us) None)"

definition no_run :: error where "no_run = NotFoundError ''Eval run not found.''"

definition retry_name :: "eval_run \<Rightarrow> string" where
  "retry_name r = ''Retry: '' @ (case er_name r of None \<Rightarrow> uuid_text (er_id r) | Some n \<Rightarrow> if n = [] then uuid_text (er_id r) else n)"

text \<open>The failed metrics of each trace, traces and metrics in the order of the failed scores.\<close>

definition failed_metrics :: "trace_score list \<Rightarrow> (uuid \<times> string list) list" where
  "failed_metrics ss = map (\<lambda>i. (i, unique_in_order (map ts_name (filter (\<lambda>s. ts_trace_id s = i) ss)))) (unique_in_order (map ts_trace_id ss))"

definition prepare_retry_failed_run :: "datetime \<Rightarrow> uuid \<Rightarrow> uuid \<Rightarrow> (error, obs_db, prepared_run) exec" where
  "prepare_retry_failed_run now run_id project =
     bindE (get_eval_run run_id project) (\<lambda>found. case found of
       None \<Rightarrow> raise no_run
     | Some original \<Rightarrow>
         bindE (get_failed_scores_for_run run_id project) (\<lambda>failed.
         if failed = [] then raise (ValidationError ''No failed scores to retry in this run.'')
         else (let tmm = failed_metrics failed; ids = map fst tmm in
           add_run now project (Some (retry_name original)) (sort (remdups (concat (map snd tmm))))
             (empty_filters\<lparr>f_retry_of := Some run_id, f_trace_ids := Some ids\<rparr>) 1 (er_model original) None (TraceTargets ids) (Some tmm))))"

definition prepare_retry_failed_session_run :: "llm_settings \<Rightarrow> datetime \<Rightarrow> uuid \<Rightarrow> uuid \<Rightarrow> (error, obs_db, prepared_run) exec" where
  "prepare_retry_failed_session_run st now run_id project =
     bindE (get_eval_run run_id project) (\<lambda>found. case found of
       None \<Rightarrow> raise no_run
     | Some original \<Rightarrow>
         bindE (get_failed_session_scores_for_run run_id project) (\<lambda>failed.
         if failed = [] then raise (ValidationError ''No failed scores to retry in this run.'')
         else (let sids = sort (remdups (map ss_session_id failed)) in
           add_run now project (Some (retry_name original)) (sort (remdups (map ss_name failed)))
             (with_weights (f_signal_weights (er_filters original)) (empty_filters\<lparr>f_retry_of := Some run_id, f_session_ids := Some sids\<rparr>)) 1
             (Some (resolve_model st (er_model original))) None (SessionTargets sids) None)))"

text \<open>
  \<open>dispatch_run\<close>: commit, then the message. \<open>broker\<close> says whether handing it over fails.
\<close>

datatype eval_message =
    ExecuteEvalRun uuid uuid "uuid list" "(uuid \<times> string list) list option"
  | ExecuteSessionEvalRun uuid uuid "string list"

fun run_message :: "uuid \<Rightarrow> uuid \<Rightarrow> targets \<Rightarrow> (uuid \<times> string list) list option \<Rightarrow> eval_message" where
  "run_message run_id project (TraceTargets ids) tmm = ExecuteEvalRun run_id project ids tmm"
| "run_message run_id project (SessionTargets sids) tmm = ExecuteSessionEvalRun run_id project sids"

definition dispatch_run :: "error option \<Rightarrow> prepared_run \<Rightarrow> (error, 'x eworld, eval_run \<times> eval_message) exec" where
  "dispatch_run broker p = bindE commit_obs (\<lambda>_.
     case broker of Some e \<Rightarrow> raise e
     | None \<Rightarrow> ret (pr_run p, run_message (er_id (pr_run p)) (pr_project_id p) (pr_targets p) (pr_trace_metric_map p)))"

section \<open>Runs and scores\<close>

definition require_run :: "uuid \<Rightarrow> uuid \<Rightarrow> (error, obs_db, eval_run) exec" where
  "require_run run_id project = bindE (get_eval_run run_id project) (\<lambda>r. case r of None \<Rightarrow> raise no_run | Some r \<Rightarrow> ret r)"

definition delete_eval_run :: "uuid \<Rightarrow> uuid \<Rightarrow> bool \<Rightarrow> (error, 'x eworld, unit) exec" where
  "delete_eval_run run_id project delete_scores =
     bindE (on_db (bindE (require_run run_id project) (\<lambda>run.
       bindE (if delete_scores
              then bindE (if er_target_type run = SESSION then delete_session_scores_for_run run_id project else ret 0)
                     (\<lambda>_. delete_scores_for_run run_id project)
              else ret 0) (\<lambda>_.
       delete_eval_run_row run_id project)))) (\<lambda>_. commit_obs)"

text \<open>Constructing a score validates its value; the exception of the validator is not translated.\<close>

definition annotate_trace ::
  "datetime \<Rightarrow> uuid \<Rightarrow> uuid \<Rightarrow> string \<Rightarrow> string \<Rightarrow> score_data_type \<Rightarrow> score_source \<Rightarrow> string option \<Rightarrow> metadata option \<Rightarrow> (error, 'x eworld, trace_score) exec" where
  "annotate_trace now project trace_id name v data_type source reason meta =
     bindE (on_db (bindE obs_new_id (\<lambda>i.
       bindE (liftE (validate_value (Some v) data_type)) (\<lambda>_.
       let s = \<lparr>ts_id = i, ts_trace_id = trace_id, ts_project_id = project, ts_name = name, ts_data_type = data_type, ts_value = Some v,
          ts_source = source, ts_status = SUCCESS, ts_eval_run_id = None, ts_author_user_id = None, ts_reason = reason,
          ts_environment = None, ts_config_id = None, ts_metadata = (case meta of None \<Rightarrow> [] | Some m \<Rightarrow> m),
          ts_created_at = now, ts_updated_at = now\<rparr> in
       bindE (create_score s) (\<lambda>_. ret s))))) (\<lambda>s. bindE commit_obs (\<lambda>_. ret s))"

definition no_score :: error where "no_score = NotFoundError ''Trace score not found.''"

definition update_score ::
  "datetime \<Rightarrow> uuid \<Rightarrow> uuid \<Rightarrow> string option \<Rightarrow> string option \<Rightarrow> metadata option \<Rightarrow> (error, 'x eworld, trace_score) exec" where
  "update_score now i project v reason meta =
     bindE (on_db (bindE (get_score_by_id i project) (\<lambda>found. case found of
         None \<Rightarrow> raise no_score
       | Some existing \<Rightarrow>
           bindE (case v of None \<Rightarrow> ret ()
                  | Some x \<Rightarrow> (case validate_score_value x (ts_data_type existing) of Inl e \<Rightarrow> raise (ValidationError (error_text e)) | Inr _ \<Rightarrow> ret ()))
             (\<lambda>_. update_score_row now i project v reason meta SUCCESS ANNOTATION)))) (\<lambda>_.
     bindE commit_obs (\<lambda>_.
     bindE (on_db (get_score_by_id i project)) (\<lambda>updated. case updated of None \<Rightarrow> raise no_score | Some s \<Rightarrow> ret s)))"

definition delete_score :: "uuid \<Rightarrow> uuid \<Rightarrow> (error, 'x eworld, unit) exec" where
  "delete_score i project =
     bindE (on_db (bindE (get_score_by_id i project) (\<lambda>found. case found of None \<Rightarrow> raise no_score | Some _ \<Rightarrow> delete_score_row i project)))
       (\<lambda>_. commit_obs)"

definition delete_session_score :: "uuid \<Rightarrow> uuid \<Rightarrow> (error, 'x eworld, unit) exec" where
  "delete_session_score i project = bindE (on_db (delete_session_score_row i project)) (\<lambda>_. commit_obs)"

section \<open>Monitors\<close>

definition no_monitor :: error where "no_monitor = NotFoundError ''Eval monitor not found.''"

definition require_monitor :: "uuid \<Rightarrow> uuid \<Rightarrow> (error, obs_db, eval_monitor) exec" where
  "require_monitor i project = bindE (get_monitor_row i project) (\<lambda>m. case m of None \<Rightarrow> raise no_monitor | Some m \<Rightarrow> ret m)"

text \<open>\<open>except ValueError as e: raise ValidationError(str(e))\<close>.\<close>

definition as_validation :: "error + 'a \<Rightarrow> error + 'a" where
  "as_validation r = (case r of Inl e \<Rightarrow> Inl (ValidationError (error_text e)) | Inr x \<Rightarrow> Inr x)"

definition available_metrics :: "target_type \<Rightarrow> string list" where
  "available_metrics tt = (if tt = TRACE then list_metrics else list_session_metrics)"

definition weights_given :: "signals option \<Rightarrow> bool" where
  "weights_given w \<longleftrightarrow> (case w of None \<Rightarrow> False | Some ws \<Rightarrow> ws \<noteq> [])"

definition create_monitor ::
  "croniter \<Rightarrow> datetime \<Rightarrow> uuid \<Rightarrow> string \<Rightarrow> target_type \<Rightarrow> string list \<Rightarrow> string \<Rightarrow> eval_filters \<Rightarrow> real \<Rightarrow> string option \<Rightarrow> bool \<Rightarrow>
   signals option \<Rightarrow> (error, 'x eworld, eval_monitor) exec" where
  "create_monitor cron now project name tt metric_names cadence f rate model only_if_changed weights =
     bindE (on_db (
       if tt = TRACE \<and> weights_given weights then raise (ValidationError ''signal_weights is only valid for SESSION monitors.'')
       else bindE (liftE (check_metrics (available_metrics tt) ''Unknown metrics'' metric_names)) (\<lambda>_.
       bindE (liftE (as_validation (validate_cadence cron cadence))) (\<lambda>c.
       bindE (liftE (compute_next_run cron c now)) (\<lambda>next_run.
       bindE obs_new_id (\<lambda>i.
       let m = \<lparr>mo_id = i, mo_project_id = project, mo_name = name, mo_target_type = tt, mo_metric_names = metric_names,
          mo_filters = Some (with_weights weights f), mo_sampling_rate = rate, mo_model = model, mo_cadence = c,
          mo_only_if_changed = only_if_changed, mo_status = monitor_status.ACTIVE, mo_last_run_at = None, mo_last_run_id = None,
          mo_next_run_at = Some next_run, mo_created_at = now, mo_updated_at = now\<rparr> in
       bindE (create_monitor_row m) (\<lambda>_. ret m))))))) (\<lambda>m. bindE commit_obs (\<lambda>_. ret m))"

text \<open>The fields a request sets: the outer \<open>None\<close> for a field it does not mention, the inner one for a null.\<close>

record monitor_patch =
  mp_name :: "string option option"
  mp_metrics :: "string list option option"
  mp_filters :: "eval_filters option option"
  mp_sampling_rate :: "real option option"
  mp_model :: "string option option"
  mp_cadence :: "string option option"
  mp_only_if_changed :: "bool option option"
  mp_signal_weights :: "signals option option"

text \<open>The filters after the update, the outer \<open>None\<close> when they are not written.\<close>

definition patched_filters :: "eval_monitor \<Rightarrow> monitor_patch \<Rightarrow> eval_filters option option" where
  "patched_filters m p = (case mp_signal_weights p of
       Some w \<Rightarrow>
         (let base = (case mp_filters p of None \<Rightarrow> filters_of m | Some None \<Rightarrow> empty_filters | Some (Some f) \<Rightarrow> f) in
          Some (Some (base\<lparr>f_signal_weights := (if weights_given w then w else None)\<rparr>)))
     | None \<Rightarrow> (case mp_filters p of
           None \<Rightarrow> None
         | Some f \<Rightarrow> (case f_signal_weights (filters_of m) of
               None \<Rightarrow> Some f
             | Some ws \<Rightarrow> Some (Some ((case f of None \<Rightarrow> empty_filters | Some g \<Rightarrow> g)\<lparr>f_signal_weights := Some ws\<rparr>)))))"

definition field :: "('a \<Rightarrow> monitor_field) \<Rightarrow> 'a option \<Rightarrow> monitor_field list" where
  "field F v = (case v of None \<Rightarrow> [] | Some x \<Rightarrow> [F x])"

definition patched_metrics :: "eval_monitor \<Rightarrow> monitor_patch \<Rightarrow> error + monitor_field list" where
  "patched_metrics m p = (case mp_metrics p of
       Some (Some names) \<Rightarrow>
         if \<exists>n \<in> set names. n \<notin> set (available_metrics (mo_target_type m)) then Inl (ValidationError ''Unknown metrics'') else Inr [MMetricNames names]
     | _ \<Rightarrow> Inr [])"

definition patched_cadence :: "croniter \<Rightarrow> datetime \<Rightarrow> monitor_patch \<Rightarrow> error + monitor_field list" where
  "patched_cadence cron now p = (case mp_cadence p of
       None \<Rightarrow> Inr []
     | Some None \<Rightarrow> Inr [MCadence None]
     | Some (Some c) \<Rightarrow> (case as_validation (validate_cadence cron c) of Inl e \<Rightarrow> Inl e | Inr c' \<Rightarrow>
         (case compute_next_run cron c' now of Inl e \<Rightarrow> Inl e | Inr t \<Rightarrow> Inr [MCadence (Some c'), MNextRunAt (Some t)])))"

definition update_monitor :: "croniter \<Rightarrow> datetime \<Rightarrow> uuid \<Rightarrow> uuid \<Rightarrow> monitor_patch \<Rightarrow> (error, 'x eworld, eval_monitor) exec" where
  "update_monitor cron now i project p =
     bindE (on_db (bindE (require_monitor i project) (\<lambda>m.
       bindE (liftE (patched_metrics m p)) (\<lambda>metric_fields.
       if mo_target_type m = TRACE \<and> (case mp_signal_weights p of None \<Rightarrow> False | Some w \<Rightarrow> weights_given w)
       then raise (ValidationError ''signal_weights is only valid for SESSION monitors.'')
       else bindE (liftE (patched_cadence cron now p)) (\<lambda>cadence_fields.
         update_monitor_row now i project (metric_fields @ field MFilters (patched_filters m p) @ cadence_fields
           @ field MName (mp_name p) @ field MSamplingRate (mp_sampling_rate p) @ field MModel (mp_model p)
           @ field MOnlyIfChanged (mp_only_if_changed p))))))) (\<lambda>_.
     bindE commit_obs (\<lambda>_. on_db (require_monitor i project)))"

definition delete_monitor :: "uuid \<Rightarrow> uuid \<Rightarrow> (error, 'x eworld, unit) exec" where
  "delete_monitor i project = bindE (on_db (bindE (require_monitor i project) (\<lambda>_. delete_monitor_row i project))) (\<lambda>_. commit_obs)"

definition pause_monitor :: "datetime \<Rightarrow> uuid \<Rightarrow> uuid \<Rightarrow> (error, 'x eworld, eval_monitor) exec" where
  "pause_monitor now i project =
     bindE (on_db (require_monitor i project)) (\<lambda>m.
     if mo_status m = PAUSED then ret m
     else bindE (on_db (update_monitor_row now i project [MStatus PAUSED, MNextRunAt None])) (\<lambda>_.
          bindE commit_obs (\<lambda>_. on_db (require_monitor i project))))"

definition resume_monitor :: "croniter \<Rightarrow> datetime \<Rightarrow> uuid \<Rightarrow> uuid \<Rightarrow> (error, 'x eworld, eval_monitor) exec" where
  "resume_monitor cron now i project =
     bindE (on_db (require_monitor i project)) (\<lambda>m.
     if mo_status m = monitor_status.ACTIVE then ret m
     else bindE (liftE (compute_next_run cron (mo_cadence m) now)) (\<lambda>next_run.
          bindE (on_db (update_monitor_row now i project [MStatus monitor_status.ACTIVE, MNextRunAt (Some next_run)])) (\<lambda>_.
          bindE commit_obs (\<lambda>_. on_db (require_monitor i project)))))"

text \<open>No new trace since the last run.\<close>

definition should_skip_monitor :: "eval_monitor \<Rightarrow> (error, obs_db, bool) exec" where
  "should_skip_monitor m = (case mo_last_run_at m of
       None \<Rightarrow> ret False
     | Some t \<Rightarrow>
         if \<not> mo_only_if_changed m then ret False
         else getsE (\<lambda>d. filter (\<lambda>r. t < tr_started_at r \<and> (mo_target_type m = SESSION \<longrightarrow> tr_session_id r \<noteq> None)
                \<and> trace_in_scope (filters_of m) r) (project_traces (mo_project_id m) d) = []))"

definition monitor_run ::
  "llm_settings \<Rightarrow> datetime \<Rightarrow> eval_monitor \<Rightarrow> targets \<Rightarrow> (error, obs_db, prepared_run) exec" where
  "monitor_run st now m ts = add_run now (mo_project_id m) (Some (''[Monitor] '' @ mo_name m)) (mo_metric_names m) (filters_of m)
     (mo_sampling_rate m) (Some (resolve_model st (mo_model m))) (Some (mo_id m)) ts None"

definition spawn_run_for_monitor ::
  "(nat \<Rightarrow> nat \<Rightarrow> nat list) \<Rightarrow> llm_settings \<Rightarrow> datetime \<Rightarrow> eval_monitor \<Rightarrow> (error, obs_db, prepared_run) exec" where
  "spawn_run_for_monitor pick st now m =
     (if mo_target_type m = TRACE
      then bindE (resolve_trace_ids (mo_project_id m) (filters_of m)) (\<lambda>ids.
        if ids = [] then raise (ValidationError ''No traces match the monitor's filters.'')
        else monitor_run st now m (TraceTargets (sample_monitor pick (mo_sampling_rate m) ids)))
      else bindE (resolve_session_ids (mo_project_id m) (filters_of m)) (\<lambda>sids.
        if sids = [] then raise (ValidationError ''No sessions match the monitor's filters.'')
        else monitor_run st now m (SessionTargets (sample_monitor pick (mo_sampling_rate m) sids))))"

definition prepare_trigger_monitor ::
  "(nat \<Rightarrow> nat \<Rightarrow> nat list) \<Rightarrow> llm_settings \<Rightarrow> croniter \<Rightarrow> datetime \<Rightarrow> uuid \<Rightarrow> uuid \<Rightarrow> (error, obs_db, prepared_run) exec" where
  "prepare_trigger_monitor pick st cron now i project =
     bindE (require_monitor i project) (\<lambda>m.
     bindE (spawn_run_for_monitor pick st now m) (\<lambda>p.
     bindE (liftE (compute_next_run cron (mo_cadence m) now)) (\<lambda>next_run.
     bindE (advance_monitor now i now (Some (er_id (pr_run p))) (Some next_run)) (\<lambda>_. ret p))))"

section \<open>Endpoints that start runs\<close>

definition usage_category_for :: "targets \<Rightarrow> string" where
  "usage_category_for ts = (if target_type_of ts = TRACE then ''trace_evals'' else ''session_evals'')"

text \<open>What a run is charged: a retry for the pairs it repeats, any other run for every target and metric.\<close>

definition billable :: "prepared_run \<Rightarrow> nat" where
  "billable p = (case pr_trace_metric_map p of
       Some (kv # kvs) \<Rightarrow> sum_list (map (\<lambda>(i, ms). length ms) (kv # kvs))
     | _ \<Rightarrow> er_total_targets (pr_run p) * length (er_metric_names (pr_run p)))"

text \<open>
  The endpoints that prepare a run, charge it, commit and enqueue it, and give the units back when
  that fails; \<open>prepare\<close> is the method of the service that the endpoint calls.
\<close>

definition start_run ::
  "datetime \<Rightarrow> uuid \<Rightarrow> uuid \<Rightarrow> error option \<Rightarrow> uuid \<Rightarrow> (error, obs_db, prepared_run) exec \<Rightarrow> (error, 's bworld eworld, eval_run \<times> eval_message) exec" where
  "start_run now nonce nonce' broker org prepare = request_session (
     bindE (on_db prepare) (\<lambda>p.
     bindE (on_rest (check_and_increment now nonce org (usage_category_for (pr_targets p)) (int (billable p)))) (\<lambda>_.
     catchE (dispatch_run broker p)
       (\<lambda>e. bindE (on_rest (rollback_increment now nonce' org (usage_category_for (pr_targets p)) (int (billable p)))) (\<lambda>_. raise e)))))"

end
