(* ===== verification/EvalTasks.thy ===== *)
theory EvalTasks
  imports EvalService
begin

text \<open>
  The evaluation tasks of \<open>infrastructure/queue/tasks.py\<close>: runs over traces, runs over sessions, the
  tick that finds due monitors and the worker that turns one into a run. A task is deterministic
  but for its environment: the judge prompts, the language model service, the hash, and a clock
  that is indexed by the identifier counter of the tables at the instant it is read. The soft time
  limit, an exception the queue raises at an arbitrary instant, is not modelled.
\<close>

record 's eval_env =
  ee_judge :: judge
  ee_settings :: llm_settings
  ee_litellm :: "'s litellm"
  ee_sha256 :: "string \<Rightarrow> string"
  ee_clock :: "nat \<Rightarrow> datetime"

definition read_clock :: "'s eval_env \<Rightarrow> (error, 'x eworld, datetime) exec" where
  "read_clock ev = getsE (\<lambda>w. ee_clock ev (obs_next_id (ew_db w)))"

section \<open>Scores\<close>

definition automated_score ::
  "datetime \<Rightarrow> uuid \<Rightarrow> uuid \<Rightarrow> uuid \<Rightarrow> trace \<Rightarrow> string \<Rightarrow> string option \<Rightarrow> score_status \<Rightarrow> string option \<Rightarrow> metadata \<Rightarrow> trace_score" where
  "automated_score now i run_id project tr name v st reason meta =
     \<lparr>ts_id = i, ts_trace_id = tr_trace_id tr, ts_project_id = project, ts_name = name, ts_data_type = NUMERIC, ts_value = v,
      ts_source = AUTOMATED, ts_status = st, ts_eval_run_id = Some run_id, ts_author_user_id = None, ts_reason = reason,
      ts_environment = tr_environment tr, ts_config_id = None, ts_metadata = meta, ts_created_at = now, ts_updated_at = now\<rparr>"

text \<open>Constructing a score and storing it.\<close>

definition store_score ::
  "datetime \<Rightarrow> uuid \<Rightarrow> uuid \<Rightarrow> trace \<Rightarrow> string \<Rightarrow> string option \<Rightarrow> score_status \<Rightarrow> string option \<Rightarrow> metadata \<Rightarrow> (error, 'x eworld, unit) exec" where
  "store_score now run_id project tr name v st reason meta =
     bindE (liftE (validate_value v NUMERIC)) (\<lambda>_.
     on_db (bindE obs_new_id (\<lambda>i. create_score (automated_score now i run_id project tr name v st reason meta))))"

section \<open>Runs over traces\<close>

text \<open>\<open>get_metric\<close> stands before the \<open>try\<close>: an unknown metric ends the run.\<close>

definition score_metric :: "'s eval_env \<Rightarrow> eval_run \<Rightarrow> uuid \<Rightarrow> trace \<Rightarrow> string \<Rightarrow> (error, 's engine eworld, unit) exec" where
  "score_metric ev run project tr name =
     (if name \<notin> set REGISTRY then raise KeyError
      else bindE (read_clock ev) (\<lambda>now.
        catchE
          (bindE (on_rest (evaluate_metric (ee_judge ev) (ee_settings ev) (ee_litellm ev) (ee_sha256 ev) name tr (er_model run) [])) (\<lambda>r.
           store_score now (er_id run) project tr name (Some (score_text (mr_score r))) SUCCESS (mr_reason r) (mr_metadata r)))
          (\<lambda>e. bindE (store_score now (er_id run) project tr name None score_status.FAILED (Some (''Metric execution failed: '' @ error_text e)) [])
             (\<lambda>_. on_db (increment_failed (er_id run))))))"

definition metrics_for :: "(uuid \<times> string list) list option \<Rightarrow> eval_run \<Rightarrow> uuid \<Rightarrow> string list" where
  "metrics_for tmm run i = (case tmm of
       None \<Rightarrow> er_metric_names run
     | Some m \<Rightarrow> (case map_of m i of None \<Rightarrow> er_metric_names run | Some names \<Rightarrow> names))"

definition eval_trace ::
  "'s eval_env \<Rightarrow> eval_run \<Rightarrow> uuid \<Rightarrow> (uuid \<times> string list) list option \<Rightarrow> uuid \<Rightarrow> (error, 's engine eworld, unit) exec" where
  "eval_trace ev run project tmm i =
     bindE (on_db (get_trace i project)) (\<lambda>found.
     bindE (case found of None \<Rightarrow> ret () | Some tr \<Rightarrow> forE (metrics_for tmm run i) (score_metric ev run project tr)) (\<lambda>_.
     bindE (on_db (increment_progress (er_id run))) (\<lambda>_. commit_obs)))"

text \<open>A fresh engine has an empty cache.\<close>

definition new_engine :: "(error, 's engine eworld, unit) exec" where
  "new_engine = on_rest (modifyE (\<lambda>e. e\<lparr>embedding_cache := []\<rparr>))"

definition set_status :: "'s eval_env \<Rightarrow> uuid \<Rightarrow> evaluation_status \<Rightarrow> string option \<Rightarrow> (error, 'x eworld, unit) exec" where
  "set_status ev run_id st msg = bindE (read_clock ev) (\<lambda>now. on_db (update_run_status now run_id st msg))"

definition reset_run :: "'s eval_env \<Rightarrow> uuid \<Rightarrow> (error, 'x eworld, unit) exec" where
  "reset_run ev run_id = bindE (on_db (reset_run_counters run_id)) (\<lambda>_.
     bindE (set_status ev run_id evaluation_status.RUNNING None) (\<lambda>_. commit_obs))"

definition complete_run :: "'s eval_env \<Rightarrow> uuid \<Rightarrow> (error, 'x eworld, unit) exec" where
  "complete_run ev run_id = bindE (set_status ev run_id evaluation_status.COMPLETED None) (\<lambda>_. commit_obs)"

definition started_run :: "uuid \<Rightarrow> uuid \<Rightarrow> (error, 'x eworld, eval_run) exec" where
  "started_run run_id project = bindE (on_db (get_eval_run run_id project)) (\<lambda>r.
     case r of None \<Rightarrow> raise (ValueError ''Eval run not found'') | Some run \<Rightarrow> ret run)"

definition run_eval_run ::
  "'s eval_env \<Rightarrow> uuid \<Rightarrow> uuid \<Rightarrow> uuid list \<Rightarrow> (uuid \<times> string list) list option \<Rightarrow> (error, 's engine eworld, unit) exec" where
  "run_eval_run ev run_id project ids tmm = bindE new_engine (\<lambda>_. worker_session (
     bindE (on_db (delete_scores_for_run run_id project)) (\<lambda>_.
     bindE (reset_run ev run_id) (\<lambda>_.
     bindE (started_run run_id project) (\<lambda>run.
     bindE (forE ids (eval_trace ev run project tmm)) (\<lambda>_.
     complete_run ev run_id))))))"

text \<open>\<open>_fail_eval_run\<close>; its own failures are only logged, and this update has none.\<close>

definition fail_eval_run :: "'s eval_env \<Rightarrow> uuid \<Rightarrow> string \<Rightarrow> (error, 'x eworld, unit) exec" where
  "fail_eval_run ev run_id msg = worker_session (bindE (set_status ev run_id evaluation_status.FAILED (Some msg)) (\<lambda>_. commit_obs))"

text \<open>The task: an exception marks the run as failed and asks the queue for a retry.\<close>

datatype task_result = TaskCompleted | TaskRetry error

definition or_fail :: "'s eval_env \<Rightarrow> uuid \<Rightarrow> (error, 'x eworld, unit) exec \<Rightarrow> 'x eworld \<Rightarrow> task_result \<times> 'x eworld" where
  "or_fail ev run_id m = (\<lambda>w. case m w of
       (Inr _, w') \<Rightarrow> (TaskCompleted, w')
     | (Inl e, w') \<Rightarrow> (TaskRetry e, snd (fail_eval_run ev run_id (error_text e) w')))"

definition execute_eval_run ::
  "'s eval_env \<Rightarrow> uuid \<Rightarrow> uuid \<Rightarrow> uuid list \<Rightarrow> (uuid \<times> string list) list option \<Rightarrow> 's engine eworld \<Rightarrow> task_result \<times> 's engine eworld" where
  "execute_eval_run ev run_id project ids tmm = or_fail ev run_id (run_eval_run ev run_id project ids tmm)"

section \<open>Runs over sessions\<close>

definition SIGNAL_METRICS :: "string list" where
  "SIGNAL_METRICS = [''confidence'', ''coherence'', ''loop_detection'', ''tool_correctness'']"

text \<open>The traces of a session in the order of their start, with their spans.\<close>

definition session_traces :: "uuid \<Rightarrow> string \<Rightarrow> (error, obs_db, trace list) exec" where
  "session_traces project sid = getsE (\<lambda>d.
     map (\<lambda>r. to_trace (spans_of d (tr_trace_id r)) r) (session_trace_rows project sid d))"

text \<open>The texts whose embeddings are fetched in advance; a failure is only logged.\<close>

definition warm_texts :: "trace list \<Rightarrow> string list" where
  "warm_texts traces = concat (map (\<lambda>t. filter (\<lambda>x. x \<noteq> []) [to_text (tr_input t), to_text (tr_output t)]) traces)"

definition warm_embeddings :: "'s eval_env \<Rightarrow> trace list \<Rightarrow> (error, 's engine eworld, unit) exec" where
  "warm_embeddings ev traces =
     (if warm_texts traces = [] then ret ()
      else catchE (bindE (on_rest (embed_texts (ee_settings ev) (ee_litellm ev) (ee_sha256 ev) (warm_texts traces) None)) (\<lambda>_. ret ())) (\<lambda>_. ret ()))"

text \<open>
  \<open>float(existing.value)\<close>. A text that reads as an infinity or as not a number, which only a score
  that is not numeric can hold, is treated like a text that is no number.
\<close>

definition stored_value :: "string \<Rightarrow> error + real" where
  "stored_value v = (case parse_float v of Some (Finite x) \<Rightarrow> Inr x | _ \<Rightarrow> Inl (ValueError ''could not convert string to float''))"

text \<open>One signal of one trace: reused from a stored score, or computed and stored.\<close>

definition signal_value ::
  "'s eval_env \<Rightarrow> eval_run \<Rightarrow> uuid \<Rightarrow> trace list \<Rightarrow> trace \<Rightarrow> string \<Rightarrow> (error, 's engine eworld, real option) exec" where
  "signal_value ev run project earlier tr name =
     bindE (on_db (find_existing_trace_score (tr_trace_id tr) name)) (\<lambda>existing.
     case (case existing of None \<Rightarrow> None | Some s \<Rightarrow> ts_value s) of
       Some v \<Rightarrow> bindE (liftE (stored_value v)) (\<lambda>x. ret (Some x))
     | None \<Rightarrow>
         catchE
           (bindE (on_rest (evaluate_metric (ee_judge ev) (ee_settings ev) (ee_litellm ev) (ee_sha256 ev) name tr (er_model run) earlier)) (\<lambda>r.
            bindE (read_clock ev) (\<lambda>now.
            bindE (store_score now (er_id run) project tr name (Some (score_text (mr_score r))) SUCCESS (mr_reason r) (mr_metadata r)) (\<lambda>_.
            ret (Some (mr_score r))))))
           (\<lambda>e. bindE (read_clock ev) (\<lambda>now.
              bindE (store_score now (er_id run) project tr name None score_status.FAILED (Some (''Signal computation failed: '' @ error_text e)) []) (\<lambda>_.
              ret None))))"

text \<open>\<open>[f(x) for x in xs]\<close>.\<close>

fun mapE :: "('a \<Rightarrow> ('e, 's, 'b) exec) \<Rightarrow> 'a list \<Rightarrow> ('e, 's, 'b list) exec" where
  "mapE f [] = ret []"
| "mapE f (x # xs) = bindE (f x) (\<lambda>y. bindE (mapE f xs) (\<lambda>ys. ret (y # ys)))"

definition signals_of ::
  "'s eval_env \<Rightarrow> eval_run \<Rightarrow> uuid \<Rightarrow> trace list \<Rightarrow> trace \<Rightarrow> (error, 's engine eworld, uuid \<times> signals) exec" where
  "signals_of ev run project earlier tr =
     bindE (mapE (signal_value ev run project earlier tr) SIGNAL_METRICS) (\<lambda>vs.
     ret (tr_trace_id tr, concat (map (\<lambda>(n, v). case v of None \<Rightarrow> [] | Some x \<Rightarrow> [(n, x)]) (zip SIGNAL_METRICS vs))))"

definition session_signals ::
  "'s eval_env \<Rightarrow> eval_run \<Rightarrow> uuid \<Rightarrow> trace list \<Rightarrow> (error, 's engine eworld, (uuid \<times> signals) list) exec" where
  "session_signals ev run project traces =
     mapE (\<lambda>i. signals_of ev run project (take i traces) (traces ! i)) [0..<length traces]"

definition automated_session_score ::
  "datetime \<Rightarrow> uuid \<Rightarrow> uuid \<Rightarrow> uuid \<Rightarrow> string \<Rightarrow> string \<Rightarrow> string option \<Rightarrow> score_status \<Rightarrow> string option \<Rightarrow> metadata \<Rightarrow> session_score" where
  "automated_session_score now i run_id project sid name v st reason meta =
     \<lparr>ss_id = i, ss_session_id = sid, ss_project_id = project, ss_name = name, ss_data_type = NUMERIC, ss_value = v,
      ss_source = AUTOMATED, ss_status = st, ss_eval_run_id = Some run_id, ss_author_user_id = None, ss_reason = reason,
      ss_environment = None, ss_config_id = None, ss_metadata = meta, ss_created_at = now, ss_updated_at = now\<rparr>"

definition store_session_score ::
  "datetime \<Rightarrow> uuid \<Rightarrow> uuid \<Rightarrow> string \<Rightarrow> string \<Rightarrow> string option \<Rightarrow> score_status \<Rightarrow> string option \<Rightarrow> metadata \<Rightarrow> (error, 'x eworld, unit) exec" where
  "store_session_score now run_id project sid name v st reason meta =
     bindE (liftE (validate_value v NUMERIC)) (\<lambda>_.
     on_db (bindE obs_new_id (\<lambda>i. create_session_score (automated_session_score now i run_id project sid name v st reason meta))))"

definition score_session_metric ::
  "'s eval_env \<Rightarrow> eval_run \<Rightarrow> uuid \<Rightarrow> string \<Rightarrow> trace list \<Rightarrow> (uuid \<times> signals) list \<Rightarrow> string \<Rightarrow> (error, 's engine eworld, unit) exec" where
  "score_session_metric ev run project sid traces precomputed name =
     bindE (read_clock ev) (\<lambda>now.
     catchE
       (bindE (liftE (evaluate_session_metric name traces (f_signal_weights (er_filters run)) precomputed)) (\<lambda>r.
        store_session_score now (er_id run) project sid name (Some (score_text (mr_score r))) SUCCESS (mr_reason r) (mr_metadata r)))
       (\<lambda>e. bindE (store_session_score now (er_id run) project sid name None score_status.FAILED (Some (''Session metric failed: '' @ error_text e)) [])
          (\<lambda>_. on_db (increment_failed (er_id run)))))"

definition eval_session :: "'s eval_env \<Rightarrow> eval_run \<Rightarrow> uuid \<Rightarrow> string \<Rightarrow> (error, 's engine eworld, unit) exec" where
  "eval_session ev run project sid =
     bindE (on_db (session_traces project sid)) (\<lambda>traces.
     bindE (if traces = [] then ret ()
            else bindE (warm_embeddings ev traces) (\<lambda>_.
                 bindE (session_signals ev run project traces) (\<lambda>precomputed.
                 bindE commit_obs (\<lambda>_.
                 forE (er_metric_names run) (score_session_metric ev run project sid traces precomputed))))) (\<lambda>_.
     bindE (on_db (increment_progress (er_id run))) (\<lambda>_. commit_obs)))"

definition run_session_eval :: "'s eval_env \<Rightarrow> uuid \<Rightarrow> uuid \<Rightarrow> string list \<Rightarrow> (error, 's engine eworld, unit) exec" where
  "run_session_eval ev run_id project sids = bindE new_engine (\<lambda>_. worker_session (
     bindE (on_db (delete_session_scores_for_run run_id project)) (\<lambda>_.
     bindE (on_db (delete_scores_for_run run_id project)) (\<lambda>_.
     bindE (reset_run ev run_id) (\<lambda>_.
     bindE (started_run run_id project) (\<lambda>run.
     bindE (forE sids (eval_session ev run project)) (\<lambda>_.
     complete_run ev run_id)))))))"

definition execute_session_eval_run ::
  "'s eval_env \<Rightarrow> uuid \<Rightarrow> uuid \<Rightarrow> string list \<Rightarrow> 's engine eworld \<Rightarrow> task_result \<times> 's engine eworld" where
  "execute_session_eval_run ev run_id project sids = or_fail ev run_id (run_session_eval ev run_id project sids)"

section \<open>Monitors\<close>

text \<open>
  \<open>_check_eval_monitors\<close> once the lock is held: every due monitor is given its next instant, the
  changes are committed and the monitors handed out. A failure before the commit hands out nothing.
\<close>

definition tick_monitors :: "croniter \<Rightarrow> datetime \<Rightarrow> (error, 'x eworld, (uuid \<times> uuid) list) exec" where
  "tick_monitors cron now = worker_session (
     bindE (on_db (get_due_monitors now)) (\<lambda>due.
     bindE (on_db (forE due (\<lambda>m. bindE (liftE (compute_next_run cron (mo_cadence m) now)) (\<lambda>next_run. reschedule_monitor now (mo_id m) next_run)))) (\<lambda>_.
     bindE commit_obs (\<lambda>_. ret (map (\<lambda>m. (mo_id m, mo_project_id m)) due)))))"

datatype tick_result = TickSkipped | TickCompleted nat | TickError error

text \<open>
  One \<open>process_single_monitor.delay\<close>; the state is the list of the messages the queue has taken, and
  \<open>broker k\<close> its answer to the \<open>k\<close>-th of them.
\<close>

definition delay_monitor :: "(nat \<Rightarrow> error option) \<Rightarrow> uuid \<times> uuid \<Rightarrow> (error, (uuid \<times> uuid) list, unit) exec" where
  "delay_monitor broker m = (\<lambda>q. case broker (length q) of Some e \<Rightarrow> (Inl e, q) | None \<Rightarrow> (Inr (), q @ [m]))"

text \<open>
  The task, with the messages it queued; \<open>acquired\<close> is what the non-blocking lock answered. The
  messages leave after the commit and after the lock is released, so that a queue that refuses one
  ends the tick with the monitors rescheduled.
\<close>

definition check_eval_monitors ::
  "croniter \<Rightarrow> (nat \<Rightarrow> error option) \<Rightarrow> datetime \<Rightarrow> error + bool \<Rightarrow> 'x eworld \<Rightarrow> tick_result \<times> (uuid \<times> uuid) list \<times> 'x eworld" where
  "check_eval_monitors cron broker now acquired = (\<lambda>w. case acquired of
     Inl e \<Rightarrow> (TickError e, [], w)
   | Inr False \<Rightarrow> (TickSkipped, [], w)
   | Inr True \<Rightarrow> (case tick_monitors cron now w of
       (Inl e, w') \<Rightarrow> (TickError e, [], w')
     | (Inr ms, w') \<Rightarrow> (case forE ms (delay_monitor broker) [] of
         (Inl e, q) \<Rightarrow> (TickError e, q, w')
       | (Inr _, q) \<Rightarrow> (TickCompleted (length ms), q, w'))))"

datatype monitor_outcome =
    MonitorNotFound | MonitorSkipped | ProjectMissing | MonitorSpawned eval_run eval_message

text \<open>
  \<open>_process_single_monitor\<close>. \<open>org_of\<close> is the row of the project. The message is handed over after
  the commit and outside the \<open>try\<close>.
\<close>

definition process_monitor ::
  "(nat \<Rightarrow> nat \<Rightarrow> nat list) \<Rightarrow> llm_settings \<Rightarrow> (uuid \<Rightarrow> uuid option) \<Rightarrow> datetime \<Rightarrow> uuid \<Rightarrow> uuid \<Rightarrow> error option \<Rightarrow> uuid \<Rightarrow> uuid \<Rightarrow>
   (error, 's bworld eworld, monitor_outcome) exec" where
  "process_monitor pick st org_of now nonce nonce' broker i project = worker_session (
     bindE (on_db (get_monitor_row i project)) (\<lambda>found. case found of
       None \<Rightarrow> ret MonitorNotFound
     | Some m \<Rightarrow>
         bindE (on_db (should_skip_monitor m)) (\<lambda>skip.
         if skip then ret MonitorSkipped
         else (case org_of project of
           None \<Rightarrow> ret ProjectMissing
         | Some org \<Rightarrow>
             bindE (on_db (spawn_run_for_monitor pick st now m)) (\<lambda>p.
             let category = (if mo_target_type m = TRACE then ''trace_evals'' else ''session_evals'');
                 units = int (er_total_targets (pr_run p) * length (er_metric_names (pr_run p))) in
             bindE (on_rest (check_and_increment now nonce org category units)) (\<lambda>_.
             bindE (catchE (bindE (on_db (advance_monitor now i now (Some (er_id (pr_run p))) None)) (\<lambda>_. commit_obs))
                      (\<lambda>e. bindE (on_rest (rollback_increment now nonce' org category units)) (\<lambda>_. raise e))) (\<lambda>_.
             case broker of
               Some e \<Rightarrow> raise e
             | None \<Rightarrow> ret (MonitorSpawned (pr_run p) (run_message (er_id (pr_run p)) (mo_project_id m) (pr_targets p) None)))))))))"

text \<open>The task: an exceeded quota is final, anything else is retried.\<close>

datatype monitor_result = MonitorDone monitor_outcome | MonitorQuotaExceeded | MonitorRetry error

definition process_single_monitor ::
  "(nat \<Rightarrow> nat \<Rightarrow> nat list) \<Rightarrow> llm_settings \<Rightarrow> (uuid \<Rightarrow> uuid option) \<Rightarrow> datetime \<Rightarrow> uuid \<Rightarrow> uuid \<Rightarrow> error option \<Rightarrow> uuid \<Rightarrow> uuid \<Rightarrow>
   's bworld eworld \<Rightarrow> monitor_result \<times> 's bworld eworld" where
  "process_single_monitor pick st org_of now nonce nonce' broker i project = (\<lambda>w.
     case process_monitor pick st org_of now nonce nonce' broker i project w of
       (Inr x, w') \<Rightarrow> (MonitorDone x, w')
     | (Inl (QuotaExceededError _), w') \<Rightarrow> (MonitorQuotaExceeded, w')
     | (Inl e, w') \<Rightarrow> (MonitorRetry e, w'))"

end
