(* ===== verification/EvalRuns.thy ===== *)
theory EvalRuns
  imports EvalTasks TraceIsolation
begin

text \<open>
  What the evaluation tasks leave behind: a run stores exactly one score for each target and metric
  whatever the language model does, and counts what it did.
\<close>

section \<open>Runs over traces\<close>

text \<open>How far a run is: the scores added since \<open>d0\<close> and the counters of the run.\<close>

definition scored :: "uuid \<Rightarrow> uuid \<Rightarrow> obs_db \<Rightarrow> (uuid \<times> string) list \<Rightarrow> nat \<Rightarrow> obs_db \<Rightarrow> bool" where
  "scored rid p d0 xs n d \<longleftrightarrow> (\<exists>ss. trace_scores d = trace_scores d0 @ ss
     \<and> map (\<lambda>s. (ts_trace_id s, ts_name s)) ss = xs \<and> list_all (of_run rid p) ss
     \<and> eval_runs d = update_where (\<lambda>r. er_id r = rid)
         (\<lambda>r. r\<lparr>er_evaluated_count := n, er_failed_count := length (filter (\<lambda>s. ts_status s = score_status.FAILED) ss)\<rparr>) (eval_runs d0)
     \<and> trace_rows d = trace_rows d0 \<and> span_rows d = span_rows d0 \<and> obs_projects d = obs_projects d0)"

lemma map_update_id: "(\<And>r. g (f r) = g r) \<Longrightarrow> g ` set (update_where P f rows) = g ` set rows"
  by (metis list.set_map map_update_where)

lemma scored_run_known: "scored rid p d0 xs n d \<Longrightarrow> rid \<in> er_id ` set (eval_runs d0) \<Longrightarrow> run_known (Some rid) d"
  by (auto simp: scored_def run_known_def opt_all_def map_update_id)

lemma store_score_run:
  assumes "validate_value v NUMERIC = Inr ()" "tr_trace_id tr \<in> tr_trace_id ` set (trace_rows (ew_db w))"
    and "p \<in> set (obs_projects (ew_db w))" "run_known (Some rid) (ew_db w)"
  shows "store_score now rid p tr name v st reason meta w =
    (Inr (), w\<lparr>ew_db := (ew_db w)\<lparr>obs_next_id := Suc (obs_next_id (ew_db w)),
       trace_scores := trace_scores (ew_db w) @ [automated_score now (obs_next_id (ew_db w)) rid p tr name v st reason meta]\<rparr>\<rparr>)"
  using assms
  by (simp add: store_score_def on_db_def bindE_def obs_new_id_def create_score_def automated_score_def run_known_def)

lemma scored_add:
  assumes "scored rid p d0 xs n d" "of_run rid p s" "ts_status s \<noteq> score_status.FAILED"
  shows "scored rid p d0 (xs @ [(ts_trace_id s, ts_name s)]) n (d\<lparr>obs_next_id := i, trace_scores := trace_scores d @ [s]\<rparr>)"
proof -
  from assms(1) obtain ss where "trace_scores d = trace_scores d0 @ ss" "map (\<lambda>s. (ts_trace_id s, ts_name s)) ss = xs" "list_all (of_run rid p) ss"
    "eval_runs d = update_where (\<lambda>r. er_id r = rid)
         (\<lambda>r. r\<lparr>er_evaluated_count := n, er_failed_count := length (filter (\<lambda>s. ts_status s = score_status.FAILED) ss)\<rparr>) (eval_runs d0)"
    "trace_rows d = trace_rows d0" "span_rows d = span_rows d0" "obs_projects d = obs_projects d0"
    by (auto simp: scored_def)
  with assms(2,3) show ?thesis by (auto simp: scored_def intro!: exI[of _ "ss @ [s]"])
qed

lemma scored_add_failed:
  assumes "scored rid p d0 xs n d" "of_run rid p s" "ts_status s = score_status.FAILED"
  shows "scored rid p d0 (xs @ [(ts_trace_id s, ts_name s)]) n
    (snd (increment_failed rid (d\<lparr>obs_next_id := i, trace_scores := trace_scores d @ [s]\<rparr>)))"
proof -
  from assms(1) obtain ss where "trace_scores d = trace_scores d0 @ ss" "map (\<lambda>s. (ts_trace_id s, ts_name s)) ss = xs" "list_all (of_run rid p) ss"
    "eval_runs d = update_where (\<lambda>r. er_id r = rid)
         (\<lambda>r. r\<lparr>er_evaluated_count := n, er_failed_count := length (filter (\<lambda>s. ts_status s = score_status.FAILED) ss)\<rparr>) (eval_runs d0)"
    "trace_rows d = trace_rows d0" "span_rows d = span_rows d0" "obs_projects d = obs_projects d0"
    by (auto simp: scored_def)
  with assms(2,3) show ?thesis
    by (auto simp: scored_def increment_failed_def update_run_def update_where_def intro!: exI[of _ "ss @ [s]"])
qed

lemma scored_progress:
  assumes "scored rid p d0 xs n d"
  shows "scored rid p d0 xs (Suc n) (snd (increment_progress rid d))"
  using assms by (auto simp: scored_def increment_progress_def update_run_def update_where_def)

lemma automated_of_run: "of_run rid p (automated_score now i rid p tr name v st reason meta)"
  by (simp add: of_run_def automated_score_def)

lemma score_metric_step:
  assumes sc: "scored (er_id run) p d0 xs n (ew_db w)" and name: "name \<in> set REGISTRY"
    and refs: "tr_trace_id tr \<in> tr_trace_id ` set (trace_rows d0)" "p \<in> set (obs_projects d0)" "er_id run \<in> er_id ` set (eval_runs d0)"
  shows "\<exists>w'. score_metric ev run p tr name w = (Inr (), w') \<and> scored (er_id run) p d0 (xs @ [(tr_trace_id tr, name)]) n (ew_db w')"
proof -
  let ?now = "ee_clock ev (obs_next_id (ew_db w))"
  obtain r e' where ev: "evaluate_metric (ee_judge ev) (ee_settings ev) (ee_litellm ev) (ee_sha256 ev) name tr (er_model run) [] (ew_rest w) = (r, e')"
    by fastforce
  let ?w = "w\<lparr>ew_rest := e'\<rparr>"
  have ok: "tr_trace_id tr \<in> tr_trace_id ` set (trace_rows (ew_db ?w))" "p \<in> set (obs_projects (ew_db ?w))" "run_known (Some (er_id run)) (ew_db ?w)"
    using sc refs scored_run_known[OF sc] by (auto simp: scored_def)
  show ?thesis
  proof (cases r)
    case (Inr x)
    have "validate_value (Some (score_text (mr_score x))) NUMERIC = Inr ()"
      using yieldsD[OF metric_score_unit ev[unfolded Inr]] by (simp add: validate_value_def score_text_valid)
    note run = store_score_run[OF this ok, of ?now name SUCCESS "mr_reason x" "mr_metadata x"]
    let ?s = "automated_score ?now (obs_next_id (ew_db w)) (er_id run) p tr name (Some (score_text (mr_score x))) SUCCESS (mr_reason x) (mr_metadata x)"
    have "scored (er_id run) p d0 (xs @ [(tr_trace_id tr, name)]) n (ew_db w\<lparr>obs_next_id := i, trace_scores := trace_scores (ew_db w) @ [?s]\<rparr>)" for i
      using scored_add[OF sc automated_of_run, of ?now _ tr name _ SUCCESS] by (simp add: automated_score_def)
    then show ?thesis
      using name ev Inr by (simp add: score_metric_def read_clock_def bindE_def catchE_def on_rest_def run)
  next
    case (Inl e)
    have "validate_value None NUMERIC = Inr ()" by (simp add: validate_value_def)
    note run = store_score_run[OF this ok, of ?now name score_status.FAILED "Some (''Metric execution failed: '' @ error_text e)" "[]"]
    let ?s = "automated_score ?now (obs_next_id (ew_db w)) (er_id run) p tr name None score_status.FAILED (Some (''Metric execution failed: '' @ error_text e)) []"
    have "scored (er_id run) p d0 (xs @ [(tr_trace_id tr, name)]) n
        (snd (increment_failed (er_id run) (ew_db w\<lparr>obs_next_id := i, trace_scores := trace_scores (ew_db w) @ [?s]\<rparr>)))" for i
      using scored_add_failed[OF sc automated_of_run, of ?now _ tr name _ score_status.FAILED] by (simp add: automated_score_def)
    then show ?thesis
      using name ev Inl
      by (simp add: score_metric_def read_clock_def bindE_def catchE_def on_rest_def run[simplified] on_db_def increment_failed_def update_run_def)
  qed
qed

lemma score_metrics_run:
  assumes "scored (er_id run) p d0 xs n (ew_db w)" "set names \<subseteq> set REGISTRY"
    and "tr_trace_id tr \<in> tr_trace_id ` set (trace_rows d0)" "p \<in> set (obs_projects d0)" "er_id run \<in> er_id ` set (eval_runs d0)"
  shows "\<exists>w'. forE names (score_metric ev run p tr) w = (Inr (), w') \<and> scored (er_id run) p d0 (xs @ map (Pair (tr_trace_id tr)) names) n (ew_db w')"
  using assms
proof (induction names arbitrary: xs w)
  case (Cons name names)
  obtain w1 where w1: "score_metric ev run p tr name w = (Inr (), w1)" "scored (er_id run) p d0 (xs @ [(tr_trace_id tr, name)]) n (ew_db w1)"
    using score_metric_step[OF Cons.prems(1) _ Cons.prems(3-5), of name ev] Cons.prems(2) by auto
  from Cons.IH[OF this(2) _ Cons.prems(3-5)] Cons.prems(2) show ?case by (auto simp: bindE_def w1(1))
qed auto

lemma get_trace_found:
  assumes "obs_wf d0" "trace_rows d = trace_rows d0"
  shows "\<exists>t. get_trace i p d = (Inr t, d) \<and> (t = None \<longleftrightarrow> i \<notin> own_ids p d0) \<and> (\<forall>tr. t = Some tr \<longrightarrow> tr_trace_id tr = i)"
proof -
  have "length (filter (owns_trace i p) (trace_rows d0)) \<le> length (filter (\<lambda>r. tr_trace_id r = i) (trace_rows d0))"
    by (auto simp: owns_trace_def length_filter_conv_card intro!: card_mono)
  also have "\<dots> \<le> 1" using assms(1) by (intro filter_key_le_one) (simp add: obs_wf_def)
  finally consider (none) "filter (owns_trace i p) (trace_rows d0) = []" | (one) r where "filter (owns_trace i p) (trace_rows d0) = [r]"
    by (cases "filter (owns_trace i p) (trace_rows d0)" rule: remdups_adj.cases) auto
  then show ?thesis
  proof cases
    case none
    then have "i \<notin> own_ids p d0" by (auto simp: filter_empty_conv owns_trace_def own_ids_def)
    with none show ?thesis by (simp add: get_trace_def find_trace_def bindE_def assms(2))
  next
    case one
    then have "r \<in> set (filter (owns_trace i p) (trace_rows d0))" by simp
    then have r: "r \<in> set (trace_rows d0)" "owns_trace i p r" by simp_all
    then have "i \<in> own_ids p d0" "tr_trace_id (to_trace ss r) = i" for ss
      by (auto simp: owns_trace_def own_ids_def to_trace_def trace.defs)
    with one show ?thesis by (simp add: get_trace_def find_trace_def bindE_def assms(2))
  qed
qed

definition pairs_of :: "(uuid \<times> string list) list option \<Rightarrow> eval_run \<Rightarrow> uuid list \<Rightarrow> (uuid \<times> string) list" where
  "pairs_of tmm run ids = concat (map (\<lambda>i. map (Pair i) (metrics_for tmm run i)) ids)"

lemma eval_trace_step:
  assumes sc: "scored (er_id run) p d0 xs n (ew_db w)" and wf: "obs_wf d0" and names: "set (metrics_for tmm run i) \<subseteq> set REGISTRY"
    and refs: "p \<in> set (obs_projects d0)" "er_id run \<in> er_id ` set (eval_runs d0)"
  shows "\<exists>w'. eval_trace ev run p tmm i w = (Inr (), w') \<and> ew_committed w' = ew_db w'
    \<and> scored (er_id run) p d0 (xs @ pairs_of tmm run (filter (\<lambda>i. i \<in> own_ids p d0) [i])) (Suc n) (ew_db w')"
proof -
  have "trace_rows (ew_db w) = trace_rows d0" using sc by (auto simp: scored_def)
  from get_trace_found[OF wf this, of i p] obtain t where t: "get_trace i p (ew_db w) = (Inr t, ew_db w)" "t = None \<longleftrightarrow> i \<notin> own_ids p d0"
    "\<forall>tr. t = Some tr \<longrightarrow> tr_trace_id tr = i" by blast
  have "\<exists>w1. (case t of None \<Rightarrow> ret () | Some tr \<Rightarrow> forE (metrics_for tmm run i) (score_metric ev run p tr)) w = (Inr (), w1)
      \<and> scored (er_id run) p d0 (xs @ pairs_of tmm run (filter (\<lambda>i. i \<in> own_ids p d0) [i])) n (ew_db w1)"
  proof (cases t)
    case None
    with t sc show ?thesis by (simp add: pairs_of_def)
  next
    case (Some tr)
    with t have tr: "tr_trace_id tr = i" "i \<in> own_ids p d0" by auto
    then have "tr_trace_id tr \<in> tr_trace_id ` set (trace_rows d0)" by (auto simp: own_ids_def)
    from score_metrics_run[OF sc names this refs, of ev] Some tr show ?thesis by (simp add: pairs_of_def)
  qed
  then obtain w1 where w1: "(case t of None \<Rightarrow> ret () | Some tr \<Rightarrow> forE (metrics_for tmm run i) (score_metric ev run p tr)) w = (Inr (), w1)"
    "scored (er_id run) p d0 (xs @ pairs_of tmm run (filter (\<lambda>i. i \<in> own_ids p d0) [i])) n (ew_db w1)" by blast
  have "on_db (get_trace i p) w = (Inr t, w)" by (simp add: on_db_def t(1))
  then have "eval_trace ev run p tmm i w = (Inr (), w1\<lparr>ew_db := snd (increment_progress (er_id run) (ew_db w1)), ew_committed := snd (increment_progress (er_id run) (ew_db w1))\<rparr>)"
    using w1(1) by (simp add: eval_trace_def bindE_def on_db_def commit_obs_def increment_progress_def update_run_def)
  with scored_progress[OF w1(2)] show ?thesis by auto
qed

lemma pairs_of_append: "pairs_of tmm run (xs @ ys) = pairs_of tmm run xs @ pairs_of tmm run ys"
  by (simp add: pairs_of_def)

lemma eval_traces_run:
  assumes "scored (er_id run) p d0 xs n (ew_db w)" "obs_wf d0" "\<forall>i \<in> set ids. set (metrics_for tmm run i) \<subseteq> set REGISTRY"
    and "p \<in> set (obs_projects d0)" "er_id run \<in> er_id ` set (eval_runs d0)"
  shows "\<exists>w'. forE ids (eval_trace ev run p tmm) w = (Inr (), w')
    \<and> scored (er_id run) p d0 (xs @ pairs_of tmm run (filter (\<lambda>i. i \<in> own_ids p d0) ids)) (n + length ids) (ew_db w')"
  using assms
proof (induction ids arbitrary: xs n w)
  case (Cons i ids)
  obtain w1 where w1: "eval_trace ev run p tmm i w = (Inr (), w1)"
    "scored (er_id run) p d0 (xs @ pairs_of tmm run (filter (\<lambda>i. i \<in> own_ids p d0) [i])) (Suc n) (ew_db w1)"
    using eval_trace_step[OF Cons.prems(1,2) _ Cons.prems(4,5)] Cons.prems(3) by fastforce
  have "filter (\<lambda>i. i \<in> own_ids p d0) (i # ids) = filter (\<lambda>i. i \<in> own_ids p d0) [i] @ filter (\<lambda>i. i \<in> own_ids p d0) ids" by simp
  with Cons.IH[OF w1(2) Cons.prems(2) _ Cons.prems(4,5)] Cons.prems(3) show ?case
    by (auto simp: bindE_def w1(1) pairs_of_append simp del: filter.simps)
qed (auto simp: pairs_of_def)

text \<open>The tables as \<open>reset_run\<close> leaves them after the old scores are gone.\<close>

definition cleared :: "'s eval_env \<Rightarrow> uuid \<Rightarrow> uuid \<Rightarrow> obs_db \<Rightarrow> obs_db" where
  "cleared ev rid p d = d\<lparr>trace_scores := delete_where (of_run rid p) (trace_scores d),
     eval_runs := update_where (\<lambda>r. er_id r = rid) (\<lambda>r. set_run_status (ee_clock ev (obs_next_id d)) evaluation_status.RUNNING None
       (r\<lparr>er_evaluated_count := 0, er_failed_count := 0\<rparr>)) (eval_runs d)\<rparr>"

lemma run_status_keys [simp]:
  "er_id (set_run_status now st msg r) = er_id r" "er_project_id (set_run_status now st msg r) = er_project_id r"
  "er_metric_names (set_run_status now st msg r) = er_metric_names r"
  "er_evaluated_count (set_run_status now st msg r) = er_evaluated_count r" "er_failed_count (set_run_status now st msg r) = er_failed_count r"
  by (simp_all add: set_run_status_def)

lemma scored_cleared: "scored rid p (cleared ev rid p d) [] 0 (cleared ev rid p d)"
  by (auto simp: scored_def cleared_def update_where_def set_run_status_def intro!: exI[of _ "[]"])

lemma reset_run_cleared:
  "bindE (on_db (delete_scores_for_run rid p)) (\<lambda>_. bindE (reset_run ev rid) f) w =
   f () (w\<lparr>ew_db := cleared ev rid p (ew_db w), ew_committed := cleared ev rid p (ew_db w)\<rparr>)"
  by (simp add: bindE_def on_db_def delete_scores_for_run_def delete_scores_where_def reset_run_def reset_run_counters_def update_run_def
      set_status_def read_clock_def update_run_status_def commit_obs_def cleared_def update_where_def o_def if_distrib cong: if_cong)

lemma started_run_cleared:
  assumes "filter (\<lambda>r. er_id r = rid) (eval_runs d) = [run]" "er_project_id run = p" "ew_db w = cleared ev rid p d"
  shows "\<exists>run'. started_run rid p w = (Inr run', w) \<and> er_id run' = rid \<and> er_metric_names run' = er_metric_names run"
proof -
  let ?f = "\<lambda>r. set_run_status (ee_clock ev (obs_next_id d)) evaluation_status.RUNNING None (r\<lparr>er_evaluated_count := 0, er_failed_count := 0\<rparr>)"
  have "run \<in> set (filter (\<lambda>r. er_id r = rid) (eval_runs d))" using assms(1) by simp
  then have rid: "er_id run = rid" by simp
  have one: "filter (\<lambda>r. er_id r = rid) (update_where (\<lambda>r. er_id r = rid) ?f (eval_runs d)) = [?f run]"
    using assms(1) rid by (simp add: filter_update_where)
  have "filter (owns_run rid p) xs = filter (\<lambda>r. er_project_id r = p) (filter (\<lambda>r. er_id r = rid) xs)" for xs
    unfolding filter_filter by (rule filter_cong) (auto simp: owns_run_def)
  then have "filter (owns_run rid p) (eval_runs (ew_db w)) = filter (\<lambda>r. er_project_id r = p) [?f run]"
    unfolding one[symmetric] assms(3) cleared_def by simp
  then have "filter (owns_run rid p) (eval_runs (ew_db w)) = [?f run]" using assms(2) by simp
  with rid show ?thesis by (simp add: started_run_def bindE_def on_db_def get_eval_run_def)
qed

lemma cleared_frame [simp]:
  "trace_rows (cleared ev rid p d) = trace_rows d" "span_rows (cleared ev rid p d) = span_rows d" "obs_projects (cleared ev rid p d) = obs_projects d"
  "own_ids p' (cleared ev rid p d) = own_ids p' d"
  by (simp_all add: cleared_def own_ids_def)

lemma cleared_wf: "obs_wf d \<Longrightarrow> obs_wf (cleared ev rid p d)"
  by (auto simp: obs_wf_def cleared_def)

lemma metrics_for_cong: "er_metric_names run' = er_metric_names run \<Longrightarrow> metrics_for tmm run' = metrics_for tmm run"
  by (auto simp: metrics_for_def fun_eq_iff split: option.splits)

text \<open>What the counters and the scores say at the end.\<close>

definition run_finished :: "uuid \<Rightarrow> uuid \<Rightarrow> (uuid \<times> string) list \<Rightarrow> nat \<Rightarrow> obs_db \<Rightarrow> obs_db \<Rightarrow> bool" where
  "run_finished rid p pairs n d d' \<longleftrightarrow>
     (\<exists>run'. filter (\<lambda>r. er_id r = rid) (eval_runs d') = [run'] \<and> er_status run' = evaluation_status.COMPLETED
        \<and> er_evaluated_count run' = n
        \<and> er_failed_count run' = length (filter (\<lambda>s. of_run rid p s \<and> ts_status s = score_status.FAILED) (trace_scores d')))
   \<and> map (\<lambda>s. (ts_trace_id s, ts_name s)) (filter (of_run rid p) (trace_scores d')) = pairs
   \<and> filter (\<lambda>s. \<not> of_run rid p s) (trace_scores d') = filter (\<lambda>s. \<not> of_run rid p s) (trace_scores d)"

lemma scored_finished:
  assumes sc: "scored rid p (cleared ev rid p d) xs n d1" and run: "filter (\<lambda>r. er_id r = rid) (eval_runs d) = [run]"
  shows "run_finished rid p xs n d (snd (update_run_status now rid evaluation_status.COMPLETED None d1))"
proof -
  obtain ss where ss: "trace_scores d1 = delete_where (of_run rid p) (trace_scores d) @ ss" "map (\<lambda>s. (ts_trace_id s, ts_name s)) ss = xs" "list_all (of_run rid p) ss"
    and runs: "eval_runs d1 = update_where (\<lambda>r. er_id r = rid)
         (\<lambda>r. r\<lparr>er_evaluated_count := n, er_failed_count := length (filter (\<lambda>s. ts_status s = score_status.FAILED) ss)\<rparr>) (eval_runs (cleared ev rid p d))"
    using sc by (auto simp: scored_def cleared_def)
  have mine: "filter (of_run rid p) (trace_scores d1) = ss" "filter (\<lambda>s. \<not> of_run rid p s) (trace_scores d1) = filter (\<lambda>s. \<not> of_run rid p s) (trace_scores d)"
    "filter (\<lambda>s. of_run rid p s \<and> ts_status s = score_status.FAILED) (trace_scores d1) = filter (\<lambda>s. ts_status s = score_status.FAILED) ss"
    using ss(1,3) by (auto simp: delete_where_def filter_empty_conv list_all_iff filter_id_conv intro: filter_cong)
  have "run \<in> set (filter (\<lambda>r. er_id r = rid) (eval_runs d))" using run by simp
  then have "er_id run = rid" by simp
  then have "filter (\<lambda>r. er_id r = rid) (eval_runs (snd (update_run_status now rid evaluation_status.COMPLETED None d1))) =
    [set_run_status now evaluation_status.COMPLETED None ((set_run_status (ee_clock ev (obs_next_id d)) evaluation_status.RUNNING None
       (run\<lparr>er_evaluated_count := 0, er_failed_count := 0\<rparr>))\<lparr>er_evaluated_count := n, er_failed_count := length (filter (\<lambda>s. ts_status s = score_status.FAILED) ss)\<rparr>)]"
    using run by (simp add: update_run_status_def update_run_def runs cleared_def filter_update_where)
  moreover have "trace_scores (snd (update_run_status now rid evaluation_status.COMPLETED None d1)) = trace_scores d1"
    by (simp add: update_run_status_def update_run_def)
  ultimately show ?thesis using mine ss(2) by (simp add: run_finished_def set_run_status_def)
qed

lemma run_completes:
  assumes wf: "obs_wf (ew_committed w)"
    and run: "filter (\<lambda>r. er_id r = rid) (eval_runs (ew_committed w)) = [run]" "er_project_id run = p" "p \<in> set (obs_projects (ew_committed w))"
    and names: "\<forall>i \<in> set ids. set (metrics_for tmm run i) \<subseteq> set REGISTRY"
  shows "\<exists>w'. execute_eval_run ev rid p ids tmm w = (TaskCompleted, w')
    \<and> run_finished rid p (pairs_of tmm run (filter (\<lambda>i. i \<in> own_ids p (ew_committed w)) ids)) (length ids) (ew_committed w) (ew_committed w')"
proof -
  let ?d = "ew_committed w"
  let ?c = "cleared ev rid p ?d"
  let ?wc = "w\<lparr>ew_rest := (ew_rest w)\<lparr>embedding_cache := []\<rparr>, ew_db := ?c, ew_committed := ?c\<rparr>"
  obtain run' where run': "started_run rid p ?wc = (Inr run', ?wc)" "er_id run' = rid" "er_metric_names run' = er_metric_names run"
    using started_run_cleared[OF run(1,2), of ?wc ev] by auto
  have "run \<in> set (filter (\<lambda>r. er_id r = rid) (eval_runs ?d))" using run(1) by simp
  then have "rid \<in> er_id ` set (eval_runs ?d)" by auto
  then have "rid \<in> er_id ` set (eval_runs ?c)" by (simp add: cleared_def map_update_id)
  then obtain w1 where w1: "forE ids (eval_trace ev run' p tmm) ?wc = (Inr (), w1)"
    "scored rid p ?c (pairs_of tmm run (filter (\<lambda>i. i \<in> own_ids p ?d) ids)) (length ids) (ew_db w1)"
    using eval_traces_run[of run' p ?c "[]" 0 ?wc ids tmm ev] scored_cleared[of rid p ev ?d] cleared_wf[OF wf, of ev rid p] names run(3) run'
    by (auto simp: metrics_for_cong[OF run'(3)] pairs_of_def)
  let ?d' = "snd (update_run_status (ee_clock ev (obs_next_id (ew_db w1))) rid evaluation_status.COMPLETED None (ew_db w1))"
  have loop: "bindE (started_run rid p) (\<lambda>run. bindE (forE ids (eval_trace ev run p tmm)) (\<lambda>_. complete_run ev rid)) ?wc
      = (Inr (), w1\<lparr>ew_db := ?d', ew_committed := ?d'\<rparr>)"
    using run'(1) w1(1)
    by (simp add: bindE_def complete_run_def set_status_def read_clock_def on_db_def commit_obs_def update_run_status_def update_run_def)
  have "bindE new_engine f w = f () (w\<lparr>ew_rest := (ew_rest w)\<lparr>embedding_cache := []\<rparr>\<rparr>)" for f :: "unit \<Rightarrow> (error, 'a engine eworld, unit) exec"
    by (simp add: new_engine_def bindE_def on_rest_def)
  then have "run_eval_run ev rid p ids tmm w = (Inr (), w1\<lparr>ew_db := ?d', ew_committed := ?d'\<rparr>)"
    by (simp add: run_eval_run_def worker_session_def reset_run_cleared loop)
  then have "execute_eval_run ev rid p ids tmm w = (TaskCompleted, w1\<lparr>ew_db := ?d', ew_committed := ?d'\<rparr>)"
    by (simp add: execute_eval_run_def or_fail_def)
  with scored_finished[OF w1(2) run(1)] show ?thesis by auto
qed

text \<open>
  C6: A run over traces completes and scores exactly what it was asked to. Started on a run of the
  project whose metrics are registered, the task completes whatever the language model answers. The
  committed scores of the run are then one for each listed trace of the project and metric, in that
  order and nothing else, so a task that is executed again after a crash leaves no duplicates; the
  run counts every listed trace as evaluated and every failed score as failed; all other scores
  are untouched.
\<close>

theorem eval_run_scores_every_pair:
  assumes wf: "obs_wf (ew_committed w)"
    and run: "filter (\<lambda>r. er_id r = rid) (eval_runs (ew_committed w)) = [run]" "er_project_id run = p" "p \<in> set (obs_projects (ew_committed w))"
    and names: "\<forall>i \<in> set ids. set (metrics_for tmm run i) \<subseteq> set REGISTRY"
  shows "\<exists>w'. execute_eval_run ev rid p ids tmm w = (TaskCompleted, w')
    \<and> run_finished rid p (pairs_of tmm run (filter (\<lambda>i. i \<in> own_ids p (ew_committed w)) ids)) (length ids) (ew_committed w) (ew_committed w')"
  by (rule run_completes[OF assms])

text \<open>A run over a trace of the project, one that does not exist and one of another project.\<close>

definition demo_env :: "nat eval_env" where
  "demo_env = \<lparr>ee_judge = demo_judge, ee_settings = demo_llm_settings, ee_litellm = demo_litellm, ee_sha256 = id, ee_clock = int\<rparr>"

definition demo_run :: eval_run where
  "demo_run = pending_run 3 50 1 None TRACE [''confidence'', ''coherence''] empty_filters 1 None None 3"

definition demo_eworld :: "nat engine eworld" where
  "demo_eworld = (let d = sample_obs\<lparr>eval_runs := [demo_run]\<rparr> in \<lparr>ew_committed = d, ew_db = d, ew_rest = \<lparr>embedding_cache = [], provider = 0\<rparr>\<rparr>)"

theorem eval_run_scores_every_pair_witness:
  "\<exists>w'. execute_eval_run demo_env 50 1 [10, 77, 20] None demo_eworld = (TaskCompleted, w')
    \<and> run_finished 50 1 [(10, ''confidence''), (10, ''coherence'')] 3 (ew_committed demo_eworld) (ew_committed w')"
proof -
  have "obs_wf (ew_committed demo_eworld)" "filter (\<lambda>r. er_id r = 50) (eval_runs (ew_committed demo_eworld)) = [demo_run]"
    "er_project_id demo_run = 1" "1 \<in> set (obs_projects (ew_committed demo_eworld))"
    "\<forall>i \<in> set [10, 77, 20]. set (metrics_for None demo_run i) \<subseteq> set REGISTRY"
    "pairs_of None demo_run (filter (\<lambda>i. i \<in> own_ids 1 (ew_committed demo_eworld)) [10, 77, 20]) = [(10, ''confidence''), (10, ''coherence'')]"
    "length [10 :: uuid, 77, 20] = 3"
    by code_simp+
  then show ?thesis using eval_run_scores_every_pair[of demo_eworld 50 demo_run 1 "[10, 77, 20]" None demo_env] by metis
qed

end
