(* ===== verification/EvalMonitors.thy ===== *)
theory EvalMonitors
  imports EvalRuns
begin

text \<open>
  What the scheduler of monitors and the endpoints that start runs promise: a due monitor is handed
  out once and given a later instant, and a run becomes visible only after its units were charged.
\<close>

section \<open>The tick\<close>

definition wf_monitors :: "croniter \<Rightarrow> obs_db \<Rightarrow> bool" where
  "wf_monitors cron d \<longleftrightarrow> distinct (map mo_id (eval_monitors d))
     \<and> (\<forall>m \<in> set (eval_monitors d). mo_filters m \<noteq> None \<and> validate_cadence cron (mo_cadence m) = Inr (mo_cadence m))"

definition next_of :: "croniter \<Rightarrow> datetime \<Rightarrow> string \<Rightarrow> datetime" where
  "next_of cron now c = (case compute_next_run cron c now of Inl _ \<Rightarrow> now | Inr t \<Rightarrow> t)"

definition rescheduled :: "croniter \<Rightarrow> datetime \<Rightarrow> eval_monitor \<Rightarrow> eval_monitor" where
  "rescheduled cron now m = m\<lparr>mo_next_run_at := Some (next_of cron now (mo_cadence m)), mo_updated_at := now\<rparr>"

lemma traverse_monitors: "(\<And>m. m \<in> set ms \<Longrightarrow> mo_filters m \<noteq> None) \<Longrightarrow> traverseE to_monitor ms = Inr ms"
  by (induction ms) (auto simp: to_monitor_def)

lemma traverse_bad_monitor: "m \<in> set ms \<Longrightarrow> mo_filters m = None \<Longrightarrow> \<exists>e. traverseE to_monitor ms = Inl e"
  by (induction ms) (auto simp: to_monitor_def split: sum.splits)

lemma reschedule_all:
  assumes "distinct (map mo_id ms)" "\<And>m. m \<in> set ms \<Longrightarrow> \<exists>t. compute_next_run cron (mo_cadence m) now = Inr t"
  shows "forE ms (\<lambda>m. bindE (liftE (compute_next_run cron (mo_cadence m) now)) (reschedule_monitor now (mo_id m))) d =
    (Inr (), d\<lparr>eval_monitors := map (\<lambda>x. case find (\<lambda>m. mo_id m = mo_id x) ms of None \<Rightarrow> x
       | Some m \<Rightarrow> x\<lparr>mo_next_run_at := Some (next_of cron now (mo_cadence m)), mo_updated_at := now\<rparr>) (eval_monitors d)\<rparr>)"
  using assms
proof (induction ms arbitrary: d)
  case (Cons m ms)
  from Cons.prems(2)[of m] obtain t where t: "compute_next_run cron (mo_cadence m) now = Inr t" by auto
  let ?d = "d\<lparr>eval_monitors := update_where (\<lambda>x. mo_id x = mo_id m) (\<lambda>x. x\<lparr>mo_next_run_at := Some t, mo_updated_at := now\<rparr>) (eval_monitors d)\<rparr>"
  have gone: "find (\<lambda>y. mo_id y = mo_id m) ms = None" using Cons.prems(1) by (auto simp: find_None_iff intro: rev_image_eqI)
  have "forE (m # ms) (\<lambda>m. bindE (liftE (compute_next_run cron (mo_cadence m) now)) (reschedule_monitor now (mo_id m))) d =
      forE ms (\<lambda>m. bindE (liftE (compute_next_run cron (mo_cadence m) now)) (reschedule_monitor now (mo_id m))) ?d"
    by (simp add: bindE_def t reschedule_monitor_def)
  also have "\<dots> = (Inr (), ?d\<lparr>eval_monitors := map (\<lambda>x. case find (\<lambda>m. mo_id m = mo_id x) ms of None \<Rightarrow> x
       | Some m \<Rightarrow> x\<lparr>mo_next_run_at := Some (next_of cron now (mo_cadence m)), mo_updated_at := now\<rparr>) (eval_monitors ?d)\<rparr>)"
    using Cons.prems by (intro Cons.IH) auto
  also have "\<dots> = (Inr (), d\<lparr>eval_monitors := map (\<lambda>x. case find (\<lambda>m. mo_id m = mo_id x) (m # ms) of None \<Rightarrow> x
       | Some m \<Rightarrow> x\<lparr>mo_next_run_at := Some (next_of cron now (mo_cadence m)), mo_updated_at := now\<rparr>) (eval_monitors d)\<rparr>)"
    using gone t by (auto simp: update_where_def next_of_def)
  finally show ?case .
qed simp

lemma due_monitors:
  assumes "wf_monitors cron d"
  shows "\<exists>due. get_due_monitors now d = (Inr due, d) \<and> set due = {m \<in> set (eval_monitors d). monitor_due now m} \<and> distinct (map mo_id due)"
proof -
  let ?due = "sort_key (\<lambda>m. case mo_next_run_at m of None \<Rightarrow> 0 | Some t \<Rightarrow> t) (filter (monitor_due now) (eval_monitors d))"
  have "distinct (map mo_id (filter (monitor_due now) (eval_monitors d)))"
    using assms by (simp add: wf_monitors_def distinct_map_filter)
  then have "distinct (map mo_id ?due)"
    by (simp add: distinct_map)
  moreover have "traverseE to_monitor ?due = Inr ?due"
    using assms by (intro traverse_monitors) (auto simp: wf_monitors_def)
  ultimately show ?thesis by (auto simp: get_due_monitors_def intro!: exI[of _ ?due])
qed

lemma tick_run:
  assumes cron: "\<And>e t. is_valid cron e \<Longrightarrow> t < get_next cron e t" and wf: "wf_monitors cron (ew_committed w)"
  shows "\<exists>due. tick_monitors cron now w = (Inr (map (\<lambda>m. (mo_id m, mo_project_id m)) due),
      let d' = (ew_committed w)\<lparr>eval_monitors := map (\<lambda>m. if monitor_due now m then rescheduled cron now m else m) (eval_monitors (ew_committed w))\<rparr>
      in w\<lparr>ew_committed := d', ew_db := d'\<rparr>)
    \<and> set due = {m \<in> set (eval_monitors (ew_committed w)). monitor_due now m} \<and> distinct (map mo_id due)"
proof -
  let ?d = "ew_committed w"
  obtain due where due: "get_due_monitors now ?d = (Inr due, ?d)" "set due = {m \<in> set (eval_monitors ?d). monitor_due now m}" "distinct (map mo_id due)"
    using due_monitors[OF wf] by blast
  have ids: "distinct (map mo_id (eval_monitors ?d))" using wf by (simp add: wf_monitors_def)
  have found: "find (\<lambda>m. mo_id m = mo_id x) due = (if monitor_due now x then Some x else None)" if "x \<in> set (eval_monitors ?d)" for x
  proof (cases "monitor_due now x")
    case True
    then show ?thesis using due that find_key_unique[OF due(3), of x] by simp
  next
    case False
    then have "mo_id m \<noteq> mo_id x" if "m \<in> set due" for m
      using that due(2) ids \<open>x \<in> set (eval_monitors ?d)\<close> by (auto simp: distinct_map dest: inj_onD)
    then show ?thesis using False by (auto simp: find_None_iff)
  qed
  have "\<exists>t. compute_next_run cron (mo_cadence m) now = Inr t" if "m \<in> set due" for m
    using that due(2) wf validated_next[OF cron, of "mo_cadence m" "mo_cadence m" now] by (auto simp: wf_monitors_def)
  note all = reschedule_all[OF due(3) this, of ?d]
  have maps: "map (\<lambda>x. case find (\<lambda>m. mo_id m = mo_id x) due of None \<Rightarrow> x
       | Some m \<Rightarrow> x\<lparr>mo_next_run_at := Some (next_of cron now (mo_cadence m)), mo_updated_at := now\<rparr>) (eval_monitors ?d)
     = map (\<lambda>m. if monitor_due now m then rescheduled cron now m else m) (eval_monitors ?d)"
    using found by (auto simp: rescheduled_def)
  have "tick_monitors cron now w = (Inr (map (\<lambda>m. (mo_id m, mo_project_id m)) due),
      let d' = ?d\<lparr>eval_monitors := map (\<lambda>m. if monitor_due now m then rescheduled cron now m else m) (eval_monitors ?d)\<rparr>
      in w\<lparr>ew_committed := d', ew_db := d'\<rparr>)"
    using due(1) all[unfolded maps] by (auto simp: tick_monitors_def worker_session_def bindE_def on_db_def commit_obs_def Let_def intro!: eworld.equality)
  with due(2,3) show ?thesis by blast
qed

lemma tick_calm:
  assumes cron: "\<And>e t. is_valid cron e \<Longrightarrow> t < get_next cron e t" and wf: "wf_monitors cron (ew_committed w)"
    and calm: "\<And>m. m \<in> set (eval_monitors (ew_committed w)) \<Longrightarrow> \<not> monitor_due now m"
  shows "tick_monitors cron now w = (Inr [], w\<lparr>ew_db := ew_committed w\<rparr>)"
proof -
  have "map (\<lambda>m. if monitor_due now m then rescheduled cron now m else m) (eval_monitors (ew_committed w)) = eval_monitors (ew_committed w)"
    using calm by (intro map_idI) simp
  moreover have "{m \<in> set (eval_monitors (ew_committed w)). monitor_due now m} = {}" using calm by blast
  ultimately show ?thesis using tick_run[OF cron wf, of now] by (simp add: Let_def del: empty_Collect_eq Collect_empty_eq)
qed

lemma next_later:
  assumes "\<And>e t. is_valid cron e \<Longrightarrow> t < get_next cron e t" "validate_cadence cron c = Inr c"
  shows "now < next_of cron now c"
  using validated_next[OF assms, of now] by (auto simp: next_of_def)

lemma delay_all:
  "\<exists>n \<le> length ms. (\<forall>k < n. broker (length q + k) = None)
     \<and> (if n = length ms then forE ms (delay_monitor broker) q = (Inr (), q @ ms)
        else \<exists>e. broker (length q + n) = Some e \<and> forE ms (delay_monitor broker) q = (Inl e, q @ take n ms))"
proof (induction ms arbitrary: q)
  case (Cons m ms)
  show ?case
  proof (cases "broker (length q)")
    case None
    obtain n where n: "n \<le> length ms" "\<forall>k < n. broker (length (q @ [m]) + k) = None"
      "if n = length ms then forE ms (delay_monitor broker) (q @ [m]) = (Inr (), (q @ [m]) @ ms)
        else \<exists>e. broker (length (q @ [m]) + n) = Some e \<and> forE ms (delay_monitor broker) (q @ [m]) = (Inl e, (q @ [m]) @ take n ms)"
      using Cons.IH[of "q @ [m]"] by blast
    have "broker (length q + k) = None" if "k < Suc n" for k
      using that n(2) None by (cases k) auto
    with n None show ?thesis
      by (intro exI[of _ "Suc n"]) (auto simp: bindE_def delay_monitor_def split: if_splits)
  qed (auto simp: bindE_def delay_monitor_def intro!: exI[of _ 0])
qed simp

text \<open>
  C12: The scheduler hands out due monitors at most once, and all of them when the queue takes the
  messages. Let the tick have its lock, let the stored monitors have distinct identifiers, valid
  cadences and filters that are not null, and let the cron library answer later instants. Then the
  tick commits for every active monitor whose instant has come a later one, and nothing else in any
  table changes; the due monitors, each once, are queued in order up to the first message the queue
  refuses, where the tick ends with that error, and the tick reports success exactly when all were
  taken; a further tick at the same instant finds nothing to do. The monitors behind a refused
  message wait for their next instant.
\<close>

theorem tick_dispatches_due_monitors_once:
  assumes cron: "\<And>e t. is_valid cron e \<Longrightarrow> t < get_next cron e t" and wf: "wf_monitors cron (ew_committed w)"
  shows "\<exists>due n res w'. check_eval_monitors cron broker now (Inr True) w = (res, take n due, w')
    \<and> distinct due \<and> set due = (\<lambda>m. (mo_id m, mo_project_id m)) ` {m \<in> set (eval_monitors (ew_committed w)). monitor_due now m}
    \<and> n \<le> length due \<and> (\<forall>k < n. broker k = None)
    \<and> (if n = length due then res = TickCompleted n else \<exists>e. broker n = Some e \<and> res = TickError e)
    \<and> list_all2 (\<lambda>m m'. if monitor_due now m then \<exists>t > now. m' = m\<lparr>mo_next_run_at := Some t, mo_updated_at := now\<rparr> else m' = m)
        (eval_monitors (ew_committed w)) (eval_monitors (ew_committed w'))
    \<and> ew_committed w' = (ew_committed w)\<lparr>eval_monitors := eval_monitors (ew_committed w')\<rparr> \<and> ew_rest w' = ew_rest w
    \<and> (\<forall>broker'. check_eval_monitors cron broker' now (Inr True) w' = (TickCompleted 0, [], w'))"
proof -
  let ?f = "\<lambda>m. if monitor_due now m then rescheduled cron now m else m"
  let ?d = "ew_committed w"
  let ?e = "?d\<lparr>eval_monitors := map ?f (eval_monitors ?d)\<rparr>"
  let ?w = "w\<lparr>ew_committed := ?e, ew_db := ?e\<rparr>" and ?key = "\<lambda>m. (mo_id m, mo_project_id m)"
  obtain due where due: "tick_monitors cron now w = (Inr (map ?key due), ?w)"
    "set due = {m \<in> set (eval_monitors ?d). monitor_due now m}" "distinct (map mo_id due)"
    using tick_run[OF cron wf, of now] by (auto simp: Let_def)
  have later: "now < next_of cron now (mo_cadence m)" if "m \<in> set (eval_monitors ?d)" for m
    using that wf by (intro next_later[OF cron]) (auto simp: wf_monitors_def)
  have "map mo_id (map ?f (eval_monitors ?d)) = map mo_id (eval_monitors ?d)" by (simp add: rescheduled_def)
  then have "distinct (map mo_id (eval_monitors ?e))" using wf by (simp add: wf_monitors_def del: map_map)
  then have wf': "wf_monitors cron ?e" using wf unfolding wf_monitors_def by (auto simp: rescheduled_def)
  have calm: "\<not> monitor_due now m" if "m \<in> set (eval_monitors ?e)" for m
    using that by (auto simp: monitor_due_def rescheduled_def split: if_splits dest!: later)
  have again: "tick_monitors cron now ?w = (Inr [], ?w\<lparr>ew_db := ew_committed ?w\<rparr>)"
  proof (rule tick_calm)
    show "wf_monitors cron (ew_committed ?w)" using wf' by simp
    show "\<not> monitor_due now m" if "m \<in> set (eval_monitors (ew_committed ?w))" for m
      using that by (intro calm) simp
  qed (rule cron)
  have list: "list_all2 (\<lambda>m m'. if monitor_due now m then \<exists>t > now. m' = m\<lparr>mo_next_run_at := Some t, mo_updated_at := now\<rparr> else m' = m)
        (eval_monitors ?d) (map ?f (eval_monitors ?d))"
    unfolding list_all2_map2 by (rule list.rel_refl_strong) (use later in \<open>auto simp: rescheduled_def\<close>)
  have dist: "distinct (map ?key due)" using due(3) by (auto simp: distinct_map inj_on_def)
  obtain n where n: "n \<le> length (map ?key due)" "\<forall>k < n. broker k = None"
    "if n = length (map ?key due) then forE (map ?key due) (delay_monitor broker) [] = (Inr (), map ?key due)
     else \<exists>e. broker n = Some e \<and> forE (map ?key due) (delay_monitor broker) [] = (Inl e, take n (map ?key due))"
    using delay_all[of "map ?key due" broker "[]", unfolded list.size(3) add_0 append_Nil] by blast
  then obtain res where res: "check_eval_monitors cron broker now (Inr True) w = (res, take n (map ?key due), ?w)"
    "if n = length (map ?key due) then res = TickCompleted n else \<exists>e. broker n = Some e \<and> res = TickError e"
    using due(1) by (auto simp: check_eval_monitors_def split: if_splits)
  have "\<forall>broker'. check_eval_monitors cron broker' now (Inr True) ?w = (TickCompleted 0, [], ?w)"
    using again by (simp add: check_eval_monitors_def)
  with res n(1,2) dist due(2) list show ?thesis
    by (intro exI[of _ "map ?key due"] exI[of _ n] exI[of _ res] exI[of _ ?w]) auto
qed

text \<open>
  One monitor whose filters are the JSON null stops the tick for every project: the entities of all
  due monitors are built before any of them is handed out.
\<close>

lemma null_filters_stop_the_tick:
  assumes "m \<in> set (eval_monitors (ew_committed w))" "monitor_due now m" "mo_filters m = None"
  shows "\<exists>e w'. check_eval_monitors cron broker now (Inr True) w = (TickError e, [], w') \<and> ew_committed w' = ew_committed w"
proof -
  obtain e where "fst (get_due_monitors now (ew_committed w)) = Inl e"
    using traverse_bad_monitor[of m "sort_key (\<lambda>m. case mo_next_run_at m of None \<Rightarrow> 0 | Some t \<Rightarrow> t) (filter (monitor_due now) (eval_monitors (ew_committed w)))"] assms
    by (auto simp: get_due_monitors_def)
  then show ?thesis
    by (auto simp: check_eval_monitors_def tick_monitors_def worker_session_def bindE_def on_db_def get_due_monitors_def)
qed

text \<open>An update that sends a null for the filters of a monitor stores it, commits, and then fails.\<close>

definition null_filters_patch :: monitor_patch where
  "null_filters_patch = \<lparr>mp_name = None, mp_metrics = None, mp_filters = Some None, mp_sampling_rate = None, mp_model = None,
     mp_cadence = None, mp_only_if_changed = None, mp_signal_weights = None\<rparr>"

lemma null_filters_accepted:
  assumes "eval_monitors (ew_db w) = [m]" "owns_monitor i p m" "mo_filters m = Some f" "f_signal_weights f = None"
  shows "\<exists>e w'. update_monitor cron now i p null_filters_patch w = (Inl e, w')
    \<and> eval_monitors (ew_committed w') = [m\<lparr>mo_filters := None, mo_updated_at := now\<rparr>]"
  using assms
  by (simp add: update_monitor_def on_db_def bindE_def require_monitor_def get_monitor_row_def to_monitor_def patched_metrics_def
      patched_cadence_def patched_filters_def null_filters_patch_def filters_of_def field_def update_monitor_row_def commit_obs_def owns_monitor_def)

definition demo_monitor :: "uuid \<Rightarrow> datetime \<Rightarrow> eval_monitor" where
  "demo_monitor i t = \<lparr>mo_id = i, mo_project_id = 1, mo_name = ''m'', mo_target_type = TRACE, mo_metric_names = [''confidence''],
     mo_filters = Some empty_filters, mo_sampling_rate = 1, mo_model = None, mo_cadence = ''daily'', mo_only_if_changed = True,
     mo_status = monitor_status.ACTIVE, mo_last_run_at = None, mo_last_run_id = None, mo_next_run_at = Some t, mo_created_at = 0, mo_updated_at = 0\<rparr>"

definition demo_monitors :: "nat engine eworld" where
  "demo_monitors = demo_eworld\<lparr>ew_committed := sample_obs\<lparr>eval_monitors := [demo_monitor 7 9, demo_monitor 8 100, demo_monitor 9 5]\<rparr>\<rparr>"

theorem tick_dispatches_due_monitors_once_witness:
  "\<exists>due n res w'. check_eval_monitors demo_croniter (\<lambda>k. if k = 1 then Some (PandaProbeError ''queue down'') else None) 10 (Inr True) demo_monitors
       = (res, take n due, w')
    \<and> distinct due \<and> set due = {(7, 1), (9, 1)} \<and> n = 1 \<and> res = TickError (PandaProbeError ''queue down'')
    \<and> check_eval_monitors demo_croniter (\<lambda>_. None) 10 (Inr True) w' = (TickCompleted 0, [], w')"
proof -
  let ?broker = "\<lambda>k::nat. if k = 1 then Some (PandaProbeError ''queue down'') else None"
  have "t < get_next demo_croniter e t" for e t by (simp add: demo_croniter_def seconds_def)
  moreover have "wf_monitors demo_croniter (ew_committed demo_monitors)" by code_simp
  moreover have keys: "(\<lambda>m. (mo_id m, mo_project_id m)) ` {m \<in> set (eval_monitors (ew_committed demo_monitors)). monitor_due 10 m} = {(7, 1), (9, 1)}"
    by code_simp
  ultimately obtain due n res w' where *: "check_eval_monitors demo_croniter ?broker 10 (Inr True) demo_monitors = (res, take n due, w')"
    "distinct due" "set due = {(7, 1), (9, 1)}" "n \<le> length due" "\<forall>k < n. ?broker k = None"
    "if n = length due then res = TickCompleted n else \<exists>e. ?broker n = Some e \<and> res = TickError e"
    "check_eval_monitors demo_croniter (\<lambda>_. None) 10 (Inr True) w' = (TickCompleted 0, [], w')"
    using tick_dispatches_due_monitors_once[of demo_croniter demo_monitors ?broker 10] unfolding keys by blast
  from *(2,3) have "length due = 2" using distinct_card[of due] by simp
  with *(4-6) have "n = 1 \<and> res = TickError (PandaProbeError ''queue down'')"
    by (auto split: if_splits dest: spec[of _ 1])
  with * show ?thesis by blast
qed

section \<open>Charging\<close>

lemma add_run_result:
  assumes "add_run now project name metric_names f rate model monitor ts tmm d = (Inr p, d')"
  shows "pr_run p = pending_run now (obs_next_id d) project name (target_type_of ts) metric_names f rate model monitor (target_count ts)
    \<and> pr_project_id p = project \<and> pr_targets p = ts \<and> pr_trace_metric_map p = tmm
    \<and> d' = d\<lparr>obs_next_id := Suc (obs_next_id d), eval_runs := eval_runs d @ [pr_run p]\<rparr>"
  using assms by (auto simp: add_run_def obs_new_id_def create_eval_run_def bindE_def Let_def split: if_splits)

lemma spawn_run_result:
  assumes "spawn_run_for_monitor pick st now m d = (Inr p, d')"
  shows "er_monitor_id (pr_run p) = Some (mo_id m) \<and> er_project_id (pr_run p) = mo_project_id m \<and> er_status (pr_run p) = evaluation_status.PENDING
    \<and> er_metric_names (pr_run p) = mo_metric_names m
    \<and> er_total_targets (pr_run p) = target_count (pr_targets p) \<and> target_type_of (pr_targets p) = mo_target_type m
    \<and> er_id (pr_run p) \<in> er_id ` set (eval_runs d')
    \<and> eval_runs d' = eval_runs d @ [pr_run p] \<and> eval_monitors d' = eval_monitors d"
  using assms
  by (cases "mo_target_type m")
    (auto simp: spawn_run_for_monitor_def monitor_run_def resolve_trace_ids_def resolve_session_ids_def pending_run_def split: if_splits dest!: add_run_result)

text \<open>
  A run of a monitor that was charged and committed: the quota check for its targets times its
  metrics succeeded, and the tables have gained exactly that run, as the last run of the monitor.
\<close>

definition charged_run ::
  "datetime \<Rightarrow> uuid \<Rightarrow> (uuid \<Rightarrow> uuid option) \<Rightarrow> uuid \<Rightarrow> uuid \<Rightarrow> 's bworld eworld \<Rightarrow> eval_run \<Rightarrow> 's bworld eworld \<Rightarrow> bool" where
  "charged_run now nonce org_of i project w run w' \<longleftrightarrow>
     (\<exists>org n b. org_of project = Some org
        \<and> check_and_increment now nonce org (if er_target_type run = TRACE then ''trace_evals'' else ''session_evals'')
            (int (er_total_targets run * length (er_metric_names run))) (ew_rest w) = (Inr n, b)
        \<and> ew_rest w' = b)
   \<and> er_monitor_id run = Some i \<and> er_status run = evaluation_status.PENDING
   \<and> eval_runs (ew_committed w') = eval_runs (ew_committed w) @ [run]
   \<and> eval_monitors (ew_committed w') = update_where (\<lambda>m. mo_id m = i)
       (\<lambda>m. m\<lparr>mo_last_run_at := Some now, mo_last_run_id := Some (er_id run), mo_updated_at := now\<rparr>) (eval_monitors (ew_committed w))"

text \<open>The run a spawned monitor reports.\<close>

fun spawned :: "monitor_result \<Rightarrow> eval_run option" where
  "spawned (MonitorDone (MonitorSpawned run msg)) = Some run"
| "spawned _ = None"

lemma coalesce_None [simp]: "coalesce None x = x"
  by (simp add: coalesce_def)

lemma advance_known:
  assumes "r \<in> er_id ` set (eval_runs d)"
  shows "advance_monitor now i now (Some r) None d =
    (Inr (), d\<lparr>eval_monitors := update_where (\<lambda>m. mo_id m = i) (\<lambda>m. m\<lparr>mo_last_run_at := Some now, mo_last_run_id := Some r, mo_updated_at := now\<rparr>) (eval_monitors d)\<rparr>)"
  using assms by (simp add: advance_monitor_def run_known_def opt_all_def)

lemma get_monitor_row_id: "fst (get_monitor_row i p d) = Inr (Some m) \<Longrightarrow> mo_id m = i"
  by (auto simp: get_monitor_row_def to_monitor_def owns_monitor_def dest!: scalar_in split: sum.splits option.splits if_splits)

lemma get_monitor_row_pure: "snd (get_monitor_row i p d) = d"
  by (simp add: get_monitor_row_def)

lemma should_skip_pure: "\<exists>b. should_skip_monitor m d = (Inr b, d)"
  by (auto simp: should_skip_monitor_def split: option.splits)

lemma process_monitor_charge:
  assumes "process_monitor pick st org_of now nonce nonce' broker i project w = (r, w')"
  shows "(ew_committed w' = ew_committed w \<and> (\<nexists>run msg. r = Inr (MonitorSpawned run msg)))
    \<or> (\<exists>run. charged_run now nonce org_of i project w run w' \<and> ((\<exists>msg. r = Inr (MonitorSpawned run msg)) \<or> (\<exists>e. broker = Some e \<and> r = Inl e)))"
proof -
  let ?d = "ew_committed w"
  obtain found where found: "get_monitor_row i project ?d = (found, ?d)"
    using get_monitor_row_pure[of i project ?d] by (metis prod.collapse)
  show ?thesis
  proof (cases "\<exists>m. found = Inr (Some m)")
    case False
    then show ?thesis using assms found
      by (auto simp: process_monitor_def worker_session_def bindE_def on_db_def split: sum.splits option.splits)
  next
    case True
    then obtain m where m: "found = Inr (Some m)" by blast
    then have id: "mo_id m = i" using found get_monitor_row_id[of i project ?d m] by simp
    obtain b where b: "should_skip_monitor m ?d = (Inr b, ?d)" using should_skip_pure by blast
    obtain s d1 where spawn: "spawn_run_for_monitor pick st now m ?d = (s, d1)" by fastforce
    show ?thesis
    proof (cases "b \<or> org_of project = None \<or> (\<exists>e. s = Inl e)")
      case True
      then show ?thesis using assms found m b spawn
        by (auto simp: process_monitor_def worker_session_def bindE_def on_db_def split: option.splits if_splits)
    next
      case False
      then obtain org p where org: "\<not> b" "org_of project = Some org" "s = Inr p" by (cases s) auto
      note run = spawn_run_result[OF spawn[unfolded org(3)]]
      let ?cat = "if mo_target_type m = TRACE then ''trace_evals'' else ''session_evals''"
      let ?units = "int (er_total_targets (pr_run p) * length (er_metric_names (pr_run p)))"
      obtain q bw where q: "check_and_increment now nonce org ?cat ?units (ew_rest w) = (q, bw)" by fastforce
      have tt: "er_target_type (pr_run p) = mo_target_type m"
        using spawn org(3) by (cases "mo_target_type m")
          (auto simp: spawn_run_for_monitor_def monitor_run_def resolve_trace_ids_def resolve_session_ids_def pending_run_def split: if_splits dest!: add_run_result)
      show ?thesis
      proof (cases q)
        case (Inl e)
        then show ?thesis using assms found m b spawn org q
          by (auto simp: process_monitor_def worker_session_def bindE_def on_db_def on_rest_def Let_def)
      next
        case (Inr n)
        have adv: "advance_monitor now i now (Some (er_id (pr_run p))) None d1 =
          (Inr (), d1\<lparr>eval_monitors := update_where (\<lambda>m. mo_id m = i)
             (\<lambda>m. m\<lparr>mo_last_run_at := Some now, mo_last_run_id := Some (er_id (pr_run p)), mo_updated_at := now\<rparr>) (eval_monitors d1)\<rparr>)"
          using run by (intro advance_known) simp
        have ch: "charged_run now nonce org_of i project w (pr_run p) w'"
          using assms found m b spawn org q Inr adv run id tt
          by (auto simp: charged_run_def process_monitor_def worker_session_def bindE_def on_db_def on_rest_def Let_def catchE_def commit_obs_def
              split: option.splits)
        moreover have "(\<exists>msg. r = Inr (MonitorSpawned (pr_run p) msg)) \<or> (\<exists>e. broker = Some e \<and> r = Inl e)"
          using assms found m b spawn org q Inr adv
          by (auto simp: process_monitor_def worker_session_def bindE_def on_db_def on_rest_def Let_def catchE_def commit_obs_def
              split: option.splits)
        ultimately show ?thesis by blast
      qed
    qed
  qed
qed

text \<open>
  C13: No run of a monitor without its charge. Whatever happens while a worker processes a monitor, the
  committed evaluation tables are as before, or they have gained exactly one pending run of that
  monitor, recorded as its last run, after the quota check for its number of targets times its
  metrics succeeded. A reported run is always of the second kind; the second kind without a reported
  run occurs only when the queue refused the message.
\<close>

theorem monitor_runs_are_charged:
  "case process_single_monitor pick st org_of now nonce nonce' broker i project w of (res, w') \<Rightarrow>
     (ew_committed w' = ew_committed w \<and> spawned res = None)
   \<or> (\<exists>run. charged_run now nonce org_of i project w run w' \<and> (spawned res = Some run \<or> (\<exists>e. broker = Some e)))"
proof -
  obtain r w' where run: "process_monitor pick st org_of now nonce nonce' broker i project w = (r, w')" by fastforce
  let ?res = "fst (process_single_monitor pick st org_of now nonce nonce' broker i project w)"
  have "snd (process_single_monitor pick st org_of now nonce nonce' broker i project w) = w'"
    "spawned ?res = (case r of Inr (MonitorSpawned x msg) \<Rightarrow> Some x | _ \<Rightarrow> None)"
    by (auto simp: process_single_monitor_def run split: sum.splits error.splits monitor_outcome.splits)
  with process_monitor_charge[OF run] show ?thesis
    by (auto simp: case_prod_beta split: sum.splits monitor_outcome.splits)
qed

end
