(* ===== verification/EvalBilling.thy ===== *)
theory EvalBilling
  imports EvalMonitors
begin

text \<open>
  How preparing, charging and executing runs fit together.
\<close>

section \<open>Started runs\<close>

lemma rollback_returns: "\<exists>w'. rollback_increment now nonce org c n w = (Inr (), w')"
  by (auto simp: rollback_increment_def catchE_def split: prod.splits sum.splits)

text \<open>
  C10: A run that an endpoint starts is charged before it becomes visible. Whatever \<open>prepare\<close> method
  the endpoint uses, either the request fails and the committed tables are as before, or the quota
  check for the billable units of the prepared run succeeded and the committed tables are those with
  the run in it. In the second case the queue has the message; when it refuses the message the units
  are given back and the request fails, but the run stays committed.
\<close>

theorem started_runs_are_charged:
  "case start_run now nonce nonce' broker org prepare w of (r, w') \<Rightarrow>
     ((\<exists>e. r = Inl e) \<and> ew_committed w' = ew_committed w)
   \<or> (\<exists>p d n b. prepare (ew_committed w) = (Inr p, d)
        \<and> check_and_increment now nonce org (usage_category_for (pr_targets p)) (int (billable p)) (ew_rest w) = (Inr n, b)
        \<and> ew_committed w' = d
        \<and> (case broker of
             None \<Rightarrow> r = Inr (pr_run p, run_message (er_id (pr_run p)) (pr_project_id p) (pr_targets p) (pr_trace_metric_map p)) \<and> ew_rest w' = b
           | Some e \<Rightarrow> r = Inl e \<and> ew_rest w' = snd (rollback_increment now nonce' org (usage_category_for (pr_targets p)) (int (billable p)) b)))"
proof -
  obtain s d where s: "prepare (ew_committed w) = (s, d)" by fastforce
  show ?thesis
  proof (cases s)
    case (Inl e)
    with s show ?thesis by (simp add: start_run_def request_session_def bindE_def on_db_def)
  next
    case (Inr p)
    let ?c = "usage_category_for (pr_targets p)" and ?u = "int (billable p)"
    obtain q b where q: "check_and_increment now nonce org ?c ?u (ew_rest w) = (q, b)" by fastforce
    obtain b' where b': "rollback_increment now nonce' org ?c ?u b = (Inr (), b')" using rollback_returns by blast
    show ?thesis
    proof (cases q)
      case (Inl e)
      with s Inr q show ?thesis by (simp add: start_run_def request_session_def bindE_def on_db_def on_rest_def)
    next
      case (Inr n)
      with s \<open>s = Inr p\<close> q b' show ?thesis
        by (cases broker) (auto simp: start_run_def request_session_def bindE_def on_db_def on_rest_def catchE_def dispatch_run_def commit_obs_def)
    qed
  qed
qed

section \<open>Billed units and scores\<close>

lemma length_pairs_of: "length (pairs_of tmm run ids) = sum_list (map (\<lambda>i. length (metrics_for tmm run i)) ids)"
  by (induction ids) (simp_all add: pairs_of_def)

lemma failed_metrics_keys: "distinct (map fst (failed_metrics ss))"
  by (simp add: failed_metrics_def o_def unique_in_order_def)

lemma failed_metrics_nonempty: "ss \<noteq> [] \<Longrightarrow> failed_metrics ss \<noteq> []"
  by (auto simp: failed_metrics_def unique_in_order_def)

lemma sum_map_of:
  assumes "distinct (map fst kvs)"
  shows "sum_list (map (\<lambda>i. length (metrics_for (Some kvs) run i)) (map fst kvs)) = sum_list (map (\<lambda>(i, ms). length ms) kvs)"
proof -
  have "map (\<lambda>i. length (metrics_for (Some kvs) run i)) (map fst kvs) = map (\<lambda>(i, ms). length ms) kvs"
    using assms by (auto simp: metrics_for_def)
  then show ?thesis by (rule arg_cong)
qed

text \<open>The prepared trace runs of the service, whichever method prepared them.\<close>

definition prepared_by ::
  "(nat \<Rightarrow> nat \<Rightarrow> nat list) \<Rightarrow> llm_settings \<Rightarrow> datetime \<Rightarrow> uuid \<Rightarrow> obs_db \<Rightarrow> prepared_run \<Rightarrow> bool" where
  "prepared_by pick st now project d p \<longleftrightarrow>
     (\<exists>ms f rate model name d'. prepare_eval_run pick st now project ms f rate model name d = (Inr p, d'))
   \<or> (\<exists>ids ms model name d'. prepare_batch_eval_run st now project ids ms model name d = (Inr p, d'))
   \<or> (\<exists>r d'. prepare_retry_failed_run now r project d = (Inr p, d'))"

lemma prepared_billable:
  assumes "prepared_by pick st now project d p"
  shows "\<exists>ids. pr_targets p = TraceTargets ids \<and> billable p = length (pairs_of (pr_trace_metric_map p) (pr_run p) ids)"
  using assms unfolding prepared_by_def
proof (elim disjE exE)
  fix ms f rate model name d'
  assume "prepare_eval_run pick st now project ms f rate model name d = (Inr p, d')"
  then show ?thesis
    by (auto simp: prepare_eval_run_def resolve_trace_ids_def pending_run_def billable_def length_pairs_of metrics_for_def sum_list_triv
        split: sum.splits if_splits dest!: add_run_result)
next
  fix ids ms model name d'
  assume "prepare_batch_eval_run st now project ids ms model name d = (Inr p, d')"
  then show ?thesis
    by (auto simp: prepare_batch_eval_run_def pending_run_def billable_def length_pairs_of metrics_for_def sum_list_triv Let_def
        split: sum.splits if_splits dest!: add_run_result)
next
  fix r d'
  assume "prepare_retry_failed_run now r project d = (Inr p, d')"
  then obtain failed where failed: "failed \<noteq> []" "pr_trace_metric_map p = Some (failed_metrics failed)" "pr_targets p = TraceTargets (map fst (failed_metrics failed))"
    by (auto simp: prepare_retry_failed_run_def get_eval_run_def get_failed_scores_for_run_def bindE_Inr_iff Let_def
        split: option.splits if_splits dest!: add_run_result)
  then have "billable p = sum_list (map (\<lambda>(i, ms). length ms) (failed_metrics failed))"
    using failed_metrics_nonempty by (auto simp: billable_def split: list.splits)
  with failed show ?thesis
    using sum_map_of[OF failed_metrics_keys[of failed], of "pr_run p"] by (simp add: length_pairs_of o_def)
qed

lemma length_pairs_of_filter:
  "length (pairs_of tmm run (filter P ids)) + length (pairs_of tmm run (filter (\<lambda>i. \<not> P i) ids)) = length (pairs_of tmm run ids)"
  by (induction ids) (simp_all add: length_pairs_of)

text \<open>
  C11: What is billed and what is scored. Let a trace run be requested by filters, for listed traces or as
  the retry of a failed run, and let its task start on tables that have the run as it was prepared and
  whose metrics are all registered. The task completes, and the scores that it commits, successes and
  failures together, plus the trace and metric pairs of those traces that the project does not have when
  the task runs, are the units charged for the run. So every unit of a trace that is there gives exactly
  one score, and the units of listed traces that do not exist (a batch request accepts any identifier)
  are charged without one.
\<close>

theorem billed_units_are_scored:
  assumes prep: "prepared_by pick st now project d p" and targets: "pr_targets p = TraceTargets ids"
    and wf: "obs_wf (ew_committed w)"
    and run: "filter (\<lambda>r. er_id r = er_id (pr_run p)) (eval_runs (ew_committed w)) = [pr_run p]" "er_project_id (pr_run p) = project"
      "project \<in> set (obs_projects (ew_committed w))"
    and names: "\<forall>i \<in> set ids. set (metrics_for (pr_trace_metric_map p) (pr_run p) i) \<subseteq> set REGISTRY"
  shows "\<exists>w'. execute_eval_run ev (er_id (pr_run p)) project ids (pr_trace_metric_map p) w = (TaskCompleted, w')
    \<and> map (\<lambda>s. (ts_trace_id s, ts_name s)) (filter (of_run (er_id (pr_run p)) project) (trace_scores (ew_committed w')))
        = pairs_of (pr_trace_metric_map p) (pr_run p) (filter (\<lambda>i. i \<in> own_ids project (ew_committed w)) ids)
    \<and> length (filter (of_run (er_id (pr_run p)) project) (trace_scores (ew_committed w')))
        + length (pairs_of (pr_trace_metric_map p) (pr_run p) (filter (\<lambda>i. i \<notin> own_ids project (ew_committed w)) ids))
        = billable p"
proof -
  let ?there = "\<lambda>i. i \<in> own_ids project (ew_committed w)" and ?pairs = "pairs_of (pr_trace_metric_map p) (pr_run p)"
  obtain w' where w': "execute_eval_run ev (er_id (pr_run p)) project ids (pr_trace_metric_map p) w = (TaskCompleted, w')"
    "run_finished (er_id (pr_run p)) project (?pairs (filter ?there ids)) (length ids) (ew_committed w) (ew_committed w')"
    using run_completes[OF wf run names] by blast
  from w'(2) have scores: "map (\<lambda>s. (ts_trace_id s, ts_name s)) (filter (of_run (er_id (pr_run p)) project) (trace_scores (ew_committed w')))
      = ?pairs (filter ?there ids)" by (simp add: run_finished_def)
  from arg_cong[OF this, of length]
  have "length (filter (of_run (er_id (pr_run p)) project) (trace_scores (ew_committed w'))) = length (?pairs (filter ?there ids))"
    by simp
  moreover have "billable p = length (?pairs ids)" using prepared_billable[OF prep] targets by auto
  ultimately show ?thesis using w'(1) scores length_pairs_of_filter[of _ _ ?there ids] by auto
qed

theorem billed_units_are_scored_witness:
  "\<exists>p d w'. prepare_batch_eval_run demo_llm_settings 3 1 [10, 10, 77] [''confidence'', ''coherence''] None None sample_obs = (Inr p, d) \<and> billable p = 4
     \<and> execute_eval_run demo_env (er_id (pr_run p)) 1 [10, 77] (pr_trace_metric_map p) (demo_eworld\<lparr>ew_committed := d\<rparr>) = (TaskCompleted, w')
     \<and> map (\<lambda>s. (ts_trace_id s, ts_name s)) (filter (of_run (er_id (pr_run p)) 1) (trace_scores (ew_committed w')))
         = [(10, ''confidence''), (10, ''coherence'')]"
proof -
  let ?run = "prepare_batch_eval_run demo_llm_settings 3 1 [10, 10, 77] [''confidence'', ''coherence''] None None sample_obs"
  define p where "p = projr (fst ?run)"
  define d where "d = snd ?run"
  have "\<not> isl (fst ?run)" by code_simp
  then have prep: "?run = (Inr p, d)" unfolding p_def d_def by (simp add: prod_eq_iff)
  have b: "billable (projr (fst ?run)) = 4" by code_simp
  have "pr_targets (projr (fst ?run)) = TraceTargets [10, 77]" "obs_wf (snd ?run)"
    "filter (\<lambda>r. er_id r = er_id (pr_run (projr (fst ?run)))) (eval_runs (snd ?run)) = [pr_run (projr (fst ?run))]"
    "er_project_id (pr_run (projr (fst ?run))) = 1" "1 \<in> set (obs_projects (snd ?run))"
    "\<forall>i \<in> set [10, 77]. set (metrics_for (pr_trace_metric_map (projr (fst ?run))) (pr_run (projr (fst ?run))) i) \<subseteq> set REGISTRY"
    "pairs_of (pr_trace_metric_map (projr (fst ?run))) (pr_run (projr (fst ?run))) (filter (\<lambda>i. i \<in> own_ids 1 (snd ?run)) [10, 77])
       = [(10, ''confidence''), (10, ''coherence'')]"
    by code_simp+
  note facts = this[folded p_def d_def] b[folded p_def]
  have "prepared_by (\<lambda>n k. []) demo_llm_settings 3 1 sample_obs p" using prep unfolding prepared_by_def by blast
  from billed_units_are_scored[OF this facts(1), of "demo_eworld\<lparr>ew_committed := d\<rparr>" demo_env] facts prep show ?thesis by auto
qed

end
