(* ===== verification/EvalSessions.thy ===== *)
theory EvalSessions
  imports EvalRuns
begin

text \<open>
  Runs over sessions: they complete whatever the language model does, provided that the stored
  scores they reuse are numbers, and score every session that has traces once per metric.
\<close>

definition readable :: "obs_db \<Rightarrow> bool" where
  "readable d \<longleftrightarrow> (\<forall>s \<in> set (trace_scores d). ts_name s \<in> set SIGNAL_METRICS \<longrightarrow> ts_status s = SUCCESS \<longrightarrow>
     opt_all (\<lambda>v. \<not> isl (stored_value v)) (ts_value s))"

definition session_scored :: "uuid \<Rightarrow> uuid \<Rightarrow> obs_db \<Rightarrow> (string \<times> string) list \<Rightarrow> nat \<Rightarrow> obs_db \<Rightarrow> bool" where
  "session_scored rid p d0 xs n d \<longleftrightarrow> (\<exists>ss. session_scores d = session_scores d0 @ ss
     \<and> map (\<lambda>s. (ss_session_id s, ss_name s)) ss = xs \<and> list_all (session_of_run rid p) ss
     \<and> eval_runs d = update_where (\<lambda>r. er_id r = rid)
         (\<lambda>r. r\<lparr>er_evaluated_count := n, er_failed_count := length (filter (\<lambda>s. ss_status s = score_status.FAILED) ss)\<rparr>) (eval_runs d0)
     \<and> trace_rows d = trace_rows d0 \<and> span_rows d = span_rows d0 \<and> obs_projects d = obs_projects d0 \<and> readable d)"

lemma session_scored_frame:
  assumes "session_scored rid p d0 xs n d"
  shows "trace_rows d = trace_rows d0" "span_rows d = span_rows d0" "obs_projects d = obs_projects d0" "readable d"
    "rid \<in> er_id ` set (eval_runs d0) \<Longrightarrow> run_known (Some rid) d"
  using assms by (auto simp: session_scored_def run_known_def opt_all_def map_update_id)

text \<open>A stored signal, successful or failed, keeps the progress.\<close>

lemma session_scored_signal:
  assumes "session_scored rid p d0 xs n d" "ts_status s = SUCCESS \<Longrightarrow> opt_all (\<lambda>v. \<not> isl (stored_value v)) (ts_value s)"
  shows "session_scored rid p d0 xs n (d\<lparr>obs_next_id := i, trace_scores := trace_scores d @ [s]\<rparr>)"
  using assms by (auto simp: session_scored_def readable_def)

lemma stored_text: "unit_interval x \<Longrightarrow> \<not> isl (stored_value (score_text x))"
  by (simp add: stored_value_def score_text_parse unit_interval_def)

lemma existing_readable:
  assumes "readable d" "name \<in> set SIGNAL_METRICS"
  shows "\<exists>x. find_existing_trace_score i name d = (Inr x, d)
    \<and> (\<forall>v. (case x of None \<Rightarrow> None | Some s \<Rightarrow> ts_value s) = Some v \<longrightarrow> \<not> isl (stored_value v))"
proof -
  let ?ss = "newest_first ts_created_at (filter (\<lambda>s. ts_trace_id s = i \<and> ts_name s = name \<and> ts_status s = SUCCESS) (trace_scores d))"
  have "\<not> isl (stored_value v)" if "s \<in> set ?ss" "ts_value s = Some v" for s v
    using that assms by (force simp: newest_first_def readable_def opt_all_def)
  then have "\<forall>s \<in> set ?ss. \<forall>v. ts_value s = Some v \<longrightarrow> \<not> isl (stored_value v)" by blast
  then show ?thesis by (cases ?ss) (simp_all add: find_existing_trace_score_def)
qed

lemma signal_step:
  assumes sc: "session_scored (er_id run) p d0 xs n (ew_db w)" and name: "name \<in> set SIGNAL_METRICS"
    and refs: "tr_trace_id tr \<in> tr_trace_id ` set (trace_rows d0)" "p \<in> set (obs_projects d0)" "er_id run \<in> er_id ` set (eval_runs d0)"
  shows "\<exists>v w'. signal_value ev run p earlier tr name w = (Inr v, w') \<and> session_scored (er_id run) p d0 xs n (ew_db w')"
proof -
  note fr = session_scored_frame[OF sc]
  obtain x where x: "find_existing_trace_score (tr_trace_id tr) name (ew_db w) = (Inr x, ew_db w)"
    "\<forall>v. (case x of None \<Rightarrow> None | Some s \<Rightarrow> ts_value s) = Some v \<longrightarrow> \<not> isl (stored_value v)"
    using existing_readable[OF fr(4) name] by blast
  show ?thesis
  proof (cases "case x of None \<Rightarrow> None | Some s \<Rightarrow> ts_value s")
    case (Some v)
    with x obtain y where "stored_value v = Inr y" by (metis sum.collapse(2))
    with Some x(1) sc show ?thesis by (simp add: signal_value_def bindE_def on_db_def)
  next
    case None
    obtain r e' where ev: "evaluate_metric (ee_judge ev) (ee_settings ev) (ee_litellm ev) (ee_sha256 ev) name tr (er_model run) earlier (ew_rest w) = (r, e')"
      by fastforce
    let ?w = "w\<lparr>ew_rest := e'\<rparr>" and ?now = "ee_clock ev (obs_next_id (ew_db w))"
    have ok: "tr_trace_id tr \<in> tr_trace_id ` set (trace_rows (ew_db ?w))" "p \<in> set (obs_projects (ew_db ?w))" "run_known (Some (er_id run)) (ew_db ?w)"
      using fr refs by auto
    show ?thesis
    proof (cases r)
      case (Inr y)
      have u: "unit_interval (mr_score y)" using yieldsD[OF metric_score_unit ev[unfolded Inr]] .
      then have "validate_value (Some (score_text (mr_score y))) NUMERIC = Inr ()" by (simp add: validate_value_def score_text_valid)
      note run = store_score_run[OF this ok, of ?now name SUCCESS "mr_reason y" "mr_metadata y"]
      have "session_scored (er_id run) p d0 xs n (ew_db w\<lparr>obs_next_id := i, trace_scores := trace_scores (ew_db w)
          @ [automated_score ?now j (er_id run) p tr name (Some (score_text (mr_score y))) SUCCESS (mr_reason y) (mr_metadata y)]\<rparr>)" for i j
        by (rule session_scored_signal[OF sc]) (use stored_text[OF u] in \<open>simp add: automated_score_def opt_all_def\<close>)
      then show ?thesis using x(1) None ev Inr run
        by (simp add: signal_value_def bindE_def on_db_def[of "find_existing_trace_score _ _"] on_rest_def catchE_def read_clock_def)
    next
      case (Inl e)
      let ?msg = "''Signal computation failed: '' @ error_text e"
      have "validate_value None NUMERIC = Inr ()" by (simp add: validate_value_def)
      note run = store_score_run[OF this ok, of ?now name score_status.FAILED "Some ?msg" "[]"]
      have "session_scored (er_id run) p d0 xs n (ew_db w\<lparr>obs_next_id := i, trace_scores := trace_scores (ew_db w)
          @ [automated_score ?now j (er_id run) p tr name None score_status.FAILED (Some ?msg) []]\<rparr>)" for i j
        by (rule session_scored_signal[OF sc]) (simp add: automated_score_def)
      then show ?thesis using x(1) None ev Inl run[simplified]
        by (simp add: signal_value_def bindE_def on_db_def[of "find_existing_trace_score _ _"] on_rest_def catchE_def read_clock_def)
    qed
  qed
qed

text \<open>A loop whose body always returns and keeps a property of the tables.\<close>

lemma mapE_keeps:
  assumes "\<And>x w. x \<in> set xs \<Longrightarrow> P (ew_db w) \<Longrightarrow> \<exists>y w'. f x w = (Inr y, w') \<and> P (ew_db w')" "P (ew_db w)"
  shows "\<exists>ys w'. mapE f xs w = (Inr ys, w') \<and> P (ew_db w')"
  using assms
proof (induction xs arbitrary: w)
  case (Cons x xs)
  obtain y w1 where w1: "f x w = (Inr y, w1)" "P (ew_db w1)" using Cons.prems(1)[of x w] Cons.prems(2) by auto
  then obtain ys w2 where "mapE f xs w1 = (Inr ys, w2)" "P (ew_db w2)" using Cons.IH[of w1] Cons.prems(1) by auto
  with w1 show ?case by (simp add: bindE_def)
qed simp

lemma session_signals_run:
  assumes sc: "session_scored (er_id run) p d0 xs n (ew_db w)"
    and refs: "tr_trace_id ` set traces \<subseteq> tr_trace_id ` set (trace_rows d0)" "p \<in> set (obs_projects d0)" "er_id run \<in> er_id ` set (eval_runs d0)"
  shows "\<exists>ys w'. session_signals ev run p traces w = (Inr ys, w') \<and> session_scored (er_id run) p d0 xs n (ew_db w')"
  unfolding session_signals_def
proof (rule mapE_keeps[where P = "session_scored (er_id run) p d0 xs n", OF _ sc])
  fix i w assume i: "i \<in> set [0..<length traces]" and sc: "session_scored (er_id run) p d0 xs n (ew_db (w :: 'a engine eworld))"
  from i have tr: "tr_trace_id (traces ! i) \<in> tr_trace_id ` set (trace_rows d0)" using refs(1) by (auto simp: subset_iff)
  have "\<exists>vs w'. mapE (signal_value ev run p (take i traces) (traces ! i)) SIGNAL_METRICS w = (Inr vs, w') \<and> session_scored (er_id run) p d0 xs n (ew_db w')"
    by (rule mapE_keeps[where P = "session_scored (er_id run) p d0 xs n", OF _ sc]) (rule signal_step[OF _ _ tr refs(2,3)])
  then show "\<exists>y w'. signals_of ev run p (take i traces) (traces ! i) w = (Inr y, w') \<and> session_scored (er_id run) p d0 xs n (ew_db w')"
    by (auto simp: signals_of_def bindE_def)
qed

lemma warm_embeddings_run: "\<exists>w'. warm_embeddings ev traces w = (Inr (), w') \<and> ew_db w' = ew_db w"
  by (auto simp: warm_embeddings_def catchE_def bindE_def on_rest_def split: prod.splits sum.splits)

lemma store_session_score_run:
  assumes "validate_value v NUMERIC = Inr ()" "p \<in> set (obs_projects (ew_db w))" "run_known (Some rid) (ew_db w)"
  shows "store_session_score now rid p sid name v st reason meta w =
    (Inr (), w\<lparr>ew_db := (ew_db w)\<lparr>obs_next_id := Suc (obs_next_id (ew_db w)),
       session_scores := session_scores (ew_db w) @ [automated_session_score now (obs_next_id (ew_db w)) rid p sid name v st reason meta]\<rparr>\<rparr>)"
  using assms
  by (simp add: store_session_score_def on_db_def bindE_def obs_new_id_def create_session_score_def automated_session_score_def run_known_def)

lemma session_scored_add:
  assumes "session_scored rid p d0 xs n d" "session_of_run rid p s" "ts = (ss_session_id s, ss_name s)"
  shows "ss_status s \<noteq> score_status.FAILED \<Longrightarrow>
      session_scored rid p d0 (xs @ [ts]) n (d\<lparr>obs_next_id := i, session_scores := session_scores d @ [s]\<rparr>)"
    "ss_status s = score_status.FAILED \<Longrightarrow>
      session_scored rid p d0 (xs @ [ts]) n (snd (increment_failed rid (d\<lparr>obs_next_id := i, session_scores := session_scores d @ [s]\<rparr>)))"
proof -
  from assms(1) obtain ss where "session_scores d = session_scores d0 @ ss" "map (\<lambda>s. (ss_session_id s, ss_name s)) ss = xs" "list_all (session_of_run rid p) ss"
    "eval_runs d = update_where (\<lambda>r. er_id r = rid)
         (\<lambda>r. r\<lparr>er_evaluated_count := n, er_failed_count := length (filter (\<lambda>s. ss_status s = score_status.FAILED) ss)\<rparr>) (eval_runs d0)"
    "trace_rows d = trace_rows d0" "span_rows d = span_rows d0" "obs_projects d = obs_projects d0" "readable d"
    by (auto simp: session_scored_def)
  note this assms(2,3)
  then show "ss_status s \<noteq> score_status.FAILED \<Longrightarrow>
      session_scored rid p d0 (xs @ [ts]) n (d\<lparr>obs_next_id := i, session_scores := session_scores d @ [s]\<rparr>)"
    "ss_status s = score_status.FAILED \<Longrightarrow>
      session_scored rid p d0 (xs @ [ts]) n (snd (increment_failed rid (d\<lparr>obs_next_id := i, session_scores := session_scores d @ [s]\<rparr>)))"
    by (auto simp: session_scored_def readable_def increment_failed_def update_run_def update_where_def intro!: exI[of _ "ss @ [s]"])
qed

lemma session_scored_progress: "session_scored rid p d0 xs n d \<Longrightarrow> session_scored rid p d0 xs (Suc n) (snd (increment_progress rid d))"
  by (auto simp: session_scored_def readable_def increment_progress_def update_run_def update_where_def)

lemma session_metric_step:
  assumes sc: "session_scored (er_id run) p d0 xs n (ew_db w)"
    and refs: "p \<in> set (obs_projects d0)" "er_id run \<in> er_id ` set (eval_runs d0)"
  shows "\<exists>w'. score_session_metric ev run p sid traces pre name w = (Inr (), w') \<and> session_scored (er_id run) p d0 (xs @ [(sid, name)]) n (ew_db w')"
proof -
  let ?now = "ee_clock ev (obs_next_id (ew_db w))" and ?r = "evaluate_session_metric name traces (f_signal_weights (er_filters run)) pre"
  have ok: "p \<in> set (obs_projects (ew_db w))" "run_known (Some (er_id run)) (ew_db w)"
    using session_scored_frame[OF sc] refs by auto
  show ?thesis
  proof (cases ?r)
    case (Inr y)
    have "validate_value (Some (score_text (mr_score y))) NUMERIC = Inr ()"
      using session_score_unit[OF Inr] by (simp add: validate_value_def score_text_valid)
    note run = store_session_score_run[OF this ok, of ?now sid name SUCCESS "mr_reason y" "mr_metadata y"]
    let ?s = "automated_session_score ?now (obs_next_id (ew_db w)) (er_id run) p sid name (Some (score_text (mr_score y))) SUCCESS (mr_reason y) (mr_metadata y)"
    have "session_scored (er_id run) p d0 (xs @ [(sid, name)]) n (ew_db w\<lparr>obs_next_id := i, session_scores := session_scores (ew_db w) @ [?s]\<rparr>)" for i
      by (rule session_scored_add(1)[OF sc]) (simp_all add: automated_session_score_def session_of_run_def)
    then show ?thesis
      using Inr by (simp add: score_session_metric_def read_clock_def bindE_def catchE_def run)
  next
    case (Inl e)
    have "validate_value None NUMERIC = Inr ()" by (simp add: validate_value_def)
    note run = store_session_score_run[OF this ok, of ?now sid name score_status.FAILED "Some (''Session metric failed: '' @ error_text e)" "[]"]
    let ?s = "automated_session_score ?now (obs_next_id (ew_db w)) (er_id run) p sid name None score_status.FAILED (Some (''Session metric failed: '' @ error_text e)) []"
    have "session_scored (er_id run) p d0 (xs @ [(sid, name)]) n
        (snd (increment_failed (er_id run) (ew_db w\<lparr>obs_next_id := i, session_scores := session_scores (ew_db w) @ [?s]\<rparr>)))" for i
      by (rule session_scored_add(2)[OF sc]) (simp_all add: automated_session_score_def session_of_run_def)
    then show ?thesis
      using Inl by (simp add: score_session_metric_def read_clock_def bindE_def catchE_def run[simplified] on_db_def increment_failed_def update_run_def)
  qed
qed

lemma session_metrics_run:
  assumes "session_scored (er_id run) p d0 xs n (ew_db w)" and refs: "p \<in> set (obs_projects d0)" "er_id run \<in> er_id ` set (eval_runs d0)"
  shows "\<exists>w'. forE names (score_session_metric ev run p sid traces pre) w = (Inr (), w')
    \<and> session_scored (er_id run) p d0 (xs @ map (Pair sid) names) n (ew_db w')"
  using assms(1)
proof (induction names arbitrary: xs w)
  case (Cons name names)
  obtain w1 where w1: "score_session_metric ev run p sid traces pre name w = (Inr (), w1)" "session_scored (er_id run) p d0 (xs @ [(sid, name)]) n (ew_db w1)"
    using session_metric_step[OF Cons.prems refs, of ev sid traces pre name] by blast
  from Cons.IH[OF w1(2)] show ?case by (auto simp: bindE_def w1(1))
qed auto

definition session_pairs :: "eval_run \<Rightarrow> string list \<Rightarrow> (string \<times> string) list" where
  "session_pairs run sids = concat (map (\<lambda>sid. map (Pair sid) (er_metric_names run)) sids)"

definition has_traces :: "uuid \<Rightarrow> obs_db \<Rightarrow> string \<Rightarrow> bool" where
  "has_traces p d sid \<longleftrightarrow> (\<exists>r \<in> set (trace_rows d). tr_project_id r = p \<and> tr_session_id r = Some sid)"

lemma session_traces_run:
  assumes "trace_rows d = trace_rows d0"
  shows "\<exists>ts. session_traces p sid d = (Inr ts, d) \<and> (ts = [] \<longleftrightarrow> \<not> has_traces p d0 sid) \<and> tr_trace_id ` set ts \<subseteq> tr_trace_id ` set (trace_rows d0)"
proof -
  have "set (session_trace_rows p sid d) = {} \<longleftrightarrow> \<not> has_traces p d0 sid"
    using assms by (auto simp: session_trace_rows_def has_traces_def)
  then have "session_trace_rows p sid d = [] \<longleftrightarrow> \<not> has_traces p d0 sid" by simp
  moreover have "set (session_trace_rows p sid d) \<subseteq> set (trace_rows d0)" using assms by (auto simp: session_trace_rows_def)
  moreover have "tr_trace_id (to_trace ss r) = tr_trace_id r" for ss r by (simp add: to_trace_def trace.defs)
  ultimately show ?thesis by (auto simp: session_traces_def)
qed

lemma bindE_run: "m w = (Inr x, w') \<Longrightarrow> bindE m f w = f x w'"
  by (simp add: bindE_def)

lemma progress_commit:
  "bindE (on_db (increment_progress rid)) (\<lambda>_. commit_obs) w =
   (Inr (), w\<lparr>ew_db := snd (increment_progress rid (ew_db w)), ew_committed := snd (increment_progress rid (ew_db w))\<rparr>)"
  by (simp add: bindE_def on_db_def commit_obs_def increment_progress_def update_run_def)

lemma eval_session_step:
  assumes sc: "session_scored (er_id run) p d0 xs n (ew_db w)" and refs: "p \<in> set (obs_projects d0)" "er_id run \<in> er_id ` set (eval_runs d0)"
  shows "\<exists>w'. eval_session ev run p sid w = (Inr (), w')
    \<and> session_scored (er_id run) p d0 (xs @ session_pairs run (filter (has_traces p d0) [sid])) (Suc n) (ew_db w')"
proof -
  obtain ts where ts: "session_traces p sid (ew_db w) = (Inr ts, ew_db w)" "ts = [] \<longleftrightarrow> \<not> has_traces p d0 sid" "tr_trace_id ` set ts \<subseteq> tr_trace_id ` set (trace_rows d0)"
    using session_traces_run[OF session_scored_frame(1)[OF sc], of p sid] by blast
  let ?body = "if ts = [] then ret () else bindE (warm_embeddings ev ts) (\<lambda>_. bindE (session_signals ev run p ts) (\<lambda>pre.
      bindE commit_obs (\<lambda>_. forE (er_metric_names run) (score_session_metric ev run p sid ts pre))))"
  have "\<exists>w1. ?body w = (Inr (), w1) \<and> session_scored (er_id run) p d0 (xs @ session_pairs run (filter (has_traces p d0) [sid])) n (ew_db w1)"
  proof (cases "ts = []")
    case True
    with ts(2) sc show ?thesis by (simp add: session_pairs_def)
  next
    case False
    obtain w1 where w1: "warm_embeddings ev ts w = (Inr (), w1)" "ew_db w1 = ew_db w" using warm_embeddings_run by blast
    then obtain pre w2 where w2: "session_signals ev run p ts w1 = (Inr pre, w2)" "session_scored (er_id run) p d0 xs n (ew_db w2)"
      using session_signals_run[OF _ ts(3) refs, of xs n w1 ev] sc by auto
    have "session_scored (er_id run) p d0 xs n (ew_db (w2\<lparr>ew_committed := ew_db w2\<rparr>))" using w2(2) by simp
    from session_metrics_run[OF this refs, of "er_metric_names run" ev sid ts pre] False ts(2) w1(1) w2(1)
    show ?thesis by (auto simp: bindE_def commit_obs_def session_pairs_def)
  qed
  then obtain w1 where w1: "?body w = (Inr (), w1)" "session_scored (er_id run) p d0 (xs @ session_pairs run (filter (has_traces p d0) [sid])) n (ew_db w1)"
    by blast
  have "on_db (session_traces p sid) w = (Inr ts, w)" by (simp add: on_db_def ts(1))
  then have "eval_session ev run p sid w = (Inr (), w1\<lparr>ew_db := snd (increment_progress (er_id run) (ew_db w1)), ew_committed := snd (increment_progress (er_id run) (ew_db w1))\<rparr>)"
    unfolding eval_session_def by (simp only: bindE_run w1(1) progress_commit)
  with session_scored_progress[OF w1(2)] show ?thesis by auto
qed

lemma eval_sessions_run:
  assumes "session_scored (er_id run) p d0 xs n (ew_db w)" and refs: "p \<in> set (obs_projects d0)" "er_id run \<in> er_id ` set (eval_runs d0)"
  shows "\<exists>w'. forE sids (eval_session ev run p) w = (Inr (), w')
    \<and> session_scored (er_id run) p d0 (xs @ session_pairs run (filter (has_traces p d0) sids)) (n + length sids) (ew_db w')"
  using assms(1)
proof (induction sids arbitrary: xs n w)
  case (Cons sid sids)
  obtain w1 where w1: "eval_session ev run p sid w = (Inr (), w1)"
    "session_scored (er_id run) p d0 (xs @ session_pairs run (filter (has_traces p d0) [sid])) (Suc n) (ew_db w1)"
    using eval_session_step[OF Cons.prems refs] by blast
  have "filter (has_traces p d0) (sid # sids) = filter (has_traces p d0) [sid] @ filter (has_traces p d0) sids" by simp
  moreover have "session_pairs run (xs @ ys) = session_pairs run xs @ session_pairs run ys" for xs ys by (simp add: session_pairs_def)
  ultimately show ?case using Cons.IH[OF w1(2)] by (auto simp: bindE_def w1(1) simp del: filter.simps)
qed (auto simp: session_pairs_def)

text \<open>The tables as the setup of a session run leaves them.\<close>

definition session_cleared :: "'s eval_env \<Rightarrow> uuid \<Rightarrow> uuid \<Rightarrow> obs_db \<Rightarrow> obs_db" where
  "session_cleared ev rid p d = cleared ev rid p (d\<lparr>session_scores := delete_where (session_of_run rid p) (session_scores d)\<rparr>)"

lemma session_cleared_simps [simp]:
  "trace_rows (session_cleared ev rid p d) = trace_rows d" "obs_projects (session_cleared ev rid p d) = obs_projects d"
  "session_scores (session_cleared ev rid p d) = delete_where (session_of_run rid p) (session_scores d)"
  by (simp_all add: session_cleared_def cleared_def)

lemma session_scored_cleared:
  "readable d \<Longrightarrow> session_scored rid p (session_cleared ev rid p d) [] 0 (session_cleared ev rid p d)"
  by (auto simp: session_scored_def session_cleared_def cleared_def readable_def update_where_def set_run_status_def intro!: exI[of _ "[]"])

definition session_run_finished :: "uuid \<Rightarrow> uuid \<Rightarrow> (string \<times> string) list \<Rightarrow> nat \<Rightarrow> obs_db \<Rightarrow> obs_db \<Rightarrow> bool" where
  "session_run_finished rid p pairs n d d' \<longleftrightarrow>
     (\<exists>run'. filter (\<lambda>r. er_id r = rid) (eval_runs d') = [run'] \<and> er_status run' = evaluation_status.COMPLETED
        \<and> er_evaluated_count run' = n
        \<and> er_failed_count run' = length (filter (\<lambda>s. session_of_run rid p s \<and> ss_status s = score_status.FAILED) (session_scores d')))
   \<and> map (\<lambda>s. (ss_session_id s, ss_name s)) (filter (session_of_run rid p) (session_scores d')) = pairs
   \<and> filter (\<lambda>s. \<not> session_of_run rid p s) (session_scores d') = filter (\<lambda>s. \<not> session_of_run rid p s) (session_scores d)"

lemma session_scored_finished:
  assumes sc: "session_scored rid p (session_cleared ev rid p d) xs n d1" and run: "filter (\<lambda>r. er_id r = rid) (eval_runs d) = [run]"
  shows "session_run_finished rid p xs n d (snd (update_run_status now rid evaluation_status.COMPLETED None d1))"
proof -
  obtain ss where ss: "session_scores d1 = delete_where (session_of_run rid p) (session_scores d) @ ss" "map (\<lambda>s. (ss_session_id s, ss_name s)) ss = xs"
      "list_all (session_of_run rid p) ss"
    and runs: "eval_runs d1 = update_where (\<lambda>r. er_id r = rid)
         (\<lambda>r. r\<lparr>er_evaluated_count := n, er_failed_count := length (filter (\<lambda>s. ss_status s = score_status.FAILED) ss)\<rparr>) (eval_runs (session_cleared ev rid p d))"
    using sc by (auto simp: session_scored_def)
  have mine: "filter (session_of_run rid p) (session_scores d1) = ss"
    "filter (\<lambda>s. \<not> session_of_run rid p s) (session_scores d1) = filter (\<lambda>s. \<not> session_of_run rid p s) (session_scores d)"
    "filter (\<lambda>s. session_of_run rid p s \<and> ss_status s = score_status.FAILED) (session_scores d1) = filter (\<lambda>s. ss_status s = score_status.FAILED) ss"
    using ss(1,3) by (auto simp: delete_where_def filter_empty_conv list_all_iff filter_id_conv intro: filter_cong)
  have "run \<in> set (filter (\<lambda>r. er_id r = rid) (eval_runs d))" using run by simp
  then have "er_id run = rid" by simp
  then have "filter (\<lambda>r. er_id r = rid) (eval_runs (snd (update_run_status now rid evaluation_status.COMPLETED None d1))) =
    [set_run_status now evaluation_status.COMPLETED None ((set_run_status (ee_clock ev (obs_next_id d)) evaluation_status.RUNNING None
       (run\<lparr>er_evaluated_count := 0, er_failed_count := 0\<rparr>))\<lparr>er_evaluated_count := n, er_failed_count := length (filter (\<lambda>s. ss_status s = score_status.FAILED) ss)\<rparr>)]"
    using run by (simp add: update_run_status_def update_run_def runs session_cleared_def cleared_def filter_update_where)
  moreover have "session_scores (snd (update_run_status now rid evaluation_status.COMPLETED None d1)) = session_scores d1"
    by (simp add: update_run_status_def update_run_def)
  ultimately show ?thesis using mine ss(2) by (simp add: session_run_finished_def set_run_status_def)
qed

text \<open>
  C14: A run over sessions completes and scores every session once per metric. Started on a run of the
  project, with the stored signal scores of traces being numbers, the task completes whatever the
  language model answers; the committed session scores of the run are one for each listed session
  that has traces and each metric of the run and nothing else, the counters agree with them, and the
  session scores of other runs are untouched.
\<close>

theorem session_run_scores_every_session:
  assumes read: "readable (ew_committed w)"
    and run: "filter (\<lambda>r. er_id r = rid) (eval_runs (ew_committed w)) = [run]" "er_project_id run = p" "p \<in> set (obs_projects (ew_committed w))"
  shows "\<exists>w'. execute_session_eval_run ev rid p sids w = (TaskCompleted, w')
    \<and> session_run_finished rid p (session_pairs run (filter (has_traces p (ew_committed w)) sids)) (length sids) (ew_committed w) (ew_committed w')"
proof -
  let ?d = "ew_committed w"
  let ?c = "session_cleared ev rid p ?d"
  let ?e = "(ew_rest w)\<lparr>embedding_cache := []\<rparr>"
  let ?wc = "w\<lparr>ew_rest := ?e, ew_db := ?c, ew_committed := ?c\<rparr>"
  obtain run' where run': "started_run rid p ?wc = (Inr run', ?wc)" "er_id run' = rid" "er_metric_names run' = er_metric_names run"
    using started_run_cleared[of rid "?d\<lparr>session_scores := delete_where (session_of_run rid p) (session_scores ?d)\<rparr>" run p ?wc ev] run(1,2)
    by (auto simp: session_cleared_def)
  have "run \<in> set (filter (\<lambda>r. er_id r = rid) (eval_runs ?d))" using run(1) by simp
  then have "rid \<in> er_id ` set (eval_runs ?d)" by auto
  then have rid: "rid \<in> er_id ` set (eval_runs ?c)" by (simp add: session_cleared_def cleared_def map_update_id)
  obtain w1 where w1: "forE sids (eval_session ev run' p) ?wc = (Inr (), w1)"
    "session_scored rid p ?c (session_pairs run (filter (has_traces p ?d) sids)) (length sids) (ew_db w1)"
    using eval_sessions_run[of run' p ?c "[]" 0 ?wc sids ev] session_scored_cleared[OF read, of rid p ev] run(3) run'(2,3) rid
    by (auto simp: session_pairs_def has_traces_def[abs_def])
  let ?d' = "snd (update_run_status (ee_clock ev (obs_next_id (ew_db w1))) rid evaluation_status.COMPLETED None (ew_db w1))"
  have loop: "bindE (started_run rid p) (\<lambda>run. bindE (forE sids (eval_session ev run p)) (\<lambda>_. complete_run ev rid)) ?wc
      = (Inr (), w1\<lparr>ew_db := ?d', ew_committed := ?d'\<rparr>)"
    by (simp only: bindE_run[of "started_run rid p", OF run'(1)] bindE_run[of "forE sids (eval_session ev run' p)", OF w1(1)])
      (simp add: bindE_def complete_run_def set_status_def read_clock_def on_db_def commit_obs_def update_run_status_def update_run_def)
  have engine: "bindE new_engine f w = f () (w\<lparr>ew_rest := ?e\<rparr>)" for f :: "unit \<Rightarrow> (error, 'a engine eworld, unit) exec"
    by (simp add: new_engine_def bindE_def on_rest_def)
  have clear: "bindE (on_db (delete_session_scores_for_run rid p)) f v =
      f (length (filter (session_of_run rid p) (session_scores (ew_db v)))) (v\<lparr>ew_db := (ew_db v)\<lparr>session_scores := delete_where (session_of_run rid p) (session_scores (ew_db v))\<rparr>\<rparr>)"
    for f :: "nat \<Rightarrow> (error, 'a engine eworld, unit) exec" and v
    by (simp add: bindE_def on_db_def delete_session_scores_for_run_def)
  have "run_session_eval ev rid p sids w = (Inr (), w1\<lparr>ew_db := ?d', ew_committed := ?d'\<rparr>)"
    using loop by (simp add: run_session_eval_def worker_session_def engine clear reset_run_cleared session_cleared_def)
  then have "execute_session_eval_run ev rid p sids w = (TaskCompleted, w1\<lparr>ew_db := ?d', ew_committed := ?d'\<rparr>)"
    by (simp add: execute_session_eval_run_def or_fail_def)
  with session_scored_finished[OF w1(2) run(1)] show ?thesis by auto
qed

definition demo_session_run :: eval_run where
  "demo_session_run = pending_run 3 60 1 None SESSION [''agent_reliability'', ''agent_consistency''] empty_filters 1 None None 2"

definition demo_sessions :: "nat engine eworld" where
  "demo_sessions = demo_eworld\<lparr>ew_committed := sample_obs\<lparr>eval_runs := [demo_session_run]\<rparr>\<rparr>"

theorem session_run_scores_every_session_witness:
  "\<exists>w'. execute_session_eval_run demo_env 60 1 [''s'', ''t''] demo_sessions = (TaskCompleted, w')
    \<and> session_run_finished 60 1 [(''s'', ''agent_reliability''), (''s'', ''agent_consistency'')] 2 (ew_committed demo_sessions) (ew_committed w')"
proof -
  have "readable (ew_committed demo_sessions)" "filter (\<lambda>r. er_id r = 60) (eval_runs (ew_committed demo_sessions)) = [demo_session_run]"
    "er_project_id demo_session_run = 1" "1 \<in> set (obs_projects (ew_committed demo_sessions))"
    "session_pairs demo_session_run (filter (has_traces 1 (ew_committed demo_sessions)) [''s'', ''t'']) = [(''s'', ''agent_reliability''), (''s'', ''agent_consistency'')]"
    "length [''s'', ''t''] = 2"
    by code_simp+
  then show ?thesis using session_run_scores_every_session[of demo_sessions 60 demo_session_run 1 demo_env "[''s'', ''t'']"] by metis
qed

text \<open>
  The hypothesis matters: the lookup does not ask for numeric scores of the project, and the
  conversion stands outside the \<open>try\<close>. A successful score under the name of a signal whose text is no
  number, the newest of its kind, ends the whole run.
\<close>

lemma unreadable_score_ends_the_run:
  assumes "filter (\<lambda>s. ts_trace_id s = tr_trace_id tr \<and> ts_name s = name \<and> ts_status s = SUCCESS) (trace_scores (ew_db w)) = [s]"
    and "ts_value s = Some v" "parse_float v = None"
  shows "\<exists>e. signal_value ev run p earlier tr name w = (Inl e, w)"
  using assms
  by (simp add: signal_value_def on_db_def find_existing_trace_score_def newest_first_def bindE_def stored_value_def)

end
