(* ===== verification/EvalRoutes.thy ===== *)
theory EvalRoutes
  imports EvalService
begin

text \<open>
  The endpoints of \<open>api/v1/routes/evaluations.py\<close> on runs, scores and monitors. A request carries the
  organization and the project that \<open>require_project\<close> resolved. Body parsing, rate limits and response
  formatting are the framework's; a response holds the entities its fields are copied from. Listing
  the registered metrics and providers is not an endpoint of this datatype; the analytics are in \<open>EvalAnalytics\<close>.
\<close>

datatype eval_endpoint =
    CreateEvalRun "string list" eval_filters real "string option" "string option"
  | CreateBatchEvalRun "uuid list" "string list" "string option" "string option"
  | RetryFailedEvalRun uuid
  | CreateSessionEvalRun "string list" eval_filters real "string option" "string option" "signals option"
  | CreateBatchSessionEvalRun "string list" "string list" "string option" "string option" "signals option"
  | RetryFailedSessionEvalRun uuid
  | TriggerMonitor uuid
  | ListEvalRuns "evaluation_status option" nat nat
  | GetEvalRun uuid
  | DeleteEvalRun uuid bool
  | GetScoresForRun uuid
  | CreateTraceScore uuid string string score_data_type score_source "string option" "metadata option"
  | ListTraceScores score_filter nat nat
  | GetScoresForTrace uuid
  | UpdateTraceScore uuid "string option" "string option" "metadata option"
  | DeleteTraceScore uuid
  | ListSessionEvalRuns "evaluation_status option" nat nat
  | GetSessionEvalRun uuid
  | DeleteSessionEvalRun uuid bool
  | GetSessionScoresForRun uuid
  | ListSessionScores session_score_filter nat nat
  | GetScoresForSession string
  | DeleteSessionScore uuid
  | CreateMonitor string target_type "string list" eval_filters real "string option" string bool "signals option"
  | ListMonitors "monitor_status option" nat nat
  | GetMonitor uuid
  | UpdateMonitor uuid monitor_patch
  | DeleteMonitor uuid
  | PauseMonitor uuid
  | ResumeMonitor uuid
  | ListMonitorRuns uuid nat nat

datatype eval_response =
    RunStarted eval_run eval_message
  | RunOut eval_run
  | RunPage "eval_run list" nat
  | ScoreOut trace_score
  | ScoresOut "trace_score list"
  | ScorePage "trace_score list" nat
  | SessionScoresOut "session_score list"
  | SessionScorePage "session_score list" nat
  | MonitorOut eval_monitor
  | MonitorPage "eval_monitor list" nat
  | EvalNoContent

text \<open>What a request finds: the sampler, the settings, croniter, the instant, the nonces of its usage scripts, and the broker.\<close>

record request_env =
  rq_pick :: "nat \<Rightarrow> nat \<Rightarrow> nat list"
  rq_settings :: llm_settings
  rq_cron :: croniter
  rq_now :: datetime
  rq_nonce :: uuid
  rq_rollback_nonce :: uuid
  rq_broker :: "error option"

section \<open>Runs over traces\<close>

text \<open>The endpoints that start a run differ in the method that prepares it.\<close>

definition start_route :: "request_env \<Rightarrow> uuid \<Rightarrow> (error, obs_db, prepared_run) exec \<Rightarrow> (error, 's bworld eworld, eval_response) exec" where
  "start_route v org prepare =
     bindE (start_run (rq_now v) (rq_nonce v) (rq_rollback_nonce v) (rq_broker v) org prepare) (\<lambda>(run, msg). ret (RunStarted run msg))"

definition create_eval_run_route :: "request_env \<Rightarrow> uuid \<Rightarrow> uuid \<Rightarrow> string list \<Rightarrow> eval_filters \<Rightarrow> real \<Rightarrow> string option \<Rightarrow> string option \<Rightarrow> (error, 's bworld eworld, eval_response) exec" where
  "create_eval_run_route v org project metrics f rate model name =
     start_route v org (prepare_eval_run (rq_pick v) (rq_settings v) (rq_now v) project metrics f rate model name)"

definition create_batch_eval_run_route :: "request_env \<Rightarrow> uuid \<Rightarrow> uuid \<Rightarrow> uuid list \<Rightarrow> string list \<Rightarrow> string option \<Rightarrow> string option \<Rightarrow> (error, 's bworld eworld, eval_response) exec" where
  "create_batch_eval_run_route v org project ids metrics model name =
     start_route v org (prepare_batch_eval_run (rq_settings v) (rq_now v) project ids metrics model name)"

definition retry_failed_eval_run_route :: "request_env \<Rightarrow> uuid \<Rightarrow> uuid \<Rightarrow> uuid \<Rightarrow> (error, 's bworld eworld, eval_response) exec" where
  "retry_failed_eval_run_route v org project i =
     start_route v org (prepare_retry_failed_run (rq_now v) i project)"

text \<open>Every other endpoint runs in the session of the request.\<close>

definition list_eval_runs_route :: "request_env \<Rightarrow> uuid \<Rightarrow> uuid \<Rightarrow> evaluation_status option \<Rightarrow> nat \<Rightarrow> nat \<Rightarrow> (error, 's bworld eworld, eval_response) exec" where
  "list_eval_runs_route v org project st lmt off =
     bindE (on_db (list_eval_runs project st (Some TRACE) lmt off)) (\<lambda>(rs, n). ret (RunPage rs n))"

definition get_eval_run_route :: "request_env \<Rightarrow> uuid \<Rightarrow> uuid \<Rightarrow> uuid \<Rightarrow> (error, 's bworld eworld, eval_response) exec" where
  "get_eval_run_route v org project i =
     bindE (on_db (require_run i project)) (\<lambda>r. ret (RunOut r))"

definition delete_eval_run_route :: "request_env \<Rightarrow> uuid \<Rightarrow> uuid \<Rightarrow> uuid \<Rightarrow> bool \<Rightarrow> (error, 's bworld eworld, eval_response) exec" where
  "delete_eval_run_route v org project i delete_scores =
     bindE (delete_eval_run i project delete_scores) (\<lambda>_. ret EvalNoContent)"

definition get_scores_for_run_route :: "request_env \<Rightarrow> uuid \<Rightarrow> uuid \<Rightarrow> uuid \<Rightarrow> (error, 's bworld eworld, eval_response) exec" where
  "get_scores_for_run_route v org project i =
     bindE (on_db (get_scores_for_run i project)) (\<lambda>ss. ret (ScoresOut ss))"

section \<open>Trace scores\<close>

definition create_trace_score_route :: "request_env \<Rightarrow> uuid \<Rightarrow> uuid \<Rightarrow> uuid \<Rightarrow> string \<Rightarrow> string \<Rightarrow> score_data_type \<Rightarrow> score_source \<Rightarrow> string option \<Rightarrow> metadata option \<Rightarrow> (error, 's bworld eworld, eval_response) exec" where
  "create_trace_score_route v org project i name x dt src reason meta =
     bindE (annotate_trace (rq_now v) project i name x dt src reason meta) (\<lambda>s. ret (ScoreOut s))"

definition list_trace_scores_route :: "request_env \<Rightarrow> uuid \<Rightarrow> uuid \<Rightarrow> score_filter \<Rightarrow> nat \<Rightarrow> nat \<Rightarrow> (error, 's bworld eworld, eval_response) exec" where
  "list_trace_scores_route v org project f lmt off =
     bindE (on_db (list_scores project f lmt off)) (\<lambda>(ss, n). ret (ScorePage ss n))"

definition get_scores_for_trace_route :: "request_env \<Rightarrow> uuid \<Rightarrow> uuid \<Rightarrow> uuid \<Rightarrow> (error, 's bworld eworld, eval_response) exec" where
  "get_scores_for_trace_route v org project i =
     bindE (on_db (get_latest_scores_for_trace i project)) (\<lambda>ss. ret (ScoresOut ss))"

definition update_trace_score_route :: "request_env \<Rightarrow> uuid \<Rightarrow> uuid \<Rightarrow> uuid \<Rightarrow> string option \<Rightarrow> string option \<Rightarrow> metadata option \<Rightarrow> (error, 's bworld eworld, eval_response) exec" where
  "update_trace_score_route v org project i x reason meta =
     bindE (update_score (rq_now v) i project x reason meta) (\<lambda>s. ret (ScoreOut s))"

definition delete_trace_score_route :: "request_env \<Rightarrow> uuid \<Rightarrow> uuid \<Rightarrow> uuid \<Rightarrow> (error, 's bworld eworld, eval_response) exec" where
  "delete_trace_score_route v org project i =
     bindE (delete_score i project) (\<lambda>_. ret EvalNoContent)"

section \<open>Runs over sessions and their scores\<close>

definition create_session_eval_run_route :: "request_env \<Rightarrow> uuid \<Rightarrow> uuid \<Rightarrow> string list \<Rightarrow> eval_filters \<Rightarrow> real \<Rightarrow> string option \<Rightarrow> string option \<Rightarrow> signals option \<Rightarrow> (error, 's bworld eworld, eval_response) exec" where
  "create_session_eval_run_route v org project metrics f rate model name weights =
     start_route v org (prepare_session_eval_run (rq_pick v) (rq_settings v) (rq_now v) project metrics f rate model name weights)"

definition create_batch_session_eval_run_route :: "request_env \<Rightarrow> uuid \<Rightarrow> uuid \<Rightarrow> string list \<Rightarrow> string list \<Rightarrow> string option \<Rightarrow> string option \<Rightarrow> signals option \<Rightarrow> (error, 's bworld eworld, eval_response) exec" where
  "create_batch_session_eval_run_route v org project sids metrics model name weights =
     start_route v org (prepare_batch_session_eval_run (rq_settings v) (rq_now v) project sids metrics model name weights)"

definition retry_failed_session_eval_run_route :: "request_env \<Rightarrow> uuid \<Rightarrow> uuid \<Rightarrow> uuid \<Rightarrow> (error, 's bworld eworld, eval_response) exec" where
  "retry_failed_session_eval_run_route v org project i =
     start_route v org (prepare_retry_failed_session_run (rq_settings v) (rq_now v) i project)"

definition list_session_eval_runs_route :: "request_env \<Rightarrow> uuid \<Rightarrow> uuid \<Rightarrow> evaluation_status option \<Rightarrow> nat \<Rightarrow> nat \<Rightarrow> (error, 's bworld eworld, eval_response) exec" where
  "list_session_eval_runs_route v org project st lmt off =
     bindE (on_db (list_eval_runs project st (Some SESSION) lmt off)) (\<lambda>(rs, n). ret (RunPage rs n))"

definition get_session_eval_run_route :: "request_env \<Rightarrow> uuid \<Rightarrow> uuid \<Rightarrow> uuid \<Rightarrow> (error, 's bworld eworld, eval_response) exec" where
  "get_session_eval_run_route v org project i =
     bindE (on_db (require_run i project)) (\<lambda>r. ret (RunOut r))"

definition delete_session_eval_run_route :: "request_env \<Rightarrow> uuid \<Rightarrow> uuid \<Rightarrow> uuid \<Rightarrow> bool \<Rightarrow> (error, 's bworld eworld, eval_response) exec" where
  "delete_session_eval_run_route v org project i delete_scores =
     bindE (delete_eval_run i project delete_scores) (\<lambda>_. ret EvalNoContent)"

definition get_session_scores_for_run_route :: "request_env \<Rightarrow> uuid \<Rightarrow> uuid \<Rightarrow> uuid \<Rightarrow> (error, 's bworld eworld, eval_response) exec" where
  "get_session_scores_for_run_route v org project i =
     bindE (on_db (get_session_scores_for_run i project)) (\<lambda>ss. ret (SessionScoresOut ss))"

definition list_session_scores_route :: "request_env \<Rightarrow> uuid \<Rightarrow> uuid \<Rightarrow> session_score_filter \<Rightarrow> nat \<Rightarrow> nat \<Rightarrow> (error, 's bworld eworld, eval_response) exec" where
  "list_session_scores_route v org project f lmt off =
     bindE (on_db (list_session_scores project f lmt off)) (\<lambda>(ss, n). ret (SessionScorePage ss n))"

definition get_scores_for_session_route :: "request_env \<Rightarrow> uuid \<Rightarrow> uuid \<Rightarrow> string \<Rightarrow> (error, 's bworld eworld, eval_response) exec" where
  "get_scores_for_session_route v org project sid =
     bindE (on_db (get_session_scores_for_session sid project)) (\<lambda>ss. ret (SessionScoresOut ss))"

definition delete_session_score_route :: "request_env \<Rightarrow> uuid \<Rightarrow> uuid \<Rightarrow> uuid \<Rightarrow> (error, 's bworld eworld, eval_response) exec" where
  "delete_session_score_route v org project i =
     bindE (delete_session_score i project) (\<lambda>_. ret EvalNoContent)"

section \<open>Monitors\<close>

definition create_monitor_route :: "request_env \<Rightarrow> uuid \<Rightarrow> uuid \<Rightarrow> string \<Rightarrow> target_type \<Rightarrow> string list \<Rightarrow> eval_filters \<Rightarrow> real \<Rightarrow> string option \<Rightarrow> string \<Rightarrow> bool \<Rightarrow> signals option \<Rightarrow> (error, 's bworld eworld, eval_response) exec" where
  "create_monitor_route v org project name tt metrics f rate model cadence only_if_changed weights =
     bindE (on_rest (require_monitoring_allowed (rq_now v) org)) (\<lambda>_.
     bindE (create_monitor (rq_cron v) (rq_now v) project name tt metrics cadence f rate model only_if_changed weights) (\<lambda>m.
     ret (MonitorOut m)))"

definition list_monitors_route :: "request_env \<Rightarrow> uuid \<Rightarrow> uuid \<Rightarrow> monitor_status option \<Rightarrow> nat \<Rightarrow> nat \<Rightarrow> (error, 's bworld eworld, eval_response) exec" where
  "list_monitors_route v org project st lmt off =
     bindE (on_db (list_monitor_rows project st lmt off)) (\<lambda>(ms, n). ret (MonitorPage ms n))"

definition get_monitor_route :: "request_env \<Rightarrow> uuid \<Rightarrow> uuid \<Rightarrow> uuid \<Rightarrow> (error, 's bworld eworld, eval_response) exec" where
  "get_monitor_route v org project i =
     bindE (on_db (require_monitor i project)) (\<lambda>m. ret (MonitorOut m))"

definition update_monitor_route :: "request_env \<Rightarrow> uuid \<Rightarrow> uuid \<Rightarrow> uuid \<Rightarrow> monitor_patch \<Rightarrow> (error, 's bworld eworld, eval_response) exec" where
  "update_monitor_route v org project i p =
     bindE (update_monitor (rq_cron v) (rq_now v) i project p) (\<lambda>m. ret (MonitorOut m))"

definition delete_monitor_route :: "request_env \<Rightarrow> uuid \<Rightarrow> uuid \<Rightarrow> uuid \<Rightarrow> (error, 's bworld eworld, eval_response) exec" where
  "delete_monitor_route v org project i =
     bindE (delete_monitor i project) (\<lambda>_. ret EvalNoContent)"

definition pause_monitor_route :: "request_env \<Rightarrow> uuid \<Rightarrow> uuid \<Rightarrow> uuid \<Rightarrow> (error, 's bworld eworld, eval_response) exec" where
  "pause_monitor_route v org project i =
     bindE (pause_monitor (rq_now v) i project) (\<lambda>m. ret (MonitorOut m))"

definition resume_monitor_route :: "request_env \<Rightarrow> uuid \<Rightarrow> uuid \<Rightarrow> uuid \<Rightarrow> (error, 's bworld eworld, eval_response) exec" where
  "resume_monitor_route v org project i =
     bindE (resume_monitor (rq_cron v) (rq_now v) i project) (\<lambda>m. ret (MonitorOut m))"

definition trigger_monitor_route :: "request_env \<Rightarrow> uuid \<Rightarrow> uuid \<Rightarrow> uuid \<Rightarrow> (error, 's bworld eworld, eval_response) exec" where
  "trigger_monitor_route v org project i =
     start_route v org (prepare_trigger_monitor (rq_pick v) (rq_settings v) (rq_cron v) (rq_now v) i project)"

definition list_monitor_runs :: "uuid \<Rightarrow> uuid \<Rightarrow> nat \<Rightarrow> nat \<Rightarrow> (error, obs_db, eval_run list \<times> nat) exec" where
  "list_monitor_runs i project lmt off = bindE (require_monitor i project) (\<lambda>_. list_runs_for_monitor i project lmt off)"

definition list_monitor_runs_route :: "request_env \<Rightarrow> uuid \<Rightarrow> uuid \<Rightarrow> uuid \<Rightarrow> nat \<Rightarrow> nat \<Rightarrow> (error, 's bworld eworld, eval_response) exec" where
  "list_monitor_runs_route v org project i lmt off =
     bindE (on_db (list_monitor_runs i project lmt off)) (\<lambda>(rs, n). ret (RunPage rs n))"

section \<open>Serving a request\<close>

definition handle_eval :: "request_env \<Rightarrow> uuid \<Rightarrow> uuid \<Rightarrow> eval_endpoint \<Rightarrow> (error, 's bworld eworld, eval_response) exec" where
  "handle_eval v org project ep = (case ep of
     ListEvalRuns st lmt off \<Rightarrow> list_eval_runs_route v org project st lmt off
   | GetEvalRun i \<Rightarrow> get_eval_run_route v org project i
   | DeleteEvalRun i b \<Rightarrow> delete_eval_run_route v org project i b
   | GetScoresForRun i \<Rightarrow> get_scores_for_run_route v org project i
   | CreateTraceScore i name x dt src reason meta \<Rightarrow> create_trace_score_route v org project i name x dt src reason meta
   | ListTraceScores f lmt off \<Rightarrow> list_trace_scores_route v org project f lmt off
   | GetScoresForTrace i \<Rightarrow> get_scores_for_trace_route v org project i
   | UpdateTraceScore i x reason meta \<Rightarrow> update_trace_score_route v org project i x reason meta
   | DeleteTraceScore i \<Rightarrow> delete_trace_score_route v org project i
   | ListSessionEvalRuns st lmt off \<Rightarrow> list_session_eval_runs_route v org project st lmt off
   | GetSessionEvalRun i \<Rightarrow> get_session_eval_run_route v org project i
   | DeleteSessionEvalRun i b \<Rightarrow> delete_session_eval_run_route v org project i b
   | GetSessionScoresForRun i \<Rightarrow> get_session_scores_for_run_route v org project i
   | ListSessionScores f lmt off \<Rightarrow> list_session_scores_route v org project f lmt off
   | GetScoresForSession sid \<Rightarrow> get_scores_for_session_route v org project sid
   | DeleteSessionScore i \<Rightarrow> delete_session_score_route v org project i
   | CreateMonitor name tt metrics f rate model cadence only weights \<Rightarrow> create_monitor_route v org project name tt metrics f rate model cadence only weights
   | ListMonitors st lmt off \<Rightarrow> list_monitors_route v org project st lmt off
   | GetMonitor i \<Rightarrow> get_monitor_route v org project i
   | UpdateMonitor i p \<Rightarrow> update_monitor_route v org project i p
   | DeleteMonitor i \<Rightarrow> delete_monitor_route v org project i
   | PauseMonitor i \<Rightarrow> pause_monitor_route v org project i
   | ResumeMonitor i \<Rightarrow> resume_monitor_route v org project i
   | ListMonitorRuns i lmt off \<Rightarrow> list_monitor_runs_route v org project i lmt off
   | _ \<Rightarrow> raise (NotFoundError ''Not Found''))"

definition serve_eval :: "request_env \<Rightarrow> uuid \<Rightarrow> uuid \<Rightarrow> eval_endpoint \<Rightarrow> (error, 's bworld eworld, eval_response) exec" where
  "serve_eval v org project ep = (case ep of
     CreateEvalRun metrics f rate model name \<Rightarrow> create_eval_run_route v org project metrics f rate model name
   | CreateBatchEvalRun ids metrics model name \<Rightarrow> create_batch_eval_run_route v org project ids metrics model name
   | RetryFailedEvalRun i \<Rightarrow> retry_failed_eval_run_route v org project i
   | CreateSessionEvalRun metrics f rate model name weights \<Rightarrow> create_session_eval_run_route v org project metrics f rate model name weights
   | CreateBatchSessionEvalRun sids metrics model name weights \<Rightarrow> create_batch_session_eval_run_route v org project sids metrics model name weights
   | RetryFailedSessionEvalRun i \<Rightarrow> retry_failed_session_eval_run_route v org project i
   | TriggerMonitor i \<Rightarrow> trigger_monitor_route v org project i
   | _ \<Rightarrow> request_session (handle_eval v org project ep))"

end
