(* ===== verification/EvalIsolation.thy ===== *)
theory EvalIsolation
  imports EvalRoutes EvalTasks TraceIsolation
begin

text \<open>
  Isolation of projects in the evaluation tables: requests of one project to the evaluation endpoints
  leave the scores, runs and monitors of the others alone, and the tables consistent.
\<close>

section \<open>Consistent evaluation tables\<close>

text \<open>
  Identifiers of runs and monitors are unique, and a reference to a run or a monitor leads to a row of
  the same project.
\<close>

definition run_keys :: "obs_db \<Rightarrow> (uuid \<times> uuid) set" where
  "run_keys d = (\<lambda>r. (er_id r, er_project_id r)) ` set (eval_runs d)"

definition monitor_keys :: "obs_db \<Rightarrow> (uuid \<times> uuid) set" where
  "monitor_keys d = (\<lambda>m. (mo_id m, mo_project_id m)) ` set (eval_monitors d)"

definition refs_ok :: "(uuid \<times> uuid) set \<Rightarrow> ('r \<Rightarrow> uuid) \<Rightarrow> ('r \<Rightarrow> uuid option) \<Rightarrow> 'r list \<Rightarrow> bool" where
  "refs_ok keys project ref rows \<longleftrightarrow> (\<forall>x \<in> set rows. opt_all (\<lambda>i. (i, project x) \<in> keys) (ref x))"

definition ids_ok :: "uuid \<Rightarrow> uuid list \<Rightarrow> bool" where
  "ids_ok next ids \<longleftrightarrow> distinct ids \<and> (\<forall>i \<in> set ids. i < next)"

definition eval_wf :: "obs_db \<Rightarrow> bool" where
  "eval_wf d \<longleftrightarrow> ids_ok (obs_next_id d) (map er_id (eval_runs d)) \<and> ids_ok (obs_next_id d) (map mo_id (eval_monitors d))
   \<and> refs_ok (run_keys d) ts_project_id ts_eval_run_id (trace_scores d)
   \<and> refs_ok (run_keys d) ss_project_id ss_eval_run_id (session_scores d)
   \<and> refs_ok (run_keys d) mo_project_id mo_last_run_id (eval_monitors d)
   \<and> refs_ok (monitor_keys d) er_project_id er_monitor_id (eval_runs d)"

lemma refs_ok_simps [simp]:
  "refs_ok K pr rf []"
  "refs_ok K pr rf (x # xs) \<longleftrightarrow> opt_all (\<lambda>i. (i, pr x) \<in> K) (rf x) \<and> refs_ok K pr rf xs"
  "refs_ok K pr rf (xs @ ys) \<longleftrightarrow> refs_ok K pr rf xs \<and> refs_ok K pr rf ys"
  by (auto simp: refs_ok_def)

lemma refs_ok_delete [simp]: "refs_ok K pr rf xs \<Longrightarrow> refs_ok K pr rf (delete_where P xs)"
  by (auto simp: refs_ok_def)

lemma opt_all_mono: "opt_all P r \<Longrightarrow> (\<And>i. P i \<Longrightarrow> Q i) \<Longrightarrow> opt_all Q r"
  by (cases r) (auto simp: opt_all_def)

lemma refs_ok_mono: "refs_ok K pr rf xs \<Longrightarrow> K \<subseteq> L \<Longrightarrow> refs_ok L pr rf xs"
  by (auto simp: refs_ok_def intro: opt_all_mono)

lemma refs_ok_update:
  assumes "refs_ok K pr rf xs" and "\<And>x. pr (f x) = pr x" and "\<And>x. x \<in> set xs \<Longrightarrow> P x \<Longrightarrow> opt_all (\<lambda>i. (i, pr x) \<in> K) (rf x) \<Longrightarrow> opt_all (\<lambda>i. (i, pr x) \<in> K) (rf (f x))"
  shows "refs_ok K pr rf (update_where P f xs)"
  using assms by (auto simp: refs_ok_def set_update_where)

text \<open>Deleting the rows with the keys of \<open>gone\<close> and clearing the references to them.\<close>

lemma refs_ok_unlink:
  assumes "refs_ok K pr rf xs" and "\<And>i q. (i, q) \<in> K \<Longrightarrow> i \<notin> gone \<Longrightarrow> (i, q) \<in> L"
    and "\<And>x. pr (f x) = pr x" "\<And>x. rf (f x) = unlink gone (rf x)"
  shows "refs_ok L pr rf (map f xs)"
  using assms by (fastforce simp: refs_ok_def unlink_def opt_all_def split: option.splits)

lemma ids_ok_Suc [simp]: "ids_ok n ids \<Longrightarrow> ids_ok (Suc n) ids" "ids_ok n ids \<Longrightarrow> ids_ok (Suc n) (ids @ [n])"
  by (auto simp: ids_ok_def less_Suc_eq)

lemma ids_ok_delete: "ids_ok n (map g xs) \<Longrightarrow> ids_ok n (map g (delete_where P xs))"
  by (auto simp: ids_ok_def delete_where_def distinct_map inj_on_def)

lemma keys_simps [simp]:
  "run_keys (d\<lparr>trace_scores := x1\<rparr>) = run_keys d" "run_keys (d\<lparr>session_scores := x2\<rparr>) = run_keys d"
  "run_keys (d\<lparr>eval_monitors := x3\<rparr>) = run_keys d" "run_keys (d\<lparr>obs_next_id := n\<rparr>) = run_keys d"
  "monitor_keys (d\<lparr>trace_scores := x1\<rparr>) = monitor_keys d" "monitor_keys (d\<lparr>session_scores := x2\<rparr>) = monitor_keys d"
  "monitor_keys (d\<lparr>eval_runs := x4\<rparr>) = monitor_keys d" "monitor_keys (d\<lparr>obs_next_id := n\<rparr>) = monitor_keys d"
  "run_keys (d\<lparr>eval_runs := rs\<rparr>) = (\<lambda>r. (er_id r, er_project_id r)) ` set rs"
  "monitor_keys (d\<lparr>eval_monitors := ms\<rparr>) = (\<lambda>m. (mo_id m, mo_project_id m)) ` set ms"
  by (simp_all add: run_keys_def monitor_keys_def)

text \<open>All traces and spans, and what else does not belong to project \<open>p\<close>.\<close>

definition others ::
  "uuid \<Rightarrow> obs_db \<Rightarrow> trace_row list \<times> span list \<times> trace_score list \<times> session_score list \<times> eval_run list \<times> eval_monitor list \<times> uuid list" where
  "others p d = (trace_rows d, span_rows d, filter (\<lambda>s. ts_project_id s \<noteq> p) (trace_scores d),
     filter (\<lambda>s. ss_project_id s \<noteq> p) (session_scores d), filter (\<lambda>r. er_project_id r \<noteq> p) (eval_runs d),
     filter (\<lambda>m. mo_project_id m \<noteq> p) (eval_monitors d), obs_projects d)"

definition fair :: "uuid \<Rightarrow> obs_db \<Rightarrow> obs_db \<Rightarrow> bool" where
  "fair p d d' \<longleftrightarrow> (eval_wf d \<longrightarrow> eval_wf d' \<and> others p d' = others p d)"

interpretation fair: exec_preorder "fair p" for p
  by unfold_locales (auto simp: fair_def)

lemma fairI: "(eval_wf d \<Longrightarrow> eval_wf d' \<and> others p d' = others p d) \<Longrightarrow> fair p d d'"
  by (simp add: fair_def)

lemma keeps_same: "(\<And>s. snd (m s) = s) \<Longrightarrow> (\<And>s. R s s) \<Longrightarrow> keeps R m"
  by (simp add: keeps_def)

section \<open>Statements\<close>

lemma fair_new_id: "keeps (fair p) obs_new_id"
  by (rule keepsI) (simp add: obs_new_id_def fair_def eval_wf_def others_def)

lemma fair_reads [keeps_rules]:
  "keeps (fair p) (get_eval_run i q)" "keeps (fair p) (get_monitor_row i q)" "keeps (fair p) (get_score_by_id i q)"
  "keeps (fair p) (list_monitor_rows q st lmt off)"
  by (simp_all add: keeps_def get_eval_run_def get_monitor_row_def get_score_by_id_def list_monitor_rows_def Let_def fair_def)

lemma filter_delete_own: "(\<And>x. P x \<Longrightarrow> \<not> Q x) \<Longrightarrow> filter Q (delete_where P xs) = filter Q xs"
  unfolding delete_where_def filter_filter by (rule filter_cong) auto

lemma fair_delete_scores: "(\<And>s. P s \<Longrightarrow> ts_project_id s = p) \<Longrightarrow> keeps (fair p) (delete_scores_where P)"
  by (simp add: keeps_def delete_scores_where_def fair_def eval_wf_def others_def filter_delete_own)

lemma deleted_rows:
  "filter (\<lambda>s. ss_project_id s \<noteq> p) (delete_where (session_of_run i p) xs) = filter (\<lambda>s. ss_project_id s \<noteq> p) xs"
  "filter (\<lambda>s. ss_project_id s \<noteq> p) (delete_where (\<lambda>s. ss_id s = i \<and> ss_project_id s = p) xs) = filter (\<lambda>s. ss_project_id s \<noteq> p) xs"
  "filter (\<lambda>s. ts_project_id s \<noteq> p) (delete_where (owns_score i p) ys) = filter (\<lambda>s. ts_project_id s \<noteq> p) ys"
  "filter (\<lambda>r. er_project_id r \<noteq> p) (delete_where (owns_run i p) rs) = filter (\<lambda>r. er_project_id r \<noteq> p) rs"
  "filter (\<lambda>m. mo_project_id m \<noteq> p) (delete_where (owns_monitor i p) ms) = filter (\<lambda>m. mo_project_id m \<noteq> p) ms"
  by (rule filter_delete_own; simp add: session_of_run_def owns_score_def owns_run_def owns_monitor_def)+

lemma fair_delete_session_scores:
  "keeps (fair p) (delete_session_scores_for_run i p)" "keeps (fair p) (delete_session_score_row i p)"
  by (simp_all add: keeps_def delete_session_scores_for_run_def delete_session_score_row_def fair_def eval_wf_def others_def deleted_rows)

lemma fair_delete_score_row: "keeps (fair p) (delete_score_row i p)"
  by (simp add: keeps_def delete_score_row_def fair_def eval_wf_def others_def deleted_rows)

lemma edit_score_keys:
  "ts_project_id (edit_score now v reason meta st src s) = ts_project_id s"
  "ts_eval_run_id (edit_score now v reason meta st src s) = ts_eval_run_id s"
  by (simp_all add: edit_score_def)

lemma fair_update_score_row: "keeps (fair p) (update_score_row now i p v reason meta st src)"
proof -
  have "filter (\<lambda>s. ts_project_id s \<noteq> p) (update_where (owns_score i p) (edit_score now v reason meta st src) rows)
      = filter (\<lambda>s. ts_project_id s \<noteq> p) rows" for rows
    by (rule filter_update_where_own) (simp add: owns_score_def edit_score_keys)
  then show ?thesis
    by (simp add: keeps_def update_score_row_def fair_def eval_wf_def others_def refs_ok_update edit_score_keys)
qed

text \<open>A row of the project is added; its references lead to rows of the project.\<close>

lemma fair_create_score: "ts_project_id s = p \<Longrightarrow> ts_eval_run_id s = None \<Longrightarrow> keeps (fair p) (create_score s)"
  by (simp add: keeps_def create_score_def fair_def eval_wf_def others_def opt_all_def)

lemma fair_add_run:
  assumes "opt_all (\<lambda>m. (m, p) \<in> monitor_keys d) monitor"
  shows "fair p d (snd (add_run now p name metrics f rate model monitor ts tmm d))"
proof -
  let ?r = "pending_run now (obs_next_id d) p name (target_type_of ts) metrics f rate model monitor (target_count ts)"
  let ?d = "d\<lparr>obs_next_id := Suc (obs_next_id d), eval_runs := eval_runs d @ [?r]\<rparr>"
  have "run_keys d \<subseteq> run_keys ?d" by (auto simp: run_keys_def)
  then have "fair p d ?d"
    using assms by (auto simp: fair_def eval_wf_def others_def pending_run_def intro: refs_ok_mono)
  moreover have "fair p d (d\<lparr>obs_next_id := Suc (obs_next_id d)\<rparr>)"
    by (simp add: fair_def eval_wf_def others_def)
  ultimately show ?thesis by (simp add: add_run_def obs_new_id_def create_eval_run_def bindE_def Let_def)
qed

lemma keeps_add_run: "keeps (fair p) (add_run now p name metrics f rate model None ts tmm)"
  by (rule keepsI, rule fair_add_run) (simp add: opt_all_def)

lemma set_monitor_field_keys:
  "mo_id (set_monitor_field f m) = mo_id m" "mo_project_id (set_monitor_field f m) = mo_project_id m"
  "mo_last_run_id (set_monitor_field f m) = mo_last_run_id m"
  by (cases "(f, m)" rule: set_monitor_field.cases; simp)+

lemma fold_monitor_field_keys:
  "mo_id (fold set_monitor_field fs m) = mo_id m" "mo_project_id (fold set_monitor_field fs m) = mo_project_id m"
  "mo_last_run_id (fold set_monitor_field fs m) = mo_last_run_id m"
  by (induction fs arbitrary: m) (simp_all add: set_monitor_field_keys)

text \<open>An update of monitors of the project that keeps identifiers and projects.\<close>

lemma fair_update_monitors:
  assumes P: "\<And>m. m \<in> set (eval_monitors d) \<Longrightarrow> P m \<Longrightarrow> mo_project_id m = p"
    and f: "\<And>m. mo_id (f m) = mo_id m" "\<And>m. mo_project_id (f m) = mo_project_id m"
    and ref: "\<And>m. m \<in> set (eval_monitors d) \<Longrightarrow> P m \<Longrightarrow> opt_all (\<lambda>i. (i, p) \<in> run_keys d) (mo_last_run_id m) \<Longrightarrow>
      opt_all (\<lambda>i. (i, p) \<in> run_keys d) (mo_last_run_id (f m))"
  shows "fair p d (d\<lparr>eval_monitors := update_where P f (eval_monitors d)\<rparr>)"
proof (rule fairI)
  let ?d = "d\<lparr>eval_monitors := update_where P f (eval_monitors d)\<rparr>"
  assume wf: "eval_wf d"
  have "map (\<lambda>m. (mo_id m, mo_project_id m)) (eval_monitors ?d) = map (\<lambda>m. (mo_id m, mo_project_id m)) (eval_monitors d)"
    by (simp add: map_update_where f)
  then have "monitor_keys ?d = monitor_keys d" unfolding monitor_keys_def by (metis list.set_map)
  moreover have "map mo_id (eval_monitors ?d) = map mo_id (eval_monitors d)" by (simp add: map_update_where f)
  moreover have "filter (\<lambda>m. mo_project_id m \<noteq> p) (eval_monitors ?d) = filter (\<lambda>m. mo_project_id m \<noteq> p) (eval_monitors d)"
    using P f(2) by (simp add: filter_update_where_own)
  moreover have "refs_ok (run_keys d) mo_project_id mo_last_run_id (eval_monitors ?d)"
    using wf P f(2) ref by (auto simp: eval_wf_def intro!: refs_ok_update)
  ultimately show "eval_wf ?d \<and> others p ?d = others p d"
    using wf unfolding eval_wf_def others_def by simp
qed

lemma fair_update_monitor_row: "keeps (fair p) (update_monitor_row now i p fs)"
proof (rule keepsI)
  fix d
  have "fair p d (d\<lparr>eval_monitors := update_where (owns_monitor i p) (\<lambda>m. (fold set_monitor_field fs m)\<lparr>mo_updated_at := now\<rparr>) (eval_monitors d)\<rparr>)"
    by (rule fair_update_monitors) (simp_all add: owns_monitor_def fold_monitor_field_keys)
  then show "fair p d (snd (update_monitor_row now i p fs d))" by (simp add: update_monitor_row_def fair.rel_refl)
qed

lemma fair_create_monitor:
  assumes "mo_project_id m = p" "mo_id m = obs_next_id d" "mo_last_run_id m = None"
  shows "fair p d (snd (create_monitor_row m (d\<lparr>obs_next_id := Suc (obs_next_id d)\<rparr>)))"
proof -
  let ?d = "d\<lparr>obs_next_id := Suc (obs_next_id d), eval_monitors := eval_monitors d @ [m]\<rparr>"
  have "monitor_keys d \<subseteq> monitor_keys ?d" by (auto simp: monitor_keys_def)
  then have "fair p d ?d"
    using assms by (auto simp: fair_def eval_wf_def others_def opt_all_def intro: refs_ok_mono)
  moreover have "fair p d (d\<lparr>obs_next_id := Suc (obs_next_id d)\<rparr>)"
    by (simp add: fair_def eval_wf_def others_def)
  ultimately show ?thesis by (simp add: create_monitor_row_def)
qed

text \<open>
  Deleting a run or a monitor clears the references to it; they are references of the project, for a
  reference leads to a row of its own project and identifiers are unique.
\<close>

lemma unlinked_foreign:
  assumes "refs_ok K pr rf xs" and gone: "\<forall>(i, q) \<in> K. i \<in> gone \<longrightarrow> q = p"
    and "\<And>x. unlink gone (rf x) = rf x \<Longrightarrow> f x = x" "\<And>x. pr (f x) = pr x"
  shows "filter (\<lambda>x. pr x \<noteq> p) (map f xs) = filter (\<lambda>x. pr x \<noteq> p) xs"
  using assms(1)
proof (induction xs)
  case (Cons x xs)
  have "f x = x" if "pr x \<noteq> p"
    using Cons.prems gone that by (intro assms(3)) (auto simp: unlink_def opt_all_def split: option.splits)
  with Cons show ?case by (auto simp: assms(4))
qed simp

lemma gone_keys:
  assumes "distinct (map g xs)"
  shows "\<forall>(i, q) \<in> (\<lambda>x. (g x, pr x)) ` set xs. i \<in> g ` {x \<in> set xs. g x = j \<and> pr x = p} \<longrightarrow> q = p"
  using assms by (auto simp: distinct_map inj_on_def)

lemma kept_keys:
  "(i, q) \<in> (\<lambda>x. (g x, pr x)) ` set xs \<Longrightarrow> i \<notin> g ` {x \<in> set xs. g x = j \<and> pr x = p} \<Longrightarrow>
   (i, q) \<in> (\<lambda>x. (g x, pr x)) ` set (delete_where (\<lambda>x. g x = j \<and> pr x = p) xs)"
  by auto

lemma fair_delete_run: "keeps (fair p) (delete_eval_run_row i p)"
proof (rule keepsI, rule fairI)
  fix d
  assume wf: "eval_wf d"
  let ?d = "snd (delete_eval_run_row i p d)"
  let ?gone = "er_id ` {r \<in> set (eval_runs d). owns_run i p r}"
  have d: "?d = d\<lparr>eval_runs := delete_where (owns_run i p) (eval_runs d),
       trace_scores := map (\<lambda>s. s\<lparr>ts_eval_run_id := unlink ?gone (ts_eval_run_id s)\<rparr>) (trace_scores d),
       session_scores := map (\<lambda>s. s\<lparr>ss_eval_run_id := unlink ?gone (ss_eval_run_id s)\<rparr>) (session_scores d),
       eval_monitors := map (\<lambda>m. m\<lparr>mo_last_run_id := unlink ?gone (mo_last_run_id m)\<rparr>) (eval_monitors d)\<rparr>"
    by (simp add: delete_eval_run_row_def Let_def)
  have gone: "\<forall>(j, q) \<in> run_keys d. j \<in> ?gone \<longrightarrow> q = p"
    using wf unfolding run_keys_def owns_run_def by (intro gone_keys) (simp add: eval_wf_def ids_ok_def)
  have kept: "(j, q) \<in> run_keys ?d" if "(j, q) \<in> run_keys d" "j \<notin> ?gone" for j q
    using that kept_keys[of j q er_id er_project_id "eval_runs d" i p] by (simp add: d owns_run_def[abs_def] run_keys_def)
  have mkeys: "monitor_keys ?d = monitor_keys d" unfolding d monitor_keys_def by (simp add: image_image)
  have "ids_ok (obs_next_id d) (map er_id (eval_runs ?d)) \<and> ids_ok (obs_next_id d) (map mo_id (eval_monitors ?d))"
    using wf by (simp add: d eval_wf_def ids_ok_delete o_def)
  moreover have "refs_ok (run_keys ?d) ts_project_id ts_eval_run_id (trace_scores ?d)"
    "refs_ok (run_keys ?d) ss_project_id ss_eval_run_id (session_scores ?d)"
    "refs_ok (run_keys ?d) mo_project_id mo_last_run_id (eval_monitors ?d)"
    using wf kept unfolding d eval_wf_def by (auto intro!: refs_ok_unlink[where K = "run_keys d" and gone = ?gone])
  moreover have "refs_ok (monitor_keys ?d) er_project_id er_monitor_id (eval_runs ?d)"
    unfolding mkeys using wf by (simp add: d eval_wf_def)
  moreover have "others p ?d = others p d"
    using wf by (simp add: d deleted_rows others_def eval_wf_def unlinked_foreign[where rf = ts_eval_run_id, OF _ gone]
      unlinked_foreign[where rf = ss_eval_run_id, OF _ gone] unlinked_foreign[where rf = mo_last_run_id, OF _ gone])
  ultimately show "eval_wf ?d \<and> others p ?d = others p d" by (simp add: eval_wf_def d)
qed

lemma fair_delete_monitor: "keeps (fair p) (delete_monitor_row i p)"
proof (rule keepsI, rule fairI)
  fix d
  assume wf: "eval_wf d"
  let ?d = "snd (delete_monitor_row i p d)"
  let ?gone = "mo_id ` {m \<in> set (eval_monitors d). owns_monitor i p m}"
  have d: "?d = d\<lparr>eval_monitors := delete_where (owns_monitor i p) (eval_monitors d),
       eval_runs := map (\<lambda>r. r\<lparr>er_monitor_id := unlink ?gone (er_monitor_id r)\<rparr>) (eval_runs d)\<rparr>"
    by (simp add: delete_monitor_row_def Let_def)
  have gone: "\<forall>(j, q) \<in> monitor_keys d. j \<in> ?gone \<longrightarrow> q = p"
    using wf unfolding monitor_keys_def owns_monitor_def by (intro gone_keys) (simp add: eval_wf_def ids_ok_def)
  have kept: "(j, q) \<in> monitor_keys ?d" if "(j, q) \<in> monitor_keys d" "j \<notin> ?gone" for j q
    using that kept_keys[of j q mo_id mo_project_id "eval_monitors d" i p] by (simp add: d owns_monitor_def[abs_def] monitor_keys_def)
  have rkeys: "run_keys ?d = run_keys d" unfolding d run_keys_def by (simp add: image_image)
  have "ids_ok (obs_next_id d) (map er_id (eval_runs ?d)) \<and> ids_ok (obs_next_id d) (map mo_id (eval_monitors ?d))"
    using wf by (simp add: d eval_wf_def ids_ok_delete o_def)
  moreover have "refs_ok (run_keys ?d) ts_project_id ts_eval_run_id (trace_scores ?d)"
    "refs_ok (run_keys ?d) ss_project_id ss_eval_run_id (session_scores ?d)"
    "refs_ok (run_keys ?d) mo_project_id mo_last_run_id (eval_monitors ?d)"
    unfolding rkeys using wf by (simp_all add: d eval_wf_def)
  moreover have "refs_ok (monitor_keys ?d) er_project_id er_monitor_id (eval_runs ?d)"
    using wf kept unfolding d eval_wf_def by (auto intro!: refs_ok_unlink[where K = "monitor_keys d" and gone = ?gone])
  moreover have "others p ?d = others p d"
    using wf by (simp add: d deleted_rows others_def eval_wf_def unlinked_foreign[where rf = er_monitor_id, OF _ gone])
  ultimately show "eval_wf ?d \<and> others p ?d = others p d" by (simp add: eval_wf_def d)
qed

section \<open>Methods of the service\<close>

lemmas fair_statements [keeps_rules] = fair_new_id fair_delete_session_scores fair_delete_score_row fair_update_score_row
  keeps_add_run fair_update_monitor_row fair_delete_run fair_delete_monitor

lemma fair_scores_for_run [keeps_rules]: "keeps (fair p) (delete_scores_for_run i p)"
  unfolding delete_scores_for_run_def by (rule fair_delete_scores) (simp add: of_run_def)

lemma fair_require [keeps_rules]: "keeps (fair p) (require_run i q)" "keeps (fair p) (require_monitor i q)"
  unfolding require_run_def require_monitor_def by (intro keeps_rules)+

text \<open>The methods that prepare a run.\<close>

lemma fair_resolve [keeps_rules]: "keeps (fair p) (resolve_trace_ids q f)" "keeps (fair p) (resolve_session_ids q f)"
  unfolding resolve_trace_ids_def resolve_session_ids_def by (rule fair.keeps_gets)+

lemma fair_failed [keeps_rules]:
  "keeps (fair p) (get_failed_scores_for_run i q)" "keeps (fair p) (get_failed_session_scores_for_run i q)"
  unfolding get_failed_scores_for_run_def get_failed_session_scores_for_run_def by (rule fair.keeps_gets)+

lemma fair_prepare:
  "keeps (fair p) (prepare_eval_run pick st now p metrics f rate model name)"
  "keeps (fair p) (prepare_batch_eval_run st now p ids metrics model name)"
  "keeps (fair p) (prepare_retry_failed_run now i p)"
  "keeps (fair p) (prepare_session_eval_run pick st now p metrics f rate model name weights)"
  "keeps (fair p) (prepare_batch_session_eval_run st now p sids metrics model name weights)"
  "keeps (fair p) (prepare_retry_failed_session_run st now i p)"
  unfolding prepare_eval_run_def prepare_batch_eval_run_def prepare_retry_failed_run_def prepare_session_eval_run_def
    prepare_batch_session_eval_run_def prepare_retry_failed_session_run_def Let_def
  by (intro keeps_rules)+

lemma require_monitor_ok:
  "require_monitor i p d = (Inr m, t) \<Longrightarrow> t = d \<and> m \<in> set (eval_monitors d) \<and> mo_id m = i \<and> mo_project_id m = p"
  by (auto simp: require_monitor_def get_monitor_row_def bindE_def to_monitor_def owns_monitor_def filter_eq_Cons_iff
      split: sum.splits option.splits if_splits dest!: scalar_one_or_none_SomeD)

text \<open>A triggered monitor is advanced by its identifier, which is unique.\<close>

lemma fair_advance:
  assumes "m \<in> set (eval_monitors d)" "mo_id m = i" "mo_project_id m = p" "(j, p) \<in> run_keys d"
  shows "fair p d (snd (advance_monitor now i now (Some j) nxt d))"
proof (cases "eval_wf d")
  case True
  have one: "x = m" if "x \<in> set (eval_monitors d)" "mo_id x = i" for x
    using True that assms(1,2) by (auto simp: eval_wf_def ids_ok_def distinct_map inj_on_def)
  have "fair p d (d\<lparr>eval_monitors := update_where (\<lambda>m. mo_id m = i) (\<lambda>m. m\<lparr>mo_last_run_at := Some now, mo_last_run_id := Some j,
      mo_updated_at := now, mo_next_run_at := coalesce nxt (mo_next_run_at m)\<rparr>) (eval_monitors d)\<rparr>)"
    using assms(3,4) one by (intro fair_update_monitors) (auto simp: opt_all_def)
  then show ?thesis by (simp add: advance_monitor_def fair.rel_refl)
qed (simp add: fair_def)

lemma add_run_ok:
  assumes "add_run now p name metrics f rate model monitor ts tmm d = (Inr r, t)"
  shows "eval_monitors t = eval_monitors d \<and> (er_id (pr_run r), p) \<in> run_keys t"
  using assms by (auto simp: add_run_def obs_new_id_def create_eval_run_def bindE_def Let_def pending_run_def run_keys_def split: if_splits)

lemma spawn_run_ok:
  assumes "spawn_run_for_monitor pick st now m d = (x, t)" "m \<in> set (eval_monitors d)" "mo_project_id m = p"
  shows "fair p d t \<and> (\<forall>r. x = Inr r \<longrightarrow> eval_monitors t = eval_monitors d \<and> (er_id (pr_run r), p) \<in> run_keys t)"
proof -
  have "opt_all (\<lambda>m. (m, p) \<in> monitor_keys d) (Some (mo_id m))" using assms(2,3) by (auto simp: monitor_keys_def opt_all_def)
  then have "fair p d (snd (monitor_run st now m ts d))" for ts unfolding monitor_run_def using fair_add_run assms(3) by blast
  moreover have "eval_monitors t = eval_monitors d \<and> (er_id (pr_run r), p) \<in> run_keys t" if "monitor_run st now m ts d = (Inr r, t)" for ts r
    using that assms(3) unfolding monitor_run_def by (auto dest: add_run_ok)
  moreover have "(\<exists>ts. spawn_run_for_monitor pick st now m d = monitor_run st now m ts d) \<or> (\<exists>e. spawn_run_for_monitor pick st now m d = (Inl e, d))"
    by (auto simp: spawn_run_for_monitor_def resolve_trace_ids_def resolve_session_ids_def)
  ultimately show ?thesis using assms(1) fair.rel_refl[of p d] by (metis Pair_inject snd_conv sum.distinct(1))
qed

lemma fair_trigger: "keeps (fair p) (prepare_trigger_monitor pick st cron now i p)"
proof (rule keepsI)
  fix d
  obtain x t where m: "require_monitor i p d = (x, t)" by fastforce
  have "fair p d t" using fair_require(2)[of p i p] m by (metis keepsD2)
  show "fair p d (snd (prepare_trigger_monitor pick st cron now i p d))"
  proof (cases x)
    case (Inl e)
    with m \<open>fair p d t\<close> show ?thesis by (simp add: prepare_trigger_monitor_def bindE_def)
  next
    case (Inr mo)
    with m have mo: "t = d" "mo \<in> set (eval_monitors d)" "mo_id mo = i" "mo_project_id mo = p" using require_monitor_ok by blast+
    obtain y u where s: "spawn_run_for_monitor pick st now mo d = (y, u)" by fastforce
    note ok = spawn_run_ok[OF s mo(2,4)]
    then have "fair p u (snd (advance_monitor now i now (Some (er_id (pr_run r))) nxt u))" if "y = Inr r" for r nxt
      using that mo by (intro fair_advance) auto
    then show ?thesis using m Inr mo(1) s ok fair.rel_trans
      by (auto simp: prepare_trigger_monitor_def bindE_def split: sum.splits prod.splits) (metis snd_conv)+
  qed
qed

section \<open>Sessions\<close>

text \<open>What a session sees and what is committed agree on the others.\<close>

definition in_step :: "uuid \<Rightarrow> 'x eworld \<Rightarrow> bool" where
  "in_step p w \<longleftrightarrow> eval_wf (ew_db w) \<and> eval_wf (ew_committed w) \<and> others p (ew_db w) = others p (ew_committed w)"

definition stays :: "uuid \<Rightarrow> 'x eworld \<Rightarrow> 'x eworld \<Rightarrow> bool" where
  "stays p w w' \<longleftrightarrow> (in_step p w \<longrightarrow> in_step p w' \<and> others p (ew_committed w') = others p (ew_committed w))"

interpretation stays: exec_preorder "stays p" for p
  by unfold_locales (auto simp: stays_def)

lemma stays_on_db [keeps_rules]: "keeps (fair p) m \<Longrightarrow> keeps (stays p) (on_db m)"
  by (fastforce simp: keeps_def on_db_def stays_def in_step_def fair_def split: prod.splits)

lemma stays_on_rest [keeps_rules]: "keeps (stays p) (on_rest m)"
  by (simp add: keeps_def on_rest_def stays_def in_step_def split: prod.splits)

lemma stays_commit [keeps_rules]: "keeps (stays p) commit_obs"
  by (simp add: keeps_def commit_obs_def stays_def in_step_def)

lemma stays_delete_eval_run [keeps_rules]: "keeps (stays p) (delete_eval_run i p b)"
  unfolding delete_eval_run_def by (intro keeps_rules)+

lemma stays_annotate [keeps_rules]: "keeps (stays p) (annotate_trace now p i name v dt src reason meta)"
  unfolding annotate_trace_def Let_def by (intro keeps_rules fair_create_score) simp_all

lemma stays_scores [keeps_rules]:
  "keeps (stays p) (update_score now i p v reason meta)" "keeps (stays p) (delete_score i p)" "keeps (stays p) (delete_session_score i p)"
  unfolding update_score_def delete_score_def delete_session_score_def by (intro keeps_rules)+

lemma fair_new_monitor:
  "mo_project_id (f (obs_next_id d)) = p \<Longrightarrow> mo_id (f (obs_next_id d)) = obs_next_id d \<Longrightarrow> mo_last_run_id (f (obs_next_id d)) = None \<Longrightarrow>
   fair p d (snd (bindE obs_new_id (\<lambda>i. bindE (create_monitor_row (f i)) (\<lambda>_. ret (f i))) d))"
  using fair_create_monitor[of "f (obs_next_id d)" p d]
  by (auto simp: obs_new_id_def bindE_def create_monitor_row_def fair.rel_refl split: prod.splits sum.splits)

lemma stays_create_monitor [keeps_rules]:
  "keeps (stays p) (create_monitor cron now p name tt metrics cadence f rate model only weights)"
  unfolding create_monitor_def Let_def
  by (intro keeps_rules keepsI[of "fair p" "bindE obs_new_id _"] fair_new_monitor) simp_all

lemma stays_monitors [keeps_rules]:
  "keeps (stays p) (update_monitor cron now i p patch)" "keeps (stays p) (delete_monitor i p)"
  "keeps (stays p) (pause_monitor now i p)" "keeps (stays p) (resume_monitor cron now i p)"
  unfolding update_monitor_def delete_monitor_def pause_monitor_def resume_monitor_def by (intro keeps_rules)+

lemma stays_start: "keeps (fair p) prepare \<Longrightarrow> keeps (stays p) (bindE (on_db prepare) (\<lambda>r.
     bindE (on_rest (check_and_increment now nonce org (usage_category_for (pr_targets r)) (int (billable r)))) (\<lambda>_.
     catchE (dispatch_run broker r)
       (\<lambda>e. bindE (on_rest (rollback_increment now nonce' org (usage_category_for (pr_targets r)) (int (billable r)))) (\<lambda>_. raise e)))))"
  unfolding dispatch_run_def by (intro keeps_rules)

lemma fair_lists [keeps_rules]:
  "keeps (fair p) (list_eval_runs q st tt lmt off)" "keeps (fair p) (get_scores_for_run i q)" "keeps (fair p) (list_scores q f lmt off)"
  "keeps (fair p) (get_latest_scores_for_trace i q)" "keeps (fair p) (get_session_scores_for_run i q)"
  "keeps (fair p) (list_session_scores q g lmt off)" "keeps (fair p) (get_session_scores_for_session sid q)"
  "keeps (fair p) (list_monitor_runs i q lmt off)"
  unfolding list_eval_runs_def get_scores_for_run_def list_scores_def get_latest_scores_for_trace_def get_scores_for_trace_def
    get_session_scores_for_run_def list_session_scores_def get_session_scores_for_session_def list_monitor_runs_def list_runs_for_monitor_def
  by (intro keeps_rules)+

lemmas route_defs = list_eval_runs_route_def get_eval_run_route_def delete_eval_run_route_def get_scores_for_run_route_def
  create_trace_score_route_def list_trace_scores_route_def get_scores_for_trace_route_def update_trace_score_route_def
  delete_trace_score_route_def list_session_eval_runs_route_def get_session_eval_run_route_def delete_session_eval_run_route_def
  get_session_scores_for_run_route_def list_session_scores_route_def get_scores_for_session_route_def delete_session_score_route_def
  create_monitor_route_def list_monitors_route_def get_monitor_route_def update_monitor_route_def delete_monitor_route_def
  pause_monitor_route_def resume_monitor_route_def list_monitor_runs_route_def

lemma stays_handle: "keeps (stays p) (handle_eval v org p ep)"
  by (cases ep) (simp_all add: handle_eval_def route_defs del: bindE_raise, (intro keeps_rules)+)

lemma session_stays:
  assumes "keeps (stays p) m" "request_session m w = (r, w')" "eval_wf (ew_committed w)"
  shows "eval_wf (ew_committed w') \<and> others p (ew_committed w') = others p (ew_committed w)"
proof -
  obtain x u where m: "m (w\<lparr>ew_db := ew_committed w\<rparr>) = (x, u)" by fastforce
  then have "stays p (w\<lparr>ew_db := ew_committed w\<rparr>) u" using assms(1) by (metis keepsD2)
  then have "in_step p u \<and> others p (ew_committed u) = others p (ew_committed w)" using assms(3) by (simp add: stays_def in_step_def)
  with assms(2) m show ?thesis by (auto simp: request_session_def in_step_def split: sum.splits)
qed

section \<open>Requests\<close>

lemma start_isolated:
  assumes "keeps (fair p) prepare" "start_route v org prepare w = (r, w')" "eval_wf (ew_committed w)"
  shows "eval_wf (ew_committed w') \<and> others p (ew_committed w') = others p (ew_committed w)"
proof -
  obtain x u where u: "start_run (rq_now v) (rq_nonce v) (rq_rollback_nonce v) (rq_broker v) org prepare w = (x, u)" by fastforce
  then have "eval_wf (ew_committed u) \<and> others p (ew_committed u) = others p (ew_committed w)"
    unfolding start_run_def using session_stays[OF stays_start[OF assms(1)] _ assms(3)] by blast
  moreover have "w' = u" using assms(2) u by (auto simp: start_route_def bindE_def split: sum.splits)
  ultimately show ?thesis by simp
qed

lemmas start_defs = create_eval_run_route_def create_batch_eval_run_route_def retry_failed_eval_run_route_def
  create_session_eval_run_route_def create_batch_session_eval_run_route_def retry_failed_session_eval_run_route_def trigger_monitor_route_def

text \<open>
  C9: Integrity of the evaluation tables between projects. A request of project \<open>p\<close> to any of the
  endpoints on runs, scores and monitors, whether it is answered or fails, leaves all traces and spans
  and the scores, runs and monitors of every other project exactly as they were, and keeps the tables
  of runs and monitors consistent: their identifiers stay unique, and the runs that scores and monitors
  refer to and the monitors that runs refer to exist in the same project. The reference of a score to
  its trace is not part of this: an annotation may name a trace of another project.
\<close>

theorem eval_requests_isolated:
  assumes "eval_wf (ew_committed w)" and "serve_eval v org p ep w = (r, w')"
  shows "eval_wf (ew_committed w') \<and> others p (ew_committed w') = others p (ew_committed w)"
proof -
  note started = fair_prepare[THEN start_isolated] fair_trigger[THEN start_isolated]
  note handled = session_stays[OF stays_handle _ assms(1)]
  show ?thesis
    using assms(2) by (cases ep) (simp_all add: serve_eval_def start_defs started[OF _ assms(1)] handled)
qed

text \<open>A run with a score in each of two projects.\<close>

definition two_runs :: "unit bworld eworld" where
  "two_runs = (let run = (\<lambda>i p. pending_run 3 i p None TRACE [''coherence''] empty_filters 1 None None 1);
       score = (\<lambda>i r p t. automated_score 4 i r p (sample_trace t p) ''coherence'' (Some ''0.5'') SUCCESS None []);
       d = sample_obs\<lparr>eval_runs := [run 50 1, run 60 2], trace_scores := [score 70 50 1 10, score 71 60 2 20]\<rparr>
     in \<lparr>ew_committed = d, ew_db = d, ew_rest = demo_world\<rparr>)"

definition demo_request :: request_env where
  "demo_request = \<lparr>rq_pick = (\<lambda>n k. [0..<k]), rq_settings = demo_llm_settings, rq_cron = demo_croniter, rq_now = 5, rq_nonce = 1,
     rq_rollback_nonce = 2, rq_broker = None\<rparr>"

theorem eval_requests_isolated_witness:
  "eval_wf (ew_committed two_runs) \<and> fst (serve_eval demo_request 10 1 (DeleteEvalRun 50 False) two_runs) = Inr EvalNoContent
   \<and> map er_id (eval_runs (ew_committed (snd (serve_eval demo_request 10 1 (DeleteEvalRun 50 False) two_runs)))) = [60]
   \<and> map ts_eval_run_id (trace_scores (ew_committed (snd (serve_eval demo_request 10 1 (DeleteEvalRun 50 False) two_runs)))) = [None, Some 60]
   \<and> others 1 (ew_committed (snd (serve_eval demo_request 10 1 (DeleteEvalRun 50 False) two_runs))) = others 1 (ew_committed two_runs)"
proof -
  let ?run = "serve_eval demo_request 10 1 (DeleteEvalRun 50 False) two_runs"
  have wf: "eval_wf (ew_committed two_runs)"
    "fst ?run = Inr EvalNoContent" "map er_id (eval_runs (ew_committed (snd ?run))) = [60]"
    "map ts_eval_run_id (trace_scores (ew_committed (snd ?run))) = [None, Some 60]"
    by code_simp+
  have "?run = (fst ?run, snd ?run)" by simp
  from eval_requests_isolated[OF wf(1) this] wf show ?thesis by blast
qed

end
