(* ===== verification/EvalAnalytics.thy ===== *)
theory EvalAnalytics
  imports Analytics EvalRepo
begin

text \<open>
  The analytics queries over scores of \<open>repositories/eval_repo.py\<close> and their endpoints in
  \<open>api/v1/routes/evaluations.py\<close>; the methods of \<open>services/eval_service.py\<close> between them only pass the
  arguments on. The queries over trace scores and over session scores have the same text on two tables.

  The theorems: histograms account for every score, and the leaderboard ranks each session once by
  its latest score.
\<close>

section \<open>Columns\<close>

record score_cells =
  sx_name :: string
  sx_value :: "string option"
  sx_data_type :: score_data_type
  sx_status :: score_status
  sx_created_at :: datetime

definition trace_cells :: "trace_score \<Rightarrow> score_cells" where
  "trace_cells s = \<lparr>sx_name = ts_name s, sx_value = ts_value s, sx_data_type = ts_data_type s, sx_status = ts_status s,
     sx_created_at = ts_created_at s\<rparr>"

definition session_cells :: "session_score \<Rightarrow> score_cells" where
  "session_cells s = \<lparr>sx_name = ss_name s, sx_value = ss_value s, sx_data_type = ss_data_type s, sx_status = ss_status s,
     sx_created_at = ss_created_at s\<rparr>"

text \<open>
  \<open>CAST(value AS FLOAT)\<close>. The database reads decimals as Python does, except for underscores between
  digits. The names of infinity and NaN, which it reads too, are values that
  \<open>validate_score_value\<close> admits to no numeric score; they fail here.
\<close>

definition cast_float :: "string \<Rightarrow> error + real" where
  "cast_float s = (if CHR ''_'' \<in> set s then Inl DataError else
     (case parse_float s of Some (Finite x) \<Rightarrow> Inr x | _ \<Rightarrow> Inl DataError))"

definition numeric_value :: "string option \<Rightarrow> error + real option" where
  "numeric_value v = (case v of None \<Rightarrow> Inr None | Some s \<Rightarrow> (case cast_float s of Inl e \<Rightarrow> Inl e | Inr x \<Rightarrow> Inr (Some x)))"

definition in_dates :: "datetime option \<Rightarrow> datetime option \<Rightarrow> score_cells \<Rightarrow> bool" where
  "in_dates from to s \<longleftrightarrow> opt_all (\<lambda>v. v \<le> sx_created_at s) from \<and> opt_all (\<lambda>v. sx_created_at s < v) to"

definition is_success :: "score_cells \<Rightarrow> bool" where
  "is_success s \<longleftrightarrow> sx_status s = SUCCESS"

definition is_numeric_success :: "score_cells \<Rightarrow> bool" where
  "is_numeric_success s \<longleftrightarrow> sx_data_type s = NUMERIC \<and> is_success s"

section \<open>Summary\<close>

record score_summary =
  sm_metric_name :: string
  sm_avg_score :: "real option"
  sm_min_score :: "real option"
  sm_max_score :: "real option"
  sm_median_score :: "real option"
  sm_success_count :: nat
  sm_failed_count :: nat
  sm_latest_score_at :: "datetime option"

definition summary_of :: "string \<Rightarrow> score_cells list \<Rightarrow> error + score_summary" where
  "summary_of name g =
     (case traverseE (\<lambda>s. numeric_value (sx_value s)) (filter is_numeric_success g) of Inl e \<Rightarrow> Inl e | Inr vs \<Rightarrow>
      let xs = somes vs in
      Inr \<lparr>sm_metric_name = name, sm_avg_score = sql_avg xs, sm_min_score = sql_min xs, sm_max_score = sql_max xs,
        sm_median_score = percentile_cont (1 / 2) xs, sm_success_count = length (filter is_success g),
        sm_failed_count = length (filter (\<lambda>s. sx_status s = score_status.FAILED) g),
        sm_latest_score_at = sql_max (map sx_created_at g)\<rparr>)"

definition score_summaries :: "datetime option \<Rightarrow> datetime option \<Rightarrow> score_cells list \<Rightarrow> error + score_summary list" where
  "score_summaries from to rows = traverseE (\<lambda>(name, g). summary_of name g) (groups_of sx_name (filter (in_dates from to) rows))"

definition trace_score_cells :: "uuid \<Rightarrow> obs_db \<Rightarrow> score_cells list" where
  "trace_score_cells project d = map trace_cells (filter (\<lambda>s. ts_project_id s = project) (trace_scores d))"

definition session_score_cells :: "uuid \<Rightarrow> obs_db \<Rightarrow> score_cells list" where
  "session_score_cells project d = map session_cells (filter (\<lambda>s. ss_project_id s = project) (session_scores d))"

definition get_score_summary :: "uuid \<Rightarrow> datetime option \<Rightarrow> datetime option \<Rightarrow> (error, obs_db, score_summary list) exec" where
  "get_score_summary project from to = (\<lambda>d. (score_summaries from to (trace_score_cells project d), d))"

definition get_session_score_summary :: "uuid \<Rightarrow> datetime option \<Rightarrow> datetime option \<Rightarrow> (error, obs_db, score_summary list) exec" where
  "get_session_score_summary project from to = (\<lambda>d. (score_summaries from to (session_score_cells project d), d))"

section \<open>Distribution\<close>

record score_bucket =
  hb_bucket :: nat
  hb_bucket_min :: real
  hb_bucket_max :: real
  hb_count :: nat

definition metric_rows :: "string \<Rightarrow> datetime option \<Rightarrow> datetime option \<Rightarrow> score_cells list \<Rightarrow> score_cells list" where
  "metric_rows name from to rows = filter (\<lambda>s. sx_name s = name \<and> is_numeric_success s \<and> in_dates from to s) rows"

definition bucket_row :: "nat \<Rightarrow> nat \<Rightarrow> nat \<Rightarrow> score_bucket" where
  "bucket_row buckets b n = (let step = 1 / of_nat buckets in
     \<lparr>hb_bucket = b, hb_bucket_min = round4 (max 0 ((of_nat b - 1) * step)), hb_bucket_max = round4 (min 1 (of_nat b * step)), hb_count = n\<rparr>)"

text \<open>A score without a value would form a group of its own, whose missing bucket number fails in the arithmetic.\<close>

definition score_distribution ::
    "string \<Rightarrow> datetime option \<Rightarrow> datetime option \<Rightarrow> nat \<Rightarrow> score_cells list \<Rightarrow> error + score_bucket list" where
  "score_distribution name from to buckets rows =
     (case traverseE (\<lambda>s. numeric_value (sx_value s)) (metric_rows name from to rows) of Inl e \<Rightarrow> Inl e | Inr vs \<Rightarrow>
      if None \<in> set vs then Inl TypeError else
      Inr (map (\<lambda>(b, g). bucket_row buckets b (length g)) (ordered_groups (\<lambda>x. width_bucket x buckets) (somes vs))))"

definition get_score_distribution ::
    "uuid \<Rightarrow> string \<Rightarrow> datetime option \<Rightarrow> datetime option \<Rightarrow> nat \<Rightarrow> (error, obs_db, score_bucket list) exec" where
  "get_score_distribution project name from to buckets = (\<lambda>d. (score_distribution name from to buckets (trace_score_cells project d), d))"

definition get_session_score_distribution ::
    "uuid \<Rightarrow> string \<Rightarrow> datetime option \<Rightarrow> datetime option \<Rightarrow> nat \<Rightarrow> (error, obs_db, score_bucket list) exec" where
  "get_session_score_distribution project name from to buckets =
     (\<lambda>d. (score_distribution name from to buckets (session_score_cells project d), d))"

section \<open>Trend\<close>

record score_trend =
  te_bucket :: datetime
  te_metric_name :: string
  te_avg_score :: real
  te_count :: nat

definition trend_of :: "string \<Rightarrow> datetime \<Rightarrow> score_cells list \<Rightarrow> error + score_trend" where
  "trend_of name k g = (case traverseE (\<lambda>s. numeric_value (sx_value s)) g of Inl e \<Rightarrow> Inl e | Inr vs \<Rightarrow>
     Inr \<lparr>te_bucket = k, te_metric_name = name, te_avg_score = (case sql_avg (somes vs) of None \<Rightarrow> 0 | Some a \<Rightarrow> a), te_count = length g\<rparr>)"

definition score_trends ::
    "string \<Rightarrow> datetime option \<Rightarrow> datetime option \<Rightarrow> analytics_granularity \<Rightarrow> score_cells list \<Rightarrow> error + score_trend list" where
  "score_trends name from to g rows =
     traverseE (\<lambda>(k, cells). trend_of name k cells) (ordered_groups (\<lambda>s. date_trunc g (sx_created_at s)) (metric_rows name from to rows))"

definition get_score_trend ::
    "uuid \<Rightarrow> string \<Rightarrow> datetime option \<Rightarrow> datetime option \<Rightarrow> analytics_granularity \<Rightarrow> (error, obs_db, score_trend list) exec" where
  "get_score_trend project name from to g = (\<lambda>d. (score_trends name from to g (trace_score_cells project d), d))"

definition get_session_score_trend ::
    "uuid \<Rightarrow> string \<Rightarrow> datetime option \<Rightarrow> datetime option \<Rightarrow> analytics_granularity \<Rightarrow> (error, obs_db, score_trend list) exec" where
  "get_session_score_trend project name from to g = (\<lambda>d. (score_trends name from to g (session_score_cells project d), d))"

section \<open>History and comparison\<close>

record history_item =
  hi_metric_name :: string
  hi_score :: "real option"
  hi_eval_run_id :: "uuid option"
  hi_created_at :: datetime
  hi_status :: score_status

text \<open>The cast belongs to the scan, so it fails for a text beyond the limit too.\<close>

definition history_item_of :: "session_score \<Rightarrow> error + history_item" where
  "history_item_of s = (case numeric_value (ss_value s) of Inl e \<Rightarrow> Inl e | Inr v \<Rightarrow>
     Inr \<lparr>hi_metric_name = ss_name s, hi_score = v, hi_eval_run_id = ss_eval_run_id s, hi_created_at = ss_created_at s, hi_status = ss_status s\<rparr>)"

definition get_session_score_history ::
    "uuid \<Rightarrow> string \<Rightarrow> string option \<Rightarrow> nat \<Rightarrow> (error, obs_db, history_item list) exec" where
  "get_session_score_history project sid name lmt =
     bindE (\<lambda>d. (traverseE history_item_of
        (filter (\<lambda>s. ss_project_id s = project \<and> ss_session_id s = sid \<and> ss_data_type s = NUMERIC \<and> opt_all (\<lambda>v. ss_name s = v) name)
          (session_scores d)), d)) (\<lambda>items.
     ret (take lmt (sort_key hi_created_at items)))"

record comparison_item =
  ci_session_id :: string
  ci_score :: "real option"
  ci_evaluated_at :: datetime
  ci_eval_run_id :: "uuid option"

definition comparison_item_of :: "session_score \<Rightarrow> error + comparison_item" where
  "comparison_item_of s = (case numeric_value (ss_value s) of Inl e \<Rightarrow> Inl e | Inr v \<Rightarrow>
     Inr \<lparr>ci_session_id = ss_session_id s, ci_score = v, ci_evaluated_at = ss_created_at s, ci_eval_run_id = ss_eval_run_id s\<rparr>)"

text \<open>\<open>DISTINCT ON (session_id) \<dots> ORDER BY session_id, created_at DESC\<close>.\<close>

definition latest_per_session :: "comparison_item list \<Rightarrow> comparison_item list" where
  "latest_per_session items =
     concat (map (\<lambda>(sid, g). take 1 (newest_first ci_evaluated_at g)) (ordered_groups ci_session_id items))"

text \<open>\<open>ORDER BY score NULLS LAST, session_id\<close>, on rows in the order of their sessions.\<close>

definition by_score :: "bool \<Rightarrow> comparison_item list \<Rightarrow> comparison_item list" where
  "by_score asc items = sort_key (\<lambda>c. (if asc then 1 else -1) * the (ci_score c)) (filter (\<lambda>c. ci_score c \<noteq> None) items)
     @ filter (\<lambda>c. ci_score c = None) items"

definition get_session_score_comparison ::
    "uuid \<Rightarrow> string \<Rightarrow> string \<Rightarrow> nat \<Rightarrow> nat \<Rightarrow> (error, obs_db, comparison_item list \<times> nat) exec" where
  "get_session_score_comparison project name sort_order lmt off =
     bindE (\<lambda>d. (traverseE comparison_item_of
        (filter (\<lambda>s. ss_project_id s = project \<and> ss_name s = name \<and> ss_data_type s = NUMERIC \<and> ss_status s = SUCCESS) (session_scores d)), d)) (\<lambda>items.
     let latest = latest_per_session items in
     ret (page off lmt (by_score (sort_order = ''asc'') latest), length latest))"

section \<open>Endpoints\<close>

datatype score_analytics =
    ScoreSummaries "score_summary list"
  | ScoreTrends "score_trend list"
  | ScoreBuckets "score_bucket list"
  | ScoreHistory "history_item list"
  | ScoreComparison "comparison_item list" nat

definition trace_score_summary_route :: "uuid \<Rightarrow> datetime option \<Rightarrow> datetime option \<Rightarrow> (error, obs_db, score_analytics) exec" where
  "trace_score_summary_route project from to = bindE (get_score_summary project from to) (\<lambda>x. ret (ScoreSummaries x))"

definition trace_score_trend_route ::
    "uuid \<Rightarrow> string \<Rightarrow> datetime option \<Rightarrow> datetime option \<Rightarrow> analytics_granularity \<Rightarrow> (error, obs_db, score_analytics) exec" where
  "trace_score_trend_route project name from to g = bindE (get_score_trend project name from to g) (\<lambda>x. ret (ScoreTrends x))"

definition trace_score_distribution_route ::
    "uuid \<Rightarrow> string \<Rightarrow> datetime option \<Rightarrow> datetime option \<Rightarrow> nat \<Rightarrow> (error, obs_db, score_analytics) exec" where
  "trace_score_distribution_route project name from to buckets =
     bindE (get_score_distribution project name from to buckets) (\<lambda>x. ret (ScoreBuckets x))"

definition session_score_summary_route :: "uuid \<Rightarrow> datetime option \<Rightarrow> datetime option \<Rightarrow> (error, obs_db, score_analytics) exec" where
  "session_score_summary_route project from to = bindE (get_session_score_summary project from to) (\<lambda>x. ret (ScoreSummaries x))"

definition session_score_trend_route ::
    "uuid \<Rightarrow> string \<Rightarrow> datetime option \<Rightarrow> datetime option \<Rightarrow> analytics_granularity \<Rightarrow> (error, obs_db, score_analytics) exec" where
  "session_score_trend_route project name from to g = bindE (get_session_score_trend project name from to g) (\<lambda>x. ret (ScoreTrends x))"

definition session_score_distribution_route ::
    "uuid \<Rightarrow> string \<Rightarrow> datetime option \<Rightarrow> datetime option \<Rightarrow> nat \<Rightarrow> (error, obs_db, score_analytics) exec" where
  "session_score_distribution_route project name from to buckets =
     bindE (get_session_score_distribution project name from to buckets) (\<lambda>x. ret (ScoreBuckets x))"

definition session_score_history_route :: "uuid \<Rightarrow> string \<Rightarrow> string option \<Rightarrow> nat \<Rightarrow> (error, obs_db, score_analytics) exec" where
  "session_score_history_route project sid name lmt = bindE (get_session_score_history project sid name lmt) (\<lambda>x. ret (ScoreHistory x))"

definition session_score_comparison_route ::
    "uuid \<Rightarrow> string \<Rightarrow> string \<Rightarrow> nat \<Rightarrow> nat \<Rightarrow> (error, obs_db, score_analytics) exec" where
  "session_score_comparison_route project name sort_order lmt off =
     bindE (get_session_score_comparison project name sort_order lmt off) (\<lambda>(items, total). ret (ScoreComparison items total))"

section \<open>Histograms\<close>

lemma traverse_total: "list_all (\<lambda>x. f x = Inr (h x)) xs \<Longrightarrow> traverseE f xs = Inr (map h xs)"
  by (induction xs) simp_all

definition score_of :: "score_cells \<Rightarrow> real" where
  "score_of s = (case sx_value s of None \<Rightarrow> 0 | Some v \<Rightarrow> (case cast_float v of Inl e \<Rightarrow> 0 | Inr x \<Rightarrow> x))"

text \<open>A value that the API accepts for a numeric score and the database can read.\<close>

definition stored_number :: "score_cells \<Rightarrow> bool" where
  "stored_number s = (case sx_value s of None \<Rightarrow> False | Some v \<Rightarrow> validate_score_value v NUMERIC = Inr () \<and> CHR ''_'' \<notin> set v)"

lemma stored_number_value:
  "stored_number s \<Longrightarrow> numeric_value (sx_value s) = Inr (Some (score_of s)) \<and> 0 \<le> score_of s \<and> score_of s \<le> 1"
  by (auto simp: stored_number_def numeric_value_def score_of_def cast_float_def validate_score_value_def
      split: option.splits float_value.splits if_splits)

lemma somes_map_Some [simp]: "somes (map (\<lambda>x. Some (f x)) xs) = map f xs"
  by (induction xs) (simp_all add: somes_def)

lemma histogram_run:
  assumes "list_all stored_number (metric_rows name from to rows)"
  shows "score_distribution name from to n rows =
    Inr (map (\<lambda>(b, g). bucket_row n b (length g)) (ordered_groups (\<lambda>x. width_bucket x n) (map score_of (metric_rows name from to rows))))"
proof -
  have "traverseE (\<lambda>s. numeric_value (sx_value s)) (metric_rows name from to rows) =
      Inr (map (\<lambda>s. Some (score_of s)) (metric_rows name from to rows))"
    by (rule traverse_total) (use assms stored_number_value in \<open>auto simp: list_all_iff\<close>)
  then show ?thesis by (auto simp: score_distribution_def)
qed

text \<open>The scores of a bucket are those between its bounds; the last bucket holds the perfect scores.\<close>

lemma bucket_iff:
  assumes "0 \<le> x" "x \<le> 1" "0 < n" "1 \<le> b"
  shows "width_bucket x n = b \<longleftrightarrow> (of_nat b - 1) / of_nat n \<le> x \<and> x < of_nat b / of_nat n"
proof
  assume b: "(of_nat b - 1) / of_nat n \<le> x \<and> x < of_nat b / of_nat n"
  note w = width_bucket_bounds[OF assms(1-3)]
  have "(real (width_bucket x n) - 1) / n < b / n" "(real b - 1) / n < real (width_bucket x n) / n" using b w by linarith+
  then have "real (width_bucket x n) < real b + 1" "real b < real (width_bucket x n) + 1" using assms(3) by (simp_all add: divide_less_cancel)
  then show "width_bucket x n = b" by linarith
qed (use width_bucket_bounds[OF assms(1-3)] in auto)

lemma histogram_bucket:
  assumes "list_all (\<lambda>x. 0 \<le> x \<and> x \<le> 1) xs" "0 < n" "(b, g) \<in> set (ordered_groups (\<lambda>x. width_bucket x n) xs)"
  shows "1 \<le> b \<and> b \<le> n + 1 \<and> 0 < length g
    \<and> length g = length (filter (\<lambda>x. (of_nat b - 1) / of_nat n \<le> x \<and> x < of_nat b / of_nat n) xs)
    \<and> (b = n + 1 \<longrightarrow> 1 \<in> set xs)"
proof -
  from assms(3) obtain x where x: "x \<in> set xs" "b = width_bucket x n" and g: "g = filter (\<lambda>x. width_bucket x n = b) xs"
    by (auto simp: in_groups)
  with assms(1) have unit: "0 \<le> x" "x \<le> 1" by (auto simp: list_all_iff)
  note w = width_bucket_bounds[OF unit assms(2), folded x(2)]
  have "x \<in> set g" using x g by simp
  then have "0 < length g" by (rule length_pos_if_in_set)
  moreover have "g = filter (\<lambda>x. (of_nat b - 1) / of_nat n \<le> x \<and> x < of_nat b / of_nat n) xs"
    unfolding g using assms(1,2) w by (intro filter_cong refl bucket_iff) (auto simp: list_all_iff)
  ultimately show ?thesis using w x(1) by auto
qed

lemma last_bucket:
  assumes "list_all (\<lambda>x. 0 \<le> x \<and> x \<le> 1) xs" "0 < n"
  shows "n + 1 \<in> fst ` set (ordered_groups (\<lambda>x. width_bucket x n) xs) \<longleftrightarrow> 1 \<in> set xs"
proof -
  have "width_bucket x n = n + 1 \<longleftrightarrow> x = 1" if "x \<in> set xs" for x
    using width_bucket_bounds[of x n] assms that by (auto simp: list_all_iff)
  moreover have "fst ` set (ordered_groups (\<lambda>x. width_bucket x n) xs) = (\<lambda>x. width_bucket x n) ` set xs"
    by (simp add: ordered_groups_def image_image)
  ultimately show ?thesis by force
qed

section \<open>The leaderboard\<close>

lemma newest_one:
  assumes "g \<noteq> []"
  shows "take 1 (newest_first f g) = [last (sort_key f g)]" "last (sort_key f g) \<in> set g" "\<forall>x \<in> set g. f x \<le> f (last (sort_key f g))"
proof -
  let ?s = "sort_key f g"
  have ne: "?s \<noteq> []" using assms by (metis length_0_conv length_sort)
  then obtain ys y where s: "?s = ys @ [y]" by (metis append_butlast_last_id)
  show "take 1 (newest_first f g) = [last ?s]" unfolding newest_first_def s by simp
  show "last ?s \<in> set g" using last_in_set[OF ne] unfolding set_sort .
  have "sorted (map f (ys @ [y]))" unfolding s[symmetric] by (rule sorted_sort_key)
  moreover have "set g = set (ys @ [y])" unfolding s[symmetric] set_sort ..
  ultimately show "\<forall>x \<in> set g. f x \<le> f (last ?s)" unfolding s by (auto simp: sorted_append)
qed

lemma latest_per_session_alt:
  "latest_per_session items = map (\<lambda>(sid, g). last (sort_key ci_evaluated_at g)) (ordered_groups ci_session_id items)"
proof -
  have one: "take 1 (newest_first ci_evaluated_at (snd x)) = [last (sort_key ci_evaluated_at (snd x))]"
    if "x \<in> set (ordered_groups ci_session_id items)" for x
  proof (rule newest_one(1))
    show "snd x \<noteq> []" using that in_groups(1)[of "fst x" "snd x" ci_session_id items] by (auto simp: filter_empty_conv)
  qed
  have "latest_per_session items = concat (map (\<lambda>x. [last (sort_key ci_evaluated_at (snd x))]) (ordered_groups ci_session_id items))"
    unfolding latest_per_session_def case_prod_beta by (simp only: one cong: map_cong)
  then show ?thesis by (simp add: case_prod_beta)
qed

lemma latest_in_group:
  assumes "(k, g) \<in> set (ordered_groups ci_session_id items)" "c = last (sort_key ci_evaluated_at g)"
  shows "c \<in> set items \<and> ci_session_id c = k \<and> (\<forall>x \<in> set items. ci_session_id x = k \<longrightarrow> ci_evaluated_at x \<le> ci_evaluated_at c)"
proof -
  from assms(1) have "g = filter (\<lambda>x. ci_session_id x = k) items" "g \<noteq> []" by (auto simp: in_groups filter_empty_conv)
  with newest_one(2,3)[of g ci_evaluated_at] show ?thesis unfolding assms(2) by auto
qed

lemma latest_sessions:
  "map ci_session_id (latest_per_session items) = sort (remdups (map ci_session_id items))"
proof -
  have "map ci_session_id (latest_per_session items) = map fst (ordered_groups ci_session_id items)"
    unfolding latest_per_session_alt map_map using latest_in_group by (intro map_cong refl) fastforce
  then show ?thesis by (simp add: ordered_groups_def comp_def)
qed

lemma latest_entry:
  assumes "c \<in> set (latest_per_session items)"
  shows "c \<in> set items \<and> (\<forall>x \<in> set items. ci_session_id x = ci_session_id c \<longrightarrow> ci_evaluated_at x \<le> ci_evaluated_at c)"
  using assms latest_in_group unfolding latest_per_session_alt by fastforce

lemma by_score_perm: "mset (by_score asc items) = mset items"
  by (simp add: by_score_def)

lemma by_score_same:
  "set (by_score asc items) = set items" "length (by_score asc items) = length items"
  by (rule mset_eq_setD[OF by_score_perm], rule mset_eq_length[OF by_score_perm])

lemma somes_all: "\<forall>c \<in> set cs. ci_score c \<noteq> None \<Longrightarrow> somes (map ci_score cs) = map (\<lambda>c. the (ci_score c)) cs"
  by (induction cs) (auto simp: somes_def)

lemma somes_none: "\<forall>c \<in> set cs. ci_score c = None \<Longrightarrow> somes (map ci_score cs) = []"
  by (induction cs) (auto simp: somes_def)

lemma somes_append: "somes (xs @ ys) = somes xs @ somes ys"
  by (simp add: somes_def)

lemma by_score_order:
  "sorted (map (\<lambda>x. (if asc then 1 else -1) * x) (somes (map ci_score (by_score asc items))))"
proof -
  let ?k = "\<lambda>c. (if asc then 1 else -1) * the (ci_score c)"
  let ?s = "sort_key ?k (filter (\<lambda>c. ci_score c \<noteq> None) items)"
  have "somes (map ci_score (by_score asc items)) = map (\<lambda>c. the (ci_score c)) ?s"
    unfolding by_score_def map_append somes_append
    by (subst somes_all, simp, subst somes_none, simp, rule append_Nil2)
  moreover have "sorted (map ?k ?s)" by (rule sorted_sort_key)
  ultimately show ?thesis by (simp only: map_map comp_def)
qed

section \<open>Properties\<close>

definition demo_number :: "uuid \<Rightarrow> string \<Rightarrow> trace_score" where
  "demo_number i v = \<lparr>ts_id = i, ts_trace_id = 20, ts_project_id = 1, ts_name = ''q'', ts_data_type = NUMERIC, ts_value = Some v,
     ts_source = ANNOTATION, ts_status = SUCCESS, ts_eval_run_id = None, ts_author_user_id = None, ts_reason = None,
     ts_environment = None, ts_config_id = None, ts_metadata = [], ts_created_at = int i, ts_updated_at = 0\<rparr>"

definition demo_rank :: "uuid \<Rightarrow> string \<Rightarrow> string \<Rightarrow> session_score" where
  "demo_rank i sid v = \<lparr>ss_id = i, ss_session_id = sid, ss_project_id = 1, ss_name = ''q'', ss_data_type = NUMERIC, ss_value = Some v,
     ss_source = ANNOTATION, ss_status = SUCCESS, ss_eval_run_id = None, ss_author_user_id = None, ss_reason = None,
     ss_environment = None, ss_config_id = None, ss_metadata = [], ss_created_at = int i, ss_updated_at = 0\<rparr>"

definition demo_scores :: obs_db where
  "demo_scores = \<lparr>trace_rows = [], span_rows = [], trace_scores = [demo_number 1 ''0.5'', demo_number 2 ''1'', demo_number 3 ''0.75''],
     session_scores = [demo_rank 1 ''a'' ''0.2'', demo_rank 2 ''b'' ''0.5'', demo_rank 3 ''a'' ''0.9''],
     eval_runs = [], eval_monitors = [], obs_projects = [1], obs_next_id = 30\<rparr>"

text \<open>The bounds that a bucket shows are its ideal bounds, the last one cut at one, rounded to four decimals.\<close>

lemma bucket_row_bounds:
  fixes n b k :: nat
  assumes "0 < n" "1 \<le> b" "b \<le> n + 1"
  shows "\<bar>hb_bucket_min (bucket_row n b k) - (of_nat b - 1) / of_nat n\<bar> \<le> 1 / 20000"
    "\<bar>hb_bucket_max (bucket_row n b k) - min 1 (of_nat b / of_nat n)\<bar> \<le> 1 / 20000"
    "0 \<le> hb_bucket_min (bucket_row n b k)" "hb_bucket_min (bucket_row n b k) \<le> hb_bucket_max (bucket_row n b k)"
    "hb_bucket_max (bucket_row n b k) \<le> 1"
proof -
  have low: "0 \<le> (real b - 1) / real n" using assms by simp
  have "(real b - 1) / real n \<le> 1" using assms by (simp add: divide_le_eq)
  moreover have "(real b - 1) / real n \<le> real b / real n" using assms by (simp add: divide_right_mono)
  ultimately have le: "(real b - 1) / real n \<le> min 1 (real b / real n)" by simp
  have row: "hb_bucket_min (bucket_row n b k) = round4 ((real b - 1) / real n)" "hb_bucket_max (bucket_row n b k) = round4 (min 1 (real b / real n))"
    using low by (simp_all add: bucket_row_def Let_def)
  show "\<bar>hb_bucket_min (bucket_row n b k) - (of_nat b - 1) / of_nat n\<bar> \<le> 1 / 20000"
    "\<bar>hb_bucket_max (bucket_row n b k) - min 1 (of_nat b / of_nat n)\<bar> \<le> 1 / 20000"
    unfolding row by (rule round4_close)+
  show "0 \<le> hb_bucket_min (bucket_row n b k)" "hb_bucket_min (bucket_row n b k) \<le> hb_bucket_max (bucket_row n b k)"
    "hb_bucket_max (bucket_row n b k) \<le> 1"
    unfolding row using round4_mono[OF low] round4_mono[OF le] round4_mono[of "min 1 (real b / real n)" 1] by simp_all
qed

text \<open>
  C20: The histogram of a metric accounts for every matching score exactly once, when the stored values
  are numbers the API accepts and the database reads. The buckets ascend, and bucket \<open>b\<close> of \<open>n\<close> counts
  the scores from \<open>(b - 1) / n\<close> up to but not including \<open>b / n\<close>. The bounds that it shows are these two,
  the upper one at most one, up to the rounding to four decimals, so that a score next to a shown bound
  may lie on its other side by at most 0.00005. The perfect scores form one bucket more than the request
  asked for.
\<close>

theorem histogram_accounts_for_scores:
  assumes "0 < n" "list_all stored_number (metric_rows name from to (trace_score_cells p d))"
  shows "\<exists>hs. get_score_distribution p name from to n d = (Inr hs, d)
    \<and> sorted (map hb_bucket hs) \<and> distinct (map hb_bucket hs)
    \<and> sum_list (map hb_count hs) = length (metric_rows name from to (trace_score_cells p d))
    \<and> list_all (\<lambda>h. 1 \<le> hb_bucket h \<and> hb_bucket h \<le> n + 1 \<and> 0 < hb_count h
        \<and> hb_count h = length (filter (\<lambda>s. (of_nat (hb_bucket h) - 1) / of_nat n \<le> score_of s \<and> score_of s < of_nat (hb_bucket h) / of_nat n)
            (metric_rows name from to (trace_score_cells p d)))) hs
    \<and> list_all (\<lambda>h. \<bar>hb_bucket_min h - (of_nat (hb_bucket h) - 1) / of_nat n\<bar> \<le> 1 / 20000
        \<and> \<bar>hb_bucket_max h - min 1 (of_nat (hb_bucket h) / of_nat n)\<bar> \<le> 1 / 20000
        \<and> 0 \<le> hb_bucket_min h \<and> hb_bucket_min h \<le> hb_bucket_max h \<and> hb_bucket_max h \<le> 1) hs
    \<and> (n + 1 \<in> set (map hb_bucket hs) \<longleftrightarrow> list_ex (\<lambda>s. score_of s = 1) (metric_rows name from to (trace_score_cells p d)))"
proof -
  let ?rows = "metric_rows name from to (trace_score_cells p d)"
  let ?groups = "ordered_groups (\<lambda>x. width_bucket x n) (map score_of ?rows)"
  let ?hs = "map (\<lambda>(b, g). bucket_row n b (length g)) ?groups"
  have keys: "map hb_bucket ?hs = map fst ?groups" and counts: "map hb_count ?hs = map (\<lambda>(k, g). length g) ?groups"
    by (auto simp: bucket_row_def Let_def)
  have unit: "list_all (\<lambda>x. 0 \<le> x \<and> x \<le> 1) (map score_of ?rows)"
    using assms(2) stored_number_value by (auto simp: list_all_iff)
  have "sum_list (map hb_count ?hs) = length ?rows" unfolding counts groups_complete by simp
  moreover have "list_all (\<lambda>h. 1 \<le> hb_bucket h \<and> hb_bucket h \<le> n + 1 \<and> 0 < hb_count h
        \<and> hb_count h = length (filter (\<lambda>s. (of_nat (hb_bucket h) - 1) / of_nat n \<le> score_of s \<and> score_of s < of_nat (hb_bucket h) / of_nat n) ?rows)) ?hs"
    unfolding list_all_iff
    using histogram_bucket[OF unit assms(1)] by (fastforce simp: bucket_row_def Let_def filter_map comp_def)
  moreover have "list_all (\<lambda>h. \<bar>hb_bucket_min h - (of_nat (hb_bucket h) - 1) / of_nat n\<bar> \<le> 1 / 20000
        \<and> \<bar>hb_bucket_max h - min 1 (of_nat (hb_bucket h) / of_nat n)\<bar> \<le> 1 / 20000
        \<and> 0 \<le> hb_bucket_min h \<and> hb_bucket_min h \<le> hb_bucket_max h \<and> hb_bucket_max h \<le> 1) ?hs"
    unfolding list_all_iff
  proof (intro ballI)
    fix h assume "h \<in> set ?hs"
    then obtain b g where bg: "(b, g) \<in> set ?groups" "h = bucket_row n b (length g)" by auto
    have "1 \<le> b" "b \<le> n + 1" "hb_bucket h = b" using histogram_bucket[OF unit assms(1) bg(1)] bg(2) by (simp_all add: bucket_row_def Let_def)
    then show "\<bar>hb_bucket_min h - (of_nat (hb_bucket h) - 1) / of_nat n\<bar> \<le> 1 / 20000
        \<and> \<bar>hb_bucket_max h - min 1 (of_nat (hb_bucket h) / of_nat n)\<bar> \<le> 1 / 20000
        \<and> 0 \<le> hb_bucket_min h \<and> hb_bucket_min h \<le> hb_bucket_max h \<and> hb_bucket_max h \<le> 1"
      using bucket_row_bounds[OF assms(1), of b "length g"] bg(2) by simp
  qed
  moreover have "n + 1 \<in> set (map hb_bucket ?hs) \<longleftrightarrow> list_ex (\<lambda>s. score_of s = 1) ?rows"
    unfolding keys set_map last_bucket[OF unit assms(1)] by (auto simp: list_ex_iff)
  moreover have "sorted (map hb_bucket ?hs) \<and> distinct (map hb_bucket ?hs)" unfolding keys by (rule ordered_groups_keys)
  ultimately show ?thesis
    unfolding get_score_distribution_def histogram_run[OF assms(2)] by blast
qed

theorem histogram_accounts_for_scores_witness:
  "\<exists>hs. get_score_distribution 1 ''q'' None None 2 demo_scores = (Inr hs, demo_scores) \<and> sum_list (map hb_count hs) = 3 \<and> 2 + 1 \<in> set (map hb_bucket hs)
     \<and> list_all (\<lambda>h. \<bar>hb_bucket_min h - (of_nat (hb_bucket h) - 1) / 2\<bar> \<le> 1 / 20000) hs"
proof -
  have "0 < (2 :: nat)" "list_all stored_number (metric_rows ''q'' None None (trace_score_cells 1 demo_scores))" by code_simp+
  moreover have "length (metric_rows ''q'' None None (trace_score_cells 1 demo_scores)) = 3"
    "list_ex (\<lambda>s. score_of s = 1) (metric_rows ''q'' None None (trace_score_cells 1 demo_scores))" by code_simp+
  ultimately show ?thesis
    using histogram_accounts_for_scores[of 2 "''q''" None None 1 demo_scores] by (auto simp: list_all_iff)
qed



text \<open>The average and the median of a summary lie between its least and its greatest score.\<close>

theorem summary_within_range:
  assumes "score_summaries from to rows = Inr ms" "m \<in> set ms" "sm_avg_score m = Some a"
  shows "\<exists>lo hi median. sm_min_score m = Some lo \<and> sm_max_score m = Some hi \<and> sm_median_score m = Some median
    \<and> lo \<le> a \<and> a \<le> hi \<and> lo \<le> median \<and> median \<le> hi"
proof -
  have "\<exists>x. f x = Inr y" if "traverseE f zs = Inr ys" "y \<in> set ys" for f :: "string \<times> score_cells list \<Rightarrow> error + score_summary" and zs ys y
    using that by (induction zs arbitrary: ys) (fastforce split: sum.splits)+
  from this[OF assms(1)[unfolded score_summaries_def] assms(2)] obtain name g where "summary_of name g = Inr m" by auto
  then obtain xs where
    m: "sm_avg_score m = sql_avg xs" "sm_min_score m = sql_min xs" "sm_max_score m = sql_max xs" "sm_median_score m = percentile_cont (1 / 2) xs"
    unfolding summary_of_def by (cases "traverseE (\<lambda>s. numeric_value (sx_value s)) (filter is_numeric_success g)") (auto simp: Let_def)
  with assms(3) have "xs \<noteq> []" and avg: "sql_avg xs = Some a" by (auto simp: sql_avg_def)
  then obtain lo hi median where v: "sql_min xs = Some lo" "sql_max xs = Some hi" "percentile_cont (1 / 2) xs = Some median"
    by (cases "sort xs"; cases "rev (sort xs)") (auto simp: sql_min_def sql_max_def percentile_cont_def dest: arg_cong[of _ _ length])
  with sql_min_max(1)[OF v(1)] sql_min_max(2)[OF v(2)] sql_avg_between[OF avg] percentile_mono[OF v(3) v(3)] show ?thesis
    unfolding m by (auto intro: order.trans)
qed

text \<open>
  Python's \<open>float\<close> takes underscores between digits, so a numeric score such as \<open>0_1\<close> is accepted and
  stored; the database's cast refuses it, and the summary of the project fails from then on.
\<close>

lemma numeric_value_error: "numeric_value v = Inl e \<Longrightarrow> e = DataError"
  by (auto simp: numeric_value_def cast_float_def split: option.splits sum.splits float_value.splits if_splits)

lemma traverse_error:
  assumes "x \<in> set xs" "isl (f x)" "\<And>y e. f y = Inl e \<Longrightarrow> e = err"
  shows "traverseE f xs = Inl err"
  using assms(1,2) by (induction xs) (auto split: sum.splits dest: assms(3) simp: isl_def)

lemma traverse_Inl: "traverseE f xs = Inl e \<Longrightarrow> \<exists>x \<in> set xs. f x = Inl e"
  by (induction xs) (auto split: sum.splits)

lemma summary_error: "summary_of k g = Inl e \<Longrightarrow> e = DataError"
  using traverse_Inl[of "\<lambda>s. numeric_value (sx_value s)" "filter is_numeric_success g"] numeric_value_error
  by (fastforce simp: summary_of_def Let_def split: sum.splits)

theorem underscore_breaks_summary:
  assumes "s \<in> set (trace_score_cells p d)" "is_numeric_success s" "sx_value s = Some v" "CHR ''_'' \<in> set v"
  shows "fst (get_score_summary p None None d) = Inl DataError \<and> validate_score_value ''0_1'' NUMERIC = Inr ()"
proof
  let ?rows = "filter (in_dates None None) (trace_score_cells p d)"
  have s: "s \<in> set ?rows" using assms(1) by (simp add: in_dates_def opt_all_def)
  have bad: "isl (numeric_value (sx_value s))" using assms by (simp add: numeric_value_def cast_float_def)
  have "summary_of (sx_name s) (filter (\<lambda>x. sx_name x = sx_name s) ?rows) = Inl DataError"
    using traverse_error[of s "filter is_numeric_success (filter (\<lambda>x. sx_name x = sx_name s) ?rows)" "\<lambda>s. numeric_value (sx_value s)" DataError,
        OF _ bad numeric_value_error] s assms(2) by (simp add: summary_of_def)
  moreover have "(sx_name s, filter (\<lambda>x. sx_name x = sx_name s) ?rows) \<in> set (groups_of sx_name ?rows)"
    unfolding in_groups using s by blast
  ultimately have "score_summaries None None (trace_score_cells p d) = Inl DataError"
    unfolding score_summaries_def by (intro traverse_error) (auto dest: summary_error)
  then show "fst (get_score_summary p None None d) = Inl DataError" by (simp add: get_score_summary_def)
  show "validate_score_value ''0_1'' NUMERIC = Inr ()" by code_simp
qed

end
