(* ===== verification/Spec2Isabelle.thy ===== *)
theory Spec2Isabelle
  imports BillingSystem BillingTasks Subscriptions CliLogin TraceIngestion TraceAnalytics EvalBilling EvalSessions EvalIsolation EvalAnalytics
begin

text \<open>
  A verification of the PandaProbe backend (\<open>src/backend/app\<close>), a service that receives the traces of
  language model applications, evaluates them and bills for both.

  \<^bold>\<open>The program.\<close> Requests reach the endpoints under \<open>api/v1/routes\<close> after \<open>api/dependencies.py\<close> has
  resolved a token or an API key to a user, an organization and a project. Endpoints call the
  services, services call the repositories within one database session, and work that takes
  longer is handed to Celery tasks (\<open>infrastructure/queue/tasks.py\<close>). Usage is counted in Redis per
  organization and billing period; overage is reserved in the database and delivered to Stripe;
  Stripe's events move the periods. Evaluation runs ask a language model to score traces and
  sessions; monitors start such runs on a schedule and are charged like requests.

  \<^bold>\<open>Conventions\<close> (\<open>Prelude\<close>, \<open>Errors\<close>). A computation is a function from a state to a result and a
  new state; the result is an exception of \<open>registry/exceptions.py\<close> (or of the language, the database
  driver or Stripe) or a value. A table is the list of its rows; the constraints of
  \<open>infrastructure/db/models.py\<close> are checked where the statement runs. A session is a pair of the
  committed and the visible tables. An instant is a number of microseconds, an identifier a number
  from a counter of the tables. What the code obtains from elsewhere is an argument: the clock, the
  tokens, SHA-256, Stripe's API, the verification of identity tokens and of webhook signatures,
  litellm, the prompt texts and response schemas of the judge, croniter and \<open>random.sample\<close>.

  \<^bold>\<open>Theories and sources.\<close>

  \<^item> \<open>Constants\<close>, \<open>Errors\<close>, \<open>Plans\<close>: \<open>registry/constants.py\<close>, \<open>registry/exceptions.py\<close>, \<open>core/billing\<close>.
  \<^item> \<open>RedisStore\<close>: the Redis commands with expiry and \<open>infrastructure/redis/locks.py\<close>; the locale
    \<open>owned_lock\<close> is what the lock scripts promise, interpreted on them.
  \<^item> \<open>UsageService\<close>: \<open>services/usage_service.py\<close>, with the Lua scripts; the locale \<open>meter\<close> is the
    contract of a counter with a limit and refunds, interpreted on the scripts.
  \<^item> \<open>BillingRepo\<close>, \<open>BillingReporting\<close>, \<open>BillingService\<close>, \<open>Webhooks\<close>, \<open>BillingTasks\<close>: the two billing
    repositories, \<open>services/billing_reporting_service.py\<close>, \<open>services/billing_service.py\<close>,
    \<open>api/v1/routes/webhooks.py\<close> and the billing tasks of \<open>tasks.py\<close>.
  \<^item> \<open>BillingLedger\<close>, \<open>BillingDelivery\<close>, \<open>BillingHandlers\<close>, \<open>BillingSystem\<close>: what these promise.
  \<^item> \<open>IdentityRepo\<close>, \<open>IdentityService\<close>, \<open>IdentityRoutes\<close>: the identity, invitation, project and user
    repositories, \<open>services/identity_service.py\<close>, \<open>api/dependencies.py\<close> and the routers of
    organizations, projects, API keys and users.
  \<^item> \<open>Subscriptions\<close>: \<open>api/v1/routes/subscriptions.py\<close> and what its endpoints promise.
  \<^item> \<open>CliAuth\<close>, \<open>CliLogin\<close>: \<open>services/cli_service.py\<close> and \<open>api/v1/routes/cli.py\<close>, the login of the
    command line client by a code held in Redis, and what it promises.
  \<^item> \<open>IdentityInv\<close>, \<open>IdentityAccess\<close>, \<open>IdentitySeats\<close>, \<open>IdentityProperties\<close>: what these promise.
  \<^item> \<open>LlmEngine\<close>: \<open>infrastructure/llm\<close>, with the embedding cache.
  \<^item> \<open>Traces\<close>, \<open>TraceRepo\<close>, \<open>TraceQueries\<close>, \<open>TraceService\<close>: \<open>core/traces\<close>, \<open>repositories/trace_repo.py\<close>,
    \<open>services/trace_service.py\<close>, the routers of traces and sessions and the ingestion task.
  \<^item> \<open>TraceIsolation\<close>, \<open>TraceIngestion\<close>: what these promise.
  \<^item> \<open>Analytics\<close>, \<open>TraceAnalytics\<close>, \<open>EvalAnalytics\<close>: the SQL aggregates, the analytics queries of
    \<open>trace_repo.py\<close> and \<open>eval_repo.py\<close> with their endpoints, and what they promise.
  \<^item> \<open>EvalMetrics\<close>, \<open>EvalEntities\<close>, \<open>EvalRepo\<close>, \<open>EvalService\<close>, \<open>EvalTasks\<close>,
    \<open>EvalRoutes\<close>: \<open>core/evals\<close>, \<open>repositories/eval_repo.py\<close>, \<open>services/eval_service.py\<close>, the
    evaluation tasks and the endpoints of \<open>api/v1/routes/evaluations.py\<close>.
  \<^item> \<open>EvalScores\<close>, \<open>EvalRuns\<close>, \<open>EvalSessions\<close>, \<open>EvalMonitors\<close>, \<open>EvalBilling\<close>,
    \<open>EvalIsolation\<close>: what these promise.

  \<^bold>\<open>What is shown.\<close>

  \<^item> Billing. \<open>BillingSystem\<close> is a transition system of staging, delivery iterations, crashes between a
    Stripe call and its commit, and time; by rule induction every reserved charge exists at most once
    at Stripe and every unit is covered by at most one charge. Delivery ends, watermarks never
    pass unresolved usage, a failed renewal commits nothing (or all, when only the release of its lock
    failed), the period of a running subscription never moves back, an event that was processed within its
    claim is not processed again, and the tables keep their invariant under every sequence of whole requests
    and tasks.
    The subscription endpoints answer members from the data of their organization, let owners and admins
    reach Stripe, and estimate the costs within two cents of what the next report charges.
  \<^item> Usage. No sequence of checks and refunds passes the limit; a refund undoes a charge; the locks
    exclude each other.
  \<^item> Identity. The endpoints implement an abstract machine of roles (\<open>IdentityAccess\<close>), organizations
    keep an owner, seats stay within the plan, invitations are decided once, keys authenticate. A
    code of the command line login is redeemed at most once under every interleaving of logins and
    exchanges, and the key it yields authenticates as the user who created the code.
  \<^item> Traces. Requests and ingested traces of one project neither change nor reveal the traces of another,
    as long as the identifiers they send are not in use there; an ingested new trace is read back; a message
    that is delivered twice changes at most the form of the tags; the search by name finds exactly the names
    that contain the text.
  \<^item> Evaluation. Scores lie between 0 and 1 and survive storage; the tail risk is the worst mean of its
    size; the embedding cache is transparent for batches that fit and a single model; a run commits one score
    for each target and metric whatever the model answers; a tick gives each due monitor a later instant and
    queues it at most once, and all of them when the queue takes the messages; what is billed is what is
    scored or names a trace that does not exist; requests of one project leave the runs, scores and monitors
    of the others alone.
  \<^item> Analytics. The buckets of traces and the histograms of scores count every row once, within the
    bounds of its bucket up to the rounding of what is shown; the comparison of sessions ranks each session once by its latest score.

  \<open>exec_preorder\<close> (\<open>Prelude\<close>) carries most of the proofs about whole handlers: a reflexive and
  transitive relation between states that every primitive respects is respected by every
  computation composed of them. It is interpreted for the invariant of the billing tables, for
  periods, for the uncommitted part of a session, for lawful role changes, for seats and for isolation.

  \<^bold>\<open>Bounds.\<close> The loop of \<open>deliver\<close> runs on a counter of 13 iterations; \<open>deliver_returns\<close> shows that it
  never runs out, since three categories leave at most twelve iterations of work. \<open>retry_call\<close> makes
  the \<open>MAX_RETRIES\<close> = 3 attempts of the source. Every other loop is a recursion over a list.

  \<^bold>\<open>Hypotheses about code outside the repository.\<close> \<open>stripe_contract\<close>: Stripe answers a request with a
  known idempotency key within a day with the first answer and makes no second charge, and lists
  the items it has. \<open>validated_cadence_schedules\<close> and the tick: the next instant croniter returns lies
  in the future. \<open>embedding_cache_transparent\<close>: the service embeds a text as a function of it, one model is
  in use and the hashes of the texts in use differ.

  \<^bold>\<open>Limits of the model.\<close> Requests and tasks are whole steps, except in \<open>BillingSystem\<close>, whose steps are
  the transactions of a delivery with crashes in between, and in \<open>CliLogin\<close>, whose steps are Redis commands.
  Where steps are whole, two of them do not overlap, and the row locks of the code (\<open>FOR UPDATE\<close>, with
  \<open>SKIP LOCKED\<close> in \<open>lock_report\<close>) are plain reads. A handler runs at one instant; a webhook request has a
  second one for its end, so that its claim may expire meanwhile. That the lock of the scheduler's tick expires
  after 60 seconds is outside the model: a tick is told whether it has the lock. Of the failures of Redis only
  those of releasing the overage lock and of taking the lock of the tick are modelled; a commit does not fail;
  the queue may
  refuse the message of a trace, of a run or of a due monitor, but not those of the billing dispatchers. Characters have eight bits, and \<open>lower\<close>
  maps the letters of Latin-1. Floating point numbers are reals and Decimals rationals; a NaN, which
  \<open>json.loads\<close> would accept in an answer of the judge, does not exist here.

  \<^bold>\<open>Not modelled.\<close> Celery's soft time limit, logging, mail, CRM and
  product analytics have no counterpart, because nothing of the program reads their effect. Body
  parsing, rate limits and response formatting belong to the framework. The listings of
  metrics and providers, which read class attributes and the environment, are left out. The prompt
  texts are arguments of the metrics. Other parts of the repository are configuration, migrations,
  documentation and the web client.
\<close>

end
